(* ===== verification/PyStrings.thy ===== *)
theory PyStrings
  imports Prelude
begin

text \<open>
  The Python string methods the modelled code calls: \<^verbatim>\<open>upper\<close>, \<^verbatim>\<open>lower\<close>, \<^verbatim>\<open>split\<close> on one character,
  \<^verbatim>\<open>join\<close>, \<^verbatim>\<open>partition\<close>, \<^verbatim>\<open>replace\<close>, \<^verbatim>\<open>strip\<close>, \<^verbatim>\<open>startswith\<close> and decimal \<^verbatim>\<open>str\<close>, with the facts
  about them that the components share.
\<close>

section \<open>Case\<close>

text \<open>
  A lower-case letter is a character \<open>0x61\<close> to \<open>0x7A\<close>, an upper-case one \<open>0x41\<close> to \<open>0x5A\<close>: the same five
  low bits, between 1 and 26, under different high bits.
\<close>

definition letter_bits :: "bool \<Rightarrow> bool \<Rightarrow> bool \<Rightarrow> bool \<Rightarrow> bool \<Rightarrow> bool" where
  "letter_bits b0 b1 b2 b3 b4 \<longleftrightarrow>
     (b0 \<or> b1 \<or> b2 \<or> b3 \<or> b4) \<and> \<not> (b4 \<and> b3 \<and> (b2 \<or> (b1 \<and> b0)))"

fun upper_char :: "char \<Rightarrow> char" where
  "upper_char (Char b0 b1 b2 b3 b4 b5 b6 b7) =
     (if \<not> b7 \<and> b6 \<and> b5 \<and> letter_bits b0 b1 b2 b3 b4
      then Char b0 b1 b2 b3 b4 False b6 b7 else Char b0 b1 b2 b3 b4 b5 b6 b7)"

fun lower_char :: "char \<Rightarrow> char" where
  "lower_char (Char b0 b1 b2 b3 b4 b5 b6 b7) =
     (if \<not> b7 \<and> b6 \<and> \<not> b5 \<and> letter_bits b0 b1 b2 b3 b4
      then Char b0 b1 b2 b3 b4 True b6 b7 else Char b0 b1 b2 b3 b4 b5 b6 b7)"

lemma upper_char_idem [simp]: "upper_char (upper_char c) = upper_char c"
  by (cases c) (simp add: letter_bits_def)

lemma lower_upper_char: "lower_char (upper_char (lower_char c)) = lower_char c"
  by (cases c) (simp add: letter_bits_def)

lemma upper_char_letters:
  "map upper_char ''abcdefghijklmnopqrstuvwxyz'' = ''ABCDEFGHIJKLMNOPQRSTUVWXYZ''"
  by (simp add: letter_bits_def)

definition py_upper :: "string \<Rightarrow> string" where
  "py_upper s = map upper_char s"

definition py_lower :: "string \<Rightarrow> string" where
  "py_lower s = map lower_char s"

text \<open>A string that upper-casing leaves alone.\<close>

definition is_upper_case :: "string \<Rightarrow> bool" where
  "is_upper_case s \<longleftrightarrow> py_upper s = s"

lemma py_upper_append [simp]: "py_upper (s @ t) = py_upper s @ py_upper t"
  by (simp add: py_upper_def)

lemma py_upper_idem [simp]: "py_upper (py_upper s) = py_upper s"
  by (simp add: py_upper_def)

lemma py_upper_Nil [simp]: "py_upper [] = []"
  by (simp add: py_upper_def)

lemma upper_case_append: "is_upper_case (s @ t) \<longleftrightarrow> is_upper_case s \<and> is_upper_case t"
  by (simp add: is_upper_case_def) (simp add: py_upper_def)

section \<open>Prefixes, suffixes, searching\<close>

definition py_startswith :: "string \<Rightarrow> string \<Rightarrow> bool" where
  "py_startswith s p \<longleftrightarrow> take (length p) s = p"

definition py_endswith :: "string \<Rightarrow> string \<Rightarrow> bool" where
  "py_endswith s p \<longleftrightarrow> length p \<le> length s \<and> drop (length s - length p) s = p"

fun py_in :: "string \<Rightarrow> string \<Rightarrow> bool" where
  "py_in p [] = (p = [])"
| "py_in p (c # s) = (py_startswith (c # s) p \<or> py_in p s)"

lemma startswith_append [simp]: "py_startswith (p @ s) p"
  by (simp add: py_startswith_def)

lemma startswith_iff: "py_startswith s p \<longleftrightarrow> (\<exists>t. s = p @ t)"
  unfolding py_startswith_def by (metis append_eq_conv_conj append_take_drop_id)

section \<open>Splitting and joining\<close>

fun split_char :: "char \<Rightarrow> string \<Rightarrow> string list" where
  "split_char c [] = [[]]"
| "split_char c (x # xs) =
     (if x = c then [] # split_char c xs
      else (case split_char c xs of [] \<Rightarrow> [[x]] | y # ys \<Rightarrow> (x # y) # ys))"

fun py_join :: "string \<Rightarrow> string list \<Rightarrow> string" where
  "py_join sep [] = []"
| "py_join sep [x] = x"
| "py_join sep (x # y # ys) = x @ sep @ py_join sep (y # ys)"

lemma split_char_nonempty [simp]: "split_char c s \<noteq> []"
  by (induction s) (auto split: list.splits)

lemma split_char_no_sep: "c \<notin> set s \<Longrightarrow> split_char c s = [s]"
  by (induction s) auto

lemma split_char_append_sep:
  "c \<notin> set s \<Longrightarrow> split_char c (s @ c # t) = s # split_char c t"
  by (induction s) auto

lemma split_char_pieces: "p \<in> set (split_char c s) \<Longrightarrow> c \<notin> set p"
proof (induction s arbitrary: p)
  case (Cons x xs)
  then show ?case
    by (cases "split_char c xs") (auto split: if_splits)
qed simp

lemma join_split_char: "py_join [c] (split_char c s) = s"
proof (induction s)
  case (Cons x xs)
  obtain y ys where y: "split_char c xs = y # ys"
    by (meson list.exhaust split_char_nonempty)
  show ?case using Cons y by (cases ys) auto
qed simp

lemma split_char_join:
  "xs \<noteq> [] \<Longrightarrow> \<forall>x\<in>set xs. c \<notin> set x \<Longrightarrow> split_char c (py_join [c] xs) = xs"
  by (induction "[c]" xs rule: py_join.induct) (auto simp: split_char_no_sep split_char_append_sep)

lemma split_char_append_join:
  "c \<notin> set s \<Longrightarrow> xs \<noteq> [] \<Longrightarrow> \<forall>x\<in>set xs. c \<notin> set x \<Longrightarrow>
   split_char c (s @ c # py_join [c] xs) = s # xs"
  by (simp add: split_char_append_sep split_char_join)

lemma set_py_join: "set (py_join sep xs) \<subseteq> set sep \<union> \<Union> (set ` set xs)"
  by (induction sep xs rule: py_join.induct) auto

lemma py_join_upper: "py_upper (py_join sep xs) = py_join (py_upper sep) (map py_upper xs)"
  by (induction sep xs rule: py_join.induct) auto

lemma py_join_Cons: "xs \<noteq> [] \<Longrightarrow> py_join sep (x # xs) = x @ sep @ py_join sep xs"
  by (cases xs) auto

text \<open>\<^verbatim>\<open>s.partition("//")\<close>: the text before the first separator and the text after it.\<close>

fun partition2 :: "char \<Rightarrow> char \<Rightarrow> string \<Rightarrow> string \<times> string" where
  "partition2 a b [] = ([], [])"
| "partition2 a b [x] = ([x], [])"
| "partition2 a b (x # y # s) =
     (if x = a \<and> y = b then ([], s)
      else (case partition2 a b (y # s) of (p, q) \<Rightarrow> (x # p, q)))"

lemma partition2_no_sep: "a \<notin> set s \<Longrightarrow> partition2 a b s = (s, [])"
  by (induction a b s rule: partition2.induct) auto

lemma partition2_sep: "a \<notin> set s \<Longrightarrow> partition2 a b (s @ a # b # t) = (s, t)"
proof (induction s)
  case (Cons x s)
  then show ?case by (cases s) auto
qed simp

text \<open>\<^verbatim>\<open>s.split(sep)\<close> for a separator of any positive length.\<close>

function split_sub :: "string \<Rightarrow> string \<Rightarrow> string \<Rightarrow> string list" where
  "split_sub sep acc [] = [rev acc]"
| "split_sub sep acc (c # s) =
     (if sep \<noteq> [] \<and> py_startswith (c # s) sep
      then rev acc # split_sub sep [] (drop (length sep) (c # s))
      else split_sub sep (c # acc) s)"
  by pat_completeness auto
termination
  by (relation "measure (\<lambda>(sep, acc, s). length s)") auto

definition py_split :: "string \<Rightarrow> string \<Rightarrow> string list" where
  "py_split sep s = split_sub sep [] s"

lemma split_sub_no_sep:
  "c \<notin> set s \<Longrightarrow> split_sub (c # sep) acc s = [rev acc @ s]"
  by (induction s arbitrary: acc) (auto simp: py_startswith_def)

lemma split_sub_sep:
  "c \<notin> set s \<Longrightarrow> split_sub (c # sep) acc (s @ (c # sep) @ t) = (rev acc @ s) # split_sub (c # sep) [] t"
proof (induction s arbitrary: acc)
  case Nil
  have "py_startswith (c # sep @ t) (c # sep)" by (simp add: py_startswith_def)
  then show ?case by simp
next
  case (Cons x s)
  then show ?case by (auto simp: py_startswith_def)
qed

section \<open>Replacing, stripping\<close>

text \<open>\<^verbatim>\<open>s.replace(old, new)\<close> for a non-empty \<^verbatim>\<open>old\<close>: left to right, no overlaps.\<close>

function py_replace :: "string \<Rightarrow> string \<Rightarrow> string \<Rightarrow> string" where
  "py_replace [] new s = s"
| "py_replace (o1 # os) new [] = []"
| "py_replace (o1 # os) new (c # s) =
     (if py_startswith (c # s) (o1 # os)
      then new @ py_replace (o1 # os) new (drop (length os) s)
      else c # py_replace (o1 # os) new s)"
  by pat_completeness auto
termination
  by (relation "measure (\<lambda>(p, n, s). length s)") auto

lemma py_replace_absent:
  "o1 \<notin> set s \<Longrightarrow> py_replace (o1 # os) new s = s"
proof (induction s)
  case (Cons c s)
  then show ?case by (auto simp: py_startswith_def)
qed simp

definition is_ws :: "char \<Rightarrow> bool" where
  "is_ws c \<longleftrightarrow> c \<in> {CHR '' '', CHR 0x09, CHR 0x0A, CHR 0x0B, CHR 0x0C, CHR 0x0D,
                      CHR 0x1C, CHR 0x1D, CHR 0x1E, CHR 0x1F}"

definition strip_by :: "(char \<Rightarrow> bool) \<Rightarrow> string \<Rightarrow> string" where
  "strip_by p s = rev (dropWhile p (rev (dropWhile p s)))"

definition py_strip :: "string \<Rightarrow> string" where
  "py_strip s = strip_by is_ws s"

lemma strip_by_id:
  assumes "s = [] \<or> (\<not> p (hd s) \<and> \<not> p (last s))"
  shows "strip_by p s = s"
proof (cases "s = []")
  case False
  with assms have "dropWhile p s = s" by (cases s) auto
  moreover from False assms have "dropWhile p (rev s) = rev s"
    by (cases "rev s") (auto simp: last_rev hd_rev rev_eq_Cons_iff)
  ultimately show ?thesis by (simp add: strip_by_def)
qed (simp add: strip_by_def)

lemma strip_by_ends: "strip_by p s = [] \<or> (\<not> p (hd (strip_by p s)) \<and> \<not> p (last (strip_by p s)))"
proof (cases "strip_by p s = []")
  case False
  let ?t = "dropWhile p s"
  let ?u = "dropWhile p (rev ?t)"
  have u: "?u \<noteq> []" using False by (simp add: strip_by_def)
  then have l: "\<not> p (hd ?u)" by (rule hd_dropWhile)
  from u have t: "?t \<noteq> []" by (metis dropWhile.simps(1) rev.simps(1))
  obtain v where v: "rev ?t = v @ ?u" by (metis takeWhile_dropWhile_id)
  then have "?t = rev ?u @ rev v" by (metis rev_append rev_rev_ident)
  with u have "hd ?t = hd (rev ?u)" by (metis hd_append2 rev_is_Nil_conv)
  with t have "\<not> p (hd (rev ?u))" by (metis hd_dropWhile)
  with l u show ?thesis by (simp add: strip_by_def last_rev)
qed simp

lemma strip_by_idem [simp]: "strip_by p (strip_by p s) = strip_by p s"
  by (rule strip_by_id) (rule strip_by_ends)

lemma py_strip_idem [simp]: "py_strip (py_strip s) = py_strip s"
  by (simp add: py_strip_def)

section \<open>Decimal numbers\<close>

definition digit_char :: "nat \<Rightarrow> char" where
  "digit_char n = char_of (48 + n)"

fun str_nat :: "nat \<Rightarrow> string" where
  "str_nat n = (if n < 10 then [digit_char n] else str_nat (n div 10) @ [digit_char (n mod 10)])"

declare str_nat.simps [simp del]

definition str_int :: "int \<Rightarrow> string" where
  "str_int i = (if i < 0 then CHR ''-'' # str_nat (nat (- i)) else str_nat (nat i))"

lemma digit_char_inj: "m < 10 \<Longrightarrow> n < 10 \<Longrightarrow> digit_char m = digit_char n \<Longrightarrow> m = n"
proof -
  assume m: "m < 10" and n: "n < 10" and eq: "digit_char m = digit_char n"
  have "of_char (digit_char m) = (of_char (digit_char n) :: nat)" using eq by simp
  then have "(48 + m) mod 256 = (48 + n) mod 256"
    by (simp add: digit_char_def)
  with m n show "m = n" by simp
qed

lemma str_nat_nonempty [simp]: "str_nat n \<noteq> []"
  by (subst str_nat.simps) simp

lemma str_nat_inj: "str_nat m = str_nat n \<Longrightarrow> m = n"
proof (induction m arbitrary: n rule: less_induct)
  case (less m)
  show ?case
  proof (cases "m < 10"; cases "n < 10")
    assume "m < 10" "n < 10"
    with less.prems show ?thesis
      by (simp add: str_nat.simps [of m] str_nat.simps [of n] digit_char_inj)
  next
    assume "m < 10" "\<not> n < 10"
    with less.prems str_nat_nonempty [of "n div 10"] show ?thesis
      by (auto simp: str_nat.simps [of m] str_nat.simps [of n])
  next
    assume "\<not> m < 10" "n < 10"
    with less.prems str_nat_nonempty [of "m div 10"] show ?thesis
      by (auto simp: str_nat.simps [of m] str_nat.simps [of n])
  next
    assume mn: "\<not> m < 10" "\<not> n < 10"
    with less.prems have "str_nat (m div 10) = str_nat (n div 10)"
      and d: "digit_char (m mod 10) = digit_char (n mod 10)"
      by (simp_all add: str_nat.simps [of m] str_nat.simps [of n])
    with mn less.IH [of "m div 10"] have "m div 10 = n div 10" by simp
    moreover from d have "m mod 10 = n mod 10" by (simp add: digit_char_inj)
    ultimately show ?thesis by (metis div_mult_mod_eq)
  qed
qed

lemma str_nat_digits: "c \<in> set (str_nat n) \<Longrightarrow> \<exists>d < 10. c = digit_char d"
proof (induction n rule: less_induct)
  case (less n)
  show ?case
  proof (cases "n < 10")
    case True
    with less.prems show ?thesis by (auto simp: str_nat.simps [of n])
  next
    case False
    with less.prems have "c \<in> set (str_nat (n div 10)) \<or> c = digit_char (n mod 10)"
      by (auto simp: str_nat.simps [of n])
    with False less.IH [of "n div 10"] show ?thesis
      by (auto intro: exI [of _ "n mod 10"])
  qed
qed

lemma digit_char_not_dash: "d < 10 \<Longrightarrow> digit_char d \<noteq> CHR ''-''"
proof
  assume d: "d < 10" and eq: "digit_char d = CHR ''-''"
  have "(of_char (digit_char d) :: nat) = 48 + d" using d by (simp add: digit_char_def)
  moreover have "(of_char CHR ''-'' :: nat) = 45" by simp
  ultimately show False using eq by simp
qed

lemma dash_not_in_str_nat: "CHR ''-'' \<notin> set (str_nat n)"
proof
  assume "CHR ''-'' \<in> set (str_nat n)"
  then obtain d where "d < 10" and "CHR ''-'' = digit_char d" using str_nat_digits by blast
  with digit_char_not_dash [of d] show False by simp
qed

text \<open>
  \<^verbatim>\<open>str(v)\<close> and the rendering of a value in an f-string. Strings inside a container are quoted, for
  text without quotes, backslashes or control characters.
\<close>

fun py_repr :: "py \<Rightarrow> string" where
  "py_repr PNone = ''None''"
| "py_repr (PBool b) = (if b then ''True'' else ''False'')"
| "py_repr (PInt i) = str_int i"
| "py_repr (PFloat r) = (if r = [] then ''nan'' else r)"
| "py_repr (PStr s) = [CHR 0x27] @ s @ [CHR 0x27]"
| "py_repr (PList xs) = ''['' @ py_join '', '' (map py_repr xs) @ '']''"
| "py_repr (PDict d) =
     ''{'' @ py_join '', '' (map (\<lambda>(k, v). [CHR 0x27] @ k @ [CHR 0x27] @ '': '' @ py_repr v) d) @ ''}''"

fun py_str :: "py \<Rightarrow> string" where
  "py_str (PStr s) = s"
| "py_str v = py_repr v"

section \<open>Reading numbers\<close>

fun decimal :: "string \<Rightarrow> nat option" where
  "decimal [] = Some 0"
| "decimal s =
     (if last s \<in> set ''0123456789''
      then (case decimal (butlast s) of None \<Rightarrow> None | Some n \<Rightarrow> Some (10 * n + (of_char (last s) - 48)))
      else None)"

text \<open>
  \<^verbatim>\<open>int(value)\<close> of a number written without an exponent, or of a text of digits with an optional sign and
  white space around; single underscores may stand between digits.
\<close>

definition int_digits :: "string \<Rightarrow> nat option" where
  "int_digits s = (let ps = split_char (CHR ''_'') s in if [] \<in> set ps then None else decimal (concat ps))"

definition text_int :: "string \<Rightarrow> int option" where
  "text_int s =
     (case py_strip s of
        [] \<Rightarrow> None
      | c # cs \<Rightarrow>
          if c = CHR ''-'' then map_option (\<lambda>n. - int n) (int_digits cs)
          else if c = CHR ''+'' then map_option int (int_digits cs)
          else map_option int (int_digits (c # cs)))"

definition to_int :: "py \<Rightarrow> int result" where
  "to_int v =
     (case v of
        PInt i \<Rightarrow> Inr i
      | PBool b \<Rightarrow> Inr (if b then 1 else 0)
      | PStr s \<Rightarrow> (case text_int s of Some i \<Rightarrow> Inr i | None \<Rightarrow> Inl (Exn EValueError ''invalid literal for int()''))
      | PFloat r \<Rightarrow>
          (case text_int (takeWhile (\<lambda>c. c \<noteq> CHR ''.'') r) of
             Some i \<Rightarrow> Inr i | None \<Rightarrow> Inl (Exn EOther ''cannot convert float to integer''))
      | _ \<Rightarrow> Inl (Exn ETypeError ''int() argument must be a string or a real number''))"

end
