(* ===== verification/Enums.thy ===== *)
theory Enums
  imports PyStrings
begin

text \<open>
  Howler's enumerations (\<^verbatim>\<open>odm/howler_enum.py\<close>, \<^verbatim>\<open>odm/constants.py\<close>, \<^verbatim>\<open>odm/models/howler_data.py\<close>,
  \<^verbatim>\<open>odm/models/case.py\<close>). A \<^verbatim>\<open>HowlerEnum\<close> is a string enumeration whose membership test accepts a
  member's name or value and whose subscript looks a member up by name after upper-casing.
\<close>

section \<open>HowlerEnum\<close>

type_synonym enum_members = "(string \<times> string) list"

text \<open>\<^verbatim>\<open>str(obj).upper().replace("-", "_")\<close>\<close>

definition enum_key :: "string \<Rightarrow> string" where
  "enum_key obj = py_replace ''-'' ''_'' (py_upper obj)"

definition enum_contains :: "enum_members \<Rightarrow> string \<Rightarrow> bool" where
  "enum_contains ms obj \<longleftrightarrow> enum_key obj \<in> set (map fst ms) \<or> obj \<in> set (map snd ms)"

definition enum_getitem :: "enum_members \<Rightarrow> string \<Rightarrow> string result" where
  "enum_getitem ms name = dict_index ms (enum_key name)"

definition enum_list :: "enum_members \<Rightarrow> string list" where
  "enum_list ms = map snd ms"

section \<open>The enumerations\<close>

datatype status = OPEN | IN_PROGRESS | ON_HOLD | RESOLVED

fun status_value :: "status \<Rightarrow> string" where
  "status_value OPEN = ''open''"
| "status_value IN_PROGRESS = ''in-progress''"
| "status_value ON_HOLD = ''on-hold''"
| "status_value RESOLVED = ''resolved''"

definition Status :: enum_members where
  "Status = [(''OPEN'', status_value OPEN), (''IN_PROGRESS'', status_value IN_PROGRESS),
             (''ON_HOLD'', status_value ON_HOLD), (''RESOLVED'', status_value RESOLVED)]"

datatype hit_transition =
    ASSIGN_TO_ME | ASSIGN_TO_OTHER | VOTE | ASSESS | RELEASE | START | PAUSE | RESUME
  | RE_EVALUATE | PROMOTE | DEMOTE

fun transition_value :: "hit_transition \<Rightarrow> string" where
  "transition_value ASSIGN_TO_ME = ''assign_to_me''"
| "transition_value ASSIGN_TO_OTHER = ''assign_to_other''"
| "transition_value VOTE = ''vote''"
| "transition_value ASSESS = ''assess''"
| "transition_value RELEASE = ''release''"
| "transition_value START = ''start''"
| "transition_value PAUSE = ''pause''"
| "transition_value RESUME = ''resume''"
| "transition_value RE_EVALUATE = ''re_evaluate''"
| "transition_value PROMOTE = ''promote''"
| "transition_value DEMOTE = ''demote''"

definition HitOperationType :: enum_members where
  "HitOperationType = [(''APPENDED'', ''appended''), (''REMOVED'', ''removed''), (''SET'', ''set'')]"

definition Scrutiny :: enum_members where
  "Scrutiny = [(''UNSEEN'', ''unseen''), (''SURVEYED'', ''surveyed''), (''SCANNED'', ''scanned''),
               (''INSPECTED'', ''inspected''), (''INVESTIGATED'', ''investigated'')]"

datatype escalation = MISS | HIT | ALERT | EVIDENCE

fun escalation_value :: "escalation \<Rightarrow> string" where
  "escalation_value MISS = ''miss''"
| "escalation_value HIT = ''hit''"
| "escalation_value ALERT = ''alert''"
| "escalation_value EVIDENCE = ''evidence''"

definition Escalation :: enum_members where
  "Escalation = [(''MISS'', escalation_value MISS), (''HIT'', escalation_value HIT),
                 (''ALERT'', escalation_value ALERT), (''EVIDENCE'', escalation_value EVIDENCE)]"

definition Vote :: enum_members where
  "Vote = [(''MALICIOUS'', ''malicious''), (''OBSCURE'', ''obscure''), (''BEINIGN'', ''benign'')]"

definition Assessment :: enum_members where
  "Assessment =
    [(''AMBIGUOUS'', ''ambiguous''), (''SECURITY'', ''security''), (''DEVELOPMENT'', ''development''),
     (''FALSE_POSITIVE'', ''false-positive''), (''LEGITIMATE'', ''legitimate''),
     (''TRIVIAL'', ''trivial''), (''RECON'', ''recon''), (''ATTEMPT'', ''attempt''),
     (''COMPROMISE'', ''compromise''), (''MITIGATED'', ''mitigated'')]"

definition AssessmentEscalationMap :: enum_members where
  "AssessmentEscalationMap =
    [(''AMBIGUOUS'', escalation_value MISS), (''ATTEMPT'', escalation_value EVIDENCE),
     (''COMPROMISE'', escalation_value EVIDENCE), (''DEVELOPMENT'', escalation_value MISS),
     (''FALSE_POSITIVE'', escalation_value MISS), (''LEGITIMATE'', escalation_value MISS),
     (''MITIGATED'', escalation_value EVIDENCE), (''RECON'', escalation_value EVIDENCE),
     (''SECURITY'', escalation_value MISS), (''TRIVIAL'', escalation_value EVIDENCE)]"

datatype case_item_type = CI_EVENT | CI_HIT | CI_CASE | CI_REFERENCE | CI_FOLDER | CI_MARKDOWN

fun item_type_value :: "case_item_type \<Rightarrow> string" where
  "item_type_value CI_EVENT = ''event''"
| "item_type_value CI_HIT = ''hit''"
| "item_type_value CI_CASE = ''case''"
| "item_type_value CI_REFERENCE = ''reference''"
| "item_type_value CI_FOLDER = ''folder''"
| "item_type_value CI_MARKDOWN = ''markdown''"

definition CaseItemTypes :: enum_members where
  "CaseItemTypes =
    [(''EVENT'', item_type_value CI_EVENT), (''HIT'', item_type_value CI_HIT),
     (''CASE'', item_type_value CI_CASE), (''REFERENCE'', item_type_value CI_REFERENCE),
     (''FOLDER'', item_type_value CI_FOLDER), (''MARKDOWN'', item_type_value CI_MARKDOWN)]"

definition CaseEscalation :: enum_members where
  "CaseEscalation = [(''NORMAL'', ''normal''), (''FOCUS'', ''focus''), (''CRISIS'', ''crisis'')]"

definition RuleIndexTypes :: enum_members where
  "RuleIndexTypes = [(''HIT'', ''hit''), (''EVENT'', ''event'')]"

text \<open>The value an enumeration's items are stored under determines the member.\<close>

lemma status_value_inj [simp]: "status_value s = status_value t \<longleftrightarrow> s = t"
  by (cases s; cases t) simp_all

lemma item_type_value_inj [simp]: "item_type_value s = item_type_value t \<longleftrightarrow> s = t"
  by (cases s; cases t) simp_all

lemma transition_value_inj [simp]: "transition_value s = transition_value t \<longleftrightarrow> s = t"
  by (cases s; cases t) simp_all

lemma status_value_nonempty [simp]: "status_value s \<noteq> []"
  by (cases s) simp_all

lemma transition_value_nonempty [simp]: "transition_value s \<noteq> []"
  by (cases s) simp_all

text \<open>
  Every assessment the enumeration admits, by value, has an escalation, and it is one of the two
  terminal ones.
\<close>

lemma assessment_has_escalation:
  assumes "a \<in> set (enum_list Assessment)"
  shows "\<exists>e \<in> {MISS, EVIDENCE}. enum_getitem AssessmentEscalationMap a = Inr (escalation_value e)"
proof -
  have "\<forall>a \<in> set (enum_list Assessment).
     enum_getitem AssessmentEscalationMap a = Inr (escalation_value MISS) \<or>
     enum_getitem AssessmentEscalationMap a = Inr (escalation_value EVIDENCE)"
    by code_simp
  with assms show ?thesis by auto
qed

text \<open>
  The same for everything the membership test admits: it compares names with the same key the
  subscript uses, and every value's key is a name.
\<close>

lemma enum_contains_key:
  assumes "\<forall>v \<in> set (map snd ms). enum_key v \<in> set (map fst ms)"
  shows "enum_contains ms obj \<longleftrightarrow> enum_key obj \<in> set (map fst ms)"
  using assms by (auto simp: enum_contains_def)

lemma Assessment_keys: "\<forall>v \<in> set (map snd Assessment). enum_key v \<in> set (map fst Assessment)"
  by code_simp

lemma Assessment_names: "set (map fst Assessment) = set (map fst AssessmentEscalationMap)"
  by code_simp

lemma assessment_contains_escalation:
  assumes "enum_contains Assessment a"
  shows "\<exists>e. enum_getitem AssessmentEscalationMap a = Inr e"
proof -
  have "enum_key a \<in> set (map fst AssessmentEscalationMap)"
    using assms Assessment_names enum_contains_key [OF Assessment_keys] by blast
  then show ?thesis
    by (auto simp: enum_getitem_def dict_index_def dget_def map_of_eq_None_iff split: option.splits)
qed

end
