(* ===== verification/Regex.thy ===== *)
theory Regex
  imports PyStrings
begin

text \<open>
  The regular expressions of \<^verbatim>\<open>odm/base.py\<close> that are regular: characters by ranges, sequence, choice
  and counted repetition. \<^verbatim>\<open>rx_accepts\<close> decides membership by derivatives and is proved equal to the
  language; \<^verbatim>\<open>rx_match\<close> is \<^verbatim>\<open>re.match\<close> of a pattern written \<^verbatim>\<open>^...$\<close>, whose dollar also matches before
  one final line break.
\<close>

section \<open>Expressions and their language\<close>

datatype rx =
    RxFail
  | RxEmpty
  | RxRange "(char \<times> char) list"
  | RxSeq rx rx
  | RxAlt rx rx
  | RxRep rx nat nat
  | RxMany rx

fun in_ranges :: "char \<Rightarrow> (char \<times> char) list \<Rightarrow> bool" where
  "in_ranges c [] = False"
| "in_ranges c ((lo, hi) # rs) = ((lo \<le> c \<and> c \<le> hi) \<or> in_ranges c rs)"

definition concats :: "string set \<Rightarrow> string set \<Rightarrow> string set" where
  "concats A B = {s @ t | s t. s \<in> A \<and> t \<in> B}"

fun repeats :: "string set \<Rightarrow> nat \<Rightarrow> string set" where
  "repeats A 0 = {[]}"
| "repeats A (Suc n) = concats A (repeats A n)"

fun rx_words :: "rx \<Rightarrow> string set" where
  "rx_words RxFail = {}"
| "rx_words RxEmpty = {[]}"
| "rx_words (RxRange rs) = {[c] | c. in_ranges c rs}"
| "rx_words (RxSeq p q) = concats (rx_words p) (rx_words q)"
| "rx_words (RxAlt p q) = rx_words p \<union> rx_words q"
| "rx_words (RxRep p m n) = (\<Union>k\<in>{m..n}. repeats (rx_words p) k)"
| "rx_words (RxMany p) = (\<Union>k. repeats (rx_words p) k)"

section \<open>Matching\<close>

text \<open>Whether the empty string matches, and what is left to match after a character.\<close>

fun rx_nullable :: "rx \<Rightarrow> bool" where
  "rx_nullable RxFail = False"
| "rx_nullable RxEmpty = True"
| "rx_nullable (RxRange rs) = False"
| "rx_nullable (RxSeq p q) = (rx_nullable p \<and> rx_nullable q)"
| "rx_nullable (RxAlt p q) = (rx_nullable p \<or> rx_nullable q)"
| "rx_nullable (RxRep p m n) = (m \<le> n \<and> (m = 0 \<or> rx_nullable p))"
| "rx_nullable (RxMany p) = True"

fun rx_after :: "char \<Rightarrow> rx \<Rightarrow> rx" where
  "rx_after c RxFail = RxFail"
| "rx_after c RxEmpty = RxFail"
| "rx_after c (RxRange rs) = (if in_ranges c rs then RxEmpty else RxFail)"
| "rx_after c (RxSeq p q) =
     (if rx_nullable p then RxAlt (RxSeq (rx_after c p) q) (rx_after c q) else RxSeq (rx_after c p) q)"
| "rx_after c (RxAlt p q) = RxAlt (rx_after c p) (rx_after c q)"
| "rx_after c (RxRep p m n) =
     (if n = 0 \<or> n < m then RxFail else RxSeq (rx_after c p) (RxRep p (m - 1) (n - 1)))"
| "rx_after c (RxMany p) = RxSeq (rx_after c p) (RxMany p)"

fun rx_accepts :: "rx \<Rightarrow> string \<Rightarrow> bool" where
  "rx_accepts r [] = rx_nullable r"
| "rx_accepts r (c # s) = rx_accepts (rx_after c r) s"

definition rx_match :: "rx \<Rightarrow> string \<Rightarrow> bool" where
  "rx_match r s \<longleftrightarrow>
     rx_accepts r s \<or> (s \<noteq> [] \<and> last s = CHR 0x0A \<and> rx_accepts r (butlast s))"

section \<open>Correctness of the matcher\<close>

lemma Nil_concats [simp]: "[] \<in> concats A B \<longleftrightarrow> [] \<in> A \<and> [] \<in> B"
  by (auto simp: concats_def)

lemma Cons_concats:
  "c # s \<in> concats A B \<longleftrightarrow> ([] \<in> A \<and> c # s \<in> B) \<or> (\<exists>t u. s = t @ u \<and> c # t \<in> A \<and> u \<in> B)"
proof
  assume "c # s \<in> concats A B"
  then obtain a b where ab: "c # s = a @ b" "a \<in> A" "b \<in> B" unfolding concats_def by blast
  show "([] \<in> A \<and> c # s \<in> B) \<or> (\<exists>t u. s = t @ u \<and> c # t \<in> A \<and> u \<in> B)"
  proof (cases a)
    case Nil
    with ab show ?thesis by simp
  next
    case (Cons x t)
    with ab have "s = t @ b" "c # t \<in> A" by simp_all
    with ab(3) show ?thesis by blast
  qed
next
  assume "([] \<in> A \<and> c # s \<in> B) \<or> (\<exists>t u. s = t @ u \<and> c # t \<in> A \<and> u \<in> B)"
  then show "c # s \<in> concats A B"
  proof
    assume "[] \<in> A \<and> c # s \<in> B"
    then show ?thesis unfolding concats_def by fastforce
  next
    assume "\<exists>t u. s = t @ u \<and> c # t \<in> A \<and> u \<in> B"
    then obtain t u where "s = t @ u" "c # t \<in> A" "u \<in> B" by blast
    then have "c # s = (c # t) @ u" by simp
    with \<open>c # t \<in> A\<close> \<open>u \<in> B\<close> show ?thesis unfolding concats_def by blast
  qed
qed

lemma in_concats: "s \<in> concats A B \<longleftrightarrow> (\<exists>t u. s = t @ u \<and> t \<in> A \<and> u \<in> B)"
  by (auto simp: concats_def)

lemma Nil_repeats: "[] \<in> repeats A n \<longleftrightarrow> n = 0 \<or> [] \<in> A"
  by (induction n) auto

text \<open>A repetition of a language with the empty string contains all shorter repetitions.\<close>

lemma repeats_less: "[] \<in> A \<Longrightarrow> k \<le> n \<Longrightarrow> repeats A k \<subseteq> repeats A n"
proof (induction n arbitrary: k)
  case (Suc n)
  show ?case
  proof (cases k)
    case 0
    with Suc.prems(1) show ?thesis by (simp add: Nil_repeats)
  next
    case (Suc j)
    with Suc.prems have "repeats A j \<subseteq> repeats A n" by (intro Suc.IH) simp_all
    with Suc show ?thesis by (auto simp: concats_def)
  qed
qed simp

lemma Cons_repeats:
  "c # s \<in> repeats A n \<longleftrightarrow>
     (\<exists>t u k. k < n \<and> s = t @ u \<and> c # t \<in> A \<and> u \<in> repeats A k \<and> (Suc k = n \<or> [] \<in> A))"
proof (induction n)
  case (Suc n)
  show ?case
  proof
    assume "c # s \<in> repeats A (Suc n)"
    then consider "[] \<in> A" "c # s \<in> repeats A n"
      | t u where "s = t @ u" "c # t \<in> A" "u \<in> repeats A n"
      by (auto simp: Cons_concats)
    then show "\<exists>t u k. k < Suc n \<and> s = t @ u \<and> c # t \<in> A \<and> u \<in> repeats A k \<and> (Suc k = Suc n \<or> [] \<in> A)"
    proof cases
      case 1
      from 1(2) Suc.IH obtain t u k where "k < n" "s = t @ u" "c # t \<in> A" "u \<in> repeats A k" by blast
      with 1(1) show ?thesis using less_SucI by blast
    next
      case 2
      then show ?thesis by blast
    qed
  next
    assume "\<exists>t u k. k < Suc n \<and> s = t @ u \<and> c # t \<in> A \<and> u \<in> repeats A k \<and> (Suc k = Suc n \<or> [] \<in> A)"
    then obtain t u k where k: "k < Suc n" "s = t @ u" "c # t \<in> A" "u \<in> repeats A k" "Suc k = Suc n \<or> [] \<in> A"
      by blast
    have "u \<in> repeats A n"
    proof (cases "k = n")
      case False
      with k have "[] \<in> A" "k \<le> n" by auto
      with k(4) repeats_less show ?thesis by blast
    qed (use k in simp)
    with k show "c # s \<in> repeats A (Suc n)" by (auto simp: Cons_concats)
  qed
qed simp

lemma rx_nullable_words: "rx_nullable r \<longleftrightarrow> [] \<in> rx_words r"
proof (induction r)
  case (RxRep r m n)
  then show ?case by (auto simp: Nil_repeats)
qed (auto simp: Nil_repeats)

lemma rep_after:
  "(\<exists>k\<in>{m..n}. c # s \<in> repeats A k) \<longleftrightarrow>
     n \<noteq> 0 \<and> m \<le> n \<and> (\<exists>t u. s = t @ u \<and> c # t \<in> A \<and> (\<exists>k\<in>{m - 1..n - 1}. u \<in> repeats A k))"
proof
  assume "\<exists>k\<in>{m..n}. c # s \<in> repeats A k"
  then obtain k where k: "m \<le> k" "k \<le> n" "c # s \<in> repeats A k" by auto
  then obtain t u j where j: "j < k" "s = t @ u" "c # t \<in> A" "u \<in> repeats A j" "Suc j = k \<or> [] \<in> A"
    by (auto simp: Cons_repeats)
  have jk: "j \<le> k - 1" using j(1) by simp
  have "u \<in> repeats A (k - 1)"
  proof (cases "Suc j = k")
    case True
    with j(4) show ?thesis by auto
  next
    case False
    with j(5) have "[] \<in> A" by simp
    with j(4) jk show ?thesis using repeats_less by blast
  qed
  moreover from k j have "k - 1 \<in> {m - 1..n - 1}" by auto
  ultimately show "n \<noteq> 0 \<and> m \<le> n \<and> (\<exists>t u. s = t @ u \<and> c # t \<in> A \<and> (\<exists>k\<in>{m - 1..n - 1}. u \<in> repeats A k))"
    using k(1,2) j(1-3) by (intro conjI) (simp, simp, blast)
next
  assume "n \<noteq> 0 \<and> m \<le> n \<and> (\<exists>t u. s = t @ u \<and> c # t \<in> A \<and> (\<exists>k\<in>{m - 1..n - 1}. u \<in> repeats A k))"
  then obtain t u k where *: "n \<noteq> 0" "m \<le> n" "s = t @ u" "c # t \<in> A" "k \<in> {m - 1..n - 1}" "u \<in> repeats A k"
    by blast
  then have "c # s \<in> repeats A (Suc k)" by (auto simp: Cons_concats)
  moreover from * have "Suc k \<in> {m..n}" by auto
  ultimately show "\<exists>k\<in>{m..n}. c # s \<in> repeats A k" by blast
qed

lemma many_after:
  "(\<exists>k. c # s \<in> repeats A k) \<longleftrightarrow> (\<exists>t u. s = t @ u \<and> c # t \<in> A \<and> (\<exists>k. u \<in> repeats A k))"
proof
  assume "\<exists>k. c # s \<in> repeats A k"
  then show "\<exists>t u. s = t @ u \<and> c # t \<in> A \<and> (\<exists>k. u \<in> repeats A k)" by (auto simp: Cons_repeats)
next
  assume "\<exists>t u. s = t @ u \<and> c # t \<in> A \<and> (\<exists>k. u \<in> repeats A k)"
  then obtain t u k where "s = t @ u" "c # t \<in> A" "u \<in> repeats A k" by blast
  then have "c # s \<in> repeats A (Suc k)" by (auto simp: Cons_concats)
  then show "\<exists>k. c # s \<in> repeats A k" ..
qed

lemma rx_after_words: "s \<in> rx_words (rx_after c r) \<longleftrightarrow> c # s \<in> rx_words r"
proof (induction r arbitrary: s)
  case (RxSeq p q)
  have "s \<in> rx_words (rx_after c (RxSeq p q)) \<longleftrightarrow>
      ([] \<in> rx_words p \<and> c # s \<in> rx_words q) \<or>
      (\<exists>t u. s = t @ u \<and> c # t \<in> rx_words p \<and> u \<in> rx_words q)"
    by (auto simp: in_concats rx_nullable_words RxSeq.IH)
  then show ?case by (simp add: Cons_concats)
next
  case (RxRep p m n)
  have "c # s \<in> rx_words (RxRep p m n) \<longleftrightarrow>
      n \<noteq> 0 \<and> m \<le> n \<and> (\<exists>t u. s = t @ u \<and> c # t \<in> rx_words p \<and> (\<exists>k\<in>{m - 1..n - 1}. u \<in> repeats (rx_words p) k))"
    using rep_after [of m n c s "rx_words p"] by simp
  with RxRep.IH show ?case by (simp add: in_concats not_less)
next
  case (RxMany p)
  have "c # s \<in> rx_words (RxMany p) \<longleftrightarrow>
      (\<exists>t u. s = t @ u \<and> c # t \<in> rx_words p \<and> (\<exists>k. u \<in> repeats (rx_words p) k))"
    using many_after [of c s "rx_words p"] by simp
  with RxMany.IH show ?case by (simp add: in_concats)
qed auto

lemma rx_accepts_words: "rx_accepts r s \<longleftrightarrow> s \<in> rx_words r"
  by (induction s arbitrary: r) (simp_all add: rx_nullable_words rx_after_words)

text \<open>A counted repetition of single characters.\<close>

lemma repeats_range:
  "s \<in> repeats {[c] | c. in_ranges c rs} n \<longleftrightarrow> length s = n \<and> (\<forall>c\<in>set s. in_ranges c rs)"
proof (induction n arbitrary: s)
  case (Suc n)
  show ?case
  proof (cases s)
    case Nil
    then show ?thesis by simp
  next
    case (Cons c t)
    then show ?thesis using Suc.IH [of t] by (auto simp: Cons_concats)
  qed
qed auto

lemma accepts_range_rep:
  "rx_accepts (RxRep (RxRange rs) m n) s \<longleftrightarrow>
     m \<le> length s \<and> length s \<le> n \<and> (\<forall>c\<in>set s. in_ranges c rs)"
  by (auto simp: rx_accepts_words repeats_range)

lemma char_between: "(lo \<le> c \<and> c \<le> hi) \<longleftrightarrow> of_char lo \<le> (of_char c :: nat) \<and> (of_char c :: nat) \<le> of_char hi"
  by (simp add: less_eq_char_def)

lemma char_in_text: "c \<in> set s \<longleftrightarrow> (of_char c :: nat) \<in> set (map of_char s)"
  by (auto simp: inj_image_mem_iff inj_of_char)

section \<open>The patterns\<close>

definition rx_char :: "char \<Rightarrow> rx" where
  "rx_char c = RxRange [(c, c)]"

fun rx_text :: "string \<Rightarrow> rx" where
  "rx_text [] = RxEmpty"
| "rx_text (c # s) = RxSeq (rx_char c) (rx_text s)"

fun rx_alts :: "rx list \<Rightarrow> rx" where
  "rx_alts [] = RxFail"
| "rx_alts (r # rs) = RxAlt r (rx_alts rs)"

fun rx_seqs :: "rx list \<Rightarrow> rx" where
  "rx_seqs [] = RxEmpty"
| "rx_seqs (r # rs) = RxSeq r (rx_seqs rs)"

definition rx_opt :: "rx \<Rightarrow> rx" where
  "rx_opt r = RxRep r 0 1"

definition rx_digit :: rx where "rx_digit = RxRange [(CHR ''0'', CHR ''9'')]"
definition rx_hex :: rx where "rx_hex = RxRange [(CHR ''a'', CHR ''f''), (CHR ''0'', CHR ''9'')]"
definition rx_any_hex :: rx where
  "rx_any_hex = RxRange [(CHR ''0'', CHR ''9''), (CHR ''a'', CHR ''f''), (CHR ''A'', CHR ''F'')]"
definition rx_base64 :: rx where
  "rx_base64 = RxRange [(CHR ''a'', CHR ''z''), (CHR ''A'', CHR ''Z''), (CHR ''0'', CHR ''9''),
                        (CHR ''/'', CHR ''/''), (CHR ''+'', CHR ''+'')]"

definition FIELD_SANITIZER :: rx where
  "FIELD_SANITIZER =
     RxSeq (RxRange [(CHR ''a'', CHR ''z'')])
           (RxMany (RxRange [(CHR ''a'', CHR ''z''), (CHR ''0'', CHR ''9''), (CHR ''_'', CHR ''_''), (CHR ''-'', CHR ''-'')]))"

definition FLATTENED_OBJECT_SANITIZER :: rx where
  "FLATTENED_OBJECT_SANITIZER =
     RxSeq (RxRange [(CHR ''a'', CHR ''z'')])
           (RxMany (RxRange [(CHR ''a'', CHR ''z''), (CHR ''0'', CHR ''9''), (CHR ''_'', CHR ''_''), (CHR ''.'', CHR ''.'')]))"

definition NOT_INDEXED_SANITIZER :: rx where
  "NOT_INDEXED_SANITIZER =
     RxMany (RxRange [(CHR ''A'', CHR ''Z''), (CHR ''a'', CHR ''z''), (CHR ''0'', CHR ''9''),
                      (CHR ''_'', CHR ''_''), (CHR '' '', CHR '' ''), (CHR ''-'', CHR ''-'')])"

definition HOWLER_HASH_REGEX :: rx where "HOWLER_HASH_REGEX = RxRep rx_hex 1 64"
definition MD5_REGEX :: rx where "MD5_REGEX = RxRep rx_hex 32 32"
definition SHA1_REGEX :: rx where "SHA1_REGEX = RxRep rx_hex 40 40"
definition SHA256_REGEX :: rx where "SHA256_REGEX = RxRep rx_hex 64 64"

definition SSDEEP_REGEX :: rx where
  "SSDEEP_REGEX = rx_seqs [RxRep rx_digit 1 18, rx_text '':'', RxRep rx_base64 0 64, rx_text '':'', RxRep rx_base64 0 64]"

definition MAC_REGEX :: rx where
  "MAC_REGEX =
     RxAlt (RxSeq (RxRep (RxSeq (RxRep rx_hex 2 2) (rx_text ''-'')) 5 5) (RxRep rx_hex 2 2))
           (RxSeq (RxRep (RxSeq (RxRep rx_hex 2 2) (rx_text '':'')) 5 5) (RxRep rx_hex 2 2))"

definition PHONE_REGEX :: rx where
  "PHONE_REGEX =
     (let sep = RxRange [(CHR '' '', CHR '' ''), (CHR ''.'', CHR ''.''), (CHR ''-'', CHR ''-'')] in
      rx_seqs [rx_opt (RxSeq (rx_opt (rx_text ''+'')) (RxRep rx_digit 1 2)), rx_opt sep,
               RxAlt (rx_seqs [rx_text ''('', RxRep rx_digit 3 3, rx_text '')'']) (RxRep rx_digit 3 3),
               sep, RxRep rx_digit 3 3, sep, RxRep rx_digit 4 4])"

definition PLATFORM_REGEX :: rx where
  "PLATFORM_REGEX = rx_alts (map rx_text [''Windows'', ''Linux'', ''MacOS'', ''Android'', ''iOS''])"

definition PROCESSOR_REGEX :: rx where
  "PROCESSOR_REGEX = RxSeq (rx_text ''x'') (rx_alts (map rx_text [''64'', ''86'']))"

definition IPV4_REGEX :: rx where
  "IPV4_REGEX =
     (let octet = rx_alts [RxSeq (rx_text ''25'') (RxRange [(CHR ''0'', CHR ''5'')]),
                           rx_seqs [rx_text ''2'', RxRange [(CHR ''0'', CHR ''4'')], rx_digit],
                           rx_seqs [rx_opt (RxRange [(CHR ''0'', CHR ''1'')]), rx_digit, rx_opt rx_digit]]
      in RxSeq (RxRep (RxSeq octet (rx_text ''.'')) 3 3) octet)"

text \<open>The pattern of an IPv4 address inside an IPv6 one allows an empty leading part of each octet.\<close>

definition rx_v6_octet :: rx where
  "rx_v6_octet =
     RxAlt (RxSeq (rx_text ''25'') (RxRange [(CHR ''0'', CHR ''5'')]))
           (RxSeq (rx_opt (RxAlt (RxSeq (rx_text ''2'') (RxRange [(CHR ''0'', CHR ''4'')]))
                                 (RxSeq (rx_opt (rx_text ''1'')) rx_digit)))
                  rx_digit)"

definition IPV6_REGEX :: rx where
  "IPV6_REGEX =
     (let h = RxRep rx_any_hex 1 4; hc = RxSeq h (rx_text '':''); ch = RxSeq (rx_text '':'') h;
          v4 = RxSeq (RxRep (RxSeq rx_v6_octet (rx_text ''.'')) 3 3) rx_v6_octet in
      rx_alts
        [RxSeq (RxRep hc 7 7) h,
         RxSeq (RxRep hc 1 7) (rx_text '':''),
         RxSeq (RxRep hc 1 6) ch,
         RxSeq (RxRep hc 1 5) (RxRep ch 1 2),
         RxSeq (RxRep hc 1 4) (RxRep ch 1 3),
         RxSeq (RxRep hc 1 3) (RxRep ch 1 4),
         RxSeq (RxRep hc 1 2) (RxRep ch 1 5),
         RxSeq hc (RxRep ch 1 6),
         RxSeq (rx_text '':'') (RxAlt (RxRep ch 1 7) (rx_text '':'')),
         rx_seqs [rx_text ''fe80:'', RxRep (RxSeq (rx_text '':'') (RxRep rx_any_hex 0 4)) 0 4, rx_text ''%'',
                  RxSeq (RxRange [(CHR ''0'', CHR ''9''), (CHR ''a'', CHR ''z''), (CHR ''A'', CHR ''Z'')])
                        (RxMany (RxRange [(CHR ''0'', CHR ''9''), (CHR ''a'', CHR ''z''), (CHR ''A'', CHR ''Z'')]))],
         rx_seqs [rx_text ''::'',
                  rx_opt (rx_seqs [rx_text ''ffff'', rx_opt (RxSeq (rx_text '':'') (RxRep (rx_text ''0'') 1 4)), rx_text '':'']),
                  v4],
         rx_seqs [RxRep hc 1 4, rx_text '':'', v4]])"

definition IP_REGEX :: rx where
  "IP_REGEX = RxAlt IPV4_REGEX IPV6_REGEX"

lemma hex_chars: "in_ranges c [(CHR ''a'', CHR ''f''), (CHR ''0'', CHR ''9'')] \<longleftrightarrow> c \<in> set ''0123456789abcdef''"
proof -
  have "in_ranges c [(CHR ''a'', CHR ''f''), (CHR ''0'', CHR ''9'')] \<longleftrightarrow>
      (97 \<le> (of_char c :: nat) \<and> (of_char c :: nat) \<le> 102) \<or> (48 \<le> (of_char c :: nat) \<and> (of_char c :: nat) \<le> 57)"
    by (simp add: char_between)
  also have "\<dots> \<longleftrightarrow> (of_char c :: nat) \<in> set ([48..<58] @ [97..<103])"
    by (simp only: set_append set_upt Un_iff atLeastLessThan_iff) arith
  also have "set ([48..<58] @ [97..<103]) = set (map (of_char :: char \<Rightarrow> nat) ''0123456789abcdef'')"
    by (simp add: upt_conv_Cons)
  also have "(of_char c :: nat) \<in> set (map of_char ''0123456789abcdef'') \<longleftrightarrow> c \<in> set ''0123456789abcdef''"
    by (rule char_in_text [symmetric])
  finally show ?thesis .
qed

lemma le_antisym_iff: "((m::nat) \<le> n \<and> n \<le> m \<and> P) \<longleftrightarrow> n = m \<and> P"
  by auto

text \<open>
  What the hash fields accept. The SHA-256 pattern accepts exactly the strings of 64 lower-case
  hexadecimal digits and those strings followed by one line break: \<^verbatim>\<open>$\<close> in Python also matches before a
  final line break.
\<close>

lemma sha256_accepts:
  "rx_match SHA256_REGEX s \<longleftrightarrow>
     (\<exists>h. (s = h \<or> s = h @ [CHR 0x0A]) \<and> length h = 64 \<and> set h \<subseteq> set ''0123456789abcdef'')"
proof -
  have len: "rx_accepts SHA256_REGEX h \<longleftrightarrow> length h = 64 \<and> (\<forall>c\<in>set h. c \<in> set ''0123456789abcdef'')" for h
    unfolding SHA256_REGEX_def rx_hex_def accepts_range_rep hex_chars by (simp only: le_antisym_iff)
  have nl: "(s \<noteq> [] \<and> last s = CHR 0x0A \<and> rx_accepts SHA256_REGEX (butlast s)) \<longleftrightarrow>
      (\<exists>h. s = h @ [CHR 0x0A] \<and> rx_accepts SHA256_REGEX h)"
  proof (cases s rule: rev_cases)
    case (snoc h c)
    then show ?thesis by auto
  qed simp
  show ?thesis unfolding rx_match_def nl unfolding len subset_eq by blast
qed

end
