(* ===== verification/Odm.thy ===== *)
theory Odm
  imports Enums Regex
begin

text \<open>
  The object-document mapper's field declarations (\<^verbatim>\<open>odm/base.py\<close>): a model class is the list of its
  fields, a field has a kind, a default and an optionality, and \<^verbatim>\<open>Model.flat_fields\<close> lists the leaf
  fields under their dotted names with their multivalued flag.
\<close>

section \<open>Fields\<close>

datatype field =
    Field (field_kind: field_kind) (field_default: py) (default_set: bool) (field_optional: bool)
and field_kind =
    KDate | KBoolean | KJson | KKeyword | KEmptyableKeyword | KUpperKeyword | KLowerKeyword
  | KCaseInsensitiveKeyword | KAny | KValidated rx | KIP | KDomain bool | KEmail | KURI | KEnum "string list" | KUUID | KText
  | KIndexText | KInteger "int option" "int option" | KFloat | KClassification bool | KClassificationString
  | KList field | KMapping bool field | KOptional field | KCompound "(string \<times> field) list"

type_synonym odm_model = "(string \<times> field) list"

text \<open>
  \<^verbatim>\<open>Integer\<close> and \<^verbatim>\<open>Long\<close> differ in the index mapping only; the keyword classes with a validation pattern are
  one kind with the pattern; a mapping says whether it is indexed or stored, which fixes the pattern of
  its keys.
\<close>

text \<open>\<^verbatim>\<open>_Field.__init__\<close>: \<^verbatim>\<open>default_set\<close> says whether a default other than None was given.\<close>

definition mk_field :: "field_kind \<Rightarrow> py \<Rightarrow> bool \<Rightarrow> field" where
  "mk_field k d opt = Field k d (d \<noteq> PNone) opt"

text \<open>\<^verbatim>\<open>UUID.__init__\<close> always counts as having a default.\<close>

definition odm_UUID :: field where
  "odm_UUID = Field KUUID PNone True False"

text \<open>
  \<^verbatim>\<open>Optional.__init__\<close> takes the child's default when it has one, otherwise marks the child as
  having one; it always counts as having a default itself and makes the child optional.
\<close>

definition odm_Optional :: "field \<Rightarrow> py \<Rightarrow> field" where
  "odm_Optional child dflt =
     (let child' = Field (field_kind child) (field_default child) True True;
          d = (if default_set child then field_default child else dflt)
      in Field (KOptional child') d True False)"

abbreviation plain :: "field_kind \<Rightarrow> field" where
  "plain k \<equiv> mk_field k PNone False"

abbreviation maybe :: "field \<Rightarrow> field" where
  "maybe f \<equiv> odm_Optional f PNone"

abbreviation optional_kw :: "field_kind \<Rightarrow> field" where
  "optional_kw k \<equiv> mk_field k PNone True"

section \<open>Flat fields\<close>

definition dotted :: "string \<Rightarrow> string \<Rightarrow> string" where
  "dotted a b = a @ ''.'' @ b"

definition is_list_field :: "field \<Rightarrow> bool" where
  "is_list_field f \<longleftrightarrow> (case field_kind f of KList _ \<Rightarrow> True | _ \<Rightarrow> False)"

definition is_mapping_field :: "field \<Rightarrow> bool" where
  "is_mapping_field f \<longleftrightarrow> (case field_kind f of KMapping _ _ \<Rightarrow> True | _ \<Rightarrow> False)"

text \<open>The entry \<^verbatim>\<open>show_compound\<close> adds for a compound, or for a list of compounds.\<close>

definition compound_entry :: "bool \<Rightarrow> string \<Rightarrow> field \<Rightarrow> bool \<Rightarrow> (string, field \<times> bool) dict" where
  "compound_entry show_compound name f mult =
     (if \<not> show_compound then []
      else case field_kind f of
        KCompound fs \<Rightarrow> [(name, (f, mult))]
      | KList c \<Rightarrow> (case field_kind c of KCompound fs \<Rightarrow> [(name, (c, mult))] | _ \<Rightarrow> [])
      | _ \<Rightarrow> [])"

text \<open>
  \<^verbatim>\<open>Model._recurse_fields(name, field, show_compound, multivalued)\<close>. A list marks everything under it
  as multivalued. \<^verbatim>\<open>flat_peel\<close> is \<^verbatim>\<open>child.fields()\<close> of a list or optional field: wrappers inside it are
  looked through without changing the flag; \<^verbatim>\<open>flat_subs\<close> is the loop over the fields of a compound.
  Attribute names of a class are distinct, so the dictionary updates of the code append.
\<close>

fun flat_field :: "bool \<Rightarrow> string \<Rightarrow> field \<Rightarrow> bool \<Rightarrow> (string, field \<times> bool) dict"
and flat_peel :: "bool \<Rightarrow> string \<Rightarrow> field \<Rightarrow> bool \<Rightarrow> (string, field \<times> bool) dict"
and flat_subs :: "bool \<Rightarrow> string \<Rightarrow> (string \<times> field) list \<Rightarrow> bool \<Rightarrow> (string, field \<times> bool) dict"
and flat_sub :: "bool \<Rightarrow> string \<Rightarrow> field \<Rightarrow> bool \<Rightarrow> (string, field \<times> bool) dict" where
  "flat_field sc name (Field k d s p) mult =
     (case k of
        KCompound fs \<Rightarrow> flat_subs sc name fs mult
      | KList c \<Rightarrow> flat_peel sc name c True
      | KOptional c \<Rightarrow> flat_peel sc name c mult
      | _ \<Rightarrow> [(name, (Field k d s p, mult))]) @ compound_entry sc name (Field k d s p) mult"
| "flat_peel sc name (Field k d s p) mult =
     (case k of
        KCompound fs \<Rightarrow> flat_subs sc name fs mult
      | KList c \<Rightarrow> flat_peel sc name c mult
      | KOptional c \<Rightarrow> flat_peel sc name c mult
      | _ \<Rightarrow> [(name, (Field k d s p, mult))])"
| "flat_subs sc name [] mult = []"
| "flat_subs sc name ((sub, f) # fs) mult =
     flat_sub sc (dotted name sub) f mult @ flat_subs sc name fs mult"
| "flat_sub sc name (Field k d s p) mult =
     (case k of
        KList c \<Rightarrow> flat_field sc name c True
      | KOptional c \<Rightarrow> flat_field sc name c mult
      | KCompound fs \<Rightarrow> flat_subs sc name fs mult
      | _ \<Rightarrow> [(name, (Field k d s p, mult))])"

text \<open>\<^verbatim>\<open>Model.flat_fields(show_compound)\<close>\<close>

definition flat_fields :: "bool \<Rightarrow> odm_model \<Rightarrow> (string, field \<times> bool) dict" where
  "flat_fields sc m = concat (map (\<lambda>(name, f). flat_field sc name f (is_list_field f)) m)"

end
