(* ===== verification/EcsSchema.thy ===== *)
theory EcsSchema
  imports Odm
begin

text \<open>
  The Elastic Common Schema as Howler declares it (\<^verbatim>\<open>odm/models/ecs\<close>): every model class as the list of its
  fields. The arguments that concern the index mapping, the documentation and the deprecation of a field are
  left out.
\<close>

definition SHA384_REGEX :: rx where "SHA384_REGEX = RxRep rx_hex 96 96"
definition SHA512_REGEX :: rx where "SHA512_REGEX = RxRep rx_hex 128 128"

definition Agent_model :: odm_model where
  "Agent_model =
    [(''id'', maybe (plain KKeyword)), (''name'', maybe (plain KKeyword)), (''type'', maybe (plain KKeyword)),
     (''version'', maybe (plain KKeyword))]"

definition AS_model :: odm_model where
  "AS_model =
    [(''number'', maybe (plain (KInteger None None))), (''organization_name'', maybe (plain KKeyword))]"

definition Nat_model :: odm_model where
  "Nat_model =
    [(''ip'', maybe (plain KIP)), (''port'', maybe (plain (KInteger None None)))]"

definition GeoPoint_model :: odm_model where
  "GeoPoint_model =
    [(''lon'', plain KFloat), (''lat'', plain KFloat)]"

definition Geo_model :: odm_model where
  "Geo_model =
    [(''city_name'', maybe (plain KKeyword)), (''continent_code'', maybe (plain KKeyword)),
     (''continent_name'', maybe (plain KKeyword)), (''country_iso_code'', maybe (plain KKeyword)),
     (''country_name'', maybe (plain KKeyword)), (''location'', maybe (plain (KCompound GeoPoint_model))),
     (''name'', maybe (plain KKeyword)), (''postal_code'', maybe (plain KKeyword)),
     (''region_iso_code'', maybe (plain KKeyword)), (''region_name'', maybe (plain KKeyword)),
     (''timezone'', maybe (plain KKeyword))]"

definition OriginalClient_model :: odm_model where
  "OriginalClient_model =
    [(''address'', maybe (plain KKeyword)), (''autonomous_systems'', maybe (plain (KCompound AS_model))),
     (''bytes'', maybe (plain (KInteger None None))), (''domain'', maybe (plain (KDomain True))),
     (''geo'', maybe (plain (KCompound Geo_model))), (''ip'', maybe (plain KIP)),
     (''mac'', maybe (plain (KValidated MAC_REGEX))), (''nat'', maybe (plain (KCompound Nat_model))),
     (''packets'', maybe (plain (KInteger None None))), (''port'', maybe (plain (KInteger None None)))]"

definition EcsGroup_model :: odm_model where
  "EcsGroup_model =
    [(''domain'', maybe (plain KKeyword)), (''id'', maybe (plain KKeyword)), (''name'', maybe (plain KKeyword))]"

definition EcsUser_model :: odm_model where
  "EcsUser_model =
    [(''domain'', maybe (plain KKeyword)), (''email'', maybe (plain KEmail)),
     (''full_name'', maybe (plain KKeyword)), (''group'', maybe (plain (KCompound EcsGroup_model))),
     (''hash'', maybe (plain KKeyword)), (''id'', maybe (plain KKeyword)), (''name'', maybe (plain KKeyword)),
     (''roles'', maybe (mk_field (KList (plain KKeyword)) (PList []) False))]"

definition EcsClient_model :: odm_model where
  "EcsClient_model =
    [(''address'', maybe (plain KKeyword)), (''autonomous_systems'', maybe (plain (KCompound AS_model))),
     (''bytes'', maybe (plain (KInteger None None))), (''domain'', maybe (plain KKeyword)),
     (''geo'', maybe (plain (KCompound Geo_model))), (''ip'', maybe (plain KIP)),
     (''mac'', maybe (plain (KValidated MAC_REGEX))), (''nat'', maybe (plain (KCompound Nat_model))),
     (''packets'', maybe (plain (KInteger None None))), (''port'', maybe (plain (KInteger None None))),
     (''user'', maybe (plain (KCompound EcsUser_model))),
     (''original'', maybe (plain (KCompound OriginalClient_model)))]"

definition CloudAccount_model :: odm_model where
  "CloudAccount_model =
    [(''id'', maybe (plain KKeyword)), (''name'', maybe (plain KKeyword))]"

definition Instance_model :: odm_model where
  "Instance_model =
    [(''id'', maybe (plain KKeyword)), (''name'', maybe (plain KKeyword))]"

definition Project_model :: odm_model where
  "Project_model =
    [(''id'', maybe (plain KKeyword)), (''name'', maybe (plain KKeyword))]"

definition Machine_model :: odm_model where
  "Machine_model =
    [(''type'', maybe (plain KKeyword))]"

definition Service_model :: odm_model where
  "Service_model =
    [(''name'', maybe (plain KKeyword))]"

definition Cloud_model :: odm_model where
  "Cloud_model =
    [(''account'', maybe (plain (KCompound CloudAccount_model))),
     (''availability_zone'', maybe (plain KKeyword)), (''instance'', maybe (plain (KCompound Instance_model))),
     (''machine'', maybe (plain (KCompound Machine_model))),
     (''project'', maybe (plain (KCompound Project_model))), (''provider'', maybe (plain KKeyword)),
     (''region'', maybe (plain KKeyword)), (''service'', maybe (plain (KCompound Service_model))),
     (''tenant_id'', maybe (plain KKeyword))]"

definition CodeSignature_model :: odm_model where
  "CodeSignature_model =
    [(''digest_algorithm'', maybe (plain (KEnum [''md5'', ''sha1'', ''sha256'', ''sha384'', ''sha512'']))),
     (''exists'', maybe (plain KBoolean)), (''signing_id'', maybe (plain KKeyword)),
     (''status'', maybe (plain KKeyword)), (''subject_name'', maybe (plain KKeyword)),
     (''team_id'', maybe (plain KKeyword)), (''timestamp'', maybe (plain KDate)),
     (''trusted'', maybe (plain KBoolean)), (''valid'', maybe (plain KBoolean))]"

definition Hash_model :: odm_model where
  "Hash_model =
    [(''all'', mk_field (KList (plain KKeyword)) (PList []) False)]"

definition Image_model :: odm_model where
  "Image_model =
    [(''hash'', maybe (plain (KCompound Hash_model))), (''name'', maybe (plain KKeyword)),
     (''tag'', mk_field (KList (plain KKeyword)) (PList []) False)]"

definition Container_model :: odm_model where
  "Container_model =
    [(''id'', maybe (plain KKeyword)), (''image'', maybe (plain (KCompound Image_model))),
     (''labels'', maybe (plain (KMapping True (plain KKeyword)))), (''name'', maybe (plain KKeyword)),
     (''runtime'', maybe (plain KKeyword))]"

definition DNSAnswer_model :: odm_model where
  "DNSAnswer_model =
    [(''class'', maybe (plain KKeyword)), (''data'', maybe (plain KKeyword)),
     (''name'', maybe (plain KKeyword)), (''ttl'', maybe (plain (KInteger None None))),
     (''type'', maybe (plain KKeyword))]"

definition DNSQuestion_model :: odm_model where
  "DNSQuestion_model =
    [(''class'', maybe (plain KKeyword)), (''name'', maybe (plain KKeyword)),
     (''registered_domain'', maybe (plain (KDomain True))), (''subdomain'', maybe (plain KKeyword)),
     (''top_level_domain'', maybe (plain KKeyword)), (''type'', maybe (plain KKeyword))]"

definition DNS_model :: odm_model where
  "DNS_model =
    [(''answers'', maybe (plain (KList (plain (KCompound DNSAnswer_model))))),
     (''header_flags'', maybe (plain (KList (plain KKeyword)))), (''id'', maybe (plain KKeyword)),
     (''op_code'', maybe (plain KKeyword)), (''question'', maybe (plain (KCompound DNSQuestion_model))),
     (''resolved_ip'', maybe (plain (KList (plain KIP)))), (''response_code'', maybe (plain KKeyword)),
     (''type'', maybe (plain KKeyword))]"

definition Egress_model :: odm_model where
  "Egress_model =
    [(''zone'', maybe (plain KKeyword))]"

definition Segment_model :: odm_model where
  "Segment_model =
    [(''sections'', maybe (plain KKeyword)), (''type'', maybe (plain KKeyword))]"

definition Section_model :: odm_model where
  "Section_model =
    [(''chi2'', maybe (plain (KInteger None None))), (''entropy'', maybe (plain (KInteger None None))),
     (''flags'', maybe (plain KKeyword)), (''name'', maybe (plain KKeyword)),
     (''physical_offset'', maybe (plain KKeyword)), (''physical_size'', maybe (plain (KInteger None None))),
     (''type'', maybe (plain KKeyword)), (''virtual_address'', maybe (plain (KInteger None None))),
     (''virtual_size'', maybe (plain (KInteger None None)))]"

definition ElfHeader_model :: odm_model where
  "ElfHeader_model =
    [(''abi_version'', maybe (plain KKeyword)), (''class'', maybe (plain KKeyword)),
     (''data'', maybe (plain KKeyword)), (''entrypoint'', maybe (plain (KInteger None None))),
     (''object_version'', maybe (plain KKeyword)), (''os_abi'', maybe (plain KKeyword)),
     (''type'', maybe (plain KKeyword)), (''version'', maybe (plain KKeyword))]"

definition ELF_model :: odm_model where
  "ELF_model =
    [(''architecture'', maybe (plain KKeyword)), (''byte_order'', maybe (plain KKeyword)),
     (''cpu_type'', maybe (plain KKeyword)), (''creation_date'', maybe (plain KKeyword)),
     (''exports'', mk_field (KList (plain KKeyword)) (PList []) False),
     (''header'', maybe (plain (KCompound ElfHeader_model))),
     (''imports'', maybe (plain (KList (plain KKeyword)))),
     (''sections'', maybe (plain (KList (plain (KCompound Section_model))))),
     (''segments'', maybe (plain (KList (plain (KCompound Section_model))))),
     (''shared_libraries'', maybe (plain (KList (plain KKeyword)))), (''telfhash'', maybe (plain KKeyword))]"

definition Address_model :: odm_model where
  "Address_model =
    [(''address'', plain KEmail)]"

definition Hashes_model :: odm_model where
  "Hashes_model =
    [(''md5'', maybe (plain (KValidated MD5_REGEX))), (''sha1'', maybe (plain (KValidated SHA1_REGEX))),
     (''sha256'', maybe (plain (KValidated SHA256_REGEX))),
     (''sha384'', maybe (plain (KValidated SHA384_REGEX))),
     (''sha512'', maybe (plain (KValidated SHA512_REGEX))),
     (''ssdeep'', maybe (plain (KValidated SSDEEP_REGEX))), (''tlsh'', maybe (plain KKeyword))]"

definition EmailFile_model :: odm_model where
  "EmailFile_model =
    [(''extension'', maybe (plain KKeyword)), (''hash'', maybe (plain (KCompound Hashes_model))),
     (''mime_type'', maybe (plain KKeyword)), (''name'', maybe (plain KKeyword)),
     (''size'', maybe (plain (KInteger None None)))]"

definition Attachment_model :: odm_model where
  "Attachment_model =
    [(''file'', maybe (plain (KCompound EmailFile_model)))]"

definition ParentEmail_model :: odm_model where
  "ParentEmail_model =
    [(''bcc'', maybe (plain (KCompound Address_model))), (''cc'', maybe (plain (KCompound Address_model))),
     (''from'', maybe (plain (KCompound Address_model))), (''message_id'', maybe (plain KKeyword)),
     (''origination_timestamp'', maybe (plain KDate)), (''subject'', maybe (plain KKeyword)),
     (''to'', maybe (plain (KCompound Address_model))), (''source'', maybe (plain KIP)),
     (''destination'', maybe (plain KIP))]"

definition EcsEmail_model :: odm_model where
  "EcsEmail_model =
    [(''attachments'', maybe (plain (KList (plain (KCompound Attachment_model))))),
     (''bcc'', maybe (plain (KCompound Address_model))), (''cc'', maybe (plain (KCompound Address_model))),
     (''content_type'', maybe (plain KKeyword)), (''delivery_timestamp'', maybe (plain KDate)),
     (''direction'', maybe (plain KKeyword)), (''from'', maybe (plain (KCompound Address_model))),
     (''local_id'', maybe (plain KKeyword)), (''message_id'', maybe (plain KKeyword)),
     (''origination_timestamp'', maybe (plain KDate)), (''reply_to'', maybe (plain (KCompound Address_model))),
     (''sender'', maybe (plain (KCompound Address_model))), (''subject'', maybe (plain KKeyword)),
     (''to'', maybe (plain (KCompound Address_model))), (''x_mailer'', maybe (plain KKeyword)),
     (''parent'', maybe (plain (KCompound ParentEmail_model)))]"

definition Error_model :: odm_model where
  "Error_model =
    [(''code'', maybe (plain KKeyword)), (''message'', maybe (plain KKeyword))]"

definition ECSEvent_model :: odm_model where
  "ECSEvent_model =
    [(''action'', maybe (plain KKeyword)),
     (''category'', maybe (plain (KList (plain (KEnum [''authentication'', ''configuration'', ''database'', ''driver'', ''email'', ''file'', ''host'', ''iam'', ''intrusion_detection'', ''malware'', ''network'', ''package'', ''process'', ''registry'', ''session'', ''threat'', ''web'']))))),
     (''code'', maybe (plain KKeyword)), (''count'', optional_kw (KInteger None None)),
     (''created'', maybe (plain KDate)), (''dataset'', maybe (plain KKeyword)),
     (''duration'', maybe (plain (KInteger None None))), (''end'', maybe (plain KDate)),
     (''hash'', maybe (plain KKeyword)), (''id'', maybe (plain KKeyword)),
     (''ingested'', mk_field KDate (PStr ''NOW'') False),
     (''kind'', maybe (plain (KEnum [''alert'', ''enrichment'', ''event'', ''metric'', ''state'', ''pipeline_error'', ''signal'']))),
     (''module'', maybe (plain KKeyword)), (''original'', maybe (plain KKeyword)),
     (''outcome'', maybe (plain (KEnum [''failure'', ''success'', ''unknown'']))),
     (''provider'', maybe (plain KKeyword)), (''reason'', maybe (plain KKeyword)),
     (''reference'', maybe (plain KKeyword)), (''risk_score'', maybe (plain KFloat)),
     (''risk_score_norm'', maybe (plain KFloat)), (''sequence'', maybe (plain (KInteger None None))),
     (''severity'', maybe (plain (KInteger None None))), (''start'', maybe (plain KDate)),
     (''timezone'', maybe (plain KKeyword)),
     (''type'', maybe (plain (KList (plain (KEnum [''access'', ''admin'', ''allowed'', ''change'', ''connection'', ''creation'', ''deletion'', ''denied'', ''end'', ''error'', ''group'', ''indicator'', ''info'', ''installation'', ''protocol'', ''start'', ''user'']))))),
     (''url'', maybe (plain KKeyword))]"

definition Trigger_model :: odm_model where
  "Trigger_model =
    [(''request_id'', maybe (plain KKeyword)),
     (''type'', maybe (plain (KEnum [''http'', ''pubsub'', ''datasource'', ''timer'', ''other''])))]"

definition FAAS_model :: odm_model where
  "FAAS_model =
    [(''coldstart'', maybe (plain KBoolean)), (''execution'', maybe (plain KKeyword)),
     (''id'', maybe (plain KKeyword)), (''name'', maybe (plain KKeyword)),
     (''trigger'', maybe (plain (KCompound Trigger_model))), (''version'', maybe (plain KKeyword))]"

definition PE_model :: odm_model where
  "PE_model =
    [(''architecture'', maybe (plain KKeyword)), (''company'', maybe (plain KKeyword)),
     (''description'', maybe (plain KKeyword)), (''file_version'', maybe (plain KKeyword)),
     (''imphash'', maybe (plain KKeyword)), (''original_file_name'', maybe (plain KKeyword)),
     (''pehash'', maybe (plain KKeyword)), (''product'', maybe (plain KKeyword))]"

definition EcsFile_model :: odm_model where
  "EcsFile_model =
    [(''accessed'', maybe (plain KDate)), (''attributes'', maybe (plain (KList (plain KKeyword)))),
     (''created'', maybe (plain KDate)), (''ctime'', maybe (plain KDate)), (''device'', maybe (plain KKeyword)),
     (''directory'', maybe (plain KKeyword)), (''drive_letter'', maybe (plain KKeyword)),
     (''extension'', maybe (plain KKeyword)), (''fork_name'', maybe (plain KKeyword)),
     (''gid'', maybe (plain KKeyword)), (''group'', maybe (plain KKeyword)),
     (''inode'', maybe (plain KKeyword)), (''mime_type'', maybe (plain KKeyword)),
     (''mode'', maybe (plain KKeyword)), (''mtime'', maybe (plain KDate)), (''name'', maybe (plain KKeyword)),
     (''owner'', maybe (plain KKeyword)), (''path'', maybe (plain KKeyword)),
     (''size'', optional_kw (KInteger None None)), (''target_path'', maybe (plain KKeyword)),
     (''type'', maybe (plain (KEnum [''file'', ''dir'', ''symlink'']))), (''uid'', maybe (plain KKeyword)),
     (''code_signature'', maybe (plain (KCompound CodeSignature_model))),
     (''elf'', maybe (plain (KCompound ELF_model))), (''hash'', maybe (plain (KCompound Hashes_model))),
     (''pe'', maybe (plain (KCompound PE_model)))]"

definition ShortGroup_model :: odm_model where
  "ShortGroup_model =
    [(''id'', maybe (plain KKeyword)), (''name'', maybe (plain KKeyword))]"

definition Host_model :: odm_model where
  "Host_model =
    [(''id'', maybe (plain KKeyword)), (''ip'', mk_field (KList (plain KIP)) (PList []) False),
     (''mac'', mk_field (KList (plain KKeyword)) (PList []) False), (''name'', maybe (plain KKeyword)),
     (''hostname'', maybe (plain KKeyword)), (''domain'', maybe (plain KKeyword)),
     (''type'', maybe (plain KKeyword))]"

definition Body_model :: odm_model where
  "Body_model =
    [(''bytes'', maybe (plain (KInteger None None))), (''content'', maybe (plain KKeyword))]"

definition Request_model :: odm_model where
  "Request_model =
    [(''body'', maybe (plain (KCompound Body_model))), (''bytes'', maybe (plain (KInteger None None))),
     (''id'', maybe (plain KKeyword)), (''method'', maybe (plain KKeyword)),
     (''mime_type'', maybe (plain KKeyword)), (''referrer'', maybe (plain KKeyword))]"

definition Response_model :: odm_model where
  "Response_model =
    [(''body'', maybe (plain (KCompound Body_model))), (''bytes'', maybe (plain (KInteger None None))),
     (''mime_type'', maybe (plain KKeyword)), (''status_code'', maybe (plain (KInteger None None)))]"

definition HTTP_model :: odm_model where
  "HTTP_model =
    [(''request'', maybe (plain (KCompound Request_model))),
     (''response'', maybe (plain (KCompound Response_model))), (''version'', maybe (plain KKeyword))]"

definition Interface_model :: odm_model where
  "Interface_model =
    [(''id'', optional_kw (KInteger None None)), (''name'', maybe (plain KKeyword))]"

definition Ingress_model :: odm_model where
  "Ingress_model =
    [(''zone'', maybe (plain KKeyword)), (''interface'', maybe (plain (KCompound Interface_model)))]"

definition Network_model :: odm_model where
  "Network_model =
    [(''direction'', optional_kw KKeyword), (''protocol'', maybe (plain KKeyword)),
     (''transport'', optional_kw KLowerKeyword)]"

definition Observer_model :: odm_model where
  "Observer_model =
    [(''egress'', maybe (plain (KCompound Egress_model))), (''hostname'', maybe (plain KKeyword)),
     (''ingress'', maybe (plain (KCompound Ingress_model))),
     (''interface'', maybe (plain (KCompound Interface_model))),
     (''ip'', mk_field (KList (plain KIP)) (PList []) False),
     (''mac'', mk_field (KList (plain KKeyword)) (PList []) False), (''name'', maybe (plain KKeyword)),
     (''product'', maybe (plain KKeyword)), (''serial_number'', maybe (plain KKeyword)),
     (''type'', maybe (plain KKeyword)), (''vendor'', maybe (plain KKeyword)),
     (''version'', maybe (plain KKeyword))]"

definition EcsOrganization_model :: odm_model where
  "EcsOrganization_model =
    [(''id'', maybe (plain KKeyword)), (''name'', plain KKeyword)]"

definition OS_model :: odm_model where
  "OS_model =
    [(''family'', maybe (plain KKeyword)), (''full'', maybe (plain KKeyword)),
     (''kernel'', maybe (plain KKeyword)), (''name'', maybe (plain KKeyword)),
     (''platform'', maybe (plain KKeyword)), (''type'', maybe (plain KKeyword)),
     (''version'', maybe (plain KKeyword))]"

definition CharDevice_model :: odm_model where
  "CharDevice_model =
    [(''major'', maybe (plain (KInteger None None))), (''minor'', maybe (plain (KInteger None None)))]"

definition TTY_model :: odm_model where
  "TTY_model =
    [(''char_device'', maybe (plain (KCompound CharDevice_model)))]"

definition Thread_model :: odm_model where
  "Thread_model =
    [(''id'', maybe (plain (KInteger None None))), (''name'', maybe (plain KKeyword))]"

definition EntryMeta_model :: odm_model where
  "EntryMeta_model =
    [(''type'', optional_kw KKeyword)]"

definition ShortUser_model :: odm_model where
  "ShortUser_model =
    [(''id'', maybe (plain KKeyword)), (''name'', maybe (plain KKeyword)), (''domain'', maybe (plain KKeyword)),
     (''email'', maybe (plain KEmail))]"

definition ParentParentProcess_model :: odm_model where
  "ParentParentProcess_model =
    [(''args'', maybe (plain (KList (plain KKeyword)))), (''args_count'', maybe (plain (KInteger None None))),
     (''code_signature'', maybe (plain (KCompound CodeSignature_model))),
     (''command_line'', maybe (plain KKeyword)), (''end'', maybe (plain KDate)),
     (''entity_id'', maybe (plain KKeyword)), (''entry_meta'', maybe (plain (KCompound EntryMeta_model))),
     (''env_vars'', maybe (plain (KMapping True (plain KKeyword)))), (''executable'', maybe (plain KKeyword)),
     (''exit_code'', maybe (plain (KInteger None None))), (''hash'', maybe (plain (KCompound Hashes_model))),
     (''interactive'', maybe (plain KBoolean)), (''name'', maybe (plain KKeyword)),
     (''pe'', maybe (plain (KCompound PE_model))), (''pid'', maybe (plain (KInteger None None))),
     (''same_as_process'', maybe (plain KBoolean)), (''start'', maybe (plain KDate)),
     (''title'', maybe (plain KKeyword)), (''uptime'', maybe (plain (KInteger None None))),
     (''user'', maybe (plain (KCompound ShortUser_model))), (''working_directory'', maybe (plain KKeyword))]"

definition ParentProcess_model :: odm_model where
  "ParentProcess_model =
    [(''args'', maybe (plain (KList (plain KKeyword)))), (''args_count'', maybe (plain (KInteger None None))),
     (''code_signature'', maybe (plain (KCompound CodeSignature_model))),
     (''command_line'', maybe (plain KKeyword)), (''end'', maybe (plain KDate)),
     (''entity_id'', maybe (plain KKeyword)), (''entry_meta'', maybe (plain (KCompound EntryMeta_model))),
     (''env_vars'', maybe (plain (KMapping True (plain KKeyword)))), (''executable'', maybe (plain KKeyword)),
     (''exit_code'', maybe (plain (KInteger None None))), (''hash'', maybe (plain (KCompound Hashes_model))),
     (''interactive'', maybe (plain KBoolean)), (''name'', maybe (plain KKeyword)),
     (''parent'', maybe (plain (KCompound ParentParentProcess_model))),
     (''pe'', maybe (plain (KCompound PE_model))), (''pid'', maybe (plain (KInteger None None))),
     (''same_as_process'', maybe (plain KBoolean)), (''start'', maybe (plain KDate)),
     (''title'', maybe (plain KKeyword)), (''uptime'', maybe (plain (KInteger None None))),
     (''user'', maybe (plain (KCompound ShortUser_model))), (''working_directory'', maybe (plain KKeyword))]"

definition Process_model :: odm_model where
  "Process_model =
    [(''args'', maybe (plain (KList (plain KKeyword)))), (''args_count'', maybe (plain (KInteger None None))),
     (''code_signature'', maybe (plain (KCompound CodeSignature_model))),
     (''command_line'', maybe (plain KKeyword)), (''end'', maybe (plain KDate)),
     (''entity_id'', maybe (plain KKeyword)), (''entry_meta'', maybe (plain (KCompound EntryMeta_model))),
     (''env_vars'', maybe (plain (KMapping True (plain KKeyword)))), (''executable'', maybe (plain KKeyword)),
     (''exit_code'', maybe (plain (KInteger None None))), (''hash'', maybe (plain (KCompound Hashes_model))),
     (''interactive'', maybe (plain KBoolean)), (''name'', maybe (plain KKeyword)),
     (''parent'', maybe (plain (KCompound ParentProcess_model))), (''pe'', maybe (plain (KCompound PE_model))),
     (''pid'', maybe (plain (KInteger None None))), (''same_as_process'', maybe (plain KBoolean)),
     (''start'', maybe (plain KDate)), (''title'', maybe (plain KKeyword)),
     (''uptime'', maybe (plain (KInteger None None))), (''user'', maybe (plain (KCompound ShortUser_model))),
     (''working_directory'', maybe (plain KKeyword))]"

definition RegistryData_model :: odm_model where
  "RegistryData_model =
    [(''bytes'', maybe (plain KKeyword)), (''strings'', maybe (plain (KList (plain KKeyword)))),
     (''type'', maybe (plain KKeyword))]"

definition Registry_model :: odm_model where
  "Registry_model =
    [(''data'', maybe (plain (KCompound RegistryData_model))), (''hive'', maybe (plain KKeyword)),
     (''key'', maybe (plain KKeyword)), (''path'', maybe (plain KKeyword)), (''value'', maybe (plain KKeyword))]"

definition Related_model :: odm_model where
  "Related_model =
    [(''hash'', mk_field (KList (plain KKeyword)) (PList []) False),
     (''hosts'', mk_field (KList (plain KKeyword)) (PList []) False),
     (''ip'', mk_field (KList (plain KIP)) (PList []) False),
     (''user'', mk_field (KList (plain KKeyword)) (PList []) False),
     (''ids'', mk_field (KList (plain KKeyword)) (PList []) False), (''id'', maybe (plain KKeyword)),
     (''uri'', maybe (plain (KList (plain KURI)))), (''signature'', maybe (plain (KList (plain KKeyword))))]"

definition Rule_model :: odm_model where
  "Rule_model =
    [(''author'', maybe (plain KKeyword)), (''category'', maybe (plain KKeyword)),
     (''description'', maybe (plain KKeyword)), (''id'', maybe (plain KKeyword)),
     (''license'', maybe (plain KKeyword)), (''name'', maybe (plain KKeyword)),
     (''reference'', maybe (plain KKeyword)), (''ruleset'', maybe (plain KKeyword)),
     (''uuid'', maybe (plain KKeyword)), (''version'', maybe (plain KKeyword))]"

definition EcsServer_model :: odm_model where
  "EcsServer_model =
    [(''ip'', maybe (plain KIP)), (''address'', maybe (plain KKeyword)), (''domain'', maybe (plain KKeyword))]"

definition ThreatEmail_model :: odm_model where
  "ThreatEmail_model =
    [(''address'', maybe (plain KKeyword))]"

definition SubTechnique_model :: odm_model where
  "SubTechnique_model =
    [(''id'', maybe (plain KKeyword)), (''name'', maybe (plain KKeyword)),
     (''reference'', maybe (plain KKeyword))]"

definition Technique_model :: odm_model where
  "Technique_model =
    [(''id'', maybe (plain KKeyword)), (''name'', maybe (plain KKeyword)),
     (''reference'', maybe (plain KKeyword)), (''subtechnique'', maybe (plain (KCompound SubTechnique_model)))]"

definition Tactic_model :: odm_model where
  "Tactic_model =
    [(''id'', maybe (plain KKeyword)), (''name'', maybe (plain KKeyword)),
     (''reference'', maybe (plain KKeyword))]"

definition Software_model :: odm_model where
  "Software_model =
    [(''alias'', maybe (plain (KList (plain KKeyword)))), (''id'', maybe (plain KKeyword)),
     (''name'', maybe (plain KKeyword)), (''platform'', maybe (plain (KList (plain KKeyword)))),
     (''reference'', maybe (plain KKeyword)), (''type'', maybe (plain KKeyword))]"

definition ThreatGroup_model :: odm_model where
  "ThreatGroup_model =
    [(''alias'', maybe (plain (KList (plain KKeyword)))), (''id'', maybe (plain KKeyword)),
     (''name'', maybe (plain KKeyword)), (''reference'', maybe (plain KKeyword))]"

definition Feed_model :: odm_model where
  "Feed_model =
    [(''dashboard_id'', maybe (plain KKeyword)), (''description'', maybe (plain KKeyword)),
     (''name'', maybe (plain KKeyword)), (''reference'', maybe (plain KKeyword))]"

definition Indicator_model :: odm_model where
  "Indicator_model =
    [(''confidence'', maybe (plain KKeyword)), (''description'', maybe (plain KText)),
     (''email'', maybe (plain (KCompound ThreatEmail_model))),
     (''file'', maybe (plain (KCompound EcsFile_model))), (''provider'', maybe (plain KKeyword)),
     (''reference'', maybe (plain KKeyword)), (''scanner_stats'', optional_kw (KInteger None None)),
     (''sightings'', optional_kw (KInteger None None)), (''ip'', maybe (plain KIP)),
     (''type'', maybe (plain KKeyword)), (''first_seen'', maybe (plain KDate)),
     (''last_seen'', maybe (plain KDate)), (''port'', optional_kw (KInteger None None))]"

definition Matched_model :: odm_model where
  "Matched_model =
    [(''atomic'', maybe (plain KKeyword))]"

definition Enrichments_model :: odm_model where
  "Enrichments_model =
    [(''indicator'', maybe (plain (KCompound Indicator_model))),
     (''matched'', maybe (plain (KCompound Matched_model)))]"

definition Threat_model :: odm_model where
  "Threat_model =
    [(''enrichments'', maybe (plain (KList (plain (KCompound Enrichments_model))))),
     (''feed'', maybe (plain (KCompound Feed_model))), (''framework'', maybe (plain KKeyword)),
     (''group'', maybe (plain (KCompound ThreatGroup_model))),
     (''indicator'', maybe (plain (KCompound Indicator_model))),
     (''software'', maybe (plain (KCompound Software_model))),
     (''tactic'', maybe (plain (KCompound Tactic_model))),
     (''technique'', maybe (plain (KCompound Tactic_model)))]"

definition TlsServer_model :: odm_model where
  "TlsServer_model =
    [(''ja3s'', maybe (plain KKeyword))]"

definition TlsClient_model :: odm_model where
  "TlsClient_model =
    [(''server_name'', maybe (plain KKeyword)), (''ja3'', maybe (plain KKeyword))]"

definition TLS_model :: odm_model where
  "TLS_model =
    [(''version'', maybe (plain KKeyword)), (''version_protocol'', maybe (plain KKeyword)),
     (''client'', maybe (plain (KCompound TlsClient_model))),
     (''server'', maybe (plain (KCompound TlsServer_model)))]"

definition URL_model :: odm_model where
  "URL_model =
    [(''domain'', maybe (plain (KDomain True))), (''extension'', maybe (plain KKeyword)),
     (''fragment'', maybe (plain KKeyword)), (''full'', maybe (plain KKeyword)),
     (''original'', maybe (plain KKeyword)), (''password'', maybe (plain KKeyword)),
     (''path'', maybe (plain KKeyword)), (''port'', maybe (plain (KInteger None None))),
     (''query'', maybe (plain KKeyword)), (''registered_domain'', maybe (plain KKeyword)),
     (''scheme'', maybe (plain KKeyword)), (''subdomain'', maybe (plain KKeyword)),
     (''top_level_domain'', maybe (plain KKeyword)), (''username'', maybe (plain KKeyword))]"

definition UserNested_model :: odm_model where
  "UserNested_model =
    [(''domain'', maybe (plain KKeyword)), (''email'', maybe (plain KEmail)),
     (''full_name'', maybe (plain KKeyword)), (''hash'', maybe (plain KKeyword)),
     (''id'', maybe (plain KKeyword)), (''name'', maybe (plain KKeyword)),
     (''roles'', maybe (mk_field (KList (plain KKeyword)) (PList []) False))]"

definition Device_model :: odm_model where
  "Device_model =
    [(''name'', maybe (plain KKeyword))]"

definition UserAgent_model :: odm_model where
  "UserAgent_model =
    [(''device'', maybe (plain (KCompound Device_model))), (''name'', maybe (plain KKeyword)),
     (''original'', maybe (plain KKeyword)), (''os'', maybe (plain (KCompound OS_model))),
     (''version'', maybe (plain KKeyword))]"

definition Vulnerability_model :: odm_model where
  "Vulnerability_model =
    [(''category'', maybe (plain (KList (plain KKeyword)))), (''classification'', maybe (plain KKeyword)),
     (''description'', maybe (plain KKeyword)), (''enumeration'', maybe (plain KKeyword)),
     (''id'', maybe (plain KKeyword)), (''reference'', maybe (plain KKeyword)),
     (''report_id'', maybe (plain KKeyword))]"

end
