(* ===== verification/RecordSchema.thy ===== *)
theory RecordSchema
  imports EcsSchema
begin

text \<open>
  What every stored record shares (\<^verbatim>\<open>odm/models/record.py\<close>): the fields of \<^verbatim>\<open>Record\<close> and of the classes beside
  the common schema. The default classification is the unrestricted one of the engine.
\<close>

definition ALRecord_model :: odm_model where
  "ALRecord_model =
    [(''type'', maybe (plain KKeyword)), (''subtype'', maybe (plain KKeyword)),
     (''value'', maybe (plain KKeyword)), (''verdict'', maybe (plain KKeyword))]"

definition Mitre_model :: odm_model where
  "Mitre_model =
    [(''tactic'', mk_field (KList (plain (KCompound ALRecord_model))) (PList []) False),
     (''technique'', mk_field (KList (plain (KCompound ALRecord_model))) (PList []) False)]"

definition AssemblyLine_model :: odm_model where
  "AssemblyLine_model =
    [(''antivirus'', mk_field (KList (plain (KCompound ALRecord_model))) (PList []) False),
     (''attribution'', mk_field (KList (plain (KCompound ALRecord_model))) (PList []) False),
     (''behaviour'', mk_field (KList (plain (KCompound ALRecord_model))) (PList []) False),
     (''domain'', mk_field (KList (plain (KCompound ALRecord_model))) (PList []) False),
     (''heuristic'', mk_field (KList (plain (KCompound ALRecord_model))) (PList []) False),
     (''mitre'', odm_Optional (plain (KCompound Mitre_model)) (PDict [(''tactic'', PList []), (''technique'', PList [])])),
     (''uri'', mk_field (KList (plain (KCompound ALRecord_model))) (PList []) False),
     (''yara'', mk_field (KList (plain (KCompound ALRecord_model))) (PList []) False)]"

definition AwsAccount_model :: odm_model where
  "AwsAccount_model =
    [(''id'', maybe (plain KKeyword)), (''name'', maybe (plain KKeyword))]"

definition AwsOrganization_model :: odm_model where
  "AwsOrganization_model =
    [(''id'', maybe (plain KKeyword)), (''organizational_unit'', maybe (plain KKeyword))]"

definition AWS_model :: odm_model where
  "AWS_model =
    [(''account'', maybe (plain (KCompound AwsAccount_model))),
     (''organization'', maybe (plain (KCompound AwsOrganization_model)))]"

definition Azure_model :: odm_model where
  "Azure_model =
    [(''subscription_id'', maybe (plain KKeyword)), (''tenant_id'', maybe (plain KKeyword)),
     (''resource_group'', maybe (plain KKeyword)), (''upn'', maybe (plain KKeyword)),
     (''resource_id'', maybe (plain KKeyword))]"

definition SharepointUser_model :: odm_model where
  "SharepointUser_model =
    [(''email'', maybe (plain KEmail)), (''full_name'', maybe (plain KKeyword)),
     (''id'', maybe (plain KKeyword))]"

definition SharepointData_model :: odm_model where
  "SharepointData_model =
    [(''application'', maybe (plain KKeyword)), (''user'', maybe (plain KKeyword))]"

definition Sharepoint_model :: odm_model where
  "Sharepoint_model =
    [(''created'', maybe (plain (KCompound SharepointData_model))),
     (''modified'', maybe (plain (KCompound SharepointData_model)))]"

definition CBS_model :: odm_model where
  "CBS_model =
    [(''sharepoint'', maybe (plain (KCompound Sharepoint_model)))]"

definition GCP_model :: odm_model where
  "GCP_model =
    [(''project_id'', maybe (plain KKeyword)), (''network_id'', maybe (plain KKeyword)),
     (''zone'', maybe (plain KKeyword)), (''service_account_id'', maybe (plain KKeyword)),
     (''resource_id'', maybe (plain KKeyword))]"

definition ECSVersion_model :: odm_model where
  "ECSVersion_model =
    [(''version'', mk_field KKeyword (PStr ''8.3.0'') False)]"

definition Record_model :: "string \<Rightarrow> odm_model" where
  "Record_model unrestricted =
    [(''timestamp'', mk_field KDate (PStr ''NOW'') False),
     (''classification'', mk_field (KClassification False) (PStr unrestricted) False),
     (''labels'', mk_field (KMapping False (plain KKeyword)) (PDict []) False),
     (''tags'', mk_field (KList (plain KKeyword)) (PList []) False),
     (''message'', mk_field KKeyword (PStr '''') False),
     (''assemblyline'', maybe (plain (KCompound AssemblyLine_model))),
     (''agent'', maybe (plain (KCompound Agent_model))), (''aws'', maybe (plain (KCompound AWS_model))),
     (''azure'', maybe (plain (KCompound Azure_model))), (''cbs'', maybe (plain (KCompound CBS_model))),
     (''cloud'', maybe (plain (KCompound Cloud_model))),
     (''container'', maybe (plain (KCompound Container_model))),
     (''destination'', maybe (plain (KCompound EcsClient_model))),
     (''dns'', maybe (plain (KCompound DNS_model))),
     (''ecs'', mk_field (KCompound ECSVersion_model) (PDict []) False),
     (''error'', maybe (plain (KCompound Error_model))), (''event'', maybe (plain (KCompound ECSEvent_model))),
     (''email'', maybe (plain (KCompound EcsEmail_model))), (''faas'', maybe (plain (KCompound FAAS_model))),
     (''file'', maybe (plain (KCompound EcsFile_model))), (''gcp'', maybe (plain (KCompound GCP_model))),
     (''group'', maybe (plain (KCompound EcsGroup_model))), (''host'', maybe (plain (KCompound Host_model))),
     (''http'', maybe (plain (KCompound HTTP_model))), (''observer'', maybe (plain (KCompound Observer_model))),
     (''interface'', maybe (plain (KCompound Interface_model))),
     (''network'', maybe (plain (KCompound Network_model))),
     (''organization'', maybe (plain (KCompound EcsOrganization_model))),
     (''process'', maybe (plain (KCompound Process_model))),
     (''registry'', maybe (plain (KCompound Registry_model))),
     (''related'', maybe (plain (KCompound Related_model))), (''rule'', maybe (plain (KCompound Rule_model))),
     (''server'', maybe (plain (KCompound EcsServer_model))),
     (''source'', maybe (plain (KCompound EcsClient_model))),
     (''threat'', maybe (plain (KCompound Threat_model))), (''tls'', maybe (plain (KCompound TLS_model))),
     (''url'', maybe (plain (KCompound URL_model))), (''user'', maybe (plain (KCompound EcsUser_model))),
     (''user_agent'', maybe (plain (KCompound UserAgent_model))),
     (''vulnerability'', maybe (plain (KCompound Vulnerability_model)))]"

end
