(* ===== verification/HowlerData.thy ===== *)
theory HowlerData
  imports RecordSchema
begin

text \<open>
  The schema of the \<^verbatim>\<open>howler\<close> section of a hit (\<^verbatim>\<open>odm/models/howler_data.py\<close>, \<^verbatim>\<open>odm/models/lead.py\<close>):
  every model class of the file as the list of its fields, and the flat field names the update
  operations are checked against.
\<close>

definition Link_model :: odm_model where
  "Link_model =
    [(''href'', plain KKeyword), (''title'', optional_kw KKeyword), (''icon'', optional_kw KKeyword)]"

definition Comment_model :: odm_model where
  "Comment_model =
    [(''id'', odm_UUID),
     (''timestamp'', mk_field KDate (PStr ''NOW'') False),
     (''modified'', mk_field KDate (PStr ''NOW'') False),
     (''value'', plain KText),
     (''user'', plain KKeyword),
     (''reactions'', mk_field (KMapping True (plain KKeyword)) (PDict []) False)]"

definition Log_model :: odm_model where
  "Log_model =
    [(''timestamp'', plain KDate),
     (''key'', odm_Optional (plain KKeyword) PNone),
     (''explanation'', odm_Optional (plain KText) PNone),
     (''previous_version'', odm_Optional (plain KKeyword) PNone),
     (''new_value'', odm_Optional (plain KKeyword) PNone),
     (''type'', odm_Optional (plain (KEnum (enum_list HitOperationType))) PNone),
     (''previous_value'', odm_Optional (plain KKeyword) PNone),
     (''user'', plain KKeyword)]"

definition keyword_list :: field where
  "keyword_list = mk_field (KList (plain KKeyword)) (PList []) False"

definition Header_model :: odm_model where
  "Header_model =
    [(''threat'', odm_Optional (plain KKeyword) PNone),
     (''target'', odm_Optional (plain KKeyword) PNone),
     (''indicators'', keyword_list),
     (''summary'', odm_Optional (plain KKeyword) PNone)]"

definition Incident_model :: odm_model where
  "Incident_model =
    [(''platform'', plain KKeyword), (''incident_id'', optional_kw KKeyword),
     (''url'', optional_kw KKeyword)]"

definition Label_model :: odm_model where
  "Label_model =
    [(''assignments'', keyword_list), (''generic'', keyword_list), (''insight'', keyword_list),
     (''mitigation'', keyword_list), (''victim'', keyword_list), (''campaign'', keyword_list),
     (''threat'', keyword_list), (''tuning'', keyword_list), (''operation'', keyword_list)]"

definition Votes_model :: odm_model where
  "Votes_model = [(''benign'', keyword_list), (''obscure'', keyword_list), (''malicious'', keyword_list)]"

definition LocalizedLabel_model :: odm_model where
  "LocalizedLabel_model = [(''en'', plain KText), (''fr'', plain KText)]"

definition Lead_model :: odm_model where
  "Lead_model =
    [(''icon'', optional_kw KText),
     (''label'', plain (KCompound LocalizedLabel_model)),
     (''format'', plain KKeyword),
     (''content'', plain KText),
     (''metadata'', optional_kw KJson)]"

definition DEFAULT_VOTES :: py where
  "DEFAULT_VOTES = PDict (map (\<lambda>v. (v, PList [])) (enum_list Vote))"

definition DEFAULT_LABELS :: py where
  "DEFAULT_LABELS = PDict [(''assignments'', PList []), (''generic'', PList [])]"

definition DEFAULT_ASSIGNMENT :: string where
  "DEFAULT_ASSIGNMENT = ''unassigned''"

definition HowlerData_model :: odm_model where
  "HowlerData_model =
    [(''id'', odm_UUID),
     (''analytic'', plain KCaseInsensitiveKeyword),
     (''assignment'', mk_field KKeyword (PStr DEFAULT_ASSIGNMENT) False),
     (''data'', keyword_list),
     (''links'', mk_field (KList (plain (KCompound Link_model))) (PList []) False),
     (''detection'', odm_Optional (plain KCaseInsensitiveKeyword) PNone),
     (''hash'', plain (KValidated HOWLER_HASH_REGEX)),
     (''related'', keyword_list),
     (''reliability'', odm_Optional (plain KFloat) PNone),
     (''severity'', odm_Optional (plain KFloat) PNone),
     (''volume'', odm_Optional (plain KFloat) PNone),
     (''confidence'', odm_Optional (plain KFloat) PNone),
     (''score'', odm_Optional (mk_field KFloat (PInt 0) False) PNone),
     (''status'', mk_field (KEnum (enum_list Status)) (PStr (status_value OPEN)) False),
     (''scrutiny'', mk_field (KEnum (enum_list Scrutiny)) (PStr ''unseen'') False),
     (''escalation'', mk_field (KEnum (enum_list Escalation)) (PStr (escalation_value HIT)) False),
     (''expiry'', odm_Optional (plain KDate) PNone),
     (''assessment'', odm_Optional (plain (KEnum (enum_list Assessment))) PNone),
     (''rationale'', odm_Optional (plain KKeyword) PNone),
     (''triaged'', odm_Optional (plain KDate) PNone),
     (''comment'', mk_field (KList (plain (KCompound Comment_model))) (PList []) False),
     (''log'', mk_field (KList (plain (KCompound Log_model))) (PList []) False),
     (''monitored'', odm_Optional (plain KKeyword) PNone),
     (''reported'', odm_Optional (plain KKeyword) PNone),
     (''mitigated'', odm_Optional (plain KKeyword) PNone),
     (''outline'', odm_Optional (plain (KCompound Header_model)) PNone),
     (''incidents'', mk_field (KList (plain (KCompound Incident_model))) (PList []) False),
     (''labels'', odm_Optional (plain (KCompound Label_model)) DEFAULT_LABELS),
     (''votes'', odm_Optional (plain (KCompound Votes_model)) DEFAULT_VOTES),
     (''dossier'', mk_field (KList (plain (KCompound Lead_model))) (PList []) False)]"

text \<open>
  \<^verbatim>\<open>Hit\<close> extends the shared record schema with the \<^verbatim>\<open>howler\<close> compound. The names of its fields do not depend on
  the unrestricted classification, for which the one of the shipped \<^verbatim>\<open>common/classification.yml\<close> stands in.
\<close>

definition Hit_model :: "string \<Rightarrow> odm_model" where
  "Hit_model unrestricted = Record_model unrestricted @ [(''howler'', plain (KCompound HowlerData_model))]"

definition UNRESTRICTED :: string where "UNRESTRICTED = ''TLP:W''"

definition hit_flat_fields :: "(string, field \<times> bool) dict" where
  "hit_flat_fields = flat_fields False (Hit_model UNRESTRICTED)"

section \<open>The keys of the howler section\<close>

text \<open>Every flat name begins with the name of its field, so the record schema has none that begins with \<^verbatim>\<open>howler.\<close>.\<close>

definition howler_flat :: "(string, field \<times> bool) dict" where
  "howler_flat = flat_field False ''howler'' (plain (KCompound HowlerData_model)) False"

lemma hit_flat_split: "hit_flat_fields = flat_fields False (Record_model UNRESTRICTED) @ howler_flat"
  by (simp add: hit_flat_fields_def flat_fields_def Hit_model_def howler_flat_def is_list_field_def mk_field_def)

lemma flat_names:
  "kf \<in> set (flat_field sc name f mult) \<Longrightarrow> py_startswith (fst kf) name \<and> (fst kf = name \<or> py_startswith (fst kf) (dotted name []))"
  "kf \<in> set (flat_peel sc name f mult) \<Longrightarrow> py_startswith (fst kf) name \<and> (fst kf = name \<or> py_startswith (fst kf) (dotted name []))"
  "kf \<in> set (flat_subs sc name fs mult) \<Longrightarrow> py_startswith (fst kf) name \<and> (fst kf = name \<or> py_startswith (fst kf) (dotted name []))"
  "kf \<in> set (flat_sub sc name f mult) \<Longrightarrow> py_startswith (fst kf) name \<and> (fst kf = name \<or> py_startswith (fst kf) (dotted name []))"
  by (induction sc name f mult and sc name f mult and sc name fs mult and sc name f mult
      rule: flat_field_flat_peel_flat_subs_flat_sub.induct)
    (auto simp: compound_entry_def startswith_iff dotted_def split: field_kind.splits if_splits)


lemma record_names: "n \<in> set (map fst (Record_model u)) \<Longrightarrow> CHR ''.'' \<notin> set n \<and> n \<noteq> ''howler''"
proof -
  have "list_all (\<lambda>n. CHR ''.'' \<notin> set n \<and> n \<noteq> ''howler'') (map fst (Record_model u))"
    by (simp add: Record_model_def)
  then show "n \<in> set (map fst (Record_model u)) \<Longrightarrow> CHR ''.'' \<notin> set n \<and> n \<noteq> ''howler''"
    by (auto simp: list_all_iff)
qed

lemma record_not_howler:
  assumes "kf \<in> set (flat_fields False (Record_model u))"
  shows "\<not> py_startswith (fst kf) ''howler.''"
proof
  assume how: "py_startswith (fst kf) ''howler.''"
  obtain n f where n: "(n, f) \<in> set (Record_model u)" and kf: "kf \<in> set (flat_field False n f (is_list_field f))"
    using assms by (auto simp: flat_fields_def)
  have nd: "CHR ''.'' \<notin> set n" and nh: "n \<noteq> ''howler''"
    using record_names [of n u] n by force+
  obtain t where t: "fst kf = ''howler'' @ CHR ''.'' # t" using how by (auto simp: startswith_iff)
  have "fst kf = n \<or> (\<exists>v. fst kf = n @ CHR ''.'' # v)"
    using flat_names(1) [OF kf] by (auto simp: startswith_iff dotted_def)
  then show False
  proof (elim disjE exE)
    assume "fst kf = n"
    with nd t show False by simp
  next
    fix v assume v: "fst kf = n @ CHR ''.'' # v"
    have "takeWhile (\<lambda>c. c \<noteq> CHR ''.'') (w @ CHR ''.'' # x) = w" if "CHR ''.'' \<notin> set w" for w x
      using that by (induction w) auto
    from this [of n v] this [of "''howler''" t] t v nd have "n = ''howler''" by simp
    with nh show False by simp
  qed
qed

end
