(* ===== verification/Operations.thy ===== *)
theory Operations
  imports HowlerData
begin

text \<open>
  Update operations: \<^verbatim>\<open>OdmHelper\<close> and \<^verbatim>\<open>OdmUpdateOperation\<close> (\<^verbatim>\<open>datastore/operations.py\<close>), the script
  \<^verbatim>\<open>ESCollection._create_scripts_from_operations\<close> generates for them, and what the generated
  statements do to a stored document. A document is the map from the dotted path of each leaf of
  \<^verbatim>\<open>_source\<close> to its value.
\<close>

section \<open>Operations\<close>

datatype update_op =
    UPDATE_SET | UPDATE_INC | UPDATE_DEC | UPDATE_MAX | UPDATE_MIN
  | UPDATE_APPEND | UPDATE_APPEND_IF_MISSING | UPDATE_REMOVE | UPDATE_DELETE

record odm_update =
  upd_op :: update_op
  upd_key :: string
  upd_value :: py
  upd_explanation :: "string option"
  upd_silent :: bool

text \<open>A helper built without a model has no name and no valid fields.\<close>

record odm_helper =
  helper_model_name :: "string option"
  helper_fields :: "(string, field \<times> bool) dict"

definition mk_helper :: "(string \<times> (string, field \<times> bool) dict) option \<Rightarrow> odm_helper" where
  "mk_helper obj = (case obj of
      None \<Rightarrow> \<lparr>helper_model_name = None, helper_fields = []\<rparr>
    | Some (n, fs) \<Rightarrow> \<lparr>helper_model_name = Some n, helper_fields = fs\<rparr>)"

definition key_not_found :: "odm_helper \<Rightarrow> string \<Rightarrow> exn" where
  "key_not_found h key =
     Exn EHowlerValue (''Key '' @ key @ '' not found in '' @
       (case helper_model_name h of None \<Rightarrow> ''None'' | Some n \<Rightarrow> n))"

definition has_list_field :: "odm_helper \<Rightarrow> string \<Rightarrow> bool" where
  "has_list_field h key \<longleftrightarrow> list_ex (\<lambda>(k, (f, m)). py_startswith k key \<and> m) (helper_fields h)"

definition list_add ::
    "odm_helper \<Rightarrow> string \<Rightarrow> py \<Rightarrow> string option \<Rightarrow> bool \<Rightarrow> bool \<Rightarrow> odm_update result" where
  "list_add h key value explanation silent if_missing =
     (if helper_fields h \<noteq> [] \<and> \<not> has_list_field h key then Inl (key_not_found h key)
      else Inr \<lparr>upd_op = (if if_missing then UPDATE_APPEND_IF_MISSING else UPDATE_APPEND),
                upd_key = key, upd_value = value, upd_explanation = explanation,
                upd_silent = silent\<rparr>)"

definition list_remove ::
    "odm_helper \<Rightarrow> string \<Rightarrow> py \<Rightarrow> string option \<Rightarrow> bool \<Rightarrow> odm_update result" where
  "list_remove h key value explanation silent =
     (if helper_fields h \<noteq> [] \<and> \<not> has_list_field h key then Inl (key_not_found h key)
      else Inr \<lparr>upd_op = UPDATE_REMOVE, upd_key = key, upd_value = value,
                upd_explanation = explanation, upd_silent = silent\<rparr>)"

definition helper_update ::
    "odm_helper \<Rightarrow> string \<Rightarrow> py \<Rightarrow> string option \<Rightarrow> bool \<Rightarrow> odm_update result" where
  "helper_update h key value explanation silent =
     (if helper_fields h \<noteq> [] \<and> key \<notin> set (map fst (helper_fields h))
      then Inl (key_not_found h key)
      else Inr \<lparr>upd_op = UPDATE_SET, upd_key = key, upd_value = value,
                upd_explanation = explanation, upd_silent = silent\<rparr>)"

text \<open>\<^verbatim>\<open>odm_helper = OdmHelper(Hit)\<close>\<close>

definition hit_helper :: odm_helper where
  "hit_helper = mk_helper (Some (''Hit'', hit_flat_fields))"

section \<open>Documents and scripts\<close>

type_synonym doc = "string \<Rightarrow> py option"

text \<open>
  \<^verbatim>\<open>_create_scripts_from_operations\<close>: one statement per operation, referring to its value as the
  parameter \<^verbatim>\<open>value<i>\<close>; the statements joined by \<^verbatim>\<open>;\<close> and a newline, with the semicolon dropped
  after a closing brace.
\<close>

definition script_statement :: "nat \<Rightarrow> update_op \<Rightarrow> string \<Rightarrow> string" where
  "script_statement i opr key =
     (let fld = ''ctx._source.'' @ key; v = ''params.value'' @ str_nat i in
      case opr of
        UPDATE_SET \<Rightarrow> fld @ '' = '' @ v
      | UPDATE_DELETE \<Rightarrow> fld @ ''.remove('' @ v @ '')''
      | UPDATE_APPEND \<Rightarrow> fld @ ''.add('' @ v @ '')''
      | UPDATE_APPEND_IF_MISSING \<Rightarrow>
          ''if ('' @ fld @ ''.indexOf('' @ v @ '') == -1) {'' @ fld @ ''.add('' @ v @ '')}''
      | UPDATE_REMOVE \<Rightarrow>
          ''if ('' @ fld @ ''.indexOf('' @ v @ '') != -1) {'' @ fld @ ''.remove('' @ fld @
          ''.indexOf('' @ v @ ''))}''
      | UPDATE_INC \<Rightarrow> fld @ '' += '' @ v
      | UPDATE_DEC \<Rightarrow> fld @ '' -= '' @ v
      | UPDATE_MAX \<Rightarrow>
          ''if ('' @ fld @ '' == null || '' @ fld @ ''.compareTo('' @ v @ '') < 0) {'' @ fld @
          '' = '' @ v @ ''}''
      | UPDATE_MIN \<Rightarrow>
          ''if ('' @ fld @ '' == null || '' @ fld @ ''.compareTo('' @ v @ '') > 0) {'' @ fld @
          '' = '' @ v @ ''}'')"

record es_script =
  script_source :: string
  script_params :: "(string, py) dict"

definition newline :: char where
  "newline = CHR 0x0A"

definition create_script :: "(update_op \<times> string \<times> py) list \<Rightarrow> es_script" where
  "create_script ops =
     (let idx = enumerate 0 ops;
          stmts = map (\<lambda>(i, (opr, key, value)). script_statement i opr key) idx;
          joined = py_join ('';'' @ [newline]) stmts
      in \<lparr>script_source = py_replace (''};'' @ [newline]) (''}'' @ [newline]) joined,
          script_params = map (\<lambda>(i, (opr, key, value)). (''value'' @ str_nat i, value)) idx\<rparr>)"

text \<open>
  What one statement does to the document, as the script language evaluates it: \<^verbatim>\<open>add\<close>, \<^verbatim>\<open>indexOf\<close>
  and \<^verbatim>\<open>remove\<close> need a list, \<^verbatim>\<open>+=\<close> and \<^verbatim>\<open>-=\<close> numbers; anything else aborts the script. A missing
  field reads as null.
\<close>

definition doc_get :: "doc \<Rightarrow> string \<Rightarrow> py" where
  "doc_get d k = (case d k of None \<Rightarrow> PNone | Some v \<Rightarrow> v)"

fun py_less :: "py \<Rightarrow> py \<Rightarrow> bool option" where
  "py_less (PInt a) (PInt b) = Some (a < b)"
| "py_less (PStr a) (PStr b) = Some (a < b)"
| "py_less _ _ = None"

fun remove_at :: "nat \<Rightarrow> 'a list \<Rightarrow> 'a list" where
  "remove_at n [] = []"
| "remove_at 0 (x # xs) = xs"
| "remove_at (Suc n) (x # xs) = x # remove_at n xs"

fun apply_op :: "doc \<Rightarrow> update_op \<times> string \<times> py \<Rightarrow> doc option" where
  "apply_op d (UPDATE_SET, k, v) = Some (d(k \<mapsto> v))"
| "apply_op d (UPDATE_APPEND, k, v) =
     (case doc_get d k of PList xs \<Rightarrow> Some (d(k \<mapsto> PList (xs @ [v]))) | _ \<Rightarrow> None)"
| "apply_op d (UPDATE_APPEND_IF_MISSING, k, v) =
     (case doc_get d k of
        PList xs \<Rightarrow> Some (if v \<in> set xs then d else d(k \<mapsto> PList (xs @ [v])))
      | _ \<Rightarrow> None)"
| "apply_op d (UPDATE_REMOVE, k, v) =
     (case doc_get d k of
        PList xs \<Rightarrow> Some (if v \<in> set xs then d(k \<mapsto> PList (remove1 v xs)) else d)
      | _ \<Rightarrow> None)"
| "apply_op d (UPDATE_DELETE, k, v) =
     (case (doc_get d k, v) of
        (PDict m, PStr s) \<Rightarrow> Some (d(k \<mapsto> PDict (dpop m s)))
      | (PList xs, PInt i) \<Rightarrow>
          (if 0 \<le> i \<and> nat i < length xs then Some (d(k \<mapsto> PList (remove_at (nat i) xs))) else None)
      | _ \<Rightarrow> None)"
| "apply_op d (UPDATE_INC, k, v) =
     (case (doc_get d k, v) of (PInt a, PInt b) \<Rightarrow> Some (d(k \<mapsto> PInt (a + b))) | _ \<Rightarrow> None)"
| "apply_op d (UPDATE_DEC, k, v) =
     (case (doc_get d k, v) of (PInt a, PInt b) \<Rightarrow> Some (d(k \<mapsto> PInt (a - b))) | _ \<Rightarrow> None)"
| "apply_op d (UPDATE_MAX, k, v) =
     (if doc_get d k = PNone then Some (d(k \<mapsto> v))
      else (case py_less (doc_get d k) v of
              None \<Rightarrow> None | Some b \<Rightarrow> Some (if b then d(k \<mapsto> v) else d)))"
| "apply_op d (UPDATE_MIN, k, v) =
     (if doc_get d k = PNone then Some (d(k \<mapsto> v))
      else (case py_less v (doc_get d k) of
              None \<Rightarrow> None | Some b \<Rightarrow> Some (if b then d(k \<mapsto> v) else d)))"

fun apply_ops :: "doc \<Rightarrow> (update_op \<times> string \<times> py) list \<Rightarrow> doc option" where
  "apply_ops d [] = Some d"
| "apply_ops d (x # xs) = (case apply_op d x of None \<Rightarrow> None | Some d' \<Rightarrow> apply_ops d' xs)"

definition op_triple :: "odm_update \<Rightarrow> update_op \<times> string \<times> py" where
  "op_triple u = (upd_op u, upd_key u, upd_value u)"

section \<open>Facts about operations\<close>

text \<open>An operation writes its own key only.\<close>

lemma apply_op_other_key:
  "apply_op d (opr, k, v) = Some d' \<Longrightarrow> k' \<noteq> k \<Longrightarrow> d' k' = d k'"
  by (cases opr) (auto split: py.splits if_splits option.splits)

lemma apply_ops_append:
  "apply_ops d (xs @ ys) = (case apply_ops d xs of None \<Rightarrow> None | Some d' \<Rightarrow> apply_ops d' ys)"
  by (induction xs arbitrary: d) (auto split: option.splits)

lemma apply_ops_frame:
  assumes "apply_ops d ops = Some d'" and "k \<notin> set (map (fst \<circ> snd) ops)"
  shows "d' k = d k"
  using assms
proof (induction ops arbitrary: d)
  case (Cons x ops)
  obtain opr key v where x: "x = (opr, key, v)" by (cases x)
  from Cons.prems(1) obtain d1 where d1: "apply_op d x = Some d1" "apply_ops d1 ops = Some d'"
    by (auto split: option.splits)
  from Cons.prems(2) x have "k \<noteq> key" by auto
  with d1(1) x have "d1 k = d k" by (auto dest: apply_op_other_key)
  with Cons.IH [OF d1(2)] Cons.prems(2) show ?case by simp
qed simp

text \<open>After a SET, later operations on other keys keep the value.\<close>

lemma apply_ops_set_last:
  assumes "apply_ops d (xs @ (UPDATE_SET, k, v) # ys) = Some d'"
    and "k \<notin> set (map (fst \<circ> snd) ys)"
  shows "d' k = Some v"
proof -
  from assms(1) obtain d1 where d1: "apply_ops d xs = Some d1"
    and d2: "apply_ops (d1(k \<mapsto> v)) ys = Some d'"
    by (auto simp: apply_ops_append split: option.splits)
  from apply_ops_frame [OF d2 assms(2)] show ?thesis by simp
qed

text \<open>Scripts made of SETs and of list operations on list fields never abort.\<close>

definition op_safe :: "doc \<Rightarrow> update_op \<times> string \<times> py \<Rightarrow> bool" where
  "op_safe d x \<longleftrightarrow> (case x of (opr, k, v) \<Rightarrow>
     opr = UPDATE_SET \<or>
     (opr \<in> {UPDATE_APPEND, UPDATE_APPEND_IF_MISSING, UPDATE_REMOVE} \<and> (\<exists>xs. d k = Some (PList xs))))"

lemma apply_op_safe:
  assumes "op_safe d x"
  shows "\<exists>d'. apply_op d x = Some d'"
proof -
  obtain opr k v where x: "x = (opr, k, v)" by (cases x)
  from assms x show ?thesis
    by (cases opr) (auto simp: op_safe_def doc_get_def)
qed

text \<open>The keys of the howler section, with their multivalued flags.\<close>

definition howler_keys :: "(string \<times> bool) list" where
  "howler_keys = map (\<lambda>(k, (f, m)). (k, m)) howler_flat"

lemma howler_flat_keys:
  "map (\<lambda>(k, (f, m)). (k, m)) howler_flat =
   [(''howler.id'', False), (''howler.analytic'', False), (''howler.assignment'', False),
    (''howler.data'', True), (''howler.links.href'', True), (''howler.links.title'', True),
    (''howler.links.icon'', True), (''howler.detection'', False), (''howler.hash'', False),
    (''howler.related'', True), (''howler.reliability'', False), (''howler.severity'', False),
    (''howler.volume'', False), (''howler.confidence'', False), (''howler.score'', False),
    (''howler.status'', False), (''howler.scrutiny'', False), (''howler.escalation'', False),
    (''howler.expiry'', False), (''howler.assessment'', False), (''howler.rationale'', False),
    (''howler.triaged'', False), (''howler.comment.id'', True), (''howler.comment.timestamp'', True),
    (''howler.comment.modified'', True), (''howler.comment.value'', True),
    (''howler.comment.user'', True), (''howler.comment.reactions'', True),
    (''howler.log.timestamp'', True), (''howler.log.key'', True), (''howler.log.explanation'', True),
    (''howler.log.previous_version'', True), (''howler.log.new_value'', True),
    (''howler.log.type'', True), (''howler.log.previous_value'', True), (''howler.log.user'', True),
    (''howler.monitored'', False), (''howler.reported'', False), (''howler.mitigated'', False),
    (''howler.outline.threat'', False), (''howler.outline.target'', False),
    (''howler.outline.indicators'', True), (''howler.outline.summary'', False),
    (''howler.incidents.platform'', True), (''howler.incidents.incident_id'', True),
    (''howler.incidents.url'', True), (''howler.labels.assignments'', True),
    (''howler.labels.generic'', True), (''howler.labels.insight'', True),
    (''howler.labels.mitigation'', True), (''howler.labels.victim'', True),
    (''howler.labels.campaign'', True), (''howler.labels.threat'', True),
    (''howler.labels.tuning'', True), (''howler.labels.operation'', True),
    (''howler.votes.benign'', True), (''howler.votes.obscure'', True),
    (''howler.votes.malicious'', True), (''howler.dossier.icon'', True),
    (''howler.dossier.label.en'', True), (''howler.dossier.label.fr'', True),
    (''howler.dossier.format'', True), (''howler.dossier.content'', True),
    (''howler.dossier.metadata'', True)]"
  by code_simp

definition hit_keys :: "(string \<times> bool) list" where
  "hit_keys = map (\<lambda>(k, (f, m)). (k, m)) hit_flat_fields"

lemma howler_keys_hit: "km \<in> set howler_keys \<Longrightarrow> km \<in> set hit_keys"
  by (auto simp: howler_keys_def hit_keys_def hit_flat_split)

lemma hit_keys_howler:
  assumes "km \<in> set hit_keys" and "py_startswith (fst km) ''howler.''"
  shows "km \<in> set howler_keys"
proof -
  obtain k f m where kf: "(k, f, m) \<in> set hit_flat_fields" "km = (k, m)"
    using assms(1) by (auto simp: hit_keys_def)
  with assms(2) record_not_howler [of "(k, f, m)" UNRESTRICTED] have "(k, f, m) \<in> set howler_flat"
    by (auto simp: hit_flat_split)
  with kf(2) show ?thesis by (force simp: howler_keys_def)
qed

lemma hit_keys_dget_howler:
  assumes "py_startswith k ''howler.''"
  shows "dget hit_keys k = dget howler_keys k"
proof -
  let ?ks = "map (\<lambda>(k, (f, m)). (k, m)) (flat_fields False (Record_model UNRESTRICTED))"
  have "k \<notin> set (map fst ?ks)"
    using record_not_howler [where u = UNRESTRICTED] assms by fastforce
  moreover have "dget (xs @ ys) k = dget ys k" if "k \<notin> set (map fst xs)" for xs ys :: "(string \<times> bool) list"
    using that by (induction xs) auto
  ultimately have "dget (?ks @ howler_keys) k = dget howler_keys k" by blast
  then show ?thesis by (simp add: hit_keys_def howler_keys_def hit_flat_split)
qed

lemma hit_flat_nonempty: "hit_flat_fields \<noteq> []"
proof
  assume "hit_flat_fields = []"
  then have "howler_keys = []" by (simp add: howler_keys_def hit_flat_split)
  then show False unfolding howler_keys_def howler_flat_keys by (rule list.distinct(1) [THEN notE, OF sym])
qed

lemma hit_helper_fields [simp]: "helper_fields hit_helper = hit_flat_fields"
  by (simp add: hit_helper_def mk_helper_def)

lemma hit_helper_nonempty [simp]: "helper_fields hit_helper \<noteq> []"
  by (simp add: hit_flat_nonempty)

lemma hit_flat_fst: "map fst hit_flat_fields = map fst hit_keys"
  by (auto simp: hit_keys_def)

lemma hit_list_field: "has_list_field hit_helper key \<longleftrightarrow> list_ex (\<lambda>(k, m). py_startswith k key \<and> m) hit_keys"
  by (force simp: has_list_field_def hit_keys_def list_ex_iff)

text \<open>The keys the hit operations use are valid for the helper.\<close>

definition scalar_hit_keys :: "string list" where
  "scalar_hit_keys = [''howler.assessment'', ''howler.escalation'', ''howler.rationale'',
                      ''howler.triaged'', ''howler.status'', ''howler.assignment'']"

lemma scalar_hit_keys_valid:
  "k \<in> set scalar_hit_keys \<Longrightarrow> k \<in> set (map fst hit_flat_fields)"
proof -
  assume k: "k \<in> set scalar_hit_keys"
  have "k \<in> set (map fst howler_keys)"
    using k unfolding howler_keys_def howler_flat_keys scalar_hit_keys_def by auto
  then show ?thesis unfolding hit_flat_fst using howler_keys_hit by force
qed

lemma helper_update_hit [simp]:
  "k \<in> set scalar_hit_keys \<Longrightarrow>
   helper_update hit_helper k v e s =
     Inr \<lparr>upd_op = UPDATE_SET, upd_key = k, upd_value = v, upd_explanation = e, upd_silent = s\<rparr>"
  using scalar_hit_keys_valid [of k] by (simp add: helper_update_def)

definition vote_key :: "string \<Rightarrow> string" where
  "vote_key v = ''howler.votes.'' @ v"

lemma vote_list_fields:
  "v \<in> {''benign'', ''obscure'', ''malicious''} \<Longrightarrow> has_list_field hit_helper (vote_key v)"
proof -
  assume v: "v \<in> {''benign'', ''obscure'', ''malicious''}"
  have "list_ex (\<lambda>(k, m). py_startswith k (vote_key v) \<and> m) howler_keys"
    using v unfolding howler_keys_def howler_flat_keys vote_key_def by (auto simp: py_startswith_def)
  then show ?thesis unfolding hit_list_field list_ex_iff using howler_keys_hit by blast
qed

end
