(* ===== verification/Workflow.thy ===== *)
theory Workflow
  imports Operations
begin

text \<open>
  The workflow machine of \<^verbatim>\<open>helper/workflow.py\<close>: a table of transitions keyed by source status and
  transition name, the table's construction with its validity checks, one transition step, which
  runs the transition's actions and merges their updates, and the listing of the transitions a
  status allows. Actions are opaque tags; \<open>run\<close> says what an action does.
\<close>

section \<open>The table\<close>

text \<open>A transition is a dictionary: its \<^verbatim>\<open>source\<close> and \<^verbatim>\<open>dest\<close> may be absent, None, or given.\<close>

datatype source = SrcAbsent | SrcNone | SrcStr string | SrcList "string list"

datatype dest = DestAbsent | DestNone | DestStr string

record 'a transition =
  t_source :: source
  t_transition :: string
  t_dest :: dest
  t_actions :: "'a list"

definition workflow_error :: "string \<Rightarrow> exn" where
  "workflow_error msg = Exn EWorkflow msg"

definition validate_transition :: "'a transition \<Rightarrow> bool" where
  "validate_transition t \<longleftrightarrow>
     t_source t \<noteq> SrcStr '''' \<and> t_transition t \<noteq> '''' \<and> t_dest t \<noteq> DestStr ''''"

record 'a workflow =
  wf_status_prop :: string
  wf_transitions :: "(string, 'a transition) dict"

definition dest_text :: "dest \<Rightarrow> string" where
  "dest_text d = (case d of DestStr s \<Rightarrow> s | _ \<Rightarrow> '''')"

text \<open>
  The table keys a transition contributes: one per source when the source is a non-empty list,
  otherwise one for the source text, empty when there is none.
\<close>

definition source_texts :: "'a transition \<Rightarrow> string list" where
  "source_texts t = (case t_source t of
      SrcList (s # ss) \<Rightarrow> s # ss
    | SrcStr s \<Rightarrow> [s]
    | _ \<Rightarrow> [''''])"

definition transition_keys :: "'a transition \<Rightarrow> string list" where
  "transition_keys t = map (\<lambda>s. s @ t_transition t) (source_texts t)"

definition transition_identifiers :: "'a transition \<Rightarrow> string list" where
  "transition_identifiers t = map (\<lambda>k. k @ dest_text (t_dest t)) (transition_keys t)"

definition add_transition ::
    "(string, 'a transition) dict \<Rightarrow> 'a transition \<Rightarrow> (string, 'a transition) dict" where
  "add_transition tbl t = foldl (\<lambda>d k. dset d k t) tbl (transition_keys t)"

definition Workflow_init :: "string \<Rightarrow> 'a transition list \<Rightarrow> 'a workflow result" where
  "Workflow_init status_prop ts =
     (if list_ex (\<lambda>t. \<not> validate_transition t) ts
      then Inl (workflow_error ''One or more transitions provided were invalid.'')
      else
        let tbl = foldl add_transition [] ts;
            ids = concat (map transition_identifiers ts)
        in if \<not> distinct ids
           then Inl (workflow_error
             ''There are duplicate transitions (same source, transition and dest values).'')
           else Inr \<lparr>wf_status_prop = status_prop, wf_transitions = tbl\<rparr>)"

section \<open>One transition\<close>

definition not_allowed :: "string \<Rightarrow> string \<Rightarrow> exn" where
  "not_allowed current transition = workflow_error
     (''Current status '' @ [CHR 0x27] @ current @ [CHR 0x27] @ '' does not allow the '' @
      [CHR 0x27] @ transition @ [CHR 0x27] @ '' transition.'')"

definition lookup_transition ::
    "'a workflow \<Rightarrow> string \<Rightarrow> string \<Rightarrow> 'a transition option" where
  "lookup_transition wfl current transition =
     (case dget (wf_transitions wfl) (current @ transition) of
        Some t \<Rightarrow> Some t
      | None \<Rightarrow> dget (wf_transitions wfl) transition)"

text \<open>The guard on the source only ever rejects list sources.\<close>

definition source_rejects :: "source \<Rightarrow> string \<Rightarrow> bool" where
  "source_rejects s current \<longleftrightarrow>
     (case s of SrcList (x # xs) \<Rightarrow> current \<notin> set (x # xs) | _ \<Rightarrow> False)"

type_synonym updates = "(string, odm_update) dict"

definition conflict_error :: "string \<Rightarrow> string \<Rightarrow> exn" where
  "conflict_error transition key = workflow_error
     (''Transition '' @ transition @ '' attempted to update the same property '' @ key @
      '' with '' @ replicate 28 CHR '' '' @ ''different values.'')"

definition status_conflict_error :: "string \<Rightarrow> string \<Rightarrow> exn" where
  "status_conflict_error transition key = workflow_error
     (''Transition '' @ transition @ '' attempted to update the status '' @ key @
      '' with '' @ replicate 24 CHR '' '' @ ''a different value than the transition destination.'')"

definition merge_update :: "string \<Rightarrow> updates \<Rightarrow> odm_update \<Rightarrow> updates result" where
  "merge_update transition upds u =
     (case dget upds (upd_key u) of
        Some u' \<Rightarrow>
          if upd_value u' \<noteq> upd_value u then Inl (conflict_error transition (upd_key u))
          else Inr (dset upds (upd_key u) u)
      | None \<Rightarrow> Inr (dset upds (upd_key u) u))"

definition run_action ::
    "('a \<Rightarrow> 'a transition \<Rightarrow> 'k \<Rightarrow> odm_update list result) \<Rightarrow> 'a transition \<Rightarrow> string \<Rightarrow> 'k \<Rightarrow>
     updates \<Rightarrow> 'a \<Rightarrow> updates result" where
  "run_action run t transition kw upds a =
     bindR (run a t kw) (\<lambda>us. foldR (merge_update transition) upds us)"

definition finish_updates :: "'a workflow \<Rightarrow> 'a transition \<Rightarrow> string \<Rightarrow> updates \<Rightarrow> updates result" where
  "finish_updates wfl t transition upds =
     (case t_dest t of
        DestStr d \<Rightarrow>
          if d = '''' then Inr upds
          else
            let p = wf_status_prop wfl;
                u = \<lparr>upd_op = UPDATE_SET, upd_key = p, upd_value = PStr d,
                     upd_explanation = None, upd_silent = False\<rparr>
            in (case dget upds p of
                  Some u' \<Rightarrow> if upd_value u' \<noteq> PStr d then Inl (status_conflict_error transition p)
                             else Inr (dset upds p u)
                | None \<Rightarrow> Inr (dset upds p u))
      | _ \<Rightarrow> Inr upds)"

definition workflow_transition ::
    "('a \<Rightarrow> 'a transition \<Rightarrow> 'k \<Rightarrow> odm_update list result) \<Rightarrow> 'a workflow \<Rightarrow> string \<Rightarrow> string \<Rightarrow> 'k \<Rightarrow>
     odm_update list result" where
  "workflow_transition run wfl current transition kw =
     (case lookup_transition wfl current transition of
        None \<Rightarrow> Inl (not_allowed current transition)
      | Some t \<Rightarrow>
          if source_rejects (t_source t) current then Inl (not_allowed current transition)
          else
            bindR (foldR (run_action run t transition kw) [] (t_actions t)) (\<lambda>upds.
            bindR (finish_updates wfl t transition upds) (\<lambda>upds'. Inr (dvalues upds'))))"

text \<open>
  \<^verbatim>\<open>Workflow.get_transitions\<close>: \<^verbatim>\<open>current_status in t["source"]\<close> is membership for a list and the
  substring test for a string; the result's order is that of a set.
\<close>

definition source_admits :: "source \<Rightarrow> string \<Rightarrow> bool result" where
  "source_admits s current =
     (case s of
        SrcAbsent \<Rightarrow> Inl (Exn EKeyError ''source'')
      | SrcNone \<Rightarrow> Inr True
      | SrcStr x \<Rightarrow> Inr (x = '''' \<or> py_in current x)
      | SrcList xs \<Rightarrow> Inr (xs = [] \<or> current \<in> set xs))"

definition get_transitions :: "'a workflow \<Rightarrow> string \<Rightarrow> string list result" where
  "get_transitions wfl current =
     bindR (mapR (\<lambda>t. bindR (source_admits (t_source t) current)
                        (\<lambda>b. Inr (if b then [t_transition t] else [])))
                 (dvalues (wf_transitions wfl)))
       (\<lambda>xss. Inr (remdups (concat xss)))"

section \<open>What a transition produces\<close>

text \<open>An update dictionary maps each key to an update of that key, each key once.\<close>

definition updates_ok :: "updates \<Rightarrow> bool" where
  "updates_ok upds \<longleftrightarrow> distinct (dkeys upds) \<and> (\<forall>(k, u) \<in> set upds. upd_key u = k)"

lemma updates_ok_Nil [simp]: "updates_ok []"
  by (simp add: updates_ok_def dkeys_def)

lemma updates_ok_dset [intro]:
  assumes "updates_ok upds"
  shows "updates_ok (dset upds (upd_key u) u)"
proof -
  have "\<forall>(k, v) \<in> set (dset upds (upd_key u) u). upd_key v = k"
    using assms set_dset_subset [of upds "upd_key u" u] by (auto simp: updates_ok_def)
  with assms show ?thesis
    by (simp add: updates_ok_def distinct_dkeys_dset)
qed

lemma merge_update_ok:
  "updates_ok upds \<Longrightarrow> merge_update tr upds u = Inr upds' \<Longrightarrow> updates_ok upds'"
  by (auto simp: merge_update_def split: option.splits if_splits)

lemma foldR_merge_ok:
  "foldR (merge_update tr) upds us = Inr upds' \<Longrightarrow> updates_ok upds \<Longrightarrow> updates_ok upds'"
  by (rule foldR_invariant [where I = updates_ok]) (auto intro: merge_update_ok)

lemma actions_ok:
  assumes "foldR (run_action run t tr kw) upds as = Inr upds'" and "updates_ok upds"
  shows "updates_ok upds'"
  using assms
  by (rule foldR_invariant [where I = updates_ok])
     (auto simp: run_action_def bindR_eq_Inr intro: foldR_merge_ok)

lemma finish_updates_ok:
  assumes "finish_updates wfl t tr upds = Inr upds'" and "updates_ok upds"
  shows "updates_ok upds'"
proof -
  have "updates_ok (dset upds (wf_status_prop wfl)
      \<lparr>upd_op = UPDATE_SET, upd_key = wf_status_prop wfl, upd_value = PStr d,
       upd_explanation = None, upd_silent = False\<rparr>)" for d
    using updates_ok_dset [OF assms(2), of "\<lparr>upd_op = UPDATE_SET, upd_key = wf_status_prop wfl,
       upd_value = PStr d, upd_explanation = None, upd_silent = False\<rparr>"] by simp
  with assms show ?thesis
    by (auto simp: finish_updates_def Let_def split: dest.splits if_splits option.splits)
qed

lemma updates_ok_values:
  assumes "updates_ok upds"
  shows "map upd_key (dvalues upds) = dkeys upds" and "distinct (map upd_key (dvalues upds))"
proof -
  show *: "map upd_key (dvalues upds) = dkeys upds"
    using assms by (auto simp: updates_ok_def dvalues_def dkeys_def)
  show "distinct (map upd_key (dvalues upds))"
    using assms unfolding * by (simp add: updates_ok_def)
qed

text \<open>A successful transition: the table entry it used and the updates it merged.\<close>

lemma workflow_transition_Inr:
  assumes "workflow_transition run wfl current tr kw = Inr us"
  obtains t upds upds' where
    "lookup_transition wfl current tr = Some t" "\<not> source_rejects (t_source t) current"
    "foldR (run_action run t tr kw) [] (t_actions t) = Inr upds"
    "finish_updates wfl t tr upds = Inr upds'" "us = dvalues upds'" "updates_ok upds'"
proof -
  from assms obtain t upds upds' where
    *: "lookup_transition wfl current tr = Some t" "\<not> source_rejects (t_source t) current"
    "foldR (run_action run t tr kw) [] (t_actions t) = Inr upds"
    "finish_updates wfl t tr upds = Inr upds'" "us = dvalues upds'"
    by (auto simp: workflow_transition_def bindR_eq_Inr split: option.splits if_splits)
  have "updates_ok upds'"
    using *(4) actions_ok [OF *(3) updates_ok_Nil] by (rule finish_updates_ok)
  with * show ?thesis by (rule that)
qed

lemma workflow_transition_distinct:
  assumes "workflow_transition run wfl current tr kw = Inr us"
  shows "distinct (map upd_key us)"
  using assms by (rule workflow_transition_Inr) (simp add: updates_ok_values(2))

text \<open>When the transition has a destination, the updates set the status property to it.\<close>

lemma finish_updates_status:
  assumes "finish_updates wfl t tr upds = Inr upds'" and "t_dest t = DestStr d" and "d \<noteq> ''''"
  shows "\<exists>u. dget upds' (wf_status_prop wfl) = Some u \<and> upd_op u = UPDATE_SET \<and>
             upd_key u = wf_status_prop wfl \<and> upd_value u = PStr d"
  using assms by (auto simp: finish_updates_def Let_def split: option.splits if_splits)

lemma workflow_transition_status:
  assumes "workflow_transition run wfl current tr kw = Inr us"
    and "lookup_transition wfl current tr = Some t" and "t_dest t = DestStr d" and "d \<noteq> ''''"
  shows "\<exists>u \<in> set us. upd_op u = UPDATE_SET \<and> upd_key u = wf_status_prop wfl \<and> upd_value u = PStr d"
proof -
  from assms(1,2) obtain upds upds' where
    f: "finish_updates wfl t tr upds = Inr upds'" and us: "us = dvalues upds'"
    by (auto elim!: workflow_transition_Inr)
  from finish_updates_status [OF f assms(3,4)] us show ?thesis
    by (force simp: dvalues_def dest: dget_Some_in)
qed

section \<open>The contract between the machine and its actions\<close>

text \<open>
  What the machine relies on: the actions stay within a set of properties. Then so does every
  transition, apart from the status property.
\<close>

locale workflow_actions =
  fixes run :: "'a \<Rightarrow> 'a transition \<Rightarrow> 'k \<Rightarrow> odm_update list result"
    and may_update :: "string \<Rightarrow> bool"
  assumes run_keys: "run a t kw = Inr us \<Longrightarrow> u \<in> set us \<Longrightarrow> may_update (upd_key u)"
begin

definition keys_within :: "updates \<Rightarrow> bool" where
  "keys_within upds \<longleftrightarrow> (\<forall>k \<in> set (dkeys upds). may_update k)"

lemma merge_within:
  "merge_update tr upds u = Inr upds' \<Longrightarrow> keys_within upds \<Longrightarrow> may_update (upd_key u) \<Longrightarrow>
   keys_within upds'"
  by (auto simp: merge_update_def keys_within_def split: option.splits if_splits)

lemma run_action_within:
  assumes "run_action run t tr kw upds a = Inr upds'" and "keys_within upds"
  shows "keys_within upds'"
proof -
  from assms(1) obtain us where us: "run a t kw = Inr us"
    and m: "foldR (merge_update tr) upds us = Inr upds'"
    by (auto simp: run_action_def bindR_eq_Inr)
  from m assms(2) show ?thesis
    by (rule foldR_invariant [where I = keys_within]) (auto intro: merge_within run_keys [OF us])
qed

lemma transition_keys_within:
  assumes "workflow_transition run wfl current tr kw = Inr us" and "u \<in> set us"
  shows "may_update (upd_key u) \<or> upd_key u = wf_status_prop wfl"
proof -
  from assms(1) obtain t upds upds' where
    a: "foldR (run_action run t tr kw) [] (t_actions t) = Inr upds" and
    f: "finish_updates wfl t tr upds = Inr upds'" and us: "us = dvalues upds'" and
    ok: "updates_ok upds'"
    by (auto elim!: workflow_transition_Inr)
  have "keys_within []" by (simp add: keys_within_def dkeys_def)
  with a have "keys_within upds"
    by (rule foldR_invariant [where I = keys_within]) (rule run_action_within)
  with f have "\<forall>k \<in> set (dkeys upds'). may_update k \<or> k = wf_status_prop wfl"
    by (auto simp: finish_updates_def Let_def keys_within_def
             split: dest.splits if_splits option.splits)
  moreover from assms(2) us updates_ok_values(1) [OF ok] have "upd_key u \<in> set (dkeys upds')"
    by (metis image_eqI image_set)
  ultimately show ?thesis by blast
qed

end

end
