(* ===== verification/HitActions.thy ===== *)
theory HitActions
  imports Workflow
begin

text \<open>
  The actions the hit workflow runs (\<^verbatim>\<open>helper/hit.py\<close>): assessing, assigning, releasing, checking
  ownership, promoting, demoting and voting. Each reads the hit document and the request's keyword
  arguments and returns update operations or raises.
\<close>

section \<open>Arguments\<close>

record user =
  u_uname :: string
  u_type :: "string list"
  u_classification :: string

text \<open>
  The keyword arguments of \<^verbatim>\<open>Workflow.transition\<close>. For \<^verbatim>\<open>vote\<close>, \<^verbatim>\<open>email\<close> and \<^verbatim>\<open>escalation\<close> the code tells
  an absent argument from a None: the outer option is presence. For the others absence and None
  are the same value of the default.
\<close>

record hit_kwargs =
  kw_user :: "user option"
  kw_hit :: doc
  kw_assessment :: "string option"
  kw_rationale :: "string option"
  kw_assignee :: "string option"
  kw_vote :: "string option option"
  kw_email :: "string option option"
  kw_escalation :: "string option option"

datatype hit_action =
    AssessHit | AssignHit | UnassignHit | CheckOwnership | PromoteHit | DemoteHit | VoteHit

definition given :: "string option \<Rightarrow> bool" where
  "given s \<longleftrightarrow> s \<noteq> None \<and> s \<noteq> Some ''''"

definition py_opt :: "string option \<Rightarrow> py" where
  "py_opt s = (case s of None \<Rightarrow> PNone | Some x \<Rightarrow> PStr x)"

text \<open>\<^verbatim>\<open>hit["howler"]["..."]\<close> raises KeyError when the path is missing.\<close>

definition hit_index :: "doc \<Rightarrow> string \<Rightarrow> py result" where
  "hit_index hit k = (case hit k of None \<Rightarrow> Inl (Exn EKeyError k) | Some v \<Rightarrow> Inr v)"

definition invalid_data :: "string \<Rightarrow> exn" where
  "invalid_data msg = Exn EInvalidData msg"

section \<open>Assessing\<close>

definition assess_hit :: "string option \<Rightarrow> string option \<Rightarrow> odm_update list result" where
  "assess_hit assessment rationale =
     bindR (if \<not> given assessment then Inr (None, None)
            else if \<not> enum_contains Assessment (the assessment)
            then Inl (invalid_data (''Must set assessment to one of '' @
                        py_join '', '' (enum_list Assessment) @ ''.''))
            else bindR (enum_getitem AssessmentEscalationMap (the assessment))
                   (\<lambda>e. Inr (assessment, Some e)))
       (\<lambda>(assessment, escalation).
     (let rationale = (if assessment = None \<and> given rationale then None else rationale);
          triaged = (if assessment = None then PNone else PStr ''NOW'');
          status = (if assessment = None then status_value IN_PROGRESS else status_value RESOLVED)
      in mapR (\<lambda>(k, v, s). helper_update hit_helper k v None s)
           [(''howler.assessment'', py_opt assessment, False),
            (''howler.escalation'', py_opt escalation, False),
            (''howler.rationale'', py_opt rationale, True),
            (''howler.triaged'', triaged, False),
            (''howler.status'', PStr status, False)]))"

section \<open>Assignment\<close>

definition unassign_hit :: "doc \<Rightarrow> user option \<Rightarrow> odm_update list result" where
  "unassign_hit hit usr =
     (case usr of
        None \<Rightarrow> Inl (invalid_data ''Cannot release hit that isn't assigned to you.'')
      | Some u \<Rightarrow>
          bindR (hit_index hit ''howler.assignment'') (\<lambda>a.
          if a = PStr (u_uname u)
          then mapR (\<lambda>v. helper_update hit_helper ''howler.assignment'' (PStr v) None False)
                 [DEFAULT_ASSIGNMENT]
          else Inl (invalid_data ''Cannot release hit that isn't assigned to you.'')))"

definition assign_value :: "user option \<Rightarrow> string option \<Rightarrow> py" where
  "assign_value usr assignee =
     (case usr of
        None \<Rightarrow> PNone
      | Some u \<Rightarrow> if given assignee then py_opt assignee else PStr (u_uname u))"

definition assign_hit ::
    "string \<Rightarrow> user option \<Rightarrow> string option \<Rightarrow> doc option \<Rightarrow> odm_update list result" where
  "assign_hit transition_name usr assignee hit =
     bindR (if transition_name = transition_value ASSIGN_TO_OTHER
            then (if \<not> given assignee
                  then Inl (invalid_data ''Must specify an assignee when assigning to another user.'')
                  else case hit of
                    None \<Rightarrow> Inr ()
                  | Some h \<Rightarrow> bindR (hit_index h ''howler.assignment'') (\<lambda>a.
                      if a = py_opt assignee
                      then Inl (invalid_data
                        ''Must specify an assignee that is different from the current assigned user.'')
                      else Inr ()))
            else Inr ())
       (\<lambda>_. if usr = None \<and> \<not> given assignee
            then Inl (invalid_data ''Could not assign Hit to user a no 'user_id' was provided'')
            else mapR (\<lambda>v. helper_update hit_helper ''howler.assignment'' v None False)
                   [assign_value usr assignee])"

definition check_ownership :: "doc \<Rightarrow> user option \<Rightarrow> odm_update list result" where
  "check_ownership hit usr =
     (case usr of
        None \<Rightarrow> Inr []
      | Some u \<Rightarrow>
          bindR (hit_index hit ''howler.assignment'') (\<lambda>a.
          if a \<noteq> PStr (u_uname u)
          then Inl (invalid_data ''Cannot use this transition when the hit is not assigned to you.'')
          else Inr []))"

section \<open>Escalation\<close>

definition escalation_arg :: "string option option \<Rightarrow> escalation \<Rightarrow> py" where
  "escalation_arg kw dflt = (case kw of None \<Rightarrow> PStr (escalation_value dflt) | Some v \<Rightarrow> py_opt v)"

definition promote_hit :: "string option option \<Rightarrow> odm_update list result" where
  "promote_hit esc =
     mapR (\<lambda>v. helper_update hit_helper ''howler.escalation'' v None False) [escalation_arg esc ALERT]"

definition demote_hit :: "string option option \<Rightarrow> odm_update list result" where
  "demote_hit esc =
     mapR (\<lambda>v. helper_update hit_helper ''howler.escalation'' v None False) [escalation_arg esc HIT]"

section \<open>Voting\<close>

definition py_in_list :: "string \<Rightarrow> py \<Rightarrow> bool result" where
  "py_in_list x v = (case v of
      PList xs \<Rightarrow> Inr (PStr x \<in> set xs)
    | PStr s \<Rightarrow> Inr (py_in x s)
    | PDict d \<Rightarrow> Inr (x \<in> set (dkeys d))
    | _ \<Rightarrow> Inl (Exn ETypeError ''argument is not iterable''))"

text \<open>The list the voter is on already: the first of benign, obscure, malicious that has them.\<close>

definition old_vote :: "doc \<Rightarrow> string \<Rightarrow> string option result" where
  "old_vote hit email =
     bindR (bindR (hit_index hit (vote_key ''benign'')) (py_in_list email)) (\<lambda>b.
     if b then Inr (Some ''benign'')
     else bindR (bindR (hit_index hit (vote_key ''obscure'')) (py_in_list email)) (\<lambda>ob.
     if ob then Inr (Some ''obscure'')
     else bindR (bindR (hit_index hit (vote_key ''malicious'')) (py_in_list email)) (\<lambda>m.
     Inr (if m then Some ''malicious'' else None))))"

definition vote_updates :: "string option \<Rightarrow> string \<Rightarrow> string \<Rightarrow> odm_update list result" where
  "vote_updates old vote email =
     bindR (case old of
              None \<Rightarrow> Inr []
            | Some v \<Rightarrow> mapR (\<lambda>v. list_remove hit_helper (vote_key v) (PStr email) None False) [v])
       (\<lambda>rem.
     bindR (if old = None \<or> old \<noteq> Some vote
            then mapR (\<lambda>v. list_add hit_helper (vote_key v) (PStr email) None False True) [vote]
            else Inr [])
       (\<lambda>add. Inr (rem @ add)))"

text \<open>Voting on a hit assigned to the voter gives the hit back.\<close>

definition vote_release :: "doc \<Rightarrow> user option \<Rightarrow> odm_update list result" where
  "vote_release hit usr =
     (case usr of
        None \<Rightarrow> Inr []
      | Some u \<Rightarrow>
          bindR (hit_index hit ''howler.assignment'') (\<lambda>a.
          if a \<noteq> PStr (u_uname u) then Inr []
          else bindR (hit_index hit ''howler.status'') (\<lambda>s.
          if s \<in> {PStr (status_value IN_PROGRESS), PStr (status_value OPEN)}
          then mapR (\<lambda>(k, v). helper_update hit_helper k (PStr v) None False)
                 [(''howler.assignment'', DEFAULT_ASSIGNMENT), (''howler.status'', status_value OPEN)]
          else Inl (invalid_data ''Cannot vote on hit you are assigned to.''))))"

definition vote_hit ::
    "doc \<Rightarrow> string option \<Rightarrow> string option \<Rightarrow> user option \<Rightarrow> odm_update list result" where
  "vote_hit hit vote email usr =
     (if \<not> given email then Inl (invalid_data ''Could not vote on Hit as no email was provided'')
      else case vote of
        None \<Rightarrow> Inl (invalid_data (''vote is not optional. Provide a value from: '' @
                       py_join '', '' (enum_list Vote)))
      | Some v \<Rightarrow>
          if \<not> enum_contains Vote v \<or> v = ''''
          then Inl (invalid_data (''vote is not optional. Provide a value from: '' @
                      py_join '', '' (enum_list Vote)))
          else
            bindR (old_vote hit (the email)) (\<lambda>old.
            bindR (vote_updates old v (the email)) (\<lambda>us.
            bindR (vote_release hit usr) (\<lambda>us'. Inr (us @ us')))))"

section \<open>Running an action\<close>

text \<open>
  The call \<^verbatim>\<open>action(transition=..., user=..., hit=..., **kwargs)\<close>: the actions take what they name
  and ignore the rest. \<^verbatim>\<open>vote\<close> and \<^verbatim>\<open>email\<close> have no default in \<^verbatim>\<open>vote_hit\<close>.
\<close>

definition missing_argument :: "string \<Rightarrow> exn" where
  "missing_argument name =
     Exn ETypeError (''vote_hit() missing 1 required positional argument: '' @ name)"

fun run_hit_action ::
    "hit_action \<Rightarrow> hit_action transition \<Rightarrow> hit_kwargs \<Rightarrow> odm_update list result" where
  "run_hit_action AssessHit t kw = assess_hit (kw_assessment kw) (kw_rationale kw)"
| "run_hit_action AssignHit t kw = assign_hit (t_transition t) (kw_user kw) (kw_assignee kw) (Some (kw_hit kw))"
| "run_hit_action UnassignHit t kw = unassign_hit (kw_hit kw) (kw_user kw)"
| "run_hit_action CheckOwnership t kw = check_ownership (kw_hit kw) (kw_user kw)"
| "run_hit_action PromoteHit t kw = promote_hit (kw_escalation kw)"
| "run_hit_action DemoteHit t kw = demote_hit (kw_escalation kw)"
| "run_hit_action VoteHit t kw =
     (case kw_vote kw of
        None \<Rightarrow> Inl (missing_argument ''vote'')
      | Some v \<Rightarrow> (case kw_email kw of
          None \<Rightarrow> Inl (missing_argument ''email'')
        | Some e \<Rightarrow> vote_hit (kw_hit kw) v e (kw_user kw)))"

section \<open>Facts about the actions\<close>

lemmas scalar_keys [simp] = scalar_hit_keys_def

abbreviation set_op :: "string \<Rightarrow> py \<Rightarrow> bool \<Rightarrow> odm_update" where
  "set_op k v s \<equiv> \<lparr>upd_op = UPDATE_SET, upd_key = k, upd_value = v, upd_explanation = None, upd_silent = s\<rparr>"

lemma given_cases: "given s \<longleftrightarrow> (\<exists>x. s = Some x \<and> x \<noteq> '''')"
  by (auto simp: given_def)

lemma not_given: "\<not> given s \<longleftrightarrow> s = None \<or> s = Some ''''"
  by (auto simp: given_def)

lemma assess_hit_none:
  "\<not> given assessment \<Longrightarrow> assess_hit assessment rationale = Inr
     [set_op ''howler.assessment'' PNone False, set_op ''howler.escalation'' PNone False,
      set_op ''howler.rationale'' (py_opt (if given rationale then None else rationale)) True,
      set_op ''howler.triaged'' PNone False,
      set_op ''howler.status'' (PStr (status_value IN_PROGRESS)) False]"
  by (simp add: assess_hit_def py_opt_def)

lemma assess_hit_some:
  assumes "given assessment" and "enum_contains Assessment (the assessment)"
    and "enum_getitem AssessmentEscalationMap (the assessment) = Inr e"
  shows "assess_hit assessment rationale = Inr
     [set_op ''howler.assessment'' (py_opt assessment) False,
      set_op ''howler.escalation'' (PStr e) False,
      set_op ''howler.rationale'' (py_opt rationale) True,
      set_op ''howler.triaged'' (PStr ''NOW'') False,
      set_op ''howler.status'' (PStr (status_value RESOLVED)) False]"
  using assms by (auto simp: assess_hit_def py_opt_def given_cases)

lemma assess_hit_invalid:
  "given assessment \<Longrightarrow> \<not> enum_contains Assessment (the assessment) \<Longrightarrow>
   \<exists>m. assess_hit assessment rationale = Inl (Exn EInvalidData m)"
  by (simp add: assess_hit_def invalid_data_def)

lemma assess_hit_Inr:
  assumes "assess_hit assessment rationale = Inr us"
  obtains "\<not> given assessment" | e where "given assessment" "enum_contains Assessment (the assessment)"
    "enum_getitem AssessmentEscalationMap (the assessment) = Inr e"
proof (cases "given assessment")
  case True
  show ?thesis
  proof (cases "enum_contains Assessment (the assessment)")
    case True': True
    then obtain e where "enum_getitem AssessmentEscalationMap (the assessment) = Inr e"
      using assessment_contains_escalation by blast
    with True True' show ?thesis by (rule that(2))
  next
    case False
    with True assms show ?thesis by (auto dest: assess_hit_invalid [of _ rationale])
  qed
qed (rule that(1))

lemma assign_hit_Inr:
  "assign_hit tr usr assignee hit = Inr us \<Longrightarrow>
   us = [set_op ''howler.assignment'' (assign_value usr assignee) False]"
  by (auto simp: assign_hit_def bindR_eq_Inr split: if_splits)

lemma check_ownership_Inr:
  "check_ownership hit usr = Inr us \<longleftrightarrow>
   us = [] \<and> (case usr of None \<Rightarrow> True | Some u \<Rightarrow> hit ''howler.assignment'' = Some (PStr (u_uname u)))"
  by (auto simp: check_ownership_def bindR_eq_Inr hit_index_def split: option.splits if_splits)

lemma unassign_hit_Inr:
  "unassign_hit hit usr = Inr us \<longleftrightarrow>
   us = [set_op ''howler.assignment'' (PStr DEFAULT_ASSIGNMENT) False] \<and>
   (\<exists>u. usr = Some u \<and> hit ''howler.assignment'' = Some (PStr (u_uname u)))"
  by (auto simp: unassign_hit_def bindR_eq_Inr hit_index_def split: option.splits if_splits)

text \<open>The contract with the workflow machine: the properties the actions may update.\<close>

definition hit_update_key :: "string \<Rightarrow> bool" where
  "hit_update_key k \<longleftrightarrow> k \<in> set scalar_hit_keys \<or> py_startswith k ''howler.votes.''"

lemma vote_updates_keys:
  assumes "vote_updates old vote email = Inr us" and "u \<in> set us"
  shows "py_startswith (upd_key u) ''howler.votes.''"
  using assms
  by (auto simp: vote_updates_def bindR_eq_Inr list_remove_def list_add_def vote_key_def
           simp flip: append_Cons split: option.splits if_splits)

lemma vote_release_keys:
  assumes "vote_release hit usr = Inr us" and "u \<in> set us"
  shows "upd_key u \<in> set scalar_hit_keys"
  using assms by (auto simp: vote_release_def bindR_eq_Inr split: option.splits if_splits)

lemma vote_hit_keys:
  assumes "vote_hit hit vote email usr = Inr us" and "u \<in> set us"
  shows "hit_update_key (upd_key u)"
proof -
  from assms(1) obtain old v xs ys where us: "us = xs @ ys"
    and x: "vote_updates old v (the email) = Inr xs" and y: "vote_release hit usr = Inr ys"
    by (auto simp: vote_hit_def bindR_eq_Inr split: option.splits if_splits)
  from assms(2) us have "u \<in> set xs \<or> u \<in> set ys" by simp
  then show ?thesis
    using vote_updates_keys [OF x] vote_release_keys [OF y] unfolding hit_update_key_def by blast
qed

lemma run_hit_action_keys:
  assumes "run_hit_action a t kw = Inr us" and "u \<in> set us"
  shows "hit_update_key (upd_key u)"
proof (cases a)
  case AssessHit
  with assms have "assess_hit (kw_assessment kw) (kw_rationale kw) = Inr us" by simp
  then show ?thesis
    by (rule assess_hit_Inr)
       (use assms AssessHit in \<open>auto simp: hit_update_key_def assess_hit_none assess_hit_some\<close>)
next
  case VoteHit
  with assms show ?thesis
    by (auto split: option.splits dest: vote_hit_keys)
qed (use assms in \<open>auto simp: hit_update_key_def promote_hit_def demote_hit_def check_ownership_Inr
       unassign_hit_Inr dest!: assign_hit_Inr\<close>)

interpretation hw: workflow_actions run_hit_action hit_update_key
  by unfold_locales (rule run_hit_action_keys)

end
