(* ===== verification/HitTable.thy ===== *)
theory HitTable
  imports HitActions
begin

text \<open>
  The table of the hit workflow (\<^verbatim>\<open>get_hit_workflow\<close> of \<^verbatim>\<open>services/hit_service.py\<close>), the abstract state
  machine, and that looking a transition up in the table is a move of the machine.
\<close>

section \<open>The table\<close>

definition hit_row :: "source \<Rightarrow> hit_transition \<Rightarrow> dest \<Rightarrow> hit_action list \<Rightarrow> hit_action transition" where
  "hit_row s t d as = \<lparr>t_source = s, t_transition = transition_value t, t_dest = d, t_actions = as\<rparr>"

abbreviation from_status :: "status \<Rightarrow> source" where
  "from_status s \<equiv> SrcStr (status_value s)"

abbreviation to_status :: "status \<Rightarrow> dest" where
  "to_status s \<equiv> DestStr (status_value s)"

definition hit_transitions :: "hit_action transition list" where
  "hit_transitions =
    [hit_row (from_status OPEN) ASSIGN_TO_ME (to_status IN_PROGRESS) [AssignHit],
     hit_row (from_status OPEN) ASSIGN_TO_OTHER (to_status OPEN) [AssignHit],
     hit_row (from_status OPEN) START (to_status IN_PROGRESS) [CheckOwnership],
     hit_row (from_status OPEN) VOTE (to_status OPEN) [VoteHit],
     hit_row (from_status IN_PROGRESS) ASSIGN_TO_OTHER (to_status IN_PROGRESS) [AssignHit],
     hit_row (from_status IN_PROGRESS) RELEASE (to_status OPEN) [UnassignHit],
     hit_row (SrcList [status_value OPEN, status_value IN_PROGRESS]) ASSESS (to_status RESOLVED)
       [AssessHit, AssignHit],
     hit_row (from_status IN_PROGRESS) VOTE (to_status IN_PROGRESS) [VoteHit],
     hit_row (from_status OPEN) RELEASE (to_status OPEN) [UnassignHit],
     hit_row (from_status IN_PROGRESS) PAUSE (to_status ON_HOLD) [CheckOwnership],
     hit_row (from_status ON_HOLD) RESUME (to_status IN_PROGRESS) [CheckOwnership],
     hit_row (from_status IN_PROGRESS) ASSIGN_TO_ME (to_status IN_PROGRESS) [AssignHit],
     hit_row (from_status ON_HOLD) ASSIGN_TO_OTHER (to_status IN_PROGRESS) [AssignHit],
     hit_row (from_status ON_HOLD) VOTE (to_status ON_HOLD) [VoteHit],
     hit_row (from_status RESOLVED) RE_EVALUATE (to_status IN_PROGRESS) [AssessHit, AssignHit],
     hit_row (from_status RESOLVED) VOTE (to_status RESOLVED) [VoteHit],
     hit_row SrcNone PROMOTE DestNone [PromoteHit],
     hit_row SrcNone DEMOTE DestNone [DemoteHit]]"

definition get_hit_workflow :: "hit_action workflow result" where
  "get_hit_workflow = Workflow_init ''howler.status'' hit_transitions"

text \<open>The table the constructor builds, and the transitions of a status.\<close>

definition hit_table :: "(string, hit_action transition) dict" where
  "hit_table = foldl add_transition [] hit_transitions"

definition hit_workflow :: "hit_action workflow" where
  "hit_workflow = \<lparr>wf_status_prop = ''howler.status'', wf_transitions = hit_table\<rparr>"

section \<open>The abstract machine\<close>

fun hit_next :: "status \<Rightarrow> hit_transition \<Rightarrow> status option" where
  "hit_next OPEN ASSIGN_TO_ME = Some IN_PROGRESS"
| "hit_next OPEN ASSIGN_TO_OTHER = Some OPEN"
| "hit_next OPEN START = Some IN_PROGRESS"
| "hit_next OPEN VOTE = Some OPEN"
| "hit_next OPEN ASSESS = Some RESOLVED"
| "hit_next OPEN RELEASE = Some OPEN"
| "hit_next IN_PROGRESS ASSIGN_TO_ME = Some IN_PROGRESS"
| "hit_next IN_PROGRESS ASSIGN_TO_OTHER = Some IN_PROGRESS"
| "hit_next IN_PROGRESS RELEASE = Some OPEN"
| "hit_next IN_PROGRESS ASSESS = Some RESOLVED"
| "hit_next IN_PROGRESS VOTE = Some IN_PROGRESS"
| "hit_next IN_PROGRESS PAUSE = Some ON_HOLD"
| "hit_next ON_HOLD RESUME = Some IN_PROGRESS"
| "hit_next ON_HOLD ASSIGN_TO_OTHER = Some IN_PROGRESS"
| "hit_next ON_HOLD VOTE = Some ON_HOLD"
| "hit_next RESOLVED RE_EVALUATE = Some IN_PROGRESS"
| "hit_next RESOLVED VOTE = Some RESOLVED"
| "hit_next s PROMOTE = Some s"
| "hit_next s DEMOTE = Some s"
| "hit_next _ _ = None"

fun transition_actions :: "hit_transition \<Rightarrow> hit_action list" where
  "transition_actions ASSIGN_TO_ME = [AssignHit]"
| "transition_actions ASSIGN_TO_OTHER = [AssignHit]"
| "transition_actions VOTE = [VoteHit]"
| "transition_actions ASSESS = [AssessHit, AssignHit]"
| "transition_actions RE_EVALUATE = [AssessHit, AssignHit]"
| "transition_actions RELEASE = [UnassignHit]"
| "transition_actions START = [CheckOwnership]"
| "transition_actions PAUSE = [CheckOwnership]"
| "transition_actions RESUME = [CheckOwnership]"
| "transition_actions PROMOTE = [PromoteHit]"
| "transition_actions DEMOTE = [DemoteHit]"

definition statuses :: "status list" where
  "statuses = [OPEN, IN_PROGRESS, ON_HOLD, RESOLVED]"

definition all_transitions :: "hit_transition list" where
  "all_transitions = [ASSIGN_TO_ME, ASSIGN_TO_OTHER, VOTE, ASSESS, RELEASE, START, PAUSE, RESUME,
                      RE_EVALUATE, PROMOTE, DEMOTE]"

lemma in_statuses [simp]: "s \<in> set statuses"
  by (cases s) (simp_all add: statuses_def)

lemma in_all_transitions [simp]: "t \<in> set all_transitions"
  by (cases t) (simp_all add: all_transitions_def)

section \<open>The table is the machine\<close>

text \<open>The entry a status and a transition find, as the machine predicts it.\<close>

definition source_list :: "hit_transition \<Rightarrow> status \<Rightarrow> source" where
  "source_list t s =
     (if t = ASSESS then SrcList [status_value OPEN, status_value IN_PROGRESS]
      else if t \<in> {PROMOTE, DEMOTE} then SrcNone else from_status s)"

definition expected_row :: "status \<Rightarrow> hit_transition \<Rightarrow> hit_action transition option" where
  "expected_row s t =
     (case hit_next s t of
        None \<Rightarrow> None
      | Some s' \<Rightarrow> Some (hit_row (source_list t s) t
          (if t \<in> {PROMOTE, DEMOTE} then DestNone else to_status s') (transition_actions t)))"

lemma hit_table_eq:
  "hit_table = map (\<lambda>(k, i). (k, hit_transitions ! i))
    [(''openassign_to_me'', 0), (''openassign_to_other'', 1), (''openstart'', 2), (''openvote'', 3),
     (''in-progressassign_to_other'', 4), (''in-progressrelease'', 5), (''openassess'', 6),
     (''in-progressassess'', 6), (''in-progressvote'', 7), (''openrelease'', 8),
     (''in-progresspause'', 9), (''on-holdresume'', 10), (''in-progressassign_to_me'', 11),
     (''on-holdassign_to_other'', 12), (''on-holdvote'', 13), (''resolvedre_evaluate'', 14),
     (''resolvedvote'', 15), (''promote'', 16), (''demote'', 17)]"
  by (simp add: hit_table_def hit_transitions_def hit_row_def add_transition_def transition_keys_def
       source_texts_def)

lemma lookup_expected:
  "lookup_transition hit_workflow (status_value s) (transition_value t) = expected_row s t"
  by (induct s; induct t; code_simp)

lemma hit_workflow_ok: "get_hit_workflow = Inr hit_workflow"
proof -
  have "distinct (concat (map transition_identifiers hit_transitions))"
    by (simp add: hit_transitions_def hit_row_def transition_identifiers_def transition_keys_def
        source_texts_def dest_text_def)
  moreover have "\<not> list_ex (\<lambda>t. \<not> validate_transition t) hit_transitions"
    by (simp add: hit_transitions_def hit_row_def validate_transition_def)
  ultimately show ?thesis
    by (simp add: get_hit_workflow_def Workflow_init_def hit_workflow_def hit_table_def Let_def)
qed

end
