(* ===== verification/HitLog.thy ===== *)
theory HitLog
  imports HitActions
begin

text \<open>
  The worklog of \<^verbatim>\<open>_update_hit\<close> (\<^verbatim>\<open>services/hit_service.py\<close>): every operation that is not silent is
  followed by an operation that appends an entry to \<^verbatim>\<open>howler.log\<close>.
\<close>

text \<open>
  Whether the operation's key is a list and what the hit held there. A key that is not a flat field
  is taken to be a list's prefix; when no field starts with it \<^verbatim>\<open>next\<close> raises.
\<close>

definition op_context :: "(string, field \<times> bool) dict \<Rightarrow> doc \<Rightarrow> odm_update \<Rightarrow> (bool \<times> py) result" where
  "op_context flds cur opn =
     (case dget flds (upd_key opn) of
        Some (f, m) \<Rightarrow> Inr (m, doc_get cur (upd_key opn))
      | None \<Rightarrow>
          (case find_first (\<lambda>(k, f, m). py_startswith k (upd_key opn)) flds of
             None \<Rightarrow> Inl (Exn EStopIteration '''')
           | Some (k, f, m) \<Rightarrow> Inr (m, PStr ''list'')))"

definition operation_type :: "bool \<Rightarrow> update_op \<Rightarrow> string" where
  "operation_type is_list opr =
     (if is_list
      then (if opr \<in> {UPDATE_APPEND, UPDATE_APPEND_IF_MISSING} then ''appended'' else ''removed'')
      else ''set'')"

definition or_none :: "py \<Rightarrow> py" where
  "or_none v = (if truthy v then v else PStr ''None'')"

definition log_entry :: "string option \<Rightarrow> string \<Rightarrow> odm_update \<Rightarrow> bool \<Rightarrow> py \<Rightarrow> py" where
  "log_entry usr version opn is_list previous =
     PDict [(''timestamp'', PStr ''NOW''), (''previous_version'', PStr version),
            (''key'', PStr (upd_key opn)), (''explanation'', py_opt (upd_explanation opn)),
            (''new_value'', or_none (upd_value opn)), (''previous_value'', or_none previous),
            (''type'', PStr (operation_type is_list (upd_op opn))),
            (''user'', PStr (if given usr then the usr else ''Unknown''))]"

abbreviation append_log :: "py \<Rightarrow> odm_update" where
  "append_log e \<equiv> \<lparr>upd_op = UPDATE_APPEND, upd_key = ''howler.log'', upd_value = e,
                   upd_explanation = None, upd_silent = False\<rparr>"

definition logged ::
    "(string, field \<times> bool) dict \<Rightarrow> doc \<Rightarrow> string option \<Rightarrow> string \<Rightarrow> odm_update \<Rightarrow> odm_update list result" where
  "logged flds cur usr version opn =
     bindR (op_context flds cur opn) (\<lambda>(is_list, previous).
     Inr (opn # (if upd_silent opn then [] else [append_log (log_entry usr version opn is_list previous)])))"

definition final_operations ::
    "(string, field \<times> bool) dict \<Rightarrow> doc \<Rightarrow> string option \<Rightarrow> string \<Rightarrow> odm_update list \<Rightarrow>
     odm_update list result" where
  "final_operations flds cur usr version ops =
     bindR (mapR (logged flds cur usr version) ops) (\<lambda>oss. Inr (concat oss))"

section \<open>The log does not disturb the update\<close>

lemma final_operations_Cons:
  "final_operations flds cur usr v (x # xs) = Inr ys \<longleftrightarrow>
   (\<exists>l m p zs. op_context flds cur x = Inr (m, p) \<and>
      l = (if upd_silent x then [] else [append_log (log_entry usr v x m p)]) \<and>
      final_operations flds cur usr v xs = Inr zs \<and> ys = x # l @ zs)"
  by (auto simp: final_operations_def bindR_eq_Inr logged_def)

lemma final_operations_Nil [simp]: "final_operations flds cur usr v [] = Inr []"
  by (simp add: final_operations_def)

lemma apply_op_agree:
  assumes "apply_op d (opr, k, v) = Some d1" and "d k = e k"
  shows "\<exists>e1. apply_op e (opr, k, v) = Some e1 \<and> e1 k = d1 k"
proof -
  have "doc_get e k = doc_get d k" using assms(2) by (simp add: doc_get_def)
  with assms show ?thesis
    by (cases opr) (auto split: py.splits if_splits option.splits)
qed

text \<open>Two documents that agree except on the log keep agreeing under the update itself.\<close>

lemma final_operations_effect:
  assumes "final_operations flds cur usr v us = Inr ops" and "apply_ops d (map op_triple ops) = Some d'"
    and "''howler.log'' \<notin> set (map upd_key us)" and "\<And>k. k \<noteq> ''howler.log'' \<Longrightarrow> e k = d k"
  shows "\<exists>e'. apply_ops e (map op_triple us) = Some e' \<and> (\<forall>k. k \<noteq> ''howler.log'' \<longrightarrow> d' k = e' k)"
  using assms
proof (induction us arbitrary: ops d e)
  case Nil
  then show ?case by simp
next
  case (Cons u us)
  from Cons.prems(1) obtain l m p zs where
    l: "l = (if upd_silent u then [] else [append_log (log_entry usr v u m p)])"
    and z: "final_operations flds cur usr v us = Inr zs" and ops: "ops = u # l @ zs"
    by (auto simp: final_operations_Cons)
  from Cons.prems(3) have nk: "upd_key u \<noteq> ''howler.log''" by auto
  from Cons.prems(2) ops obtain d1 where d1: "apply_op d (op_triple u) = Some d1"
    and r1: "apply_ops d1 (map op_triple l @ map op_triple zs) = Some d'"
    by (auto split: option.splits)
  from r1 obtain d2 where d2: "apply_ops d1 (map op_triple l) = Some d2"
    and r2: "apply_ops d2 (map op_triple zs) = Some d'"
    by (auto simp: apply_ops_append split: option.splits)
  have "set (map (fst \<circ> snd) (map op_triple l)) \<subseteq> {''howler.log''}" using l by (auto simp: op_triple_def)
  then have d21: "k \<noteq> ''howler.log'' \<Longrightarrow> d2 k = d1 k" for k
    using apply_ops_frame [OF d2] by blast
  from apply_op_agree [of d "upd_op u" "upd_key u" "upd_value u" d1 e] d1 Cons.prems(4) [OF nk]
  obtain e1 where e1: "apply_op e (op_triple u) = Some e1" "e1 (upd_key u) = d1 (upd_key u)"
    by (auto simp: op_triple_def)
  have "k \<noteq> ''howler.log'' \<Longrightarrow> e1 k = d2 k" for k
    using e1 d1 d21 [of k] Cons.prems(4) [of k]
      apply_op_other_key [of d "upd_op u" "upd_key u" "upd_value u" d1 k]
      apply_op_other_key [of e "upd_op u" "upd_key u" "upd_value u" e1 k]
    by (cases "k = upd_key u") (auto simp: op_triple_def)
  from Cons.IH [OF z r2 _ this] Cons.prems(3) e1(1) show ?case by auto
qed

end
