(* ===== verification/HitWorkflow.thy ===== *)
theory HitWorkflow
  imports HitTable HitLog
begin

text \<open>
  Running the hit workflow: what each transition writes, one transition of a stored hit as a step
  relation, and the invariants of every history of transitions.
\<close>

text \<open>
  C1: The workflow table is well formed and is the abstract machine. \<^verbatim>\<open>get_hit_workflow\<close> passes the
  constructor's checks (no invalid and no duplicate transition), and what \<^verbatim>\<open>Workflow.transition\<close> looks up
  for a status and a transition is a row exactly when the machine has a move there, with the machine's
  target as its \<^verbatim>\<open>dest\<close> and the transition's actions.
\<close>

theorem hit_workflow_is_machine:
  "\<exists>wfl. get_hit_workflow = Inr wfl \<and> wf_status_prop wfl = ''howler.status'' \<and>
     (\<forall>s t. map_option (\<lambda>r. (t_dest r, t_actions r))
              (lookup_transition wfl (status_value s) (transition_value t)) =
        map_option (\<lambda>s'. (if t \<in> {PROMOTE, DEMOTE} then DestNone else to_status s', transition_actions t))
          (hit_next s t))"
proof (intro exI [of _ hit_workflow] conjI allI)
  show "get_hit_workflow = Inr hit_workflow" by (rule hit_workflow_ok)
  show "wf_status_prop hit_workflow = ''howler.status''" by (simp add: hit_workflow_def)
qed (auto simp: lookup_expected expected_row_def hit_row_def split: option.splits)

section \<open>Running a transition\<close>

definition hit_run :: "status \<Rightarrow> hit_transition \<Rightarrow> hit_kwargs \<Rightarrow> odm_update list result" where
  "hit_run s t kw =
     workflow_transition run_hit_action hit_workflow (status_value s) (transition_value t) kw"

abbreviation status_op :: "status \<Rightarrow> odm_update" where
  "status_op s \<equiv> set_op ''howler.status'' (PStr (status_value s)) False"

lemma source_list_admits:
  "hit_next s t = Some s' \<Longrightarrow> \<not> source_rejects (source_list t s) (status_value s)"
  by (cases t; cases s) (simp_all add: source_list_def source_rejects_def)

lemma hit_run_eq:
  "hit_run s t kw =
    (case hit_next s t of
       None \<Rightarrow> Inl (not_allowed (status_value s) (transition_value t))
     | Some s' \<Rightarrow>
         (let row = hit_row (source_list t s) t
                (if t \<in> {PROMOTE, DEMOTE} then DestNone else to_status s') (transition_actions t) in
          bindR (foldR (run_action run_hit_action row (transition_value t) kw) [] (transition_actions t)) (\<lambda>upds.
          bindR (finish_updates hit_workflow row (transition_value t) upds) (\<lambda>upds'. Inr (dvalues upds')))))"
  by (auto simp: hit_run_def workflow_transition_def lookup_expected expected_row_def Let_def hit_row_def
        source_list_admits split: option.splits)

lemma hit_run_next: "hit_run s t kw = Inr us \<Longrightarrow> \<exists>s'. hit_next s t = Some s'"
  by (cases "hit_next s t") (simp_all add: hit_run_eq)

lemma hit_run_not_allowed:
  "hit_next s t = None \<Longrightarrow> hit_run s t kw = Inl (not_allowed (status_value s) (transition_value t))"
  by (simp add: hit_run_eq)

lemma finish_hit:
  "d \<noteq> '''' \<Longrightarrow> finish_updates hit_workflow (hit_row src t (DestStr d) as) tr upds =
    (case dget upds ''howler.status'' of
       Some u \<Rightarrow> if upd_value u \<noteq> PStr d then Inl (status_conflict_error tr ''howler.status'')
                 else Inr (dset upds ''howler.status'' (set_op ''howler.status'' (PStr d) False))
     | None \<Rightarrow> Inr (dset upds ''howler.status'' (set_op ''howler.status'' (PStr d) False)))"
  by (simp add: finish_updates_def hit_workflow_def hit_row_def Let_def)

lemma finish_hit_none:
  "finish_updates hit_workflow (hit_row src t DestNone as) tr upds = Inr upds"
  by (simp add: finish_updates_def hit_row_def)

text \<open>The updates of each transition, read off the table.\<close>

lemma hit_row_simps [simp]:
  "t_transition (hit_row src t d as) = transition_value t" "t_dest (hit_row src t d as) = d"
  "t_actions (hit_row src t d as) = as" "t_source (hit_row src t d as) = src"
  by (simp_all add: hit_row_def)

lemmas run_simps = hit_run_eq Let_def run_action_def bindR_eq_Inr merge_update_def finish_hit
  finish_hit_none dvalues_def

lemma hit_run_assign:
  assumes "hit_run s t kw = Inr us" and "t \<in> {ASSIGN_TO_ME, ASSIGN_TO_OTHER}" and "hit_next s t = Some s'"
  shows "us = [set_op ''howler.assignment'' (assign_value (kw_user kw) (kw_assignee kw)) False, status_op s']"
  using assms by (auto simp: run_simps dest!: assign_hit_Inr)

lemma hit_run_release:
  assumes "hit_run s RELEASE kw = Inr us" and "hit_next s RELEASE = Some s'"
  shows "us = [set_op ''howler.assignment'' (PStr DEFAULT_ASSIGNMENT) False, status_op s']"
  using assms by (auto simp: run_simps unassign_hit_Inr)

lemma hit_run_owner:
  assumes "hit_run s t kw = Inr us" and "t \<in> {START, PAUSE, RESUME}" and "hit_next s t = Some s'"
  shows "us = [status_op s']"
  using assms by (auto simp: run_simps check_ownership_Inr)

lemma hit_run_escalate:
  assumes "hit_run s t kw = Inr us" and "t \<in> {PROMOTE, DEMOTE}"
  shows "\<exists>v. us = [set_op ''howler.escalation'' v False]"
proof -
  from assms obtain s' where "hit_next s t = Some s'" by (blast dest: hit_run_next)
  with assms show ?thesis by (auto simp: run_simps promote_hit_def demote_hit_def)
qed

text \<open>Assessing: the status the assessment implies has to be the destination.\<close>

lemma hit_run_assess:
  assumes "hit_run s ASSESS kw = Inr us"
  shows "given (kw_assessment kw) \<and> enum_contains Assessment (the (kw_assessment kw)) \<and>
    (\<exists>e. enum_getitem AssessmentEscalationMap (the (kw_assessment kw)) = Inr e \<and>
      us = [set_op ''howler.assessment'' (py_opt (kw_assessment kw)) False,
            set_op ''howler.escalation'' (PStr e) False,
            set_op ''howler.rationale'' (py_opt (kw_rationale kw)) True,
            set_op ''howler.triaged'' (PStr ''NOW'') False,
            status_op RESOLVED,
            set_op ''howler.assignment'' (assign_value (kw_user kw) (kw_assignee kw)) False])"
proof -
  from assms obtain s' where s': "hit_next s ASSESS = Some s'" by (blast dest: hit_run_next)
  then have [simp]: "s' = RESOLVED" by (cases s) simp_all
  from assms s' obtain us0 where a: "assess_hit (kw_assessment kw) (kw_rationale kw) = Inr us0"
    by (auto simp: run_simps)
  show ?thesis
  proof (rule assess_hit_Inr [OF a])
    assume "\<not> given (kw_assessment kw)"
    with assms s' show ?thesis
      by (auto simp: run_simps assess_hit_none dest!: assign_hit_Inr)
  next
    fix e assume e: "given (kw_assessment kw)" "enum_contains Assessment (the (kw_assessment kw))"
      "enum_getitem AssessmentEscalationMap (the (kw_assessment kw)) = Inr e"
    with assms s' show ?thesis
      by (auto simp: run_simps assess_hit_some dest!: assign_hit_Inr)
  qed
qed

lemma hit_run_reevaluate:
  assumes "hit_run s RE_EVALUATE kw = Inr us"
  shows "\<not> given (kw_assessment kw) \<and>
      us = [set_op ''howler.assessment'' PNone False,
            set_op ''howler.escalation'' PNone False,
            set_op ''howler.rationale''
              (py_opt (if given (kw_rationale kw) then None else kw_rationale kw)) True,
            set_op ''howler.triaged'' PNone False,
            status_op IN_PROGRESS,
            set_op ''howler.assignment'' (assign_value (kw_user kw) (kw_assignee kw)) False]"
proof -
  from assms obtain s' where s': "hit_next s RE_EVALUATE = Some s'" by (blast dest: hit_run_next)
  then have [simp]: "s' = IN_PROGRESS" by (cases s) simp_all
  from assms s' obtain us0 where a: "assess_hit (kw_assessment kw) (kw_rationale kw) = Inr us0"
    by (auto simp: run_simps)
  show ?thesis
  proof (rule assess_hit_Inr [OF a])
    assume "\<not> given (kw_assessment kw)"
    with assms s' show ?thesis
      by (auto simp: run_simps assess_hit_none dest!: assign_hit_Inr)
  next
    fix e assume e: "given (kw_assessment kw)" "enum_contains Assessment (the (kw_assessment kw))"
      "enum_getitem AssessmentEscalationMap (the (kw_assessment kw)) = Inr e"
    with assms s' show ?thesis
      by (auto simp: run_simps assess_hit_some dest!: assign_hit_Inr)
  qed
qed

section \<open>Voting\<close>

definition vote_names :: "string list" where
  "vote_names = [''benign'', ''obscure'', ''malicious'']"

lemma vote_prefixes:
  "\<forall>w \<in> set vote_names. \<forall>n \<in> set [0..<10]. enum_contains Vote (take n w) \<longrightarrow> take n w \<in> set vote_names"
  by code_simp

lemma enum_contains_Nil: "\<not> enum_contains Vote ''''"
  by code_simp

text \<open>A vote the enumeration accepts and the model has a list for is one of the three values.\<close>

lemma vote_field_name:
  assumes "has_list_field hit_helper (vote_key v)" and "enum_contains Vote v"
  shows "v \<in> set vote_names"
proof -
  from assms(1) obtain k where k: "(k, True) \<in> set hit_keys" "py_startswith k (vote_key v)"
    by (auto simp: hit_list_field list_ex_iff)
  then obtain r where r: "k = ''howler.votes.'' @ v @ r"
    by (auto simp: startswith_iff vote_key_def)
  have "v @ r \<in> set vote_names"
  proof -
    have "py_startswith k ''howler.''" using r by (simp add: py_startswith_def)
    with hit_keys_howler [OF k(1)] have "(k, True) \<in> set howler_keys" by simp
    then show ?thesis using r unfolding howler_keys_def howler_flat_keys vote_names_def by auto
  qed
  then obtain w where w: "w \<in> set vote_names" "v = take (length v) w" "length v \<le> length w"
    by (metis append_eq_conv_conj le_add1 length_append)
  then have "length v < 10" by (auto simp: vote_names_def)
  with w assms(2) vote_prefixes show ?thesis by (metis atLeast_upt lessThan_iff)
qed

abbreviation remove_vote :: "string \<Rightarrow> string \<Rightarrow> odm_update" where
  "remove_vote v e \<equiv> \<lparr>upd_op = UPDATE_REMOVE, upd_key = vote_key v, upd_value = PStr e,
                      upd_explanation = None, upd_silent = False\<rparr>"

abbreviation add_vote :: "string \<Rightarrow> string \<Rightarrow> odm_update" where
  "add_vote v e \<equiv> \<lparr>upd_op = UPDATE_APPEND_IF_MISSING, upd_key = vote_key v, upd_value = PStr e,
                   upd_explanation = None, upd_silent = False\<rparr>"

definition vote_ops :: "string option \<Rightarrow> string \<Rightarrow> string \<Rightarrow> odm_update list" where
  "vote_ops old v e =
     (case old of None \<Rightarrow> [] | Some w \<Rightarrow> [remove_vote w e]) @
     (if old = Some v then [] else [add_vote v e])"

lemma old_vote_names: "old_vote hit e = Inr (Some w) \<Longrightarrow> w \<in> set vote_names"
  by (auto simp: old_vote_def bindR_eq_Inr vote_names_def split: if_splits)

lemma vote_updates_Inr:
  assumes "vote_updates old v e = Inr us" and "enum_contains Vote v"
    and "\<And>w. old = Some w \<Longrightarrow> w \<in> set vote_names"
  shows "us = vote_ops old v e \<and> v \<in> set vote_names"
proof (cases "old = Some v")
  case True
  with assms show ?thesis
    by (auto simp: vote_updates_def bindR_eq_Inr list_remove_def vote_ops_def vote_names_def
        split: if_splits)
next
  case False
  with assms(1) have "has_list_field hit_helper (vote_key v)"
    by (auto simp: vote_updates_def bindR_eq_Inr list_add_def hit_flat_nonempty
        split: option.splits if_splits)
  with assms(2) have "v \<in> set vote_names" by (rule vote_field_name [rotated])
  with assms(1) False show ?thesis
    by (auto simp: vote_updates_def bindR_eq_Inr list_add_def list_remove_def vote_ops_def
        split: option.splits if_splits)
qed

lemma vote_release_Inr:
  assumes "vote_release hit usr = Inr us"
  shows "us = [] \<or> us = [set_op ''howler.assignment'' (PStr DEFAULT_ASSIGNMENT) False, status_op OPEN]"
  using assms by (auto simp: vote_release_def bindR_eq_Inr split: option.splits if_splits)

lemma vote_hit_Inr:
  assumes "vote_hit hit vote email usr = Inr us"
  obtains v e old rel where "vote = Some v" "email = Some e" "v \<in> set vote_names"
    "old_vote hit e = Inr old" "vote_release hit usr = Inr rel" "us = vote_ops old v e @ rel"
proof -
  from assms obtain v e old us1 rel where *: "vote = Some v" "email = Some e" "enum_contains Vote v"
    "old_vote hit e = Inr old" "vote_updates old v e = Inr us1" "vote_release hit usr = Inr rel"
    "us = us1 @ rel"
    by (auto simp: vote_hit_def bindR_eq_Inr given_cases split: option.splits if_splits)
  have "us1 = vote_ops old v e \<and> v \<in> set vote_names"
    using *(5,3) by (rule vote_updates_Inr) (use *(4) old_vote_names in auto)
  with * show ?thesis using that by blast
qed

lemma vote_keys_distinct:
  assumes "v \<in> set vote_names" "w \<in> set vote_names"
  shows "vote_key v = vote_key w \<longleftrightarrow> v = w" "vote_key v \<noteq> ''howler.status''"
    "vote_key v \<noteq> ''howler.assignment''" "vote_key v \<noteq> ''howler.assessment''" "vote_key v \<noteq> ''howler.log''"
    "vote_key v \<noteq> ''howler.escalation''" "vote_key v \<noteq> ''howler.rationale''" "vote_key v \<noteq> ''howler.triaged''"
  by (auto simp: vote_key_def)

lemma hit_run_vote:
  assumes "hit_run s VOTE kw = Inr us"
  obtains v e old rel s' where "hit_next s VOTE = Some s'"
    "v \<in> set vote_names" "kw_email kw = Some (Some e)" "kw_vote kw = Some (Some v)"
    "old_vote (kw_hit kw) e = Inr old" "vote_release (kw_hit kw) (kw_user kw) = Inr rel"
    "us = vote_ops old v e @ (if rel = [] then [status_op s'] else rel)" "rel \<noteq> [] \<Longrightarrow> s' = OPEN"
proof -
  obtain s' where s': "hit_next s VOTE = Some s'" using assms by (blast dest: hit_run_next)
  from assms s' obtain us0 where r: "run_hit_action VoteHit
      (hit_row (source_list VOTE s) VOTE (to_status s') [VoteHit]) kw = Inr us0"
    by (auto simp: run_simps)
  then obtain vo em where kw: "kw_vote kw = Some vo" "kw_email kw = Some em"
    and vh: "vote_hit (kw_hit kw) vo em (kw_user kw) = Inr us0"
    by (auto split: option.splits)
  from vh show ?thesis
  proof (rule vote_hit_Inr)
    fix v e old rel
    assume *: "vo = Some v" "em = Some e" "v \<in> set vote_names" "old_vote (kw_hit kw) e = Inr old"
      "vote_release (kw_hit kw) (kw_user kw) = Inr rel" "us0 = vote_ops old v e @ rel"
    have old: "old = Some w \<Longrightarrow> w \<in> set vote_names" for w using *(4) old_vote_names by blast
    note keys = vote_keys_distinct
    have "us = vote_ops old v e @ (if rel = [] then [status_op s'] else rel) \<and> (rel \<noteq> [] \<longrightarrow> s' = OPEN)"
      using vote_release_Inr [OF *(5)] assms s' r *(3) old
      by (cases s'; cases old; cases "old = Some v")
         (auto simp: run_simps *(6) vote_ops_def keys split: if_splits)
    with that [OF s' *(3) _ _ *(4,5)] * kw show ?thesis by blast
  qed
qed

section \<open>One transition of a stored hit\<close>

text \<open>
  What \<^verbatim>\<open>transition_hit\<close> writes to the document: the workflow's updates for the document's own status,
  with their log entries, applied in order. Not to write is the value None.
\<close>

definition status_of :: "doc \<Rightarrow> status option" where
  "status_of d = find_first (\<lambda>s. d ''howler.status'' = Some (PStr (status_value s))) statuses"

definition apply_transition ::
    "hit_transition \<Rightarrow> hit_kwargs \<Rightarrow> string option \<Rightarrow> string \<Rightarrow> doc \<Rightarrow> doc option" where
  "apply_transition t kw usr version d =
     (case status_of d of
        None \<Rightarrow> None
      | Some s \<Rightarrow>
          (case bindR (hit_run s t (kw\<lparr>kw_hit := d\<rparr>)) (final_operations hit_flat_fields d usr version) of
             Inl e \<Rightarrow> None
           | Inr ops \<Rightarrow> apply_ops d (map op_triple ops)))"

inductive hit_step :: "doc \<Rightarrow> hit_transition \<Rightarrow> doc \<Rightarrow> bool" where
  hit_step: "apply_transition t kw usr version d = Some d' \<Longrightarrow> hit_step d t d'"

inductive_cases hit_stepE: "hit_step d t d'"

text \<open>A history of transitions from a given hit.\<close>

inductive hit_history :: "doc \<Rightarrow> hit_transition list \<Rightarrow> doc \<Rightarrow> bool" for d0 where
  start: "hit_history d0 [] d0"
| step: "hit_history d0 ts d \<Longrightarrow> hit_step d t d' \<Longrightarrow> hit_history d0 (ts @ [t]) d'"

lemma status_of_Some: "status_of d = Some s \<longleftrightarrow> d ''howler.status'' = Some (PStr (status_value s))"
proof
  assume "status_of d = Some s"
  then show "d ''howler.status'' = Some (PStr (status_value s))"
    by (auto simp: status_of_def dest: find_first_Some)
next
  assume "d ''howler.status'' = Some (PStr (status_value s))"
  then show "status_of d = Some s"
    unfolding status_of_def by (intro find_first_unique) auto
qed

lemma hit_run_no_log:
  assumes "hit_run s t kw = Inr us"
  shows "''howler.log'' \<notin> set (map upd_key us)"
proof
  assume "''howler.log'' \<in> set (map upd_key us)"
  then obtain u where u: "u \<in> set us" "upd_key u = ''howler.log''" by auto
  from hw.transition_keys_within [OF assms [unfolded hit_run_def] u(1)] u(2) show False
    by (auto simp: hit_update_key_def py_startswith_def hit_workflow_def)
qed

text \<open>A step is the effect of the workflow's updates, off the log.\<close>

lemma hit_step_updates:
  assumes "hit_step d t d'"
  shows "\<exists>s kw us e. status_of d = Some s \<and> kw_hit kw = d \<and> hit_run s t kw = Inr us \<and>
    apply_ops d (map op_triple us) = Some e \<and> (\<forall>k. k \<noteq> ''howler.log'' \<longrightarrow> d' k = e k)"
proof -
  from assms obtain kw usr v s us ops where
    s: "status_of d = Some s" and us: "hit_run s t (kw\<lparr>kw_hit := d\<rparr>) = Inr us" and
    f: "final_operations hit_flat_fields d usr v us = Inr ops" and
    a: "apply_ops d (map op_triple ops) = Some d'"
    by (auto elim!: hit_stepE simp: apply_transition_def bindR_def split: option.splits sum.splits)
  from final_operations_effect [OF f a hit_run_no_log [OF us], of d] obtain e where
    "apply_ops d (map op_triple us) = Some e" "\<forall>k. k \<noteq> ''howler.log'' \<longrightarrow> d' k = e k" by blast
  with s us show ?thesis by (intro exI [of _ s] exI [of _ "kw\<lparr>kw_hit := d\<rparr>"]) auto
qed

lemma hit_run_status:
  assumes "hit_run s t kw = Inr us" and "apply_ops d (map op_triple us) = Some e"
    and "d ''howler.status'' = Some (PStr (status_value s))"
  shows "\<exists>s'. hit_next s t = Some s' \<and> e ''howler.status'' = Some (PStr (status_value s'))"
proof -
  from assms(1) obtain s' where s': "hit_next s t = Some s'" by (blast dest: hit_run_next)
  show ?thesis
  proof (cases "t \<in> {PROMOTE, DEMOTE}")
    case True
    with assms(1) obtain v where "us = [set_op ''howler.escalation'' v False]"
      by (blast dest: hit_run_escalate)
    with assms(2) have "e ''howler.status'' = d ''howler.status''"
      by (auto simp: op_triple_def)
    moreover from True s' have "s' = s" by (cases s) auto
    ultimately show ?thesis using s' assms(3) by simp
  next
    case False
    let ?row = "hit_row (source_list t s) t (to_status s') (transition_actions t)"
    have l: "lookup_transition hit_workflow (status_value s) (transition_value t) = Some ?row"
      using False s' by (simp add: lookup_expected expected_row_def)
    from workflow_transition_status [OF assms(1) [unfolded hit_run_def] l, of "status_value s'"]
    obtain u where u: "u \<in> set us" "upd_op u = UPDATE_SET" "upd_key u = ''howler.status''"
      "upd_value u = PStr (status_value s')" by (auto simp: hit_workflow_def)
    from split_list [OF u(1)] obtain xs ys where us: "us = xs @ u # ys" by blast
    have "distinct (map upd_key us)"
      by (rule workflow_transition_distinct [OF assms(1) [unfolded hit_run_def]])
    with us u(3) have "''howler.status'' \<notin> set (map (fst \<circ> snd) (map op_triple ys))"
      by (auto simp: op_triple_def)
    moreover have "apply_ops d (map op_triple xs @ (UPDATE_SET, ''howler.status'', PStr (status_value s')) #
        map op_triple ys) = Some e" using assms(2) us u by (simp add: op_triple_def)
    ultimately have "e ''howler.status'' = Some (PStr (status_value s'))" by (rule apply_ops_set_last [rotated])
    with s' show ?thesis by blast
  qed
qed

lemma hit_step_machine:
  assumes "hit_step d t d'"
  shows "\<exists>s s'. status_of d = Some s \<and> hit_next s t = Some s' \<and> status_of d' = Some s'"
proof -
  from assms obtain s kw us e where *: "status_of d = Some s" "kw_hit kw = d" "hit_run s t kw = Inr us"
    "apply_ops d (map op_triple us) = Some e" "\<forall>k. k \<noteq> ''howler.log'' \<longrightarrow> d' k = e k"
    using hit_step_updates [OF assms] by blast
  from hit_run_status [OF *(3,4)] *(1) obtain s' where
    "hit_next s t = Some s'" "e ''howler.status'' = Some (PStr (status_value s'))"
    by (auto simp: status_of_Some)
  with * show ?thesis by (auto simp: status_of_Some)
qed

section \<open>Invariants of every history\<close>

lemma apply_set_op [simp]: "apply_op d (op_triple (set_op k v s)) = Some (d(k \<mapsto> v))"
  by (simp add: op_triple_def)

lemma vote_ops_frame:
  assumes "apply_ops d (map op_triple (vote_ops old v e)) = Some d'" and "v \<in> set vote_names"
    and "\<And>w. old = Some w \<Longrightarrow> w \<in> set vote_names" and "k \<notin> vote_key ` set vote_names"
  shows "d' k = d k"
  using assms(1) by (rule apply_ops_frame)
    (use assms(2-4) in \<open>auto simp: vote_ops_def op_triple_def split: option.splits if_splits\<close>)

text \<open>What each transition does to the assessment.\<close>

lemma hit_step_assessment:
  assumes "hit_step d t d'"
  shows "if t = ASSESS then doc_get d' ''howler.assessment'' \<noteq> PNone
         else if t = RE_EVALUATE then doc_get d' ''howler.assessment'' = PNone
         else doc_get d' ''howler.assessment'' = doc_get d ''howler.assessment''"
proof -
  from assms obtain s kw us e where *: "status_of d = Some s" "kw_hit kw = d" "hit_run s t kw = Inr us"
    "apply_ops d (map op_triple us) = Some e" "\<forall>k. k \<noteq> ''howler.log'' \<longrightarrow> d' k = e k"
    using hit_step_updates [OF assms] by blast
  from hit_run_next [OF *(3)] obtain s' where s': "hit_next s t = Some s'" by blast
  have e: "doc_get d' ''howler.assessment'' = doc_get e ''howler.assessment''"
    using *(5) by (simp add: doc_get_def)
  consider "t = ASSESS" | "t = RE_EVALUATE" | "t = VOTE" | "t \<in> {ASSIGN_TO_ME, ASSIGN_TO_OTHER}"
    | "t = RELEASE" | "t \<in> {START, PAUSE, RESUME}" | "t \<in> {PROMOTE, DEMOTE}"
    by (cases t) auto
  then show ?thesis
  proof cases
    case 1
    from hit_run_assess [OF *(3) [unfolded 1]] *(4) 1 e show ?thesis
      by (auto simp: doc_get_def py_opt_def given_cases)
  next
    case 2
    from hit_run_reevaluate [OF *(3) [unfolded 2]] *(4) 2 e show ?thesis by (auto simp: doc_get_def)
  next
    case 3
    from *(3) [unfolded 3] show ?thesis
    proof (rule hit_run_vote)
      fix v x old rel s2
      assume v: "v \<in> set vote_names" "old_vote (kw_hit kw) x = Inr old"
        "vote_release (kw_hit kw) (kw_user kw) = Inr rel"
        and us: "us = vote_ops old v x @ (if rel = [] then [status_op s2] else rel)"
      from *(4) us obtain d1 where d1: "apply_ops d (map op_triple (vote_ops old v x)) = Some d1"
        and d2: "apply_ops d1 (map op_triple (if rel = [] then [status_op s2] else rel)) = Some e"
        by (auto simp: apply_ops_append split: option.splits)
      have "d1 ''howler.assessment'' = d ''howler.assessment''"
        by (rule vote_ops_frame [OF d1 v(1)])
           (use v(2) old_vote_names in \<open>auto simp: vote_names_def vote_key_def\<close>)
      with d2 vote_release_Inr [OF v(3)] e 3 show ?thesis by (auto simp: doc_get_def split: if_splits)
    qed
  next
    case 4
    with hit_run_assign [OF *(3) 4 s'] *(4) e show ?thesis by (auto simp: doc_get_def)
  next
    case 5
    with hit_run_release [OF *(3) [unfolded 5] s' [unfolded 5]] *(4) e show ?thesis by (auto simp: doc_get_def)
  next
    case 6
    with hit_run_owner [OF *(3) 6 s'] *(4) e show ?thesis by (auto simp: doc_get_def)
  next
    case 7
    with hit_run_escalate [OF *(3) 7] *(4) e show ?thesis by (auto simp: doc_get_def)
  qed
qed

definition assessment_ok :: "doc \<Rightarrow> bool" where
  "assessment_ok d \<longleftrightarrow> (status_of d = Some RESOLVED \<longleftrightarrow> doc_get d ''howler.assessment'' \<noteq> PNone)"

lemma hit_step_assessment_ok:
  assumes "hit_step d t d'" and "assessment_ok d"
  shows "assessment_ok d'"
proof -
  from hit_step_machine [OF assms(1)] obtain s s' where
    s: "status_of d = Some s" "hit_next s t = Some s'" "status_of d' = Some s'" by blast
  show ?thesis
    using s hit_step_assessment [OF assms(1)] assms(2)
    by (cases t; cases s) (auto simp: assessment_ok_def)
qed


end
