(* ===== verification/HitVotes.thy ===== *)
theory HitVotes
  imports HitWorkflow
begin

text \<open>
  Votes on hits: the three vote lists stay disjoint and free of duplicates over every history of
  transitions, a vote moves or withdraws its voter, and what the guards of the voting and assessing
  actions refuse.
\<close>

section \<open>The vote lists\<close>

definition voters :: "doc \<Rightarrow> string \<Rightarrow> py list" where
  "voters d v = (case d (vote_key v) of Some (PList xs) \<Rightarrow> xs | _ \<Rightarrow> [])"

definition vote_lists :: "doc \<Rightarrow> bool" where
  "vote_lists d \<longleftrightarrow> (\<forall>v \<in> set vote_names. \<exists>xs. d (vote_key v) = Some (PList xs))"

definition votes_ok :: "doc \<Rightarrow> bool" where
  "votes_ok d \<longleftrightarrow> vote_lists d \<and> (\<forall>v \<in> set vote_names. distinct (voters d v)) \<and>
     (\<forall>v \<in> set vote_names. \<forall>w \<in> set vote_names. v \<noteq> w \<longrightarrow> set (voters d v) \<inter> set (voters d w) = {})"

lemma vote_lists_voters: "vote_lists d \<Longrightarrow> v \<in> set vote_names \<Longrightarrow> d (vote_key v) = Some (PList (voters d v))"
  by (auto simp: vote_lists_def voters_def)

lemma old_vote_eq:
  assumes "vote_lists d"
  shows "old_vote d e = Inr (find_first (\<lambda>v. PStr e \<in> set (voters d v)) vote_names)"
  using vote_lists_voters [OF assms]
  by (simp add: old_vote_def hit_index_def py_in_list_def vote_names_def)

text \<open>The list of \<open>w\<close> after a vote for \<open>v\<close>.\<close>

definition after_vote :: "doc \<Rightarrow> string \<Rightarrow> string \<Rightarrow> string \<Rightarrow> py list" where
  "after_vote d v e w =
     (if w = v \<and> PStr e \<notin> set (voters d v) then voters d v @ [PStr e] else remove1 (PStr e) (voters d w))"

lemma apply_remove_vote:
  assumes "d (vote_key w) = Some (PList xs)"
  shows "apply_op d (op_triple (remove_vote w e)) =
    Some (if PStr e \<in> set xs then d(vote_key w \<mapsto> PList (remove1 (PStr e) xs)) else d)"
  using assms by (simp add: op_triple_def doc_get_def)

lemma apply_add_vote:
  assumes "d (vote_key w) = Some (PList xs)"
  shows "apply_op d (op_triple (add_vote w e)) =
    Some (if PStr e \<in> set xs then d else d(vote_key w \<mapsto> PList (xs @ [PStr e])))"
  using assms by (simp add: op_triple_def doc_get_def)

lemma vote_ops_effect:
  assumes ok: "votes_ok d" and v: "v \<in> set vote_names"
    and old: "old = find_first (\<lambda>v. PStr e \<in> set (voters d v)) vote_names"
    and ap: "apply_ops d (map op_triple (vote_ops old v e)) = Some d'"
  shows "vote_lists d' \<and> (\<forall>w \<in> set vote_names. voters d' w = after_vote d v e w)"
proof -
  have lists: "vote_lists d" using ok by (simp add: votes_ok_def)
  note L = vote_lists_voters [OF lists]
  have "d' (vote_key w) = Some (PList (after_vote d v e w))" if w: "w \<in> set vote_names" for w
  proof (cases old)
    case None
    then have no: "u \<in> set vote_names \<Longrightarrow> PStr e \<notin> set (voters d u)" for u
      using old by (metis find_first_None)
    with ap None L [OF v] have "d' = d(vote_key v \<mapsto> PList (voters d v @ [PStr e]))"
      by (simp add: vote_ops_def apply_add_vote v)
    with no [OF w] no [OF v] L [OF w] vote_keys_distinct(1) [OF w v] show ?thesis
      by (auto simp: after_vote_def remove1_idem)
  next
    case (Some u)
    with old have u: "u \<in> set vote_names" "PStr e \<in> set (voters d u)"
      using find_first_Some [of "\<lambda>v. PStr e \<in> set (voters d v)" vote_names u] by auto
    have others: "x \<in> set vote_names \<Longrightarrow> x \<noteq> u \<Longrightarrow> PStr e \<notin> set (voters d x)" for x
      using ok u by (auto simp: votes_ok_def)
    let ?d1 = "d(vote_key u \<mapsto> PList (remove1 (PStr e) (voters d u)))"
    have r: "apply_op d (op_triple (remove_vote u e)) = Some ?d1"
      using u(2) by (simp add: apply_remove_vote [of d u "voters d u" e, OF L [OF u(1)]])
    show ?thesis
    proof (cases "u = v")
      case True
      with ap Some r have "d' = ?d1" by (simp add: vote_ops_def)
      with True u w L [OF w] others [OF w] vote_keys_distinct(1) [OF w u(1)] show ?thesis
        by (auto simp: after_vote_def remove1_idem)
    next
      case False
      with vote_keys_distinct(1) [OF v u(1)] have d1v: "?d1 (vote_key v) = Some (PList (voters d v))"
        using L [OF v] by simp
      from False others [OF v] have nv: "PStr e \<notin> set (voters d v)" by blast
      with ap Some r False have "d' = ?d1(vote_key v \<mapsto> PList (voters d v @ [PStr e]))"
        by (simp add: vote_ops_def apply_add_vote [of ?d1 v "voters d v" e, OF d1v] del: fun_upd_apply)
      with False u w v nv L [OF w] others [OF w] vote_keys_distinct(1) [OF w u(1)]
        vote_keys_distinct(1) [OF w v] show ?thesis
        by (auto simp: after_vote_def remove1_idem)
    qed
  qed
  then show ?thesis by (auto simp: vote_lists_def voters_def)
qed

lemma after_vote_ok:
  assumes "votes_ok d" and "v \<in> set vote_names" and "vote_lists d'"
    and "\<forall>w \<in> set vote_names. voters d' w = after_vote d v e w"
  shows "votes_ok d'"
proof -
  have "w \<in> set vote_names \<Longrightarrow> distinct (after_vote d v e w)" for w
    using assms(1) by (auto simp: votes_ok_def after_vote_def)
  moreover have "set (after_vote d v e x) \<inter> set (after_vote d v e y) = {}"
    if "x \<in> set vote_names" "y \<in> set vote_names" "x \<noteq> y" for x y
  proof -
    have x: "distinct (voters d x)" "distinct (voters d y)" "set (voters d x) \<inter> set (voters d y) = {}"
      using assms(1) that by (auto simp: votes_ok_def)
    then show ?thesis using that by (auto simp: after_vote_def)
  qed
  ultimately show ?thesis using assms(3,4) by (simp add: votes_ok_def)
qed

text \<open>Steps other than a vote leave the lists alone.\<close>

lemma hit_run_vote_frame:
  assumes "hit_run s t kw = Inr us" and "t \<noteq> VOTE" and "v \<in> set vote_names"
  shows "vote_key v \<notin> set (map upd_key us)"
proof -
  from hit_run_next [OF assms(1)] obtain s' where s': "hit_next s t = Some s'" by blast
  note k = vote_keys_distinct [OF assms(3) assms(3)]
  consider "t = ASSESS" | "t = RE_EVALUATE" | "t \<in> {ASSIGN_TO_ME, ASSIGN_TO_OTHER}"
    | "t = RELEASE" | "t \<in> {START, PAUSE, RESUME}" | "t \<in> {PROMOTE, DEMOTE}"
    using assms(2) by (cases t) auto
  then show ?thesis
  proof cases
    case 1
    from hit_run_assess [OF assms(1) [unfolded 1]] k show ?thesis by auto
  next
    case 2
    from hit_run_reevaluate [OF assms(1) [unfolded 2]] k show ?thesis by auto
  next
    case 3
    from hit_run_assign [OF assms(1) 3 s'] k show ?thesis by auto
  next
    case 4
    from hit_run_release [OF assms(1) [unfolded 4] s' [unfolded 4]] k show ?thesis by auto
  next
    case 5
    from hit_run_owner [OF assms(1) 5 s'] k show ?thesis by auto
  next
    case 6
    from hit_run_escalate [OF assms(1) 6] k show ?thesis by auto
  qed
qed

lemma hit_vote_effect:
  assumes "hit_run s VOTE kw = Inr us" and "apply_ops (kw_hit kw) (map op_triple us) = Some d'"
    and "votes_ok (kw_hit kw)"
  obtains v e where "kw_vote kw = Some (Some v)" "kw_email kw = Some (Some e)" "v \<in> set vote_names"
    "vote_lists d'" "\<forall>w \<in> set vote_names. voters d' w = after_vote (kw_hit kw) v e w"
  using assms(1)
proof (rule hit_run_vote)
  fix v e old rel s'
  let ?d = "kw_hit kw"
  assume *: "v \<in> set vote_names" "kw_email kw = Some (Some e)" "kw_vote kw = Some (Some v)"
    "old_vote ?d e = Inr old" "vote_release ?d (kw_user kw) = Inr rel"
    "us = vote_ops old v e @ (if rel = [] then [status_op s'] else rel)"
  let ?rest = "if rel = [] then [status_op s'] else rel"
  from assms(2) *(6) obtain d1 where d1: "apply_ops ?d (map op_triple (vote_ops old v e)) = Some d1"
    and d2: "apply_ops d1 (map op_triple ?rest) = Some d'"
    by (auto simp: apply_ops_append split: option.splits)
  have "vote_lists ?d" using assms(3) by (simp add: votes_ok_def)
  with *(4) have old: "old = find_first (\<lambda>v. PStr e \<in> set (voters ?d v)) vote_names"
    by (simp add: old_vote_eq)
  from vote_ops_effect [OF assms(3) *(1) old d1] have e1: "vote_lists d1"
    "\<forall>w \<in> set vote_names. voters d1 w = after_vote ?d v e w" by blast+
  have "w \<in> set vote_names \<Longrightarrow> d' (vote_key w) = d1 (vote_key w)" for w
    by (rule apply_ops_frame [OF d2])
       (use vote_release_Inr [OF *(5)] vote_keys_distinct [of w w] in \<open>auto simp: op_triple_def\<close>)
  with e1 have "vote_lists d'" "\<forall>w \<in> set vote_names. voters d' w = after_vote ?d v e w"
    by (auto simp: vote_lists_def voters_def)
  with that *(1-3) show ?thesis by blast
qed

lemma hit_step_votes:
  assumes "hit_step d t d'" and "votes_ok d"
  shows "votes_ok d'"
proof -
  from hit_step_updates [OF assms(1)] obtain s kw us e where *: "kw_hit kw = d" "hit_run s t kw = Inr us"
    "apply_ops d (map op_triple us) = Some e" "\<forall>k. k \<noteq> ''howler.log'' \<longrightarrow> d' k = e k" by blast
  have same: "d' (vote_key v) = e (vote_key v)" if v: "v \<in> set vote_names" for v
    using *(4) vote_keys_distinct(5) [OF v v] by blast
  show ?thesis
  proof (cases "t = VOTE")
    case True
    from *(1,3) assms(2) have h: "apply_ops (kw_hit kw) (map op_triple us) = Some e" "votes_ok (kw_hit kw)"
      by simp_all
    obtain v x where v: "v \<in> set vote_names" and "vote_lists e"
      "\<forall>w \<in> set vote_names. voters e w = after_vote d v x w"
      by (rule hit_vote_effect [OF *(2) [unfolded True] h]) (use *(1) in blast)
    then have "vote_lists d'" "\<forall>w \<in> set vote_names. voters d' w = after_vote d v x w"
      using same by (auto simp: vote_lists_def voters_def)
    from after_vote_ok [OF assms(2) v this] show ?thesis .
  next
    case False
    have "e (vote_key v) = d (vote_key v)" if "v \<in> set vote_names" for v
      by (rule apply_ops_frame [OF *(3)])
         (use hit_run_vote_frame [OF *(2) False that] in \<open>simp add: op_triple_def comp_def\<close>)
    with same assms(2) show ?thesis by (simp add: votes_ok_def vote_lists_def voters_def)
  qed
qed



section \<open>Accepted transitions are applied\<close>

definition op_fits :: "odm_update \<Rightarrow> bool" where
  "op_fits u \<longleftrightarrow> (upd_op u = UPDATE_SET \<and> upd_key u \<in> set scalar_hit_keys) \<or>
     (upd_op u \<in> {UPDATE_REMOVE, UPDATE_APPEND_IF_MISSING} \<and> upd_key u \<in> vote_key ` set vote_names) \<or>
     (upd_op u = UPDATE_APPEND \<and> upd_key u = ''howler.log'')"

definition list_fields_ok :: "doc \<Rightarrow> bool" where
  "list_fields_ok d \<longleftrightarrow> vote_lists d \<and> (\<exists>xs. d ''howler.log'' = Some (PList xs))"

lemma hit_run_fits:
  assumes "hit_run s t kw = Inr us" and "u \<in> set us"
  shows "op_fits u \<and> upd_key u \<noteq> ''howler.log''"
proof -
  from hit_run_next [OF assms(1)] obtain s' where s': "hit_next s t = Some s'" by blast
  consider "t = ASSESS" | "t = RE_EVALUATE" | "t = VOTE" | "t \<in> {ASSIGN_TO_ME, ASSIGN_TO_OTHER}"
    | "t = RELEASE" | "t \<in> {START, PAUSE, RESUME}" | "t \<in> {PROMOTE, DEMOTE}"
    by (cases t) auto
  then show ?thesis
  proof cases
    case 1
    from hit_run_assess [OF assms(1) [unfolded 1]] assms(2) show ?thesis by (auto simp: op_fits_def)
  next
    case 2
    from hit_run_reevaluate [OF assms(1) [unfolded 2]] assms(2) show ?thesis by (auto simp: op_fits_def)
  next
    case 3
    from assms(1) [unfolded 3] show ?thesis
    proof (rule hit_run_vote)
      fix v x old rel s2
      assume v: "v \<in> set vote_names" "old_vote (kw_hit kw) x = Inr old"
        "vote_release (kw_hit kw) (kw_user kw) = Inr rel"
        and us: "us = vote_ops old v x @ (if rel = [] then [status_op s2] else rel)"
      have "u \<in> set (vote_ops old v x) \<or> u \<in> set (if rel = [] then [status_op s2] else rel)"
        using assms(2) us by auto
      then show ?thesis
      proof
        assume u: "u \<in> set (vote_ops old v x)"
        have "old = Some w \<Longrightarrow> w \<in> set vote_names" for w using v(2) old_vote_names by blast
        moreover have "(\<exists>w. old = Some w \<and> u = remove_vote w x) \<or> u = add_vote v x"
          using u by (auto simp: vote_ops_def split: option.splits if_splits)
        ultimately obtain w where "w \<in> set vote_names" "upd_key u = vote_key w"
          "upd_op u \<in> {UPDATE_REMOVE, UPDATE_APPEND_IF_MISSING}"
          using v(1) by fastforce
        with vote_keys_distinct(5) [of w w] show ?thesis by (auto simp: op_fits_def)
      next
        assume "u \<in> set (if rel = [] then [status_op s2] else rel)"
        with vote_release_Inr [OF v(3)] show ?thesis by (auto simp: op_fits_def split: if_splits)
      qed
    qed
  next
    case 4
    from hit_run_assign [OF assms(1) 4 s'] assms(2) show ?thesis by (auto simp: op_fits_def)
  next
    case 5
    from hit_run_release [OF assms(1) [unfolded 5] s' [unfolded 5]] assms(2) show ?thesis
      by (auto simp: op_fits_def)
  next
    case 6
    from hit_run_owner [OF assms(1) 6 s'] assms(2) show ?thesis by (auto simp: op_fits_def)
  next
    case 7
    from hit_run_escalate [OF assms(1) 7] assms(2) show ?thesis by (auto simp: op_fits_def)
  qed
qed

lemma vote_key_not_scalar: "v \<in> set vote_names \<Longrightarrow> vote_key v \<notin> set scalar_hit_keys"
  by (simp add: vote_keys_distinct)

lemma apply_op_fits:
  assumes "op_fits u" and "list_fields_ok d"
  shows "\<exists>d'. apply_op d (op_triple u) = Some d' \<and> list_fields_ok d'"
proof -
  have votes: "v \<in> set vote_names \<Longrightarrow> \<exists>xs. d (vote_key v) = Some (PList xs)" for v
    using assms(2) by (auto simp: list_fields_ok_def vote_lists_def)
  from assms(2) obtain lg where lg: "d ''howler.log'' = Some (PList lg)" by (auto simp: list_fields_ok_def)
  have upd: "list_fields_ok (d(k \<mapsto> PList ys))" for k ys
    using assms(2) by (auto simp: list_fields_ok_def vote_lists_def)
  from assms(1) consider
      "upd_op u = UPDATE_SET" "upd_key u \<in> set scalar_hit_keys"
    | v where "upd_op u \<in> {UPDATE_REMOVE, UPDATE_APPEND_IF_MISSING}" "upd_key u = vote_key v" "v \<in> set vote_names"
    | "upd_op u = UPDATE_APPEND" "upd_key u = ''howler.log''"
    unfolding op_fits_def by blast
  then show ?thesis
  proof cases
    case 1
    have "v \<in> set vote_names \<Longrightarrow> vote_key v \<noteq> upd_key u" for v
      using 1(2) vote_key_not_scalar by auto
    moreover have "upd_key u \<noteq> ''howler.log''" using 1(2) by auto
    ultimately have "list_fields_ok (d(upd_key u \<mapsto> upd_value u))"
      using assms(2) unfolding list_fields_ok_def vote_lists_def fun_upd_def by metis
    with 1 show ?thesis by (simp add: op_triple_def)
  next
    case 2
    from votes [OF 2(3)] obtain xs where "d (vote_key v) = Some (PList xs)" by blast
    with 2 upd assms(2) show ?thesis by (auto simp: op_triple_def doc_get_def)
  next
    case 3
    with lg upd show ?thesis by (simp add: op_triple_def doc_get_def)
  qed
qed

lemma apply_ops_fits:
  assumes "\<forall>u \<in> set us. op_fits u" and "list_fields_ok d"
  shows "\<exists>d'. apply_ops d (map op_triple us) = Some d' \<and> list_fields_ok d'"
  using assms
proof (induction us arbitrary: d)
  case (Cons u us)
  from Cons.prems apply_op_fits [of u d] obtain d1 where
    "apply_op d (op_triple u) = Some d1" "list_fields_ok d1" by auto
  with Cons.IH [of d1] Cons.prems(1) show ?case by auto
qed simp

lemma hit_keys_dget: "map_option snd (dget hit_flat_fields k) = dget hit_keys k"
proof -
  have "map_option snd (dget fs k) = dget (map (\<lambda>(k, (f, m)). (k, m)) fs) k"
    for fs :: "(string, field \<times> bool) dict"
    by (induction fs) auto
  then show ?thesis by (simp add: hit_keys_def)
qed

lemma fits_key_known:
  assumes "op_fits u" and "upd_key u \<noteq> ''howler.log''"
  shows "\<exists>m. op_context hit_flat_fields d u = Inr (m, doc_get d (upd_key u))"
proof -
  have "k \<in> set scalar_hit_keys \<union> vote_key ` set vote_names \<Longrightarrow> k \<in> set (map fst howler_keys)" for k
    unfolding howler_keys_def howler_flat_keys by (auto simp: vote_names_def vote_key_def)
  moreover have "set (map fst howler_keys) \<subseteq> set (map fst hit_keys)"
    using howler_keys_hit unfolding set_map by blast
  ultimately have "k \<in> set scalar_hit_keys \<union> vote_key ` set vote_names \<Longrightarrow> k \<in> set (map fst hit_keys)" for k by blast
  with assms have "upd_key u \<in> set (map fst hit_keys)" unfolding op_fits_def by blast
  then obtain m where "dget hit_keys (upd_key u) = Some m"
    by (metis dget_None_iff dkeys_def not_None_eq)
  then obtain f where "dget hit_flat_fields (upd_key u) = Some (f, m)"
    using hit_keys_dget [of "upd_key u"] by auto
  then show ?thesis by (simp add: op_context_def)
qed

lemma final_operations_total:
  assumes "\<forall>u \<in> set us. op_fits u \<and> upd_key u \<noteq> ''howler.log''"
  shows "\<exists>ops. final_operations hit_flat_fields d usr v us = Inr ops \<and> (\<forall>u \<in> set ops. op_fits u)"
  using assms
proof (induction us)
  case (Cons u us)
  then obtain zs where z: "final_operations hit_flat_fields d usr v us = Inr zs" "\<forall>u \<in> set zs. op_fits u"
    by auto
  from Cons.prems fits_key_known [of u d] obtain m where
    "op_context hit_flat_fields d u = Inr (m, doc_get d (upd_key u))" by auto
  with z(1) have "final_operations hit_flat_fields d usr v (u # us) = Inr (u #
     (if upd_silent u then [] else [append_log (log_entry usr v u m (doc_get d (upd_key u)))]) @ zs)"
    by (simp add: final_operations_Cons)
  then show ?case using z(2) Cons.prems by (auto simp: op_fits_def)
qed simp


section \<open>What the guards refuse\<close>

lemma vote_release_assigned:
  assumes "d ''howler.assignment'' = Some (PStr (u_uname u))"
    and "d ''howler.status'' = Some (PStr (status_value s))" and "s \<in> {OPEN, IN_PROGRESS}"
  shows "vote_release d (Some u) =
    Inr [set_op ''howler.assignment'' (PStr DEFAULT_ASSIGNMENT) False, status_op OPEN]"
  using assms by (auto simp: vote_release_def hit_index_def)


lemma assess_iff:
  "(\<exists>us. hit_run s ASSESS kw = Inr us) \<longleftrightarrow>
     s \<in> {OPEN, IN_PROGRESS} \<and> given (kw_assessment kw) \<and> enum_contains Assessment (the (kw_assessment kw)) \<and>
     (kw_user kw \<noteq> None \<or> given (kw_assignee kw))"
  "(\<exists>us. hit_run s RE_EVALUATE kw = Inr us) \<longleftrightarrow>
     s = RESOLVED \<and> \<not> given (kw_assessment kw) \<and> (kw_user kw \<noteq> None \<or> given (kw_assignee kw))"
proof -
  have ass: "assign_hit tr usr a h =
      (if usr = None \<and> \<not> given a
       then Inl (invalid_data ''Could not assign Hit to user a no 'user_id' was provided'')
       else Inr [set_op ''howler.assignment'' (assign_value usr a) False])"
    if "tr \<noteq> transition_value ASSIGN_TO_OTHER" for tr usr a h
    using that by (simp add: assign_hit_def)
  show "(\<exists>us. hit_run s ASSESS kw = Inr us) \<longleftrightarrow>
     s \<in> {OPEN, IN_PROGRESS} \<and> given (kw_assessment kw) \<and> enum_contains Assessment (the (kw_assessment kw)) \<and>
     (kw_user kw \<noteq> None \<or> given (kw_assignee kw))"
  proof
    assume "\<exists>us. hit_run s ASSESS kw = Inr us"
    then obtain us where us: "hit_run s ASSESS kw = Inr us" by blast
    from hit_run_next [OF us] obtain s' where s': "hit_next s ASSESS = Some s'" by blast
    then have "s \<in> {OPEN, IN_PROGRESS}" by (cases s) auto
    moreover have "kw_user kw \<noteq> None \<or> given (kw_assignee kw)"
      using us s' by (auto simp: run_simps ass split: if_splits)
    ultimately show "s \<in> {OPEN, IN_PROGRESS} \<and> given (kw_assessment kw) \<and>
       enum_contains Assessment (the (kw_assessment kw)) \<and> (kw_user kw \<noteq> None \<or> given (kw_assignee kw))"
      using hit_run_assess [OF us] by blast
  next
    assume a: "s \<in> {OPEN, IN_PROGRESS} \<and> given (kw_assessment kw) \<and>
       enum_contains Assessment (the (kw_assessment kw)) \<and> (kw_user kw \<noteq> None \<or> given (kw_assignee kw))"
    then obtain e where e: "enum_getitem AssessmentEscalationMap (the (kw_assessment kw)) = Inr e"
      using assessment_contains_escalation by blast
    from a have "hit_next s ASSESS = Some RESOLVED" by auto
    with a e show "\<exists>us. hit_run s ASSESS kw = Inr us"
      by (auto simp: run_simps assess_hit_some ass)
  qed
  show "(\<exists>us. hit_run s RE_EVALUATE kw = Inr us) \<longleftrightarrow>
     s = RESOLVED \<and> \<not> given (kw_assessment kw) \<and> (kw_user kw \<noteq> None \<or> given (kw_assignee kw))"
  proof
    assume "\<exists>us. hit_run s RE_EVALUATE kw = Inr us"
    then obtain us where us: "hit_run s RE_EVALUATE kw = Inr us" by blast
    from hit_run_next [OF us] obtain s' where s': "hit_next s RE_EVALUATE = Some s'" by blast
    then have "s = RESOLVED" by (cases s) auto
    moreover have "kw_user kw \<noteq> None \<or> given (kw_assignee kw)"
      using us s' by (auto simp: run_simps ass split: if_splits)
    ultimately show "s = RESOLVED \<and> \<not> given (kw_assessment kw) \<and> (kw_user kw \<noteq> None \<or> given (kw_assignee kw))"
      using hit_run_reevaluate [OF us] by blast
  next
    assume a: "s = RESOLVED \<and> \<not> given (kw_assessment kw) \<and> (kw_user kw \<noteq> None \<or> given (kw_assignee kw))"
    then have "hit_next s RE_EVALUATE = Some IN_PROGRESS" by simp
    with a show "\<exists>us. hit_run s RE_EVALUATE kw = Inr us"
      by (auto simp: run_simps assess_hit_none ass)
  qed
qed


section \<open>The stored status follows the machine\<close>


end
