(* ===== verification/Datastore.thy ===== *)
theory Datastore
  imports Operations
begin

text \<open>
  \<^verbatim>\<open>ESCollection\<close> (\<^verbatim>\<open>datastore/collection.py\<close>): the retry loop around every client call, the version
  tokens of optimistic concurrency control, reading a document with its token, validating update
  operations, and the versioned \<^verbatim>\<open>update\<close> and \<^verbatim>\<open>save\<close>. The Elasticsearch client is a parameter: a record
  of the calls the code makes, each taking the world and returning an answer or an exception with the
  world it leaves. Sleeping and logging have no effect on results and are left out.
\<close>

section \<open>The client\<close>

text \<open>
  The exceptions of the \<^verbatim>\<open>elasticsearch\<close> package the code tells apart. A NotFoundError says whether
  its text contains \<^verbatim>\<open>index_not_found_exception\<close>.
\<close>

datatype es_exc =
    EsNotFound bool string | EsConflict string | EsTimeout | EsSearchRetry string
  | EsConnection string | EsAuthentication string | EsTransport int string
  | EsBadRequest string | EsOther string

record es_hit =
  eh_index :: string
  eh_seq_no :: nat
  eh_primary_term :: nat
  eh_source :: doc

record es_write =
  ew_result :: string
  ew_index :: string
  ew_seq_no :: nat
  ew_primary_term :: nat

text \<open>What a handler of the retry loop does before the next attempt.\<close>

datatype recovery = RecreateIndex | ResetConnection

type_synonym ('w, 'a) es_call = "'w \<Rightarrow> (es_exc + 'a) \<times> 'w"

record 'w es_client =
  es_get :: "string \<Rightarrow> string \<Rightarrow> ('w, es_hit) es_call"
  es_search_ids :: "string \<Rightarrow> string \<Rightarrow> ('w, es_hit list) es_call"
  es_exists :: "string \<Rightarrow> string \<Rightarrow> ('w, bool) es_call"
  es_update :: "string \<Rightarrow> string \<Rightarrow> es_script \<Rightarrow> string option \<Rightarrow> string option \<Rightarrow> ('w, es_write) es_call"
  es_index :: "string \<Rightarrow> string \<Rightarrow> doc \<Rightarrow> string \<Rightarrow> string option \<Rightarrow> string option \<Rightarrow> ('w, unit) es_call"
  es_delete :: "string \<Rightarrow> string \<Rightarrow> ('w, string) es_call"
  es_refresh :: "string \<Rightarrow> ('w, unit) es_call"
  es_clear_cache :: "string \<Rightarrow> ('w, unit) es_call"
  es_recover :: "recovery \<Rightarrow> 'w \<Rightarrow> 'w"

text \<open>
  A collection: its client, its name, the attempts a call gets, whether it rolls over (\<^verbatim>\<open>ilm_config\<close>),
  the flat fields of its model (None without a model), the fields' \<^verbatim>\<open>check\<close> methods and the model's
  constructor. A field's \<^verbatim>\<open>check\<close> is taken to return the primitive form of the value.
\<close>

record 'w collection =
  co_client :: "'w es_client"
  co_name :: string
  co_max_attempts :: nat
  co_ilm :: bool
  co_fields :: "(string, field \<times> bool) dict option"
  co_check :: "field \<Rightarrow> py \<Rightarrow> py result"
  co_build :: "doc \<Rightarrow> doc result"

definition index_name :: "'w collection \<Rightarrow> string" where
  "index_name c = co_name c @ ''_hot''"

section \<open>Retries\<close>

text \<open>What a call raises: an exception of the client, or one of Howler's own.\<close>

datatype call_exc = CallEs es_exc | CallExn exn

datatype retry_step = RetryAfter recovery | GiveUp call_exc

definition retry_decision :: "bool \<Rightarrow> es_exc \<Rightarrow> retry_step" where
  "retry_decision raise_conflicts e =
     (case e of
        EsNotFound missing_index m \<Rightarrow> if missing_index then RetryAfter RecreateIndex else GiveUp (CallEs e)
      | EsConflict m \<Rightarrow>
          if raise_conflicts then GiveUp (CallExn (Exn EVersionConflict m)) else RetryAfter ResetConnection
      | EsTimeout \<Rightarrow> RetryAfter ResetConnection
      | EsSearchRetry m \<Rightarrow> RetryAfter ResetConnection
      | EsConnection m \<Rightarrow> RetryAfter ResetConnection
      | EsAuthentication m \<Rightarrow> RetryAfter ResetConnection
      | EsTransport code m \<Rightarrow>
          if code \<in> {503, 429, 403} then RetryAfter ResetConnection else GiveUp (CallEs e)
      | _ \<Rightarrow> GiveUp (CallEs e))"

text \<open>\<^verbatim>\<open>with_retries\<close>: the loop with the attempts left; when none is left it raises.\<close>

fun retry_loop ::
    "'w collection \<Rightarrow> bool \<Rightarrow> nat \<Rightarrow> ('w, 'a) es_call \<Rightarrow> 'w \<Rightarrow> (call_exc + 'a) \<times> 'w" where
  "retry_loop c rc 0 f w =
     (Inl (CallExn (Exn EHowlerRuntime (''Maximum of '' @ str_nat (co_max_attempts c) @
        '' retries reached. Aborting ES connection''))), w)"
| "retry_loop c rc (Suc n) f w =
     (case f w of
        (Inr x, w') \<Rightarrow> (Inr x, w')
      | (Inl e, w') \<Rightarrow>
          (case retry_decision rc e of
             RetryAfter r \<Rightarrow> retry_loop c rc n f (es_recover (co_client c) r w')
           | GiveUp ex \<Rightarrow> (Inl ex, w')))"

definition with_retries ::
    "'w collection \<Rightarrow> bool \<Rightarrow> ('w, 'a) es_call \<Rightarrow> 'w \<Rightarrow> (call_exc + 'a) \<times> 'w" where
  "with_retries c rc f = retry_loop c rc (co_max_attempts c) f"

text \<open>An exception of the client that no handler of the caller names reaches the caller's caller.\<close>

definition es_exn_text :: "es_exc \<Rightarrow> string" where
  "es_exn_text e = (case e of
      EsNotFound _ m \<Rightarrow> m | EsConflict m \<Rightarrow> m | EsTimeout \<Rightarrow> ''Connection timed out''
    | EsSearchRetry m \<Rightarrow> m | EsConnection m \<Rightarrow> m | EsAuthentication m \<Rightarrow> m | EsTransport _ m \<Rightarrow> m
    | EsBadRequest m \<Rightarrow> m | EsOther m \<Rightarrow> m)"

definition call_exn :: "call_exc \<Rightarrow> exn" where
  "call_exn ce = (case ce of CallEs e \<Rightarrow> Exn EOther (es_exn_text e) | CallExn ex \<Rightarrow> ex)"

section \<open>Version tokens\<close>

definition CREATE_TOKEN :: string where
  "CREATE_TOKEN = ''create''"

definition data_store_exn :: "string \<Rightarrow> exn" where
  "data_store_exn m = Exn EDataStore m"

definition token :: "'w collection \<Rightarrow> string \<Rightarrow> nat \<Rightarrow> nat \<Rightarrow> string" where
  "token c index seq_no primary_term =
     (if co_ilm c then index @ ''---'' @ str_nat seq_no @ ''---'' @ str_nat primary_term
      else str_nat seq_no @ ''---'' @ str_nat primary_term)"

definition get_version_write_target :: "'w collection \<Rightarrow> string \<Rightarrow> (string \<times> string \<times> string) result" where
  "get_version_write_target c version =
     (case py_split ''---'' version of
        [index, seq_no, primary_term] \<Rightarrow> Inr (index, seq_no, primary_term)
      | [seq_no, primary_term] \<Rightarrow> Inr (co_name c, seq_no, primary_term)
      | _ \<Rightarrow> Inl (data_store_exn (''Invalid version token for '' @ co_name c @ '': '' @ py_repr (PStr version))))"

section \<open>Reading\<close>

text \<open>One attempt at the document of a key: None when it is not found.\<close>

definition get_once :: "'w collection \<Rightarrow> string \<Rightarrow> ('w, es_hit option) io" where
  "get_once c key = (\<lambda>w.
     if co_ilm c
     then (case with_retries c False (es_search_ids (co_client c) (co_name c) key) w of
             (Inr [], w') \<Rightarrow> (Inr None, w')
           | (Inr (h # hs), w') \<Rightarrow> (Inr (Some h), w')
           | (Inl (CallEs (EsNotFound i m)), w') \<Rightarrow> (Inr None, w')
           | (Inl ce, w') \<Rightarrow> (Inl (call_exn ce), w'))
     else (case with_retries c False (es_get (co_client c) (co_name c) key) w of
             (Inr h, w') \<Rightarrow> (Inr (Some h), w')
           | (Inl (CallEs (EsNotFound i m)), w') \<Rightarrow> (Inr None, w')
           | (Inl ce, w') \<Rightarrow> (Inl (call_exn ce), w')))"

text \<open>
  \<^verbatim>\<open>_get(key, retries, version=True)\<close> for a finite number of retries: the document without its \<^verbatim>\<open>id\<close>,
  and its token; the create token when it does not exist.
\<close>

fun get_versioned :: "'w collection \<Rightarrow> string \<Rightarrow> nat \<Rightarrow> ('w, doc option \<times> string) io" where
  "get_versioned c key retries =
     bindM (get_once c key) (\<lambda>h. case h of
        Some d \<Rightarrow> returnM (Some ((eh_source d)(''id'' := None)),
                           token c (eh_index d) (eh_seq_no d) (eh_primary_term d))
      | None \<Rightarrow> (case retries of
            0 \<Rightarrow> returnM (None, CREATE_TOKEN)
          | Suc r \<Rightarrow> get_versioned c key r))"

declare get_versioned.simps [simp del]

text \<open>\<^verbatim>\<open>normalize\<close>: the model's object, or the dictionary without the reserved keys.\<close>

definition BANNED_FIELDS :: "string list" where
  "BANNED_FIELDS = [''_id'', ''__access_grp1__'', ''__access_lvl__'', ''__access_req__'', ''__access_grp2__'']"

definition normalize :: "'w collection \<Rightarrow> bool \<Rightarrow> doc option \<Rightarrow> doc option result" where
  "normalize c as_obj data =
     (case data of
        None \<Rightarrow> Inr None
      | Some d \<Rightarrow>
          if as_obj \<and> co_fields c \<noteq> None then bindR (co_build c d) (\<lambda>d'. Inr (Some d'))
          else Inr (Some (\<lambda>k. if k \<in> set BANNED_FIELDS then None else d k)))"

definition RETRY_NORMAL :: nat where "RETRY_NORMAL = 1"
definition RETRY_NONE :: nat where "RETRY_NONE = 0"

definition coll_get :: "'w collection \<Rightarrow> string \<Rightarrow> bool \<Rightarrow> ('w, doc option \<times> string) io" where
  "coll_get c key as_obj =
     bindM (get_versioned c key RETRY_NORMAL) (\<lambda>(d, v).
     bindM (liftM (normalize c as_obj d)) (\<lambda>d'. returnM (d', v)))"

definition get_if_exists :: "'w collection \<Rightarrow> string \<Rightarrow> bool \<Rightarrow> ('w, doc option \<times> string) io" where
  "get_if_exists c key as_obj =
     bindM (get_versioned c key RETRY_NONE) (\<lambda>(d, v).
     bindM (liftM (normalize c as_obj d)) (\<lambda>d'. returnM (d', v)))"

definition search_exists :: "'w collection \<Rightarrow> string \<Rightarrow> ('w, bool) io" where
  "search_exists c key = (\<lambda>w.
     case with_retries c False (es_search_ids (co_client c) (co_name c) key) w of
       (Inr hs, w') \<Rightarrow> (Inr (0 < length hs), w')
     | (Inl ce, w') \<Rightarrow> (Inl (call_exn ce), w'))"

definition coll_exists :: "'w collection \<Rightarrow> string \<Rightarrow> ('w, bool) io" where
  "coll_exists c key = (\<lambda>w.
     if co_ilm c then search_exists c key w
     else (case with_retries c False (es_exists (co_client c) (co_name c) key) w of
             (Inr b, w') \<Rightarrow> (Inr b, w')
           | (Inl (CallEs (EsBadRequest m)), w') \<Rightarrow> search_exists c key w'
           | (Inl ce, w') \<Rightarrow> (Inl (call_exn ce), w')))"

section \<open>Validating operations\<close>

text \<open>The fields an update may name: the model's, with the access fields of a classified model.\<close>

definition access_fields :: "(string, field \<times> bool) dict" where
  "access_fields =
     [(''__access_lvl__'', (plain (KInteger None None), False)),
      (''__access_req__'', (plain (KList (plain KKeyword)), True)),
      (''__access_grp1__'', (plain (KList (plain KKeyword)), True)),
      (''__access_grp2__'', (plain (KList (plain KKeyword)), True))]"

definition update_fields :: "(string, field \<times> bool) dict \<Rightarrow> (string, field \<times> bool) dict" where
  "update_fields flds =
     (if dmem flds ''classification''
      then foldl (\<lambda>d (k, v). dset d k v) flds access_fields else flds)"

definition before_last_dot :: "string \<Rightarrow> string" where
  "before_last_dot s = rev (drop 1 (dropWhile (\<lambda>ch. ch \<noteq> CHR ''.'') (rev s)))"

definition mapping_child :: "field \<Rightarrow> field" where
  "mapping_child f = (case field_kind f of KMapping i c \<Rightarrow> c | _ \<Rightarrow> f)"

definition operation_field :: "(string, field \<times> bool) dict \<Rightarrow> string \<Rightarrow> field result" where
  "operation_field flds doc_key =
     (case dget flds doc_key of
        Some (f, m) \<Rightarrow> Inr f
      | None \<Rightarrow>
          if CHR ''.'' \<notin> set doc_key
          then Inl (data_store_exn (''Invalid field for model: '' @ doc_key))
          else
            let prev_key = before_last_dot doc_key in
            (case dget flds prev_key of
               None \<Rightarrow> Inl (Exn EKeyError prev_key)
             | Some (f, m) \<Rightarrow>
                 if \<not> is_mapping_field f
                 then Inl (data_store_exn (''Invalid field for model: '' @ prev_key))
                 else Inr (mapping_child f)))"

text \<open>
  List operations also catch AttributeError from a check; deletions and extrema are not checked.
\<close>

definition check_catches :: "update_op \<Rightarrow> exn_class \<Rightarrow> bool" where
  "check_catches opr ec \<longleftrightarrow>
     ec \<in> {EValueError, EHowlerValue, ETypeError, EHowlerType} \<or>
     (opr \<in> {UPDATE_APPEND, UPDATE_APPEND_IF_MISSING, UPDATE_REMOVE} \<and> ec = EAttributeError)"

definition validate_operation ::
    "'w collection \<Rightarrow> update_op \<times> string \<times> py \<Rightarrow> (update_op \<times> string \<times> py) result" where
  "validate_operation c x =
     (case x of (opr, doc_key, value) \<Rightarrow>
      case co_fields c of
        None \<Rightarrow> Inr x
      | Some flds \<Rightarrow>
          bindR (operation_field (update_fields flds) doc_key) (\<lambda>f.
          if opr \<in> {UPDATE_APPEND, UPDATE_APPEND_IF_MISSING, UPDATE_REMOVE,
                    UPDATE_SET, UPDATE_DEC, UPDATE_INC}
          then (case co_check c f value of
                  Inr v \<Rightarrow> Inr (opr, doc_key, v)
                | Inl e \<Rightarrow>
                    if check_catches opr (exn_class e)
                    then Inl (data_store_exn
                           (''Invalid value for field '' @ doc_key @ '': '' @ py_str value))
                    else Inl e)
          else Inr x))"

definition validate_operations ::
    "'w collection \<Rightarrow> (update_op \<times> string \<times> py) list \<Rightarrow> (update_op \<times> string \<times> py) list result" where
  "validate_operations c ops = mapR (validate_operation c) ops"

section \<open>Writing\<close>

text \<open>\<^verbatim>\<open>update\<close> returns False or the pair of \<^verbatim>\<open>result == "updated"\<close> and the new token.\<close>

datatype update_answer = UpdateFalse | Updated bool string

definition truthy_text :: "string option \<Rightarrow> bool" where
  "truthy_text s = (case s of None \<Rightarrow> False | Some x \<Rightarrow> x \<noteq> '''')"

definition write_target ::
    "'w collection \<Rightarrow> string option \<Rightarrow> (string \<times> string option \<times> string option) result" where
  "write_target c version =
     (if truthy_text version
      then bindR (get_version_write_target c (the version)) (\<lambda>(i, s, t). Inr (i, Some s, Some t))
      else Inr (co_name c, None, None))"

definition default_version :: "'w collection \<Rightarrow> string \<Rightarrow> string option \<Rightarrow> ('w, string option) io" where
  "default_version c key version =
     (if version = None \<and> co_ilm c
      then bindM (get_if_exists c key False) (\<lambda>(d, v). returnM (Some v))
      else returnM version)"

definition send_update ::
    "'w collection \<Rightarrow> string \<Rightarrow> es_script \<Rightarrow> string \<times> string option \<times> string option \<Rightarrow>
     ('w, update_answer) io" where
  "send_update c key script tgt = (case tgt of (index, seq_no, primary_term) \<Rightarrow> (\<lambda>w.
     case with_retries c (truthy_text seq_no \<and> truthy_text primary_term)
            (es_update (co_client c) index key script seq_no primary_term) w of
       (Inr r, w') \<Rightarrow>
         (Inr (Updated (ew_result r = ''updated'') (token c (ew_index r) (ew_seq_no r) (ew_primary_term r))), w')
     | (Inl (CallExn (Exn EVersionConflict m)), w') \<Rightarrow> (Inl (Exn EVersionConflict m), w')
     | (Inl ce, w') \<Rightarrow> (Inr UpdateFalse, w')))"

definition coll_update ::
    "'w collection \<Rightarrow> string \<Rightarrow> (update_op \<times> string \<times> py) list \<Rightarrow> string option \<Rightarrow> ('w, update_answer) io" where
  "coll_update c key operations version =
     bindM (liftM (validate_operations c operations)) (\<lambda>ops.
     bindM (default_version c key version) (\<lambda>version'.
     bindM (liftM (write_target c version')) (\<lambda>tgt.
     send_update c key (create_script ops) tgt)))"

text \<open>
  \<^verbatim>\<open>save\<close>: the document, given in the primitive form \<^verbatim>\<open>normalize\<close> and \<^verbatim>\<open>as_primitives\<close> produce, with its id;
  created or indexed under a version.
\<close>

definition save_target ::
    "'w collection \<Rightarrow> string option \<Rightarrow> (string \<times> string \<times> string option \<times> string option) result" where
  "save_target c version =
     (if version = Some CREATE_TOKEN then Inr (''create'', co_name c, None, None)
      else bindR (write_target c version) (\<lambda>(i, s, t). Inr (''index'', i, s, t)))"

definition coll_save :: "'w collection \<Rightarrow> string \<Rightarrow> doc \<Rightarrow> string option \<Rightarrow> ('w, bool) io" where
  "coll_save c key data version =
     (if CHR '' '' \<in> set key
      then raiseM (data_store_exn ''You are not allowed to use spaces in datastore keys.'')
      else
        bindM (default_version c key version) (\<lambda>version'.
        bindM (liftM (save_target c version')) (\<lambda>(operation, index, seq_no, primary_term). (\<lambda>w.
          case with_retries c True
                 (es_index (co_client c) index key (data(''id'' \<mapsto> PStr key)) operation seq_no primary_term) w of
            (Inr r, w') \<Rightarrow> (Inr True, w')
          | (Inl (CallEs (EsBadRequest m)), w') \<Rightarrow>
              (Inl (Exn ENonRecoverable (''When saving document '' @ key @
                 '' to elasticsearch, an exception occurred:'' @ [newline] @ m)), w')
          | (Inl ce, w') \<Rightarrow> (Inl (call_exn ce), w')))))"

definition coll_delete :: "'w collection \<Rightarrow> string \<Rightarrow> ('w, bool) io" where
  "coll_delete c key = (\<lambda>w.
     case with_retries c False (es_delete (co_client c) (co_name c) key) w of
       (Inr r, w') \<Rightarrow> (Inr (r = ''deleted''), w')
     | (Inl (CallEs (EsNotFound i m)), w') \<Rightarrow> (Inr False, w')
     | (Inl ce, w') \<Rightarrow> (Inl (call_exn ce), w'))"

definition coll_commit :: "'w collection \<Rightarrow> ('w, bool) io" where
  "coll_commit c = (\<lambda>w.
     case with_retries c False (es_refresh (co_client c) (index_name c)) w of
       (Inl ce, w') \<Rightarrow> (Inl (call_exn ce), w')
     | (Inr _, w') \<Rightarrow>
         (case with_retries c False (es_clear_cache (co_client c) (index_name c)) w' of
            (Inl ce, w'') \<Rightarrow> (Inl (call_exn ce), w'')
          | (Inr _, w'') \<Rightarrow> (Inr True, w'')))"

section \<open>Facts about retries\<close>

lemma retry_loop_step:
  "f w = (Inr x, w') \<Longrightarrow> 0 < n \<Longrightarrow> retry_loop c rc n f w = (Inr x, w')"
  by (cases n) simp_all

lemma with_retries_ok:
  "f w = (Inr x, w') \<Longrightarrow> 0 < co_max_attempts c \<Longrightarrow> with_retries c rc f w = (Inr x, w')"
  by (simp add: with_retries_def retry_loop_step)

lemma with_retries_give_up:
  "f w = (Inl e, w') \<Longrightarrow> retry_decision rc e = GiveUp ex \<Longrightarrow> 0 < co_max_attempts c \<Longrightarrow>
   with_retries c rc f w = (Inl ex, w')"
  by (cases "co_max_attempts c") (simp_all add: with_retries_def)

text \<open>A state predicate that calls and recoveries keep is kept by the loop.\<close>

lemma retry_loop_keeps:
  assumes "I w" and call: "\<And>w r w'. I w \<Longrightarrow> f w = (r, w') \<Longrightarrow> I w'"
    and rec: "\<And>w r. I w \<Longrightarrow> I (es_recover (co_client c) r w)"
  shows "I (snd (retry_loop c rc n f w))"
  using assms(1)
proof (induction n arbitrary: w)
  case (Suc n)
  obtain r w' where f: "f w = (r, w')" by (cases "f w")
  with call Suc.prems have w': "I w'" by blast
  show ?case
    using f w' Suc.IH rec by (auto split: sum.splits retry_step.splits)
qed simp

text \<open>
  What the loop answers was the answer of one call, made in a state that failed calls and recoveries
  lead to; or it gave up.
\<close>

lemma retry_loop_cases:
  assumes "retry_loop c rc n f w = (r, w')" and "I w"
    and fail: "\<And>w e rc' w'. I w \<Longrightarrow> f w = (Inl e, w') \<Longrightarrow> retry_decision rc e = RetryAfter rc' \<Longrightarrow>
                 I (es_recover (co_client c) rc' w')"
  obtains v where "I v" "\<exists>x. r = Inr x \<and> f v = (Inr x, w')"
  | v e ex where "I v" "f v = (Inl e, w')" "retry_decision rc e = GiveUp ex" "r = Inl ex"
  | m where "r = Inl (CallExn (Exn EHowlerRuntime m))" "I w'"
proof -
  have "(\<exists>v. I v \<and> (\<exists>x. r = Inr x \<and> f v = (Inr x, w'))) \<or>
        (\<exists>v e ex. I v \<and> f v = (Inl e, w') \<and> retry_decision rc e = GiveUp ex \<and> r = Inl ex) \<or>
        (\<exists>m. r = Inl (CallExn (Exn EHowlerRuntime m)) \<and> I w')"
    using assms(1,2)
  proof (induction n arbitrary: w)
    case 0
    then show ?case by auto
  next
    case (Suc n)
    obtain q v where f: "f w = (q, v)" by (cases "f w")
    show ?case
    proof (cases q)
      case (Inr x)
      with f Suc.prems show ?thesis by auto
    next
      case (Inl e)
      show ?thesis
      proof (cases "retry_decision rc e")
        case (RetryAfter rr)
        with f Inl Suc.prems have l: "retry_loop c rc n f (es_recover (co_client c) rr v) = (r, w')"
          by simp
        show ?thesis by (rule Suc.IH [OF l]) (rule fail [OF Suc.prems(2) f [unfolded Inl] RetryAfter])
      next
        case (GiveUp ex)
        with f Inl Suc.prems show ?thesis by auto
      qed
    qed
  qed
  then show ?thesis using that by blast
qed

section \<open>Facts about tokens\<close>

lemma split_sub_first:
  assumes "sep \<noteq> []" and "\<forall>i < length s. \<not> py_startswith (drop i s @ sep @ t) sep"
  shows "split_sub sep acc (s @ sep @ t) = (rev acc @ s) # split_sub sep [] t"
  using assms(2)
proof (induction s arbitrary: acc)
  case Nil
  from assms(1) obtain x xs where "sep = x # xs" by (cases sep) auto
  then show ?case using startswith_append [of sep t] by simp
next
  case (Cons x s)
  have "\<forall>i < length s. \<not> py_startswith (drop i s @ sep @ t) sep"
    using Cons.prems by (metis Suc_less_eq drop_Suc_Cons length_Cons)
  moreover have "\<not> py_startswith (x # s @ sep @ t) sep"
    using Cons.prems [rule_format, of 0] by simp
  ultimately show ?case using Cons.IH [of "x # acc"] assms(1) by simp
qed

lemma py_in_drop: "py_startswith (drop i s) p \<Longrightarrow> i < length s \<Longrightarrow> py_in p s"
proof (induction s arbitrary: i)
  case (Cons x s)
  then show ?case by (cases i) auto
qed simp

lemma dashes_first:
  assumes "\<not> py_in ''---'' s" and "s = [] \<or> last s \<noteq> CHR ''-''" and "i < length s"
  shows "\<not> py_startswith (drop i s @ ''---'' @ t) ''---''"
proof
  let ?u = "drop i s"
  assume st: "py_startswith (?u @ ''---'' @ t) ''---''"
  from assms(3) have ne: "?u \<noteq> []" by simp
  have l: "last ?u = last s" using assms(3) by simp
  show False
  proof (cases "3 \<le> length ?u")
    case True
    with st have "py_startswith ?u ''---''" by (simp add: py_startswith_def)
    with assms(1,3) show False by (blast dest: py_in_drop)
  next
    case False
    from st have "take 3 (?u @ ''---'' @ t) = ''---''" by (simp add: py_startswith_def numeral_3_eq_3)
    then have "take (length ?u) (take 3 (?u @ ''---'' @ t)) = take (length ?u) ''---''" by (rule arg_cong)
    with False have "?u = take (length ?u) ''---''" by (simp add: min_def)
    then have "set ?u \<subseteq> set ''---''" by (metis set_take_subset)
    then have "set ?u \<subseteq> {CHR ''-''}" by simp
    with ne have "last ?u = CHR ''-''" using last_in_set by blast
    with l assms(2,3) show False by auto
  qed
qed

lemma split_three:
  assumes "\<not> py_in ''---'' s" and "s = [] \<or> last s \<noteq> CHR ''-''"
  shows "split_sub ''---'' acc (s @ ''---'' @ t) = (rev acc @ s) # split_sub ''---'' [] t"
  using assms by (intro split_sub_first) (simp, blast dest: dashes_first)

lemma split_number: "split_sub ''---'' [] (str_nat n @ ''---'' @ t) = str_nat n # split_sub ''---'' [] t"
  using split_sub_sep [OF dash_not_in_str_nat [of n], of "''--''" "[]" t] by simp

lemma split_last_number: "split_sub ''---'' [] (str_nat n) = [str_nat n]"
  using split_sub_no_sep [OF dash_not_in_str_nat [of n], of "''--''" "[]"] by simp

text \<open>A physical index name the token format can carry.\<close>

definition token_safe :: "string \<Rightarrow> bool" where
  "token_safe index \<longleftrightarrow> \<not> py_in ''---'' index \<and> (index = [] \<or> last index \<noteq> CHR ''-'')"

lemma token_parses:
  assumes "co_ilm c \<longrightarrow> token_safe index"
  shows "get_version_write_target c (token c index s t) =
     Inr (if co_ilm c then index else co_name c, str_nat s, str_nat t)"
proof -
  note splits = split_number [of s "str_nat t"] split_last_number [of t]
  show ?thesis
  proof (cases "co_ilm c")
    case True
    with assms have "split_sub ''---'' [] (index @ ''---'' @ str_nat s @ ''---'' @ str_nat t) =
        [index, str_nat s, str_nat t]"
      using split_three [of index "[]" "str_nat s @ ''---'' @ str_nat t"] splits
      by (simp add: token_safe_def)
    with True show ?thesis by (simp add: get_version_write_target_def py_split_def token_def)
  next
    case False
    with splits show ?thesis by (simp add: get_version_write_target_def py_split_def token_def)
  qed
qed

lemma token_nonempty [simp]: "token c i s t \<noteq> []"
  by (simp add: token_def)

end
