(* ===== verification/Concurrency.thy ===== *)
theory Concurrency
  imports Datastore
begin

text \<open>
  Optimistic concurrency of \<^verbatim>\<open>ESCollection.update\<close> and \<^verbatim>\<open>_get\<close>: an abstract compare-and-set on a
  versioned document, what the Elasticsearch documentation promises of the update and get calls, and
  that the collection's methods implement the abstract operation over any client with that behaviour.
\<close>

section \<open>The abstract operation\<close>

datatype cas_outcome = CasMissing | CasConflict | CasAborted | CasWritten doc

definition cas :: "es_hit option \<Rightarrow> nat \<Rightarrow> nat \<Rightarrow> (update_op \<times> string \<times> py) list \<Rightarrow> cas_outcome" where
  "cas h s t ops =
     (case h of
        None \<Rightarrow> CasMissing
      | Some h \<Rightarrow>
          if eh_seq_no h \<noteq> s \<or> eh_primary_term h \<noteq> t then CasConflict
          else (case apply_ops (eh_source h) ops of None \<Rightarrow> CasAborted | Some d \<Rightarrow> CasWritten d))"

section \<open>Documented behaviour of the client\<close>

text \<open>
  A view \<open>look\<close> reads the stored documents out of the world. A version condition holds when it is
  absent or equal to the stored number. An update request either fails and changes nothing, or the
  document exists, the condition holds, the script runs, and the document is replaced under a larger
  sequence number.
\<close>

definition condition_holds :: "es_hit \<Rightarrow> string option \<Rightarrow> string option \<Rightarrow> bool" where
  "condition_holds h seq_no primary_term \<longleftrightarrow>
     (seq_no = None \<or> seq_no = Some (str_nat (eh_seq_no h))) \<and>
     (primary_term = None \<or> primary_term = Some (str_nat (eh_primary_term h)))"

definition written :: "es_hit \<Rightarrow> nat \<Rightarrow> doc \<Rightarrow> es_hit" where
  "written h s d = h\<lparr>eh_seq_no := s, eh_source := d\<rparr>"

definition write_answer :: "es_hit \<Rightarrow> nat \<Rightarrow> es_write" where
  "write_answer h s = \<lparr>ew_result = ''updated'', ew_index = eh_index h, ew_seq_no = s,
                       ew_primary_term = eh_primary_term h\<rparr>"

definition update_applied ::
    "('w \<Rightarrow> string \<Rightarrow> es_hit option) \<Rightarrow> (es_script \<Rightarrow> doc \<Rightarrow> doc option) \<Rightarrow> string \<Rightarrow> es_script \<Rightarrow>
     string option \<Rightarrow> string option \<Rightarrow> 'w \<Rightarrow> es_exc + es_write \<Rightarrow> 'w \<Rightarrow> bool" where
  "update_applied look painless key scr sn pt w r w' \<longleftrightarrow>
     (\<exists>h d s. look w key = Some h \<and> condition_holds h sn pt \<and> painless scr (eh_source h) = Some d \<and>
              eh_seq_no h < s \<and> r = Inr (write_answer h s) \<and>
              look w' = (look w)(key \<mapsto> written h s d))"

definition documented_update ::
    "'w es_client \<Rightarrow> ('w \<Rightarrow> string \<Rightarrow> es_hit option) \<Rightarrow> (es_script \<Rightarrow> doc \<Rightarrow> doc option) \<Rightarrow> bool" where
  "documented_update cl look painless \<longleftrightarrow>
     (\<forall>index key scr sn pt w r w'. es_update cl index key scr sn pt w = (r, w') \<longrightarrow>
        (\<exists>e. r = Inl e) \<and> look w' = look w \<or> update_applied look painless key scr sn pt w r w') \<and>
     (\<forall>rc w. look (es_recover cl rc w) = look w)"

text \<open>A client that answers at once, with the reason when it refuses.\<close>

definition prompt_update ::
    "'w es_client \<Rightarrow> ('w \<Rightarrow> string \<Rightarrow> es_hit option) \<Rightarrow> (es_script \<Rightarrow> doc \<Rightarrow> doc option) \<Rightarrow> bool" where
  "prompt_update cl look painless \<longleftrightarrow>
     (\<forall>index key scr sn pt w r w'. es_update cl index key scr sn pt w = (r, w') \<longrightarrow>
        (case look w key of
           None \<Rightarrow> (\<exists>m. r = Inl (EsNotFound False m)) \<and> look w' = look w
         | Some h \<Rightarrow>
             if \<not> condition_holds h sn pt then (\<exists>m. r = Inl (EsConflict m)) \<and> look w' = look w
             else if painless scr (eh_source h) = None
             then (\<exists>m. r = Inl (EsBadRequest m)) \<and> look w' = look w
             else update_applied look painless key scr sn pt w r w'))"

text \<open>The painless engine runs the script the code generates for some operations as their meaning.\<close>

definition runs_script :: "(es_script \<Rightarrow> doc \<Rightarrow> doc option) \<Rightarrow> (update_op \<times> string \<times> py) list \<Rightarrow> bool" where
  "runs_script painless ops \<longleftrightarrow> painless (create_script ops) = (\<lambda>d. apply_ops d ops)"

text \<open>Reading: the stored document with its numbers, or not found; the store is left alone.\<close>

definition prompt_get :: "'w es_client \<Rightarrow> ('w \<Rightarrow> string \<Rightarrow> es_hit option) \<Rightarrow> bool" where
  "prompt_get cl look \<longleftrightarrow>
     (\<forall>index key w r w'. es_get cl index key w = (r, w') \<longrightarrow> look w' = look w \<and>
        (case look w key of
           None \<Rightarrow> (\<exists>m. r = Inl (EsNotFound False m))
         | Some h \<Rightarrow> r = Inr h)) \<and>
     (\<forall>index key w r w'. es_search_ids cl index key w = (r, w') \<longrightarrow> look w' = look w \<and>
        r = Inr (case look w key of None \<Rightarrow> [] | Some h \<Rightarrow> [h]))"

section \<open>A client in memory\<close>

text \<open>
  The smallest client with the documented behaviour: the world is the map of documents. It serves the
  concrete instances of the properties below.
\<close>

definition mem_update ::
    "(es_script \<Rightarrow> doc \<Rightarrow> doc option) \<Rightarrow> string \<Rightarrow> string \<Rightarrow> es_script \<Rightarrow> string option \<Rightarrow> string option \<Rightarrow>
     (string \<Rightarrow> es_hit option, es_write) es_call" where
  "mem_update painless index key scr sn pt w =
     (case w key of
        None \<Rightarrow> (Inl (EsNotFound False ''document missing''), w)
      | Some h \<Rightarrow>
          if \<not> condition_holds h sn pt then (Inl (EsConflict ''version conflict''), w)
          else (case painless scr (eh_source h) of
                  None \<Rightarrow> (Inl (EsBadRequest ''script error''), w)
                | Some d \<Rightarrow> (Inr (write_answer h (Suc (eh_seq_no h))),
                             w(key \<mapsto> written h (Suc (eh_seq_no h)) d))))"

definition mem_client :: "(es_script \<Rightarrow> doc \<Rightarrow> doc option) \<Rightarrow> (string \<Rightarrow> es_hit option) es_client" where
  "mem_client painless =
     \<lparr>es_get = (\<lambda>i k w. (case w k of None \<Rightarrow> Inl (EsNotFound False ''missing'') | Some h \<Rightarrow> Inr h, w)),
      es_search_ids = (\<lambda>i k w. (Inr (case w k of None \<Rightarrow> [] | Some h \<Rightarrow> [h]), w)),
      es_exists = (\<lambda>i k w. (Inr (w k \<noteq> None), w)),
      es_update = mem_update painless,
      es_index = (\<lambda>i k d opr sn pt w.
        (Inr (), w(k \<mapsto> \<lparr>eh_index = i, eh_seq_no = (case w k of None \<Rightarrow> 0 | Some h \<Rightarrow> Suc (eh_seq_no h)),
                         eh_primary_term = 1, eh_source = d\<rparr>))),
      es_delete = (\<lambda>i k w. (if w k = None then Inl (EsNotFound False ''missing'') else Inr ''deleted'', w(k := None))),
      es_refresh = (\<lambda>i w. (Inr (), w)),
      es_clear_cache = (\<lambda>i w. (Inr (), w)),
      es_recover = (\<lambda>r w. w)\<rparr>"

lemma mem_prompt_update: "prompt_update (mem_client painless) (\<lambda>w. w) painless"
  unfolding prompt_update_def update_applied_def mem_client_def
  by (auto simp: mem_update_def split: option.splits if_splits)

lemma mem_prompt_get: "prompt_get (mem_client painless) (\<lambda>w. w)"
  unfolding prompt_get_def mem_client_def by (auto split: option.splits)

lemma prompt_documented:
  assumes "prompt_update cl look painless" and "\<And>rc w. look (es_recover cl rc w) = look w"
  shows "documented_update cl look painless"
  unfolding documented_update_def
proof (intro conjI allI impI)
  fix index key scr sn pt w r w'
  assume "es_update cl index key scr sn pt w = (r, w')"
  with assms(1) have p: "case look w key of
      None \<Rightarrow> (\<exists>m. r = Inl (EsNotFound False m)) \<and> look w' = look w
    | Some h \<Rightarrow>
        if \<not> condition_holds h sn pt then (\<exists>m. r = Inl (EsConflict m)) \<and> look w' = look w
        else if painless scr (eh_source h) = None
        then (\<exists>m. r = Inl (EsBadRequest m)) \<and> look w' = look w
        else update_applied look painless key scr sn pt w r w'"
    unfolding prompt_update_def by blast
  show "(\<exists>e. r = Inl e) \<and> look w' = look w \<or> update_applied look painless key scr sn pt w r w'"
  proof (cases "look w key")
    case None
    with p show ?thesis by auto
  next
    case (Some h)
    with p show ?thesis by (simp split: if_splits) blast+
  qed
qed (rule assms(2))

lemma mem_documented: "documented_update (mem_client painless) (\<lambda>w. w) painless"
  by (rule prompt_documented [OF mem_prompt_update]) (simp add: mem_client_def)

definition mem_collection :: "(es_script \<Rightarrow> doc \<Rightarrow> doc option) \<Rightarrow> (string \<Rightarrow> es_hit option) collection" where
  "mem_collection painless =
     \<lparr>co_client = mem_client painless, co_name = ''howler-hit'', co_max_attempts = 10, co_ilm = False,
      co_fields = None, co_check = (\<lambda>f v. Inr v), co_build = (\<lambda>d. Inr d)\<rparr>"

section \<open>Updates under a version\<close>

lemma write_target_token:
  assumes "co_ilm c \<longrightarrow> token_safe index"
  shows "write_target c (Some (token c index s t)) =
     Inr (if co_ilm c then index else co_name c, Some (str_nat s), Some (str_nat t))"
  using token_parses [OF assms] by (simp add: write_target_def truthy_text_def)

lemma coll_update_token:
  assumes "validate_operations c ops = Inr ops'" and "co_ilm c \<longrightarrow> token_safe index"
  shows "coll_update c key ops (Some (token c index s t)) w =
     send_update c key (create_script ops')
       (if co_ilm c then index else co_name c, Some (str_nat s), Some (str_nat t)) w"
  using assms by (simp add: coll_update_def default_version_def write_target_token bindM_def)

lemma condition_token:
  "condition_holds h (Some (str_nat s)) (Some (str_nat t)) \<longleftrightarrow> eh_seq_no h = s \<and> eh_primary_term h = t"
  by (auto simp: condition_holds_def dest: str_nat_inj)

text \<open>With both numbers given, a send either leaves the store alone or is the compare-and-set.\<close>

lemma send_update_versioned:
  assumes doc: "documented_update (co_client c) look painless"
    and send: "send_update c key scr (index, Some (str_nat s), Some (str_nat t)) w = (r, w')"
  shows "look w' = look w \<and> (\<forall>b v. r \<noteq> Inr (Updated b v)) \<or>
     (\<exists>h d n. look w key = Some h \<and> eh_seq_no h = s \<and> eh_primary_term h = t \<and>
        painless scr (eh_source h) = Some d \<and> s < n \<and>
        r = Inr (Updated True (token c (eh_index h) n t)) \<and> look w' = (look w)(key \<mapsto> written h n d))"
proof -
  let ?f = "es_update (co_client c) index key scr (Some (str_nat s)) (Some (str_nat t))"
  obtain q where q: "with_retries c True ?f w = (q, w')" "r = (case q of
        Inr x \<Rightarrow> Inr (Updated (ew_result x = ''updated'') (token c (ew_index x) (ew_seq_no x) (ew_primary_term x)))
      | Inl (CallExn (Exn EVersionConflict m)) \<Rightarrow> Inl (Exn EVersionConflict m)
      | Inl ce \<Rightarrow> Inr UpdateFalse)"
    using send by (auto simp: send_update_def truthy_text_def
        split: prod.splits sum.splits call_exc.splits exn.splits exn_class.splits)
  have upd: "(\<exists>e. p = Inl e) \<and> look v' = look v \<or> update_applied look painless key scr (Some (str_nat s)) (Some (str_nat t)) v p v'"
    if "?f v = (p, v')" for v p v' using doc that unfolding documented_update_def by blast
  have keeps: "look (es_recover (co_client c) rc v) = look v" for rc v
    using doc unfolding documented_update_def by blast
  have fail: "look (es_recover (co_client c) rc' v') = look w"
    if "look v = look w" "?f v = (Inl e, v')" for v e rc' v'
    using upd [OF that(2)] that(1) keeps by (auto simp: update_applied_def)
  show ?thesis
    using q(1) unfolding with_retries_def
  proof (rule retry_loop_cases [where I = "\<lambda>v. look v = look w"])
    fix v assume v: "look v = look w" "\<exists>x. q = Inr x \<and> ?f v = (Inr x, w')"
    then obtain x where x: "q = Inr x" "?f v = (Inr x, w')" by blast
    from upd [OF x(2)] v(1) q(2) x(1) show ?thesis
      unfolding update_applied_def condition_token by (auto simp: write_answer_def)
  next
    fix v e ex assume "look v = look w" "?f v = (Inl e, w')" "q = Inl ex"
    with upd [of v "Inl e" w'] q(2) show ?thesis
      by (auto simp: update_applied_def split: call_exc.splits exn.splits exn_class.splits)
  next
    fix m assume "q = Inl (CallExn (Exn EHowlerRuntime m))" "look w' = look w"
    with q(2) show ?thesis by simp
  qed (use fail in auto)
qed


definition example_hit :: es_hit where
  "example_hit = \<lparr>eh_index = ''howler-hit_hot'', eh_seq_no = 7, eh_primary_term = 1,
                  eh_source = [''howler.status'' \<mapsto> PStr ''open'']\<rparr>"

definition example_ops :: "(update_op \<times> string \<times> py) list" where
  "example_ops = [(UPDATE_SET, ''howler.status'', PStr ''resolved'')]"

definition example_collection :: "(string \<Rightarrow> es_hit option) collection" where
  "example_collection = mem_collection (\<lambda>s d. apply_ops d example_ops)"

lemma example_runs: "runs_script (\<lambda>s d. apply_ops d example_ops) example_ops"
  by (simp add: runs_script_def)

lemma example_valid: "validate_operations example_collection ops = Inr ops"
proof -
  have "validate_operation example_collection x = Inr x" for x
    by (cases x) (simp add: validate_operation_def example_collection_def mem_collection_def)
  then show ?thesis by (induction ops) (simp_all add: validate_operations_def)
qed

lemma example_ilm: "co_ilm example_collection \<longrightarrow> token_safe i"
  by (simp add: example_collection_def mem_collection_def)

lemma example_client: "co_client example_collection = mem_client (\<lambda>s d. apply_ops d example_ops)"
  by (simp add: example_collection_def mem_collection_def)


text \<open>
  Of two writers that read the same version, at most one wins. If the first of two updates with
  the same token is applied, the second changes no stored document and does not report success.
\<close>

lemma update_one_winner:
  assumes "documented_update (co_client c) look painless"
    and "validate_operations c ops1 = Inr ops1'" and "validate_operations c ops2 = Inr ops2'"
    and "runs_script painless ops1'" and "runs_script painless ops2'"
    and "co_ilm c \<longrightarrow> token_safe index"
    and "coll_update c key ops1 (Some (token c index s t)) w = (Inr (Updated b v), w1)"
    and "coll_update c key ops2 (Some (token c index s t)) w1 = (r2, w2)"
  shows "look w2 = look w1 \<and> (\<forall>b v. r2 \<noteq> Inr (Updated b v))"
proof -
  have send1: "send_update c key (create_script ops1')
       (if co_ilm c then index else co_name c, Some (str_nat s), Some (str_nat t)) w = (Inr (Updated b v), w1)"
    using assms(7) coll_update_token [OF assms(2,6), of key s t w] by simp
  have send2: "send_update c key (create_script ops2')
       (if co_ilm c then index else co_name c, Some (str_nat s), Some (str_nat t)) w1 = (r2, w2)"
    using assms(8) coll_update_token [OF assms(3,6), of key s t w1] by simp
  from send_update_versioned [OF assms(1) send1] obtain h d n where
    "s < n" "look w1 key = Some (written h n d)" by auto
  then have "\<And>h'. look w1 key = Some h' \<Longrightarrow> eh_seq_no h' \<noteq> s" by (auto simp: written_def)
  with send_update_versioned [OF assms(1) send2] show ?thesis by blast
qed

lemma update_one_winner_witness:
  "let tok = Some (token example_collection '''' 7 1);
       (r1, w1) = coll_update example_collection ''a'' example_ops tok [''a'' \<mapsto> example_hit];
       (r2, w2) = coll_update example_collection ''a'' example_ops tok w1
   in w2 = w1 \<and> (\<forall>b v. r2 \<noteq> Inr (Updated b v))"
proof -
  let ?tok = "Some (token example_collection '''' 7 1)"
  obtain r2 w2 where w2: "coll_update example_collection ''a'' example_ops ?tok
      [''a'' \<mapsto> written example_hit 8 [''howler.status'' \<mapsto> PStr ''resolved'']] = (r2, w2)"
    by (metis surj_pair)
  have call: "es_update (co_client example_collection) i ''a'' scr (Some (str_nat 7)) (Some (str_nat 1))
      [''a'' \<mapsto> example_hit] = (Inr (write_answer example_hit 8),
        [''a'' \<mapsto> written example_hit 8 [''howler.status'' \<mapsto> PStr ''resolved'']])" for i scr
    by (simp add: example_client mem_client_def mem_update_def condition_holds_def example_ops_def)
       (simp add: example_hit_def)
  have "with_retries example_collection True
      (es_update (co_client example_collection) i ''a'' scr (Some (str_nat 7)) (Some (str_nat 1)))
      [''a'' \<mapsto> example_hit] = (Inr (write_answer example_hit 8),
        [''a'' \<mapsto> written example_hit 8 [''howler.status'' \<mapsto> PStr ''resolved'']])" for i scr
    by (rule with_retries_ok, rule call) (simp add: example_collection_def mem_collection_def)
  then have w1: "coll_update example_collection ''a'' example_ops ?tok [''a'' \<mapsto> example_hit] =
      (Inr (Updated True (token example_collection ''howler-hit_hot'' 8 1)),
       [''a'' \<mapsto> written example_hit 8 [''howler.status'' \<mapsto> PStr ''resolved'']])"
    by (simp add: coll_update_token [OF example_valid example_ilm] send_update_def truthy_text_def
          write_answer_def) (simp add: example_hit_def)
  have "w2 = [''a'' \<mapsto> written example_hit 8 [''howler.status'' \<mapsto> PStr ''resolved'']] \<and>
        (\<forall>b v. r2 \<noteq> Inr (Updated b v))"
    by (rule update_one_winner [where look = "\<lambda>w. w", OF _ example_valid example_valid example_runs example_runs
          example_ilm w1 w2])
       (simp add: example_client mem_documented)
  with w1 w2 show ?thesis by simp
qed

section \<open>Refinement of the abstract operation\<close>

lemma send_update_prompt:
  assumes call: "es_update (co_client c) i key scr (Some (str_nat s)) (Some (str_nat t)) w = (q, w')"
    and "0 < co_max_attempts c"
  shows "(\<exists>m. q = Inl (EsNotFound False m) \<or> q = Inl (EsBadRequest m)) \<Longrightarrow>
      send_update c key scr (i, Some (str_nat s), Some (str_nat t)) w = (Inr UpdateFalse, w')"
    and "q = Inl (EsConflict m) \<Longrightarrow>
      send_update c key scr (i, Some (str_nat s), Some (str_nat t)) w = (Inl (Exn EVersionConflict m), w')"
    and "q = Inr (write_answer h n) \<Longrightarrow>
      send_update c key scr (i, Some (str_nat s), Some (str_nat t)) w =
        (Inr (Updated True (token c (eh_index h) n (eh_primary_term h))), w')"
proof -
  let ?f = "es_update (co_client c) i key scr (Some (str_nat s)) (Some (str_nat t))"
  have g: "with_retries c True ?f w = (Inl ex, w')"
    if "q = Inl e" "retry_decision True e = GiveUp ex" for e ex
    by (rule with_retries_give_up [where f = ?f, OF _ that(2) assms(2)]) (simp add: call that(1))
  have o: "with_retries c True ?f w = (Inr x, w')" if "q = Inr x" for x
    by (rule with_retries_ok [where f = ?f, OF _ assms(2)]) (simp add: call that)
  show "(\<exists>m. q = Inl (EsNotFound False m) \<or> q = Inl (EsBadRequest m)) \<Longrightarrow>
      send_update c key scr (i, Some (str_nat s), Some (str_nat t)) w = (Inr UpdateFalse, w')"
    using g by (auto simp: send_update_def truthy_text_def retry_decision_def)
  show "q = Inl (EsConflict m) \<Longrightarrow>
      send_update c key scr (i, Some (str_nat s), Some (str_nat t)) w = (Inl (Exn EVersionConflict m), w')"
    using g by (auto simp: send_update_def truthy_text_def retry_decision_def)
  show "q = Inr (write_answer h n) \<Longrightarrow>
      send_update c key scr (i, Some (str_nat s), Some (str_nat t)) w =
        (Inr (Updated True (token c (eh_index h) n (eh_primary_term h))), w')"
    using o by (auto simp: send_update_def truthy_text_def write_answer_def)
qed

lemma coll_update_cas:
  assumes "prompt_update (co_client c) look painless" and "0 < co_max_attempts c"
    and "validate_operations c ops = Inr ops'" and "runs_script painless ops'"
    and "co_ilm c \<longrightarrow> token_safe index"
    and "coll_update c key ops (Some (token c index s t)) w = (r, w')"
  shows "case cas (look w key) s t ops' of
      CasMissing \<Rightarrow> r = Inr UpdateFalse \<and> look w' = look w
    | CasAborted \<Rightarrow> r = Inr UpdateFalse \<and> look w' = look w
    | CasConflict \<Rightarrow> (\<exists>m. r = Inl (Exn EVersionConflict m)) \<and> look w' = look w
    | CasWritten d \<Rightarrow> (\<exists>h n. look w key = Some h \<and> s < n \<and>
        r = Inr (Updated True (token c (eh_index h) n t)) \<and> look w' = (look w)(key \<mapsto> written h n d))"
proof -
  let ?i = "if co_ilm c then index else co_name c" and ?scr = "create_script ops'"
  have send: "send_update c key ?scr (?i, Some (str_nat s), Some (str_nat t)) w = (r, w')"
    using assms(6) coll_update_token [OF assms(3,5), of key s t w] by simp
  obtain q v where call: "es_update (co_client c) ?i key ?scr (Some (str_nat s)) (Some (str_nat t)) w = (q, v)"
    by (metis surj_pair)
  note out = send_update_prompt [OF call assms(2)]
  have scr: "painless ?scr d = apply_ops d ops'" for d using assms(4) by (simp add: runs_script_def)
  have p: "case look w key of
      None \<Rightarrow> (\<exists>m. q = Inl (EsNotFound False m)) \<and> look v = look w
    | Some h \<Rightarrow>
        if \<not> condition_holds h (Some (str_nat s)) (Some (str_nat t))
        then (\<exists>m. q = Inl (EsConflict m)) \<and> look v = look w
        else if painless ?scr (eh_source h) = None
        then (\<exists>m. q = Inl (EsBadRequest m)) \<and> look v = look w
        else update_applied look painless key ?scr (Some (str_nat s)) (Some (str_nat t)) w q v"
    using assms(1) call unfolding prompt_update_def by blast
  show ?thesis
  proof (cases "look w key")
    case None
    with p have "\<exists>m. q = Inl (EsNotFound False m) \<or> q = Inl (EsBadRequest m)" and l: "look v = look w"
      by auto
    from out(1) [OF this(1)] send l None show ?thesis by (simp add: cas_def)
  next
    case (Some h)
    show ?thesis
    proof (cases "eh_seq_no h = s \<and> eh_primary_term h = t")
      case False
      with p Some obtain m where "q = Inl (EsConflict m)" and l: "look v = look w"
        by (auto simp: condition_token)
      from out(2) [OF this(1)] send l False Some show ?thesis by (auto simp: cas_def)
    next
      case True
      show ?thesis
      proof (cases "apply_ops (eh_source h) ops'")
        case None
        with p Some True have "\<exists>m. q = Inl (EsNotFound False m) \<or> q = Inl (EsBadRequest m)"
          and l: "look v = look w" by (auto simp: condition_token scr)
        from out(1) [OF this(1)] send l None True Some show ?thesis by (simp add: cas_def)
      next
        case (Some d)
        with p True \<open>look w key = Some h\<close> obtain n where
          "s < n" and q: "q = Inr (write_answer h n)" and l: "look v = (look w)(key \<mapsto> written h n d)"
          by (auto simp: condition_token update_applied_def scr)
        with out(3) [OF q] send True Some \<open>look w key = Some h\<close> show ?thesis by (auto simp: cas_def)
      qed
    qed
  qed
qed

text \<open>
  C15: The versioned \<^verbatim>\<open>update\<close> implements compare-and-set. Over a client that answers promptly, the answer
  of \<^verbatim>\<open>update\<close> with a token is determined by the stored document: False and no change when it does not
  exist or the script aborts on it, \<^verbatim>\<open>VersionConflictException\<close> and no change when it has moved on, and
  otherwise True with the next token, the store holding the result of the operations.
\<close>

theorem update_refines_cas:
  assumes "prompt_update (co_client c) look painless" and "0 < co_max_attempts c"
    and "validate_operations c ops = Inr ops'" and "runs_script painless ops'"
    and "co_ilm c \<longrightarrow> token_safe index"
    and "coll_update c key ops (Some (token c index s t)) w = (r, w')"
  shows "case cas (look w key) s t ops' of
      CasMissing \<Rightarrow> r = Inr UpdateFalse \<and> look w' = look w
    | CasAborted \<Rightarrow> r = Inr UpdateFalse \<and> look w' = look w
    | CasConflict \<Rightarrow> (\<exists>m. r = Inl (Exn EVersionConflict m)) \<and> look w' = look w
    | CasWritten d \<Rightarrow> (\<exists>h n. look w key = Some h \<and> s < n \<and>
        r = Inr (Updated True (token c (eh_index h) n t)) \<and> look w' = (look w)(key \<mapsto> written h n d))"
  by (rule coll_update_cas [OF assms])

lemma update_refines_cas_witness:
  "let (r, w') = coll_update example_collection ''a'' example_ops (Some (token example_collection '''' 7 1))
                   [''a'' \<mapsto> example_hit]
   in case cas ([''a'' \<mapsto> example_hit] ''a'') 7 1 example_ops of
      CasMissing \<Rightarrow> r = Inr UpdateFalse \<and> w' = [''a'' \<mapsto> example_hit]
    | CasAborted \<Rightarrow> r = Inr UpdateFalse \<and> w' = [''a'' \<mapsto> example_hit]
    | CasConflict \<Rightarrow> (\<exists>m. r = Inl (Exn EVersionConflict m)) \<and> w' = [''a'' \<mapsto> example_hit]
    | CasWritten d \<Rightarrow> (\<exists>h n. [''a'' \<mapsto> example_hit] ''a'' = Some h \<and> 7 < n \<and>
        r = Inr (Updated True (token example_collection (eh_index h) n 1)) \<and>
        w' = [''a'' \<mapsto> example_hit](''a'' \<mapsto> written h n d))"
  unfolding Let_def case_prod_unfold
  by (rule update_refines_cas [where look = "\<lambda>w. w" and painless = "\<lambda>s d. apply_ops d example_ops",
        OF _ _ example_valid example_runs example_ilm])
     (simp_all add: example_client mem_prompt_update, simp add: example_collection_def mem_collection_def)

text \<open>
  Reading and writing fit together. Over a client that answers promptly, reading a stored document
  with its version returns a token that the next versioned \<^verbatim>\<open>update\<close> parses back to exactly the document's
  own sequence number and primary term, and to the index it is stored in when the collection rolls over.
\<close>

lemma get_token_roundtrip:
  assumes "prompt_get (co_client c) look" and "0 < co_max_attempts c" and "look w key = Some h"
    and "co_ilm c \<longrightarrow> token_safe (eh_index h)"
    and "get_versioned c key retries w = (Inr (d, v), w')"
  shows "look w' = look w \<and> d = Some ((eh_source h)(''id'' := None)) \<and>
    get_version_write_target c v =
      Inr (if co_ilm c then eh_index h else co_name c, str_nat (eh_seq_no h), str_nat (eh_primary_term h))"
proof -
  let ?g = "es_get (co_client c) (co_name c) key" and ?s = "es_search_ids (co_client c) (co_name c) key"
  obtain q1 v1 where g: "?g w = (q1, v1)" by (metis surj_pair)
  obtain q2 v2 where s: "?s w = (q2, v2)" by (metis surj_pair)
  from g assms(1,3) have q1: "q1 = Inr h" "look v1 = look w" unfolding prompt_get_def by fastforce+
  from s assms(1,3) have q2: "q2 = Inr [h]" "look v2 = look w" unfolding prompt_get_def by fastforce+
  have "with_retries c False ?g w = (Inr h, v1)"
    by (rule with_retries_ok [where f = ?g, OF _ assms(2)]) (simp add: g q1)
  moreover have "with_retries c False ?s w = (Inr [h], v2)"
    by (rule with_retries_ok [where f = ?s, OF _ assms(2)]) (simp add: s q2)
  ultimately have "get_once c key w = (Inr (Some h), if co_ilm c then v2 else v1)"
    by (simp add: get_once_def)
  with assms(5) have "d = Some ((eh_source h)(''id'' := None))"
    and "v = token c (eh_index h) (eh_seq_no h) (eh_primary_term h)"
    and "w' = (if co_ilm c then v2 else v1)"
    by (auto simp: get_versioned.simps [of c key retries])
  with token_parses [OF assms(4)] q1 q2 show ?thesis by simp
qed

lemma example_facts:
  "co_name example_collection = ''howler-hit''" "co_ilm example_collection = False"
  "co_max_attempts example_collection = 10" "co_fields example_collection = None"
  by (simp_all add: example_collection_def mem_collection_def)

lemma example_get:
  "with_retries example_collection False (es_get (co_client example_collection) i k) w =
   (case w k of None \<Rightarrow> Inl (CallEs (EsNotFound False ''missing'')) | Some h \<Rightarrow> Inr h, w)"
proof (cases "w k")
  case None
  then show ?thesis
    by (simp, intro with_retries_give_up [where e = "EsNotFound False ''missing''"])
       (simp_all add: example_client mem_client_def retry_decision_def example_facts)
next
  case (Some h)
  then show ?thesis
    by (simp, intro with_retries_ok) (simp_all add: example_client mem_client_def example_facts)
qed

lemma get_token_roundtrip_witness:
  "let (r, w') = get_versioned example_collection ''a'' 1 [''a'' \<mapsto> example_hit] in
   r = Inr (Some ((eh_source example_hit)(''id'' := None)), token example_collection ''howler-hit_hot'' 7 1) \<and>
   get_version_write_target example_collection (token example_collection ''howler-hit_hot'' 7 1) =
     Inr (''howler-hit'', str_nat 7, str_nat 1)"
proof -
  have h: "eh_seq_no example_hit = 7" "eh_primary_term example_hit = 1" "eh_index example_hit = ''howler-hit_hot''"
    by (simp_all add: example_hit_def)
  have g: "get_versioned example_collection ''a'' 1 [''a'' \<mapsto> example_hit] =
     (Inr (Some ((eh_source example_hit)(''id'' := None)), token example_collection ''howler-hit_hot'' 7 1),
      [''a'' \<mapsto> example_hit])"
    using h by (simp add: get_versioned.simps get_once_def example_get example_facts)
  have "get_version_write_target example_collection (token example_collection ''howler-hit_hot'' 7 1) =
     Inr (''howler-hit'', str_nat 7, str_nat 1)"
    using get_token_roundtrip [OF _ _ _ example_ilm g, of "\<lambda>w. w" example_hit] h
    by (simp add: example_client mem_prompt_get example_facts)
  with g show ?thesis by simp
qed

section \<open>The number of attempts\<close>

text \<open>
  C16: The retry loop gives a call its attempts and no more. A call that fails with errors worth a retry
  \<^verbatim>\<open>k\<close> times and then answers is answered when \<^verbatim>\<open>k\<close> is less than the collection's attempts, and raises
  \<^verbatim>\<open>HowlerRuntimeError\<close> otherwise. The world here counts the calls made.
\<close>

theorem with_retries_attempts:
  assumes "\<And>n. n < k \<Longrightarrow> \<exists>rc. retry_decision raise_conflicts (err n) = RetryAfter rc"
    and "\<And>n. f n = (if n < k then Inl (err n) else Inr x, Suc n)"
    and "\<And>rc n. es_recover (co_client c) rc n = n"
  shows "with_retries c raise_conflicts f 0 =
    (if k < co_max_attempts c then (Inr x, Suc k)
     else (Inl (CallExn (Exn EHowlerRuntime (''Maximum of '' @ str_nat (co_max_attempts c) @
             '' retries reached. Aborting ES connection''))), co_max_attempts c))"
proof -
  have "j \<le> k \<Longrightarrow> retry_loop c raise_conflicts n f j =
      (if k < j + n then (Inr x, Suc k)
       else (Inl (CallExn (Exn EHowlerRuntime (''Maximum of '' @ str_nat (co_max_attempts c) @
             '' retries reached. Aborting ES connection''))), j + n))" for j n
  proof (induction n arbitrary: j)
    case (Suc n)
    show ?case
    proof (cases "j < k")
      case True
      with assms(1) obtain rc where "retry_decision raise_conflicts (err j) = RetryAfter rc" by blast
      with True Suc.IH [of "Suc j"] show ?thesis by (simp add: assms(2,3))
    next
      case False
      with Suc.prems show ?thesis by (simp add: assms(2))
    qed
  qed simp
  from this [of 0 "co_max_attempts c"] show ?thesis by (simp add: with_retries_def)
qed

definition counting_collection :: "nat \<Rightarrow> nat collection" where
  "counting_collection m =
     \<lparr>co_client =
        \<lparr>es_get = (\<lambda>i k n. (Inl EsTimeout, n)), es_search_ids = (\<lambda>i k n. (Inl EsTimeout, n)),
         es_exists = (\<lambda>i k n. (Inl EsTimeout, n)), es_update = (\<lambda>i k s p q n. (Inl EsTimeout, n)),
         es_index = (\<lambda>i k d s p q n. (Inl EsTimeout, n)), es_delete = (\<lambda>i k n. (Inl EsTimeout, n)),
         es_refresh = (\<lambda>i n. (Inl EsTimeout, n)), es_clear_cache = (\<lambda>i n. (Inl EsTimeout, n)),
         es_recover = (\<lambda>r n. n)\<rparr>,
      co_name = ''howler-hit'', co_max_attempts = m, co_ilm = False,
      co_fields = None, co_check = (\<lambda>f v. Inr v), co_build = (\<lambda>d. Inr d)\<rparr>"

lemma with_retries_attempts_witness:
  "with_retries (counting_collection 10) False
     (\<lambda>n. (if n < 3 then Inl (EsTransport 503 ''busy'') else Inr (), Suc n)) 0 = (Inr (), 4)"
  using with_retries_attempts [of 3 False "\<lambda>n. EsTransport 503 ''busy''"
      "\<lambda>n. (if n < 3 then Inl (EsTransport 503 ''busy'') else Inr (), Suc n)" "()" "counting_collection 10"]
  by (simp add: retry_decision_def counting_collection_def)

end
