(* ===== verification/HitService.thy ===== *)
theory HitService
  imports HitVotes Concurrency
begin

text \<open>
  \<^verbatim>\<open>services/hit_service.py\<close> over a collection: reading, creating, updating, transitioning and deleting
  hits. The application's world is the store together with the events emitted to other systems and the
  bulk actions enqueued; metrics and tracing are left out.
\<close>

section \<open>The world\<close>

record 'w app =
  app_store :: 'w
  app_events :: "(doc option \<times> string) list"
  app_actions :: "(string list \<times> string \<times> user) list"

definition on_store :: "('w, 'a) io \<Rightarrow> ('w app, 'a) io" where
  "on_store m = (\<lambda>a. case m (app_store a) of (r, w) \<Rightarrow> (r, a\<lparr>app_store := w\<rparr>))"

text \<open>\<^verbatim>\<open>comms_service.emit("hits", ...)\<close> and \<^verbatim>\<open>action_service.enqueue_action_execution\<close>\<close>

definition emit_hit :: "doc option \<Rightarrow> string \<Rightarrow> ('w app, unit) io" where
  "emit_hit d v = modifyM (\<lambda>a. a\<lparr>app_events := app_events a @ [(d, v)]\<rparr>)"

definition enqueue_action :: "string list \<Rightarrow> string \<Rightarrow> user \<Rightarrow> ('w app, unit) io" where
  "enqueue_action ids trigger usr = modifyM (\<lambda>a. a\<lparr>app_actions := app_actions a @ [(ids, trigger, usr)]\<rparr>)"

section \<open>Reading and creating\<close>

definition hit_exists :: "'w collection \<Rightarrow> string \<Rightarrow> ('w app, bool) io" where
  "hit_exists c hid = on_store (coll_exists c hid)"

definition get_hit :: "'w collection \<Rightarrow> string \<Rightarrow> bool \<Rightarrow> ('w app, doc option \<times> string) io" where
  "get_hit c hid as_odm = on_store (get_if_exists c hid as_odm)"

text \<open>The creation log a hit is given when a user is named.\<close>

definition creation_log :: "string option \<Rightarrow> doc \<Rightarrow> doc" where
  "creation_log usr hit =
     (if given usr
      then hit(''howler.log'' \<mapsto> PList [PDict [(''timestamp'', PStr ''NOW''),
                 (''explanation'', PStr ''Created hit''), (''user'', PStr (the usr))]])
      else hit)"

definition create_hit :: "'w collection \<Rightarrow> string \<Rightarrow> doc \<Rightarrow> string option \<Rightarrow> bool \<Rightarrow> ('w app, bool) io" where
  "create_hit c hid hit usr skip_exists =
     bindM (if skip_exists then returnM False else hit_exists c hid) (\<lambda>found.
     if found then raiseM (Exn EResourceExists (''Hit '' @ hid @ '' already exists in datastore''))
     else on_store (coll_save c hid (creation_log usr hit) None))"

definition save_hit :: "'w collection \<Rightarrow> string \<Rightarrow> doc \<Rightarrow> string option \<Rightarrow> ('w app, doc option \<times> string) io" where
  "save_hit c hid hit version =
     bindM (on_store (coll_save c hid hit version)) (\<lambda>_.
     bindM (on_store (coll_get c hid False)) (\<lambda>(data, v).
     thenM (emit_hit data v) (returnM (data, v))))"

section \<open>Updating\<close>

definition modifies_prop :: "string \<Rightarrow> odm_update list \<Rightarrow> bool" where
  "modifies_prop prop ops \<longleftrightarrow> list_ex (\<lambda>u. upd_key u = prop) ops"

definition current_hit ::
    "'w collection \<Rightarrow> string \<Rightarrow> string option \<Rightarrow> ('w app, doc option \<times> string) io" where
  "current_hit c hid version =
     (case version of
        None \<Rightarrow> on_store (coll_get c hid True)
      | Some v \<Rightarrow> bindM (get_hit c hid True) (\<lambda>(d, _). returnM (d, v)))"

definition log_operations ::
    "(string, field \<times> bool) dict \<Rightarrow> doc option \<Rightarrow> string option \<Rightarrow> string \<Rightarrow> odm_update list \<Rightarrow>
     odm_update list result" where
  "log_operations flds cur usr version ops =
     (case cur of
        Some d \<Rightarrow> final_operations flds d usr version ops
      | None \<Rightarrow>
          if ops = [] then Inr []
          else Inl (Exn EAttributeError ''NoneType object has no attribute flat_fields''))"

text \<open>
  \<^verbatim>\<open>_update_hit\<close>: the answer of the datastore's \<^verbatim>\<open>update\<close> is not looked at.
\<close>

definition update_hit_inner ::
    "'w collection \<Rightarrow> (string, field \<times> bool) dict \<Rightarrow> string \<Rightarrow> odm_update list \<Rightarrow> string option \<Rightarrow>
     string option \<Rightarrow> ('w app, doc option \<times> string) io" where
  "update_hit_inner c flds hid ops usr version =
     bindM (current_hit c hid version) (\<lambda>(cur, v).
     bindM (liftM (log_operations flds cur usr v ops)) (\<lambda>finals.
     bindM (on_store (coll_update c hid (map op_triple finals) (Some v))) (\<lambda>_.
     bindM (on_store (coll_get c hid True)) (\<lambda>(data, v').
     case data of
       Some d \<Rightarrow> thenM (emit_hit data v') (returnM (data, v'))
     | None \<Rightarrow> returnM (data, v')))))"

definition update_hit ::
    "'w collection \<Rightarrow> (string, field \<times> bool) dict \<Rightarrow> string \<Rightarrow> odm_update list \<Rightarrow> string option \<Rightarrow>
     string option \<Rightarrow> ('w app, doc option \<times> string) io" where
  "update_hit c flds hid ops usr version =
     (if modifies_prop ''howler.status'' ops
      then raiseM (Exn EHowlerValue (''Status of a Hit cannot be modified like other properties. '' @
                     ''Please use a transition to do so.''))
      else update_hit_inner c flds hid ops usr version)"

section \<open>Transitions\<close>

definition hit_service_transitions :: "string \<Rightarrow> string list result" where
  "hit_service_transitions st = bindR get_hit_workflow (\<lambda>wfl. get_transitions wfl st)"

definition bulk_transitions :: "string list" where
  "bulk_transitions = map transition_value [PROMOTE, DEMOTE, ASSESS, RE_EVALUATE]"

text \<open>Which bulk actions a transition triggers.\<close>

definition bulk_trigger :: "string \<Rightarrow> hit_kwargs \<Rightarrow> string result" where
  "bulk_trigger transition kw =
     (if transition = transition_value ASSESS
      then (case kw_assessment kw of
              None \<Rightarrow> Inl (Exn EKeyError ''assessment'')
            | Some a \<Rightarrow> bindR (enum_getitem AssessmentEscalationMap a) (\<lambda>e.
                Inr (if e = escalation_value EVIDENCE then ''promote'' else ''demote'')))
      else if transition = transition_value RE_EVALUATE then Inr ''promote''
      else Inr transition)"

definition run_bulk_actions ::
    "'w collection \<Rightarrow> string \<Rightarrow> string \<Rightarrow> user \<Rightarrow> hit_kwargs \<Rightarrow> ('w app, doc option \<times> string option) io" where
  "run_bulk_actions c transition hit_id usr kw =
     bindM (liftM (bulk_trigger transition kw)) (\<lambda>trigger.
     bindM (on_store (coll_commit c)) (\<lambda>_.
     thenM (enqueue_action [hit_id] trigger usr)
     (bindM (on_store (coll_get c hit_id True)) (\<lambda>(d, v).
      thenM (emit_hit d v)
      (bindM (on_store (coll_get c hit_id True)) (\<lambda>(d', v'). returnM (d', Some v')))))))"

text \<open>
  \<^verbatim>\<open>transition_hit\<close>: \<open>given_hit\<close> is the keyword argument \<^verbatim>\<open>hit\<close>; without it the hit is read from the
  store. The version the caller names is only handed to the update.
\<close>

definition transition_hit ::
    "'w collection \<Rightarrow> (string, field \<times> bool) dict \<Rightarrow> string \<Rightarrow> string \<Rightarrow> user \<Rightarrow> string option \<Rightarrow>
     doc option \<Rightarrow> hit_kwargs \<Rightarrow> ('w app, doc option \<times> string option) io" where
  "transition_hit c flds hid transition usr version given_hit kw =
     bindM (case given_hit of
              Some d \<Rightarrow> returnM (Some d)
            | None \<Rightarrow> bindM (get_hit c hid False) (\<lambda>(d, v). returnM d)) (\<lambda>hit.
     case hit of
       None \<Rightarrow> raiseM (Exn ENotFound ''Hit does not exist'')
     | Some h \<Rightarrow>
         bindM (liftM get_hit_workflow) (\<lambda>wfl.
         bindM (liftM (hit_index h ''howler.status'')) (\<lambda>st.
         bindM (liftM (hit_index h ''howler.id'')) (\<lambda>hit_id.
         bindM (liftM (workflow_transition run_hit_action wfl (py_str st) transition
                         (kw\<lparr>kw_user := Some usr, kw_hit := h\<rparr>))) (\<lambda>updates.
         bindM (if updates = [] then returnM (None, version)
                else bindM (update_hit_inner c flds (py_str hit_id) updates (Some (u_uname usr)) version)
                       (\<lambda>(d, v). returnM (d, Some v))) (\<lambda>(updated, new_version).
         if transition \<in> set bulk_transitions
         then run_bulk_actions c transition (py_str hit_id) usr kw
         else returnM (updated, new_version)))))))"

section \<open>Deleting\<close>

text \<open>
  \<^verbatim>\<open>delete_hits\<close> over the hits in the order the set yields them. A deletion that fails stops the
  deletions after it, since \<^verbatim>\<open>success and ds.hit.delete(...)\<close> is not evaluated further. The query that
  takes the hits off other hits' \<^verbatim>\<open>howler.related\<close> is handed to the client as a parameter.
\<close>

fun delete_each ::
    "'w collection \<Rightarrow> bool \<Rightarrow> odm_update list \<Rightarrow> string list \<Rightarrow> ('w app, bool \<times> odm_update list) io" where
  "delete_each c success ops [] = returnM (success, ops)"
| "delete_each c success ops (h # hs) =
     bindM (if success then on_store (coll_delete c h) else returnM False) (\<lambda>s.
     bindM (liftM (list_remove hit_helper ''howler.related'' (PStr h) None True)) (\<lambda>u.
     delete_each c s (ops @ [u]) hs))"

definition delete_hits ::
    "('w collection \<Rightarrow> string \<Rightarrow> odm_update list \<Rightarrow> ('w, unit) io) \<Rightarrow> 'w collection \<Rightarrow> string list \<Rightarrow>
     ('w app, bool) io" where
  "delete_hits update_by_query c hit_ids =
     bindM (delete_each c True [] hit_ids) (\<lambda>(success, ops).
     thenM (on_store (update_by_query c (''howler.related:('' @ py_join '' OR '' hit_ids @ '')'') ops))
     (returnM success))"

section \<open>Reads leave the store alone\<close>

definition quiet_reads :: "'w es_client \<Rightarrow> ('w \<Rightarrow> string \<Rightarrow> es_hit option) \<Rightarrow> bool" where
  "quiet_reads cl look \<longleftrightarrow>
     (\<forall>i k w. look (snd (es_get cl i k w)) = look w) \<and> (\<forall>i k w. look (snd (es_search_ids cl i k w)) = look w) \<and>
     (\<forall>i w. look (snd (es_refresh cl i w)) = look w) \<and> (\<forall>i w. look (snd (es_clear_cache cl i w)) = look w) \<and>
     (\<forall>r w. look (es_recover cl r w) = look w)"

lemma with_retries_quiet:
  assumes "\<And>w. look (snd (f w)) = look w" and "\<And>r w. look (es_recover (co_client c) r w) = look w"
  shows "look (snd (with_retries c rc f w)) = look w"
  unfolding with_retries_def
  by (rule retry_loop_keeps [where I = "\<lambda>v. look v = look w"])
     (use assms in \<open>auto simp: prod_eq_iff\<close>)

lemma get_once_quiet:
  assumes "quiet_reads (co_client c) look"
  shows "look (snd (get_once c key w)) = look w"
proof -
  have "look (snd (with_retries c False (es_search_ids (co_client c) (co_name c) key) w)) = look w"
    "look (snd (with_retries c False (es_get (co_client c) (co_name c) key) w)) = look w"
    by (rule with_retries_quiet; use assms in \<open>simp add: quiet_reads_def\<close>)+
  then show ?thesis
    unfolding get_once_def
    by (auto split: prod.splits sum.splits list.splits call_exc.splits es_exc.splits)
qed

lemma bindM_snd: "snd (bindM m f w) = (case m w of (Inl e, w') \<Rightarrow> w' | (Inr x, w') \<Rightarrow> snd (f x w'))"
  by (auto simp: bindM_def split: prod.splits sum.splits)

lemma get_versioned_quiet:
  assumes "quiet_reads (co_client c) look"
  shows "look (snd (get_versioned c key n w)) = look w"
proof (induction n arbitrary: w)
  case 0
  show ?case using get_once_quiet [OF assms, of key w]
    by (subst get_versioned.simps) (auto simp: bindM_snd split: prod.splits sum.splits option.splits)
next
  case (Suc n)
  show ?case using get_once_quiet [OF assms, of key w] Suc.IH
    by (subst get_versioned.simps) (auto simp: bindM_snd split: prod.splits sum.splits option.splits)
qed

lemma coll_get_quiet:
  assumes "quiet_reads (co_client c) look"
  shows "look (snd (coll_get c key b w)) = look w" and "look (snd (get_if_exists c key b w)) = look w"
  using get_versioned_quiet [OF assms, of key RETRY_NORMAL w]
    get_versioned_quiet [OF assms, of key RETRY_NONE w]
  by (auto simp: coll_get_def get_if_exists_def bindM_snd split: prod.splits sum.splits)

section \<open>What an update of a hit writes\<close>

text \<open>A generated script writes the fields it names and no other.\<close>

definition scripts_write_named :: "(es_script \<Rightarrow> doc \<Rightarrow> doc option) \<Rightarrow> bool" where
  "scripts_write_named painless \<longleftrightarrow>
     (\<forall>ops d d' k. painless (create_script ops) d = Some d' \<longrightarrow>
        k \<notin> set (map (fst \<circ> snd) ops) \<longrightarrow> d' k = d k)"

lemma send_update_documented:
  assumes doc: "documented_update (co_client c) look painless"
    and send: "send_update c key scr tgt w = (r, w')"
  shows "look w' = look w \<or>
     (\<exists>h d n. look w key = Some h \<and> painless scr (eh_source h) = Some d \<and>
        look w' = (look w)(key \<mapsto> written h n d))"
proof -
  obtain index sn pt where tgt: "tgt = (index, sn, pt)" by (cases tgt)
  let ?f = "es_update (co_client c) index key scr sn pt" and ?rc = "truthy_text sn \<and> truthy_text pt"
  obtain q where q: "with_retries c ?rc ?f w = (q, w')"
    using send by (auto simp: send_update_def tgt
        split: prod.splits sum.splits call_exc.splits exn.splits exn_class.splits)
  have upd: "(\<exists>e. p = Inl e) \<and> look v' = look v \<or> update_applied look painless key scr sn pt v p v'"
    if "?f v = (p, v')" for v p v' using doc that unfolding documented_update_def by blast
  have keeps: "look (es_recover (co_client c) rc v) = look v" for rc v
    using doc unfolding documented_update_def by blast
  have fail: "look (es_recover (co_client c) rc' v') = look w"
    if "look v = look w" "?f v = (Inl e, v')" for v e rc' v'
    using upd [OF that(2)] that(1) keeps by (auto simp: update_applied_def)
  show ?thesis
    using q unfolding with_retries_def
  proof (rule retry_loop_cases [where I = "\<lambda>v. look v = look w"])
    fix v assume v: "look v = look w" "\<exists>x. q = Inr x \<and> ?f v = (Inr x, w')"
    then obtain x where x: "?f v = (Inr x, w')" by blast
    from upd [OF x] v(1) show ?thesis unfolding update_applied_def by auto
  next
    fix v e ex assume "look v = look w" "?f v = (Inl e, w')" "q = Inl ex"
    with upd [of v "Inl e" w'] show ?thesis by (auto simp: update_applied_def)
  qed (use fail in auto)
qed

lemma validate_keys:
  "validate_operations c ops = Inr ops' \<Longrightarrow> map (fst \<circ> snd) ops' = map (fst \<circ> snd) ops"
proof (induction ops arbitrary: ops')
  case (Cons x ops)
  have "validate_operation c x = Inr y \<Longrightarrow> fst (snd y) = fst (snd x)" for y
    by (cases x) (auto simp: validate_operation_def bindR_eq_Inr split: option.splits if_splits sum.splits)
  with Cons show ?case by (auto simp: validate_operations_def bindR_eq_Inr)
qed (simp add: validate_operations_def)

lemma coll_update_frame:
  assumes "documented_update (co_client c) look painless" and "quiet_reads (co_client c) look"
    and "scripts_write_named painless" and "fld \<notin> set (map (fst \<circ> snd) ops)"
    and "coll_update c key ops version w = (r, w')"
  shows "map_option (\<lambda>h. eh_source h fld) (look w' k) = map_option (\<lambda>h. eh_source h fld) (look w k)"
proof (cases "validate_operations c ops")
  case (Inl e)
  with assms(5) show ?thesis by (auto simp: coll_update_def)
next
  case (Inr ops')
  obtain q w1 where v: "default_version c key version w = (q, w1)" by (metis surj_pair)
  have w1: "look w1 = look w"
    using v coll_get_quiet(2) [OF assms(2), of key False w]
    by (auto simp: default_version_def bindM_def split: if_splits prod.splits sum.splits)
  show ?thesis
  proof (cases "\<exists>x tgt. q = Inr x \<and> write_target c x = Inr tgt")
    case False
    with assms(5) Inr v w1 show ?thesis
      by (cases q; cases "write_target c (projr q)") (auto simp: coll_update_def)
  next
    case True
    then obtain x tgt where x: "q = Inr x" "write_target c x = Inr tgt" by blast
    with assms(5) Inr v have "send_update c key (create_script ops') tgt w1 = (r, w')"
      by (simp add: coll_update_def)
    from send_update_documented [OF assms(1) this] w1 show ?thesis
    proof (elim disjE exE conjE)
      fix h d n
      assume h: "look w1 key = Some h" and p: "painless (create_script ops') (eh_source h) = Some d"
        and w': "look w' = (look w1)(key \<mapsto> written h n d)"
      have "fld \<notin> set (map (fst \<circ> snd) ops')" using validate_keys [OF Inr] assms(4) by simp
      with p assms(3) have "d fld = eh_source h fld" unfolding scripts_write_named_def by blast
      with h w' w1 show ?thesis by (auto simp: written_def)
    qed simp
  qed
qed

lemma final_operations_keys:
  "final_operations flds d usr v us = Inr ops \<Longrightarrow>
   set (map upd_key ops) \<subseteq> insert ''howler.log'' (set (map upd_key us))"
proof (induction us arbitrary: ops)
  case (Cons u us)
  then obtain l m p zs where l: "l = (if upd_silent u then [] else [append_log (log_entry usr v u m p)])"
    and z: "final_operations flds d usr v us = Inr zs" and ops: "ops = u # l @ zs"
    by (auto simp: final_operations_Cons)
  have "set (map upd_key l) \<subseteq> {''howler.log''}" using l by simp
  with Cons.IH [OF z] show ?case unfolding ops by auto
qed simp

lemma log_operations_keys:
  "log_operations flds cur usr v us = Inr ops \<Longrightarrow>
   set (map upd_key ops) \<subseteq> insert ''howler.log'' (set (map upd_key us))"
proof (cases cur)
  case None
  then show "log_operations flds cur usr v us = Inr ops \<Longrightarrow> ?thesis"
    by (auto simp: log_operations_def split: if_splits)
next
  case (Some d)
  then show "log_operations flds cur usr v us = Inr ops \<Longrightarrow> ?thesis"
    using final_operations_keys [of flds d usr v us ops] by (simp add: log_operations_def)
qed

lemma on_store_snd: "app_store (snd (on_store m a)) = snd (m (app_store a))"
  by (simp add: on_store_def split: prod.splits)

lemma on_store_apply: "m (app_store a) = (r, w) \<Longrightarrow> on_store m a = (r, a\<lparr>app_store := w\<rparr>)"
  by (simp add: on_store_def)

lemma current_hit_quiet:
  assumes "quiet_reads (co_client c) look"
  shows "look (app_store (snd (current_hit c hid version a))) = look (app_store a)"
proof -
  have "look (app_store (snd (get_hit c hid True a))) = look (app_store a)"
    "look (app_store (snd (on_store (coll_get c hid True) a))) = look (app_store a)"
    by (simp_all add: get_hit_def on_store_snd coll_get_quiet [OF assms])
  then show ?thesis
    by (auto simp: current_hit_def bindM_snd split: option.splits prod.splits sum.splits)
qed

lemma update_hit_inner_frame:
  assumes cl: "documented_update (co_client c) look painless" "quiet_reads (co_client c) look"
      "scripts_write_named painless"
    and fld: "fld \<noteq> ''howler.log''" "fld \<notin> set (map upd_key us)"
  shows "map_option (\<lambda>h. eh_source h fld) (look (app_store (snd (update_hit_inner c flds hid us usr v a))) k) =
         map_option (\<lambda>h. eh_source h fld) (look (app_store a) k)"
proof -
  obtain q a1 where cur: "current_hit c hid v a = (q, a1)" by (metis surj_pair)
  have a1: "look (app_store a1) = look (app_store a)"
    using current_hit_quiet [OF cl(2), of hid v a] cur by simp
  show ?thesis
  proof (cases "\<exists>d ver ops. q = Inr (d, ver) \<and> log_operations flds d usr ver us = Inr ops")
    case False
    with cur a1 show ?thesis
      by (cases q; cases "log_operations flds (fst (projr q)) usr (snd (projr q)) us")
         (auto simp: update_hit_inner_def bindM_snd split: prod.splits)
  next
    case True
    then obtain d ver ops where q: "q = Inr (d, ver)" and l: "log_operations flds d usr ver us = Inr ops" by blast
    obtain r2 w2 where u: "coll_update c hid (map op_triple ops) (Some ver) (app_store a1) = (r2, w2)"
      by (metis surj_pair)
    have "set (map (fst \<circ> snd) (map op_triple ops)) = set (map upd_key ops)"
      by (simp add: op_triple_def comp_def)
    with log_operations_keys [OF l] fld have "fld \<notin> set (map (fst \<circ> snd) (map op_triple ops))" by blast
    from coll_update_frame [OF cl this u, of k] a1
    have w2: "map_option (\<lambda>h. eh_source h fld) (look w2 k) =
        map_option (\<lambda>h. eh_source h fld) (look (app_store a) k)" by simp
    have g: "look (snd (coll_get c hid True w2)) = look w2" by (rule coll_get_quiet [OF cl(2)])
    have "look (app_store (snd (update_hit_inner c flds hid us usr v a))) = look w2"
      using g u by (auto simp: update_hit_inner_def bindM_snd cur q l on_store_def
          emit_hit_def thenM_def split: prod.splits sum.splits option.splits)
    with w2 show ?thesis by simp
  qed
qed


end
