(* ===== verification/HitExamples.thy ===== *)
theory HitExamples
  imports HitVotes
begin

text \<open>
  A concrete hit and request on which the properties of the hit workflow are exercised: each lemma
  applies one of them where its hypotheses hold.
\<close>

definition new_hit :: doc where
  "new_hit = [''howler.id'' \<mapsto> PStr ''h1'', ''howler.status'' \<mapsto> PStr (status_value OPEN),
     ''howler.assignment'' \<mapsto> PStr DEFAULT_ASSIGNMENT, ''howler.escalation'' \<mapsto> PStr ''hit'',
     vote_key ''benign'' \<mapsto> PList [], vote_key ''obscure'' \<mapsto> PList [], vote_key ''malicious'' \<mapsto> PList [],
     ''howler.log'' \<mapsto> PList []]"

definition ana :: user where
  "ana = \<lparr>u_uname = ''ana'', u_type = [''user''], u_classification = ''''\<rparr>"

definition request :: hit_kwargs where
  "request = \<lparr>kw_user = Some ana, kw_hit = new_hit, kw_assessment = Some ''recon'', kw_rationale = None,
     kw_assignee = None, kw_vote = Some (Some ''malicious''), kw_email = Some (Some ''ana@x''),
     kw_escalation = None\<rparr>"

definition taken_hit :: doc where
  "taken_hit = new_hit(''howler.status'' \<mapsto> PStr (status_value IN_PROGRESS),
                       ''howler.assignment'' \<mapsto> PStr ''ana'')"

lemma new_hit_status: "status_of new_hit = Some OPEN"
  by (simp add: status_of_Some new_hit_def vote_key_def)

lemma new_hit_lists: "list_fields_ok new_hit"
  by (simp add: list_fields_ok_def vote_lists_def new_hit_def vote_names_def vote_key_def)

lemma new_hit_votes: "votes_ok new_hit"
  by (simp add: votes_ok_def vote_lists_def voters_def new_hit_def vote_names_def vote_key_def)

lemma new_hit_not_assessed: "doc_get new_hit ''howler.assessment'' = PNone"
  by (simp add: new_hit_def doc_get_def vote_key_def)

lemma request_hit [simp]: "request\<lparr>kw_hit := new_hit\<rparr> = request"
  by (simp add: request_def)

lemma new_hit_assess: "\<exists>us. hit_run OPEN ASSESS request = Inr us"
proof -
  have "enum_contains Assessment ''recon''" by code_simp
  then have "kw_user request \<noteq> None" "given (kw_assessment request)"
    "enum_contains Assessment (the (kw_assessment request))"
    by (simp_all add: request_def given_def)
  then show ?thesis using assess_iff(1) [of OPEN request] by blast
qed

lemma new_hit_vote: "\<exists>us. hit_run OPEN VOTE request = Inr us"
proof -
  have "enum_contains Vote ''malicious''" by code_simp
  moreover have "old_vote new_hit ''ana@x'' = Inr None"
    by (simp add: old_vote_eq new_hit_lists [unfolded list_fields_ok_def])
       (simp add: voters_def new_hit_def vote_names_def vote_key_def)
  moreover have "vote_updates None ''malicious'' ''ana@x'' = Inr [add_vote ''malicious'' ''ana@x'']"
    using vote_list_fields [of "''malicious''"] by (simp add: vote_updates_def list_add_def)
  moreover have "vote_release new_hit (Some ana) = Inr []"
    by (simp add: vote_release_def hit_index_def new_hit_def ana_def DEFAULT_ASSIGNMENT_def vote_key_def)
  ultimately have "vote_hit new_hit (Some ''malicious'') (Some ''ana@x'') (Some ana) =
      Inr [add_vote ''malicious'' ''ana@x'']"
    by (simp add: vote_hit_def given_def)
  then show ?thesis by (simp add: run_simps request_def) (simp add: vote_key_def)
qed


lemma new_hit_step:
  "\<exists>d'. apply_transition VOTE request (Some ''ana'') ''1---1'' new_hit = Some d'"
  "\<exists>d'. apply_transition ASSESS request (Some ''ana'') ''1---1'' new_hit = Some d'"
proof -
  have "\<exists>d'. apply_transition t request (Some ''ana'') ''1---1'' new_hit = Some d'"
    if r: "hit_run OPEN t request = Inr us" for t us
  proof -
    have fits: "\<forall>u \<in> set us. op_fits u \<and> upd_key u \<noteq> ''howler.log''" using hit_run_fits [OF r] by blast
    obtain ops where "final_operations hit_flat_fields new_hit (Some ''ana'') ''1---1'' us = Inr ops"
      and ops: "\<forall>u \<in> set ops. op_fits u"
      using final_operations_total [OF fits, of new_hit "Some ''ana''" "''1---1''"] by blast
    with r apply_ops_fits [OF ops new_hit_lists] show ?thesis
      by (auto simp: apply_transition_def new_hit_status)
  qed
  then show "\<exists>d'. apply_transition VOTE request (Some ''ana'') ''1---1'' new_hit = Some d'"
    "\<exists>d'. apply_transition ASSESS request (Some ''ana'') ''1---1'' new_hit = Some d'"
    using new_hit_vote new_hit_assess by blast+
qed






end
