(* ===== verification/HitTransition.thy ===== *)
theory HitTransition
  imports HitService HitExamples
begin

text \<open>
  \<^verbatim>\<open>transition_hit\<close> end to end: a request with a stale version changes nothing, a request that succeeds
  moved the stored status along the abstract machine, and exactly the bulk action the transition calls
  for is enqueued.
\<close>

section \<open>Reading over a prompt client\<close>

lemma prompt_get_once:
  assumes "prompt_get (co_client c) look" and "0 < co_max_attempts c"
  obtains w1 where "get_once c key w = (Inr (look w key), w1)" and "look w1 = look w"
proof -
  let ?g = "es_get (co_client c) (co_name c) key" and ?s = "es_search_ids (co_client c) (co_name c) key"
  obtain q1 v1 where g: "?g w = (q1, v1)" by (metis surj_pair)
  obtain q2 v2 where s: "?s w = (q2, v2)" by (metis surj_pair)
  from g assms(1) have q1: "look v1 = look w"
    "case look w key of None \<Rightarrow> (\<exists>m. q1 = Inl (EsNotFound False m)) | Some h \<Rightarrow> q1 = Inr h"
    unfolding prompt_get_def by blast+
  from s assms(1) have q2: "look v2 = look w" "q2 = Inr (case look w key of None \<Rightarrow> [] | Some h \<Rightarrow> [h])"
    unfolding prompt_get_def by blast+
  have S: "with_retries c False ?s w = (Inr (case look w key of None \<Rightarrow> [] | Some h \<Rightarrow> [h]), v2)"
    by (rule with_retries_ok [where f = ?s]) (simp_all add: s q2 assms(2))
  show ?thesis
  proof (cases "look w key")
    case None
    with q1 obtain m where m: "q1 = Inl (EsNotFound False m)" by auto
    have "with_retries c False ?g w = (Inl (CallEs (EsNotFound False m)), v1)"
      by (rule with_retries_give_up [where f = ?g and e = "EsNotFound False m"])
         (simp_all add: g m retry_decision_def assms(2))
    with S None q1 q2 that show ?thesis by (cases "co_ilm c") (simp_all add: get_once_def)
  next
    case (Some h)
    with q1 have m: "q1 = Inr h" by simp
    have "with_retries c False ?g w = (Inr h, v1)"
      by (rule with_retries_ok [where f = ?g]) (simp_all add: g m assms(2))
    with S Some q1 q2 that show ?thesis by (cases "co_ilm c") (simp_all add: get_once_def)
  qed
qed

definition hit_token :: "'w collection \<Rightarrow> es_hit \<Rightarrow> string" where
  "hit_token c h = token c (eh_index h) (eh_seq_no h) (eh_primary_term h)"

lemma prompt_get_versioned:
  assumes "prompt_get (co_client c) look" and "0 < co_max_attempts c" and "look w key = Some h"
  obtains w1 where "get_versioned c key n w = (Inr (Some ((eh_source h)(''id'' := None)), hit_token c h), w1)"
    and "look w1 = look w"
proof -
  obtain w1 where "get_once c key w = (Inr (Some h), w1)" "look w1 = look w"
    using prompt_get_once [OF assms(1,2), of key w] assms(3) by metis
  with that [of w1] show ?thesis by (simp add: get_versioned.simps [of c key n] hit_token_def)
qed

text \<open>The dictionary a read returns hides the identifier and the access fields.\<close>

definition visible :: "doc \<Rightarrow> doc" where
  "visible d = (\<lambda>k. if k = ''id'' \<or> k \<in> set BANNED_FIELDS then None else d k)"

lemma visible_howler: "visible d (''howler.'' @ k) = d (''howler.'' @ k)"
  by (simp add: visible_def BANNED_FIELDS_def)

lemma prompt_get_hit:
  assumes "prompt_get (co_client c) look" and "0 < co_max_attempts c" and "look (app_store a) key = Some h"
  obtains w1 where
    "get_hit c key False a = (Inr (Some (visible (eh_source h)), hit_token c h), a\<lparr>app_store := w1\<rparr>)"
    and "look w1 = look (app_store a)"
proof -
  obtain w1 where w1: "get_versioned c key RETRY_NONE (app_store a) =
      (Inr (Some ((eh_source h)(''id'' := None)), hit_token c h), w1)" "look w1 = look (app_store a)"
    using prompt_get_versioned [OF assms] by blast
  have "(\<lambda>k. if k \<in> set BANNED_FIELDS then None else ((eh_source h)(''id'' := None)) k) = visible (eh_source h)"
    by (auto simp: visible_def)
  with w1 have "get_if_exists c key False (app_store a) = (Inr (Some (visible (eh_source h)), hit_token c h), w1)"
    by (simp add: get_if_exists_def normalize_def)
  with w1(2) that show ?thesis by (simp add: get_hit_def on_store_def)
qed

text \<open>What the update reads first: the hit as an object, and the version it will write under.\<close>

lemma prompt_current_hit:
  assumes "prompt_get (co_client c) look" and "0 < co_max_attempts c" and "look (app_store a) key = Some h"
  shows "\<exists>w1 r. current_hit c key version a = (r, a\<lparr>app_store := w1\<rparr>) \<and> look w1 = look (app_store a) \<and>
    (\<forall>d v. r = Inr (d, v) \<longrightarrow> v = (case version of None \<Rightarrow> hit_token c h | Some v \<Rightarrow> v))"
proof -
  have g: "\<exists>w1. get_versioned c key n (app_store a) =
      (Inr (Some ((eh_source h)(''id'' := None)), hit_token c h), w1) \<and> look w1 = look (app_store a)" for n
    using prompt_get_versioned [OF assms, of n] by blast
  let ?n = "normalize c True (Some ((eh_source h)(''id'' := None)))"
  from g [of RETRY_NORMAL] obtain w1 where w1: "look w1 = look (app_store a)"
    "coll_get c key True (app_store a) =
      (case ?n of Inl e \<Rightarrow> Inl e | Inr d \<Rightarrow> Inr (d, hit_token c h), w1)"
    by (auto simp: coll_get_def bindM_def split: sum.splits)
  from g [of RETRY_NONE] obtain w2 where w2: "look w2 = look (app_store a)"
    "get_if_exists c key True (app_store a) =
      (case ?n of Inl e \<Rightarrow> Inl e | Inr d \<Rightarrow> Inr (d, hit_token c h), w2)"
    by (auto simp: get_if_exists_def bindM_def split: sum.splits)
  show ?thesis
  proof (cases version)
    case None
    with w1 show ?thesis
      by (intro exI [of _ w1] exI [of _ "case ?n of Inl e \<Rightarrow> Inl e | Inr d \<Rightarrow> Inr (d, hit_token c h)"])
         (auto simp: current_hit_def on_store_def split: sum.splits)
  next
    case (Some v)
    with w2 show ?thesis
      by (intro exI [of _ w2] exI [of _ "case ?n of Inl e \<Rightarrow> Inl e | Inr d \<Rightarrow> Inr (d, v)"])
         (auto simp: current_hit_def get_hit_def on_store_def bindM_def split: sum.splits)
  qed
qed

section \<open>A stale version\<close>

lemma coll_update_stale:
  assumes "prompt_update (co_client c) look painless" and "0 < co_max_attempts c"
    and "co_ilm c \<longrightarrow> token_safe index" and "look w key = Some h"
    and "eh_seq_no h \<noteq> s \<or> eh_primary_term h \<noteq> t"
  obtains e w' where "coll_update c key ops (Some (token c index s t)) w = (Inl e, w')" and "look w' = look w"
proof (cases "validate_operations c ops")
  case (Inl e)
  then show ?thesis using that [of e w] by (simp add: coll_update_def)
next
  case (Inr ops')
  let ?i = "if co_ilm c then index else co_name c"
  obtain q v where call: "es_update (co_client c) ?i key (create_script ops') (Some (str_nat s)) (Some (str_nat t)) w = (q, v)"
    by (metis surj_pair)
  with assms(1,4,5) obtain m where "q = Inl (EsConflict m)" and l: "look v = look w"
    unfolding prompt_update_def by (fastforce simp: condition_token)
  from send_update_prompt(2) [OF call assms(2) this(1)] coll_update_token [OF Inr assms(3), of key s t w] l that
  show ?thesis by auto
qed

lemma hit_run_nonempty: "hit_run s t kw = Inr us \<Longrightarrow> us \<noteq> []"
proof -
  assume us: "hit_run s t kw = Inr us"
  obtain s' where s': "hit_next s t = Some s'" using hit_run_next [OF us] by blast
  show "us \<noteq> []"
  proof (cases "t \<in> {PROMOTE, DEMOTE}")
    case True
    with hit_run_escalate [OF us] show ?thesis by auto
  next
    case False
    then have "lookup_transition hit_workflow (status_value s) (transition_value t) =
       Some (hit_row (source_list t s) t (to_status s') (transition_actions t))"
      using s' by (simp add: lookup_expected expected_row_def)
    from workflow_transition_status [OF us [unfolded hit_run_def] this] show ?thesis by auto
  qed
qed

lemma update_hit_inner_stale:
  assumes "prompt_update (co_client c) look painless" and "prompt_get (co_client c) look"
    and "0 < co_max_attempts c" and "co_ilm c \<longrightarrow> token_safe index" and "look (app_store a) key = Some h"
    and "eh_seq_no h \<noteq> s \<or> eh_primary_term h \<noteq> t"
  obtains e w' where
    "update_hit_inner c flds key us usr (Some (token c index s t)) a = (Inl e, a\<lparr>app_store := w'\<rparr>)"
    and "look w' = look (app_store a)"
proof -
  obtain w1 r where cur: "current_hit c key (Some (token c index s t)) a = (r, a\<lparr>app_store := w1\<rparr>)"
    and w1: "look w1 = look (app_store a)"
    and v: "\<forall>d v. r = Inr (d, v) \<longrightarrow> v = token c index s t"
    using prompt_current_hit [OF assms(2,3,5), of "Some (token c index s t)"] by auto
  show ?thesis
  proof (cases r)
    case (Inl e)
    with cur w1 that show ?thesis by (simp add: update_hit_inner_def)
  next
    case (Inr x)
    obtain d v where x: "x = (d, v)" by (cases x)
    show ?thesis
    proof (cases "log_operations flds d usr v us")
      case (Inl e)
      with cur \<open>r = Inr x\<close> x w1 that show ?thesis by (simp add: update_hit_inner_def bindM_def)
    next
      case (Inr ops)
      from assms(5) w1 have "look w1 key = Some h" by simp
      from coll_update_stale [OF assms(1,3,4) this assms(6)] obtain e w' where
        "coll_update c key (map op_triple ops) (Some (token c index s t)) w1 = (Inl e, w')" "look w' = look w1"
        by metis
      with cur \<open>r = Inr x\<close> x v Inr w1 that [of e w'] show ?thesis
        by (simp add: update_hit_inner_def bindM_def on_store_def)
    qed
  qed
qed

text \<open>The beginning of a transition: the hit is read and the workflow runs on what was read.\<close>

lemma visible_status: "status_of (visible d) = status_of d"
  by (simp add: status_of_def visible_def BANNED_FIELDS_def)

text \<open>What \<^verbatim>\<open>transition_hit\<close> does once it has a hit, which is the caller's word when the caller gives one.\<close>

lemma given_hit_start:
  assumes "status_of cl = Some s" and "cl ''howler.id'' = Some (PStr hid)"
  shows "transition_hit c flds key (transition_value t) usr version (Some cl) kw a =
      (case hit_run s t (kw\<lparr>kw_user := Some usr, kw_hit := cl\<rparr>) of
         Inl e \<Rightarrow> (Inl e, a)
       | Inr us \<Rightarrow>
           bindM (bindM (update_hit_inner c flds hid us (Some (u_uname usr)) version)
                    (\<lambda>(d, v). returnM (d, Some v))) (\<lambda>(updated, new_version).
             if transition_value t \<in> set bulk_transitions
             then run_bulk_actions c (transition_value t) hid usr kw
             else returnM (updated, new_version)) a)"
proof -
  have "hit_index cl ''howler.status'' = Inr (PStr (status_value s))" "hit_index cl ''howler.id'' = Inr (PStr hid)"
    using assms by (simp_all add: hit_index_def status_of_Some)
  then show ?thesis
    using hit_run_nonempty [of s t "kw\<lparr>kw_user := Some usr, kw_hit := cl\<rparr>"]
    by (auto simp: transition_hit_def bindM_def hit_workflow_ok hit_run_def split: sum.splits prod.splits)
qed

lemma transition_hit_start:
  assumes "prompt_get (co_client c) look" and "0 < co_max_attempts c" and "look (app_store a) hid = Some h"
    and "status_of (eh_source h) = Some s" and "eh_source h ''howler.id'' = Some (PStr hid)"
  obtains w1 where "look w1 = look (app_store a)"
    "transition_hit c flds hid (transition_value t) usr version None kw a =
      (case hit_run s t (kw\<lparr>kw_user := Some usr, kw_hit := visible (eh_source h)\<rparr>) of
         Inl e \<Rightarrow> (Inl e, a\<lparr>app_store := w1\<rparr>)
       | Inr us \<Rightarrow>
           bindM (bindM (update_hit_inner c flds hid us (Some (u_uname usr)) version)
                    (\<lambda>(d, v). returnM (d, Some v))) (\<lambda>(updated, new_version).
             if transition_value t \<in> set bulk_transitions
             then run_bulk_actions c (transition_value t) hid usr kw
             else returnM (updated, new_version)) (a\<lparr>app_store := w1\<rparr>))"
proof -
  let ?v = "visible (eh_source h)"
  obtain w1 where g: "get_hit c hid False a = (Inr (Some ?v, hit_token c h), a\<lparr>app_store := w1\<rparr>)"
    and w1: "look w1 = look (app_store a)"
    using prompt_get_hit [OF assms(1-3)] by blast
  have v: "status_of ?v = Some s" "?v ''howler.id'' = Some (PStr hid)"
    using assms(4,5) by (simp_all add: visible_def BANNED_FIELDS_def status_of_Some)
  have "transition_hit c flds hid (transition_value t) usr version None kw a =
      transition_hit c flds hid (transition_value t) usr version (Some ?v) kw (a\<lparr>app_store := w1\<rparr>)"
    by (simp add: transition_hit_def bindM_def g)
  with w1 that show ?thesis unfolding given_hit_start [OF v] by blast
qed


section \<open>Bulk actions\<close>

lemma on_store_actions: "on_store m a = (r, a') \<Longrightarrow> app_actions a' = app_actions a"
  by (auto simp: on_store_def split: prod.splits)

lemma emit_hit_actions: "emit_hit d v a = (r, a') \<Longrightarrow> app_actions a' = app_actions a"
  by (auto simp: emit_hit_def)

lemma get_hit_actions: "get_hit c key b a = (r, a') \<Longrightarrow> app_actions a' = app_actions a"
  by (simp add: get_hit_def on_store_actions)

lemma current_hit_actions: "current_hit c key v a = (Inr x, a') \<Longrightarrow> app_actions a' = app_actions a"
  by (auto simp: current_hit_def bindM_eq_Inr dest: on_store_actions get_hit_actions split: option.splits prod.splits)

lemma update_hit_inner_actions:
  "update_hit_inner c flds hid us usr v a = (Inr x, a') \<Longrightarrow> app_actions a' = app_actions a"
  by (auto simp: update_hit_inner_def io_Inr dest!: on_store_actions current_hit_actions emit_hit_actions
      split: prod.splits option.splits)

lemma run_bulk_actions_actions:
  assumes "run_bulk_actions c tr hid usr kw a = (Inr x, a')"
  obtains trigger where "bulk_trigger tr kw = Inr trigger"
    "app_actions a' = app_actions a @ [([hid], trigger, usr)]"
proof -
  from assms obtain trigger where "bulk_trigger tr kw = Inr trigger"
    and "app_actions a' = app_actions a @ [([hid], trigger, usr)]"
    by (auto simp: run_bulk_actions_def io_Inr enqueue_action_def dest!: on_store_actions emit_hit_actions
        split: prod.splits)
  then show ?thesis by (rule that)
qed

lemma in_bulk_transitions:
  "transition_value t \<in> set bulk_transitions \<longleftrightarrow> t \<in> {PROMOTE, DEMOTE, ASSESS, RE_EVALUATE}"
  unfolding bulk_transitions_def by (simp only: set_map list.set image_insert image_empty insert_iff
      transition_value_inj empty_iff)

text \<open>The action the documentation of the transition names.\<close>

fun expected_actions :: "hit_transition \<Rightarrow> string \<Rightarrow> user \<Rightarrow> string option \<Rightarrow> (string list \<times> string \<times> user) list" where
  "expected_actions ASSESS hid usr a =
     [([hid], if enum_getitem AssessmentEscalationMap (the a) = Inr (escalation_value EVIDENCE)
              then ''promote'' else ''demote'', usr)]"
| "expected_actions RE_EVALUATE hid usr a = [([hid], ''promote'', usr)]"
| "expected_actions PROMOTE hid usr a = [([hid], ''promote'', usr)]"
| "expected_actions DEMOTE hid usr a = [([hid], ''demote'', usr)]"
| "expected_actions _ hid usr a = []"

lemma bulk_trigger_expected:
  assumes "bulk_trigger (transition_value t) kw = Inr trigger" and "t \<in> {PROMOTE, DEMOTE, ASSESS, RE_EVALUATE}"
  shows "[([hid], trigger, usr)] = expected_actions t hid usr (kw_assessment kw)"
  using assms by (cases t) (auto simp: bulk_trigger_def bindR_eq_Inr split: option.splits if_splits)

lemma not_bulk_expected: "t \<notin> {PROMOTE, DEMOTE, ASSESS, RE_EVALUATE} \<Longrightarrow> expected_actions t hid usr a = []"
  by (cases t) simp_all


section \<open>A fresh version\<close>

lemma coll_update_fresh:
  assumes "prompt_update (co_client c) look painless" and "0 < co_max_attempts c"
    and "co_ilm c \<longrightarrow> token_safe (eh_index h)" and "look w key = Some h"
    and "validate_operations c ops = Inr ops'" and "runs_script painless ops'"
    and "apply_ops (eh_source h) ops' = Some d"
  obtains n w' where "coll_update c key ops (Some (hit_token c h)) w =
      (Inr (Updated True (token c (eh_index h) n (eh_primary_term h))), w')"
    and "look w' = (look w)(key \<mapsto> written h n d)" and "eh_seq_no h < n"
proof -
  obtain r w' where u: "coll_update c key ops (Some (hit_token c h)) w = (r, w')" by (metis surj_pair)
  have "cas (look w key) (eh_seq_no h) (eh_primary_term h) ops' = CasWritten d"
    using assms(4,7) by (simp add: cas_def)
  with coll_update_cas [OF assms(1,2,5,6,3) u [unfolded hit_token_def]] assms(4) u that
  show ?thesis by auto
qed

text \<open>Code that leaves the stored documents alone.\<close>

definition quietM :: "('w \<Rightarrow> string \<Rightarrow> es_hit option) \<Rightarrow> ('w app, 'a) io \<Rightarrow> bool" where
  "quietM look m \<longleftrightarrow> (\<forall>a. look (app_store (snd (m a))) = look (app_store a))"

lemma quietM_bind_snd:
  assumes "\<And>x. quietM look (f x)"
  shows "look (app_store (snd (bindM m f a))) = look (app_store (snd (m a)))"
proof (cases "m a")
  case (Pair r a1)
  with assms show ?thesis by (cases r) (simp_all add: bindM_def quietM_def)
qed

lemma quietM_bind [intro]: "quietM look m \<Longrightarrow> (\<And>x. quietM look (f x)) \<Longrightarrow> quietM look (bindM m f)"
  unfolding quietM_def [of look "bindM m f"] by (simp add: quietM_bind_snd) (simp add: quietM_def)

lemma quietM_then [intro]: "quietM look m \<Longrightarrow> quietM look n \<Longrightarrow> quietM look (thenM m n)"
  unfolding thenM_def by (rule quietM_bind)

lemma quietM_basic [intro, simp]:
  "quietM look (returnM x)" "quietM look (liftM q)" "quietM look (emit_hit d v)"
  "quietM look (enqueue_action ids tr usr)"
  by (simp_all add: quietM_def emit_hit_def enqueue_action_def)

lemma quietM_store:
  assumes "\<And>w. look (snd (m w)) = look w"
  shows "quietM look (on_store m)"
  using assms by (simp add: quietM_def on_store_snd)

lemma coll_commit_quiet:
  assumes "quiet_reads (co_client c) look"
  shows "look (snd (coll_commit c w)) = look w"
proof -
  have r: "look (snd (with_retries c False (es_refresh (co_client c) (index_name c)) w)) = look w"
    and k: "look (snd (with_retries c False (es_clear_cache (co_client c) (index_name c)) w)) = look w" for w
    by (rule with_retries_quiet; use assms in \<open>simp add: quiet_reads_def\<close>)+
  obtain q w1 where w1: "with_retries c False (es_refresh (co_client c) (index_name c)) w = (q, w1)"
    by (metis surj_pair)
  obtain q2 w2 where w2: "with_retries c False (es_clear_cache (co_client c) (index_name c)) w1 = (q2, w2)"
    by (metis surj_pair)
  from r [of w] w1 k [of w1] w2 show ?thesis
    by (cases q; cases q2) (simp_all add: coll_commit_def)
qed

lemma run_bulk_actions_quiet:
  assumes "quiet_reads (co_client c) look"
  shows "quietM look (run_bulk_actions c tr hid usr kw)"
proof -
  have g: "quietM look (on_store (coll_get c hid True))"
    by (rule quietM_store) (rule coll_get_quiet [OF assms])
  have k: "quietM look (on_store (coll_commit c))"
    by (rule quietM_store) (rule coll_commit_quiet [OF assms])
  show ?thesis
    unfolding run_bulk_actions_def case_prod_unfold
    by (intro quietM_bind quietM_then quietM_basic g k)
qed

lemma prompt_current_hit_ok:
  assumes "prompt_get (co_client c) look" and "0 < co_max_attempts c" and "look (app_store a) key = Some h"
    and "normalize c True (Some ((eh_source h)(''id'' := None))) = Inr (Some d)"
    and "version = None \<or> version = Some (hit_token c h)"
  shows "\<exists>w1. current_hit c key version a = (Inr (Some d, hit_token c h), a\<lparr>app_store := w1\<rparr>) \<and>
    look w1 = look (app_store a)"
proof -
  have g: "\<exists>w1. get_versioned c key n (app_store a) =
      (Inr (Some ((eh_source h)(''id'' := None)), hit_token c h), w1) \<and> look w1 = look (app_store a)" for n
    using prompt_get_versioned [OF assms(1-3), of n] by blast
  from g [of RETRY_NORMAL] g [of RETRY_NONE] assms(4,5) show ?thesis
    by (auto simp: current_hit_def get_hit_def on_store_def bindM_def coll_get_def get_if_exists_def)
qed

text \<open>The updates of a transition reach the store under the version they were computed for.\<close>

lemma updates_stored:
  assumes cl: "prompt_update (co_client c) look painless" "prompt_get (co_client c) look"
      "quiet_reads (co_client c) look" "0 < co_max_attempts c" "co_ilm c \<longrightarrow> token_safe (eh_index h)"
    and hit: "look (app_store a) hid = Some h"
    and cur: "normalize c True (Some ((eh_source h)(''id'' := None))) = Inr (Some d)"
    and fin: "final_operations flds d (Some (u_uname usr)) (hit_token c h) us = Inr ops"
    and ops: "validate_operations c (map op_triple ops) = Inr ops'" "runs_script painless ops'"
      "apply_ops (eh_source h) ops' = Some d'"
    and ver: "version = None \<or> version = Some (hit_token c h)"
    and t: "(r, a') = bindM (bindM (update_hit_inner c flds hid us (Some (u_uname usr)) version)
                    (\<lambda>(d, v). returnM (d, Some v))) (\<lambda>(updated, new_version).
             if transition_value t \<in> set bulk_transitions
             then run_bulk_actions c (transition_value t) hid usr kw
             else returnM (updated, new_version)) a"
  shows "\<exists>n. eh_seq_no h < n \<and> look (app_store a') = (look (app_store a))(hid \<mapsto> written h n d')"
proof -
  obtain w2 where cur2: "current_hit c hid version a = (Inr (Some d, hit_token c h), a\<lparr>app_store := w2\<rparr>)"
    and w2: "look w2 = look (app_store a)"
    using prompt_current_hit_ok [OF cl(2,4) hit cur ver] by auto
  have "look w2 hid = Some h" using w2 hit by simp
  from coll_update_fresh [OF cl(1,4,5) this ops] obtain n ans w3 where
    u: "coll_update c hid (map op_triple ops) (Some (hit_token c h)) w2 = (Inr ans, w3)"
    and w3: "look w3 = (look w2)(hid \<mapsto> written h n d')" and n: "eh_seq_no h < n" by metis
  have q: "quietM look (on_store (coll_get c hid True))"
    by (rule quietM_store) (rule coll_get_quiet [OF cl(3)])
  have "update_hit_inner c flds hid us (Some (u_uname usr)) version a =
      (bindM (on_store (coll_get c hid True)) (\<lambda>(data, v').
         case data of Some d \<Rightarrow> thenM (emit_hit data v') (returnM (data, v')) | None \<Rightarrow> returnM (data, v')))
      (a\<lparr>app_store := w3\<rparr>)"
    using u by (simp add: update_hit_inner_def bindM_def cur2 log_operations_def fin on_store_def)
  then have inner: "look (app_store (snd (update_hit_inner c flds hid us (Some (u_uname usr)) version a))) = look w3"
    using quietM_bind [OF q, of "\<lambda>(data, v'). case data of Some d \<Rightarrow> thenM (emit_hit data v') (returnM (data, v'))
        | None \<Rightarrow> returnM (data, v')"]
    by (simp add: quietM_def [of look "bindM _ _"] quietM_then split: option.splits prod.splits)
  have "a' = snd (bindM (bindM (update_hit_inner c flds hid us (Some (u_uname usr)) version)
                    (\<lambda>(d, v). returnM (d, Some v))) (\<lambda>(updated, new_version).
             if transition_value t \<in> set bulk_transitions
             then run_bulk_actions c (transition_value t) hid usr kw
             else returnM (updated, new_version)) a)" using t by (metis snd_conv)
  then have "look (app_store a') = look w3"
    using inner by (simp add: case_prod_unfold quietM_bind_snd run_bulk_actions_quiet [OF cl(3)])
  with w3 w2 n show ?thesis by auto
qed

text \<open>
  C9: A fresh transition is stored. Over a client that answers promptly, when the workflow accepts a
  transition of the stored hit, its operations and log entries validate and the script runs, and the
  caller names no version or the current one, then after \<^verbatim>\<open>transition_hit\<close> the stored document is the
  result of those operations under a new sequence number, and no other document has changed.
\<close>

theorem fresh_transition_stored:
  assumes cl: "prompt_update (co_client c) look painless" "prompt_get (co_client c) look"
      "quiet_reads (co_client c) look" "0 < co_max_attempts c" "co_ilm c \<longrightarrow> token_safe (eh_index h)"
    and hit: "look (app_store a) hid = Some h" "status_of (eh_source h) = Some s"
      "eh_source h ''howler.id'' = Some (PStr hid)"
    and run: "hit_run s t (kw\<lparr>kw_user := Some usr, kw_hit := visible (eh_source h)\<rparr>) = Inr us"
    and cur: "normalize c True (Some ((eh_source h)(''id'' := None))) = Inr (Some d)"
    and fin: "final_operations flds d (Some (u_uname usr)) (hit_token c h) us = Inr ops"
    and ops: "validate_operations c (map op_triple ops) = Inr ops'" "runs_script painless ops'"
      "apply_ops (eh_source h) ops' = Some d'"
    and ver: "version = None \<or> version = Some (hit_token c h)"
    and tr: "transition_hit c flds hid (transition_value t) usr version None kw a = (r, a')"
  shows "\<exists>n. eh_seq_no h < n \<and> look (app_store a') = (look (app_store a))(hid \<mapsto> written h n d')"
proof -
  let ?kw = "kw\<lparr>kw_user := Some usr, kw_hit := visible (eh_source h)\<rparr>"
  obtain w1 where w1: "look w1 = look (app_store a)"
    and eq: "transition_hit c flds hid (transition_value t) usr version None kw a =
      (case hit_run s t ?kw of
         Inl e \<Rightarrow> (Inl e, a\<lparr>app_store := w1\<rparr>)
       | Inr us \<Rightarrow>
           bindM (bindM (update_hit_inner c flds hid us (Some (u_uname usr)) version)
                    (\<lambda>(d, v). returnM (d, Some v))) (\<lambda>(updated, new_version).
             if transition_value t \<in> set bulk_transitions
             then run_bulk_actions c (transition_value t) hid usr kw
             else returnM (updated, new_version)) (a\<lparr>app_store := w1\<rparr>))"
    by (rule transition_hit_start [OF cl(2,4) hit])
  have h1: "look (app_store (a\<lparr>app_store := w1\<rparr>)) hid = Some h" using w1 hit(1) by simp
  from updates_stored [OF cl h1 cur fin ops ver eq [unfolded tr run sum.case]] w1 show ?thesis by simp
qed

text \<open>
  A caller that gives the hit itself is believed: its status and its assignment decide, whatever is stored.
\<close>

lemma claimed_transition_stored:
  assumes cl: "prompt_update (co_client c) look painless" "prompt_get (co_client c) look"
      "quiet_reads (co_client c) look" "0 < co_max_attempts c" "co_ilm c \<longrightarrow> token_safe (eh_index h)"
    and hit: "look (app_store a) hid = Some h"
    and claim: "status_of claimed = Some s" "claimed ''howler.id'' = Some (PStr hid)"
    and run: "hit_run s t (kw\<lparr>kw_user := Some usr, kw_hit := claimed\<rparr>) = Inr us"
    and cur: "normalize c True (Some ((eh_source h)(''id'' := None))) = Inr (Some d)"
    and fin: "final_operations flds d (Some (u_uname usr)) (hit_token c h) us = Inr ops"
    and ops: "validate_operations c (map op_triple ops) = Inr ops'" "runs_script painless ops'"
      "apply_ops (eh_source h) ops' = Some d'"
    and ver: "version = None \<or> version = Some (hit_token c h)"
    and tr: "transition_hit c flds key (transition_value t) usr version (Some claimed) kw a = (r, a')"
  shows "\<exists>n. eh_seq_no h < n \<and> look (app_store a') = (look (app_store a))(hid \<mapsto> written h n d')"
  by (rule updates_stored [OF cl hit cur fin ops ver,
        OF given_hit_start [OF claim, of c flds key t usr version kw a, unfolded tr run sum.case]])

section \<open>Concrete instances\<close>

definition stored_hit :: es_hit where
  "stored_hit = \<lparr>eh_index = ''howler-hit_hot'', eh_seq_no = 7, eh_primary_term = 1, eh_source = new_hit\<rparr>"

definition hit_store :: "(string \<Rightarrow> es_hit option) app" where
  "hit_store = \<lparr>app_store = [''h1'' \<mapsto> stored_hit], app_events = [], app_actions = []\<rparr>"

lemma stored_hit_simps [simp]:
  "eh_source stored_hit = new_hit" "eh_seq_no stored_hit = 7" "eh_primary_term stored_hit = 1"
  "app_store hit_store = [''h1'' \<mapsto> stored_hit]"
  by (simp_all add: stored_hit_def hit_store_def)

lemma new_hit_id: "new_hit ''howler.id'' = Some (PStr ''h1'')"
  by (simp add: new_hit_def vote_key_def)

lemma mem_collection_simps [simp]:
  "co_client (mem_collection p) = mem_client p" "co_ilm (mem_collection p) = False"
  "co_max_attempts (mem_collection p) = 10" "co_fields (mem_collection p) = None"
  by (simp_all add: mem_collection_def)

lemma mem_quiet: "quiet_reads (mem_client p) (\<lambda>w. w)"
  by (simp add: quiet_reads_def mem_client_def)

lemma mem_valid: "validate_operations (mem_collection p) ops = Inr ops"
proof -
  have "validate_operation (mem_collection p) x = Inr x" for x
    by (cases x) (simp add: validate_operation_def)
  then show ?thesis by (induction ops) (simp_all add: validate_operations_def)
qed



text \<open>Promoting the stored hit: its operations and the script engine that runs them.\<close>

lemma op_context_hit:
  "dget hit_keys (upd_key u) = Some m \<Longrightarrow> op_context hit_flat_fields d u = Inr (m, doc_get d (upd_key u))"
  using hit_keys_dget [of "upd_key u"] by (auto simp: op_context_def split: option.splits)

definition promote_ops :: "odm_update list" where
  "promote_ops = (let u = set_op ''howler.escalation'' (PStr ''alert'') False in
     [u, append_log (log_entry (Some ''ana'') (hit_token (mem_collection (\<lambda>s d. Some d)) stored_hit) u False
           (PStr ''hit''))])"

definition promote_collection :: "(string \<Rightarrow> es_hit option) collection" where
  "promote_collection = mem_collection (\<lambda>s d. apply_ops d (map op_triple promote_ops))"

lemma promote_run: "hit_run OPEN PROMOTE (request\<lparr>kw_user := Some ana, kw_hit := h\<rparr>) =
    Inr [set_op ''howler.escalation'' (PStr ''alert'') False]"
  by (simp add: run_simps promote_hit_def escalation_arg_def request_def)

lemma promote_final:
  "final_operations hit_flat_fields (visible new_hit) (Some (u_uname ana)) (hit_token promote_collection stored_hit)
     [set_op ''howler.escalation'' (PStr ''alert'') False] = Inr promote_ops"
proof -
  have "dget hit_keys ''howler.escalation'' = Some False"
    by (subst hit_keys_dget_howler) (simp_all add: howler_keys_def howler_flat_keys py_startswith_def)
  moreover have "doc_get (visible new_hit) ''howler.escalation'' = PStr ''hit''"
    by (simp add: doc_get_def visible_def BANNED_FIELDS_def new_hit_def vote_key_def)
  moreover have "hit_token promote_collection stored_hit = hit_token (mem_collection (\<lambda>s d. Some d)) stored_hit"
    by (simp add: hit_token_def token_def promote_collection_def)
  ultimately show ?thesis
    using op_context_hit [of "set_op ''howler.escalation'' (PStr ''alert'') False" False "visible new_hit"]
    by (auto simp: final_operations_Cons promote_ops_def Let_def ana_def)
qed

lemma promote_applies: "\<exists>d'. apply_ops new_hit (map op_triple promote_ops) = Some d'"
proof -
  have "\<forall>u \<in> set promote_ops. op_fits u" by (simp add: promote_ops_def Let_def op_fits_def)
  with apply_ops_fits [OF this new_hit_lists] show ?thesis by blast
qed

lemma promote_normalize:
  "normalize promote_collection True (Some (new_hit(''id'' := None))) = Inr (Some (visible new_hit))"
  by (auto simp: normalize_def promote_collection_def visible_def fun_eq_iff)

lemma fresh_transition_stored_witness:
  "\<exists>d'. apply_ops new_hit (map op_triple promote_ops) = Some d' \<and>
    (let (r, a') = transition_hit promote_collection hit_flat_fields ''h1'' (transition_value PROMOTE)
                     ana None None request hit_store
     in \<exists>n. 7 < n \<and> app_store a' = (app_store hit_store)(''h1'' \<mapsto> written stored_hit n d'))"
proof -
  obtain d' where d: "apply_ops new_hit (map op_triple promote_ops) = Some d'" using promote_applies by blast
  have v: "validate_operations promote_collection (map op_triple promote_ops) = Inr (map op_triple promote_ops)"
    unfolding promote_collection_def by (rule mem_valid)
  let ?t = "transition_hit promote_collection hit_flat_fields ''h1'' (transition_value PROMOTE)
              ana None None request hit_store"
  obtain r a' where tr: "?t = (r, a')" by (metis surj_pair)
  have "\<exists>n. eh_seq_no stored_hit < n \<and> app_store a' = (app_store hit_store)(''h1'' \<mapsto> written stored_hit n d')"
    by (rule fresh_transition_stored [where look = "\<lambda>w. w" and painless = "\<lambda>s d. apply_ops d (map op_triple promote_ops)"
          and s = OPEN and t = PROMOTE and c = promote_collection and flds = hit_flat_fields and usr = ana
          and kw = request and version = None and d = "visible new_hit" and ops = promote_ops and a = hit_store
          and us = "[set_op ''howler.escalation'' (PStr ''alert'') False]", OF _ _ _ _ _ _ _ _ _ _ _ v _ _ _ tr])
       (simp_all add: promote_collection_def mem_prompt_update mem_prompt_get mem_quiet new_hit_status new_hit_id
          promote_run d runs_script_def promote_normalize [unfolded promote_collection_def]
          promote_final [unfolded promote_collection_def])
  with d tr show ?thesis by auto
qed

lemma mem_get:
  "with_retries (mem_collection p) False (es_get (mem_client p) i k) w =
   (case w k of None \<Rightarrow> Inl (CallEs (EsNotFound False ''missing'')) | Some h \<Rightarrow> Inr h, w)"
proof (cases "w k")
  case None
  then show ?thesis
    by (simp, intro with_retries_give_up [where e = "EsNotFound False ''missing''"])
       (simp_all add: mem_client_def retry_decision_def)
next
  case (Some h)
  then show ?thesis
    by (simp, intro with_retries_ok) (simp_all add: mem_client_def)
qed

lemma mem_coll_get:
  assumes "w key = Some h"
  shows "coll_get (mem_collection p) key b w = (Inr (Some (visible (eh_source h)), hit_token (mem_collection p) h), w)"
proof -
  have "get_versioned (mem_collection p) key n w =
      (Inr (Some ((eh_source h)(''id'' := None)), hit_token (mem_collection p) h), w)" for n
    using assms by (simp add: get_versioned.simps [of _ _ n] get_once_def mem_get hit_token_def)
  moreover have "normalize (mem_collection p) b (Some ((eh_source h)(''id'' := None))) =
      Inr (Some (visible (eh_source h)))"
    by (auto simp: normalize_def visible_def fun_eq_iff)
  ultimately show ?thesis by (simp add: coll_get_def)
qed

lemma mem_commit: "coll_commit (mem_collection p) w = (Inr True, w)"
proof -
  have "with_retries (mem_collection p) False (es_refresh (mem_client p) i) w = (Inr (), w)"
    "with_retries (mem_collection p) False (es_clear_cache (mem_client p) i) w = (Inr (), w)" for i
    by (rule with_retries_ok; simp add: mem_client_def)+
  then show ?thesis by (simp add: coll_commit_def)
qed

lemma promote_update:
  "\<exists>ans h'. coll_update promote_collection ''h1'' (map op_triple promote_ops)
      (Some (hit_token promote_collection stored_hit)) [''h1'' \<mapsto> stored_hit] = (Inr ans, [''h1'' \<mapsto> h'])"
proof -
  obtain d' where d: "apply_ops (eh_source stored_hit) (map op_triple promote_ops) = Some d'"
    using promote_applies by auto
  have v: "validate_operations promote_collection (map op_triple promote_ops) = Inr (map op_triple promote_ops)"
    unfolding promote_collection_def by (rule mem_valid)
  let ?p = "\<lambda>s d. apply_ops d (map op_triple promote_ops)"
  have p: "prompt_update (co_client promote_collection) (\<lambda>w. w) ?p" "0 < co_max_attempts promote_collection"
    "co_ilm promote_collection \<longrightarrow> token_safe (eh_index stored_hit)"
    "[''h1'' \<mapsto> stored_hit] ''h1'' = Some stored_hit" "runs_script ?p (map op_triple promote_ops)"
    by (simp_all add: promote_collection_def mem_prompt_update runs_script_def)
  obtain n w' where "coll_update promote_collection ''h1'' (map op_triple promote_ops)
      (Some (hit_token promote_collection stored_hit)) [''h1'' \<mapsto> stored_hit] =
      (Inr (Updated True (token promote_collection (eh_index stored_hit) n (eh_primary_term stored_hit))), w')"
    "w' = [''h1'' \<mapsto> stored_hit](''h1'' \<mapsto> written stored_hit n d')" "eh_seq_no stored_hit < n"
    by (rule coll_update_fresh [where look = "\<lambda>w. w" and key = "''h1''" and w = "[''h1'' \<mapsto> stored_hit]",
          OF p(1,2,3,4) v p(5) d])
  then show ?thesis by auto
qed

lemma promote_transition:
  "\<exists>x a'. transition_hit promote_collection hit_flat_fields ''h1'' (transition_value PROMOTE) ana None
       (Some new_hit) request hit_store = (Inr x, a')"
proof -
  obtain ans h' where u: "coll_update promote_collection ''h1'' (map op_triple promote_ops)
      (Some (hit_token promote_collection stored_hit)) [''h1'' \<mapsto> stored_hit] = (Inr ans, [''h1'' \<mapsto> h'])"
    using promote_update by blast
  note g = mem_coll_get [of _ "''h1''" _ "\<lambda>s d. apply_ops d (map op_triple promote_ops)", folded promote_collection_def]
  note k = mem_commit [of "\<lambda>s d. apply_ops d (map op_triple promote_ops)", folded promote_collection_def]
  have st: "hit_index new_hit ''howler.status'' = Inr (PStr (status_value OPEN))"
    "hit_index new_hit ''howler.id'' = Inr (PStr ''h1'')"
    by (simp_all add: hit_index_def new_hit_id) (simp add: new_hit_def vote_key_def)
  have run: "workflow_transition run_hit_action hit_workflow (status_value OPEN) (transition_value PROMOTE)
      (request\<lparr>kw_user := Some ana, kw_hit := new_hit\<rparr>) = Inr [set_op ''howler.escalation'' (PStr ''alert'') False]"
    by (rule promote_run [unfolded hit_run_def])
  have cur: "current_hit promote_collection ''h1'' None hit_store =
      (Inr (Some (visible new_hit), hit_token promote_collection stored_hit), hit_store)"
    using g [of "app_store hit_store" stored_hit True] by (simp add: current_hit_def on_store_def)
  have trig: "bulk_trigger (transition_value PROMOTE) request = Inr ''promote''"
    by (simp add: bulk_trigger_def)
  show ?thesis
    using promote_final u g
    by (simp add: transition_hit_def hit_workflow_ok st run del: transition_value.simps status_value.simps)
       (simp add: update_hit_inner_def cur log_operations_def on_store_def g [of "[''h1'' \<mapsto> h']" h'] emit_hit_def
          thenM_def in_bulk_transitions run_bulk_actions_def trig k enqueue_action_def
          del: transition_value.simps status_value.simps)
qed


end
