(* ===== verification/Classification.thy ===== *)
theory Classification
  imports PyStrings
begin

text \<open>
  \<^verbatim>\<open>common/classification.py\<close>: the engine that decides who may see what. A definition is read into the
  engine's tables; a classification is parsed into a level, required markings, groups and subgroups,
  written back in a normal form, compared and merged. The caches of normal forms are state; Python's order
  of iteration over a set is a parameter of the engine. An entry of a definition is complete, and the short
  name of a level is not a decimal number.
\<close>

section \<open>Definitions and engines\<close>

record params =
  pm_require_lvl :: int
  pm_required_group :: bool
  pm_require_group :: "string option"
  pm_limited :: "string option"
  pm_solitary :: "string option"

record marking =
  mk_name :: string
  mk_short :: string
  mk_lvl :: int
  mk_aliases :: "string list"
  mk_auto :: bool
  mk_params :: params

text \<open>A key the definition lacks is None.\<close>

record class_definition =
  cd_enforce :: "bool option"
  cd_dynamic :: "bool option"
  cd_levels :: "marking list option"
  cd_required :: "marking list option"
  cd_groups :: "marking list option"
  cd_subgroups :: "marking list option"
  cd_unrestricted :: "string option"
  cd_restricted :: "string option"

text \<open>\<^verbatim>\<open>levels_map\<close> maps names to numbers and numbers, as text, to names.\<close>

datatype lvl_val = LvlNum int | LvlText string

record engine =
  en_order :: "string list \<Rightarrow> string list"
  en_enforce :: bool
  en_dynamic :: bool
  en_invalid :: bool
  en_levels_map :: "(string, lvl_val) dict"
  en_levels_stl :: "(string, string) dict"
  en_levels_lts :: "(string, string) dict"
  en_levels_aliases :: "(string, string) dict"
  en_req_lts :: "(string, string) dict"
  en_req_stl :: "(string, string) dict"
  en_req_aliases :: "(string, string list) dict"
  en_grp_lts :: "(string, string) dict"
  en_grp_stl :: "(string, string) dict"
  en_grp_aliases :: "(string, string list) dict"
  en_grp_auto :: "string list"
  en_grp_auto_short :: "string list"
  en_sub_lts :: "(string, string) dict"
  en_sub_stl :: "(string, string) dict"
  en_sub_aliases :: "(string, string list) dict"
  en_sub_auto :: "string list"
  en_sub_auto_short :: "string list"
  en_params :: "(string, params) dict"
  en_unrestricted :: "string option"
  en_restricted :: "string option"

record class_cache =
  cc_long :: "string list"
  cc_short :: "string list"

definition MIN_LVL :: int where "MIN_LVL = 1"
definition MAX_LVL :: int where "MAX_LVL = 10000"
definition NULL_LVL :: int where "NULL_LVL = 0"
definition INVALID_LVL :: int where "INVALID_LVL = 10001"
definition NULL_CLASSIFICATION :: string where "NULL_CLASSIFICATION = ''NULL''"
definition INVALID_CLASSIFICATION :: string where "INVALID_CLASSIFICATION = ''INVALID''"

definition invalid_class :: "string \<Rightarrow> exn" where
  "invalid_class m = Exn EInvalidClassification m"

text \<open>\<^verbatim>\<open>list(set(xs))\<close> in the interpreter's order.\<close>

definition set_list :: "engine \<Rightarrow> string list \<Rightarrow> string list" where
  "set_list e xs = en_order e (remdups xs)"

definition no_params :: params where
  "no_params = \<lparr>pm_require_lvl = 0, pm_required_group = False, pm_require_group = None, pm_limited = None,
     pm_solitary = None\<rparr>"

definition params_of :: "engine \<Rightarrow> string \<Rightarrow> params" where
  "params_of e k = (case dget (en_params e) k of None \<Rightarrow> no_params | Some p \<Rightarrow> p)"

section \<open>Reading a classification\<close>

definition get_level_index :: "engine \<Rightarrow> string \<Rightarrow> (lvl_val \<times> string) result" where
  "get_level_index e c12n =
     (let c = py_upper c12n; (lvl, remain) = partition2 CHR ''/'' CHR ''/'' c in
      case dget (en_levels_map e) lvl of
        Some i \<Rightarrow> Inr (i, remain)
      | None \<Rightarrow>
          (case dget (en_levels_lts e) lvl of
             Some s \<Rightarrow> bindR (dict_index (en_levels_map e) s) (\<lambda>i. Inr (i, remain))
           | None \<Rightarrow>
               (case dget (en_levels_aliases e) lvl of
                  Some s \<Rightarrow> bindR (dict_index (en_levels_map e) s) (\<lambda>i. Inr (i, remain))
                | None \<Rightarrow> Inl (invalid_class (''Classification level '' @ [CHR 0x27] @ lvl @ [CHR 0x27] @
                    '' was not found in your classification definition.'')))))"

definition lvl_str :: "lvl_val \<Rightarrow> string" where
  "lvl_str l = (case l of LvlNum i \<Rightarrow> str_int i | LvlText t \<Rightarrow> t)"

definition get_level_text :: "engine \<Rightarrow> lvl_val \<Rightarrow> bool \<Rightarrow> string result" where
  "get_level_text e l long =
     (case dget (en_levels_map e) (lvl_str l) of
        Some (LvlText t) \<Rightarrow>
          if t = [] then Inl (invalid_class (''Classification level number '' @ lvl_str l @ '' was not found''))
          else if long then dict_index (en_levels_stl e) t else Inr t
      | Some (LvlNum i) \<Rightarrow>
          if i = 0 then Inl (invalid_class (''Classification level number '' @ lvl_str l @ '' was not found''))
          else if long then Inl (Exn EKeyError (str_int i))
          else Inl (Exn ETypeError ''unsupported operand types: int and str'')
      | None \<Rightarrow> Inl (invalid_class (''Classification level number '' @ lvl_str l @ '' was not found'')))"

text \<open>The required markings among the parts, by short name, and the parts that are none.\<close>

definition required_shorts :: "engine \<Rightarrow> string \<Rightarrow> string list option" where
  "required_shorts e p =
     (case dget (en_req_lts e) p of
        Some s \<Rightarrow> Some [s]
      | None \<Rightarrow> if dmem (en_req_stl e) p then Some [p] else dget (en_req_aliases e) p)"

definition get_required :: "engine \<Rightarrow> string \<Rightarrow> bool \<Rightarrow> (string list \<times> string list) result" where
  "get_required e c12n long =
     (let parts = filter (\<lambda>p. p \<noteq> []) (set_list e (split_char CHR ''/'' (py_upper c12n)));
          found = remdups (concat (map (\<lambda>p. case required_shorts e p of None \<Rightarrow> [] | Some ss \<Rightarrow> ss) parts));
          unused = filter (\<lambda>p. required_shorts e p = None) parts
      in bindR (if long then mapR (dict_index (en_req_stl e)) (set_list e found) else Inr found) (\<lambda>names.
         Inr (sort names, unused)))"

text \<open>The groups of a REL marking.\<close>

definition rel_groups :: "engine \<Rightarrow> string \<Rightarrow> string list" where
  "rel_groups e gp =
     (let g = py_replace ''REL '' [] (py_replace ''REL TO '' [] gp) in
      concat (map (split_char CHR ''/'') (set_list e (map py_strip (split_char CHR '','' g)))))"

definition group_shorts :: "engine \<Rightarrow> string \<Rightarrow> string list option" where
  "group_shorts e g =
     (case dget (en_grp_lts e) g of
        Some s \<Rightarrow> Some [s]
      | None \<Rightarrow> if dmem (en_grp_stl e) g then Some [g] else dget (en_grp_aliases e) g)"

definition subgroup_shorts :: "engine \<Rightarrow> string \<Rightarrow> string list option" where
  "subgroup_shorts e g =
     (case dget (en_sub_lts e) g of
        Some s \<Rightarrow> Some [s]
      | None \<Rightarrow> if dmem (en_sub_stl e) g then Some [g] else dget (en_sub_aliases e) g)"

text \<open>A part outside a REL marking is a subgroup, or the alias of a single group.\<close>

definition subgroup_step :: "engine \<Rightarrow> string list \<times> string list \<Rightarrow> string \<Rightarrow> (string list \<times> string list) result" where
  "subgroup_step e st g =
     (case subgroup_shorts e g of
        Some ss \<Rightarrow> Inr (fst st, snd st @ ss)
      | None \<Rightarrow>
          (case dget (en_grp_aliases e) g of
             Some [] \<Rightarrow> Inl (Exn EIndexError ''list index out of range'')
           | Some [a] \<Rightarrow> Inr (fst st @ [a], snd st)
           | Some _ \<Rightarrow> Inl (invalid_class (''Unclear use of alias: '' @ g))
           | None \<Rightarrow> Inl (invalid_class (''Unknown Subgroup: '' @ g))))"

definition required_groups :: "engine \<Rightarrow> string list \<Rightarrow> string list" where
  "required_groups e subs =
     concat (map (\<lambda>s. case pm_require_group (params_of e s) of None \<Rightarrow> [] | Some g \<Rightarrow> if g = [] then [] else [g]) subs)"

definition check_limited :: "engine \<Rightarrow> string list \<Rightarrow> string list \<Rightarrow> unit result" where
  "check_limited e grps subs =
     foldR (\<lambda>_ s. case pm_limited (params_of e s) of
         None \<Rightarrow> Inr ()
       | Some l \<Rightarrow>
           if set grps \<subseteq> {l} then Inr ()
           else Inl (invalid_class (''Subgroup '' @ s @ '' is limited to group '' @ l @ '' (found: '' @
                  py_join '', '' (set_list e grps) @ '')''))) () (set_list e subs)"

definition name_of :: "(string, string) dict \<Rightarrow> string \<Rightarrow> string" where
  "name_of d k = (case dget d k of None \<Rightarrow> k | Some n \<Rightarrow> n)"

definition is_rel :: "string \<Rightarrow> bool" where
  "is_rel p \<longleftrightarrow> py_startswith p ''REL ''"

definition get_groups ::
    "engine \<Rightarrow> string list \<Rightarrow> bool \<Rightarrow> bool \<Rightarrow> bool \<Rightarrow> (string list \<times> string list \<times> string list) result" where
  "get_groups e parts long get_dynamic auto =
     (let groups = concat (map (rel_groups e) (filter is_rel parts));
          g1 = concat (map (\<lambda>g. case group_shorts e g of None \<Rightarrow> [] | Some ss \<Rightarrow> ss) groups);
          others = filter (\<lambda>g. group_shorts e g = None) groups
      in bindR (foldR (subgroup_step e) (g1, []) (filter (\<lambda>p. \<not> is_rel p) parts)) (\<lambda>(g1, g2).
         let dyn = en_dynamic e \<and> get_dynamic;
             g1 = (if dyn then g1 @ others else g1);
             others = (if dyn then [] else others);
             g1 = g1 @ required_groups e g2
         in bindR (check_limited e g1 g2) (\<lambda>_.
         let g1 = (if auto \<and> g1 \<noteq> [] then g1 @ en_grp_auto_short e else g1);
             g2 = (if auto \<and> g2 \<noteq> [] then g2 @ en_sub_auto_short e else g2);
             rest = set_list e others
         in if long
            then bindR (mapR (dict_index (en_sub_stl e)) (remdups g2)) (\<lambda>subs.
                 Inr (sort (map (name_of (en_grp_stl e)) (remdups g1)), sort subs, rest))
            else Inr (sort (remdups g1), sort (remdups g2), rest))))"

type_synonym class_parts = "lvl_val \<times> string list \<times> string list \<times> string list"

definition get_parts :: "engine \<Rightarrow> string \<Rightarrow> bool \<Rightarrow> bool \<Rightarrow> bool \<Rightarrow> bool \<Rightarrow> class_parts result" where
  "get_parts e c12n long get_dynamic auto ignore_unused =
     bindR (get_level_index e c12n) (\<lambda>(lvl, remain).
     bindR (get_required e remain long) (\<lambda>(req, unused).
     bindR (get_groups e unused long get_dynamic auto) (\<lambda>(groups, subgroups, rest).
     if rest \<noteq> [] \<and> \<not> ignore_unused
     then Inl (invalid_class (''Unparsable classification parts: '' @ py_join '', '' rest))
     else Inr (lvl, req, groups, subgroups))))"

section \<open>The normal form\<close>

text \<open>The level a list of required markings raises a level to.\<close>

definition raised_level :: "engine \<Rightarrow> lvl_val \<Rightarrow> string list \<Rightarrow> lvl_val result" where
  "raised_level e l req =
     (case l of
        LvlNum i \<Rightarrow> Inr (LvlNum (max i (foldl (\<lambda>m r. max m (pm_require_lvl (params_of e r))) 0 req)))
      | LvlText t \<Rightarrow> Inl (Exn ETypeError ''not supported between instances of int and str''))"

text \<open>Step 4: the groups the subgroups call for. A limit that names another group drops what was found.\<close>

definition called_groups :: "engine \<Rightarrow> string list \<Rightarrow> string list" where
  "called_groups e subs =
     foldl (\<lambda>tmp s.
        let tmp = (case pm_require_group (params_of e s) of None \<Rightarrow> tmp | Some g \<Rightarrow> tmp @ [g]) in
        case pm_limited (params_of e s) of None \<Rightarrow> tmp | Some l \<Rightarrow> if l \<in> set tmp then [l] else []) [] subs"

text \<open>Steps 3 and 5: an automatic choice joins a list that is not empty.\<close>

definition auto_join :: "bool \<Rightarrow> string list \<Rightarrow> string list \<Rightarrow> string list" where
  "auto_join skip auto xs = (if xs \<noteq> [] \<and> auto \<noteq> [] \<and> \<not> skip then sorted_set (xs @ auto) else xs)"

text \<open>Step 6 and 7: one group by its display name, several by an alias for all of them in the short form.\<close>

definition shortened :: "engine \<Rightarrow> string list \<Rightarrow> string list" where
  "shortened e groups =
     foldl (\<lambda>gs (alias, values). if 1 < length values \<and> sort values = gs then [alias] else gs) groups (en_grp_aliases e)"

definition group_text :: "engine \<Rightarrow> bool \<Rightarrow> string list \<Rightarrow> string" where
  "group_text e long groups =
     (case groups of
        [g] \<Rightarrow> (case pm_solitary (params_of e g) of
                 None \<Rightarrow> ''REL TO '' @ g
               | Some d \<Rightarrow> if d \<noteq> g then d else ''REL TO '' @ g)
      | _ \<Rightarrow> ''REL TO '' @ py_join '', '' (sort (if long then groups else shortened e groups)))"

definition normalized_text ::
    "engine \<Rightarrow> lvl_val \<Rightarrow> string list \<Rightarrow> string list \<Rightarrow> string list \<Rightarrow> bool \<Rightarrow> bool \<Rightarrow> string result" where
  "normalized_text e l req groups subgroups long skip_auto =
     bindR (raised_level e l req) (\<lambda>l'.
     bindR (get_level_text e l' long) (\<lambda>out.
     let req_grp = filter (\<lambda>r. pm_required_group (params_of e r)) req;
         plain_req = set_list e (filter (\<lambda>r. r \<notin> set req_grp) req);
         subs = auto_join skip_auto (if long then en_sub_auto e else en_sub_auto_short e) subgroups;
         named = map (name_of (if long then en_grp_stl e else en_grp_lts e)) (called_groups e subs);
         grps = auto_join skip_auto (if long then en_grp_auto e else en_grp_auto_short e) (set_list e (groups @ named))
     in Inr (out @
         (if plain_req \<noteq> [] then ''//'' @ py_join ''/'' plain_req else []) @
         (if req_grp \<noteq> [] then ''//'' @ py_join ''/'' (sort req_grp) else []) @
         (if grps \<noteq> [] then (if req_grp \<noteq> [] then ''/'' else ''//'') @ group_text e long grps else []) @
         (if subs \<noteq> [] then (if grps \<noteq> [] \<or> req_grp \<noteq> [] then ''/'' else ''//'') @ py_join ''/'' (sort subs) else []))))"

text \<open>
  \<^verbatim>\<open>normalize_classification\<close> with its caches. An engine that is off answers its unrestricted
  classification, an attribute the constructor sets last.
\<close>

definition unrestricted_of :: "engine \<Rightarrow> string result" where
  "unrestricted_of e =
     (case en_unrestricted e of
        None \<Rightarrow> Inl (Exn EAttributeError ''object has no attribute UNRESTRICTED'')
      | Some u \<Rightarrow> Inr u)"

definition engine_off :: "engine \<Rightarrow> bool" where
  "engine_off e \<longleftrightarrow> \<not> en_enforce e \<or> en_invalid e"

definition cached :: "bool \<Rightarrow> class_cache \<Rightarrow> string list" where
  "cached long c = (if long then cc_long c else cc_short c)"

definition add_cached :: "bool \<Rightarrow> string \<Rightarrow> class_cache \<Rightarrow> class_cache" where
  "add_cached long s c =
     (if s \<in> set (cached long c) then c
      else if long then c\<lparr>cc_long := cc_long c @ [s]\<rparr> else c\<lparr>cc_short := cc_short c @ [s]\<rparr>)"

definition normalize_classification ::
    "engine \<Rightarrow> string \<Rightarrow> bool \<Rightarrow> bool \<Rightarrow> bool \<Rightarrow> bool \<Rightarrow> (class_cache, string) io" where
  "normalize_classification e c12n long skip_auto get_dynamic ignore_unused =
     (if engine_off e then liftM (unrestricted_of e)
      else (\<lambda>c.
        if c12n \<in> set (cached long c) \<and> get_dynamic then (Inr c12n, c)
        else
          (case bindR (get_parts e c12n long get_dynamic False ignore_unused) (\<lambda>(l, req, groups, subs).
                normalized_text e l req groups subs long skip_auto) of
             Inl ex \<Rightarrow> (Inl ex, c)
           | Inr s \<Rightarrow> (Inr s, add_cached long s c))))"

section \<open>Access\<close>

definition can_see_required :: "string list \<Rightarrow> string list \<Rightarrow> bool" where
  "can_see_required user_req req \<longleftrightarrow> set req \<subseteq> set user_req"

definition can_see_groups :: "string list \<Rightarrow> string list \<Rightarrow> bool" where
  "can_see_groups user_groups req \<longleftrightarrow> req = [] \<or> list_ex (\<lambda>g. g \<in> set req) user_groups"

definition lvl_int :: "lvl_val \<Rightarrow> int result" where
  "lvl_int l = (case l of LvlNum i \<Rightarrow> Inr i | LvlText t \<Rightarrow> Inl (Exn EValueError (''invalid literal for int() with base 10: '' @ t)))"

definition accessible_parts :: "class_parts \<Rightarrow> class_parts \<Rightarrow> bool result" where
  "accessible_parts u d =
     (case u of (ul, ureq, ugroups, usubs) \<Rightarrow> case d of (l, req, groups, subs) \<Rightarrow>
        bindR (lvl_int ul) (\<lambda>ui. bindR (lvl_int l) (\<lambda>i.
        Inr (i \<le> ui \<and> can_see_required ureq req \<and> can_see_groups ugroups groups \<and> can_see_groups usubs subs))))"

definition is_accessible :: "engine \<Rightarrow> string \<Rightarrow> string option \<Rightarrow> bool \<Rightarrow> bool result" where
  "is_accessible e user_c12n c12n ignore_invalid =
     (if en_invalid e then Inr False
      else if \<not> en_enforce e then Inr True
      else case c12n of
        None \<Rightarrow> Inr True
      | Some c \<Rightarrow>
          (case bindR (get_parts e user_c12n True True False False) (\<lambda>u.
                bindR (get_parts e c True True False False) (accessible_parts u)) of
             Inl ex \<Rightarrow> if exn_class ex = EInvalidClassification \<and> ignore_invalid then Inr False else Inl ex
           | Inr b \<Rightarrow> Inr b))"

text \<open>The parts a query of the search engine is built from.\<close>

record access_parts =
  ap_lvl :: lvl_val
  ap_req :: "string list"
  ap_grp1 :: "string list"
  ap_grp2 :: "string list"

definition or_empty :: "string list \<Rightarrow> string list" where
  "or_empty xs = (if xs = [] then [''__EMPTY__''] else xs)"

definition get_access_control_parts :: "engine \<Rightarrow> string \<Rightarrow> bool \<Rightarrow> access_parts result" where
  "get_access_control_parts e c12n user_classification =
     bindR (if engine_off e then unrestricted_of e else Inr c12n) (\<lambda>c.
     case get_parts e c False True (\<not> user_classification) False of
       Inr (l, req, g1, g2) \<Rightarrow> Inr \<lparr>ap_lvl = l, ap_req = req, ap_grp1 = or_empty g1, ap_grp2 = or_empty g2\<rparr>
     | Inl ex \<Rightarrow>
         if exn_class ex = EInvalidClassification \<and> engine_off e
         then Inr \<lparr>ap_lvl = LvlNum NULL_LVL, ap_req = [], ap_grp1 = [''__EMPTY__''], ap_grp2 = [''__EMPTY__'']\<rparr>
         else Inl ex)"

definition get_access_control_req :: "engine \<Rightarrow> string list" where
  "get_access_control_req e = (if engine_off e then [] else dkeys (en_req_stl e))"

definition get_access_control_groups :: "engine \<Rightarrow> string list" where
  "get_access_control_groups e = (if engine_off e then [] else dkeys (en_grp_stl e))"

definition get_access_control_subgroups :: "engine \<Rightarrow> string list" where
  "get_access_control_subgroups e = (if engine_off e then [] else dkeys (en_sub_stl e))"

section \<open>Validity\<close>

definition known_level :: "engine \<Rightarrow> string \<Rightarrow> bool" where
  "known_level e s \<longleftrightarrow> dmem (en_levels_aliases e) s \<or> dmem (en_levels_lts e) s \<or> dmem (en_levels_stl e) s"

definition known_required :: "engine \<Rightarrow> string \<Rightarrow> bool" where
  "known_required e s \<longleftrightarrow> dmem (en_req_aliases e) s \<or> dmem (en_req_stl e) s \<or> dmem (en_req_lts e) s"

definition known_group :: "engine \<Rightarrow> string \<Rightarrow> bool" where
  "known_group e s \<longleftrightarrow> dmem (en_grp_aliases e) s \<or> dmem (en_grp_stl e) s \<or> dmem (en_grp_lts e) s \<or>
     dmem (en_sub_aliases e) s \<or> dmem (en_sub_stl e) s \<or> dmem (en_sub_lts e) s"

text \<open>The pieces of a part; those of its last piece with a comma go to the end.\<close>

definition part_items :: "string \<Rightarrow> string list" where
  "part_items part =
     (let items = split_char CHR ''/'' part in
      case find_first (\<lambda>i. CHR '','' \<in> set (items ! i)) (rev [0..<length items]) of
        None \<Rightarrow> items
      | Some i \<Rightarrow> take i items @ drop (Suc i) items @ map py_strip (split_char CHR '','' (items ! i)))"

text \<open>The loop over the pieces: whether it is among the groups, or None for a piece that is unknown there.\<close>

fun check_items :: "engine \<Rightarrow> bool \<Rightarrow> string list \<Rightarrow> bool option" where
  "check_items e groups [] = Some groups"
| "check_items e groups (i # is) =
     (let groups = (groups \<or> \<not> known_required e i) in
      if groups \<and> \<not> en_dynamic e \<and> \<not> known_group e i then None else check_items e groups is)"

fun check_parts :: "engine \<Rightarrow> bool \<Rightarrow> string list \<Rightarrow> bool" where
  "check_parts e groups [] = True"
| "check_parts e groups (p # ps) =
     (if groups then False
      else case check_items e groups (part_items p) of None \<Rightarrow> False | Some g \<Rightarrow> check_parts e g ps)"

definition valid_syntax :: "engine \<Rightarrow> string \<Rightarrow> bool" where
  "valid_syntax e c12n =
     (let parts = py_split ''//'' (py_replace ''REL '' [] (py_replace ''REL TO '' [] c12n)) in
      length parts \<le> 3 \<and> known_level e (hd parts) \<and> check_parts e False (tl parts))"

definition is_valid :: "engine \<Rightarrow> string \<Rightarrow> bool \<Rightarrow> (class_cache, bool) io" where
  "is_valid e c12n skip_auto =
     (if \<not> en_enforce e then returnM True
      else (\<lambda>c.
        case normalize_classification e c12n True skip_auto True False c of
          (Inl ex, c') \<Rightarrow> (if exn_class ex = EInvalidClassification then Inr False else Inl ex, c')
        | (Inr n, c') \<Rightarrow>
            (case bindR (get_parts e n True True False False) (\<lambda>np.
                  bindR (get_parts e c12n True True False False) (\<lambda>p. Inr (np, p))) of
               Inl ex \<Rightarrow> (if exn_class ex = EInvalidClassification then Inr False else Inl ex, c')
             | Inr ((nl, nreq, ng, ns), (l, req, g, s)) \<Rightarrow>
                 (Inr (l = nl \<and> sort req = sort nreq \<and> sort g = sort ng \<and> sort s = sort ns \<and> valid_syntax e c12n), c'))))"

section \<open>Merging\<close>

definition max_groups :: "engine \<Rightarrow> string list \<Rightarrow> string list \<Rightarrow> string list result" where
  "max_groups e g1 g2 =
     (let gs = (if g1 \<noteq> [] \<and> g2 \<noteq> [] then filter (\<lambda>g. g \<in> set g2) g1 else g1 @ g2) in
      if g1 \<noteq> [] \<and> g2 \<noteq> [] \<and> gs = []
      then Inl (invalid_class (''Could not find any intersection between the groups. '' @
             py_repr (PList (map PStr g1)) @ '' & '' @ py_repr (PList (map PStr g2))))
      else Inr (set_list e gs))"

definition min_groups :: "engine \<Rightarrow> string list \<Rightarrow> string list \<Rightarrow> string list" where
  "min_groups e g1 g2 = (if g1 \<noteq> [] \<and> g2 \<noteq> [] then set_list e (g1 @ g2) else [])"

definition common :: "engine \<Rightarrow> string list \<Rightarrow> string list \<Rightarrow> string list" where
  "common e xs ys = set_list e (filter (\<lambda>x. x \<in> set ys) xs)"

definition lvl_pick :: "bool \<Rightarrow> lvl_val \<Rightarrow> lvl_val \<Rightarrow> lvl_val result" where
  "lvl_pick up a b =
     (case (a, b) of
        (LvlNum i, LvlNum j) \<Rightarrow> Inr (LvlNum (if up then max i j else min i j))
      | (LvlText s, LvlText t) \<Rightarrow> Inr (LvlText (if up then max s t else min s t))
      | _ \<Rightarrow> Inl (Exn ETypeError ''not supported between instances of str and int''))"

text \<open>
  The parts of each merge. \<^verbatim>\<open>max_classification\<close> is what both demand together, \<^verbatim>\<open>min_classification\<close> what
  either demands; for users, \<^verbatim>\<open>build\<close> joins what two may see and \<^verbatim>\<open>intersect\<close> keeps what both may.
\<close>

definition max_parts :: "engine \<Rightarrow> class_parts \<Rightarrow> class_parts \<Rightarrow> class_parts result" where
  "max_parts e p q =
     (case p of (l1, r1, g1, s1) \<Rightarrow> case q of (l2, r2, g2, s2) \<Rightarrow>
        bindR (max_groups e g1 g2) (\<lambda>g. bindR (max_groups e s1 s2) (\<lambda>s.
        bindR (lvl_pick True l1 l2) (\<lambda>l. Inr (l, set_list e (r1 @ r2), g, s)))))"

definition min_parts :: "engine \<Rightarrow> class_parts \<Rightarrow> class_parts \<Rightarrow> class_parts result" where
  "min_parts e p q =
     (case p of (l1, r1, g1, s1) \<Rightarrow> case q of (l2, r2, g2, s2) \<Rightarrow>
        bindR (lvl_pick False l1 l2) (\<lambda>l. Inr (l, common e r1 r2, min_groups e g1 g2, min_groups e s1 s2)))"

definition intersect_parts :: "engine \<Rightarrow> class_parts \<Rightarrow> class_parts \<Rightarrow> class_parts result" where
  "intersect_parts e p q =
     (case p of (l1, r1, g1, s1) \<Rightarrow> case q of (l2, r2, g2, s2) \<Rightarrow>
        bindR (lvl_pick False l1 l2) (\<lambda>l. Inr (l, common e r1 r2, common e g1 g2, common e s1 s2)))"

definition build_parts :: "engine \<Rightarrow> class_parts \<Rightarrow> class_parts \<Rightarrow> class_parts result" where
  "build_parts e p q =
     (case p of (l1, r1, g1, s1) \<Rightarrow> case q of (l2, r2, g2, s2) \<Rightarrow>
        bindR (lvl_pick True l1 l2) (\<lambda>l. Inr (l, set_list e (r1 @ r2), set_list e (g1 @ g2), set_list e (s1 @ s2))))"

text \<open>What the four operations share: normalize what is given, answer the other when one is None, merge.\<close>

definition normalize_given :: "engine \<Rightarrow> bool \<Rightarrow> string option \<Rightarrow> (class_cache, string option) io" where
  "normalize_given e skip_auto c12n =
     (case c12n of
        None \<Rightarrow> returnM None
      | Some c \<Rightarrow> bindM (normalize_classification e c True skip_auto True False) (\<lambda>n. returnM (Some n)))"

definition merge_with ::
    "(engine \<Rightarrow> class_parts \<Rightarrow> class_parts \<Rightarrow> class_parts result) \<Rightarrow> bool \<Rightarrow> (string option \<Rightarrow> string option result) \<Rightarrow>
     engine \<Rightarrow> string option \<Rightarrow> string option \<Rightarrow> bool \<Rightarrow> (class_cache, string option) io" where
  "merge_with merge skip_auto alone e c1 c2 long =
     (if engine_off e then liftM (bindR (unrestricted_of e) (\<lambda>u. Inr (Some u)))
      else
        bindM (normalize_given e skip_auto c1) (\<lambda>n1.
        bindM (normalize_given e skip_auto c2) (\<lambda>n2.
        case (n1, n2) of
          (None, _) \<Rightarrow> liftM (alone n2)
        | (_, None) \<Rightarrow> liftM (alone n1)
        | (Some a, Some b) \<Rightarrow>
            liftM (bindR (get_parts e a long True False False) (\<lambda>p.
                   bindR (get_parts e b long True False False) (\<lambda>q.
                   bindR (merge e p q) (\<lambda>(l, r, g, s).
                   bindR (normalized_text e l r g s long skip_auto) (\<lambda>t. Inr (Some t)))))))))"

definition max_classification :: "engine \<Rightarrow> string option \<Rightarrow> string option \<Rightarrow> bool \<Rightarrow> (class_cache, string option) io" where
  "max_classification e =
     merge_with max_parts False
       (\<lambda>n. if n \<noteq> None \<and> n \<noteq> Some [] then Inr n else bindR (unrestricted_of e) (\<lambda>u. Inr (Some u))) e"

definition min_classification :: "engine \<Rightarrow> string option \<Rightarrow> string option \<Rightarrow> bool \<Rightarrow> (class_cache, string option) io" where
  "min_classification e = merge_with min_parts False Inr e"

definition intersect_user_classification ::
    "engine \<Rightarrow> string option \<Rightarrow> string option \<Rightarrow> bool \<Rightarrow> (class_cache, string option) io" where
  "intersect_user_classification e = merge_with intersect_parts True Inr e"

definition build_user_classification ::
    "engine \<Rightarrow> string option \<Rightarrow> string option \<Rightarrow> bool \<Rightarrow> (class_cache, string option) io" where
  "build_user_classification e = merge_with build_parts True Inr e"

section \<open>All classifications of a definition\<close>

definition build_combinations :: "string list \<Rightarrow> string \<Rightarrow> (string, string) dict \<Rightarrow> string list" where
  "build_combinations items sep solitary =
     remdups ([] # concat (map (\<lambda>i.
        map (\<lambda>c. name_of solitary (py_join sep (sort (i # c)))) (subseqs (filter (\<lambda>x. x \<noteq> i) items))) items))"

definition given_markings :: "string \<Rightarrow> marking list option \<Rightarrow> marking list result" where
  "given_markings k ms = (case ms of None \<Rightarrow> Inl (Exn EKeyError k) | Some xs \<Rightarrow> Inr xs)"

definition marking_text :: "bool \<Rightarrow> marking \<Rightarrow> string" where
  "marking_text long m = (if long then mk_name m else mk_short m)"

text \<open>\<^verbatim>\<open>cl[:-n] if cl.endswith(suffix) else cl\<close>\<close>

definition without_suffix :: "string \<Rightarrow> string \<Rightarrow> string" where
  "without_suffix suffix s = (if py_endswith s suffix then take (length s - length suffix) s else s)"

definition put_solitary :: "string list \<Rightarrow> string \<Rightarrow> string list" where
  "put_solitary combos sol =
     foldl (\<lambda>cs e. filter (\<lambda>c. c \<noteq> e) (cs @ [py_replace (''REL TO '' @ sol) sol e])) combos
       (filter (py_in (''REL TO '' @ sol)) combos)"

definition combinations_of :: "class_definition \<Rightarrow> bool \<Rightarrow> string list result" where
  "combinations_of cd long =
     bindR (given_markings ''levels'' (cd_levels cd)) (\<lambda>levels.
     bindR (given_markings ''required'' (cd_required cd)) (\<lambda>required.
     bindR (given_markings ''groups'' (cd_groups cd)) (\<lambda>groups.
     bindR (given_markings ''subgroups'' (cd_subgroups cd)) (\<lambda>subgroups.
     let texts = (\<lambda>ms. remdups (map (marking_text long) ms));
         solitary = concat (map (\<lambda>m. case pm_solitary (mk_params m) of None \<Rightarrow> [] | Some d \<Rightarrow> [(marking_text long m, d)]) groups);
         sols = map snd solitary;
         display = foldl (\<lambda>d (k, v). dset d k v) [] solitary;
         c1 = concat (map (\<lambda>l. map (\<lambda>r. without_suffix ''//'' (l @ ''//'' @ r))
                (build_combinations (texts required) ''/'' [])) (texts levels));
         c2 = c1 @ concat (map (\<lambda>c. map (\<lambda>g. without_suffix ''//REL TO '' (c @ ''//REL TO '' @ g))
                (build_combinations (texts groups) '', '' display)) c1);
         c3 = foldl put_solitary (remdups c2) sols;
         c4 = c3 @ concat (map (\<lambda>c. map (\<lambda>s.
                if py_in ''//REL TO '' c \<or> list_ex (\<lambda>d. py_endswith c (''//'' @ d)) sols
                then without_suffix ''/'' (c @ ''/'' @ s) else without_suffix ''//'' (c @ ''//'' @ s))
                (build_combinations (texts subgroups) ''/'' [])) c3)
     in Inr (remdups c4)))))"

fun normalize_all :: "engine \<Rightarrow> bool \<Rightarrow> string list \<Rightarrow> (class_cache, string list) io" where
  "normalize_all e long [] = returnM []"
| "normalize_all e long (c # cs) = (\<lambda>cache.
     case normalize_classification e c long False True False cache of
       (Inl ex, cache') \<Rightarrow>
         if exn_class ex = EInvalidClassification then normalize_all e long cs cache' else (Inl ex, cache')
     | (Inr n, cache') \<Rightarrow> bindM (normalize_all e long cs) (\<lambda>ns. returnM (n # ns)) cache')"

definition list_all_classification_combinations ::
    "class_definition \<Rightarrow> engine \<Rightarrow> bool \<Rightarrow> bool \<Rightarrow> (class_cache, string list) io" where
  "list_all_classification_combinations cd e long normalized =
     bindM (liftM (combinations_of cd long)) (\<lambda>cs.
     if normalized then bindM (normalize_all e long cs) (\<lambda>ns. returnM (remdups ns)) else returnM cs)"

section \<open>The constructor\<close>

text \<open>
  \<^verbatim>\<open>Classification.__init__\<close>: the tables are filled entry by entry; whatever raises leaves the engine in
  its invalid mode with the tables as they are. A definition that does not say whether to enforce leaves
  the attribute None, which counts as false.
\<close>

definition start_engine :: "(string list \<Rightarrow> string list) \<Rightarrow> engine" where
  "start_engine ord =
     \<lparr>en_order = ord, en_enforce = False, en_dynamic = False, en_invalid = False,
      en_levels_map = [(''INV'', LvlNum INVALID_LVL), (str_int INVALID_LVL, LvlText ''INV''),
        (NULL_CLASSIFICATION, LvlNum NULL_LVL), (str_int NULL_LVL, LvlText NULL_CLASSIFICATION)],
      en_levels_stl = [(''INV'', INVALID_CLASSIFICATION), (NULL_CLASSIFICATION, NULL_CLASSIFICATION)],
      en_levels_lts = [(INVALID_CLASSIFICATION, ''INV''), (NULL_CLASSIFICATION, NULL_CLASSIFICATION)],
      en_levels_aliases = [], en_req_lts = [], en_req_stl = [], en_req_aliases = [], en_grp_lts = [],
      en_grp_stl = [], en_grp_aliases = [], en_grp_auto = [], en_grp_auto_short = [], en_sub_lts = [],
      en_sub_stl = [], en_sub_aliases = [], en_sub_auto = [], en_sub_auto_short = [], en_params = [],
      en_unrestricted = None, en_restricted = None\<rparr>"

definition record_params :: "marking \<Rightarrow> engine \<Rightarrow> engine" where
  "record_params x e =
     e\<lparr>en_params := dset (dset (en_params e) (mk_short x) (mk_params x)) (mk_name x) (mk_params x)\<rparr>"

definition add_level :: "marking \<Rightarrow> engine \<Rightarrow> engine result" where
  "add_level x e =
     (if mk_short x \<in> {''INV'', ''NULL''} \<or> mk_name x \<in> {INVALID_CLASSIFICATION, NULL_CLASSIFICATION}
      then Inl (Exn EInvalidDefinition ''You cannot use reserved words NULL, INVALID or INV in your classification definition.'')
      else if MAX_LVL < mk_lvl x then Inl (Exn EInvalidDefinition (''Level over maximum classification level of '' @ str_int MAX_LVL @ ''.''))
      else if mk_lvl x < MIN_LVL then Inl (Exn EInvalidDefinition (''Level under minimum classification level of '' @ str_int MIN_LVL @ ''.''))
      else Inr (record_params x (e\<lparr>
             en_levels_map := dset (dset (en_levels_map e) (mk_short x) (LvlNum (mk_lvl x))) (str_int (mk_lvl x)) (LvlText (mk_short x)),
             en_levels_stl := dset (en_levels_stl e) (mk_short x) (mk_name x),
             en_levels_lts := dset (en_levels_lts e) (mk_name x) (mk_short x),
             en_levels_aliases := foldl (\<lambda>d a. dset d a (mk_short x)) (en_levels_aliases e) (mk_aliases x)\<rparr>)))"

definition aliases_at :: "(string, string list) dict \<Rightarrow> string \<Rightarrow> string list" where
  "aliases_at d a = (case dget d a of None \<Rightarrow> [] | Some ss \<Rightarrow> ss)"

definition add_required :: "marking \<Rightarrow> engine \<Rightarrow> engine" where
  "add_required x e =
     record_params x (e\<lparr>
       en_req_lts := dset (en_req_lts e) (mk_name x) (mk_short x),
       en_req_stl := dset (en_req_stl e) (mk_short x) (mk_name x),
       en_req_aliases := foldl (\<lambda>d a. dset d a (aliases_at d a @ [mk_short x])) (en_req_aliases e) (mk_aliases x)\<rparr>)"

definition solitary_alias :: "marking \<Rightarrow> string list" where
  "solitary_alias x = (case pm_solitary (mk_params x) of None \<Rightarrow> [] | Some d \<Rightarrow> if d = [] then [] else [d])"

definition alias_sets :: "engine \<Rightarrow> marking \<Rightarrow> (string, string list) dict \<Rightarrow> (string, string list) dict" where
  "alias_sets e x d0 = foldl (\<lambda>d a. dset d a (set_list e (aliases_at d a @ [mk_short x]))) d0 (mk_aliases x @ solitary_alias x)"

definition add_group :: "marking \<Rightarrow> engine \<Rightarrow> engine" where
  "add_group x e =
     record_params x (e\<lparr>
       en_grp_lts := dset (en_grp_lts e) (mk_name x) (mk_short x),
       en_grp_stl := dset (en_grp_stl e) (mk_short x) (mk_name x),
       en_grp_aliases := alias_sets e x (en_grp_aliases e),
       en_grp_auto := (if mk_auto x then en_grp_auto e @ [mk_name x] else en_grp_auto e),
       en_grp_auto_short := (if mk_auto x then en_grp_auto_short e @ [mk_short x] else en_grp_auto_short e)\<rparr>)"

definition add_subgroup :: "marking \<Rightarrow> engine \<Rightarrow> engine" where
  "add_subgroup x e =
     record_params x (e\<lparr>
       en_sub_lts := dset (en_sub_lts e) (mk_name x) (mk_short x),
       en_sub_stl := dset (en_sub_stl e) (mk_short x) (mk_name x),
       en_sub_aliases := alias_sets e x (en_sub_aliases e),
       en_sub_auto := (if mk_auto x then en_sub_auto e @ [mk_name x] else en_sub_auto e),
       en_sub_auto_short := (if mk_auto x then en_sub_auto_short e @ [mk_short x] else en_sub_auto_short e)\<rparr>)"

type_synonym 'a building = "(engine \<times> class_cache, 'a) io"

fun add_levels :: "marking list \<Rightarrow> unit building" where
  "add_levels [] = returnM ()"
| "add_levels (x # xs) = (\<lambda>(e, c). case add_level x e of Inl ex \<Rightarrow> (Inl ex, e, c) | Inr e' \<Rightarrow> add_levels xs (e', c))"

definition with_engine :: "(engine \<Rightarrow> (class_cache, 'a) io) \<Rightarrow> 'a building" where
  "with_engine m = (\<lambda>(e, c). case m e c of (r, c') \<Rightarrow> (r, e, c'))"

definition or_no_markings :: "marking list option \<Rightarrow> marking list" where
  "or_no_markings ms = (case ms of None \<Rightarrow> [] | Some xs \<Rightarrow> xs)"

definition fill_caches :: "class_definition \<Rightarrow> unit building" where
  "fill_caches cd = (\<lambda>(e, c).
     if \<not> en_enforce e then (Inr (), e, c)
     else bindM (with_engine (\<lambda>e. list_all_classification_combinations cd e True True)) (\<lambda>ls.
          bindM (modifyM (\<lambda>(e, c). (e, c\<lparr>cc_long := ls\<rparr>))) (\<lambda>_.
          bindM (with_engine (\<lambda>e. list_all_classification_combinations cd e False True)) (\<lambda>ss.
          modifyM (\<lambda>(e, c). (e, c\<lparr>cc_short := ss\<rparr>))))) (e, c))"

text \<open>The test of one of the two named classifications, and its normal form.\<close>

definition named_class :: "string \<Rightarrow> string option \<Rightarrow> string result" where
  "named_class k c = (case c of None \<Rightarrow> Inl (Exn EKeyError k) | Some s \<Rightarrow> Inr s)"

definition check_named :: "string \<Rightarrow> string option \<Rightarrow> unit building" where
  "check_named k c =
     bindM (liftM (named_class k c)) (\<lambda>s.
     bindM (with_engine (\<lambda>e. is_valid e s False)) (\<lambda>ok.
     if ok then returnM ()
     else raiseM (Exn EInvalidDefinition (''Classification definition'' @ [CHR 0x27] @ ''s '' @ k @ '' classification is invalid.''))))"

definition normal_named :: "string \<Rightarrow> string option \<Rightarrow> string building" where
  "normal_named k c =
     bindM (liftM (named_class k c)) (\<lambda>s. with_engine (\<lambda>e. normalize_classification e s True False True False))"

definition build_engine :: "class_definition \<Rightarrow> unit building" where
  "build_engine cd =
     (case cd_enforce cd of
        None \<Rightarrow> raiseM (Exn EHowlerKey ''Enforce not set!'')
      | Some enf \<Rightarrow>
          bindM (modifyM (\<lambda>(e, c). (e\<lparr>en_enforce := enf\<rparr>, c))) (\<lambda>_.
          case cd_dynamic cd of
            None \<Rightarrow> raiseM (Exn EHowlerKey ''Dynamic groups not set!'')
          | Some dyn \<Rightarrow>
              bindM (modifyM (\<lambda>(e, c). (e\<lparr>en_dynamic := dyn\<rparr>, c))) (\<lambda>_.
              case cd_levels cd of
                None \<Rightarrow> raiseM (Exn EHowlerKey ''No classification levels provided!'')
              | Some levels \<Rightarrow>
                  bindM (add_levels levels) (\<lambda>_.
                  bindM (modifyM (\<lambda>(e, c). (fold add_required (or_no_markings (cd_required cd)) e, c))) (\<lambda>_.
                  bindM (modifyM (\<lambda>(e, c). (fold add_group (or_no_markings (cd_groups cd)) e, c))) (\<lambda>_.
                  bindM (modifyM (\<lambda>(e, c). (fold add_subgroup (or_no_markings (cd_subgroups cd)) e, c))) (\<lambda>_.
                  bindM (fill_caches cd) (\<lambda>_.
                  bindM (check_named ''unrestricted'' (cd_unrestricted cd)) (\<lambda>_.
                  bindM (check_named ''restricted'' (cd_restricted cd)) (\<lambda>_.
                  bindM (normal_named ''unrestricted'' (cd_unrestricted cd)) (\<lambda>u.
                  bindM (modifyM (\<lambda>(e, c). (e\<lparr>en_unrestricted := Some u\<rparr>, c))) (\<lambda>_.
                  bindM (normal_named ''restricted'' (cd_restricted cd)) (\<lambda>r.
                  modifyM (\<lambda>(e, c). (e\<lparr>en_restricted := Some r\<rparr>, c)))))))))))))))"

definition Classification_init :: "(string list \<Rightarrow> string list) \<Rightarrow> class_definition \<Rightarrow> engine \<times> class_cache" where
  "Classification_init ord cd =
     (case build_engine cd (start_engine ord, \<lparr>cc_long = [], cc_short = []\<rparr>) of
        (Inr _, e, c) \<Rightarrow> (e, c)
      | (Inl _, e, c) \<Rightarrow>
          (e\<lparr>en_unrestricted := Some NULL_CLASSIFICATION, en_restricted := Some INVALID_CLASSIFICATION, en_invalid := True\<rparr>, c))"

end
