(* ===== verification/ClassAccess.thy ===== *)
theory ClassAccess
  imports Classification
begin

text \<open>
  What the classification engine guarantees: its merges bound what they merge, a normal form is read back
  as the parts it was written from, and so the most restrictive classification of two protects both. An
  engine that is told not to enforce refuses every access instead of allowing it.
\<close>

section \<open>Merges and access\<close>

definition order_ok :: "engine \<Rightarrow> bool" where
  "order_ok e \<longleftrightarrow> (\<forall>xs. set (en_order e xs) = set xs \<and> (distinct xs \<longrightarrow> distinct (en_order e xs)))"

lemma set_set_list [simp]: "order_ok e \<Longrightarrow> set (set_list e xs) = set xs"
  by (simp add: order_ok_def set_list_def)

lemma distinct_set_list [simp]: "order_ok e \<Longrightarrow> distinct (set_list e xs)"
  by (simp add: order_ok_def set_list_def)

lemma set_list_Nil_iff [simp]: "order_ok e \<Longrightarrow> set_list e xs = [] \<longleftrightarrow> xs = []"
  using set_set_list [of e xs] by (metis set_empty)

text \<open>May see: the answer is yes.\<close>

definition sees :: "class_parts \<Rightarrow> class_parts \<Rightarrow> bool" where
  "sees u d \<longleftrightarrow> accessible_parts u d = Inr True"

lemma can_see_groups_set: "can_see_groups us gs \<longleftrightarrow> gs = [] \<or> set us \<inter> set gs \<noteq> {}"
  by (auto simp: can_see_groups_def list_ex_iff)

lemma sees_iff:
  "sees (ul, ur, ug, us) (l, r, g, s) \<longleftrightarrow>
     (\<exists>i j. ul = LvlNum i \<and> l = LvlNum j \<and> j \<le> i) \<and> set r \<subseteq> set ur \<and>
     (g = [] \<or> set ug \<inter> set g \<noteq> {}) \<and> (s = [] \<or> set us \<inter> set s \<noteq> {})"
  by (cases ul; cases l)
     (auto simp: sees_def accessible_parts_def lvl_int_def can_see_required_def can_see_groups_set)

lemma lvl_pick_num: "lvl_pick up a b = Inr (LvlNum k) \<longleftrightarrow>
    (\<exists>i j. a = LvlNum i \<and> b = LvlNum j \<and> k = (if up then max i j else min i j))"
  by (cases a; cases b) (auto simp: lvl_pick_def)

lemma max_groups_Inr:
  assumes "order_ok e" and "max_groups e g1 g2 = Inr g"
  shows "set g = (if g1 \<noteq> [] \<and> g2 \<noteq> [] then set g1 \<inter> set g2 else set g1 \<union> set g2)"
    and "g = [] \<longleftrightarrow> g1 = [] \<and> g2 = []"
  using assms by (auto simp: max_groups_def Let_def split: if_splits)

lemma min_groups_set:
  assumes "order_ok e"
  shows "set (min_groups e g1 g2) = (if g1 \<noteq> [] \<and> g2 \<noteq> [] then set g1 \<union> set g2 else {})"
    and "min_groups e g1 g2 = [] \<longleftrightarrow> g1 = [] \<or> g2 = []"
  using assms by (auto simp: min_groups_def)

lemma common_set: "order_ok e \<Longrightarrow> set (common e xs ys) = set xs \<inter> set ys"
  by (auto simp: common_def)

text \<open>
  The merges as bounds. Whoever sees the maximum sees both; whoever sees either sees the minimum; what the
  intersection of two users sees both see; and the user built from two sees what either sees.
\<close>

lemma sees_max:
  assumes ok: "order_ok e" and m: "max_parts e p q = Inr m" and s: "sees u m"
  shows "sees u p" and "sees u q"
proof -
  obtain l1 r1 g1 s1 where p: "p = (l1, r1, g1, s1)" by (cases p)
  obtain l2 r2 g2 s2 where q: "q = (l2, r2, g2, s2)" by (cases q)
  obtain ul ur ug us where u: "u = (ul, ur, ug, us)" by (cases u)
  from m obtain g t l where gtl: "max_groups e g1 g2 = Inr g" "max_groups e s1 s2 = Inr t" "lvl_pick True l1 l2 = Inr l"
    "m = (l, set_list e (r1 @ r2), g, t)"
    by (auto simp: p q max_parts_def bindR_eq_Inr)
  note G = max_groups_Inr [OF ok gtl(1)] max_groups_Inr [OF ok gtl(2)]
  from s obtain i k where lvls: "ul = LvlNum i" "l = LvlNum k" "k \<le> i" and req: "set r1 \<subseteq> set ur" "set r2 \<subseteq> set ur"
    and grp: "g = [] \<or> set ug \<inter> set g \<noteq> {}" "t = [] \<or> set us \<inter> set t \<noteq> {}"
    by (auto simp: u gtl(4) sees_iff ok)
  from gtl(3) lvls obtain i1 i2 where l12: "l1 = LvlNum i1" "l2 = LvlNum i2" "k = max i1 i2"
    by (auto simp: lvl_pick_num)
  have "g1 = [] \<or> set ug \<inter> set g1 \<noteq> {}" "g2 = [] \<or> set ug \<inter> set g2 \<noteq> {}"
    using grp(1) G(1,2) by (auto split: if_splits)
  moreover have "s1 = [] \<or> set us \<inter> set s1 \<noteq> {}" "s2 = [] \<or> set us \<inter> set s2 \<noteq> {}"
    using grp(2) G(3,4) by (auto split: if_splits)
  ultimately show "sees u p" "sees u q" using lvls req l12 by (auto simp: p q u sees_iff)
qed

lemma sees_min:
  assumes ok: "order_ok e" and m: "min_parts e p q = Inr m" and nums: "\<exists>i j. fst p = LvlNum i \<and> fst q = LvlNum j"
    and s: "sees u p \<or> sees u q"
  shows "sees u m"
proof -
  obtain l1 r1 g1 s1 where p: "p = (l1, r1, g1, s1)" by (cases p)
  obtain l2 r2 g2 s2 where q: "q = (l2, r2, g2, s2)" by (cases q)
  obtain ul ur ug us where u: "u = (ul, ur, ug, us)" by (cases u)
  from nums p q obtain i j where ij: "l1 = LvlNum i" "l2 = LvlNum j" by auto
  from m have m': "m = (LvlNum (min i j), common e r1 r2, min_groups e g1 g2, min_groups e s1 s2)"
    by (simp add: p q ij min_parts_def lvl_pick_def)
  show ?thesis
    using s by (auto simp: p q u ij m' sees_iff common_set [OF ok] min_groups_set [OF ok] split: if_splits)
qed

lemma intersect_sees:
  assumes ok: "order_ok e" and m: "intersect_parts e p q = Inr m" and s: "sees m d"
  shows "sees p d" and "sees q d"
proof -
  obtain l1 r1 g1 s1 where p: "p = (l1, r1, g1, s1)" by (cases p)
  obtain l2 r2 g2 s2 where q: "q = (l2, r2, g2, s2)" by (cases q)
  obtain l r g t where d: "d = (l, r, g, t)" by (cases d)
  from m obtain k where k: "lvl_pick False l1 l2 = Inr k" "m = (k, common e r1 r2, common e g1 g2, common e s1 s2)"
    by (auto simp: p q intersect_parts_def bindR_eq_Inr)
  from s obtain i j where ij: "k = LvlNum i" "l = LvlNum j" "j \<le> i" by (auto simp: k d sees_iff)
  from k(1) ij obtain i1 i2 where "l1 = LvlNum i1" "l2 = LvlNum i2" "i = min i1 i2" by (auto simp: lvl_pick_num)
  with s ij show "sees p d" "sees q d" by (auto simp: p q d k(2) sees_iff common_set [OF ok])
qed

lemma build_sees:
  assumes ok: "order_ok e" and m: "build_parts e p q = Inr m" and nums: "\<exists>i j. fst p = LvlNum i \<and> fst q = LvlNum j"
    and s: "sees p d \<or> sees q d"
  shows "sees m d"
proof -
  obtain l1 r1 g1 s1 where p: "p = (l1, r1, g1, s1)" by (cases p)
  obtain l2 r2 g2 s2 where q: "q = (l2, r2, g2, s2)" by (cases q)
  obtain l r g t where d: "d = (l, r, g, t)" by (cases d)
  from nums p q obtain i j where ij: "l1 = LvlNum i" "l2 = LvlNum j" by auto
  from m have m': "m = (LvlNum (max i j), set_list e (r1 @ r2), set_list e (g1 @ g2), set_list e (s1 @ s2))"
    by (simp add: p q ij build_parts_def lvl_pick_def)
  show ?thesis
    using s by (auto simp: p q d ij m' sees_iff ok)
qed

section \<open>An engine that does not enforce\<close>

lemma add_level_keeps:
  "add_level x e = Inr e' \<Longrightarrow> en_enforce e' = en_enforce e \<and> en_unrestricted e' = en_unrestricted e"
  by (auto simp: add_level_def record_params_def split: if_splits)

lemma add_levels_keeps:
  "add_levels xs (e, c) = (r, e', c') \<Longrightarrow> en_enforce e' = en_enforce e \<and> en_unrestricted e' = en_unrestricted e"
  by (induction xs arbitrary: e) (auto split: sum.splits dest: add_level_keeps)

lemma fold_keeps:
  assumes "\<And>x e. en_enforce (f x e) = en_enforce e \<and> en_unrestricted (f x e) = en_unrestricted e"
  shows "en_enforce (fold f xs e) = en_enforce e \<and> en_unrestricted (fold f xs e) = en_unrestricted e"
  using assms by (induction xs arbitrary: e) simp_all

lemma add_entries_keep:
  "en_enforce (fold add_required xs e) = en_enforce e \<and> en_unrestricted (fold add_required xs e) = en_unrestricted e"
  "en_enforce (fold add_group xs e) = en_enforce e \<and> en_unrestricted (fold add_group xs e) = en_unrestricted e"
  "en_enforce (fold add_subgroup xs e) = en_enforce e \<and> en_unrestricted (fold add_subgroup xs e) = en_unrestricted e"
  by (rule fold_keeps, simp add: add_required_def add_group_def add_subgroup_def record_params_def)+

lemma build_without_enforcing:
  assumes "cd_enforce cd = Some False"
  shows "\<exists>ex e' c'. build_engine cd (start_engine ord, c) = (Inl ex, e', c')"
proof (cases "cd_dynamic cd")
  case None
  with assms show ?thesis by (simp add: build_engine_def)
next
  case (Some dyn)
  let ?e0 = "(start_engine ord)\<lparr>en_enforce := False, en_dynamic := dyn\<rparr>"
  show ?thesis
  proof (cases "cd_levels cd")
    case None
    with assms Some show ?thesis by (simp add: build_engine_def)
  next
    case levels: (Some levels)
    obtain r e1 c1 where l: "add_levels levels (?e0, c) = (r, e1, c1)" by (cases "add_levels levels (?e0, c)")
    show ?thesis
    proof (cases r)
      case (Inl ex)
      with assms Some levels l show ?thesis by (simp add: build_engine_def)
    next
      case (Inr u)
      let ?e2 = "fold add_subgroup (or_no_markings (cd_subgroups cd))
          (fold add_group (or_no_markings (cd_groups cd)) (fold add_required (or_no_markings (cd_required cd)) e1))"
      from add_levels_keeps [OF l] have e2: "\<not> en_enforce ?e2" "en_unrestricted ?e2 = None"
        by (simp_all add: add_entries_keep start_engine_def)
      have checked: "check_named k (Some s) (?e2, c1) = (Inr (), ?e2, c1)" for k s
        using e2 by (simp add: check_named_def named_class_def with_engine_def is_valid_def)
      have stuck: "\<exists>ex. normal_named k (Some s) (?e2, c1) = (Inl ex, ?e2, c1)" for k s
        using e2 by (simp add: normal_named_def named_class_def with_engine_def normalize_classification_def engine_off_def
            unrestricted_of_def)
      have filled: "fill_caches cd (?e2, c1) = (Inr (), ?e2, c1)" using e2 by (simp add: fill_caches_def)
      show ?thesis
      proof (cases "cd_unrestricted cd")
        case None
        with assms Some levels l Inr filled show ?thesis
          by (simp add: build_engine_def check_named_def named_class_def)
      next
        case unr: (Some s)
        show ?thesis
        proof (cases "cd_restricted cd")
          case None
          with assms Some levels l Inr filled checked unr show ?thesis
            by (simp add: build_engine_def) (simp add: check_named_def named_class_def)
        next
          case (Some t)
          from stuck [of "''unrestricted''" s] obtain ex where
            "normal_named ''unrestricted'' (Some s) (?e2, c1) = (Inl ex, ?e2, c1)" by blast
          with assms \<open>cd_dynamic cd = Some dyn\<close> levels l Inr filled checked unr Some show ?thesis
            by (simp add: build_engine_def)
        qed
      qed
    qed
  qed
qed

text \<open>
  C24: Turning enforcement off locks everybody out. The constructor tests the two named classifications
  and then normalizes them, which on an engine that does not enforce reads the very attribute being set;
  the exception puts the engine in its invalid mode. So whatever the rest of the definition says, an engine
  that should not enforce has NULL as its unrestricted classification and refuses every user every
  classification, where the definition file promises to disable the engine.
\<close>

theorem unenforced_refuses_all:
  "en_unrestricted (fst (Classification_init ord (cd\<lparr>cd_enforce := Some False\<rparr>))) = Some NULL_CLASSIFICATION \<and>
   is_accessible (fst (Classification_init ord (cd\<lparr>cd_enforce := Some False\<rparr>))) usr c12n ign = Inr False"
proof -
  obtain ex e' c' where "build_engine (cd\<lparr>cd_enforce := Some False\<rparr>) (start_engine ord, \<lparr>cc_long = [], cc_short = []\<rparr>) = (Inl ex, e', c')"
    using build_without_enforcing [of "cd\<lparr>cd_enforce := Some False\<rparr>" ord "\<lparr>cc_long = [], cc_short = []\<rparr>"] by auto
  then show ?thesis by (simp add: Classification_init_def is_accessible_def)
qed

end
