(* ===== verification/ClassText.thy ===== *)
theory ClassText
  imports ClassAccess
begin

text \<open>
  Writing a classification and reading it back. A normal form consists of tokens between slashes: the
  level, the required markings, one token for the groups and the subgroups. For an engine whose tables are
  in order, reading the text gives the parts it was written from; with the bounds of the merges it follows
  that the text of the most restrictive classification of two protects both.
\<close>

section \<open>Strings\<close>

lemma py_in_prefix: "py_in (p @ q) s \<Longrightarrow> py_in p s"
  by (induction s) (auto simp: startswith_iff)

lemma replace_not_in: "p \<noteq> [] \<Longrightarrow> \<not> py_in p s \<Longrightarrow> py_replace p new s = s"
  by (induction p new s rule: py_replace.induct) auto

lemma replace_first: "p \<noteq> [] \<Longrightarrow> py_replace p new (p @ s) = new @ py_replace p new s"
  by (cases p) (auto simp: py_startswith_def)

lemma not_in_cons: "\<not> py_in p s \<Longrightarrow> p = a # q \<Longrightarrow> a \<noteq> c \<Longrightarrow> \<not> py_in p (c # s)"
  by (auto simp: py_startswith_def)

lemma py_in_separated:
  assumes "c \<notin> set p" and "py_in p (s @ c # t)"
  shows "py_in p s \<or> py_in p (c # t)"
  using assms(2)
proof (induction s)
  case (Cons x s)
  show ?case
  proof (cases "py_startswith (x # s @ c # t) p")
    case True
    then obtain u where u: "x # s @ c # t = p @ u" by (auto simp: startswith_iff)
    have "length p \<le> length (x # s)"
    proof (rule ccontr)
      assume "\<not> length p \<le> length (x # s)"
      then have "(x # s @ c # t) ! length (x # s) = p ! length (x # s)" "length (x # s) < length p"
        by (simp_all add: u nth_append)
      with assms(1) show False by (metis append_Cons nth_append_length nth_mem)
    qed
    with u have "p = take (length p) (x # s)" by (metis append_Cons append_eq_append_conv_if append_take_drop_id)
    then have "py_startswith (x # s) p" by (simp add: py_startswith_def)
    then show ?thesis by simp
  next
    case False
    with Cons show ?thesis by auto
  qed
qed simp

text \<open>The tokens between slashes.\<close>

definition tokens :: "string \<Rightarrow> string list" where
  "tokens s = filter (\<lambda>p. p \<noteq> []) (split_char CHR ''/'' s)"

definition separated :: "string \<Rightarrow> bool" where
  "separated s \<longleftrightarrow> s = [] \<or> hd s = CHR ''/''"

lemma tokens_Nil [simp]: "tokens [] = []"
  by (simp add: tokens_def)

lemma tokens_slash [simp]: "tokens (CHR ''/'' # s) = tokens s"
  by (simp add: tokens_def)

lemma tokens_word:
  assumes "CHR ''/'' \<notin> set w" and "w \<noteq> []" and "separated s"
  shows "tokens (w @ s) = w # tokens s"
proof (cases s)
  case Nil
  with assms show ?thesis by (simp add: tokens_def split_char_no_sep)
next
  case (Cons c t)
  with assms show ?thesis by (simp add: tokens_def separated_def split_char_append_sep)
qed

lemma tokens_join:
  assumes "\<forall>w\<in>set ws. CHR ''/'' \<notin> set w \<and> w \<noteq> []" and "separated s" and "ws \<noteq> []"
  shows "tokens (py_join ''/'' ws @ s) = ws @ tokens s"
  using assms
proof (induction ws rule: induct_list012)
  case (3 x y zs)
  have "tokens (x @ (CHR ''/'' # py_join ''/'' (y # zs) @ s)) = x # tokens (CHR ''/'' # py_join ''/'' (y # zs) @ s)"
    by (rule tokens_word) (use 3 in \<open>auto simp: separated_def\<close>)
  with 3 show ?case by simp
qed (simp_all add: tokens_word)

text \<open>A name that survives parsing: upper case, stripped, without slashes, commas or the word REL.\<close>

definition plain_name :: "string \<Rightarrow> bool" where
  "plain_name s \<longleftrightarrow>
     s \<noteq> [] \<and> py_upper s = s \<and> CHR ''/'' \<notin> set s \<and> CHR '','' \<notin> set s \<and> py_strip s = s \<and> \<not> py_in ''REL '' s"

lemma strip_space: "py_strip (CHR '' '' # s) = py_strip s"
  by (simp add: py_strip_def strip_by_def is_ws_def)

lemma plain_not_rel: "plain_name s \<Longrightarrow> \<not> is_rel s"
  unfolding plain_name_def is_rel_def by (cases s) auto

lemma split_names:
  assumes "\<forall>n\<in>set ns. plain_name n" and "ns \<noteq> []"
  shows "map py_strip (split_char CHR '','' (py_join '', '' ns)) = ns"
  using assms
proof (induction ns rule: induct_list012)
  case (2 n)
  then show ?case by (simp add: plain_name_def split_char_no_sep)
next
  case (3 x y zs)
  have x: "CHR '','' \<notin> set x" "py_strip x = x" using 3 by (auto simp: plain_name_def)
  have "split_char CHR '','' (py_join '', '' (x # y # zs)) = x # split_char CHR '','' (CHR '' '' # py_join '', '' (y # zs))"
    using split_char_append_sep [OF x(1)] by simp
  moreover obtain a as where a: "split_char CHR '','' (py_join '', '' (y # zs)) = a # as"
    by (cases "split_char CHR '','' (py_join '', '' (y # zs))") simp_all
  then have "split_char CHR '','' (CHR '' '' # py_join '', '' (y # zs)) = (CHR '' '' # a) # as" by simp
  ultimately show ?case using 3 x a by (simp add: strip_space)
qed simp

lemma names_without_rel:
  assumes "\<forall>n\<in>set ns. plain_name n"
  shows "\<not> py_in ''REL '' (py_join '', '' ns)"
  using assms
proof (induction ns rule: induct_list012)
  case (3 x y zs)
  have "\<not> py_in ''REL '' x" "\<not> py_in ''REL '' (py_join '', '' (y # zs))" using 3 by (auto simp: plain_name_def)
  then have "\<not> py_in ''REL '' (CHR '','' # CHR '' '' # py_join '', '' (y # zs))"
    by (simp add: py_startswith_def)
  with py_in_separated [of "CHR '',''" "''REL ''" x "CHR '' '' # py_join '', '' (y # zs)"] \<open>\<not> py_in ''REL '' x\<close>
  show ?case by auto
qed (auto simp: plain_name_def)

lemma join_upper: "\<forall>n\<in>set ns. py_upper n = n \<Longrightarrow> py_upper sep = sep \<Longrightarrow> py_upper (py_join sep ns) = py_join sep ns"
  by (induction sep ns rule: py_join.induct) auto

lemma join_no_slash: "\<forall>n\<in>set ns. CHR ''/'' \<notin> set n \<Longrightarrow> CHR ''/'' \<notin> set sep \<Longrightarrow> CHR ''/'' \<notin> set (py_join sep ns)"
  using set_py_join [of sep ns] by auto

section \<open>Tables in order\<close>

definition table_ok :: "(string, string) dict \<Rightarrow> (string, string) dict \<Rightarrow> bool" where
  "table_ok lts stl \<longleftrightarrow> list_all (\<lambda>(n, s). plain_name n \<and> dget lts n = Some s \<and> dget stl s = Some n) lts"

text \<open>
  An engine whose tables are in order: names and short names are inverse to each other, no marking is known
  in two roles, and the display name of a lone group is an alias of that group alone.
\<close>

definition display_ok :: "engine \<Rightarrow> string \<Rightarrow> string \<Rightarrow> bool" where
  "display_ok e n s \<longleftrightarrow>
     (case pm_solitary (params_of e n) of
        None \<Rightarrow> True
      | Some d \<Rightarrow> d = n \<or> plain_name d \<and> required_shorts e d = None \<and> subgroup_shorts e d = None \<and>
                  dget (en_grp_aliases e) d = Some [s])"

definition engine_ok :: "engine \<Rightarrow> bool" where
  "engine_ok e \<longleftrightarrow>
     order_ok e \<and>
     table_ok (en_req_lts e) (en_req_stl e) \<and> table_ok (en_grp_lts e) (en_grp_stl e) \<and> table_ok (en_sub_lts e) (en_sub_stl e) \<and>
     list_all (\<lambda>n. required_shorts e n = None) (dkeys (en_grp_lts e) @ dkeys (en_sub_lts e)) \<and>
     list_all (\<lambda>k. \<not> is_rel k) (dkeys (en_req_lts e) @ dkeys (en_req_stl e) @ dkeys (en_req_aliases e)) \<and>
     list_all (\<lambda>(n, s). display_ok e n s) (en_grp_lts e)"

lemma table_lookup:
  assumes "table_ok lts stl" and "dget lts n = Some s"
  shows "plain_name n" and "dget stl s = Some n"
  using assms by (auto simp: table_ok_def list_all_iff dest: dget_Some_in)

lemma engine_okD:
  assumes "engine_ok e"
  shows "order_ok e" and "table_ok (en_req_lts e) (en_req_stl e)" and "table_ok (en_grp_lts e) (en_grp_stl e)"
    and "table_ok (en_sub_lts e) (en_sub_stl e)"
  using assms by (simp_all add: engine_ok_def)

lemma engine_ok_required:
  assumes "engine_ok e"
  shows "dget (en_grp_lts e) n = Some s \<Longrightarrow> required_shorts e n = None"
    and "dget (en_sub_lts e) n = Some s \<Longrightarrow> required_shorts e n = None"
  using assms dget_Some_key [of _ n s] by (auto simp: engine_ok_def list_all_iff)

lemma engine_ok_display:
  assumes "engine_ok e" and "dget (en_grp_lts e) n = Some s"
  shows "display_ok e n s"
  using assms(1) dget_Some_in [OF assms(2)] by (auto simp: engine_ok_def list_all_iff)

lemma engine_ok_rel:
  assumes "engine_ok e" and "is_rel t"
  shows "required_shorts e t = None"
proof -
  from assms(1) have "list_all (\<lambda>k. \<not> is_rel k) (dkeys (en_req_lts e) @ dkeys (en_req_stl e) @ dkeys (en_req_aliases e))"
    by (simp add: engine_ok_def)
  with assms(2) have "t \<notin> set (dkeys (en_req_lts e))" "t \<notin> set (dkeys (en_req_stl e))" "t \<notin> set (dkeys (en_req_aliases e))"
    by (auto simp: list_all_iff)
  then show ?thesis by (simp add: required_shorts_def dmem_dget flip: dget_None_iff)
qed

text \<open>The level a number stands for, by a name that is read back.\<close>

definition level_ok :: "engine \<Rightarrow> int \<Rightarrow> bool" where
  "level_ok e i \<longleftrightarrow>
     (case get_level_text e (LvlNum i) True of
        Inl _ \<Rightarrow> False
      | Inr n \<Rightarrow> CHR ''/'' \<notin> set n \<and> py_upper n = n \<and> get_level_index e n = Inr (LvlNum i, []))"

text \<open>
  The groups: declared ones, or under dynamic groups any plain name the tables do not know.
\<close>

definition group_ok :: "engine \<Rightarrow> string \<Rightarrow> bool" where
  "group_ok e g \<longleftrightarrow>
     dget (en_grp_lts e) g \<noteq> None \<or>
     en_dynamic e \<and> plain_name g \<and> group_shorts e g = None \<and> pm_solitary (params_of e g) = None"

definition group_short :: "engine \<Rightarrow> string \<Rightarrow> string" where
  "group_short e g = name_of (en_grp_lts e) g"

definition sub_short :: "engine \<Rightarrow> string \<Rightarrow> string" where
  "sub_short e s = name_of (en_sub_lts e) s"

text \<open>
  Parts in long form to which the normal form adds nothing: the level is at least what the required
  markings ask for, the groups the subgroups call for are there and within their limits, and so are the
  automatic choices.
\<close>

definition settled_parts :: "engine \<Rightarrow> bool \<Rightarrow> class_parts \<Rightarrow> bool" where
  "settled_parts e skip p =
     (case p of (l, req, groups, subs) \<Rightarrow>
        (case l of LvlText _ \<Rightarrow> False | LvlNum i \<Rightarrow>
           level_ok e i \<and> 0 \<le> i \<and> list_all (\<lambda>r. pm_require_lvl (params_of e r) \<le> i) req) \<and>
        distinct req \<and> distinct groups \<and> distinct subs \<and>
        list_all (\<lambda>r. dget (en_req_lts e) r \<noteq> None) req \<and>
        list_all (group_ok e) groups \<and>
        list_all (\<lambda>s. dget (en_sub_lts e) s \<noteq> None) subs \<and>
        (skip \<or> (subs = [] \<or> set (en_sub_auto e) \<subseteq> set subs) \<and> (groups = [] \<or> set (en_grp_auto e) \<subseteq> set groups)) \<and>
        set (map (name_of (en_grp_stl e)) (called_groups e (auto_join skip (en_sub_auto e) subs))) \<subseteq> set groups \<and>
        set (required_groups e (map (sub_short e) subs)) \<subseteq> group_short e ` set groups \<and>
        list_all (\<lambda>s. case pm_limited (params_of e (sub_short e s)) of
            None \<Rightarrow> True | Some g \<Rightarrow> set (map (group_short e) groups) \<subseteq> {g}) subs)"

section \<open>Reading the pieces\<close>

lemma sort_same: "distinct xs \<Longrightarrow> distinct ys \<Longrightarrow> set xs = set ys \<Longrightarrow> sort xs = sort ys"
  by (rule sorted_distinct_set_unique) simp_all

lemma mapR_dict_index:
  "(\<And>x. x \<in> set xs \<Longrightarrow> dget d x = Some (f x)) \<Longrightarrow> mapR (dict_index d) xs = Inr (map f xs)"
  by (induction xs) (simp_all add: dict_index_def)

lemma get_required_tokens:
  assumes ok: "engine_ok e" and up: "py_upper r = r" and toks: "set (tokens r) = set req \<union> U"
    and req: "\<And>x. x \<in> set req \<Longrightarrow> dget (en_req_lts e) x \<noteq> None" "distinct req"
    and U: "\<And>u. u \<in> U \<Longrightarrow> required_shorts e u = None"
  shows "\<exists>unused. get_required e r True = Inr (sort req, unused) \<and> distinct unused \<and> set unused = U"
proof -
  define short where "short n = name_of (en_req_lts e) n" for n
  define parts where "parts = filter (\<lambda>p. p \<noteq> []) (set_list e (split_char CHR ''/'' (py_upper r)))"
  have parts: "set parts = set req \<union> U" "distinct parts"
    using toks engine_okD(1) [OF ok] by (auto simp: parts_def up tokens_def)
  have short: "required_shorts e x = Some [short x]" "dget (en_req_stl e) (short x) = Some x" if "x \<in> set req" for x
  proof -
    from req(1) [OF that] obtain s where s: "dget (en_req_lts e) x = Some s" by blast
    then have sh: "short x = s" by (simp add: short_def name_of_def)
    show "required_shorts e x = Some [short x]" by (simp add: required_shorts_def s sh)
    show "dget (en_req_stl e) (short x) = Some x" using table_lookup(2) [OF engine_okD(2) [OF ok] s] by (simp add: sh)
  qed
  define found where
    "found = remdups (concat (map (\<lambda>p. case required_shorts e p of None \<Rightarrow> [] | Some ss \<Rightarrow> ss) parts))"
  have found: "set found = short ` set req" "distinct found"
    using parts(1) short(1) U by (auto simp: found_def)
  have nb: "\<And>y. y \<in> set (set_list e found) \<Longrightarrow> dget (en_req_stl e) y = Some (name_of (en_req_stl e) y)"
    using found(1) short(2) engine_okD(1) [OF ok] by (auto simp: name_of_def)
  let ?names = "map (name_of (en_req_stl e)) (set_list e found)"
  have inv: "name_of (en_req_stl e) (short x) = x" if "x \<in> set req" for x
    using short(2) [OF that] by (simp add: name_of_def)
  have "set ?names = set req" using found(1) inv engine_okD(1) [OF ok] by (force simp: image_image)
  moreover have "distinct ?names"
    using found(1) inv engine_okD(1) [OF ok] by (auto simp: distinct_map inj_on_def)
  ultimately have "sort ?names = sort req" using req(2) by (intro sort_same) simp_all
  moreover have "mapR (dict_index (en_req_stl e)) (set_list e found) = Inr ?names" by (rule mapR_dict_index) (rule nb)
  ultimately have "get_required e r True = Inr (sort req, filter (\<lambda>p. required_shorts e p = None) parts)"
    unfolding get_required_def parts_def [symmetric] Let_def found_def [symmetric] by simp
  moreover have "set (filter (\<lambda>p. required_shorts e p = None) parts) = U"
    using parts(1) short(1) U by fastforce
  ultimately show ?thesis using parts(2) by auto
qed

text \<open>The subgroups and the display name of a lone group.\<close>

lemma subgroup_steps:
  assumes "\<And>x. x \<in> set xs \<Longrightarrow>
      subgroup_shorts e x \<noteq> None \<or> (\<exists>a. dget (en_grp_aliases e) x = Some [a])"
  shows "foldR (subgroup_step e) (g1, g2) xs =
     Inr (g1 @ concat (map (\<lambda>x. if subgroup_shorts e x = None then aliases_at (en_grp_aliases e) x else []) xs),
          g2 @ concat (map (\<lambda>x. case subgroup_shorts e x of None \<Rightarrow> [] | Some ss \<Rightarrow> ss) xs))"
  using assms
proof (induction xs arbitrary: g1 g2)
  case (Cons x xs)
  have "subgroup_step e (g1, g2) x =
      Inr (g1 @ (if subgroup_shorts e x = None then aliases_at (en_grp_aliases e) x else []),
           g2 @ (case subgroup_shorts e x of None \<Rightarrow> [] | Some ss \<Rightarrow> ss))"
    using Cons.prems [of x] by (auto simp: subgroup_step_def aliases_at_def split: option.splits)
  with Cons.IH Cons.prems show ?case by simp
qed simp

text \<open>A group is recovered from its short name.\<close>

lemma group_back:
  assumes ok: "engine_ok e" and g: "group_ok e g"
  shows "name_of (en_grp_stl e) (group_short e g) = g"
proof (cases "dget (en_grp_lts e) g")
  case None
  with g have "dget (en_grp_stl e) g = None"
    by (auto simp: group_ok_def group_shorts_def dmem_dget split: if_splits)
  with None show ?thesis by (simp add: group_short_def name_of_def)
next
  case (Some s)
  with table_lookup(2) [OF engine_okD(3) [OF ok] Some] show ?thesis by (simp add: group_short_def name_of_def)
qed

lemma group_plain: "engine_ok e \<Longrightarrow> group_ok e g \<Longrightarrow> plain_name g"
  using table_lookup(1) [OF engine_okD(3)] by (auto simp: group_ok_def)

lemma sub_back:
  assumes ok: "engine_ok e" and s: "dget (en_sub_lts e) n \<noteq> None"
  shows "dget (en_sub_stl e) (sub_short e n) = Some n" and "subgroup_shorts e n = Some [sub_short e n]" and "plain_name n"
proof -
  from s obtain m where m: "dget (en_sub_lts e) n = Some m" by blast
  from table_lookup [OF engine_okD(4) [OF ok] m]
  show "dget (en_sub_stl e) (sub_short e n) = Some n" "plain_name n"
    by (simp_all add: sub_short_def name_of_def m)
  show "subgroup_shorts e n = Some [sub_short e n]" by (simp add: subgroup_shorts_def sub_short_def name_of_def m)
qed

lemma rel_groups_names:
  assumes ok: "order_ok e" and ns: "\<forall>n\<in>set ns. plain_name n" "ns \<noteq> []" "distinct ns"
  shows "set (rel_groups e (''REL TO '' @ py_join '', '' ns)) = set ns"
proof -
  have no: "\<not> py_in ''REL '' (py_join '', '' ns)" by (rule names_without_rel [OF ns(1)])
  then have "\<not> py_in ''REL TO '' (py_join '', '' ns)" using py_in_prefix [of "''REL ''" "''TO ''"] by auto
  with no have "py_replace ''REL '' [] (py_replace ''REL TO '' [] (''REL TO '' @ py_join '', '' ns)) = py_join '', '' ns"
    using replace_first [of "''REL TO ''" "[]"] replace_not_in by simp
  moreover have "split_char CHR ''/'' n = [n]" if "n \<in> set ns" for n
    using ns(1) that by (simp add: plain_name_def split_char_no_sep)
  ultimately show ?thesis using ok ns(1,2) by (auto simp: rel_groups_def split_names)
qed

text \<open>The token the groups are written as.\<close>

definition group_token :: "engine \<Rightarrow> string list \<Rightarrow> string \<Rightarrow> bool" where
  "group_token e groups t \<longleftrightarrow>
     (\<exists>ns. t = ''REL TO '' @ py_join '', '' ns \<and> distinct ns \<and> set ns = set groups) \<or>
     (\<exists>g s. set groups = {g} \<and> dget (en_grp_lts e) g = Some s \<and> plain_name t \<and> subgroup_shorts e t = None \<and>
        required_shorts e t = None \<and> dget (en_grp_aliases e) t = Some [s])"

lemma check_limited_ok:
  assumes "\<And>s g. s \<in> set subs \<Longrightarrow> pm_limited (params_of e s) = Some g \<Longrightarrow> set grps \<subseteq> {g}" and "order_ok e"
  shows "check_limited e grps subs = Inr ()"
proof -
  have "foldR (\<lambda>_ s. case pm_limited (params_of e s) of
         None \<Rightarrow> Inr ()
       | Some l \<Rightarrow>
           if set grps \<subseteq> {l} then Inr ()
           else Inl (invalid_class (''Subgroup '' @ s @ '' is limited to group '' @ l @ '' (found: '' @
                  py_join '', '' (set_list e grps) @ '')''))) () xs = Inr ()" if "set xs \<subseteq> set subs" for xs
    using that
  proof (induction xs)
    case (Cons x xs)
    then show ?case using assms(1) [of x] by (cases "pm_limited (params_of e x)") simp_all
  qed simp
  from this [of "set_list e subs"] assms(2) show ?thesis by (simp add: check_limited_def)
qed

lemma set_required_groups:
  "set (required_groups e xs) = {g. \<exists>x\<in>set xs. pm_require_group (params_of e x) = Some g \<and> g \<noteq> []}"
  by (force simp: required_groups_def split: option.splits if_splits)

lemma filter_single:
  "distinct xs \<Longrightarrow> x \<in> set xs \<Longrightarrow> (\<And>y. y \<in> set xs \<Longrightarrow> P y \<longleftrightarrow> y = x) \<Longrightarrow> filter P xs = [x]"
proof (induction xs)
  case (Cons y ys)
  show ?case
  proof (cases "y = x")
    case True
    with Cons.prems have "filter P ys = []" by (auto simp: filter_empty_conv)
    with True Cons.prems(3) [of y] show ?thesis by simp
  next
    case False
    with Cons show ?thesis by simp
  qed
qed simp

lemma declared_or_dynamic:
  "group_ok e g \<Longrightarrow>
   group_shorts e g = Some [group_short e g] \<or> group_shorts e g = None \<and> group_short e g = g \<and> en_dynamic e"
  by (auto simp: group_ok_def group_shorts_def group_short_def name_of_def split: option.splits)

text \<open>The lists \<^verbatim>\<open>_get_c12n_groups\<close> collects from the tokens.\<close>

definition rel_parts :: "engine \<Rightarrow> string list \<Rightarrow> string list" where
  "rel_parts e unused = concat (map (rel_groups e) (filter is_rel unused))"

definition known_shorts :: "engine \<Rightarrow> string list \<Rightarrow> string list" where
  "known_shorts e gs = concat (map (\<lambda>g. case group_shorts e g of None \<Rightarrow> [] | Some ss \<Rightarrow> ss) gs)"

definition unknown_groups :: "engine \<Rightarrow> string list \<Rightarrow> string list" where
  "unknown_groups e gs = filter (\<lambda>g. group_shorts e g = None) gs"

lemma known_and_unknown:
  assumes "\<And>g. g \<in> set gs \<Longrightarrow> group_ok e g"
  shows "set (known_shorts e gs) \<union> set (unknown_groups e gs) = group_short e ` set gs"
    and "unknown_groups e gs = [] \<or> en_dynamic e"
proof -
  show "set (known_shorts e gs) \<union> set (unknown_groups e gs) = group_short e ` set gs"
    using assms
  proof (induction gs)
    case (Cons g gs)
    then have IH: "set (known_shorts e gs) \<union> set (unknown_groups e gs) = group_short e ` set gs" by simp
    have "group_ok e g" using Cons.prems by simp
    from declared_or_dynamic [OF this] show ?case
    proof (elim disjE conjE)
      assume "group_shorts e g = Some [group_short e g]"
      with IH show ?thesis by (auto simp: known_shorts_def unknown_groups_def)
    next
      assume g: "group_shorts e g = None" "group_short e g = g"
      then have "known_shorts e (g # gs) = known_shorts e gs" "unknown_groups e (g # gs) = g # unknown_groups e gs"
        by (simp_all add: known_shorts_def unknown_groups_def)
      with IH g(2) show ?thesis by simp
    qed
  qed (simp add: known_shorts_def unknown_groups_def)
  show "unknown_groups e gs = [] \<or> en_dynamic e"
    using declared_or_dynamic assms by (auto simp: unknown_groups_def filter_empty_conv)
qed

lemma groups_fold:
  assumes ok: "engine_ok e" and groups: "list_all (group_ok e) groups"
    and subs: "list_all (\<lambda>s. dget (en_sub_lts e) s \<noteq> None) subs"
    and unused: "distinct unused" "set unused = G \<union> set subs"
    and G: "if groups = [] then G = {} else \<exists>t. G = {t} \<and> group_token e groups t"
  shows "\<exists>g1 g2. foldR (subgroup_step e) (known_shorts e (rel_parts e unused), []) (filter (\<lambda>p. \<not> is_rel p) unused) = Inr (g1, g2) \<and>
     set g1 \<union> set (unknown_groups e (rel_parts e unused)) = group_short e ` set groups \<and>
     set g2 = sub_short e ` set subs \<and> (unknown_groups e (rel_parts e unused) = [] \<or> en_dynamic e)"
proof -
  have ord: "order_ok e" using engine_okD(1) [OF ok] .
  have sub: "subgroup_shorts e x = Some [sub_short e x]" "plain_name x" if "x \<in> set subs" for x
    using sub_back [OF ok, of x] subs that by (auto simp: list_all_iff)
  have grp: "group_ok e g" "plain_name g" if "g \<in> set groups" for g
    using group_plain [OF ok] groups that by (auto simp: list_all_iff)
  let ?extra = "\<lambda>x. if subgroup_shorts e x = None then aliases_at (en_grp_aliases e) x else []"
  let ?shorts = "\<lambda>x. case subgroup_shorts e x of None \<Rightarrow> [] | Some ss \<Rightarrow> ss"
  let ?nons = "filter (\<lambda>p. \<not> is_rel p) unused"
  show ?thesis
  proof (cases "\<exists>ns. G = {''REL TO '' @ py_join '', '' ns} \<and> distinct ns \<and> set ns = set groups \<and> groups \<noteq> []")
    case True
    then obtain ns where ns: "G = {''REL TO '' @ py_join '', '' ns}" "distinct ns" "set ns = set groups" "groups \<noteq> []" by blast
    define t where "t = ''REL TO '' @ py_join '', '' ns"
    have rel: "is_rel t" by (simp add: is_rel_def py_startswith_def t_def)
    have u: "set unused = insert t (set subs)" using unused(2) ns(1) by (simp add: t_def)
    have is_t: "is_rel y \<longleftrightarrow> y = t" if "y \<in> set unused" for y
      using that u rel plain_not_rel sub(2) by auto
    have rels: "filter is_rel unused = [t]" by (rule filter_single [OF unused(1) _ is_t]) (simp_all add: u)
    have nons: "set ?nons = set subs"
    proof -
      have "set ?nons = {y \<in> set unused. y \<noteq> t}" using is_t by auto
      also have "\<dots> = set subs" using u rel plain_not_rel sub(2) by auto
      finally show ?thesis .
    qed
    from ns(3,4) have "ns \<noteq> []" by auto
    with rel_groups_names [OF ord _ _ ns(2)] grp(2) ns(3) have parts: "set (rel_parts e unused) = set groups"
      by (simp add: rel_parts_def rels t_def)
    have fold: "foldR (subgroup_step e) (known_shorts e (rel_parts e unused), []) ?nons =
        Inr (known_shorts e (rel_parts e unused) @ concat (map ?extra ?nons), [] @ concat (map ?shorts ?nons))"
      by (rule subgroup_steps) (use nons sub(1) in auto)
    have "concat (map ?extra ?nons) = []" using nons sub(1) by auto
    with fold have fold: "foldR (subgroup_step e) (known_shorts e (rel_parts e unused), []) ?nons =
        Inr (known_shorts e (rel_parts e unused), concat (map ?shorts ?nons))" by simp
    have subs': "set (concat (map ?shorts ?nons)) = sub_short e ` set subs" using nons sub(1) by auto
    have "set (known_shorts e (rel_parts e unused)) \<union> set (unknown_groups e (rel_parts e unused)) = group_short e ` set groups"
      "unknown_groups e (rel_parts e unused) = [] \<or> en_dynamic e"
      using known_and_unknown [of "rel_parts e unused" e] parts grp(1) by simp_all
    with fold subs' show ?thesis by (intro exI conjI)
  next
    case False
    have notrel: "\<not> is_rel y" if "y \<in> set unused" for y
      using that unused(2) G False plain_not_rel sub(2) by (auto simp: group_token_def split: if_splits)
    then have none: "filter is_rel unused = []" and all: "?nons = unused"
      by (auto simp: filter_empty_conv filter_id_conv)
    have start: "rel_parts e unused = []" by (simp add: rel_parts_def none)
    show ?thesis
    proof (cases "groups = []")
      case True
      with G unused(2) have u: "set unused = set subs" by simp
      have fold: "foldR (subgroup_step e) ([], []) unused = Inr ([] @ concat (map ?extra unused), [] @ concat (map ?shorts unused))"
        by (rule subgroup_steps) (use u sub(1) in auto)
      have "concat (map ?extra unused) = []" "set (concat (map ?shorts unused)) = sub_short e ` set subs"
        using u sub(1) by auto
      then show ?thesis by (simp add: True start all fold known_shorts_def unknown_groups_def)
    next
      case ne: False
      with G False obtain t g s where t: "G = {t}" "set groups = {g}" "dget (en_grp_lts e) g = Some s" "subgroup_shorts e t = None"
        "dget (en_grp_aliases e) t = Some [s]"
        by (auto simp: group_token_def)
      with unused(2) have u: "set unused = insert t (set subs)" by simp
      have gs: "group_short e g = s" using t(3) by (simp add: group_short_def name_of_def)
      have fold: "foldR (subgroup_step e) ([], []) unused = Inr ([] @ concat (map ?extra unused), [] @ concat (map ?shorts unused))"
        by (rule subgroup_steps) (use u sub(1) t in auto)
      have "set (concat (map ?extra unused)) = {s}" "set (concat (map ?shorts unused)) = sub_short e ` set subs"
        using u sub(1) t by (auto simp: aliases_at_def)
      then show ?thesis by (simp add: start all fold known_shorts_def unknown_groups_def t(2) gs)
    qed
  qed
qed

lemma get_groups_tokens:
  assumes ok: "engine_ok e" and groups: "list_all (group_ok e) groups" "distinct groups"
    and subs: "list_all (\<lambda>s. dget (en_sub_lts e) s \<noteq> None) subs" "distinct subs"
    and called: "set (required_groups e (map (sub_short e) subs)) \<subseteq> group_short e ` set groups"
    and limited: "list_all (\<lambda>s. case pm_limited (params_of e (sub_short e s)) of
        None \<Rightarrow> True | Some g \<Rightarrow> set (map (group_short e) groups) \<subseteq> {g}) subs"
    and unused: "distinct unused" "set unused = G \<union> set subs"
    and G: "if groups = [] then G = {} else \<exists>t. G = {t} \<and> group_token e groups t"
  shows "get_groups e unused True True False = Inr (sort groups, sort subs, [])"
proof -
  have ord: "order_ok e" using engine_okD(1) [OF ok] .
  have sub: "dget (en_sub_stl e) (sub_short e x) = Some x" if "x \<in> set subs" for x
    using sub_back [OF ok, of x] subs(1) that by (auto simp: list_all_iff)
  have grp: "name_of (en_grp_stl e) (group_short e g) = g" if "g \<in> set groups" for g
    using group_back [OF ok] groups(1) that by (auto simp: list_all_iff)
  let ?others = "unknown_groups e (rel_parts e unused)"
  from groups_fold [OF ok groups(1) subs(1) unused G] obtain g1 g2 where
    fold: "foldR (subgroup_step e) (known_shorts e (rel_parts e unused), []) (filter (\<lambda>p. \<not> is_rel p) unused) = Inr (g1, g2)"
    and g1: "set g1 \<union> set ?others = group_short e ` set groups" and g2: "set g2 = sub_short e ` set subs"
    and dyn: "?others = [] \<or> en_dynamic e" by blast
  define h1 where "h1 = (if en_dynamic e then g1 @ ?others else g1) @ required_groups e g2"
  have "set (required_groups e g2) \<subseteq> group_short e ` set groups"
    using called by (auto simp: set_required_groups g2)
  with g1 dyn have h1: "set h1 = group_short e ` set groups" by (auto simp: h1_def)
  have lim: "check_limited e h1 g2 = Inr ()"
    by (rule check_limited_ok [OF _ ord]) (use limited in \<open>auto simp: g2 h1 list_all_iff split: option.splits\<close>)
  have names1: "sort (map (name_of (en_grp_stl e)) (remdups h1)) = sort groups"
  proof (rule sort_same)
    show "set (map (name_of (en_grp_stl e)) (remdups h1)) = set groups" using h1 grp by (force simp: image_image)
    show "distinct (map (name_of (en_grp_stl e)) (remdups h1))" using h1 grp by (auto simp: distinct_map inj_on_def)
  qed (rule groups(2))
  have map2: "mapR (dict_index (en_sub_stl e)) (remdups g2) = Inr (map (name_of (en_sub_stl e)) (remdups g2))"
    by (rule mapR_dict_index) (use g2 sub in \<open>auto simp: name_of_def\<close>)
  have inv2: "name_of (en_sub_stl e) (sub_short e x) = x" if "x \<in> set subs" for x
    using sub [OF that] by (simp add: name_of_def)
  have names2: "sort (map (name_of (en_sub_stl e)) (remdups g2)) = sort subs"
  proof (rule sort_same)
    show "set (map (name_of (en_sub_stl e)) (remdups g2)) = set subs" using g2 inv2 by (force simp: image_image)
    show "distinct (map (name_of (en_sub_stl e)) (remdups g2))" using g2 inv2 by (auto simp: distinct_map inj_on_def)
  qed (rule subs(2))
  have rest: "set_list e (if en_dynamic e then [] else ?others) = []" using dyn ord by auto
  show ?thesis
    unfolding get_groups_def rel_parts_def [symmetric] known_shorts_def [symmetric] unknown_groups_def [symmetric] Let_def fold
    by (simp add: h1_def [symmetric] lim map2 names1 names2 rest)
qed

section \<open>Writing the pieces\<close>

lemma foldl_max_le:
  "(\<And>r. r \<in> set rs \<Longrightarrow> f r \<le> i) \<Longrightarrow> m \<le> i \<Longrightarrow> foldl (\<lambda>m r. max m (f r)) m rs \<le> (i :: int)"
  by (induction rs arbitrary: m) auto

lemma auto_join_settled:
  assumes "skip \<or> xs = [] \<or> set auto \<subseteq> set xs" and "distinct xs"
  shows "set (auto_join skip auto xs) = set xs" and "distinct (auto_join skip auto xs)"
  using assms by (auto simp: auto_join_def)

lemma group_text_token:
  assumes ok: "engine_ok e" and gs: "gs \<noteq> []" "distinct gs" "\<And>g. g \<in> set gs \<Longrightarrow> group_ok e g"
  shows "group_token e gs (group_text e True gs)"
proof (cases "\<exists>g. gs = [g]")
  case True
  then obtain g where g: "gs = [g]" by blast
  show ?thesis
  proof (cases "pm_solitary (params_of e g) = None \<or> pm_solitary (params_of e g) = Some g")
    case True
    then have "group_text e True gs = ''REL TO '' @ py_join '', '' [g]" by (auto simp: group_text_def g)
    then show ?thesis unfolding group_token_def g by (intro disjI1 exI [of _ "[g]"]) simp
  next
    case False
    then obtain d where d: "pm_solitary (params_of e g) = Some d" "d \<noteq> g" by auto
    with gs(3) [of g] g obtain s where s: "dget (en_grp_lts e) g = Some s" by (auto simp: group_ok_def)
    from engine_ok_display [OF ok s] d
    have "plain_name d" "required_shorts e d = None" "subgroup_shorts e d = None" "dget (en_grp_aliases e) d = Some [s]"
      by (auto simp: display_ok_def)
    moreover have "group_text e True gs = d" using d by (simp add: group_text_def g)
    ultimately show ?thesis unfolding group_token_def g using s by auto
  qed
next
  case False
  with gs(1) have "group_text e True gs = ''REL TO '' @ py_join '', '' (sort gs)"
    by (cases gs rule: list.exhaust; cases "tl gs") (auto simp: group_text_def)
  then show ?thesis unfolding group_token_def using gs(2) by (intro disjI1 exI [of _ "sort gs"]) simp
qed

lemma group_token_text:
  assumes "engine_ok e" and "group_token e gs t" and "\<And>g. g \<in> set gs \<Longrightarrow> group_ok e g"
  shows "CHR ''/'' \<notin> set t" and "t \<noteq> []" and "py_upper t = t" and "required_shorts e t = None"
proof -
  from assms(2) consider ns where "t = ''REL TO '' @ py_join '', '' ns" "set ns = set gs" | "plain_name t" "required_shorts e t = None"
    by (auto simp: group_token_def)
  then have "CHR ''/'' \<notin> set t \<and> t \<noteq> [] \<and> py_upper t = t \<and> required_shorts e t = None"
  proof cases
    case 1
    have ns: "\<forall>n\<in>set ns. plain_name n" using group_plain [OF assms(1) assms(3)] 1(2) by auto
    have "py_upper (''REL TO '') = ''REL TO ''" "py_upper '', '' = '', ''" by (simp_all add: py_upper_def letter_bits_def)
    then have "py_upper t = t" using join_upper [of ns "'', ''"] ns by (simp add: 1(1) plain_name_def del: append.simps)
    moreover have "CHR ''/'' \<notin> set t" using join_no_slash [of ns "'', ''"] ns by (auto simp: 1(1) plain_name_def)
    moreover have "is_rel t" by (simp add: 1(1) is_rel_def py_startswith_def)
    ultimately show ?thesis using engine_ok_rel [OF assms(1)] 1(1) by auto
  qed (auto simp: plain_name_def)
  then show "CHR ''/'' \<notin> set t" and "t \<noteq> []" and "py_upper t = t" and "required_shorts e t = None" by blast+
qed

lemma sort_empty [simp]: "sort xs = [] \<longleftrightarrow> xs = ([] :: string list)"
  by (metis set_empty set_sort)

text \<open>A piece of the text behind one or two slashes.\<close>

definition piece :: "bool \<Rightarrow> string list \<Rightarrow> string" where
  "piece double ws = (if ws = [] then [] else (if double then ''//'' else ''/'') @ py_join ''/'' ws)"

lemma piece_separated: "separated s \<Longrightarrow> separated (piece b ws @ s)"
  by (simp add: piece_def separated_def)

lemma piece_alone: "separated (piece b ws)"
  using piece_separated [of "[]" b ws] by (simp add: separated_def)

lemma piece_tokens:
  assumes "\<And>w. w \<in> set ws \<Longrightarrow> CHR ''/'' \<notin> set w \<and> w \<noteq> []" and "separated s"
  shows "tokens (piece b ws @ s) = ws @ tokens s"
  using assms tokens_join [of ws s] by (auto simp: piece_def)

lemma piece_upper: "(\<And>w. w \<in> set ws \<Longrightarrow> py_upper w = w) \<Longrightarrow> py_upper (piece b ws) = piece b ws"
proof -
  assume "\<And>w. w \<in> set ws \<Longrightarrow> py_upper w = w"
  moreover have "py_upper ''/'' = ''/''" "py_upper ''//'' = ''//''" by (simp_all add: py_upper_def letter_bits_def)
  ultimately show ?thesis using join_upper [of ws "''/''"] by (auto simp: piece_def simp del: append.simps)
qed

lemma text_pieces:
  fixes groups subs :: "string list" and skip :: bool
  assumes lvl: "raised_level e l req = Inr l'" "get_level_text e l' True = Inr n"
  defines "rg \<equiv> filter (\<lambda>r. pm_required_group (params_of e r)) req"
    and "sb \<equiv> auto_join skip (en_sub_auto e) subs"
  defines "gs \<equiv> auto_join skip (en_grp_auto e) (set_list e (groups @ map (name_of (en_grp_stl e)) (called_groups e sb)))"
  shows "normalized_text e l req groups subs True skip =
    Inr (n @ piece True (set_list e (filter (\<lambda>r. r \<notin> set rg) req)) @ piece True (sort rg) @
         piece (rg = []) (if gs = [] then [] else [group_text e True gs]) @
         piece (gs = [] \<and> rg = []) (sort sb))"
  using lvl by (simp add: normalized_text_def Let_def rg_def sb_def gs_def piece_def)

section \<open>Reading what was written\<close>

lemma level_and_rest:
  assumes lvl: "get_level_index e n = Inr (LvlNum i, [])" and n: "CHR ''/'' \<notin> set n" "py_upper n = n"
    and rest: "rest = [] \<or> (\<exists>r. rest = ''//'' @ r)" "py_upper rest = rest"
  shows "get_level_index e (n @ rest) = Inr (LvlNum i, drop 2 rest)"
proof -
  have "partition2 CHR ''/'' CHR ''/'' (n @ rest) = (n, drop 2 rest)"
    using rest(1) n(1) by (auto simp: partition2_no_sep partition2_sep)
  moreover have "partition2 CHR ''/'' CHR ''/'' n = (n, [])" using n(1) by (rule partition2_no_sep)
  ultimately show ?thesis
    using lvl n(2) rest(2) by (auto simp: get_level_index_def Let_def bindR_eq_Inr split: option.splits)
qed

lemma settled_text:
  assumes ok: "engine_ok e" and p: "settled_parts e skip (l, req, groups, subs)"
    and run: "normalized_text e l req groups subs True skip = Inr t"
  shows "\<exists>i n rest G R S. l = LvlNum i \<and> get_level_index e n = Inr (LvlNum i, []) \<and> CHR ''/'' \<notin> set n \<and> py_upper n = n \<and>
    t = n @ rest \<and> (rest = [] \<or> (\<exists>r. rest = ''//'' @ r)) \<and> py_upper rest = rest \<and> tokens rest = R @ G @ S \<and>
    set R = set req \<and> set S = set subs \<and>
    (if groups = [] then G = [] else \<exists>g. G = [g] \<and> group_token e groups g)"
proof -
  have ord: "order_ok e" using engine_okD(1) [OF ok] .
  from p obtain i where i: "l = LvlNum i" "level_ok e i" "0 \<le> i" "\<forall>r\<in>set req. pm_require_lvl (params_of e r) \<le> i"
    by (auto simp: settled_parts_def list_all_iff split: lvl_val.splits)
  from i(2) obtain n where n: "get_level_text e (LvlNum i) True = Inr n" "CHR ''/'' \<notin> set n" "py_upper n = n"
    "get_level_index e n = Inr (LvlNum i, [])"
    by (auto simp: level_ok_def split: sum.splits)
  have raised: "raised_level e l req = Inr (LvlNum i)"
    using foldl_max_le [of req "\<lambda>r. pm_require_lvl (params_of e r)" i 0] i by (simp add: raised_level_def max_absorb1)
  define rg where "rg = filter (\<lambda>r. pm_required_group (params_of e r)) req"
  define pr where "pr = set_list e (filter (\<lambda>r. r \<notin> set rg) req)"
  define sb where "sb = auto_join skip (en_sub_auto e) subs"
  define gs where "gs = auto_join skip (en_grp_auto e) (set_list e (groups @ map (name_of (en_grp_stl e)) (called_groups e sb)))"
  define G where "G = (if gs = [] then [] else [group_text e True gs])"
  have d: "distinct req" "distinct groups" "distinct subs" "skip \<or> subs = [] \<or> set (en_sub_auto e) \<subseteq> set subs"
    "skip \<or> groups = [] \<or> set (en_grp_auto e) \<subseteq> set groups"
    "set (map (name_of (en_grp_stl e)) (called_groups e sb)) \<subseteq> set groups" "\<forall>g\<in>set groups. group_ok e g"
    "\<forall>r\<in>set req. dget (en_req_lts e) r \<noteq> None" "\<forall>s\<in>set subs. dget (en_sub_lts e) s \<noteq> None"
    using p by (auto simp: settled_parts_def list_all_iff sb_def)
  have sb: "set sb = set subs" unfolding sb_def by (rule auto_join_settled(1) [OF d(4,3)])
  define g0 where "g0 = set_list e (groups @ map (name_of (en_grp_stl e)) (called_groups e sb))"
  have g0: "set g0 = set groups" "distinct g0" using d(6) ord by (auto simp: g0_def)
  then have "g0 = [] \<longleftrightarrow> groups = []" by (metis set_empty)
  with d(5) g0(1) have "skip \<or> g0 = [] \<or> set (en_grp_auto e) \<subseteq> set g0" by auto
  from auto_join_settled [OF this g0(2)] g0(1) have gs: "set gs = set groups" "distinct gs"
    unfolding gs_def g0_def [symmetric] by simp_all
  have groups0: "gs = [] \<longleftrightarrow> groups = []" using gs(1) by (metis set_empty)
  have G: "if groups = [] then G = [] else \<exists>g. G = [g] \<and> group_token e groups g"
  proof (cases "groups = []")
    case True
    with groups0 show ?thesis by (simp add: G_def)
  next
    case False
    have "group_token e gs (group_text e True gs)"
      by (rule group_text_token [OF ok _ gs(2)]) (use False groups0 gs(1) d(7) in auto)
    then have "group_token e groups (group_text e True gs)" by (simp add: group_token_def gs(1))
    with False groups0 show ?thesis by (simp add: G_def)
  qed
  have Gw: "CHR ''/'' \<notin> set w" "w \<noteq> []" "py_upper w = w" if "w \<in> set G" for w
    using G that group_token_text [OF ok, of groups w] d(7) by (auto split: if_splits)
  have reqs: "CHR ''/'' \<notin> set w \<and> w \<noteq> [] \<and> py_upper w = w" if "w \<in> set req" for w
  proof -
    from d(8) that obtain s where "dget (en_req_lts e) w = Some s" by blast
    from table_lookup(1) [OF engine_okD(2) [OF ok] this] show ?thesis by (simp add: plain_name_def)
  qed
  have subw: "CHR ''/'' \<notin> set w \<and> w \<noteq> [] \<and> py_upper w = w" if "w \<in> set subs" for w
  proof -
    from d(9) that obtain s where "dget (en_sub_lts e) w = Some s" by blast
    from table_lookup(1) [OF engine_okD(4) [OF ok] this] show ?thesis by (simp add: plain_name_def)
  qed
  have pr: "set pr \<subseteq> set req" "set rg \<subseteq> set req" "set pr \<union> set rg = set req"
    using ord by (auto simp: pr_def rg_def)
  define rest where "rest = piece True pr @ piece True (sort rg) @ piece (rg = []) G @ piece (gs = [] \<and> rg = []) (sort sb)"
  have "normalized_text e l req groups subs True skip = Inr (n @ rest)"
    unfolding rest_def G_def gs_def sb_def pr_def rg_def by (rule text_pieces [OF raised n(1)])
  with run have t: "t = n @ rest" by simp
  have toks: "tokens rest = (pr @ sort rg) @ G @ sort sb"
    unfolding rest_def
    using piece_alone piece_tokens [of "sort sb" "[]"] piece_tokens [of G] piece_tokens [of "sort rg"] piece_tokens [of pr]
      piece_separated reqs subw Gw pr(1,2) sb
    by (auto simp: separated_def [of "[]"] subset_iff)
  have "py_upper (piece True pr) = piece True pr" by (rule piece_upper) (use reqs pr(1) in auto)
  moreover have "py_upper (piece True (sort rg)) = piece True (sort rg)" by (rule piece_upper) (use reqs pr(2) in auto)
  moreover have "py_upper (piece (rg = []) G) = piece (rg = []) G" by (rule piece_upper) (rule Gw(3))
  moreover have "py_upper (piece b (sort sb)) = piece b (sort sb)" for b by (rule piece_upper) (use subw sb in auto)
  ultimately have up: "py_upper rest = rest" by (simp add: rest_def)
  have start: "rest = [] \<or> (\<exists>r. rest = ''//'' @ r)"
    using groups0 G by (auto simp: rest_def piece_def split: if_splits)
  have R: "set (pr @ sort rg) = set req" "set (sort sb) = set subs" using pr(3) sb by auto
  show ?thesis
    by (intro exI conjI) (rule i(1), rule n(4), rule n(2), rule n(3), rule t, rule start, rule up, rule toks, rule R(1), rule R(2), rule G)
qed

lemma settled_has_text:
  assumes "settled_parts e skip (l, req, groups, subs)"
  shows "\<exists>t. normalized_text e l req groups subs True skip = Inr t"
proof -
  from assms obtain i where i: "l = LvlNum i" "level_ok e i" "0 \<le> i" "\<forall>r\<in>set req. pm_require_lvl (params_of e r) \<le> i"
    by (auto simp: settled_parts_def list_all_iff split: lvl_val.splits)
  from i(2) obtain n where n: "get_level_text e (LvlNum i) True = Inr n" by (auto simp: level_ok_def split: sum.splits)
  have raised: "raised_level e l req = Inr (LvlNum i)"
    using foldl_max_le [of req "\<lambda>r. pm_require_lvl (params_of e r)" i 0] i by (simp add: raised_level_def max_absorb1)
  show ?thesis by (rule exI) (rule text_pieces [OF raised n])
qed

lemma text_read_back:
  assumes ok: "engine_ok e" and p: "settled_parts e skip (l, req, groups, subs)"
    and run: "normalized_text e l req groups subs True skip = Inr t"
  shows "get_parts e t True True False False = Inr (l, sort req, sort groups, sort subs)"
proof -
  from settled_text [OF ok p run] obtain i n rest G R S where
    i: "l = LvlNum i" and n: "get_level_index e n = Inr (LvlNum i, [])" "CHR ''/'' \<notin> set n" "py_upper n = n"
    and t: "t = n @ rest" and start: "rest = [] \<or> (\<exists>r. rest = ''//'' @ r)" and up: "py_upper rest = rest"
    and toks: "tokens rest = R @ G @ S" and RS: "set R = set req" "set S = set subs"
    and G: "if groups = [] then G = [] else \<exists>g. G = [g] \<and> group_token e groups g"
    by blast
  have d: "distinct req" "distinct groups" "distinct subs" "list_all (group_ok e) groups"
    "\<forall>r\<in>set req. dget (en_req_lts e) r \<noteq> None" "list_all (\<lambda>s. dget (en_sub_lts e) s \<noteq> None) subs"
    "set (required_groups e (map (sub_short e) subs)) \<subseteq> group_short e ` set groups"
    "list_all (\<lambda>s. case pm_limited (params_of e (sub_short e s)) of
        None \<Rightarrow> True | Some g \<Rightarrow> set (map (group_short e) groups) \<subseteq> {g}) subs"
    using p by (simp_all add: settled_parts_def list_all_iff)
  have gok: "\<And>g. g \<in> set groups \<Longrightarrow> group_ok e g" using d(4) by (simp add: list_all_iff)
  have level: "get_level_index e t = Inr (LvlNum i, drop 2 rest)"
    unfolding t by (rule level_and_rest [OF n start up])
  have "tokens (drop 2 rest) = tokens rest" using start by auto
  then have toks': "set (tokens (drop 2 rest)) = set req \<union> (set G \<union> set subs)" using toks RS by auto
  have up': "py_upper (drop 2 rest) = drop 2 rest" using start up by (auto simp: py_upper_def)
  have none: "required_shorts e u = None" if "u \<in> set G \<union> set subs" for u
    using that G group_token_text(4) [OF ok _ gok] engine_ok_required(2) [OF ok] d(6)
    by (auto simp: list_all_iff split: if_splits)
  from get_required_tokens [OF ok up' toks' _ d(1) none] d(5) obtain unused where
    req: "get_required e (drop 2 rest) True = Inr (sort req, unused)" "distinct unused" "set unused = set G \<union> set subs"
    by blast
  have "if groups = [] then set G = {} else \<exists>t. set G = {t} \<and> group_token e groups t"
    using G by (auto split: if_splits)
  from get_groups_tokens [OF ok d(4,2,6,3,7,8) req(2,3) this]
  show ?thesis by (simp add: get_parts_def level req(1) i)
qed

text \<open>
  C25: A normal form is read back as what it was written from. For an engine whose tables are in order and
  parts to which normalizing adds nothing, the long normal form exists and parsing it gives the level, the
  required markings, the groups and the subgroups again, whatever order the interpreter iterates sets in.
\<close>

theorem normal_form_read_back:
  assumes "engine_ok e" and "settled_parts e skip (l, req, groups, subs)"
  shows "\<exists>t. normalized_text e l req groups subs True skip = Inr t \<and>
     get_parts e t True True False False = Inr (l, sort req, sort groups, sort subs)"
  using settled_has_text [OF assms(2)] text_read_back [OF assms] by blast

section \<open>The most restrictive classification\<close>

lemma sees_sorted: "sees u (l, sort r, sort g, sort s) \<longleftrightarrow> sees u (l, r, g, s)"
  by (cases u) (auto simp: sees_iff)

lemma user_sorted: "sees (l, sort r, sort g, sort s) d \<longleftrightarrow> sees (l, r, g, s) d"
  by (cases d) (auto simp: sees_iff)

lemma accessible_sees:
  assumes "en_enforce e" and "\<not> en_invalid e"
  shows "is_accessible e u (Some c) False = Inr True \<longleftrightarrow>
     (\<exists>p q. get_parts e u True True False False = Inr p \<and> get_parts e c True True False False = Inr q \<and> sees p q)"
  using assms
  by (auto simp: is_accessible_def sees_def bindR_eq_Inr split: sum.splits if_splits)

text \<open>What a merge of two normalized classifications writes is read back as the merged parts.\<close>

lemma merged_text:
  assumes ok: "engine_ok e" and on: "en_enforce e" "\<not> en_invalid e"
    and ab: "a \<in> set (cc_long c)" "b \<in> set (cc_long c)"
    and run: "fst (merge_with merge skip alone e (Some a) (Some b) True c) = Inr (Some t)"
    and settled: "\<And>p q m. get_parts e a True True False False = Inr p \<Longrightarrow> get_parts e b True True False False = Inr q \<Longrightarrow>
        merge e p q = Inr m \<Longrightarrow> settled_parts e skip m"
  obtains p q l r g s where "get_parts e a True True False False = Inr p" and "get_parts e b True True False False = Inr q"
    and "merge e p q = Inr (l, r, g, s)" and "get_parts e t True True False False = Inr (l, sort r, sort g, sort s)"
proof -
  have off: "\<not> engine_off e" using on by (simp add: engine_off_def)
  have norm: "normalize_given e skip (Some x) c = (Inr (Some x), c)" if "x \<in> set (cc_long c)" for x
    using that off by (simp add: normalize_given_def normalize_classification_def cached_def bindM_def)
  from run off obtain p q m where p: "get_parts e a True True False False = Inr p" and q: "get_parts e b True True False False = Inr q"
    and m: "merge e p q = Inr m" and t: "(case m of (l, r, g, s) \<Rightarrow> normalized_text e l r g s True skip) = Inr t"
    by (auto simp: merge_with_def norm ab bindM_def bindR_eq_Inr split: prod.splits)
  obtain l r g s where lrgs: "m = (l, r, g, s)" by (cases m)
  have "settled_parts e skip (l, r, g, s)" using settled [OF p q m] by (simp add: lrgs)
  from text_read_back [OF ok this] t lrgs
  have "get_parts e t True True False False = Inr (l, sort r, sort g, sort s)" by simp
  from that [OF p q _ this] m show thesis by (simp add: lrgs)
qed

text \<open>
  The most restrictive classification protects both. Merge two classifications the engine has already
  normalized; when the merged parts are settled, a user who may access the text of the maximum may access
  each of the two.
\<close>

lemma max_protects_both:
  assumes ok: "engine_ok e" and on: "en_enforce e" "\<not> en_invalid e"
    and ab: "a \<in> set (cc_long c)" "b \<in> set (cc_long c)"
    and run: "fst (max_classification e (Some a) (Some b) True c) = Inr (Some t)"
    and settled: "\<And>p q m. get_parts e a True True False False = Inr p \<Longrightarrow> get_parts e b True True False False = Inr q \<Longrightarrow>
        max_parts e p q = Inr m \<Longrightarrow> settled_parts e False m"
    and acc: "is_accessible e u (Some t) False = Inr True"
  shows "is_accessible e u (Some a) False = Inr True \<and> is_accessible e u (Some b) False = Inr True"
proof -
  obtain p q l r g s
    where pq: "get_parts e a True True False False = Inr p" "get_parts e b True True False False = Inr q"
      and m: "max_parts e p q = Inr (l, r, g, s)"
      and rb: "get_parts e t True True False False = Inr (l, sort r, sort g, sort s)"
    by (rule merged_text [OF ok on ab run [unfolded max_classification_def]]) (use settled in assumption)+
  from acc obtain up where up: "get_parts e u True True False False = Inr up" "sees up (l, r, g, s)"
    by (auto simp: accessible_sees [OF on] rb sees_sorted)
  from sees_max [OF engine_okD(1) [OF ok] m up(2)] up(1) pq show ?thesis
    by (auto simp: accessible_sees [OF on])
qed

text \<open>
  C26: The intersection of two users sees only what both see. Merge two user classifications the engine has
  already normalized; when the merged parts are settled, whatever the text of the intersection may access
  both users may access.
\<close>

theorem intersection_sees_less:
  assumes ok: "engine_ok e" and on: "en_enforce e" "\<not> en_invalid e"
    and ab: "a \<in> set (cc_long c)" "b \<in> set (cc_long c)"
    and run: "fst (intersect_user_classification e (Some a) (Some b) True c) = Inr (Some t)"
    and settled: "\<And>p q m. get_parts e a True True False False = Inr p \<Longrightarrow> get_parts e b True True False False = Inr q \<Longrightarrow>
        intersect_parts e p q = Inr m \<Longrightarrow> settled_parts e True m"
    and acc: "is_accessible e t (Some d) False = Inr True"
  shows "is_accessible e a (Some d) False = Inr True \<and> is_accessible e b (Some d) False = Inr True"
proof -
  obtain p q l r g s
    where pq: "get_parts e a True True False False = Inr p" "get_parts e b True True False False = Inr q"
      and m: "intersect_parts e p q = Inr (l, r, g, s)"
      and rb: "get_parts e t True True False False = Inr (l, sort r, sort g, sort s)"
    by (rule merged_text [OF ok on ab run [unfolded intersect_user_classification_def]]) (use settled in assumption)+
  from acc obtain dp where dp: "get_parts e d True True False False = Inr dp" "sees (l, r, g, s) dp"
    by (auto simp: accessible_sees [OF on] rb user_sorted)
  from intersect_sees [OF engine_okD(1) [OF ok] m dp(2)] dp(1) pq show ?thesis
    by (auto simp: accessible_sees [OF on])
qed

section \<open>A concrete engine\<close>

text \<open>
  The tables of a definition with two levels, two required markings (the second asks for the higher level),
  two groups (the first has a name of its own when it is alone) and two subgroups (the first calls for the
  first group and is limited to it).
\<close>

definition sample_engine :: engine where
  "sample_engine =
     \<lparr>en_order = sort, en_enforce = True, en_dynamic = False, en_invalid = False,
      en_levels_map = [(''U'', LvlNum 100), (''100'', LvlText ''U''), (''R'', LvlNum 200), (''200'', LvlText ''R'')],
      en_levels_stl = [(''U'', ''UNRESTRICTED''), (''R'', ''RESTRICTED'')],
      en_levels_lts = [(''UNRESTRICTED'', ''U''), (''RESTRICTED'', ''R'')],
      en_levels_aliases = [],
      en_req_lts = [(''ADMIN'', ''ADM''), (''SUPER USER'', ''SU'')],
      en_req_stl = [(''ADM'', ''ADMIN''), (''SU'', ''SUPER USER'')],
      en_req_aliases = [],
      en_grp_lts = [(''DEPARTMENT 1'', ''D1''), (''DEPARTMENT 2'', ''D2'')],
      en_grp_stl = [(''D1'', ''DEPARTMENT 1''), (''D2'', ''DEPARTMENT 2'')],
      en_grp_aliases = [(''ANY'', [''D1''])],
      en_grp_auto = [], en_grp_auto_short = [],
      en_sub_lts = [(''GROUP 1'', ''G1''), (''GROUP 2'', ''G2'')],
      en_sub_stl = [(''G1'', ''GROUP 1''), (''G2'', ''GROUP 2'')],
      en_sub_aliases = [], en_sub_auto = [], en_sub_auto_short = [],
      en_params = (let su = no_params\<lparr>pm_require_lvl := 200\<rparr>; d1 = no_params\<lparr>pm_solitary := Some ''ANY''\<rparr>;
                       g1 = no_params\<lparr>pm_require_group := Some ''D1'', pm_limited := Some ''D1''\<rparr>
                   in [(''SU'', su), (''SUPER USER'', su), (''D1'', d1), (''DEPARTMENT 1'', d1), (''G1'', g1), (''GROUP 1'', g1)]),
      en_unrestricted = Some ''UNRESTRICTED'', en_restricted = Some ''RESTRICTED//ADMIN''\<rparr>"

lemma sample_engine_tables:
  "en_order sample_engine = sort" "en_enforce sample_engine" "\<not> en_invalid sample_engine"
  by (simp_all add: sample_engine_def)

lemma sample_engine_ok: "engine_ok sample_engine"
proof -
  have "order_ok sample_engine" by (simp add: order_ok_def sample_engine_tables)
  moreover have "table_ok (en_req_lts sample_engine) (en_req_stl sample_engine)" by code_simp
  moreover have "table_ok (en_grp_lts sample_engine) (en_grp_stl sample_engine)" by code_simp
  moreover have "table_ok (en_sub_lts sample_engine) (en_sub_stl sample_engine)" by code_simp
  moreover have "list_all (\<lambda>n. required_shorts sample_engine n = None) (dkeys (en_grp_lts sample_engine) @ dkeys (en_sub_lts sample_engine))"
    by code_simp
  moreover have "list_all (\<lambda>k. \<not> is_rel k) (dkeys (en_req_lts sample_engine) @ dkeys (en_req_stl sample_engine) @ dkeys (en_req_aliases sample_engine))"
    by code_simp
  moreover have "list_all (\<lambda>(n, s). display_ok sample_engine n s) (en_grp_lts sample_engine)" by code_simp
  ultimately show ?thesis by (simp add: engine_ok_def)
qed

lemma normal_form_read_back_witness:
  "\<exists>t. normalized_text sample_engine (LvlNum 200) [''SUPER USER''] [''DEPARTMENT 1''] [''GROUP 1''] True False = Inr t \<and>
     get_parts sample_engine t True True False False = Inr (LvlNum 200, sort [''SUPER USER''], sort [''DEPARTMENT 1''], sort [''GROUP 1''])"
  by (rule normal_form_read_back [OF sample_engine_ok]) code_simp

definition sample_cache :: class_cache where
  "sample_cache = \<lparr>cc_long = [''UNRESTRICTED//ADMIN'', ''RESTRICTED//SUPER USER//ANY/GROUP 1''], cc_short = []\<rparr>"

lemma sample_parts:
  "get_parts sample_engine ''UNRESTRICTED//ADMIN'' True True False False = Inr (LvlNum 100, [''ADMIN''], [], [])"
  "get_parts sample_engine ''RESTRICTED//SUPER USER//ANY/GROUP 1'' True True False False =
     Inr (LvlNum 200, [''SUPER USER''], [''DEPARTMENT 1''], [''GROUP 1''])"
  "max_parts sample_engine (LvlNum 100, [''ADMIN''], [], []) (LvlNum 200, [''SUPER USER''], [''DEPARTMENT 1''], [''GROUP 1'']) =
     Inr (LvlNum 200, [''ADMIN'', ''SUPER USER''], [''DEPARTMENT 1''], [''GROUP 1''])"
  by code_simp+

lemma max_protects_both_witness:
  "is_accessible sample_engine ''R//ADM/SU//REL TO D1/G1/G2'' (Some ''UNRESTRICTED//ADMIN'') False = Inr True \<and>
   is_accessible sample_engine ''R//ADM/SU//REL TO D1/G1/G2'' (Some ''RESTRICTED//SUPER USER//ANY/GROUP 1'') False = Inr True"
proof (rule max_protects_both [OF sample_engine_ok sample_engine_tables(2,3), where c = sample_cache
      and t = "''RESTRICTED//ADMIN/SUPER USER//ANY/GROUP 1''"])
  show "fst (max_classification sample_engine (Some ''UNRESTRICTED//ADMIN'') (Some ''RESTRICTED//SUPER USER//ANY/GROUP 1'') True
      sample_cache) = Inr (Some ''RESTRICTED//ADMIN/SUPER USER//ANY/GROUP 1'')"
    by code_simp
next
  fix p q m
  assume "get_parts sample_engine ''UNRESTRICTED//ADMIN'' True True False False = Inr p"
    "get_parts sample_engine ''RESTRICTED//SUPER USER//ANY/GROUP 1'' True True False False = Inr q"
    "max_parts sample_engine p q = Inr m"
  then have "m = (LvlNum 200, [''ADMIN'', ''SUPER USER''], [''DEPARTMENT 1''], [''GROUP 1''])"
    using sample_parts by auto
  moreover have "settled_parts sample_engine False (LvlNum 200, [''ADMIN'', ''SUPER USER''], [''DEPARTMENT 1''], [''GROUP 1''])"
    by code_simp
  ultimately show "settled_parts sample_engine False m" by simp
next
  show "is_accessible sample_engine ''R//ADM/SU//REL TO D1/G1/G2'' (Some ''RESTRICTED//ADMIN/SUPER USER//ANY/GROUP 1'') False = Inr True"
    by code_simp
next
  show "''UNRESTRICTED//ADMIN'' \<in> set (cc_long sample_cache)" by (simp add: sample_cache_def)
next
  show "''RESTRICTED//SUPER USER//ANY/GROUP 1'' \<in> set (cc_long sample_cache)" by (simp add: sample_cache_def)
qed

definition sample_users :: class_cache where
  "sample_users = \<lparr>cc_long = [''RESTRICTED//ADMIN'', ''UNRESTRICTED//ADMIN/SUPER USER''], cc_short = []\<rparr>"

lemma sample_user_parts:
  "get_parts sample_engine ''RESTRICTED//ADMIN'' True True False False = Inr (LvlNum 200, [''ADMIN''], [], [])"
  "get_parts sample_engine ''UNRESTRICTED//ADMIN/SUPER USER'' True True False False = Inr (LvlNum 100, [''ADMIN'', ''SUPER USER''], [], [])"
  "intersect_parts sample_engine (LvlNum 200, [''ADMIN''], [], []) (LvlNum 100, [''ADMIN'', ''SUPER USER''], [], []) =
     Inr (LvlNum 100, [''ADMIN''], [], [])"
  by code_simp+

lemma intersection_sees_less_witness:
  "is_accessible sample_engine ''RESTRICTED//ADMIN'' (Some ''U//ADM'') False = Inr True \<and>
   is_accessible sample_engine ''UNRESTRICTED//ADMIN/SUPER USER'' (Some ''U//ADM'') False = Inr True"
proof (rule intersection_sees_less [OF sample_engine_ok sample_engine_tables(2,3), where c = sample_users
      and t = "''UNRESTRICTED//ADMIN''"])
  show "fst (intersect_user_classification sample_engine (Some ''RESTRICTED//ADMIN'') (Some ''UNRESTRICTED//ADMIN/SUPER USER'') True
      sample_users) = Inr (Some ''UNRESTRICTED//ADMIN'')"
    by code_simp
next
  fix p q m
  assume "get_parts sample_engine ''RESTRICTED//ADMIN'' True True False False = Inr p"
    "get_parts sample_engine ''UNRESTRICTED//ADMIN/SUPER USER'' True True False False = Inr q"
    "intersect_parts sample_engine p q = Inr m"
  then have "m = (LvlNum 100, [''ADMIN''], [], [])" using sample_user_parts by auto
  moreover have "settled_parts sample_engine True (LvlNum 100, [''ADMIN''], [], [])" by code_simp
  ultimately show "settled_parts sample_engine True m" by simp
next
  show "is_accessible sample_engine ''UNRESTRICTED//ADMIN'' (Some ''U//ADM'') False = Inr True" by code_simp
next
  show "''RESTRICTED//ADMIN'' \<in> set (cc_long sample_users)" by (simp add: sample_users_def)
next
  show "''UNRESTRICTED//ADMIN/SUPER USER'' \<in> set (cc_long sample_users)" by (simp add: sample_users_def)
qed

end
