(* ===== verification/Json.thy ===== *)
theory Json
  imports PyStrings
begin

text \<open>
  \<^verbatim>\<open>json.dumps\<close> with its default settings, as the code uses it to store free-form values and to build the
  lines of a bulk request. A text is taken to be ASCII, so no escape above \<^verbatim>\<open>0x7F\<close> occurs.
\<close>

definition hex_digit :: "nat \<Rightarrow> char" where
  "hex_digit n = (if n < 10 then digit_char n else char_of (87 + n))"

definition json_char :: "char \<Rightarrow> string" where
  "json_char c =
     (if c = CHR 0x22 then [CHR 0x5C, CHR 0x22]
      else if c = CHR 0x5C then [CHR 0x5C, CHR 0x5C]
      else if c = CHR 0x0A then [CHR 0x5C, CHR ''n'']
      else if c = CHR 0x0D then [CHR 0x5C, CHR ''r'']
      else if c = CHR 0x09 then [CHR 0x5C, CHR ''t'']
      else if c = CHR 0x0C then [CHR 0x5C, CHR ''f'']
      else if c = CHR 0x08 then [CHR 0x5C, CHR ''b'']
      else if of_char c < (32::nat)
      then [CHR 0x5C, CHR ''u'', CHR ''0'', CHR ''0'', hex_digit (of_char c div 16), hex_digit (of_char c mod 16)]
      else [c])"

definition json_string :: "string \<Rightarrow> string" where
  "json_string s = CHR 0x22 # concat (map json_char s) @ [CHR 0x22]"

fun json_dumps :: "py \<Rightarrow> string" where
  "json_dumps PNone = ''null''"
| "json_dumps (PBool b) = (if b then ''true'' else ''false'')"
| "json_dumps (PInt i) = str_int i"
| "json_dumps (PFloat r) = (if r = [] then ''NaN'' else r)"
| "json_dumps (PStr s) = json_string s"
| "json_dumps (PList xs) = ''['' @ py_join '', '' (map json_dumps xs) @ '']''"
| "json_dumps (PDict d) = ''{'' @ py_join '', '' (map (\<lambda>(k, v). json_string k @ '': '' @ json_dumps v) d) @ ''}''"

text \<open>A JSON value whose floating-point numbers are written on one line.\<close>

fun one_line :: "py \<Rightarrow> bool" where
  "one_line (PFloat r) = (CHR 0x0A \<notin> set r)"
| "one_line (PList xs) = list_all one_line xs"
| "one_line (PDict d) = list_all (\<lambda>(k, v). one_line v) d"
| "one_line v = True"

lemma hex_digit_not_newline: "n < 16 \<Longrightarrow> hex_digit n \<noteq> CHR 0x0A"
proof
  assume n: "n < 16" and eq: "hex_digit n = CHR 0x0A"
  have "(of_char (hex_digit n) :: nat) = (if n < 10 then 48 + n else 87 + n)"
    using n by (simp add: hex_digit_def digit_char_def)
  moreover have "(of_char CHR 0x0A :: nat) = 10" by simp
  ultimately show False using eq by (simp split: if_splits)
qed

lemma json_char_no_newline: "CHR 0x0A \<notin> set (json_char c)"
proof -
  have "(of_char c :: nat) div 16 < 16" "(of_char c :: nat) mod 16 < 16"
    by (simp_all add: div_less_dividend less_mult_imp_div_less)
  then show ?thesis
    using hex_digit_not_newline [of "of_char c div 16"] hex_digit_not_newline [of "of_char c mod 16"]
    by (auto simp: json_char_def split: if_splits)
qed

lemma json_string_no_newline: "CHR 0x0A \<notin> set (json_string s)"
  using json_char_no_newline by (auto simp: json_string_def)

lemma str_nat_no_newline: "CHR 0x0A \<notin> set (str_nat n)"
proof
  assume "CHR 0x0A \<in> set (str_nat n)"
  then obtain d where "d < 10" "CHR 0x0A = digit_char d" using str_nat_digits by blast
  then have "(of_char CHR 0x0A :: nat) = 48 + d" by (simp add: digit_char_def)
  then show False by simp
qed

lemma str_int_no_newline: "CHR 0x0A \<notin> set (str_int i)"
  using str_nat_no_newline by (simp add: str_int_def)

lemma join_no_newline:
  "CHR 0x0A \<notin> set sep \<Longrightarrow> \<forall>x\<in>set xs. CHR 0x0A \<notin> set x \<Longrightarrow> CHR 0x0A \<notin> set (py_join sep xs)"
  using set_py_join [of sep xs] by auto

lemma json_dumps_no_newline: "one_line v \<Longrightarrow> CHR 0x0A \<notin> set (json_dumps v)"
proof (induction v)
  case (PList xs)
  then have "CHR 0x0A \<notin> set (py_join '', '' (map json_dumps xs))"
    by (intro join_no_newline) (auto simp: list_all_iff)
  then show ?case by simp
next
  case (PDict d)
  have "CHR 0x0A \<notin> set (json_dumps v)" if "(k, v) \<in> set d" for k v
    using PDict.IH [of "(k, v)" v] PDict.prems that by (auto simp: list_all_iff)
  then have "CHR 0x0A \<notin> set (py_join '', '' (map (\<lambda>(k, v). json_string k @ '': '' @ json_dumps v) d))"
    using json_string_no_newline by (intro join_no_newline) auto
  then show ?case by simp
qed (simp_all add: json_string_no_newline str_int_no_newline)

end
