(* ===== verification/DictUtils.thy ===== *)
theory DictUtils
  imports PyStrings
begin

text \<open>
  \<^verbatim>\<open>utils/dict_utils.py\<close>: nested dictionaries and their flat form under dotted keys, merging, differences
  and pruning; and that \<^verbatim>\<open>unflatten\<close> undoes \<^verbatim>\<open>flatten\<close>.
\<close>

section \<open>Nulls\<close>

fun strip_nulls :: "py \<Rightarrow> py" where
  "strip_nulls (PDict d) = PDict (map (\<lambda>kv. (fst kv, strip_nulls (snd kv))) (filter (\<lambda>kv. snd kv \<noteq> PNone) d))"
| "strip_nulls v = v"

section \<open>Flattening\<close>

definition under :: "string \<Rightarrow> string \<Rightarrow> string" where
  "under prefix key = (if prefix = [] then key else prefix @ ''.'' @ key)"

definition dict_update :: "(string, 'v) dict \<Rightarrow> (string \<times> 'v) list \<Rightarrow> (string, 'v) dict" where
  "dict_update d e = foldl (\<lambda>a (k, v). dset a k v) d e"

text \<open>
  With a model, a dictionary no flat field lies under stays as it is; \<^verbatim>\<open>stop\<close> says which.
\<close>

fun flatten_into :: "(string \<Rightarrow> bool) \<Rightarrow> string \<Rightarrow> (string, py) dict \<Rightarrow> (string \<times> py) list \<Rightarrow> (string, py) dict" where
  "flatten_into stop prefix acc [] = acc"
| "flatten_into stop prefix acc ((k, PDict d) # xs) =
     flatten_into stop prefix
       (if stop (under prefix k) then dset acc (under prefix k) (PDict d)
        else dict_update acc (flatten_into stop (under prefix k) [] d)) xs"
| "flatten_into stop prefix acc ((k, v) # xs) = flatten_into stop prefix (dset acc (under prefix k) v) xs"

definition outside_model :: "string list option \<Rightarrow> string \<Rightarrow> bool" where
  "outside_model valid_keys key =
     (case valid_keys of
        None \<Rightarrow> False
      | Some ks \<Rightarrow> ks \<noteq> [] \<and> \<not> list_ex (\<lambda>v. py_startswith v (key @ ''.'')) ks)"

definition flatten_with :: "string list option \<Rightarrow> string option \<Rightarrow> (string, py) dict \<Rightarrow> (string, py) dict" where
  "flatten_with valid_keys parent_key data =
     flatten_into (outside_model valid_keys) (case parent_key of None \<Rightarrow> [] | Some p \<Rightarrow> p) [] data"

definition flatten :: "(string, py) dict \<Rightarrow> (string, py) dict" where
  "flatten data = flatten_with None None data"

section \<open>Unflattening\<close>

definition cannot_nest :: exn where
  "cannot_nest = Exn ETypeError ''value does not support item assignment''"

text \<open>
  One key of \<^verbatim>\<open>unflatten\<close>: walk down, creating the dictionaries that are missing, and store. On a value
  that is no dictionary the walk or the store raises.
\<close>

fun put_path :: "string list \<Rightarrow> py \<Rightarrow> (string, py) dict \<Rightarrow> (string, py) dict result" where
  "put_path [] v out = Inr out"
| "put_path [p] v out = Inr (dset out p v)"
| "put_path (p # q # ps) v out =
     (case dget out p of
        None \<Rightarrow> bindR (put_path (q # ps) v []) (\<lambda>d. Inr (dset out p (PDict d)))
      | Some (PDict d) \<Rightarrow> bindR (put_path (q # ps) v d) (\<lambda>d'. Inr (dset out p (PDict d')))
      | Some x \<Rightarrow> Inl cannot_nest)"

definition unflatten :: "(string, py) dict \<Rightarrow> (string, py) dict result" where
  "unflatten data = foldR (\<lambda>out (k, v). put_path (split_char CHR ''.'' k) v out) [] data"

section \<open>Merging, differences and pruning\<close>

text \<open>
  \<^verbatim>\<open>recursive_update(d, u, stop_keys, allow_recursion)\<close>. A dictionary merged into something that is
  neither absent nor a dictionary raises, unless it is empty.
\<close>

fun update_into :: "string list \<Rightarrow> bool \<Rightarrow> (string, py) dict \<Rightarrow> (string \<times> py) list \<Rightarrow> (string, py) dict result" where
  "update_into stop_keys allow d [] = Inr d"
| "update_into stop_keys allow d ((k, PDict e) # u) =
     (if allow then
        bindR (case (case dget d k of None \<Rightarrow> PDict [] | Some x \<Rightarrow> x) of
                 PNone \<Rightarrow> Inr (PDict e)
               | PDict old \<Rightarrow> bindR (update_into stop_keys (k \<notin> set stop_keys) old e) (\<lambda>m. Inr (PDict m))
               | x \<Rightarrow> if e = [] then Inr x else Inl cannot_nest)
          (\<lambda>v. update_into stop_keys allow (dset d k v) u)
      else update_into stop_keys allow (dset d k (PDict e)) u)"
| "update_into stop_keys allow d ((k, v) # u) = update_into stop_keys allow (dset d k v) u"

definition recursive_update :: "py \<Rightarrow> py \<Rightarrow> string list \<Rightarrow> bool \<Rightarrow> py result" where
  "recursive_update d u stop_keys allow =
     (case (d, u) of
        (PNone, PNone) \<Rightarrow> Inr (PDict [])
      | (PNone, u) \<Rightarrow> Inr (if truthy u then u else PDict [])
      | (d, PNone) \<Rightarrow> Inr d
      | (PDict d, PDict u) \<Rightarrow> bindR (update_into stop_keys allow d u) (\<lambda>m. Inr (PDict m))
      | _ \<Rightarrow> Inl (Exn EAttributeError ''object has no attribute items''))"

text \<open>
  \<^verbatim>\<open>get_recursive_delta\<close>: what is new or different in the second dictionary. A nested part against null
  is returned whole; against a value of another kind the code raises.
\<close>

definition new_entries :: "(string, py) dict \<Rightarrow> (string, py) dict \<Rightarrow> (string, py) dict" where
  "new_entries d1 d2 = filter (\<lambda>kv. \<not> dmem d1 (fst kv)) d2"

definition changed_entry :: "(string, py) dict \<Rightarrow> string \<Rightarrow> py \<Rightarrow> (string, py) dict" where
  "changed_entry d2 k v =
     (case dget d2 k of Some v2 \<Rightarrow> if v2 \<noteq> v then [(k, v2)] else [] | None \<Rightarrow> [])"

fun delta_of :: "string list \<Rightarrow> bool \<Rightarrow> (string \<times> py) list \<Rightarrow> (string, py) dict \<Rightarrow> (string, py) dict result" where
  "delta_of stop_keys allow [] d2 = Inr []"
| "delta_of stop_keys allow ((k, PDict e) # d1) d2 =
     bindR
       (if allow then
          bindR (case (case dget d2 k of None \<Rightarrow> PDict [] | Some x \<Rightarrow> x) of
                   PNone \<Rightarrow> Inr e
                 | PDict e2 \<Rightarrow> bindR (delta_of stop_keys (k \<notin> set stop_keys) e e2) (\<lambda>m. Inr (m @ new_entries e e2))
                 | x \<Rightarrow> Inl (Exn EAttributeError ''object has no attribute items''))
            (\<lambda>inner. Inr (if inner = [] then [] else [(k, PDict inner)]))
        else Inr (changed_entry d2 k (PDict e)))
       (\<lambda>part. bindR (delta_of stop_keys allow d1 d2) (\<lambda>rest. Inr (part @ rest)))"
| "delta_of stop_keys allow ((k, v) # d1) d2 =
     bindR (delta_of stop_keys allow d1 d2) (\<lambda>rest. Inr (changed_entry d2 k v @ rest))"

definition get_recursive_delta :: "py \<Rightarrow> py \<Rightarrow> string list \<Rightarrow> bool \<Rightarrow> py result" where
  "get_recursive_delta d1 d2 stop_keys allow =
     (case (d1, d2) of
        (PNone, d2) \<Rightarrow> Inr d2
      | (d1, PNone) \<Rightarrow> Inr d1
      | (PDict d1, PDict d2) \<Rightarrow>
          bindR (delta_of stop_keys allow d1 d2) (\<lambda>m. Inr (PDict (m @ new_entries d1 d2)))
      | _ \<Rightarrow> Inl (Exn EAttributeError ''object has no attribute items''))"

text \<open>
  \<^verbatim>\<open>prune\<close>: \<^verbatim>\<open>is_mapping\<close> tells the fields whose children all stay. The branch for lists tests the list
  where it means its entry, so entries are kept whole.
\<close>

fun prune_items :: "(string \<Rightarrow> bool) \<Rightarrow> string list \<Rightarrow> string \<Rightarrow> (string \<times> py) list \<Rightarrow> (string, py) dict" where
  "prune_items is_mapping keys parent [] = []"
| "prune_items is_mapping keys parent ((k, v) # xs) =
     (let cur = under parent k in
      if is_mapping cur then [(k, v)]
      else case v of
        PDict d \<Rightarrow>
          let child_keys = filter (\<lambda>x. py_startswith x cur) keys in
          (if child_keys \<noteq> [] then [(k, PDict (prune_items is_mapping child_keys cur d))] else [])
      | PList ys \<Rightarrow>
          if cur \<notin> set keys \<and> \<not> list_ex (\<lambda>x. py_startswith x cur) keys then [] else [(k, PList ys)]
      | _ \<Rightarrow> if cur \<in> set keys then [(k, v)] else [])
     @ prune_items is_mapping keys parent xs"

section \<open>Flattening through lists\<close>

text \<open>
  \<^verbatim>\<open>flatten_deep\<close>: lists of dictionaries are looked through, and what their entries hold under one key is
  collected in a list. An entry that is no dictionary beside one that is raises. The lists collected are
  those of the data, which the code extends in place; data parsed from JSON shares no lists, so no other part
  of the result sees it.
\<close>

definition collect :: "(string, py) dict \<Rightarrow> string \<Rightarrow> py \<Rightarrow> (string, py) dict result" where
  "collect final k v =
     (let vs = (case v of PList xs \<Rightarrow> xs | _ \<Rightarrow> [v]) in
      case dget final k of
        None \<Rightarrow> Inr (dset final k (PList vs))
      | Some (PList ys) \<Rightarrow> Inr (dset final k (PList (ys @ vs)))
      | Some x \<Rightarrow> Inl (Exn EAttributeError ''object has no attribute append''))"

definition is_dict :: "py \<Rightarrow> bool" where
  "is_dict v = (case v of PDict d \<Rightarrow> True | _ \<Rightarrow> False)"

definition entry_sizes :: "(string \<times> py) list \<Rightarrow> nat" where
  "entry_sizes d = sum_list (map (\<lambda>kv. Suc (size (snd kv))) d)"

lemma entry_sizes_simps [simp]:
  "entry_sizes [] = 0" "entry_sizes (kv # d) = Suc (size (snd kv)) + entry_sizes d"
  by (simp_all add: entry_sizes_def)

lemma entry_sizes_dset: "entry_sizes (dset d k v) \<le> entry_sizes d + Suc (size v)"
  by (induction d k v rule: dset.induct) auto

lemma entry_sizes_update: "entry_sizes (dict_update d e) \<le> entry_sizes d + entry_sizes e"
proof (induction e arbitrary: d)
  case (Cons kv e)
  have "entry_sizes (dict_update d (kv # e)) \<le> entry_sizes (dset d (fst kv) (snd kv)) + entry_sizes e"
    using Cons.IH by (simp add: dict_update_def split_def)
  with entry_sizes_dset [of d "fst kv" "snd kv"] show ?case by simp
qed (simp add: dict_update_def)

lemma size_PDict: "entry_sizes d < size (PDict d)"
  by (induction d) auto

lemma size_PList: "sum_list (map (\<lambda>e. Suc (size e)) es) < size (PList es)"
  by (induction es) auto

lemma twice_PDict: "2 * entry_sizes d \<le> 2 * size (PDict d) + n"
  using size_PDict [of d] by linarith

lemma twice_PList: "2 * sum_list (map (\<lambda>e. Suc (size e)) es) \<le> Suc (2 * size (PList es) + n)"
  using size_PList [of es] by linarith

lemma entry_sizes_store: "n \<le> entry_sizes (dset d k v) + m \<Longrightarrow> n \<le> entry_sizes d + (Suc (size v) + m)"
  using entry_sizes_dset [of d k v] by linarith

lemma entry_sizes_flatten_into:
  "entry_sizes (flatten_into stop prefix acc xs) \<le> entry_sizes acc + entry_sizes xs"
proof (induction stop prefix acc xs rule: flatten_into.induct)
  case (2 stop prefix acc k d xs)
  let ?acc = "if stop (under prefix k) then dset acc (under prefix k) (PDict d)
    else dict_update acc (flatten_into stop (under prefix k) [] d)"
  have "entry_sizes ?acc \<le> entry_sizes acc + Suc (size (PDict d))"
  proof (cases "stop (under prefix k)")
    case True
    then show ?thesis using entry_sizes_dset [of acc "under prefix k" "PDict d"] by simp
  next
    case False
    then have "entry_sizes ?acc \<le> entry_sizes acc + entry_sizes (flatten_into stop (under prefix k) [] d)"
      using entry_sizes_update by simp
    also have "\<dots> \<le> entry_sizes acc + entry_sizes d" using 2(1) [OF False] by simp
    also have "\<dots> \<le> entry_sizes acc + Suc (size (PDict d))" using size_PDict [of d] by simp
    finally show ?thesis .
  qed
  moreover have "entry_sizes (flatten_into stop prefix ?acc xs) \<le> entry_sizes ?acc + entry_sizes xs" by (rule 2(2))
  ultimately show ?case by simp
qed (simp_all only: flatten_into.simps entry_sizes_simps entry_sizes_store fst_conv snd_conv add_0_right order_refl)

lemma entry_sizes_flatten: "entry_sizes (flatten d) \<le> entry_sizes d"
  using entry_sizes_flatten_into [of _ _ "[]" d] by (simp add: flatten_def flatten_with_def)

function flatten_deep :: "(string, py) dict \<Rightarrow> (string, py) dict result"
and deep_values :: "(string, py) dict \<Rightarrow> (string \<times> py) list \<Rightarrow> (string, py) dict result"
and deep_entries :: "string \<Rightarrow> (string, py) dict \<Rightarrow> py list \<Rightarrow> (string, py) dict result" where
  "flatten_deep data = deep_values [] (flatten data)"
| "deep_values final [] = Inr final"
| "deep_values final ((k, v) # xs) =
     (case v of
        PList es \<Rightarrow>
          if list_ex is_dict es then bindR (deep_entries k final es) (\<lambda>f. deep_values f xs)
          else deep_values (dset final k v) xs
      | _ \<Rightarrow> deep_values (dset final k v) xs)"
| "deep_entries k final [] = Inr final"
| "deep_entries k final (e # es) =
     (case e of
        PDict d \<Rightarrow>
          bindR (flatten_deep d) (\<lambda>flat.
          bindR (foldR (\<lambda>f (ck, cv). collect f (k @ ''.'' @ ck) cv) final flat) (\<lambda>f. deep_entries k f es))
      | _ \<Rightarrow> Inl (Exn EAttributeError ''object has no attribute items''))"
  by pat_completeness auto
termination
  by (relation "measure (case_sum (\<lambda>d. 2 * entry_sizes d + 1)
      (case_sum (\<lambda>(f, xs). 2 * entry_sizes xs) (\<lambda>(k, f, es). 2 * sum_list (map (\<lambda>e. Suc (size e)) es))))")
    (auto simp: less_Suc_eq_le entry_sizes_flatten twice_PList twice_PDict simp del: py.size)

section \<open>Unflatten after flatten\<close>

text \<open>
  A dictionary in normal form: its keys are distinct, non-empty and free of dots, and no nested
  dictionary is empty (an empty one leaves no leaf).
\<close>

definition key_ok :: "string \<Rightarrow> bool" where
  "key_ok k \<longleftrightarrow> k \<noteq> [] \<and> CHR ''.'' \<notin> set k"

fun tree_ok :: "py \<Rightarrow> bool" where
  "tree_ok (PDict d) =
     (d \<noteq> [] \<and> distinct (map fst d) \<and> (\<forall>kv\<in>set d. key_ok (fst kv) \<and> tree_ok (snd kv)))"
| "tree_ok v = True"

text \<open>The leaves with their paths, in order.\<close>

fun leaves :: "(string \<times> py) list \<Rightarrow> (string list \<times> py) list" where
  "leaves [] = []"
| "leaves ((k, PDict d) # xs) = map (\<lambda>pv. (k # fst pv, snd pv)) (leaves d) @ leaves xs"
| "leaves ((k, v) # xs) = ([k], v) # leaves xs"

definition items_ok :: "(string \<times> py) list \<Rightarrow> bool" where
  "items_ok d \<longleftrightarrow> distinct (map fst d) \<and> (\<forall>kv\<in>set d. key_ok (fst kv) \<and> tree_ok (snd kv))"

lemma items_ok_Cons:
  "items_ok ((k, v) # d) \<longleftrightarrow> k \<notin> set (map fst d) \<and> key_ok k \<and> tree_ok v \<and> items_ok d"
  by (auto simp: items_ok_def)

lemma tree_ok_PDict: "tree_ok (PDict d) \<longleftrightarrow> d \<noteq> [] \<and> items_ok d"
  by (auto simp: items_ok_def)

declare tree_ok.simps(1) [simp del]

lemma leaves_path:
  "items_ok d \<Longrightarrow> pv \<in> set (leaves d) \<Longrightarrow>
   fst pv \<noteq> [] \<and> hd (fst pv) \<in> set (map fst d) \<and> (\<forall>k\<in>set (fst pv). key_ok k)"
proof (induction d arbitrary: pv rule: leaves.induct)
  case (2 k d xs)
  have d: "items_ok d" and xs: "items_ok xs" and k: "key_ok k"
    using 2(3) by (auto simp: items_ok_Cons tree_ok_PDict)
  from 2(4) consider qv where "qv \<in> set (leaves d)" "pv = (k # fst qv, snd qv)" | "pv \<in> set (leaves xs)"
    by auto
  then show ?case
  proof cases
    case 1
    with 2(1) [OF d 1(1)] k show ?thesis by simp
  next
    case 2
    with "2.IH"(2) [OF xs 2] show ?thesis by simp
  qed
qed (auto simp: items_ok_Cons)

lemma leaves_nonempty: "items_ok d \<Longrightarrow> d \<noteq> [] \<Longrightarrow> leaves d \<noteq> []"
  by (induction d rule: leaves.induct) (auto simp: items_ok_Cons tree_ok_PDict)

lemma leaves_fresh:
  assumes "items_ok xs" and "k \<notin> set (map fst xs)" and "pv \<in> set (leaves xs)"
  shows "fst pv \<noteq> k # p"
  using leaves_path [OF assms(1,3)] assms(2) by (cases "fst pv") auto

lemma distinct_leaves: "items_ok d \<Longrightarrow> distinct (map fst (leaves d))"
proof (induction d rule: leaves.induct)
  case (2 k d xs)
  have d: "items_ok d" and xs: "items_ok xs" and k: "k \<notin> set (map fst xs)"
    using 2 by (auto simp: items_ok_Cons tree_ok_PDict)
  have "map fst (map (\<lambda>pv. (k # fst pv, snd pv)) (leaves d)) = map (\<lambda>p. k # p) (map fst (leaves d))"
    by simp
  moreover have "distinct (map (\<lambda>p. k # p) (map fst (leaves d)))"
    using 2(1) [OF d] by (simp add: distinct_map inj_on_def)
  moreover have "set (map (\<lambda>p. k # p) (map fst (leaves d))) \<inter> set (map fst (leaves xs)) = {}"
    using leaves_fresh [OF xs k] by fastforce
  ultimately show ?case using 2(2) [OF xs] by (simp only: leaves.simps map_append distinct_append)
qed (auto simp: items_ok_Cons dest!: leaves_fresh [of _ _ _ "[]"])

text \<open>Flattening lists the leaves under their joined paths.\<close>

lemma under_path:
  "p \<noteq> [] \<Longrightarrow> \<forall>k\<in>set p. k \<noteq> [] \<Longrightarrow>
   foldl under pre p = (if pre = [] then py_join ''.'' p else pre @ ''.'' @ py_join ''.'' p)"
proof (induction p arbitrary: pre)
  case (Cons k p)
  show ?case
  proof (cases "p = []")
    case False
    with Cons show ?thesis by (simp add: under_def py_join_Cons)
  qed (simp add: under_def)
qed simp

lemma path_of_key:
  assumes "p \<noteq> []" and "\<forall>k\<in>set p. key_ok k"
  shows "split_char CHR ''.'' (py_join ''.'' p) = p"
  using assms by (intro split_char_join) (auto simp: key_ok_def)

lemma under_path_inj:
  assumes "p \<noteq> []" "\<forall>k\<in>set p. key_ok k" and "q \<noteq> []" "\<forall>k\<in>set q. key_ok k"
    and "foldl under pre p = foldl under pre q"
  shows "p = q"
proof -
  from assms have "py_join ''.'' p = py_join ''.'' q"
    by (auto simp: under_path key_ok_def split: if_splits)
  with path_of_key [OF assms(1,2)] path_of_key [OF assms(3,4)] show ?thesis by metis
qed

lemma dset_fresh: "k \<notin> set (dkeys d) \<Longrightarrow> dset d k v = d @ [(k, v)]"
  by (induction d k v rule: dset.induct) (auto simp: dkeys_def)

lemma dict_update_fresh: "distinct (dkeys d @ map fst e) \<Longrightarrow> dict_update d e = d @ e"
  unfolding dict_update_def
proof (induction e arbitrary: d)
  case (Cons kv e)
  then show ?case by (cases kv) (simp add: dset_fresh dkeys_def)
qed simp

lemma flatten_into_leaves:
  "items_ok d \<Longrightarrow> distinct (dkeys acc @ map (\<lambda>pv. foldl under pre (fst pv)) (leaves d)) \<Longrightarrow>
   flatten_into (\<lambda>_. False) pre acc d = acc @ map (\<lambda>pv. (foldl under pre (fst pv), snd pv)) (leaves d)"
proof (induction "\<lambda>_::string. False" pre acc d rule: flatten_into.induct)
  case (2 pre acc k d xs)
  have d: "items_ok d" and xs: "items_ok xs" using 2(3) by (auto simp: items_ok_Cons tree_ok_PDict)
  let ?inner = "map (\<lambda>pv. (foldl under (under pre k) (fst pv), snd pv)) (leaves d)"
  have "flatten_into (\<lambda>_. False) (under pre k) [] d = ?inner"
    using 2(1) [OF _ d] 2(4) by (simp add: comp_def dkeys_def)
  moreover have "dict_update acc ?inner = acc @ ?inner"
    using 2(4) by (intro dict_update_fresh) (simp add: comp_def, blast)
  moreover have "flatten_into (\<lambda>_. False) pre (acc @ ?inner) xs =
      (acc @ ?inner) @ map (\<lambda>pv. (foldl under pre (fst pv), snd pv)) (leaves xs)"
    using 2(2) [OF xs] 2(4) calculation by (simp add: comp_def dkeys_def)
  ultimately show ?case by (simp add: comp_def)
qed (auto simp: items_ok_Cons dset_fresh dkeys_def)

lemma flatten_leaves:
  assumes "items_ok d"
  shows "flatten d = map (\<lambda>pv. (py_join ''.'' (fst pv), snd pv)) (leaves d)"
proof -
  let ?key = "\<lambda>pv. foldl under [] (fst pv :: string list)"
  have path: "fst pv \<noteq> [] \<and> (\<forall>k\<in>set (fst pv). key_ok k)" if "pv \<in> set (leaves d)" for pv
    using leaves_path [OF assms that] by blast
  have join: "?key pv = py_join ''.'' (fst pv)" if "pv \<in> set (leaves d)" for pv
    using path [OF that] under_path [of "fst pv" "[]"] by (auto simp: key_ok_def)
  have "inj_on ?key (set (leaves d))"
  proof (rule inj_onI)
    fix pv qv assume *: "pv \<in> set (leaves d)" "qv \<in> set (leaves d)" "?key pv = ?key qv"
    from path [OF *(1)] path [OF *(2)] *(3) have "fst pv = fst qv" by (intro under_path_inj [of _ _ "[]"]) auto
    moreover have "inj_on fst (set (leaves d))" using distinct_leaves [OF assms] by (simp add: distinct_map)
    ultimately show "pv = qv" using *(1,2) by (simp add: inj_onD)
  qed
  then have "distinct (map ?key (leaves d))"
    using distinct_leaves [OF assms] by (simp add: distinct_map)
  then have "flatten d = map (\<lambda>pv. (?key pv, snd pv)) (leaves d)"
    using flatten_into_leaves [OF assms, of "[]" "[]"]
    by (simp add: flatten_def flatten_with_def outside_model_def [abs_def] dkeys_def)
  with join show ?thesis by simp
qed

text \<open>Storing the leaves of a dictionary one by one builds the dictionary.\<close>

definition put_leaf :: "(string, py) dict \<Rightarrow> string list \<times> py \<Rightarrow> (string, py) dict result" where
  "put_leaf out pv = put_path (fst pv) (snd pv) out"

lemma put_path_Cons:
  "p \<noteq> [] \<Longrightarrow> k \<notin> set (dkeys out) \<Longrightarrow>
   put_path (k # p) v (out @ [(k, PDict e)]) = bindR (put_path p v e) (\<lambda>e'. Inr (out @ [(k, PDict e')]))"
proof -
  assume p: "p \<noteq> []" and k: "k \<notin> set (dkeys out)"
  have get: "dget (out @ [(k, PDict e)]) k = Some (PDict e)"
    using k by (induction out) (auto simp: dkeys_def)
  have set: "dset (out @ [(k, PDict e)]) k w = out @ [(k, w)]" for w
    using k by (induction out) (auto simp: dkeys_def)
  show ?thesis using p get set by (cases p) simp_all
qed

lemma put_path_new:
  "p \<noteq> [] \<Longrightarrow> k \<notin> set (dkeys out) \<Longrightarrow>
   put_path (k # p) v out = bindR (put_path p v []) (\<lambda>e. Inr (out @ [(k, PDict e)]))"
  by (cases p) (simp_all add: dget_None_iff [THEN iffD2] dset_fresh)

lemma put_under:
  "\<forall>pv\<in>set ls. fst pv \<noteq> [] \<Longrightarrow> k \<notin> set (dkeys out) \<Longrightarrow>
   foldR put_leaf (out @ [(k, PDict e)]) (map (\<lambda>pv. (k # fst pv, snd pv)) ls) =
   bindR (foldR put_leaf e ls) (\<lambda>e'. Inr (out @ [(k, PDict e')]))"
proof (induction ls arbitrary: e)
  case (Cons pv ls)
  then show ?case by (cases "put_leaf e pv") (simp_all add: put_leaf_def put_path_Cons)
qed simp

lemma put_leaves:
  "items_ok d \<Longrightarrow> set (dkeys out) \<inter> set (map fst d) = {} \<Longrightarrow> foldR put_leaf out (leaves d) = Inr (out @ d)"
proof (induction d arbitrary: out rule: leaves.induct)
  case (2 k d xs)
  have d: "items_ok d" "d \<noteq> []" and xs: "items_ok xs" and kx: "k \<notin> set (map fst xs)"
    using 2(3) by (auto simp: items_ok_Cons tree_ok_PDict)
  have k: "k \<notin> set (dkeys out)" using 2(4) by simp
  obtain pv ls where ls: "leaves d = pv # ls" using leaves_nonempty [OF d] by (cases "leaves d") auto
  have path: "\<forall>qv\<in>set (pv # ls). fst qv \<noteq> []" using leaves_path [OF d(1)] ls by fastforce
  have inner: "foldR put_leaf [] (pv # ls) = Inr d" using 2(1) [OF d(1), of "[]"] ls by (simp add: dkeys_def)
  then obtain e where e: "put_leaf [] pv = Inr e" "foldR put_leaf e ls = Inr d" by (auto simp: bindR_eq_Inr)
  have "put_leaf out (k # fst pv, snd pv) = Inr (out @ [(k, PDict e)])"
    using path k e(1) by (simp add: put_leaf_def put_path_new)
  moreover have "foldR put_leaf (out @ [(k, PDict e)]) (map (\<lambda>pv. (k # fst pv, snd pv)) ls) =
      Inr (out @ [(k, PDict d)])"
    using path k e(2) by (simp add: put_under)
  moreover have "foldR put_leaf (out @ [(k, PDict d)]) (leaves xs) = Inr ((out @ [(k, PDict d)]) @ xs)"
    by (rule 2(2) [OF xs]) (use 2(4) kx in \<open>auto simp: dkeys_def\<close>)
  ultimately show ?case by (simp add: ls foldR_append)
qed (auto simp: items_ok_Cons put_leaf_def dset_fresh dkeys_def)

text \<open>
  C23: Unflattening a flattened dictionary gives the dictionary back, in the same order, whenever its
  keys at each level are distinct, non-empty and free of dots and no nested dictionary is empty.
\<close>

theorem unflatten_flatten:
  assumes "tree_ok (PDict d)"
  shows "unflatten (flatten d) = Inr d"
proof -
  have ok: "items_ok d" using assms by (simp add: tree_ok_PDict)
  have "unflatten (flatten d) = foldR put_leaf [] (leaves d)"
  proof -
    have "foldR (\<lambda>out (k, v). put_path (split_char CHR ''.'' k) v out) out
            (map (\<lambda>pv. (py_join ''.'' (fst pv), snd pv)) ls) = foldR put_leaf out ls"
      if "set ls \<subseteq> set (leaves d)" for out ls
      using that
    proof (induction ls arbitrary: out)
      case (Cons pv ls)
      then have "split_char CHR ''.'' (py_join ''.'' (fst pv)) = fst pv"
        using leaves_path [OF ok, of pv] by (intro path_of_key) auto
      with Cons show ?case by (cases "put_leaf out pv") (simp_all add: put_leaf_def)
    qed simp
    then show ?thesis by (simp add: unflatten_def flatten_leaves [OF ok])
  qed
  with put_leaves [OF ok, of "[]"] show ?thesis by (simp add: dkeys_def)
qed

theorem unflatten_flatten_witness:
  "let d = [(''howler'', PDict [(''id'', PStr ''h1''), (''outline'', PDict [(''threat'', PStr ''apt'')])]),
            (''tool'', PStr ''zeek'')] in
   flatten d = [(''howler.id'', PStr ''h1''), (''howler.outline.threat'', PStr ''apt''), (''tool'', PStr ''zeek'')] \<and>
   unflatten (flatten d) = Inr d"
  using unflatten_flatten [of "[(''howler'', PDict [(''id'', PStr ''h1''), (''outline'', PDict [(''threat'', PStr ''apt'')])]),
            (''tool'', PStr ''zeek'')]"]
  by (simp add: tree_ok_PDict items_ok_def key_ok_def flatten_def flatten_with_def outside_model_def under_def dict_update_def)

end
