(* ===== verification/RegexRuns.thy ===== *)
theory RegexRuns
  imports Regex
begin

text \<open>
  How Python's \<^verbatim>\<open>re\<close> runs through the ways a pattern can match the start of a text: choices from left to
  right, repetitions as long as possible first. \<^verbatim>\<open>rx_runs\<close> lists what each way leaves of the text, and is proved
  to list exactly the words of the pattern. The order decides what the groups of \<^verbatim>\<open>FULL_URI\<close> hold.
\<close>

section \<open>Runs\<close>

fun rep_runs :: "(string \<Rightarrow> string list) \<Rightarrow> nat \<Rightarrow> nat \<Rightarrow> string \<Rightarrow> string list" where
  "rep_runs f m 0 s = (if m = 0 then [s] else [])"
| "rep_runs f m (Suc n) s = concat (map (rep_runs f (m - 1) n) (f s)) @ (if m = 0 then [s] else [])"

text \<open>A repetition without a bound goes on only while it consumes something.\<close>

fun many_runs :: "(string \<Rightarrow> string list) \<Rightarrow> nat \<Rightarrow> string \<Rightarrow> string list" where
  "many_runs f 0 s = [s]"
| "many_runs f (Suc n) s = concat (map (many_runs f n) (filter (\<lambda>u. length u < length s) (f s))) @ [s]"

primrec rx_runs :: "rx \<Rightarrow> string \<Rightarrow> string list" where
  "rx_runs RxFail = (\<lambda>s. [])"
| "rx_runs RxEmpty = (\<lambda>s. [s])"
| "rx_runs (RxRange rs) = (\<lambda>s. case s of [] \<Rightarrow> [] | c # t \<Rightarrow> if in_ranges c rs then [t] else [])"
| "rx_runs (RxSeq p q) = (\<lambda>s. concat (map (rx_runs q) (rx_runs p s)))"
| "rx_runs (RxAlt p q) = (\<lambda>s. rx_runs p s @ rx_runs q s)"
| "rx_runs (RxRep p m n) = rep_runs (rx_runs p) m n"
| "rx_runs (RxMany p) = (\<lambda>s. many_runs (rx_runs p) (length s) s)"

section \<open>The runs are the words\<close>

definition runs_words :: "(string \<Rightarrow> string list) \<Rightarrow> string set \<Rightarrow> bool" where
  "runs_words f A \<longleftrightarrow> (\<forall>s t. t \<in> set (f s) \<longleftrightarrow> (\<exists>w\<in>A. s = w @ t))"

lemma runs_wordsD: "runs_words f A \<Longrightarrow> t \<in> set (f s) \<longleftrightarrow> (\<exists>w\<in>A. s = w @ t)"
  by (simp add: runs_words_def)

lemma runs_then:
  assumes "runs_words f A"
  shows "t \<in> set (concat (map g (f s))) \<longleftrightarrow> (\<exists>a\<in>A. \<exists>u. s = a @ u \<and> t \<in> set (g u))"
proof -
  have "t \<in> set (concat (map g (f s))) \<longleftrightarrow> (\<exists>u. u \<in> set (f s) \<and> t \<in> set (g u))" by auto
  also have "\<dots> \<longleftrightarrow> (\<exists>u. (\<exists>a\<in>A. s = a @ u) \<and> t \<in> set (g u))" by (simp only: runs_wordsD [OF assms])
  finally show ?thesis by blast
qed

lemma rep_runs_words:
  assumes "runs_words f A"
  shows "t \<in> set (rep_runs f m n s) \<longleftrightarrow> (\<exists>k\<in>{m..n}. \<exists>w\<in>repeats A k. s = w @ t)"
proof (induction n arbitrary: m s)
  case (Suc n)
  have "t \<in> set (rep_runs f m (Suc n) s) \<longleftrightarrow>
      (\<exists>a\<in>A. \<exists>k\<in>{m - 1..n}. \<exists>w\<in>repeats A k. s = a @ w @ t) \<or> (m = 0 \<and> s = t)"
    unfolding rep_runs.simps set_append Un_iff runs_then [OF assms] Suc.IH by auto
  also have "\<dots> \<longleftrightarrow> (\<exists>k\<in>{m..Suc n}. \<exists>w\<in>repeats A k. s = w @ t)"
  proof
    assume "(\<exists>a\<in>A. \<exists>k\<in>{m - 1..n}. \<exists>w\<in>repeats A k. s = a @ w @ t) \<or> (m = 0 \<and> s = t)"
    then show "\<exists>k\<in>{m..Suc n}. \<exists>w\<in>repeats A k. s = w @ t"
    proof
      assume "\<exists>a\<in>A. \<exists>k\<in>{m - 1..n}. \<exists>w\<in>repeats A k. s = a @ w @ t"
      then obtain a k w where "a \<in> A" "k \<in> {m - 1..n}" "w \<in> repeats A k" "s = a @ w @ t" by blast
      then have "a @ w \<in> repeats A (Suc k)" "Suc k \<in> {m..Suc n}" "s = (a @ w) @ t" by (auto simp: concats_def)
      then show ?thesis by blast
    next
      assume "m = 0 \<and> s = t"
      then show ?thesis by (intro bexI [of _ 0]) auto
    qed
  next
    assume "\<exists>k\<in>{m..Suc n}. \<exists>w\<in>repeats A k. s = w @ t"
    then obtain k w where k: "k \<in> {m..Suc n}" "w \<in> repeats A k" "s = w @ t" by blast
    show "(\<exists>a\<in>A. \<exists>k\<in>{m - 1..n}. \<exists>w\<in>repeats A k. s = a @ w @ t) \<or> (m = 0 \<and> s = t)"
    proof (cases k)
      case (Suc j)
      with k(2) obtain a v where "a \<in> A" "v \<in> repeats A j" "w = a @ v" by (auto simp: concats_def)
      with k Suc show ?thesis by (intro disjI1 bexI [of _ a] bexI [of _ j] bexI [of _ v]) auto
    qed (use k in auto)
  qed
  finally show ?case .
qed auto

lemma many_runs_words:
  assumes "runs_words f A"
  shows "length s \<le> n \<Longrightarrow> t \<in> set (many_runs f n s) \<longleftrightarrow> (\<exists>k. \<exists>w\<in>repeats A k. s = w @ t)"
proof (induction n arbitrary: s)
  case 0
  have "(\<exists>k. \<exists>w\<in>repeats A k. [] = w @ t) \<longleftrightarrow> t = []" by (auto intro!: exI [of _ 0])
  with 0 show ?case by simp
next
  case (Suc n)
  show ?case
  proof
    assume "t \<in> set (many_runs f (Suc n) s)"
    then consider "t = s" | u where "u \<in> set (f s)" "length u < length s" "t \<in> set (many_runs f n u)" by auto
    then show "\<exists>k. \<exists>w\<in>repeats A k. s = w @ t"
    proof cases
      case 1
      then show ?thesis by (intro exI [of _ 0]) simp
    next
      case 2
      with Suc.prems have "length u \<le> n" by simp
      with 2 Suc.IH [of u] obtain k w where "w \<in> repeats A k" "u = w @ t" by blast
      moreover obtain a where "a \<in> A" "s = a @ u" using 2(1) runs_wordsD [OF assms] by blast
      ultimately have "a @ w \<in> repeats A (Suc k)" "s = (a @ w) @ t" by (auto simp: concats_def)
      then show ?thesis by blast
    qed
  next
    assume "\<exists>k. \<exists>w\<in>repeats A k. s = w @ t"
    then obtain k w where w: "w \<in> repeats A k" "s = w @ t" by blast
    show "t \<in> set (many_runs f (Suc n) s)"
    proof (cases w)
      case Nil
      with w(2) show ?thesis by simp
    next
      case (Cons c v)
      with w(1) many_after [of c v A] obtain a u j where a: "v = a @ u" "c # a \<in> A" "u \<in> repeats A j" by blast
      have "s = (c # a) @ (u @ t)" using w(2) Cons a(1) by simp
      then have "u @ t \<in> set (f s)" using a(2) runs_wordsD [OF assms] by blast
      moreover have "length (u @ t) < length s" using \<open>s = (c # a) @ (u @ t)\<close> by simp
      moreover have "t \<in> set (many_runs f n (u @ t))"
        using Suc.IH [of "u @ t"] Suc.prems \<open>length (u @ t) < length s\<close> a(3) by fastforce
      ultimately show ?thesis by auto
    qed
  qed
qed

lemma rx_runs_words: "runs_words (rx_runs r) (rx_words r)"
proof (induction r)
  case (RxRange rs)
  show ?case by (auto simp: runs_words_def split: list.splits)
next
  case (RxSeq p q)
  have "t \<in> set (rx_runs (RxSeq p q) s) \<longleftrightarrow> (\<exists>w\<in>rx_words (RxSeq p q). s = w @ t)" for s t
  proof -
    have "t \<in> set (rx_runs (RxSeq p q) s) \<longleftrightarrow> (\<exists>a\<in>rx_words p. \<exists>b\<in>rx_words q. s = a @ b @ t)"
      using runs_then [OF RxSeq.IH(1), of t "rx_runs q" s] runs_wordsD [OF RxSeq.IH(2)] by auto
    also have "\<dots> \<longleftrightarrow> (\<exists>w\<in>rx_words (RxSeq p q). s = w @ t)" by (simp add: concats_def) (metis append_assoc)
    finally show ?thesis .
  qed
  then show ?case by (simp add: runs_words_def)
next
  case (RxAlt p q)
  then show ?case by (auto simp: runs_words_def)
next
  case (RxRep p m n)
  then show ?case by (auto simp: runs_words_def rep_runs_words)
next
  case (RxMany p)
  then show ?case by (auto simp: runs_words_def many_runs_words)
qed (auto simp: runs_words_def)

text \<open>Every run leaves an end of the text, after a word of the pattern.\<close>

lemma rx_run: "t \<in> set (rx_runs r s) \<longleftrightarrow> (\<exists>w. rx_accepts r w \<and> s = w @ t)"
  using runs_wordsD [OF rx_runs_words] by (auto simp: rx_accepts_words)

section \<open>Domains, e-mail addresses and URIs\<close>

text \<open>
  Characters end at \<open>0xFF\<close>: of the letters \<open>0xA1\<close> to \<open>0xFFFF\<close> the patterns allow, those that a string of this
  development can hold; the quotation mark \<open>0x2018\<close> of e-mail names is left out for that reason.
\<close>

definition rx_plus :: "rx \<Rightarrow> rx" where
  "rx_plus r = RxSeq r (RxMany r)"

definition letters_and_digits :: "(char \<times> char) list" where
  "letters_and_digits =
     [(CHR ''A'', CHR ''Z''), (CHR ''a'', CHR ''z''), (CHR ''0'', CHR ''9''), (CHR 0xA1, CHR 0xFF)]"

definition DOMAIN_REGEX :: rx where
  "DOMAIN_REGEX =
     (let l = RxRange letters_and_digits; ld = RxRange (letters_and_digits @ [(CHR ''_'', CHR ''_''), (CHR ''-'', CHR ''-'')]) in
      RxSeq (rx_plus (rx_seqs [rx_opt (RxSeq l (RxRep ld 0 62)), l, rx_text ''.'']))
        (rx_seqs [rx_opt (rx_text ''xn--''), l, rx_plus l, rx_opt (rx_text ''.'')]))"

definition EMAIL_NAME_REGEX :: rx where
  "EMAIL_NAME_REGEX =
     (let e = RxRange [(CHR ''a'', CHR ''z''), (CHR ''A'', CHR ''Z''), (CHR ''0'', CHR ''9''), (CHR ''!'', CHR ''!''),
                       (CHR ''#'', CHR 0x27), (CHR ''*'', CHR ''+''), (CHR ''-'', CHR ''-''), (CHR ''/'', CHR ''/''),
                       (CHR ''='', CHR ''=''), (CHR ''?'', CHR ''?''), (CHR ''^'', CHR ''_''), (CHR ''{'', CHR ''~'')] in
      RxSeq (rx_plus e) (RxMany (RxSeq (rx_text ''.'') (rx_plus e))))"

definition rx_nonspace :: rx where
  "rx_nonspace =
     RxRange [(CHR 0x00, CHR 0x08), (CHR 0x0E, CHR 0x1B), (CHR 0x21, CHR 0x84), (CHR 0x86, CHR 0x9F), (CHR 0xA1, CHR 0xFF)]"

definition URI_PATH :: rx where
  "URI_PATH =
     RxSeq (RxRange [(CHR ''/'', CHR ''/''), (CHR ''?'', CHR ''?''), (CHR ''#'', CHR ''#'')]) (RxMany rx_nonspace)"

definition URI_SCHEME :: rx where
  "URI_SCHEME =
     rx_opt (RxSeq (rx_opt (RxSeq (RxMany (RxRange [(CHR ''A'', CHR ''Z''), (CHR ''a'', CHR ''z'')])) (rx_text '':'')))
       (rx_text ''//''))"

definition URI_USER :: rx where
  "URI_USER =
     rx_opt (rx_seqs [rx_plus rx_nonspace, rx_opt (RxSeq (rx_text '':'') (RxMany rx_nonspace)), RxRange [(CHR 0x40, CHR 0x40)]])"

definition URI_HOST :: rx where
  "URI_HOST = RxAlt IP_REGEX DOMAIN_REGEX"

definition URI_PORT :: rx where
  "URI_PORT = rx_opt (RxSeq (rx_text '':'') (RxRep rx_digit 2 5))"

text \<open>
  \<^verbatim>\<open>re.match(FULL_URI, s)\<close>: of the first run that reaches the end, or a last line break, the whole match, its
  first group (all before the path) and its second one (the host).
\<close>

definition before :: "string \<Rightarrow> string \<Rightarrow> string" where
  "before s t = take (length s - length t) s"

definition uri_runs :: "string \<Rightarrow> (string \<times> string \<times> string) list" where
  "uri_runs s =
     concat (map (\<lambda>r1. concat (map (\<lambda>r2. concat (map (\<lambda>r3. concat (map (\<lambda>r4.
       map (\<lambda>r5. (before s r5, before s r4, before r2 r3))
         (filter (\<lambda>r5. r5 = [] \<or> r5 = [CHR 0x0A]) (rx_runs (rx_opt URI_PATH) r4)))
       (rx_runs URI_PORT r3))) (rx_runs URI_HOST r2))) (rx_runs URI_USER r1))) (rx_runs URI_SCHEME s))"

definition uri_match :: "string \<Rightarrow> (string \<times> string \<times> string) option" where
  "uri_match s = (case uri_runs s of [] \<Rightarrow> None | m # ms \<Rightarrow> Some m)"

lemma before_append [simp]: "before (w @ t) t = w"
  by (simp add: before_def)

lemma uri_match_parts:
  assumes "uri_match s = Some (whole, head, host)"
  obtains scheme usr port path rest where
    "whole = scheme @ usr @ host @ port @ path" "head = scheme @ usr @ host @ port"
    "s = whole @ rest" "rest = [] \<or> rest = [CHR 0x0A]"
    "rx_accepts URI_SCHEME scheme" "rx_accepts URI_USER usr" "rx_accepts URI_HOST host"
    "rx_accepts URI_PORT port" "rx_accepts (rx_opt URI_PATH) path"
proof -
  have "(whole, head, host) \<in> set (uri_runs s)"
    using assms by (auto simp: uri_match_def split: list.splits)
  then obtain r1 r2 r3 r4 r5 where
    runs: "r1 \<in> set (rx_runs URI_SCHEME s)" "r2 \<in> set (rx_runs URI_USER r1)" "r3 \<in> set (rx_runs URI_HOST r2)"
      "r4 \<in> set (rx_runs URI_PORT r3)" "r5 \<in> set (rx_runs (rx_opt URI_PATH) r4)" "r5 = [] \<or> r5 = [CHR 0x0A]"
    and parts: "whole = before s r5" "head = before s r4" "host = before r2 r3"
    by (auto simp: uri_runs_def)
  obtain a where a: "rx_accepts URI_SCHEME a" "s = a @ r1" using runs(1) rx_run by blast
  obtain b where b: "rx_accepts URI_USER b" "r1 = b @ r2" using runs(2) rx_run by blast
  obtain c where c: "rx_accepts URI_HOST c" "r2 = c @ r3" using runs(3) rx_run by blast
  obtain d where d: "rx_accepts URI_PORT d" "r3 = d @ r4" using runs(4) rx_run by blast
  obtain e where e: "rx_accepts (rx_opt URI_PATH) e" "r4 = e @ r5" using runs(5) rx_run by blast
  have s5: "s = (a @ b @ c @ d @ e) @ r5" and s4: "s = (a @ b @ c @ d) @ r4"
    by (simp_all add: a(2) b(2) c(2) d(2) e(2))
  have "host = c" by (simp add: parts(3) c(2))
  moreover have "whole = a @ b @ c @ d @ e" using before_append [of "a @ b @ c @ d @ e" r5] s5 parts(1) by simp
  moreover have "head = a @ b @ c @ d" using before_append [of "a @ b @ c @ d" r4] s4 parts(2) by simp
  ultimately show thesis using that a(1) b(1) c(1) d(1) e(1) runs(6) s5 by metis
qed

lemma uri_match_examples:
  "uri_match ''HTTP://u@h.io:80/p'' = Some (''HTTP://u@h.io:80/p'', ''HTTP://u@h.io:80'', ''h.io'')"
  "uri_match ''no host'' = None"
  by (code_simp, code_simp)

section \<open>Lower case\<close>

text \<open>The patterns of domains and e-mail names accept a text in lower case when they accept the text.\<close>

lemma lower_char_cases: "lower_char c = c \<or> (CHR ''a'' \<le> lower_char c \<and> lower_char c \<le> CHR ''z'')"
  by (cases c) (auto simp: letter_bits_def less_eq_char_def)

lemma lower_char_other: "\<not> (CHR ''a'' \<le> x \<and> x \<le> CHR ''z'') \<Longrightarrow> lower_char x = x \<Longrightarrow> lower_char c = x \<longleftrightarrow> c = x"
  using lower_char_cases [of c] by auto

definition lower_closed :: "string set \<Rightarrow> bool" where
  "lower_closed A \<longleftrightarrow> (\<forall>w\<in>A. py_lower w \<in> A)"

lemma py_lower_append: "py_lower (s @ t) = py_lower s @ py_lower t"
  by (simp add: py_lower_def)

lemma lower_closed_concats: "lower_closed A \<Longrightarrow> lower_closed B \<Longrightarrow> lower_closed (concats A B)"
  by (fastforce simp: lower_closed_def concats_def py_lower_append)

lemma lower_closed_repeats: "lower_closed A \<Longrightarrow> lower_closed (repeats A n)"
  by (induction n) (simp_all add: lower_closed_concats, simp add: lower_closed_def py_lower_def)

lemma lower_closed_Seq: "lower_closed (rx_words p) \<Longrightarrow> lower_closed (rx_words q) \<Longrightarrow> lower_closed (rx_words (RxSeq p q))"
  by (simp add: lower_closed_concats)

lemma lower_closed_Rep: "lower_closed (rx_words p) \<Longrightarrow> lower_closed (rx_words (RxRep p m n))"
  using lower_closed_repeats [of "rx_words p"] by (auto simp: lower_closed_def)

lemma lower_closed_Many: "lower_closed (rx_words p) \<Longrightarrow> lower_closed (rx_words (RxMany p))"
  using lower_closed_repeats [of "rx_words p"] by (auto simp: lower_closed_def)

lemma lower_closed_Empty: "lower_closed (rx_words RxEmpty)"
  by (simp add: lower_closed_def py_lower_def)

lemma lower_closed_letters: "(CHR ''a'', CHR ''z'') \<in> set rs \<Longrightarrow> lower_closed (rx_words (RxRange rs))"
proof -
  assume az: "(CHR ''a'', CHR ''z'') \<in> set rs"
  have "in_ranges c rs \<longleftrightarrow> (\<exists>lo hi. (lo, hi) \<in> set rs \<and> lo \<le> c \<and> c \<le> hi)" for c
  proof (induction rs)
    case (Cons r rs)
    then show ?case by (cases r) (simp only: in_ranges.simps list.set insert_iff prod.inject, blast)
  qed simp
  note ranges = this
  have "in_ranges (lower_char c) rs" if c: "in_ranges c rs" for c
    using lower_char_cases [of c]
  proof
    assume "lower_char c = c"
    with c show ?thesis by simp
  next
    assume "CHR ''a'' \<le> lower_char c \<and> lower_char c \<le> CHR ''z''"
    with az show ?thesis unfolding ranges by blast
  qed
  note lowered = this
  show ?thesis unfolding lower_closed_def rx_words.simps py_lower_def
  proof
    fix w assume "w \<in> {[c] |c. in_ranges c rs}"
    then obtain c where "w = [c]" "in_ranges c rs" by blast
    with lowered show "map lower_char w \<in> {[c] |c. in_ranges c rs}" by simp
  qed
qed

lemma lower_closed_char: "lower_char c = c \<Longrightarrow> lower_closed (rx_words (rx_char c))"
  by (auto simp: lower_closed_def py_lower_def rx_char_def)

lemmas lower_closed_intros = lower_closed_Seq lower_closed_Rep lower_closed_Many lower_closed_Empty
  lower_closed_letters lower_closed_char

lemma domain_lower: "rx_accepts DOMAIN_REGEX d \<Longrightarrow> rx_accepts DOMAIN_REGEX (py_lower d)"
proof -
  have "lower_closed (rx_words DOMAIN_REGEX)"
    unfolding DOMAIN_REGEX_def Let_def rx_plus_def rx_seqs.simps rx_opt_def rx_text.simps
    by (intro lower_closed_intros) (simp_all add: letters_and_digits_def letter_bits_def)
  then show "rx_accepts DOMAIN_REGEX d \<Longrightarrow> rx_accepts DOMAIN_REGEX (py_lower d)"
    by (simp add: lower_closed_def rx_accepts_words)
qed

lemma email_name_lower: "rx_accepts EMAIL_NAME_REGEX d \<Longrightarrow> rx_accepts EMAIL_NAME_REGEX (py_lower d)"
proof -
  have "lower_closed (rx_words EMAIL_NAME_REGEX)"
    unfolding EMAIL_NAME_REGEX_def Let_def rx_plus_def rx_text.simps
    by (intro lower_closed_intros) (simp_all add: letter_bits_def)
  then show "rx_accepts EMAIL_NAME_REGEX d \<Longrightarrow> rx_accepts EMAIL_NAME_REGEX (py_lower d)"
    by (simp add: lower_closed_def rx_accepts_words)
qed

lemma split_char_lower:
  "\<not> (CHR ''a'' \<le> x \<and> x \<le> CHR ''z'') \<Longrightarrow> lower_char x = x \<Longrightarrow> split_char x (py_lower s) = map py_lower (split_char x s)"
proof (induction s)
  case (Cons c s)
  have "lower_char c = x \<longleftrightarrow> c = x" by (rule lower_char_other [OF Cons.prems])
  moreover obtain p ps where "split_char x s = p # ps"
    using split_char_nonempty [of x s] by (cases "split_char x s") auto
  ultimately show ?case using Cons by (simp add: py_lower_def)
qed (simp add: py_lower_def)

end
