(* ===== verification/OdmCheck.thy ===== *)
theory OdmCheck
  imports Odm Json DictUtils Net RegexRuns
begin

text \<open>
  What \<^verbatim>\<open>odm/base.py\<close> does with data: the \<^verbatim>\<open>check\<close> method of every field class, building a model object
  from a dictionary (\<^verbatim>\<open>Model.__init__\<close>), and turning it back into primitives (\<^verbatim>\<open>as_primitives\<close>). The
  classification engine, the date and number parsers and the random ids are collected in a record; the
  state of a check is the number of random ids drawn. Field masks and extra fields, which no modelled
  caller passes, are left out; so is the dotted context in the text of an exception.
\<close>

section \<open>Checked values\<close>

datatype oval =
    ONone | OBool bool | OInt int | OFloat string | OStr string | ODate string | OClass string
  | OList "oval list" | OMap "(string \<times> oval) list" | OModel "(string \<times> oval) list"

text \<open>
  \<^verbatim>\<open>x_date\<close> is the moment a value denotes for \<^verbatim>\<open>strptime\<close> or \<^verbatim>\<open>arrow\<close>, written in \<^verbatim>\<open>DATEFORMAT\<close>, or None
  when both refuse; \<^verbatim>\<open>x_email\<close> is \<^verbatim>\<open>validators.email\<close>;
  \<^verbatim>\<open>x_class\<close> is \<^verbatim>\<open>normalize_classification\<close> with its \<^verbatim>\<open>skip_auto_select\<close>.
\<close>

record odm_ext =
  x_now :: string
  x_date :: "py \<Rightarrow> string option"
  x_float :: "py \<Rightarrow> string result"
  x_int :: "py \<Rightarrow> int result"
  x_class :: "bool \<Rightarrow> py \<Rightarrow> string result"
  x_class_valid :: "py \<Rightarrow> bool result"
  x_domain :: "string \<Rightarrow> bool"
  x_hostname :: "string \<Rightarrow> bool"
  x_email :: "string \<Rightarrow> bool"
  x_random_id :: "nat \<Rightarrow> string"

definition value_error :: "string \<Rightarrow> exn" where
  "value_error m = Exn EHowlerValue m"

text \<open>A default that a check returns as it stands.\<close>

fun as_given :: "py \<Rightarrow> oval" where
  "as_given PNone = ONone"
| "as_given (PBool b) = OBool b"
| "as_given (PInt i) = OInt i"
| "as_given (PFloat r) = OFloat r"
| "as_given (PStr s) = OStr s"
| "as_given (PList xs) = OList (map as_given xs)"
| "as_given (PDict d) = OMap (map (\<lambda>(k, v). (k, as_given v)) d)"

section \<open>Simple fields\<close>

definition str_or_none :: "py \<Rightarrow> oval" where
  "str_or_none v = (if v = PNone then ONone else OStr (py_str v))"

definition date_check :: "odm_ext \<Rightarrow> py \<Rightarrow> oval result" where
  "date_check E v =
     (if v = PNone then Inr ONone
      else case x_date E (if v = PStr ''NOW'' then PStr (x_now E) else v) of
             Some d \<Rightarrow> Inr (ODate d)
           | None \<Rightarrow> Inl (value_error ''not a date''))"

definition boolean_check :: "bool \<Rightarrow> py \<Rightarrow> oval result" where
  "boolean_check opt v = (if opt \<and> v = PNone then Inr ONone else Inr (OBool (truthy v)))"

definition json_check :: "bool \<Rightarrow> py \<Rightarrow> oval result" where
  "json_check opt v =
     (if opt \<and> v = PNone then Inr ONone
      else case v of PStr s \<Rightarrow> Inr (OStr s) | _ \<Rightarrow> Inr (OStr (json_dumps v)))"

definition keyword_check :: "bool \<Rightarrow> bool \<Rightarrow> py \<Rightarrow> py \<Rightarrow> oval result" where
  "keyword_check opt has_d dflt v =
     (if opt \<and> v = PNone then Inr ONone
      else if v = PStr '''' \<or> v = PNone
      then (if has_d then Inr (str_or_none dflt)
            else Inl (value_error ''Empty strings are not allowed without defaults''))
      else Inr (OStr (py_str v)))"

definition emptyable_check :: "bool \<Rightarrow> bool \<Rightarrow> py \<Rightarrow> py \<Rightarrow> oval result" where
  "emptyable_check opt has_d dflt v =
     (if opt \<and> v = PNone then Inr ONone
      else Inr (str_or_none (if v = PNone \<and> has_d then dflt else v)))"

definition map_str :: "(string \<Rightarrow> string) \<Rightarrow> oval \<Rightarrow> oval" where
  "map_str f v = (case v of OStr s \<Rightarrow> OStr (f s) | _ \<Rightarrow> v)"

text \<open>The pattern of a validated keyword raises TypeError on a value that is not a string.\<close>

definition validated_check :: "rx \<Rightarrow> bool \<Rightarrow> bool \<Rightarrow> py \<Rightarrow> py \<Rightarrow> oval result" where
  "validated_check r opt has_d dflt v =
     (if opt \<and> v = PNone then Inr ONone
      else if \<not> truthy v \<and> \<not> has_d
      then Inl (value_error ''Empty strings are not allowed without defaults'')
      else case (if truthy v then v else dflt) of
             PNone \<Rightarrow> Inr ONone
           | PStr s \<Rightarrow> if rx_match r s then Inr (OStr s) else Inl (value_error ''not match the validator'')
           | _ \<Rightarrow> Inl (Exn ETypeError ''expected string or bytes-like object''))"

definition ip_check :: "py \<Rightarrow> oval result" where
  "ip_check v =
     (if \<not> truthy v then Inr ONone
      else case v of
             PStr s \<Rightarrow> if rx_match IP_REGEX s then Inr (OStr s) else Inl (value_error ''not match the validator'')
           | _ \<Rightarrow> Inl (Exn ETypeError ''expected string or bytes-like object''))"

text \<open>A domain that is not strict may also be a host name; both have to be host names.\<close>

definition domain_check :: "odm_ext \<Rightarrow> bool \<Rightarrow> py \<Rightarrow> oval result" where
  "domain_check E strict v =
     (if \<not> truthy v then Inr ONone
      else case v of
             PStr s \<Rightarrow>
               if (strict \<and> \<not> x_domain E s) \<or> \<not> x_hostname E s
               then Inl (value_error ''did not pass validation.'') else Inr (OStr (py_lower s))
           | _ \<Rightarrow> Inl (Exn EOther ''not a domain''))"

text \<open>
  The group of \<^verbatim>\<open>EMAIL_REGEX\<close> in a text the pattern matches: what follows the only sign \<open>0x40\<close>, without the line
  break the dollar lets pass.
\<close>

definition email_domain :: "string \<Rightarrow> string option" where
  "email_domain s =
     (case split_char (CHR 0x40) s of
        [name, rest] \<Rightarrow>
          (let d = (if rest \<noteq> [] \<and> last rest = CHR 0x0A then butlast rest else rest) in
           if rx_accepts EMAIL_NAME_REGEX name \<and> rx_accepts DOMAIN_REGEX d then Some d else None)
      | _ \<Rightarrow> None)"

definition email_check :: "odm_ext \<Rightarrow> py \<Rightarrow> oval result" where
  "email_check E v =
     (if \<not> truthy v then Inr ONone
      else case v of
             PStr s \<Rightarrow>
               if \<not> x_email E s then Inl (value_error ''did not pass validation.'')
               else (case email_domain s of
                       None \<Rightarrow> Inl (Exn EAttributeError ''NoneType object has no attribute group'')
                     | Some d \<Rightarrow>
                         if \<not> is_valid_domain True True d then Inl (value_error (d @ '' is not a valid Domain.''))
                         else Inr (OStr (py_lower s)))
           | _ \<Rightarrow> Inl (Exn EOther ''not an email''))"

definition uri_check :: "py \<Rightarrow> oval result" where
  "uri_check v =
     (if \<not> truthy v then Inr ONone
      else case v of
             PStr s \<Rightarrow>
               (case uri_match s of
                  None \<Rightarrow> Inl (value_error ''not match the validator'')
                | Some (whole, head, host) \<Rightarrow>
                    if \<not> is_valid_domain True True host \<and> \<not> is_valid_ip host
                    then Inl (value_error (host @ '' is not a valid Domain or IP.''))
                    else Inr (OStr (py_replace head (py_lower head) whole)))
           | _ \<Rightarrow> Inl (Exn ETypeError ''expected string or bytes-like object''))"

text \<open>A list or dictionary cannot be looked up in a set.\<close>

fun hashable :: "py \<Rightarrow> bool" where
  "hashable (PList xs) = False"
| "hashable (PDict d) = False"
| "hashable v = True"

definition enum_check :: "string list \<Rightarrow> bool \<Rightarrow> bool \<Rightarrow> py \<Rightarrow> py \<Rightarrow> oval result" where
  "enum_check values opt has_d dflt v =
     (if opt \<and> v = PNone then Inr ONone
      else if \<not> truthy v \<and> \<not> has_d then Inl (value_error ''Empty enums are not allow without defaults'')
      else let v' = (if truthy v then v else dflt) in
           if \<not> hashable v' then Inl (Exn ETypeError ''unhashable type'')
           else if v' \<notin> PStr ` set values then Inl (value_error (py_str v' @ '' not in the possible values''))
           else Inr (OStr (py_str v')))"

definition uuid_check :: "odm_ext \<Rightarrow> py \<Rightarrow> (nat, oval) io" where
  "uuid_check E v =
     (if v = PNone then (\<lambda>n. (Inr (OStr (x_random_id E n)), Suc n)) else returnM (OStr (py_str v)))"

definition text_check :: "bool \<Rightarrow> bool \<Rightarrow> py \<Rightarrow> py \<Rightarrow> oval result" where
  "text_check opt has_d dflt v =
     (if opt \<and> v = PNone then Inr ONone
      else if \<not> truthy v
      then (if has_d then Inr (str_or_none dflt)
            else Inl (value_error ''Empty strings are not allowed without defaults''))
      else Inr (OStr (py_str v)))"

definition index_text_check :: "bool \<Rightarrow> py \<Rightarrow> oval result" where
  "index_text_check opt v = (if opt \<and> v = PNone then Inr ONone else Inr (OStr (py_str v)))"

text \<open>\<^verbatim>\<open>int(value)\<close>: a value that is no number and no text raises TypeError, which the check lets through.\<close>

definition py_int :: "odm_ext \<Rightarrow> py \<Rightarrow> int result" where
  "py_int E v =
     (case v of
        PInt i \<Rightarrow> Inr i
      | PBool b \<Rightarrow> Inr (if b then 1 else 0)
      | PStr s \<Rightarrow> (case x_int E v of Inr i \<Rightarrow> Inr i | Inl e \<Rightarrow> Inl (value_error (exn_message e)))
      | PFloat r \<Rightarrow> x_int E v
      | _ \<Rightarrow> Inl (Exn ETypeError ''int() argument must be a string or a number''))"

definition integer_check :: "odm_ext \<Rightarrow> int option \<Rightarrow> int option \<Rightarrow> bool \<Rightarrow> bool \<Rightarrow> py \<Rightarrow> py \<Rightarrow> oval result" where
  "integer_check E lo hi opt has_d dflt v =
     (if opt \<and> v = PNone then Inr ONone
      else if (v = PNone \<or> v = PStr '''') \<and> has_d then Inr (as_given dflt)
      else bindR (py_int E v) (\<lambda>i.
        if (case lo of Some m \<Rightarrow> i < m | None \<Rightarrow> False)
        then Inl (value_error (str_int i @ '' is less than minimum value''))
        else if (case hi of Some m \<Rightarrow> i > m | None \<Rightarrow> False)
        then Inl (value_error (str_int i @ '' is greater than maximum value''))
        else Inr (OInt i)))"

definition py_float :: "odm_ext \<Rightarrow> py \<Rightarrow> string result" where
  "py_float E v =
     (case v of
        PFloat r \<Rightarrow> Inr r
      | PStr s \<Rightarrow> (case x_float E v of Inr r \<Rightarrow> Inr r | Inl e \<Rightarrow> Inl (value_error (exn_message e)))
      | PInt i \<Rightarrow> x_float E v
      | PBool b \<Rightarrow> Inr (if b then ''1.0'' else ''0.0'')
      | _ \<Rightarrow> Inl (Exn ETypeError ''float() argument must be a string or a number''))"

definition float_check :: "odm_ext \<Rightarrow> bool \<Rightarrow> bool \<Rightarrow> py \<Rightarrow> py \<Rightarrow> oval result" where
  "float_check E opt has_d dflt v =
     (if opt \<and> v = PNone then Inr ONone
      else if \<not> truthy v \<and> has_d then Inr (as_given dflt)
      else bindR (py_float E v) (\<lambda>r. Inr (OFloat r)))"

definition classification_check :: "odm_ext \<Rightarrow> bool \<Rightarrow> bool \<Rightarrow> py \<Rightarrow> oval result" where
  "classification_check E is_uc opt v =
     (if opt \<and> v = PNone then Inr ONone else bindR (x_class E is_uc v) (\<lambda>c. Inr (OClass c)))"

definition classification_string_check :: "odm_ext \<Rightarrow> bool \<Rightarrow> bool \<Rightarrow> py \<Rightarrow> py \<Rightarrow> oval result" where
  "classification_string_check E opt has_d dflt v =
     (if opt \<and> v = PNone then Inr ONone
      else if \<not> truthy v \<and> \<not> has_d
      then Inl (value_error ''Empty classification is not allowed without defaults'')
      else let v' = (if truthy v then v else dflt) in
           bindR (x_class_valid E v') (\<lambda>ok.
             if ok then Inr (OStr (py_str v')) else Inl (value_error ''Invalid classification'')))"

section \<open>Dotted keys\<close>

text \<open>\<^verbatim>\<open>key.split(".", 1)\<close>\<close>

fun split_dot :: "string \<Rightarrow> (string \<times> string) option" where
  "split_dot [] = None"
| "split_dot (c # s) =
     (if c = CHR ''.'' then Some ([], s)
      else case split_dot s of None \<Rightarrow> None | Some (a, b) \<Rightarrow> Some (c # a, b))"

text \<open>
  The first loop of \<^verbatim>\<open>flat_to_nested\<close>: a dotted key goes into the dictionary of its first part, which
  replaces whatever else is there. The second loop nests those dictionaries in turn; a bound on the
  depth stands for Python's stack, and the number of characters in the keys is enough.
\<close>

definition nest_entry :: "(string, py) dict \<Rightarrow> string \<Rightarrow> py \<Rightarrow> (string, py) dict" where
  "nest_entry sub key v =
     (case split_dot key of
        None \<Rightarrow> dset sub key v
      | Some (child, sub_key) \<Rightarrow>
          (case dget sub child of
             Some (PDict d) \<Rightarrow> dset sub child (PDict (dset d sub_key v))
           | _ \<Rightarrow> dset sub child (PDict [(sub_key, v)])))"

definition nested_keys :: "(string, py) dict \<Rightarrow> string list" where
  "nested_keys data = concat (map (\<lambda>(k, _). case split_dot k of None \<Rightarrow> [] | Some (c, _) \<Rightarrow> [c]) data)"

fun flat_to_nested_upto :: "nat \<Rightarrow> (string, py) dict \<Rightarrow> (string, py) dict result" where
  "flat_to_nested_upto 0 data = Inl (Exn ERecursion ''maximum recursion depth exceeded'')"
| "flat_to_nested_upto (Suc n) data =
     foldR (\<lambda>sub key. case dget sub key of
              Some (PDict d) \<Rightarrow> bindR (flat_to_nested_upto n d) (\<lambda>d'. Inr (dset sub key (PDict d')))
            | _ \<Rightarrow> Inl (Exn EAttributeError ''object has no attribute items''))
       (foldl (\<lambda>sub (k, v). nest_entry sub k v) [] data) (nested_keys data)"

fun key_size :: "py \<Rightarrow> nat" where
  "key_size (PDict d) = sum_list (map (\<lambda>(k, v). length k + key_size v) d)"
| "key_size v = 0"

definition flat_to_nested :: "(string, py) dict \<Rightarrow> (string, py) dict result" where
  "flat_to_nested data = flat_to_nested_upto (Suc (key_size (PDict data))) data"

section \<open>Containers and models\<close>

text \<open>The elements \<^verbatim>\<open>*value\<close> spreads.\<close>

definition py_iter :: "py \<Rightarrow> py list result" where
  "py_iter v =
     (case v of
        PList xs \<Rightarrow> Inr xs
      | PStr s \<Rightarrow> Inr (map (\<lambda>c. PStr [c]) s)
      | PDict d \<Rightarrow> Inr (map (\<lambda>(k, _). PStr k) d)
      | _ \<Rightarrow> Inl (Exn ETypeError ''argument after * must be an iterable''))"

text \<open>A dictionary of columns given for a list of compounds, turned into its rows.\<close>

definition columns_of :: "(string, py) dict \<Rightarrow> (string \<times> py list) list" where
  "columns_of d = map (\<lambda>(k, v). (k, case v of PList xs \<Rightarrow> xs | _ \<Rightarrow> [v])) (flatten d)"

definition rows_of_columns :: "(string, py) dict \<Rightarrow> py list result" where
  "rows_of_columns d =
     (case columns_of d of
        [] \<Rightarrow> Inr []
      | (k0, vs0) # cols \<Rightarrow>
          if list_all (\<lambda>(k, vs). length vs = length vs0) cols
          then Inr (map (\<lambda>i. PDict (map (\<lambda>(k, vs). (k, vs ! i)) ((k0, vs0) # cols))) [0..<length vs0])
          else Inl (value_error ''Flattened fields creating list of ODMs must have equal length.''))"

definition is_compound :: "field \<Rightarrow> bool" where
  "is_compound f \<longleftrightarrow> (case field_kind f of KCompound fs \<Rightarrow> True | _ \<Rightarrow> False)"

definition list_elements :: "field \<Rightarrow> py \<Rightarrow> py list result" where
  "list_elements child v =
     (case v of
        PDict d \<Rightarrow> if is_compound child then rows_of_columns d else py_iter v
      | PNone \<Rightarrow> Inr []
      | _ \<Rightarrow> py_iter v)"

definition mapping_entries :: "bool \<Rightarrow> py \<Rightarrow> (string, py) dict result" where
  "mapping_entries indexed v =
     (case v of
        PDict d \<Rightarrow>
          (case find_first (\<lambda>k. \<not> rx_match (if indexed then FIELD_SANITIZER else NOT_INDEXED_SANITIZER) k) (dkeys d) of
             Some k \<Rightarrow> Inl (Exn EHowlerKey (''Illegal key '' @ k))
           | None \<Rightarrow> Inr d)
      | _ \<Rightarrow> Inl (Exn ETypeError ''argument after ** must be a mapping''))"

definition BANNED_KEYS :: "string list" where
  "BANNED_KEYS = [''_id'', ''__access_grp1__'', ''__access_lvl__'', ''__access_req__'', ''__access_grp2__'']"

text \<open>The dictionary a model is built from, with its reserved key dropped and its dotted keys nested.\<close>

definition model_data :: "py \<Rightarrow> (string, py) dict result" where
  "model_data v =
     (case v of
        PNone \<Rightarrow> flat_to_nested []
      | PDict d \<Rightarrow> flat_to_nested (dpop d ''__index'')
      | PStr s \<Rightarrow>
          if py_in ''__index'' s then Inl (Exn EAttributeError ''str object has no attribute pop'')
          else Inl (Exn EHowlerType ''object must be constructed with dict like'')
      | PList xs \<Rightarrow>
          if PStr ''__index'' \<in> set xs then Inl (Exn ETypeError ''str object cannot be interpreted as an integer'')
          else Inl (Exn EHowlerType ''object must be constructed with dict like'')
      | _ \<Rightarrow> Inl (Exn ETypeError ''argument is not iterable''))"

definition unused_keys :: "(string \<times> field) list \<Rightarrow> (string, py) dict \<Rightarrow> string list" where
  "unused_keys fs data = filter (\<lambda>k. k \<notin> set (map fst fs) \<and> k \<notin> set BANNED_KEYS) (dkeys data)"

definition accept_keys :: "bool \<Rightarrow> (string \<times> field) list \<Rightarrow> (string, py) dict \<Rightarrow> (string, py) dict result" where
  "accept_keys ignore_extra fs data =
     (if unused_keys fs data \<noteq> [] \<and> \<not> ignore_extra
      then Inl (value_error (''object was created with invalid parameters: '' @ py_join '', '' (unused_keys fs data)))
      else Inr data)"

text \<open>The value a field of a model starts from.\<close>

definition field_input :: "string \<Rightarrow> field \<Rightarrow> (string, py) dict \<Rightarrow> py result" where
  "field_input name f data =
     (case dget data name of
        Some v \<Rightarrow> Inr v
      | None \<Rightarrow>
          if default_set f then Inr (field_default f)
          else if \<not> field_optional f then Inl (value_error (name @ '': value is missing from the object!''))
          else Inr PNone)"

text \<open>
  \<^verbatim>\<open>check\<close> of every field, and the loop of \<^verbatim>\<open>Model.__init__\<close> over the fields of a model. \<^verbatim>\<open>ign\<close> is
  \<^verbatim>\<open>ignore_extra_values\<close>, which a mapping does not pass on.
\<close>

fun check_field :: "odm_ext \<Rightarrow> bool \<Rightarrow> field \<Rightarrow> py \<Rightarrow> (nat, oval) io"
and check_fields :: "odm_ext \<Rightarrow> bool \<Rightarrow> (string \<times> field) list \<Rightarrow> (string, py) dict \<Rightarrow> (nat, (string \<times> oval) list) io" where
  "check_field E ign (Field k d s opt) v =
     (case k of
        KDate \<Rightarrow> liftM (date_check E v)
      | KBoolean \<Rightarrow> liftM (boolean_check opt v)
      | KJson \<Rightarrow> liftM (json_check opt v)
      | KKeyword \<Rightarrow> liftM (keyword_check opt s d v)
      | KEmptyableKeyword \<Rightarrow> liftM (emptyable_check opt s d v)
      | KUpperKeyword \<Rightarrow> liftM (bindR (keyword_check opt s d v) (\<lambda>r. Inr (map_str py_upper r)))
      | KLowerKeyword \<Rightarrow> liftM (bindR (keyword_check opt s d v) (\<lambda>r. Inr (map_str py_lower r)))
      | KCaseInsensitiveKeyword \<Rightarrow> liftM (keyword_check opt s d v)
      | KAny \<Rightarrow> returnM (as_given v)
      | KValidated r \<Rightarrow> liftM (validated_check r opt s d v)
      | KIP \<Rightarrow> liftM (ip_check v)
      | KDomain strict \<Rightarrow> liftM (domain_check E strict v)
      | KEmail \<Rightarrow> liftM (email_check E v)
      | KURI \<Rightarrow> liftM (uri_check v)
      | KEnum values \<Rightarrow> liftM (enum_check values opt s d v)
      | KUUID \<Rightarrow> uuid_check E v
      | KText \<Rightarrow> liftM (text_check opt s d v)
      | KIndexText \<Rightarrow> liftM (index_text_check opt v)
      | KInteger lo hi \<Rightarrow> liftM (integer_check E lo hi opt s d v)
      | KFloat \<Rightarrow> liftM (float_check E opt s d v)
      | KClassification is_uc \<Rightarrow> liftM (classification_check E is_uc opt v)
      | KClassificationString \<Rightarrow> liftM (classification_string_check E opt s d v)
      | KList c \<Rightarrow>
          if opt \<and> v = PNone then returnM ONone
          else bindM (liftM (list_elements c v)) (\<lambda>xs.
               bindM (mapM_io (\<lambda>x. check_field E ign c x) xs) (\<lambda>ys. returnM (OList ys)))
      | KMapping indexed c \<Rightarrow>
          if opt \<and> v = PNone then returnM ONone
          else bindM (liftM (mapping_entries indexed v)) (\<lambda>kvs.
               bindM (mapM_io (\<lambda>kv. bindM (check_field E False c (snd kv)) (\<lambda>y. returnM (fst kv, y))) kvs)
                 (\<lambda>ys. returnM (OMap ys)))
      | KOptional c \<Rightarrow> if v = PNone then returnM ONone else check_field E ign c v
      | KCompound fs \<Rightarrow>
          if opt \<and> v = PNone then returnM ONone
          else bindM (liftM (bindR (model_data v) (accept_keys ign fs))) (\<lambda>data.
               bindM (check_fields E ign fs data) (\<lambda>vs. returnM (OModel vs))))"
| "check_fields E ign [] data = returnM []"
| "check_fields E ign ((name, f) # fs) data =
     bindM (liftM (field_input name f data)) (\<lambda>v.
     bindM (check_field E ign f v) (\<lambda>r.
     bindM (check_fields E ign fs data) (\<lambda>rs. returnM ((name, r) # rs))))"

text \<open>Building an object of a model class from the data a caller gives.\<close>

definition model_init :: "odm_ext \<Rightarrow> bool \<Rightarrow> odm_model \<Rightarrow> py \<Rightarrow> (nat, (string \<times> oval) list) io" where
  "model_init E ign m v =
     bindM (liftM (bindR (model_data v) (accept_keys ign m))) (\<lambda>data. check_fields E ign m data)"

section \<open>Back to primitives\<close>

text \<open>The fields of the compound a value of a field belongs to.\<close>

fun inner_fields :: "field \<Rightarrow> (string \<times> field) list"
and elem_field :: "field \<Rightarrow> field" where
  "inner_fields (Field k d s p) = (case k of KCompound fs \<Rightarrow> fs | KOptional c \<Rightarrow> inner_fields c | _ \<Rightarrow> [])"
| "elem_field (Field k d s p) =
     (case k of KList c \<Rightarrow> c | KMapping i c \<Rightarrow> c | KOptional c \<Rightarrow> elem_field c | _ \<Rightarrow> Field k d s p)"

definition unwrap :: "field \<Rightarrow> field" where
  "unwrap f = (case field_kind f of KOptional c \<Rightarrow> c | _ \<Rightarrow> f)"

text \<open>
  \<^verbatim>\<open>as_primitives(strip_null)\<close>: an absent value is dropped when nulls are stripped, and when its field,
  looked through one Optional, has no default.
\<close>

fun drops_null :: "bool \<Rightarrow> field \<Rightarrow> oval \<Rightarrow> bool" where
  "drops_null strip f ONone = (strip \<or> \<not> default_set (unwrap f))"
| "drops_null strip f v = False"

fun as_primitive :: "bool \<Rightarrow> field \<Rightarrow> oval \<Rightarrow> py"
and as_primitives :: "bool \<Rightarrow> (string \<times> field) list \<Rightarrow> (string \<times> oval) list \<Rightarrow> (string, py) dict" where
  "as_primitive sn f ONone = PNone"
| "as_primitive sn f (OBool b) = PBool b"
| "as_primitive sn f (OInt i) = PInt i"
| "as_primitive sn f (OFloat r) = PFloat r"
| "as_primitive sn f (OStr s) = PStr s"
| "as_primitive sn f (ODate d) = PStr d"
| "as_primitive sn f (OClass c) = PStr c"
| "as_primitive sn f (OList vs) = PList (map (\<lambda>v. as_primitive sn (elem_field f) v) vs)"
| "as_primitive sn f (OMap kvs) = PDict (map (\<lambda>kv. (fst kv, as_primitive sn (elem_field f) (snd kv))) kvs)"
| "as_primitive sn f (OModel kvs) = PDict (as_primitives sn (inner_fields f) kvs)"
| "as_primitives sn fs [] = []"
| "as_primitives sn fs ((name, v) # kvs) =
     (case map_of fs name of
        Some f \<Rightarrow> (if drops_null sn f v then [] else [(name, as_primitive sn f v)])
      | None \<Rightarrow> [(name, as_primitive sn (plain KAny) v)]) @ as_primitives sn fs kvs"

end
