(* ===== verification/OdmRoundtrip.thy ===== *)
theory OdmRoundtrip
  imports OdmCheck
begin

text \<open>
  What the store gets back: an object turned into primitives and built again is the same object, for
  the values whose absence or zero survives. The lemmas follow the field classes; the theorem is an
  induction over the structure of the fields.
\<close>

section \<open>Conditions\<close>

text \<open>
  The parsers accept what they produce: a date, a classification and a domain name are written in a
  form that denotes itself.
\<close>

definition ext_ok :: "odm_ext \<Rightarrow> bool" where
  "ext_ok E \<longleftrightarrow>
     (\<forall>v d. x_date E v = Some d \<longrightarrow> d \<noteq> ''NOW'' \<and> x_date E (PStr d) = Some d) \<and>
     (\<forall>u v c. x_class E u v = Inr c \<longrightarrow> x_class E u (PStr c) = Inr c) \<and>
     (\<forall>v. x_class_valid E v = Inr True \<longrightarrow> (\<exists>s. v = PStr s)) \<and>
     (\<forall>s. x_domain E s \<longrightarrow> x_domain E (py_lower s)) \<and>
     (\<forall>s. x_hostname E s \<longrightarrow> x_hostname E (py_lower s)) \<and>
     (\<forall>s. x_email E s \<longrightarrow> x_email E (py_lower s))"

text \<open>
  A declaration is sound when the default of a number is one the check returns unchanged, and when the
  names of a compound are distinct and free of dots (the decorator \<^verbatim>\<open>model\<close> sees to the latter).
\<close>

definition default_ok :: "field_kind \<Rightarrow> py \<Rightarrow> bool" where
  "default_ok k d \<longleftrightarrow>
     (case k of
        KInteger lo hi \<Rightarrow>
          d = PNone \<or> (\<exists>i. d = PInt i \<and> (case lo of Some m \<Rightarrow> m \<le> i | None \<Rightarrow> True) \<and>
                              (case hi of Some m \<Rightarrow> i \<le> m | None \<Rightarrow> True))
      | KFloat \<Rightarrow> \<not> truthy d \<or> (\<exists>r. d = PFloat r)
      | _ \<Rightarrow> True)"

definition names_ok :: "(string \<times> field) list \<Rightarrow> bool" where
  "names_ok fs \<longleftrightarrow> distinct (map fst fs) \<and> (\<forall>n\<in>set (map fst fs). CHR ''.'' \<notin> set n \<and> n \<noteq> ''__index'')"

fun field_ok :: "field \<Rightarrow> bool" where
  "field_ok (Field k d s p) =
     (default_ok k d \<and>
      (case k of
         KList c \<Rightarrow> field_ok c
       | KMapping i c \<Rightarrow> field_ok c
       | KOptional c \<Rightarrow> field_ok c
       | KCompound fs \<Rightarrow> names_ok fs \<and> (\<forall>nf\<in>set fs. field_ok (snd nf))
       | _ \<Rightarrow> True))"

text \<open>
  An absent value comes back when its field restores None; a floating-point zero comes back when no
  default takes its place, and a URI when its check leaves it alone.
\<close>

definition restores_null :: "field \<Rightarrow> bool" where
  "restores_null f \<longleftrightarrow> (if default_set f then field_default f = PNone else field_optional f)"

fun keeps_zero :: "field \<Rightarrow> string \<Rightarrow> bool" where
  "keeps_zero (Field k d s p) r =
     (case k of KFloat \<Rightarrow> \<not> s \<or> d = PFloat r | KOptional c \<Rightarrow> keeps_zero c r | _ \<Rightarrow> True)"

fun keeps_uri :: "field \<Rightarrow> string \<Rightarrow> bool" where
  "keeps_uri (Field k d s p) x =
     (case k of KURI \<Rightarrow> uri_check (PStr x) = Inr (OStr x) | KOptional c \<Rightarrow> keeps_uri c x | _ \<Rightarrow> True)"

fun settled :: "bool \<Rightarrow> field \<Rightarrow> oval \<Rightarrow> bool"
and settled_all :: "bool \<Rightarrow> (string \<times> field) list \<Rightarrow> (string \<times> oval) list \<Rightarrow> bool" where
  "settled sn f (OFloat r) = (truthy (PFloat r) \<or> keeps_zero f r)"
| "settled sn f (OStr x) = keeps_uri f x"
| "settled sn f (OList vs) = (\<forall>v\<in>set vs. settled sn (elem_field f) v)"
| "settled sn f (OMap kvs) = (\<forall>kv\<in>set kvs. settled sn (elem_field f) (snd kv))"
| "settled sn f (OModel kvs) = settled_all sn (inner_fields f) kvs"
| "settled sn f v = True"
| "settled_all sn fs [] = True"
| "settled_all sn fs ((name, v) # kvs) =
     ((case map_of fs name of
         Some f \<Rightarrow> settled sn f v \<and> (drops_null sn f v \<longrightarrow> restores_null f)
       | None \<Rightarrow> True) \<and> settled_all sn fs kvs)"

section \<open>Simple fields\<close>

lemma py_repr_nonempty: "v \<noteq> PStr '''' \<Longrightarrow> py_str v \<noteq> []"
  by (cases v) (auto simp: str_int_def)

lemma py_str_truthy: "truthy v \<Longrightarrow> py_str v \<noteq> []"
  by (rule py_repr_nonempty) auto

lemma lower_char_idem [simp]: "lower_char (lower_char c) = lower_char c"
  by (cases c) (simp add: Let_def)

lemma py_lower_idem [simp]: "py_lower (py_lower s) = py_lower s"
  by (simp add: py_lower_def)

lemma py_lower_Nil [simp]: "py_lower s = [] \<longleftrightarrow> s = []"
  by (simp add: py_lower_def)

lemma py_upper_Nil_iff [simp]: "py_upper s = [] \<longleftrightarrow> s = []"
  by (simp add: py_upper_def)

lemma elem_simple:
  "(\<And>c. k \<noteq> KList c) \<Longrightarrow> (\<And>i c. k \<noteq> KMapping i c) \<Longrightarrow> (\<And>c. k \<noteq> KOptional c) \<Longrightarrow>
   elem_field (Field k d s p) = Field k d s p"
  by (cases k) auto

lemma as_primitive_as_given: "elem_field f = f \<Longrightarrow> as_primitive sn f (as_given v) = v"
proof (induction v)
  case (PList xs)
  then have "map (\<lambda>v. as_primitive sn f (as_given v)) xs = xs" by (simp add: map_idI)
  with PList.prems show ?case by (simp add: comp_def)
next
  case (PDict d)
  then have "map (\<lambda>kv. (fst kv, as_primitive sn f (as_given (snd kv)))) d = d"
    by (intro map_idI) (auto simp: snds.simps)
  with PDict.prems show ?case by (simp add: comp_def case_prod_beta)
qed simp_all

lemma ext_date: "ext_ok E \<Longrightarrow> x_date E v = Some d \<Longrightarrow> d \<noteq> ''NOW'' \<and> x_date E (PStr d) = Some d"
  unfolding ext_ok_def by blast

lemma ext_class: "ext_ok E \<Longrightarrow> x_class E u v = Inr c \<Longrightarrow> x_class E u (PStr c) = Inr c"
  unfolding ext_ok_def by blast

lemma ext_domain: "ext_ok E \<Longrightarrow> x_domain E s \<Longrightarrow> x_domain E (py_lower s)"
  unfolding ext_ok_def by blast

lemma ext_hostname: "ext_ok E \<Longrightarrow> x_hostname E s \<Longrightarrow> x_hostname E (py_lower s)"
  unfolding ext_ok_def by blast

text \<open>What a simple check answers, it answers again for the primitive of the answer.\<close>

lemma date_again:
  "ext_ok E \<Longrightarrow> date_check E v = Inr r \<Longrightarrow> date_check E (as_primitive sn f r) = Inr r"
proof -
  assume E: "ext_ok E" and r: "date_check E v = Inr r"
  then consider "r = ONone" | w d where "x_date E w = Some d" "r = ODate d"
    by (auto simp: date_check_def split: if_splits option.splits)
  then show ?thesis
  proof cases
    case 2
    with ext_date [OF E 2(1)] show ?thesis by (simp add: date_check_def)
  qed (simp add: date_check_def)
qed

lemma boolean_again: "boolean_check opt v = Inr r \<Longrightarrow> boolean_check opt (as_primitive sn f r) = Inr r"
  by (auto simp: boolean_check_def split: if_splits)

lemma json_again: "json_check opt v = Inr r \<Longrightarrow> json_check opt (as_primitive sn f r) = Inr r"
  by (auto simp: json_check_def split: if_splits py.splits)

lemma keyword_again:
  "keyword_check opt h d v = Inr r \<Longrightarrow> keyword_check opt h d (as_primitive sn f r) = Inr r"
  using py_repr_nonempty [of v]
  by (auto simp: keyword_check_def str_or_none_def split: if_splits)

lemma keyword_map_again:
  assumes "keyword_check opt h d v = Inr r" and "\<And>s. g (g s) = g s" and "\<And>s. g s = [] \<longleftrightarrow> s = []"
  shows "bindR (keyword_check opt h d (as_primitive sn f (map_str g r))) (\<lambda>r. Inr (map_str g r)) = Inr (map_str g r)"
  using assms py_repr_nonempty [of v]
  by (auto simp: keyword_check_def str_or_none_def map_str_def split: if_splits)

lemma emptyable_again:
  "emptyable_check opt h d v = Inr r \<Longrightarrow> emptyable_check opt h d (as_primitive sn f r) = Inr r"
  by (auto simp: emptyable_check_def str_or_none_def split: if_splits)

lemma validated_again:
  "validated_check x opt h d v = Inr r \<Longrightarrow> validated_check x opt h d (as_primitive sn f r) = Inr r"
proof (cases "opt \<and> v = PNone")
  case True
  then show "validated_check x opt h d v = Inr r \<Longrightarrow> ?thesis" by (auto simp: validated_check_def)
next
  case False
  define w where "w = (if truthy v then v else d)"
  assume r: "validated_check x opt h d v = Inr r"
  with False have h: "truthy v \<or> h" by (auto simp: validated_check_def split: if_splits)
  from r False have "(w = PNone \<and> r = ONone) \<or> (\<exists>s. w = PStr s \<and> rx_match x s \<and> r = OStr s)"
    unfolding w_def validated_check_def by (cases "if truthy v then v else d") (auto split: if_splits)
  then show ?thesis
  proof (elim disjE conjE exE)
    assume "w = PNone" "r = ONone"
    with h have "\<not> truthy v" "d = PNone" "h" by (auto simp: w_def split: if_splits)
    with \<open>r = ONone\<close> show ?thesis by (simp add: validated_check_def)
  next
    fix s assume s: "w = PStr s" "rx_match x s" "r = OStr s"
    show ?thesis
    proof (cases "s = []")
      case True
      with s h have "d = PStr []" "h" by (auto simp: w_def split: if_splits)
      with s True show ?thesis by (simp add: validated_check_def)
    next
      case False
      with s show ?thesis by (simp add: validated_check_def)
    qed
  qed
qed

lemma ip_again: "ip_check v = Inr r \<Longrightarrow> ip_check (as_primitive sn f r) = Inr r"
  by (auto simp: ip_check_def split: if_splits py.splits)

lemma upper_lower: "py_upper (py_lower s) = py_upper s"
proof -
  have "upper_char (lower_char c) = upper_char c" for c by (cases c) (simp add: letter_bits_def)
  then show ?thesis by (simp add: py_upper_def py_lower_def)
qed

lemma valid_domain_lower: "is_valid_domain a b d \<Longrightarrow> is_valid_domain a b (py_lower d)"
proof -
  have "x \<in> set (py_lower d) \<longleftrightarrow> x \<in> set d" if "\<not> (CHR ''a'' \<le> x \<and> x \<le> CHR ''z'')" "lower_char x = x" for x
    using lower_char_other [OF that] that(2) by (force simp: py_lower_def)
  from this [of "CHR 0x40"] this [of "CHR ''.''"]
  have at: "CHR 0x40 \<in> set (py_lower d) \<longleftrightarrow> CHR 0x40 \<in> set d" and dot: "CHR ''.'' \<in> set (py_lower d) \<longleftrightarrow> CHR ''.'' \<in> set d"
    by (simp_all add: letter_bits_def less_eq_char_def)
  have tld: "py_upper (last (split_char (CHR ''.'') (py_lower d))) = py_upper (last (split_char (CHR ''.'') d))"
    by (subst split_char_lower) (simp_all add: letter_bits_def less_eq_char_def last_map upper_lower)
  show "is_valid_domain a b d \<Longrightarrow> is_valid_domain a b (py_lower d)"
    unfolding is_valid_domain_def at dot tld .
qed

lemma email_domain_lower:
  assumes "email_domain s = Some d"
  shows "email_domain (py_lower s) = Some (py_lower d)"
proof -
  obtain name rest where s: "split_char (CHR 0x40) s = [name, rest]"
    and d: "d = (if rest \<noteq> [] \<and> last rest = CHR 0x0A then butlast rest else rest)"
    and ok: "rx_accepts EMAIL_NAME_REGEX name" "rx_accepts DOMAIN_REGEX d"
    using assms by (auto simp: email_domain_def Let_def split: list.splits if_splits)
  have nl: "lower_char c = CHR 0x0A \<longleftrightarrow> c = CHR 0x0A" for c
    by (rule lower_char_other) (simp_all add: letter_bits_def less_eq_char_def)
  have "py_lower d =
      (if py_lower rest \<noteq> [] \<and> last (py_lower rest) = CHR 0x0A then butlast (py_lower rest) else py_lower rest)"
    unfolding d by (cases "rest = []"; cases "last rest = CHR 0x0A") (simp_all add: py_lower_def last_map map_butlast nl)
  moreover have "split_char (CHR 0x40) (py_lower s) = [py_lower name, py_lower rest]"
    by (subst split_char_lower) (simp_all add: letter_bits_def less_eq_char_def s)
  ultimately show ?thesis
    using email_name_lower [OF ok(1)] domain_lower [OF ok(2)] by (simp add: email_domain_def Let_def)
qed

lemma email_again:
  "ext_ok E \<Longrightarrow> email_check E v = Inr r \<Longrightarrow> email_check E (as_primitive sn f r) = Inr r"
proof -
  assume E: "ext_ok E" and r: "email_check E v = Inr r"
  then consider "r = ONone"
    | t d where "t \<noteq> []" "x_email E t" "email_domain t = Some d" "is_valid_domain True True d" "r = OStr (py_lower t)"
    by (cases v) (auto simp: email_check_def split: if_splits option.splits)
  then show ?thesis
  proof cases
    case 2
    have "x_email E (py_lower t)" using E 2(2) by (simp add: ext_ok_def)
    with 2 email_domain_lower [OF 2(3)] valid_domain_lower [OF 2(4)] show ?thesis by (simp add: email_check_def)
  qed (simp add: email_check_def)
qed

lemma domain_again:
  "ext_ok E \<Longrightarrow> domain_check E strict v = Inr r \<Longrightarrow> domain_check E strict (as_primitive sn f r) = Inr r"
proof -
  assume E: "ext_ok E" and r: "domain_check E strict v = Inr r"
  then consider "r = ONone" | t where "t \<noteq> []" "\<not> (strict \<and> \<not> x_domain E t)" "x_hostname E t" "r = OStr (py_lower t)"
    by (cases v) (auto simp: domain_check_def split: if_splits)
  then show ?thesis
  proof cases
    case 2
    with ext_domain [OF E] ext_hostname [OF E 2(3)] show ?thesis by (simp add: domain_check_def)
  qed (simp add: domain_check_def)
qed

lemma enum_again:
  "enum_check vs opt h d v = Inr r \<Longrightarrow> enum_check vs opt h d (as_primitive sn f r) = Inr r"
  by (auto simp: enum_check_def Let_def split: if_splits)

lemma text_again: "text_check opt h d v = Inr r \<Longrightarrow> text_check opt h d (as_primitive sn f r) = Inr r"
  using py_str_truthy [of v] by (auto simp: text_check_def str_or_none_def split: if_splits)

lemma index_text_again: "index_text_check opt v = Inr r \<Longrightarrow> index_text_check opt (as_primitive sn f r) = Inr r"
  by (auto simp: index_text_check_def split: if_splits)

lemma integer_again:
  assumes "integer_check E lo hi opt h d v = Inr r" and "default_ok (KInteger lo hi) d"
  shows "integer_check E lo hi opt h d (as_primitive sn f r) = Inr r"
proof (cases "opt \<and> v = PNone")
  case True
  with assms(1) show ?thesis by (auto simp: integer_check_def)
next
  case False
  note not_null = this
  show ?thesis
  proof (cases "(v = PNone \<or> v = PStr '''') \<and> h")
    case True
    with not_null assms(1) have r: "r = as_given d" by (auto simp: integer_check_def)
    from assms(2) consider "d = PNone" | i where "d = PInt i" "\<not> (case lo of Some m \<Rightarrow> i < m | None \<Rightarrow> False)"
      "\<not> (case hi of Some m \<Rightarrow> i > m | None \<Rightarrow> False)"
      by (auto simp: default_ok_def not_less split: option.splits)
    then show ?thesis
    proof cases
      case 1
      with r True show ?thesis by (auto simp: integer_check_def)
    next
      case 2
      with r show ?thesis by (simp add: integer_check_def py_int_def)
    qed
  next
    case False
    with not_null assms(1) obtain i where "py_int E v = Inr i" "r = OInt i"
      "\<not> (case lo of Some m \<Rightarrow> i < m | None \<Rightarrow> False)" "\<not> (case hi of Some m \<Rightarrow> i > m | None \<Rightarrow> False)"
      by (auto simp: integer_check_def bindR_eq_Inr split: if_splits)
    then show ?thesis by (simp add: integer_check_def py_int_def)
  qed
qed

lemma float_again:
  assumes "float_check E opt h d v = Inr r" and "default_ok KFloat d" and "f = Field KFloat d h opt"
    and "settled sn f r"
  shows "float_check E opt h d (as_primitive sn f r) = Inr r"
proof (cases "\<not> truthy v \<and> h \<and> \<not> (opt \<and> v = PNone)")
  case True
  with assms(1) have r: "r = as_given d" by (simp add: float_check_def)
  then have p: "as_primitive sn f r = d" using assms(3) by (simp add: as_primitive_as_given)
  show ?thesis
  proof (cases "truthy d")
    case True
    with assms(2) obtain q where "d = PFloat q" by (auto simp: default_ok_def)
    with p r show ?thesis by (auto simp: float_check_def py_float_def)
  next
    case False
    with p r \<open>\<not> truthy v \<and> h \<and> \<not> (opt \<and> v = PNone)\<close> show ?thesis
      by (cases "opt \<and> d = PNone") (auto simp: float_check_def)
  qed
next
  case False
  with assms(1) consider "r = ONone" "opt" | q where "r = OFloat q"
    by (auto simp: float_check_def bindR_eq_Inr split: if_splits)
  then show ?thesis
  proof cases
    case 1
    then show ?thesis by (simp add: float_check_def)
  next
    case 2
    with assms(3,4) show ?thesis by (auto simp: float_check_def py_float_def)
  qed
qed

lemma classification_again:
  "ext_ok E \<Longrightarrow> classification_check E u opt v = Inr r \<Longrightarrow>
   classification_check E u opt (as_primitive sn f r) = Inr r"
  by (auto simp: classification_check_def bindR_eq_Inr dest: ext_class split: if_splits)

lemma classification_string_again:
  assumes "ext_ok E" and "classification_string_check E opt h d v = Inr r"
  shows "classification_string_check E opt h d (as_primitive sn f r) = Inr r"
proof (cases "opt \<and> v = PNone")
  case True
  with assms(2) show ?thesis by (auto simp: classification_string_check_def)
next
  case False
  define v' where "v' = (if truthy v then v else d)"
  from False assms(2) have ok: "x_class_valid E v' = Inr True" "r = OStr (py_str v')" "truthy v \<or> h"
    by (auto simp: classification_string_check_def Let_def v'_def bindR_eq_Inr split: if_splits)
  then obtain s where s: "v' = PStr s" using assms(1) unfolding ext_ok_def by blast
  show ?thesis
  proof (cases "s = []")
    case True
    with s have "\<not> truthy v" "d = PStr []" by (auto simp: v'_def split: if_splits)
    with ok s True show ?thesis by (auto simp: classification_string_check_def Let_def)
  next
    case False
    with ok s show ?thesis by (auto simp: classification_string_check_def Let_def)
  qed
qed

section \<open>Containers\<close>

lemma mapM_io_results:
  "mapM_io g xs n = (Inr ys, m) \<Longrightarrow> y \<in> set ys \<Longrightarrow> \<exists>x n' m'. x \<in> set xs \<and> g x n' = (Inr y, m')"
  by (induction xs arbitrary: ys n) (fastforce simp: bindM_eq_Inr)+

lemma mapM_io_again:
  "\<forall>y\<in>set ys. \<forall>k. g (h y) k = (Inr y, k) \<Longrightarrow> mapM_io g (map h ys) k = (Inr ys, k)"
  by (induction ys) (simp_all add: bindM_def)

lemma split_dot_None: "CHR ''.'' \<notin> set k \<Longrightarrow> split_dot k = None"
  by (induction k) auto

lemma dset_new: "k \<notin> set (dkeys d) \<Longrightarrow> dset d k v = d @ [(k, v)]"
  by (induction d k v rule: dset.induct) (auto simp: dkeys_def)

lemma nest_plain:
  "\<forall>k\<in>set (dkeys d). CHR ''.'' \<notin> set k \<Longrightarrow> distinct (dkeys (acc @ d)) \<Longrightarrow>
   foldl (\<lambda>sub (k, v). nest_entry sub k v) acc d = acc @ d"
proof (induction d arbitrary: acc)
  case (Cons kv d)
  obtain k v where kv: "kv = (k, v)" by (cases kv)
  have "nest_entry acc k v = acc @ [(k, v)]"
    using Cons.prems by (simp add: kv nest_entry_def split_dot_None dkeys_def dset_new)
  with Cons.IH [of "acc @ [(k, v)]"] Cons.prems show ?case by (simp add: kv dkeys_def)
qed simp

lemma nested_keys_plain: "\<forall>k\<in>set (dkeys d). CHR ''.'' \<notin> set k \<Longrightarrow> nested_keys d = []"
  by (auto simp: nested_keys_def dkeys_def split_dot_None split: option.splits)

lemma flat_to_nested_plain:
  "\<forall>k\<in>set (dkeys d). CHR ''.'' \<notin> set k \<Longrightarrow> distinct (dkeys d) \<Longrightarrow> flat_to_nested d = Inr d"
  using nest_plain [of d "[]"] by (simp add: flat_to_nested_def nested_keys_plain)

section \<open>Models\<close>

lemma check_fields_results:
  "check_fields E ign fs data n = (Inr kvs, m) \<Longrightarrow>
   list_all2 (\<lambda>nf nr. fst nr = fst nf \<and> (\<exists>v n m. check_field E ign (snd nf) v n = (Inr (snd nr), m))) fs kvs"
proof (induction fs arbitrary: kvs n)
  case (Cons nf fs)
  obtain name f where nf: "nf = (name, f)" by (cases nf)
  from Cons.prems obtain v r rs n1 where
    run: "check_field E ign f v n = (Inr r, n1)" "check_fields E ign fs data n1 = (Inr rs, m)" "kvs = (name, r) # rs"
    by (auto simp: nf bindM_eq_Inr)
  from Cons.IH [OF run(2)] run(1,3) nf show ?case by auto
qed simp

lemma check_fields_names: "check_fields E ign fs data n = (Inr kvs, m) \<Longrightarrow> map fst kvs = map fst fs"
  by (drule check_fields_results) (simp add: list_all2_conv_all_nth list_eq_iff_nth_eq)

lemma dkeys_append [simp]: "dkeys (d @ e) = dkeys d @ dkeys e"
  by (simp add: dkeys_def)

lemma dkeys_Cons [simp]: "dkeys ((k, v) # d) = k # dkeys d"
  by (simp add: dkeys_def)

lemma dkeys_Nil [simp]: "dkeys [] = []"
  by (simp add: dkeys_def)

lemma keys_as_primitives: "set (dkeys (as_primitives sn fs kvs)) \<subseteq> set (map fst kvs)"
proof (induction kvs)
  case (Cons kv kvs)
  then show ?case by (cases kv) (auto split: option.splits)
qed (simp add: dkeys_def)

lemma distinct_as_primitives: "distinct (map fst kvs) \<Longrightarrow> distinct (dkeys (as_primitives sn fs kvs))"
proof (induction kvs)
  case (Cons kv kvs)
  with keys_as_primitives [of sn fs kvs] show ?case
    by (cases kv) (auto simp: dkeys_def split: option.splits)
qed (simp add: dkeys_def)

lemma dget_append: "dget (d @ e) k = (case dget d k of None \<Rightarrow> dget e k | Some v \<Rightarrow> Some v)"
  by (induction d) auto

lemma dget_as_primitives:
  assumes "distinct (map fst kvs)" and "map_of kvs name = Some r" and "map_of fs name = Some f"
  shows "dget (as_primitives sn fs kvs) name = (if drops_null sn f r then None else Some (as_primitive sn f r))"
  using assms(1,2)
proof (induction kvs)
  case (Cons kv kvs)
  obtain nm v where kv: "kv = (nm, v)" by (cases kv)
  show ?case
  proof (cases "nm = name")
    case True
    have "dget (as_primitives sn fs kvs) name = None"
      using keys_as_primitives [of sn fs kvs] Cons.prems(1) kv True by (auto simp: dget_None_iff)
    with True Cons.prems(2) kv assms(3) show ?thesis by (simp add: dget_append)
  next
    case False
    with Cons kv show ?thesis by (auto simp: dget_append split: option.splits)
  qed
qed simp

lemma settled_all_lookup:
  "settled_all sn fs kvs \<Longrightarrow> (name, r) \<in> set kvs \<Longrightarrow> map_of fs name = Some f \<Longrightarrow>
   settled sn f r \<and> (drops_null sn f r \<longrightarrow> restores_null f)"
  by (induction kvs) (auto split: option.splits)

definition checks_again :: "odm_ext \<Rightarrow> bool \<Rightarrow> field \<Rightarrow> bool" where
  "checks_again E sn f \<longleftrightarrow>
     (\<forall>ign v n r m. check_field E ign f v n = (Inr r, m) \<longrightarrow> settled sn f r \<longrightarrow>
        (\<forall>k. check_field E ign f (as_primitive sn f r) k = (Inr r, k)))"

lemma checks_againD:
  "checks_again E sn f \<Longrightarrow> check_field E ign f v n = (Inr r, m) \<Longrightarrow> settled sn f r \<Longrightarrow>
   check_field E ign f (as_primitive sn f r) k = (Inr r, k)"
  unfolding checks_again_def by blast

text \<open>A field of the model reads its own value back from the primitives.\<close>

lemma field_again:
  assumes "checks_again E sn f" and "check_field E ign f v n = (Inr r, m)" and "settled sn f r"
    and "drops_null sn f r \<longrightarrow> restores_null f"
    and "dget data name = (if drops_null sn f r then None else Some (as_primitive sn f r))"
  shows "\<exists>w. field_input name f data = Inr w \<and> check_field E ign f w k = (Inr r, k)"
proof -
  have again: "check_field E ign f (as_primitive sn f r) k = (Inr r, k)"
    by (rule checks_againD [OF assms(1-3)])
  show ?thesis
  proof (cases "drops_null sn f r")
    case True
    then have r: "r = ONone" by (cases r) simp_all
    with True assms(4,5) have "field_input name f data = Inr PNone"
      by (auto simp: field_input_def restores_null_def split: if_splits)
    with again r show ?thesis by simp
  next
    case False
    with assms(5) again show ?thesis by (simp add: field_input_def)
  qed
qed

lemma fields_again:
  assumes "list_all2 (\<lambda>nf nr. fst nr = fst nf \<and> (\<exists>v n m. check_field E ign (snd nf) v n = (Inr (snd nr), m))) gs ks"
    and "\<And>nf. nf \<in> set gs \<Longrightarrow> checks_again E sn (snd nf)"
    and "\<And>name f r. (name, f) \<in> set gs \<Longrightarrow> (name, r) \<in> set ks \<Longrightarrow>
           settled sn f r \<and> (drops_null sn f r \<longrightarrow> restores_null f) \<and>
           dget data name = (if drops_null sn f r then None else Some (as_primitive sn f r))"
  shows "check_fields E ign gs data k = (Inr ks, k)"
  using assms
proof (induction gs ks rule: list_all2_induct)
  case (Cons nf gs nr ks)
  obtain name f where nf: "nf = (name, f)" by (cases nf)
  with Cons.hyps obtain r v n m where nr: "nr = (name, r)" "check_field E ign f v n = (Inr r, m)"
    by (cases nr) auto
  have "\<exists>w. field_input name f data = Inr w \<and> check_field E ign f w k = (Inr r, k)"
    using Cons.prems(1) [of nf] Cons.prems(2) [of name f r] nf nr by (intro field_again) auto
  moreover have "check_fields E ign gs data k = (Inr ks, k)"
  proof (rule Cons.IH)
    show "checks_again E sn (snd nf)" if "nf \<in> set gs" for nf
      by (rule Cons.prems(1)) (simp add: that)
    show "settled sn f r \<and> (drops_null sn f r \<longrightarrow> restores_null f) \<and>
          dget data name = (if drops_null sn f r then None else Some (as_primitive sn f r))"
      if "(name, f) \<in> set gs" "(name, r) \<in> set ks" for name f r
      by (rule Cons.prems(2)) (simp_all add: that)
  qed
  ultimately show ?case by (auto simp: nf nr bindM_def)
qed simp

lemma model_again:
  assumes ok: "names_ok fs" and fields: "\<And>nf. nf \<in> set fs \<Longrightarrow> checks_again E sn (snd nf)"
    and run: "check_fields E ign fs data n = (Inr kvs, m)" and set: "settled_all sn fs kvs"
  shows "bindR (model_data (PDict (as_primitives sn fs kvs))) (accept_keys ign fs) = Inr (as_primitives sn fs kvs) \<and>
         check_fields E ign fs (as_primitives sn fs kvs) k = (Inr kvs, k)"
proof
  let ?d = "as_primitives sn fs kvs"
  have names: "map fst kvs = map fst fs" by (rule check_fields_names [OF run])
  have dist: "distinct (map fst fs)" "distinct (map fst kvs)" using ok names by (simp_all add: names_ok_def)
  have keys: "set (dkeys ?d) \<subseteq> set (map fst fs)" using keys_as_primitives names by metis
  have "dpop ?d ''__index'' = ?d"
    using keys ok by (fastforce simp: dpop_def names_ok_def dkeys_def filter_id_conv)
  moreover have "flat_to_nested ?d = Inr ?d"
    using keys ok dist(2) by (intro flat_to_nested_plain distinct_as_primitives) (auto simp: names_ok_def)
  ultimately have "model_data (PDict ?d) = Inr ?d" by (simp add: model_data_def)
  moreover have "unused_keys fs ?d = []" using keys by (auto simp: unused_keys_def filter_empty_conv)
  ultimately show "bindR (model_data (PDict ?d)) (accept_keys ign fs) = Inr ?d" by (simp add: accept_keys_def)
  show "check_fields E ign fs ?d k = (Inr kvs, k)"
  proof (rule fields_again [OF check_fields_results [OF run] fields])
    fix name f r assume f: "(name, f) \<in> set fs" and r: "(name, r) \<in> set kvs"
    from f dist have mf: "map_of fs name = Some f" by simp
    from r dist have mr: "map_of kvs name = Some r" by simp
    from settled_all_lookup [OF set r mf] dget_as_primitives [OF dist(2) mr mf]
    show "settled sn f r \<and> (drops_null sn f r \<longrightarrow> restores_null f) \<and>
          dget ?d name = (if drops_null sn f r then None else Some (as_primitive sn f r))"
      by blast
  qed
qed

section \<open>Every field\<close>

text \<open>A field whose check is a pure function that answers its own answers again.\<close>

lemma pure_again:
  assumes "\<And>ign v. check_field E ign f v = liftM (g v)"
    and "\<And>v r. g v = Inr r \<Longrightarrow> settled sn f r \<Longrightarrow> g (as_primitive sn f r) = Inr r"
  shows "checks_again E sn f"
  using assms by (auto simp: checks_again_def)

lemma list_again:
  assumes "checks_again E sn c"
  shows "checks_again E sn (Field (KList c) d s p)"
  unfolding checks_again_def
proof (intro allI impI)
  fix ign v n r m k
  assume run: "check_field E ign (Field (KList c) d s p) v n = (Inr r, m)"
    and set: "settled sn (Field (KList c) d s p) r"
  show "check_field E ign (Field (KList c) d s p) (as_primitive sn (Field (KList c) d s p) r) k = (Inr r, k)"
  proof (cases "p \<and> v = PNone")
    case True
    with run show ?thesis by auto
  next
    case False
    with run obtain xs ys where ys: "mapM_io (\<lambda>x. check_field E ign c x) xs n = (Inr ys, m)" "r = OList ys"
      by (auto simp: bindM_eq_Inr split: if_splits)
    have "check_field E ign c (as_primitive sn c y) j = (Inr y, j)" if y: "y \<in> set ys" for y j
    proof -
      from mapM_io_results [OF ys(1) y] obtain x n' m' where "check_field E ign c x n' = (Inr y, m')" by blast
      moreover from set ys(2) y have "settled sn c y" by simp
      ultimately show ?thesis by (rule checks_againD [OF assms])
    qed
    then have "mapM_io (\<lambda>x. check_field E ign c x) (map (\<lambda>y. as_primitive sn c y) ys) k = (Inr ys, k)"
      by (intro mapM_io_again) blast
    with ys(2) show ?thesis by (simp add: list_elements_def py_iter_def bindM_def)
  qed
qed

lemma mapping_again:
  assumes "checks_again E sn c"
  shows "checks_again E sn (Field (KMapping i c) d s p)"
  unfolding checks_again_def
proof (intro allI impI)
  fix ign v n r m k
  let ?g = "\<lambda>kv. bindM (check_field E False c (snd kv)) (\<lambda>y. returnM (fst kv, y))"
  assume run: "check_field E ign (Field (KMapping i c) d s p) v n = (Inr r, m)"
    and set: "settled sn (Field (KMapping i c) d s p) r"
  show "check_field E ign (Field (KMapping i c) d s p) (as_primitive sn (Field (KMapping i c) d s p) r) k = (Inr r, k)"
  proof (cases "p \<and> v = PNone")
    case True
    with run show ?thesis by auto
  next
    case False
    with run obtain kvs ys where kvs: "mapping_entries i v = Inr kvs"
      and ys: "mapM_io ?g kvs n = (Inr ys, m)" "r = OMap ys"
      by (auto simp: bindM_eq_Inr split: if_splits)
    let ?q = "map (\<lambda>kv. (fst kv, as_primitive sn c (snd kv))) ys"
    have keys: "map fst ys = map fst kvs"
      using ys(1) by (induction kvs arbitrary: n ys) (auto simp: bindM_eq_Inr)
    have "dkeys ?q = dkeys kvs" using keys by (simp add: dkeys_def comp_def)
    with kvs have entries: "mapping_entries i (PDict ?q) = Inr ?q"
      by (cases i; cases v) (auto simp: mapping_entries_def split: option.splits)
    have "?g (fst y, as_primitive sn c (snd y)) j = (Inr y, j)" if y: "y \<in> set ys" for y j
    proof -
      from mapM_io_results [OF ys(1) y] obtain x n' m' where
        "check_field E False c (snd x) n' = (Inr (snd y), m')" by (auto simp: bindM_eq_Inr)
      moreover from set ys(2) y have "settled sn c (snd y)" by simp
      ultimately have "check_field E False c (as_primitive sn c (snd y)) j = (Inr (snd y), j)"
        by (rule checks_againD [OF assms])
      then show ?thesis by (simp add: bindM_def)
    qed
    then have "mapM_io ?g ?q k = (Inr ys, k)" by (intro mapM_io_again) blast
    with ys(2) entries show ?thesis by (simp add: bindM_def)
  qed
qed

lemma optional_again:
  assumes "checks_again E sn c"
  shows "checks_again E sn (Field (KOptional c) d s p)"
proof -
  let ?f = "Field (KOptional c) d s p"
  have prim: "as_primitive sn ?f r = as_primitive sn c r" for r by (cases r) simp_all
  have set: "settled sn ?f r = settled sn c r" for r by (cases r) simp_all
  show ?thesis
    unfolding checks_again_def prim set
  proof (intro allI impI)
    fix ign v n r m k
    assume run: "check_field E ign ?f v n = (Inr r, m)" and s: "settled sn c r"
    show "check_field E ign ?f (as_primitive sn c r) k = (Inr r, k)"
    proof (cases "v = PNone")
      case True
      with run show ?thesis by simp
    next
      case False
      with run have "check_field E ign c v n = (Inr r, m)" by simp
      then have "check_field E ign c (as_primitive sn c r) k = (Inr r, k)" using s by (rule checks_againD [OF assms])
      moreover have "as_primitive sn c r = PNone \<longrightarrow> ONone = r" by (cases r) simp_all
      ultimately show ?thesis by simp
    qed
  qed
qed

lemma compound_again:
  assumes "names_ok fs" and "\<And>nf. nf \<in> set fs \<Longrightarrow> checks_again E sn (snd nf)"
  shows "checks_again E sn (Field (KCompound fs) d s p)"
  unfolding checks_again_def
proof (intro allI impI)
  fix ign v n r m k
  assume run: "check_field E ign (Field (KCompound fs) d s p) v n = (Inr r, m)"
    and set: "settled sn (Field (KCompound fs) d s p) r"
  show "check_field E ign (Field (KCompound fs) d s p) (as_primitive sn (Field (KCompound fs) d s p) r) k = (Inr r, k)"
  proof (cases "p \<and> v = PNone")
    case True
    with run show ?thesis by auto
  next
    case False
    with run obtain data kvs where kvs: "check_fields E ign fs data n = (Inr kvs, m)" "r = OModel kvs"
      by (auto simp: bindM_eq_Inr split: if_splits)
    with set have "settled_all sn fs kvs" by simp
    from model_again [OF assms kvs(1) this] kvs(2) show ?thesis by (simp add: bindM_def)
  qed
qed

lemma every_field_again: "ext_ok E \<Longrightarrow> field_ok f \<Longrightarrow> checks_again E sn f"
proof (induction f rule: field_ok.induct)
  case (1 k d s p)
  note E = \<open>ext_ok E\<close>
  let ?f = "Field k d s p"
  have dk: "default_ok k d" using 1 by simp
  show ?case
  proof (cases k)
    case KDate
    show ?thesis unfolding KDate by (rule pure_again [where g = "date_check E"]) (simp, rule date_again [OF E])
  next
    case KBoolean
    show ?thesis unfolding KBoolean by (rule pure_again [where g = "boolean_check p"]) (simp, rule boolean_again)
  next
    case KJson
    show ?thesis unfolding KJson by (rule pure_again [where g = "json_check p"]) (simp, rule json_again)
  next
    case KKeyword
    show ?thesis unfolding KKeyword by (rule pure_again [where g = "keyword_check p s d"]) (simp, rule keyword_again)
  next
    case KEmptyableKeyword
    show ?thesis unfolding KEmptyableKeyword
      by (rule pure_again [where g = "emptyable_check p s d"]) (simp, rule emptyable_again)
  next
    case KUpperKeyword
    show ?thesis unfolding KUpperKeyword
      by (rule pure_again [where g = "\<lambda>v. bindR (keyword_check p s d v) (\<lambda>r. Inr (map_str py_upper r))"])
         (simp, auto simp: bindR_eq_Inr dest: keyword_map_again [where g = py_upper])
  next
    case KLowerKeyword
    show ?thesis unfolding KLowerKeyword
      by (rule pure_again [where g = "\<lambda>v. bindR (keyword_check p s d v) (\<lambda>r. Inr (map_str py_lower r))"])
         (simp, auto simp: bindR_eq_Inr dest: keyword_map_again [where g = py_lower])
  next
    case KCaseInsensitiveKeyword
    show ?thesis unfolding KCaseInsensitiveKeyword
      by (rule pure_again [where g = "keyword_check p s d"]) (simp, rule keyword_again)
  next
    case KAny
    show ?thesis unfolding KAny checks_again_def by (auto simp: as_primitive_as_given)
  next
    case (KValidated x)
    show ?thesis unfolding KValidated
      by (rule pure_again [where g = "validated_check x p s d"]) (simp, rule validated_again)
  next
    case KIP
    show ?thesis unfolding KIP by (rule pure_again [where g = ip_check]) (simp, rule ip_again)
  next
    case (KDomain strict)
    show ?thesis unfolding KDomain
      by (rule pure_again [where g = "domain_check E strict"]) (simp, rule domain_again [OF E])
  next
    case KEmail
    show ?thesis unfolding KEmail by (rule pure_again [where g = "email_check E"]) (simp, rule email_again [OF E])
  next
    case KURI
    show ?thesis unfolding KURI checks_again_def
    proof (intro allI impI)
      fix ign v n r k j
      assume run: "check_field E ign (Field KURI d s p) v n = (Inr r, k)" and ok: "settled sn (Field KURI d s p) r"
      then have "uri_check v = Inr r" by (simp add: liftM_def)
      then consider "r = ONone" | x where "r = OStr x" by (cases v) (auto simp: uri_check_def split: if_splits option.splits)
      then show "check_field E ign (Field KURI d s p) (as_primitive sn (Field KURI d s p) r) j = (Inr r, j)"
        using ok by cases (simp_all add: liftM_def uri_check_def [of PNone])
    qed
  next
    case (KEnum vs)
    show ?thesis unfolding KEnum by (rule pure_again [where g = "enum_check vs p s d"]) (simp, rule enum_again)
  next
    case KUUID
    show ?thesis unfolding KUUID checks_again_def by (auto simp: uuid_check_def split: if_splits)
  next
    case KText
    show ?thesis unfolding KText by (rule pure_again [where g = "text_check p s d"]) (simp, rule text_again)
  next
    case KIndexText
    show ?thesis unfolding KIndexText
      by (rule pure_again [where g = "index_text_check p"]) (simp, rule index_text_again)
  next
    case (KInteger lo hi)
    show ?thesis unfolding KInteger
      by (rule pure_again [where g = "integer_check E lo hi p s d"])
         (simp, rule integer_again [OF _ dk [unfolded KInteger]])
  next
    case KFloat
    show ?thesis unfolding KFloat
      by (rule pure_again [where g = "float_check E p s d"])
         (simp, rule float_again [OF _ dk [unfolded KFloat] refl])
  next
    case (KClassification u)
    show ?thesis unfolding KClassification
      by (rule pure_again [where g = "classification_check E u p"]) (simp, rule classification_again [OF E])
  next
    case KClassificationString
    show ?thesis unfolding KClassificationString
      by (rule pure_again [where g = "classification_string_check E p s d"])
         (simp, rule classification_string_again [OF E])
  next
    case (KList c)
    with 1 show ?thesis by (simp add: list_again)
  next
    case (KMapping i c)
    with 1 show ?thesis by (simp add: mapping_again)
  next
    case (KOptional c)
    with 1 show ?thesis by (simp add: optional_again)
  next
    case (KCompound fs)
    have "names_ok fs" using 1 KCompound by simp
    moreover have "checks_again E sn (snd nf)" if "nf \<in> set fs" for nf
      using 1 KCompound that by simp
    ultimately show ?thesis unfolding KCompound by (rule compound_again)
  qed
qed


text \<open>
  A zero is not stored. In an optional float field without a default of its own, such as the severity
  or the confidence of a hit, the value 0 is checked to None, although 0 is a valid value; any other
  number is kept.
\<close>

lemma optional_float_loses_zero:
  "check_field E ign (odm_Optional (plain KFloat) PNone) (PFloat r) n =
     (Inr (if truthy (PFloat r) then OFloat r else ONone), n)"
  by (simp add: odm_Optional_def mk_field_def float_check_def py_float_def)

end
