(* ===== verification/CaseModel.thy ===== *)
theory CaseModel
  imports OdmRoundtrip HitActions
begin

text \<open>
  The case model (\<^verbatim>\<open>odm/models/case.py\<close>): the declarations of its classes, the guards of their
  constructors, and the objects as records. A constructed object of the generic model layer is read
  into a record; a record is written back as the primitives the store keeps. A list field set to null
  is stored as no list and read back as the empty one; the record has the empty list for both.
\<close>

section \<open>Declarations\<close>

text \<open>\<open>unrestricted\<close> is \<^verbatim>\<open>CLASSIFICATION.UNRESTRICTED\<close> of the configured engine.\<close>

definition text_list :: field where
  "text_list = odm_Optional (mk_field (KList (plain KKeyword)) (PList []) False) PNone"

definition compound_list :: "odm_model \<Rightarrow> field" where
  "compound_list m = odm_Optional (mk_field (KList (plain (KCompound m))) (PList []) False) PNone"

definition CaseLog_model :: odm_model where
  "CaseLog_model =
    [(''timestamp'', plain KDate),
     (''key'', odm_Optional (plain KKeyword) PNone),
     (''previous_value'', odm_Optional (plain KKeyword) PNone),
     (''new_value'', odm_Optional (plain KKeyword) PNone),
     (''user'', plain KKeyword),
     (''explanation'', odm_Optional (plain KText) PNone)]"

definition CaseItem_model :: "string \<Rightarrow> odm_model" where
  "CaseItem_model unrestricted =
    [(''id'', odm_UUID),
     (''parent'', odm_Optional (plain KKeyword) PNone),
     (''name'', odm_Optional (plain KText) PNone),
     (''type'', plain (KEnum (enum_list CaseItemTypes))),
     (''value'', plain KText),
     (''visible'', mk_field KBoolean (PBool True) False),
     (''classification'', odm_Optional (mk_field (KClassification False) (PStr unrestricted) False) PNone)]"

definition CaseRule_model :: odm_model where
  "CaseRule_model =
    [(''rule_id'', odm_UUID),
     (''destination'', plain KKeyword),
     (''query'', plain KKeyword),
     (''author'', plain KKeyword),
     (''enabled'', mk_field KBoolean (PBool True) False),
     (''created_at'', mk_field KDate (PStr ''NOW'') False),
     (''timeframe'', odm_Optional (plain (KInteger (Some 1) None)) PNone),
     (''expire_after_resolved'', mk_field KBoolean (PBool False) False),
     (''indexes'', mk_field (KList (plain (KEnum (enum_list RuleIndexTypes)))) (PList [PStr ''hit'']) False)]"

definition CaseTask_model :: odm_model where
  "CaseTask_model =
    [(''id'', odm_UUID),
     (''complete'', mk_field KBoolean (PBool False) False),
     (''assignment'', optional_kw KKeyword),
     (''summary'', plain KText),
     (''item'', optional_kw KKeyword)]"

definition CaseEnrichment_model :: odm_model where
  "CaseEnrichment_model = [(''item'', plain KKeyword), (''annotations'', mk_field (KList (plain KKeyword)) (PList []) False)]"

definition Case_model :: "string \<Rightarrow> odm_model" where
  "Case_model unrestricted =
    [(''case_id'', odm_UUID),
     (''classification'', mk_field (KClassification False) (PStr unrestricted) False),
     (''title'', plain KText),
     (''summary'', plain KText),
     (''overview'', odm_Optional (plain KText) PNone),
     (''escalation'', mk_field (KEnum (enum_list CaseEscalation)) (PStr ''normal'') False),
     (''status'', mk_field (KEnum (enum_list Status)) (PStr (status_value OPEN)) False),
     (''created'', odm_Optional (mk_field KDate (PStr ''NOW'') False) PNone),
     (''visible'', mk_field KBoolean (PBool True) False),
     (''updated'', odm_Optional (plain KDate) PNone),
     (''start'', odm_Optional (plain KDate) PNone),
     (''end'', odm_Optional (plain KDate) PNone),
     (''targets'', text_list), (''threats'', text_list), (''indicators'', text_list),
     (''participants'', text_list),
     (''items'', compound_list (CaseItem_model unrestricted)),
     (''enrichments'', compound_list CaseEnrichment_model),
     (''rules'', compound_list CaseRule_model),
     (''tasks'', compound_list CaseTask_model),
     (''log'', compound_list CaseLog_model)]"

section \<open>Records\<close>

record case_item =
  ci_id :: string
  ci_parent :: "string option"
  ci_name :: "string option"
  ci_type :: case_item_type
  ci_value :: string
  ci_visible :: bool
  ci_class :: "string option"

record case_rule =
  cr_rule_id :: string
  cr_destination :: string
  cr_query :: string
  cr_author :: string
  cr_enabled :: bool
  cr_created_at :: "string option"
  cr_timeframe :: "int option"
  cr_expire_after_resolved :: bool
  cr_indexes :: "string list"

record case_log =
  cl_timestamp :: "string option"
  cl_key :: "string option"
  cl_previous_value :: "string option"
  cl_new_value :: "string option"
  cl_user :: string
  cl_explanation :: "string option"

record case_task =
  ct_id :: string
  ct_complete :: bool
  ct_assignment :: "string option"
  ct_summary :: string
  ct_item :: "string option"

record case_enrichment =
  cn_item :: string
  cn_annotations :: "string list"

record case_rec =
  cs_id :: string
  cs_classification :: string
  cs_title :: string
  cs_summary :: string
  cs_overview :: "string option"
  cs_escalation :: string
  cs_status :: string
  cs_created :: "string option"
  cs_visible :: bool
  cs_updated :: "string option"
  cs_start :: "string option"
  cs_end :: "string option"
  cs_targets :: "string list"
  cs_threats :: "string list"
  cs_indicators :: "string list"
  cs_participants :: "string list"
  cs_items :: "case_item list"
  cs_enrichments :: "case_enrichment list"
  cs_rules :: "case_rule list"
  cs_tasks :: "case_task list"
  cs_log :: "case_log list"

section \<open>Reading checked objects\<close>

type_synonym obj = "(string \<times> oval) list"

definition o_get :: "obj \<Rightarrow> string \<Rightarrow> oval" where
  "o_get ob k = (case dget ob k of None \<Rightarrow> ONone | Some v \<Rightarrow> v)"

definition o_text :: "oval \<Rightarrow> string option" where
  "o_text v = (case v of OStr s \<Rightarrow> Some s | ODate d \<Rightarrow> Some d | OClass c \<Rightarrow> Some c | _ \<Rightarrow> None)"

definition o_string :: "oval \<Rightarrow> string" where
  "o_string v = (case o_text v of None \<Rightarrow> [] | Some s \<Rightarrow> s)"

definition o_bool :: "oval \<Rightarrow> bool" where
  "o_bool v \<longleftrightarrow> v = OBool True"

definition o_int :: "oval \<Rightarrow> int option" where
  "o_int v = (case v of OInt i \<Rightarrow> Some i | _ \<Rightarrow> None)"

definition o_list :: "oval \<Rightarrow> oval list" where
  "o_list v = (case v of OList vs \<Rightarrow> vs | _ \<Rightarrow> [])"

definition o_obj :: "oval \<Rightarrow> obj" where
  "o_obj v = (case v of OModel ob \<Rightarrow> ob | _ \<Rightarrow> [])"

text \<open>The member a stored type denotes; the check of the field admits no other text.\<close>

definition item_type_of :: "string \<Rightarrow> case_item_type" where
  "item_type_of s =
     (case find_first (\<lambda>t. item_type_value t = s) [CI_EVENT, CI_HIT, CI_CASE, CI_REFERENCE, CI_FOLDER, CI_MARKDOWN] of
        Some t \<Rightarrow> t | None \<Rightarrow> CI_EVENT)"

definition item_of :: "obj \<Rightarrow> case_item" where
  "item_of ob = \<lparr>ci_id = o_string (o_get ob ''id''), ci_parent = o_text (o_get ob ''parent''),
     ci_name = o_text (o_get ob ''name''), ci_type = item_type_of (o_string (o_get ob ''type'')),
     ci_value = o_string (o_get ob ''value''), ci_visible = o_bool (o_get ob ''visible''),
     ci_class = o_text (o_get ob ''classification'')\<rparr>"

definition rule_of :: "obj \<Rightarrow> case_rule" where
  "rule_of ob = \<lparr>cr_rule_id = o_string (o_get ob ''rule_id''), cr_destination = o_string (o_get ob ''destination''),
     cr_query = o_string (o_get ob ''query''), cr_author = o_string (o_get ob ''author''),
     cr_enabled = o_bool (o_get ob ''enabled''), cr_created_at = o_text (o_get ob ''created_at''),
     cr_timeframe = o_int (o_get ob ''timeframe''),
     cr_expire_after_resolved = o_bool (o_get ob ''expire_after_resolved''),
     cr_indexes = map o_string (o_list (o_get ob ''indexes''))\<rparr>"

definition log_of :: "obj \<Rightarrow> case_log" where
  "log_of ob = \<lparr>cl_timestamp = o_text (o_get ob ''timestamp''), cl_key = o_text (o_get ob ''key''),
     cl_previous_value = o_text (o_get ob ''previous_value''), cl_new_value = o_text (o_get ob ''new_value''),
     cl_user = o_string (o_get ob ''user''), cl_explanation = o_text (o_get ob ''explanation'')\<rparr>"

definition task_of :: "obj \<Rightarrow> case_task" where
  "task_of ob = \<lparr>ct_id = o_string (o_get ob ''id''), ct_complete = o_bool (o_get ob ''complete''),
     ct_assignment = o_text (o_get ob ''assignment''), ct_summary = o_string (o_get ob ''summary''),
     ct_item = o_text (o_get ob ''item'')\<rparr>"

definition enrichment_of :: "obj \<Rightarrow> case_enrichment" where
  "enrichment_of ob = \<lparr>cn_item = o_string (o_get ob ''item''),
     cn_annotations = map o_string (o_list (o_get ob ''annotations''))\<rparr>"

section \<open>Constructors\<close>

text \<open>
  \<^verbatim>\<open>CaseItem.__init__\<close>: a case reference has no parent, and the value of a folder is its name. A value
  that is no dictionary has no \<^verbatim>\<open>get\<close>.
\<close>

definition case_item_data :: "py \<Rightarrow> py result" where
  "case_item_data v =
     (if \<not> truthy v then Inr v
      else case v of
        PDict d \<Rightarrow>
          if dget d ''type'' = Some (PStr (item_type_value CI_CASE)) \<and>
             (case dget d ''parent'' of None \<Rightarrow> False | Some p \<Rightarrow> p \<noteq> PNone)
          then Inl (value_error ''Case items must be root-level (parent must be null)'')
          else if dget d ''type'' = Some (PStr (item_type_value CI_FOLDER))
          then Inr (PDict (dset d ''value'' (case dget d ''name'' of None \<Rightarrow> PNone | Some n \<Rightarrow> n)))
          else Inr v
      | _ \<Rightarrow> Inl (Exn EAttributeError ''object has no attribute get''))"

definition CaseItem_init :: "odm_ext \<Rightarrow> string \<Rightarrow> bool \<Rightarrow> py \<Rightarrow> (nat, case_item) io" where
  "CaseItem_init E unrestricted ign v =
     bindM (liftM (case_item_data v)) (\<lambda>v'.
     bindM (model_init E ign (CaseItem_model unrestricted) v') (\<lambda>ob. returnM (item_of ob)))"

text \<open>\<^verbatim>\<open>CaseLog.__init__\<close>: without an explanation, the timestamp, the new value and the user are required.\<close>

definition case_log_data :: "py \<Rightarrow> py result" where
  "case_log_data v =
     (case v of
        PDict d \<Rightarrow>
          if \<not> dmem d ''explanation'' \<and> \<not> {''timestamp'', ''new_value'', ''user''} \<subseteq> set (dkeys d)
          then Inl (value_error ''If no explanation provided, you must provide the following values'')
          else Inr v
      | PNone \<Rightarrow> Inl (Exn ETypeError ''argument of type NoneType is not iterable'')
      | _ \<Rightarrow> Inl (Exn EAttributeError ''object has no attribute keys''))"

definition CaseLog_init :: "odm_ext \<Rightarrow> bool \<Rightarrow> py \<Rightarrow> (nat, case_log) io" where
  "CaseLog_init E ign v =
     bindM (liftM (case_log_data v)) (\<lambda>v'.
     bindM (model_init E ign CaseLog_model v') (\<lambda>ob. returnM (log_of ob)))"

text \<open>\<^verbatim>\<open>CaseRule.__init__\<close>: a timeframe is a positive integer, and needed for expiry after resolution.\<close>

definition valid_timeframe :: "py \<Rightarrow> bool" where
  "valid_timeframe v \<longleftrightarrow> (case v of PInt i \<Rightarrow> 0 < i | _ \<Rightarrow> False)"

definition case_rule_data :: "py \<Rightarrow> py result" where
  "case_rule_data v =
     (case v of
        PDict d \<Rightarrow>
          (case (case dget d ''timeframe'' of None \<Rightarrow> PNone | Some t \<Rightarrow> t) of
             PNone \<Rightarrow>
               if (case dget d ''expire_after_resolved'' of None \<Rightarrow> False | Some x \<Rightarrow> truthy x)
               then Inl (value_error ''Rule cannot expire after resolved when no timeframe is set'')
               else Inr v
           | t \<Rightarrow>
               if \<not> valid_timeframe t then Inl (value_error ''Rule timeframe must be a positive integer or None'')
               else Inr v)
      | _ \<Rightarrow> Inl (Exn EAttributeError ''object has no attribute get''))"

definition CaseRule_init :: "odm_ext \<Rightarrow> bool \<Rightarrow> py \<Rightarrow> (nat, case_rule) io" where
  "CaseRule_init E ign v =
     bindM (liftM (case_rule_data v)) (\<lambda>v'.
     bindM (model_init E ign CaseRule_model v') (\<lambda>ob. returnM (rule_of ob)))"

text \<open>
  The compounds of a case inside a \<^verbatim>\<open>List\<close>: each element goes through the constructor of its class.
\<close>

definition init_list :: "(py \<Rightarrow> (nat, 'a) io) \<Rightarrow> odm_model \<Rightarrow> py \<Rightarrow> (nat, 'a list) io" where
  "init_list mk m v =
     (if v = PNone then returnM []
      else bindM (liftM (list_elements (plain (KCompound m)) v)) (\<lambda>xs. mapM_io mk xs))"

definition init_compounds ::
    "(py \<Rightarrow> (nat, 'a) io) \<Rightarrow> odm_model \<Rightarrow> string \<Rightarrow> (string, py) dict \<Rightarrow> (nat, 'a list) io" where
  "init_compounds mk m name data =
     bindM (liftM (field_input name (compound_list m) data)) (init_list mk m)"

definition plain_init :: "odm_ext \<Rightarrow> bool \<Rightarrow> (obj \<Rightarrow> 'a) \<Rightarrow> odm_model \<Rightarrow> py \<Rightarrow> (nat, 'a) io" where
  "plain_init E ign rd m v = bindM (model_init E ign m v) (\<lambda>ob. returnM (rd ob))"

text \<open>\<^verbatim>\<open>Case(data)\<close>: the simple fields come first in the declaration, then the compounds.\<close>

definition Case_init :: "odm_ext \<Rightarrow> string \<Rightarrow> bool \<Rightarrow> py \<Rightarrow> (nat, case_rec) io" where
  "Case_init E unrestricted ign v =
     bindM (liftM (bindR (model_data v) (accept_keys ign (Case_model unrestricted)))) (\<lambda>data.
     bindM (check_fields E ign (take 16 (Case_model unrestricted)) data) (\<lambda>ob.
     bindM (init_compounds (CaseItem_init E unrestricted ign) (CaseItem_model unrestricted) ''items'' data) (\<lambda>items.
     bindM (init_compounds (plain_init E ign enrichment_of CaseEnrichment_model) CaseEnrichment_model ''enrichments'' data) (\<lambda>enrs.
     bindM (init_compounds (CaseRule_init E ign) CaseRule_model ''rules'' data) (\<lambda>rules.
     bindM (init_compounds (plain_init E ign task_of CaseTask_model) CaseTask_model ''tasks'' data) (\<lambda>tasks.
     bindM (init_compounds (CaseLog_init E ign) CaseLog_model ''log'' data) (\<lambda>logs.
     returnM \<lparr>cs_id = o_string (o_get ob ''case_id''),
       cs_classification = o_string (o_get ob ''classification''), cs_title = o_string (o_get ob ''title''),
       cs_summary = o_string (o_get ob ''summary''), cs_overview = o_text (o_get ob ''overview''),
       cs_escalation = o_string (o_get ob ''escalation''), cs_status = o_string (o_get ob ''status''),
       cs_created = o_text (o_get ob ''created''), cs_visible = o_bool (o_get ob ''visible''),
       cs_updated = o_text (o_get ob ''updated''), cs_start = o_text (o_get ob ''start''),
       cs_end = o_text (o_get ob ''end''), cs_targets = map o_string (o_list (o_get ob ''targets'')),
       cs_threats = map o_string (o_list (o_get ob ''threats'')),
       cs_indicators = map o_string (o_list (o_get ob ''indicators'')),
       cs_participants = map o_string (o_list (o_get ob ''participants'')),
       cs_items = items, cs_enrichments = enrs, cs_rules = rules, cs_tasks = tasks, cs_log = logs\<rparr>)))))))"

section \<open>Documents\<close>

text \<open>A record as the primitives of its object, nulls stripped, and the record such primitives denote.\<close>

definition opt_entry :: "string \<Rightarrow> string option \<Rightarrow> (string, py) dict" where
  "opt_entry k x = (case x of None \<Rightarrow> [] | Some s \<Rightarrow> [(k, PStr s)])"

definition texts :: "string list \<Rightarrow> py" where
  "texts xs = PList (map PStr xs)"

definition dump_item :: "case_item \<Rightarrow> py" where
  "dump_item i = PDict ([(''id'', PStr (ci_id i))] @ opt_entry ''parent'' (ci_parent i) @
     opt_entry ''name'' (ci_name i) @ [(''type'', PStr (item_type_value (ci_type i))), (''value'', PStr (ci_value i)),
     (''visible'', PBool (ci_visible i))] @ opt_entry ''classification'' (ci_class i))"

definition dump_rule :: "case_rule \<Rightarrow> py" where
  "dump_rule r = PDict ([(''rule_id'', PStr (cr_rule_id r)), (''destination'', PStr (cr_destination r)),
     (''query'', PStr (cr_query r)), (''author'', PStr (cr_author r)), (''enabled'', PBool (cr_enabled r))] @
     opt_entry ''created_at'' (cr_created_at r) @
     (case cr_timeframe r of None \<Rightarrow> [] | Some n \<Rightarrow> [(''timeframe'', PInt n)]) @
     [(''expire_after_resolved'', PBool (cr_expire_after_resolved r)), (''indexes'', texts (cr_indexes r))])"

definition dump_log :: "case_log \<Rightarrow> py" where
  "dump_log l = PDict (opt_entry ''timestamp'' (cl_timestamp l) @ opt_entry ''key'' (cl_key l) @
     opt_entry ''previous_value'' (cl_previous_value l) @ opt_entry ''new_value'' (cl_new_value l) @
     [(''user'', PStr (cl_user l))] @ opt_entry ''explanation'' (cl_explanation l))"

definition dump_task :: "case_task \<Rightarrow> py" where
  "dump_task t = PDict ([(''id'', PStr (ct_id t)), (''complete'', PBool (ct_complete t))] @
     opt_entry ''assignment'' (ct_assignment t) @ [(''summary'', PStr (ct_summary t))] @ opt_entry ''item'' (ct_item t))"

definition dump_enrichment :: "case_enrichment \<Rightarrow> py" where
  "dump_enrichment n = PDict [(''item'', PStr (cn_item n)), (''annotations'', texts (cn_annotations n))]"

definition case_primitives :: "case_rec \<Rightarrow> (string, py) dict" where
  "case_primitives c = [(''case_id'', PStr (cs_id c)), (''classification'', PStr (cs_classification c)),
     (''title'', PStr (cs_title c)), (''summary'', PStr (cs_summary c))] @ opt_entry ''overview'' (cs_overview c) @
     [(''escalation'', PStr (cs_escalation c)), (''status'', PStr (cs_status c))] @
     opt_entry ''created'' (cs_created c) @ [(''visible'', PBool (cs_visible c))] @
     opt_entry ''updated'' (cs_updated c) @ opt_entry ''start'' (cs_start c) @ opt_entry ''end'' (cs_end c) @
     [(''targets'', texts (cs_targets c)), (''threats'', texts (cs_threats c)),
      (''indicators'', texts (cs_indicators c)), (''participants'', texts (cs_participants c)),
      (''items'', PList (map dump_item (cs_items c))),
      (''enrichments'', PList (map dump_enrichment (cs_enrichments c))),
      (''rules'', PList (map dump_rule (cs_rules c))), (''tasks'', PList (map dump_task (cs_tasks c))),
      (''log'', PList (map dump_log (cs_log c))), (''__index'', PStr ''case'')]"

definition dump_case :: "case_rec \<Rightarrow> doc" where
  "dump_case c = map_of (case_primitives c)"

definition p_text :: "py option \<Rightarrow> string option" where
  "p_text v = (case v of Some (PStr s) \<Rightarrow> Some s | _ \<Rightarrow> None)"

definition p_string :: "py option \<Rightarrow> string" where
  "p_string v = (case v of Some (PStr s) \<Rightarrow> s | _ \<Rightarrow> [])"

definition p_list :: "py option \<Rightarrow> py list" where
  "p_list v = (case v of Some (PList xs) \<Rightarrow> xs | _ \<Rightarrow> [])"

definition p_texts :: "py option \<Rightarrow> string list" where
  "p_texts v = map (\<lambda>x. p_string (Some x)) (p_list v)"

definition p_dict :: "py \<Rightarrow> (string, py) dict" where
  "p_dict v = (case v of PDict d \<Rightarrow> d | _ \<Rightarrow> [])"

definition load_item :: "py \<Rightarrow> case_item" where
  "load_item v = (let d = dget (p_dict v) in
     \<lparr>ci_id = p_string (d ''id''), ci_parent = p_text (d ''parent''), ci_name = p_text (d ''name''),
      ci_type = item_type_of (p_string (d ''type'')), ci_value = p_string (d ''value''),
      ci_visible = (d ''visible'' = Some (PBool True)), ci_class = p_text (d ''classification'')\<rparr>)"

definition load_rule :: "py \<Rightarrow> case_rule" where
  "load_rule v = (let d = dget (p_dict v) in
     \<lparr>cr_rule_id = p_string (d ''rule_id''), cr_destination = p_string (d ''destination''),
      cr_query = p_string (d ''query''), cr_author = p_string (d ''author''),
      cr_enabled = (d ''enabled'' = Some (PBool True)), cr_created_at = p_text (d ''created_at''),
      cr_timeframe = (case d ''timeframe'' of Some (PInt i) \<Rightarrow> Some i | _ \<Rightarrow> None),
      cr_expire_after_resolved = (d ''expire_after_resolved'' = Some (PBool True)),
      cr_indexes = p_texts (d ''indexes'')\<rparr>)"

definition load_log :: "py \<Rightarrow> case_log" where
  "load_log v = (let d = dget (p_dict v) in
     \<lparr>cl_timestamp = p_text (d ''timestamp''), cl_key = p_text (d ''key''),
      cl_previous_value = p_text (d ''previous_value''), cl_new_value = p_text (d ''new_value''),
      cl_user = p_string (d ''user''), cl_explanation = p_text (d ''explanation'')\<rparr>)"

definition load_task :: "py \<Rightarrow> case_task" where
  "load_task v = (let d = dget (p_dict v) in
     \<lparr>ct_id = p_string (d ''id''), ct_complete = (d ''complete'' = Some (PBool True)),
      ct_assignment = p_text (d ''assignment''), ct_summary = p_string (d ''summary''), ct_item = p_text (d ''item'')\<rparr>)"

definition load_enrichment :: "py \<Rightarrow> case_enrichment" where
  "load_enrichment v = (let d = dget (p_dict v) in
     \<lparr>cn_item = p_string (d ''item''), cn_annotations = p_texts (d ''annotations'')\<rparr>)"

definition load_case :: "doc \<Rightarrow> case_rec" where
  "load_case d =
     \<lparr>cs_id = p_string (d ''case_id''), cs_classification = p_string (d ''classification''),
      cs_title = p_string (d ''title''), cs_summary = p_string (d ''summary''), cs_overview = p_text (d ''overview''),
      cs_escalation = p_string (d ''escalation''), cs_status = p_string (d ''status''),
      cs_created = p_text (d ''created''), cs_visible = (d ''visible'' = Some (PBool True)),
      cs_updated = p_text (d ''updated''), cs_start = p_text (d ''start''), cs_end = p_text (d ''end''),
      cs_targets = p_texts (d ''targets''), cs_threats = p_texts (d ''threats''),
      cs_indicators = p_texts (d ''indicators''), cs_participants = p_texts (d ''participants''),
      cs_items = map load_item (p_list (d ''items'')),
      cs_enrichments = map load_enrichment (p_list (d ''enrichments'')),
      cs_rules = map load_rule (p_list (d ''rules'')), cs_tasks = map load_task (p_list (d ''tasks'')),
      cs_log = map load_log (p_list (d ''log''))\<rparr>"

section \<open>A stored case is read back\<close>

lemma opt_entry_simps [simp]:
  "dget (opt_entry k x @ d) j = (if k = j \<and> x \<noteq> None then map_option PStr x else dget d j)"
  "dget (opt_entry k x) j = (if k = j then map_option PStr x else None)"
  "map_of (opt_entry k x @ e) j = (if k = j \<and> x \<noteq> None then map_option PStr x else map_of e j)"
  by (auto simp: opt_entry_def split: option.splits)

lemma p_text_opt [simp]: "p_text (if x \<noteq> None then map_option PStr x else None) = x"
  by (cases x) (simp_all add: p_text_def)

lemma p_text_opt' [simp]: "p_text (if \<exists>y. x = Some y then map_option PStr x else None) = x"
  by (cases x) (simp_all add: p_text_def)

lemma p_text_simps [simp]:
  "p_text None = None" "p_text (Some (PStr s)) = Some s" "p_text (map_option PStr x) = x"
  "p_string (Some (PStr s)) = s" "p_list (Some (PList xs)) = xs" "p_dict (PDict d) = d"
  by (auto simp: p_text_def p_string_def p_list_def p_dict_def split: option.splits)

lemma p_texts_texts [simp]: "p_texts (Some (texts xs)) = xs"
  by (simp add: p_texts_def texts_def comp_def)

lemma item_type_of_value [simp]: "item_type_of (item_type_value t) = t"
  by (cases t) (simp_all add: item_type_of_def)

lemma load_dump_item [simp]: "load_item (dump_item i) = i"
  by (simp add: load_item_def dump_item_def Let_def)

lemma load_dump_rule [simp]: "load_rule (dump_rule r) = r"
  by (cases "cr_timeframe r") (simp_all add: load_rule_def dump_rule_def Let_def)

lemma load_dump_log [simp]: "load_log (dump_log l) = l"
  by (simp add: load_log_def dump_log_def Let_def)

lemma load_dump_task [simp]: "load_task (dump_task t) = t"
  by (simp add: load_task_def dump_task_def Let_def)

lemma load_dump_enrichment [simp]: "load_enrichment (dump_enrichment n) = n"
  by (simp add: load_enrichment_def dump_enrichment_def Let_def)

lemma load_dump_case [simp]: "load_case (dump_case c) = c"
  by (simp add: load_case_def dump_case_def case_primitives_def comp_def del: map_of_append)

section \<open>An instance\<close>

definition sample_ext :: odm_ext where
  "sample_ext =
     \<lparr>x_now = ''2025-01-01T00:00:00.000000Z'',
      x_date = (\<lambda>v. if v = PStr ''2025-01-01T00:00:00.000000Z'' then Some ''2025-01-01T00:00:00.000000Z'' else None),
      x_float = (\<lambda>v. Inl (value_error ''not a float'')), x_int = (\<lambda>v. Inl (value_error ''not an integer'')),
      x_class = (\<lambda>u v. Inr ''TLP:CLEAR''), x_class_valid = (\<lambda>v. Inr False),
      x_domain = (\<lambda>s. False), x_hostname = (\<lambda>s. False), x_email = (\<lambda>s. True), x_random_id = (\<lambda>n. replicate n CHR ''i'')\<rparr>"

lemma sample_ext_ok: "ext_ok sample_ext"
  by (simp add: ext_ok_def sample_ext_def)


end
