(* ===== verification/CaseTree.thy ===== *)
theory CaseTree
  imports CaseModel
begin

text \<open>
  The items of a case form a forest: every item may name a folder as its parent. This theory has the
  parts of \<^verbatim>\<open>services/case_service.py\<close> that look at or change the list of items without the store:
  finding, conflicts, the parent test, the walk to the root, the collection of descendants, and the list
  each of append, move, rename and remove leaves. The theorems show that they keep the forest
  well-formed and that the recursions end on a well-formed forest.
\<close>

section \<open>Looking at the items\<close>

definition is_folder :: "case_item \<Rightarrow> bool" where
  "is_folder i \<longleftrightarrow> ci_type i = CI_FOLDER"

text \<open>\<^verbatim>\<open>next((item for item in items if item.id == k), None)\<close>\<close>

definition find_item :: "case_item list \<Rightarrow> string \<Rightarrow> case_item option" where
  "find_item items k = find_first (\<lambda>i. ci_id i = k) items"

text \<open>\<^verbatim>\<open>{item.id: item for item in items}\<close>: the last item of an id.\<close>

definition items_by_id :: "case_item list \<Rightarrow> string \<Rightarrow> case_item option" where
  "items_by_id items k = find_first (\<lambda>i. ci_id i = k) (rev items)"

definition in_quotes :: "string \<Rightarrow> string" where
  "in_quotes s = [CHR 0x27] @ s @ [CHR 0x27]"

definition name_text :: "case_item \<Rightarrow> string" where
  "name_text i = (case ci_name i of None \<Rightarrow> ''None'' | Some n \<Rightarrow> n)"

definition display_name :: "case_item \<Rightarrow> string" where
  "display_name i = (case ci_name i of None \<Rightarrow> ci_value i | Some n \<Rightarrow> n)"

definition check_conflicts :: "case_rec \<Rightarrow> case_item \<Rightarrow> bool result" where
  "check_conflicts c i =
     (if ci_type i \<in> {CI_HIT, CI_EVENT} \<and>
         list_ex (\<lambda>x. ci_type x = ci_type i \<and> ci_value x = ci_value i) (cs_items c)
      then Inl (Exn EInvalidData (''Item '' @ ci_value i @ '' already exists in case '' @ cs_id c))
      else Inr (list_ex (\<lambda>x. ci_name x = Some (display_name i) \<and> ci_parent x = ci_parent i) (cs_items c)))"

definition ensure_parent_exists :: "case_item list \<Rightarrow> string \<Rightarrow> unit result" where
  "ensure_parent_exists items pid =
     (case find_item items pid of
        None \<Rightarrow> Inl (Exn EInvalidData (''Parent item '' @ in_quotes pid @ '' does not exist in the case''))
      | Some i \<Rightarrow>
          if ci_type i \<noteq> CI_FOLDER
          then Inl (Exn EInvalidData (''Parent item '' @ in_quotes pid @ '' is not a folder (type: '' @ item_type_value (ci_type i) @ '')''))
          else Inr ())"

text \<open>
  \<^verbatim>\<open>_is_descendant\<close>: the walk up from the candidate, which stops at an id it has seen. Each step adds an
  item's id to the visited ones, so the walk ends.
\<close>

lemma items_by_id_in: "items_by_id items k = Some i \<Longrightarrow> i \<in> set items \<and> ci_id i = k"
  unfolding items_by_id_def by (drule find_first_Some) simp

function walk_up :: "case_item list \<Rightarrow> string \<Rightarrow> string set \<Rightarrow> string option \<Rightarrow> bool" where
  "walk_up items anc visited cur =
     (case cur of
        None \<Rightarrow> False
      | Some k \<Rightarrow>
          if k = anc then True
          else if k \<in> visited then False
          else (case items_by_id items k of
                  None \<Rightarrow> False
                | Some i \<Rightarrow> walk_up items anc (insert k visited) (ci_parent i)))"
  by pat_completeness auto
termination
proof (relation "measure (\<lambda>(items, anc, visited, cur). card (ci_id ` set items - visited))", goal_cases)
  case (2 items anc visited cur k i)
  then have "k \<in> ci_id ` set items - visited" using items_by_id_in [of items k i] by auto
  then have "ci_id ` set items - insert k visited \<subset> ci_id ` set items - visited" by auto
  then show ?case by (simp add: psubset_card_mono)
qed simp

declare walk_up.simps [simp del]

definition is_descendant :: "case_item list \<Rightarrow> string \<Rightarrow> string \<Rightarrow> bool" where
  "is_descendant items candidate anc = walk_up items anc {} (Some candidate)"

text \<open>
  \<^verbatim>\<open>_collect_descendant_ids\<close>, with a bound on the depth of the recursion that stands for the
  interpreter's stack. The set is listed in the order its elements are added.
\<close>

fun collect_descendants :: "nat \<Rightarrow> case_item list \<Rightarrow> string \<Rightarrow> string list result" where
  "collect_descendants 0 items pid = Inl (Exn ERecursion ''maximum recursion depth exceeded'')"
| "collect_descendants (Suc n) items pid =
     foldR (\<lambda>acc i.
        if ci_parent i = Some pid
        then bindR (collect_descendants n items (ci_id i)) (\<lambda>ds. Inr (acc @ ci_id i # ds))
        else Inr acc) [] items"

section \<open>Changing the items\<close>

text \<open>The assignment to the item \<^verbatim>\<open>next\<close> finds: the first of an id.\<close>

fun set_item :: "string \<Rightarrow> (case_item \<Rightarrow> case_item) \<Rightarrow> case_item list \<Rightarrow> case_item list" where
  "set_item k f [] = []"
| "set_item k f (i # items) = (if ci_id i = k then f i # items else i # set_item k f items)"

text \<open>\<^verbatim>\<open>move_case_item\<close> up to the assignment of the parent.\<close>

definition move_item :: "case_rec \<Rightarrow> string \<Rightarrow> string option \<Rightarrow> case_rec result" where
  "move_item c item_id new_parent =
     (case find_item (cs_items c) item_id of
        None \<Rightarrow> Inl (Exn ENotFound (''Item '' @ item_id @ '' does not exist in case '' @ cs_id c))
      | Some i \<Rightarrow>
          if ci_type i = CI_CASE \<and> new_parent \<noteq> None
          then Inl (Exn EInvalidData ''Case items must be root-level (parent must be null)'')
          else
            bindR (case new_parent of
                     None \<Rightarrow> Inr ()
                   | Some p \<Rightarrow>
                       bindR (ensure_parent_exists (cs_items c) p) (\<lambda>_.
                       if is_folder i \<and> is_descendant (cs_items c) p item_id
                       then Inl (Exn EInvalidData (''Cannot move folder '' @ in_quotes item_id @ '' under its own descendant '' @ in_quotes p))
                       else Inr ())) (\<lambda>_.
            if list_ex (\<lambda>x. ci_name x = ci_name i \<and> ci_parent x = new_parent \<and> ci_id x \<noteq> item_id) (cs_items c)
            then Inl (Exn EInvalidData (''An item with name '' @ in_quotes (name_text i) @ '' already exists in destination.''))
            else Inr (c\<lparr>cs_items := set_item item_id (\<lambda>x. x\<lparr>ci_parent := new_parent\<rparr>) (cs_items c)\<rparr>)))"

text \<open>\<^verbatim>\<open>rename_case_item\<close> after the case has been read.\<close>

definition rename_item :: "case_rec \<Rightarrow> string \<Rightarrow> string \<Rightarrow> case_rec result" where
  "rename_item c item_id new_name =
     (case find_item (cs_items c) item_id of
        None \<Rightarrow> Inl (Exn ENotFound (''Item '' @ item_id @ '' does not exist in case '' @ cs_id c))
      | Some i \<Rightarrow>
          if list_ex (\<lambda>x. ci_name x = Some (py_strip new_name) \<and> ci_id x \<noteq> item_id \<and> ci_parent x = ci_parent i) (cs_items c)
          then Inl (Exn EInvalidData (''Name '' @ in_quotes (py_strip new_name) @ '' is already used by a sibling item in this case''))
          else Inr (c\<lparr>cs_items := set_item item_id
                 (\<lambda>x. if is_folder x then x\<lparr>ci_name := Some (py_strip new_name), ci_value := py_strip new_name\<rparr>
                      else x\<lparr>ci_name := Some (py_strip new_name)\<rparr>) (cs_items c)\<rparr>))"

text \<open>
  The ids \<^verbatim>\<open>remove_case_items\<close> removes: those named and, by force, everything below the folders among
  them. \<open>depth\<close> bounds the recursion.
\<close>

definition add_removed ::
    "nat \<Rightarrow> case_rec \<Rightarrow> bool \<Rightarrow> string list \<Rightarrow> string \<Rightarrow> string list result" where
  "add_removed depth c force ids k =
     (case items_by_id (cs_items c) k of
        None \<Rightarrow> Inl (Exn EKeyError k)
      | Some i \<Rightarrow>
          if \<not> is_folder i then Inr (ids @ [k])
          else if list_ex (\<lambda>x. ci_parent x = Some k) (cs_items c) \<and> \<not> force
          then Inl (Exn EInvalidData (''Folder '' @ in_quotes k @ '' is not empty. Use force=True to remove it and its children.''))
          else if force
          then bindR (collect_descendants depth (cs_items c) k) (\<lambda>ds. Inr (ids @ ds @ [k]))
          else Inr (ids @ [k]))"

definition ids_to_remove :: "nat \<Rightarrow> case_rec \<Rightarrow> string list \<Rightarrow> bool \<Rightarrow> string list result" where
  "ids_to_remove depth c item_ids force =
     (let missing = filter (\<lambda>k. items_by_id (cs_items c) k = None) item_ids in
      if missing \<noteq> [] then Inl (Exn ENotFound (''Item(s) not found in case: '' @ py_join '', '' missing))
      else foldR (add_removed depth c force) [] item_ids)"

definition without_items :: "string list \<Rightarrow> case_item list \<Rightarrow> case_item list" where
  "without_items ids items = filter (\<lambda>i. ci_id i \<notin> set ids) items"

text \<open>
  The loop of \<^verbatim>\<open>get_parent_from_path\<close> over the parts of a path: the folder of each part under the one
  before, created under a fresh id when it is missing and creation is asked for. The answer is the list
  of items and the id of the last folder, or None when a folder is missing.
\<close>

definition path_parts :: "string \<Rightarrow> string list" where
  "path_parts path = filter (\<lambda>p. p \<noteq> []) (split_char CHR ''/'' (strip_by (\<lambda>ch. ch = CHR ''/'') path))"

definition new_folder :: "string \<Rightarrow> string option \<Rightarrow> string \<Rightarrow> string option \<Rightarrow> case_item" where
  "new_folder fid parent name cls =
     \<lparr>ci_id = fid, ci_parent = parent, ci_name = Some name, ci_type = CI_FOLDER, ci_value = name,
      ci_visible = True, ci_class = cls\<rparr>"

fun ensure_path ::
    "(nat \<Rightarrow> string) \<Rightarrow> string option \<Rightarrow> bool \<Rightarrow> string list \<Rightarrow> nat \<Rightarrow> case_item list \<Rightarrow> string option \<Rightarrow>
     (case_item list \<times> string option \<times> nat) option" where
  "ensure_path fresh cls create [] n items cur = Some (items, cur, n)"
| "ensure_path fresh cls create (p # ps) n items cur =
     (case find_first (\<lambda>i. is_folder i \<and> ci_name i = Some p \<and> ci_parent i = cur) items of
        Some i \<Rightarrow> ensure_path fresh cls create ps n items (Some (ci_id i))
      | None \<Rightarrow>
          if \<not> create then None
          else ensure_path fresh cls create ps (Suc n) (items @ [new_folder (fresh n) cur p cls]) (Some (fresh n)))"

section \<open>Well-formed forests\<close>

text \<open>An item is rooted when its chain of parents, each a folder of the case, ends at the root.\<close>

inductive rooted :: "case_item list \<Rightarrow> case_item \<Rightarrow> bool" for items where
  root: "ci_parent i = None \<Longrightarrow> rooted items i"
| child: "ci_parent i = Some (ci_id p) \<Longrightarrow> p \<in> set items \<Longrightarrow> is_folder p \<Longrightarrow> rooted items p \<Longrightarrow> rooted items i"

inductive_cases rooted_childE: "rooted items i"

definition forest_ok :: "case_item list \<Rightarrow> bool" where
  "forest_ok items \<longleftrightarrow>
     distinct (map ci_id items) \<and> (\<forall>i\<in>set items. rooted items i) \<and>
     (\<forall>i\<in>set items. ci_type i = CI_CASE \<longrightarrow> ci_parent i = None)"

lemma rooted_mono: "rooted items i \<Longrightarrow> set items \<subseteq> set items' \<Longrightarrow> rooted items' i"
  by (induction rule: rooted.induct) (auto intro: rooted.intros)

lemma forest_ok_Nil: "forest_ok []"
  by (simp add: forest_ok_def)

lemma find_item_Some: "find_item items k = Some i \<Longrightarrow> i \<in> set items \<and> ci_id i = k"
  unfolding find_item_def by (drule find_first_Some)

lemma distinct_ids: "distinct (map ci_id items) \<Longrightarrow> i \<in> set items \<Longrightarrow> j \<in> set items \<Longrightarrow> ci_id i = ci_id j \<Longrightarrow> i = j"
  by (auto simp: distinct_map dest: inj_onD)

lemma find_first_id:
  "distinct (map ci_id items) \<Longrightarrow> i \<in> set items \<Longrightarrow> find_first (\<lambda>x. ci_id x = ci_id i) items = Some i"
  by (induction items) force+

lemma find_item_in: "distinct (map ci_id items) \<Longrightarrow> i \<in> set items \<Longrightarrow> find_item items (ci_id i) = Some i"
  by (simp add: find_item_def find_first_id)

lemma items_by_id_eq: "distinct (map ci_id items) \<Longrightarrow> i \<in> set items \<Longrightarrow> items_by_id items (ci_id i) = Some i"
  using find_first_id [of "rev items" i] by (simp add: items_by_id_def rev_map [symmetric])

text \<open>Appending an item with a fresh id under the root or under a folder keeps the forest.\<close>

lemma forest_ok_append:
  assumes "forest_ok items" and "ci_id i \<notin> set (map ci_id items)"
    and "ci_parent i = None \<or> (\<exists>p\<in>set items. ci_parent i = Some (ci_id p) \<and> is_folder p)"
    and "ci_type i = CI_CASE \<longrightarrow> ci_parent i = None"
  shows "forest_ok (items @ [i])"
proof -
  have r: "rooted (items @ [i]) j" if "j \<in> set items" for j
    using assms(1) that rooted_mono [of items j "items @ [i]"] by (auto simp: forest_ok_def)
  have "rooted (items @ [i]) i"
    using assms(3)
  proof
    assume "\<exists>p\<in>set items. ci_parent i = Some (ci_id p) \<and> is_folder p"
    then obtain p where "p \<in> set items" "ci_parent i = Some (ci_id p)" "is_folder p" by blast
    with r [of p] show ?thesis using rooted.child [of i p "items @ [i]"] by simp
  qed (rule rooted.root)
  with r have "\<forall>j\<in>set (items @ [i]). rooted (items @ [i]) j" by simp
  with assms(1,2,4) show ?thesis by (simp add: forest_ok_def)
qed

section \<open>Chains of parents\<close>

text \<open>The items from one up to the root.\<close>

inductive chain :: "case_item list \<Rightarrow> case_item \<Rightarrow> case_item list \<Rightarrow> bool" for items where
  last: "ci_parent i = None \<Longrightarrow> chain items i [i]"
| up: "ci_parent i = Some (ci_id p) \<Longrightarrow> p \<in> set items \<Longrightarrow> is_folder p \<Longrightarrow> chain items p xs \<Longrightarrow> chain items i (i # xs)"

inductive_cases chainE: "chain items i xs"

lemma rooted_chain: "rooted items i \<longleftrightarrow> (\<exists>xs. chain items i xs)"
proof
  show "rooted items i \<Longrightarrow> \<exists>xs. chain items i xs"
    by (induction rule: rooted.induct) (auto intro: chain.intros)
  show "\<exists>xs. chain items i xs \<Longrightarrow> rooted items i"
  proof (elim exE)
    fix xs assume "chain items i xs"
    then show "rooted items i" by (induction rule: chain.induct) (auto intro: rooted.intros)
  qed
qed

lemma chain_hd: "chain items i xs \<Longrightarrow> \<exists>ys. xs = i # ys"
  by (erule chainE) auto

lemma chain_set: "chain items i xs \<Longrightarrow> set xs \<subseteq> insert i (set items)"
  by (induction rule: chain.induct) auto

lemma chain_folders: "chain items i xs \<Longrightarrow> is_folder i \<Longrightarrow> \<forall>x\<in>set xs. is_folder x"
  by (induction rule: chain.induct) auto

lemma chain_unique:
  assumes "distinct (map ci_id items)" and "chain items i xs" and "chain items i ys"
  shows "xs = ys"
  using assms(2,3)
proof (induction arbitrary: ys rule: chain.induct)
  case (last i)
  then show ?case by (auto elim: chainE)
next
  case (up i p xs)
  from up.prems up.hyps(1) obtain q zs where q: "ci_id q = ci_id p" "q \<in> set items" "chain items q zs" "ys = i # zs"
    by (auto elim: chainE)
  then have "q = p" using distinct_ids [OF assms(1)] up.hyps(2) by blast
  with up.IH q show ?case by simp
qed

lemma chain_below: "chain items i xs \<Longrightarrow> x \<in> set xs \<Longrightarrow> \<exists>ys. chain items x ys \<and> length ys \<le> length xs \<and> set ys \<subseteq> set xs"
proof (induction rule: chain.induct)
  case (up i p xs)
  show ?case
  proof (cases "x = i")
    case True
    with up.hyps have "chain items x (i # xs)" by (auto intro: chain.intros)
    then show ?thesis by blast
  next
    case False
    with up.prems up.IH obtain ys where "chain items x ys" "length ys \<le> length xs" "set ys \<subseteq> set xs" by auto
    then show ?thesis by (intro exI [of _ ys]) auto
  qed
qed (auto intro: chain.intros)

lemma chain_distinct:
  assumes "distinct (map ci_id items)" and "chain items i xs"
  shows "distinct xs"
  using assms(2)
proof (induction rule: chain.induct)
  case (up i p xs)
  have "i \<notin> set xs"
  proof
    assume "i \<in> set xs"
    with chain_below [OF up.hyps(4)] obtain ys where ys: "chain items i ys" "length ys \<le> length xs" by blast
    have "chain items i (i # xs)" using up.hyps by (rule chain.up)
    with ys(1) have "ys = i # xs" by (rule chain_unique [OF assms(1)])
    with ys(2) show False by simp
  qed
  with up.IH show ?case by simp
qed simp

lemma chain_length:
  assumes "distinct (map ci_id items)" and "chain items i xs" and "i \<in> set items"
  shows "length xs \<le> length items"
proof -
  have "length xs = card (set xs)" using chain_distinct [OF assms(1,2)] by (simp add: distinct_card)
  also have "\<dots> \<le> card (set items)" using chain_set [OF assms(2)] assms(3) by (intro card_mono) auto
  also have "\<dots> \<le> length items" by (rule card_length)
  finally show ?thesis .
qed

text \<open>The walk up sees exactly the ids of the chain.\<close>

lemma walk_up_chain:
  assumes "distinct (map ci_id items)"
  shows "chain items i xs \<Longrightarrow> i \<in> set items \<Longrightarrow> visited \<inter> ci_id ` set xs = {} \<Longrightarrow>
    walk_up items anc visited (Some (ci_id i)) \<longleftrightarrow> anc \<in> ci_id ` set xs"
proof (induction arbitrary: visited rule: chain.induct)
  case (last i)
  then show ?case
    by (simp add: walk_up.simps [of _ _ _ "Some _"] items_by_id_eq [OF assms] walk_up.simps [of _ _ _ None])
next
  case (up i p xs)
  have "chain items i (i # xs)" using up.hyps by (rule chain.up)
  from chain_distinct [OF assms this] have "i \<notin> set xs" by simp
  moreover have "set xs \<subseteq> set items" using chain_set [OF up.hyps(4)] up.hyps(2) by auto
  ultimately have "ci_id i \<notin> ci_id ` set xs" using distinct_ids [OF assms up.prems(1)] by blast
  with up.prems have "insert (ci_id i) visited \<inter> ci_id ` set xs = {}" by auto
  with up.IH [OF up.hyps(2)] have "walk_up items anc (insert (ci_id i) visited) (Some (ci_id p)) \<longleftrightarrow> anc \<in> ci_id ` set xs"
    by blast
  with up show ?case
    by (simp add: walk_up.simps [of _ _ visited "Some _"] items_by_id_eq [OF assms])
qed

lemma is_descendant_chain:
  "distinct (map ci_id items) \<Longrightarrow> chain items i xs \<Longrightarrow> i \<in> set items \<Longrightarrow>
   is_descendant items (ci_id i) anc \<longleftrightarrow> anc \<in> ci_id ` set xs"
  by (simp add: is_descendant_def walk_up_chain)

section \<open>Every operation keeps the forest\<close>

text \<open>Changing one item: the rest of the list stays.\<close>

lemma set_item_absent: "k \<notin> ci_id ` set items \<Longrightarrow> map (\<lambda>i. if ci_id i = k then f i else i) items = items"
  by (intro map_idI) auto

lemma set_item_map:
  "distinct (map ci_id items) \<Longrightarrow> set_item k f items = map (\<lambda>i. if ci_id i = k then f i else i) items"
  by (induction items) (auto simp: set_item_absent)

text \<open>An update that keeps the id, the type and the parent of every item keeps the forest.\<close>

lemma rooted_map:
  fixes g :: "case_item \<Rightarrow> case_item"
  assumes "\<And>i. ci_id (g i) = ci_id i \<and> ci_type (g i) = ci_type i \<and> ci_parent (g i) = ci_parent i"
  shows "rooted items i \<Longrightarrow> rooted (map g items) (g i)"
proof (induction rule: rooted.induct)
  case (child i p)
  then show ?case using rooted.child [of "g i" "g p" "map g items"] assms by (simp add: is_folder_def)
qed (simp add: assms rooted.root)

lemma forest_ok_map:
  fixes g :: "case_item \<Rightarrow> case_item"
  assumes "forest_ok items"
    and "\<And>i. ci_id (g i) = ci_id i \<and> ci_type (g i) = ci_type i \<and> ci_parent (g i) = ci_parent i"
  shows "forest_ok (map g items)"
  using assms rooted_map [of g items] by (auto simp: forest_ok_def comp_def)

text \<open>Moving an item under a folder that is not below it, or to the root.\<close>

lemma rooted_moved:
  assumes d: "distinct (map ci_id items)" and g: "g = (\<lambda>i. if ci_id i = k then i\<lparr>ci_parent := par\<rparr> else i)"
  shows "chain items i xs \<Longrightarrow> k \<notin> ci_id ` set xs \<Longrightarrow> rooted (map g items) i"
proof (induction rule: chain.induct)
  case (up i p xs)
  from chain_hd [OF up.hyps(4)] up.prems have "g p = p" by (auto simp: g)
  with up show ?case using rooted.child [of i p "map g items"] by (force simp: image_iff)
qed (rule rooted.root)

lemma forest_ok_move:
  assumes ok: "forest_ok items" and i: "i \<in> set items"
    and par: "par = None \<or> (\<exists>p\<in>set items. par = Some (ci_id p) \<and> is_folder p \<and> \<not> is_descendant items (ci_id p) (ci_id i))"
    and case_root: "ci_type i = CI_CASE \<longrightarrow> par = None"
  shows "forest_ok (set_item (ci_id i) (\<lambda>x. x\<lparr>ci_parent := par\<rparr>) items)"
proof -
  define g :: "case_item \<Rightarrow> case_item" where "g = (\<lambda>x. if ci_id x = ci_id i then x\<lparr>ci_parent := par\<rparr> else x)"
  from ok have d: "distinct (map ci_id items)" by (simp add: forest_ok_def)
  have gi: "ci_id (g x) = ci_id x" "ci_type (g x) = ci_type x" for x by (simp_all add: g_def)
  have new: "rooted (map g items) (g i)"
    using par
  proof
    assume "par = None"
    then show ?thesis by (intro rooted.root) (simp add: g_def)
  next
    assume "\<exists>p\<in>set items. par = Some (ci_id p) \<and> is_folder p \<and> \<not> is_descendant items (ci_id p) (ci_id i)"
    then obtain p where p: "p \<in> set items" "par = Some (ci_id p)" "is_folder p" "\<not> is_descendant items (ci_id p) (ci_id i)"
      by blast
    from ok p(1) obtain xs where xs: "chain items p xs" by (auto simp: forest_ok_def rooted_chain)
    with p(1,4) d have out: "ci_id i \<notin> ci_id ` set xs" by (simp add: is_descendant_chain)
    then have "rooted (map g items) p" by (intro rooted_moved [OF d g_def xs])
    moreover from out chain_hd [OF xs] have "g p = p" by (auto simp: g_def)
    ultimately show ?thesis
      using p rooted.child [of "g i" p "map g items"] by (force simp: g_def image_iff)
  qed
  have "rooted (map g items) (g j)" if "rooted items j" "j \<in> set items" for j
    using that
  proof (induction rule: rooted.induct)
    case (root j)
    show ?case
    proof (cases "ci_id j = ci_id i")
      case True
      with root.prems i distinct_ids [OF d] new show ?thesis by blast
    next
      case False
      with root show ?thesis by (intro rooted.root) (simp add: g_def)
    qed
  next
    case (child j p)
    show ?case
    proof (cases "ci_id j = ci_id i")
      case True
      with child.prems i distinct_ids [OF d] new show ?thesis by blast
    next
      case False
      with child show ?thesis
        using rooted.child [of "g j" "g p" "map g items"] by (simp add: gi is_folder_def) (simp add: g_def)
    qed
  qed
  moreover have "\<forall>j\<in>set items. ci_type j = CI_CASE \<longrightarrow> ci_parent (g j) = None"
    using ok case_root distinct_ids [OF d _ i] by (auto simp: forest_ok_def g_def)
  ultimately have "forest_ok (map g items)" using ok gi by (auto simp: forest_ok_def comp_def)
  then show ?thesis by (simp add: set_item_map [OF d] g_def)
qed

text \<open>Removing items none of whose remaining items is a child.\<close>

lemma forest_ok_filter:
  assumes ok: "forest_ok items"
    and closed: "\<And>j p. j \<in> set items \<Longrightarrow> P j \<Longrightarrow> p \<in> set items \<Longrightarrow> ci_parent j = Some (ci_id p) \<Longrightarrow> is_folder p \<Longrightarrow> P p"
  shows "forest_ok (filter P items)"
proof -
  have "rooted (filter P items) j" if "rooted items j" "j \<in> set items" "P j" for j
    using that
  proof (induction rule: rooted.induct)
    case (child j p)
    then have "P p" using closed by blast
    with child show ?case using rooted.child [of j p "filter P items"] by simp
  qed (rule rooted.root)
  with ok show ?thesis by (auto simp: forest_ok_def distinct_map_filter)
qed

section \<open>The descendants of a folder\<close>

definition below :: "case_item list \<Rightarrow> string \<Rightarrow> string set" where
  "below items k = {ci_id i | i. i \<in> set items \<and> (\<exists>xs. chain items i (i # xs) \<and> k \<in> ci_id ` set xs)}"

definition children :: "case_item list \<Rightarrow> string \<Rightarrow> case_item list" where
  "children items k = filter (\<lambda>i. ci_parent i = Some k) items"

lemma child_chain:
  assumes ok: "forest_ok items" and i: "i \<in> set items" and par: "ci_parent i = Some (ci_id p)" and p: "p \<in> set items"
    and ps: "chain items p ps"
  shows "is_folder p \<and> chain items i (i # ps)"
proof -
  from ok have d: "distinct (map ci_id items)" by (simp add: forest_ok_def)
  from ok i have "rooted items i" by (simp add: forest_ok_def)
  then obtain q where "ci_id q = ci_id p" "q \<in> set items" "is_folder q"
    by (rule rooted_childE) (use par in auto)
  with distinct_ids [OF d _ p] have "is_folder p" by blast
  with chain.up [OF par p _ ps] show ?thesis by blast
qed

lemma below_child:
  assumes ok: "forest_ok items" and p: "p \<in> set items"
  shows "chain items j ys \<Longrightarrow> j \<in> set items \<Longrightarrow> ys = j # xs \<Longrightarrow> ci_id p \<in> ci_id ` set xs \<Longrightarrow>
    \<exists>i\<in>set (children items (ci_id p)). j = i \<or> ci_id j \<in> below items (ci_id i)"
proof (induction arbitrary: xs rule: chain.induct)
  case (up j q zs)
  from chain_hd [OF up.hyps(4)] obtain ws where zs: "zs = q # ws" by blast
  have xs: "xs = zs" using up.prems by simp
  have cj: "chain items j (j # zs)" using up.hyps by (rule chain.up)
  show ?case
  proof (cases "ci_id q = ci_id p")
    case True
    with up.hyps(1) up.prems(1) show ?thesis by (auto simp: children_def)
  next
    case False
    with up.prems(3) xs zs have "ci_id p \<in> ci_id ` set ws" by auto
    from up.IH [OF up.hyps(2) zs this] obtain i where
      i: "i \<in> set (children items (ci_id p))" "q = i \<or> ci_id q \<in> below items (ci_id i)" by blast
    have "ci_id i \<in> ci_id ` set zs"
      using i(2)
    proof
      assume "ci_id q \<in> below items (ci_id i)"
      then obtain q' us where q': "ci_id q = ci_id q'" "q' \<in> set items" "chain items q' (q' # us)" "ci_id i \<in> ci_id ` set us"
        by (auto simp: below_def)
      from ok have d: "distinct (map ci_id items)" by (simp add: forest_ok_def)
      from distinct_ids [OF d q'(2) up.hyps(2)] q'(1) have "q' = q" by simp
      with chain_unique [OF d up.hyps(4)] q'(3) have "zs = q # us" by simp
      with q'(4) show ?thesis by auto
    qed (simp add: zs)
    with cj up.prems(1) have "ci_id j \<in> below items (ci_id i)" by (auto simp: below_def)
    with i(1) show ?thesis by blast
  qed
qed simp

lemma below_children:
  assumes ok: "forest_ok items" and p: "p \<in> set items" and ps: "chain items p ps"
  shows "below items (ci_id p) =
    (\<Union>i\<in>set (children items (ci_id p)). insert (ci_id i) (below items (ci_id i)))" (is "?l = ?r")
proof
  show "?l \<subseteq> ?r"
  proof
    fix k assume "k \<in> ?l"
    then obtain j xs where j: "k = ci_id j" "j \<in> set items" "chain items j (j # xs)" "ci_id p \<in> ci_id ` set xs"
      by (auto simp: below_def)
    with below_child [OF ok p j(3) j(2) refl j(4)] show "k \<in> ?r" by auto
  qed
next
  from ok have d: "distinct (map ci_id items)" by (simp add: forest_ok_def)
  show "?r \<subseteq> ?l"
  proof
    fix k assume "k \<in> ?r"
    then obtain i where i: "i \<in> set items" "ci_parent i = Some (ci_id p)" "k = ci_id i \<or> k \<in> below items (ci_id i)"
      by (auto simp: children_def)
    from child_chain [OF ok i(1,2) p ps] have ci: "chain items i (i # ps)" by blast
    have pp: "p \<in> set ps" using chain_hd [OF ps] by auto
    show "k \<in> ?l"
      using i(3)
    proof
      assume "k = ci_id i"
      with i(1) ci pp show ?thesis by (auto simp: below_def)
    next
      assume "k \<in> below items (ci_id i)"
      then obtain j xs i' where j: "k = ci_id j" "j \<in> set items" "chain items j (j # xs)" "i' \<in> set xs" "ci_id i' = ci_id i"
        by (auto simp: below_def)
      have "i' \<in> set items" using chain_set [OF j(3)] j(2,4) by auto
      with distinct_ids [OF d _ i(1)] j(5) have i': "i' = i" by blast
      from j(3) obtain q where "chain items q xs" using j(4) by (auto elim: chainE)
      from chain_below [OF this j(4)] obtain ys where ys: "chain items i ys" "set ys \<subseteq> set xs" using i' by blast
      with chain_unique [OF d ci] have "ys = i # ps" by blast
      with ys(2) pp have "p \<in> set xs" by auto
      with j show ?thesis by (auto simp: below_def)
    qed
  qed
qed

lemma collect_foldR:
  assumes "\<And>i. i \<in> set xs \<Longrightarrow> P i \<Longrightarrow> g i = Inr (h i)"
  shows "foldR (\<lambda>acc i. if P i then bindR (g i) (\<lambda>ds. Inr (acc @ k i # ds)) else Inr acc) acc xs =
    Inr (acc @ concat (map (\<lambda>i. k i # h i) (filter P xs)))"
  using assms
proof (induction xs arbitrary: acc)
  case (Cons x xs)
  have IH: "foldR (\<lambda>acc i. if P i then bindR (g i) (\<lambda>ds. Inr (acc @ k i # ds)) else Inr acc) acc xs =
    Inr (acc @ concat (map (\<lambda>i. k i # h i) (filter P xs)))" for acc
    by (rule Cons.IH) (simp add: Cons.prems)
  show ?case using Cons.prems [of x] IH by simp
qed simp

definition collected :: "nat \<Rightarrow> case_item list \<Rightarrow> case_item \<Rightarrow> string list" where
  "collected n items i = (case collect_descendants n items (ci_id i) of Inr ds \<Rightarrow> ds | Inl _ \<Rightarrow> [])"

lemma collect_step:
  assumes ok: "forest_ok items" and q: "q \<in> set items" and qs: "chain items q qs"
    and inner: "\<And>i. i \<in> set items \<Longrightarrow> ci_parent i = Some (ci_id q) \<Longrightarrow>
      \<exists>ds. collect_descendants m items (ci_id i) = Inr ds \<and> set ds = below items (ci_id i)"
  shows "\<exists>ds. collect_descendants (Suc m) items (ci_id q) = Inr ds \<and> set ds = below items (ci_id q)"
proof -
  let ?h = "collected m items"
  have h: "collect_descendants m items (ci_id i) = Inr (?h i) \<and> set (?h i) = below items (ci_id i)"
    if i: "i \<in> set items" "ci_parent i = Some (ci_id q)" for i
  proof -
    from inner [OF i] obtain ds where "collect_descendants m items (ci_id i) = Inr ds" "set ds = below items (ci_id i)"
      by blast
    then show ?thesis by (simp add: collected_def)
  qed
  have "collect_descendants (Suc m) items (ci_id q) =
      Inr ([] @ concat (map (\<lambda>i. ci_id i # ?h i) (filter (\<lambda>i. ci_parent i = Some (ci_id q)) items)))"
    unfolding collect_descendants.simps by (rule collect_foldR) (rule conjunct1 [OF h])
  then have eq: "collect_descendants (Suc m) items (ci_id q) =
      Inr (concat (map (\<lambda>i. ci_id i # ?h i) (children items (ci_id q))))"
    by (simp only: children_def append_Nil)
  have "set (concat (map (\<lambda>i. ci_id i # ?h i) (children items (ci_id q)))) =
      (\<Union>i\<in>set (children items (ci_id q)). insert (ci_id i) (set (?h i)))" by auto
  also have "\<dots> = (\<Union>i\<in>set (children items (ci_id q)). insert (ci_id i) (below items (ci_id i)))"
    using h by (intro SUP_cong refl) (simp add: children_def)
  also have "\<dots> = below items (ci_id q)" by (rule below_children [OF ok q qs, symmetric])
  finally show ?thesis using eq by blast
qed

lemma collect_enough:
  assumes ok: "forest_ok items"
  shows "q \<in> set items \<Longrightarrow> chain items q qs \<Longrightarrow> length items < m + length qs \<Longrightarrow>
    \<exists>ds. collect_descendants m items (ci_id q) = Inr ds \<and> set ds = below items (ci_id q)"
proof (induction m arbitrary: q qs)
  case 0
  from ok have "distinct (map ci_id items)" by (simp add: forest_ok_def)
  from chain_length [OF this 0(2) 0(1)] 0(3) show ?case by simp
next
  case (Suc m)
  show ?case
  proof (rule collect_step [OF ok Suc.prems(1,2)])
    fix i assume i: "i \<in> set items" "ci_parent i = Some (ci_id q)"
    from child_chain [OF ok i Suc.prems(1,2)] have "chain items i (i # qs)" by (rule conjunct2)
    from Suc.IH [OF i(1) this] Suc.prems(3)
    show "\<exists>ds. collect_descendants m items (ci_id i) = Inr ds \<and> set ds = below items (ci_id i)" by simp
  qed
qed

text \<open>
  C20: Collecting the descendants ends. On a well-formed forest the recursion needs no more depth than
  there are items, and it answers exactly the ids of the items whose chain of parents passes through
  the folder.
\<close>

theorem collect_descendants_complete:
  assumes "forest_ok items" and "p \<in> set items" and "length items \<le> n"
  shows "\<exists>ds. collect_descendants n items (ci_id p) = Inr ds \<and> set ds = below items (ci_id p)"
proof -
  from assms(1,2) obtain ps where ps: "chain items p ps" by (auto simp: forest_ok_def rooted_chain)
  have "0 < length ps" using chain_hd [OF ps] by auto
  with assms(3) have "length items < n + length ps" by linarith
  then show ?thesis by (rule collect_enough [OF assms(1,2) ps])
qed

section \<open>Removal\<close>

text \<open>The ids to remove take every child of a removed item with them.\<close>

lemma below_closed:
  assumes ok: "forest_ok items" and j: "j \<in> set items" and par: "ci_parent j = Some (ci_id p)" and p: "p \<in> set items"
    and k: "ci_id p = k \<or> ci_id p \<in> below items k"
  shows "ci_id j \<in> below items k"
proof -
  from ok have d: "distinct (map ci_id items)" by (simp add: forest_ok_def)
  from ok p obtain ps where ps: "chain items p ps" by (auto simp: forest_ok_def rooted_chain)
  from child_chain [OF ok j par p ps] have cj: "chain items j (j # ps)" by blast
  have "k \<in> ci_id ` set ps"
    using k
  proof
    assume "ci_id p = k"
    with chain_hd [OF ps] show ?thesis by auto
  next
    assume "ci_id p \<in> below items k"
    then obtain q xs where q: "ci_id p = ci_id q" "q \<in> set items" "chain items q (q # xs)" "k \<in> ci_id ` set xs"
      by (auto simp: below_def)
    from distinct_ids [OF d p q(2) q(1)] have "p = q" .
    with chain_unique [OF d ps] q(3,4) show ?thesis by auto
  qed
  with cj j show ?thesis by (auto simp: below_def)
qed

definition removal_closed :: "case_item list \<Rightarrow> string list \<Rightarrow> bool" where
  "removal_closed items ids \<longleftrightarrow>
     (\<forall>j\<in>set items. \<forall>p\<in>set items. ci_parent j = Some (ci_id p) \<longrightarrow> ci_id p \<in> set ids \<longrightarrow> ci_id j \<in> set ids)"

lemma removal_closed_append: "removal_closed items a \<Longrightarrow> removal_closed items b \<Longrightarrow> removal_closed items (a @ b)"
  by (auto simp: removal_closed_def)

lemma forest_ok_without: "forest_ok items \<Longrightarrow> removal_closed items ids \<Longrightarrow> forest_ok (without_items ids items)"
  unfolding without_items_def by (rule forest_ok_filter) (auto simp: removal_closed_def)

lemma folder_parent:
  "forest_ok items \<Longrightarrow> j \<in> set items \<Longrightarrow> p \<in> set items \<Longrightarrow> ci_parent j = Some (ci_id p) \<Longrightarrow> is_folder p"
  using child_chain [of items j p] by (auto simp: forest_ok_def rooted_chain)

lemma removal_of_leaf:
  assumes "forest_ok items" and "i \<in> set items" and "\<not> is_folder i \<or> \<not> list_ex (\<lambda>x. ci_parent x = Some (ci_id i)) items"
  shows "removal_closed items [ci_id i]"
  unfolding removal_closed_def
proof (intro ballI impI)
  fix j p assume *: "j \<in> set items" "p \<in> set items" "ci_parent j = Some (ci_id p)" "ci_id p \<in> set [ci_id i]"
  from assms(1) have d: "distinct (map ci_id items)" by (simp add: forest_ok_def)
  from *(4) distinct_ids [OF d *(2) assms(2)] have "p = i" by simp
  with assms(3) folder_parent [OF assms(1) *(1-3)] *(1,3) show "ci_id j \<in> set [ci_id i]" by (auto simp: list_ex_iff)
qed

lemma removal_of_folder:
  assumes "forest_ok items" and "set ds = below items k"
  shows "removal_closed items (ds @ [k])"
  unfolding removal_closed_def
proof (intro ballI impI)
  fix j p assume *: "j \<in> set items" "p \<in> set items" "ci_parent j = Some (ci_id p)" "ci_id p \<in> set (ds @ [k])"
  then have "ci_id p = k \<or> ci_id p \<in> below items k" using assms(2) by auto
  from below_closed [OF assms(1) *(1,3,2) this] assms(2) show "ci_id j \<in> set (ds @ [k])" by simp
qed

lemma ids_to_remove_closed:
  assumes ok: "forest_ok (cs_items c)" and depth: "length (cs_items c) \<le> depth"
    and run: "ids_to_remove depth c item_ids force = Inr ids"
  shows "removal_closed (cs_items c) ids"
proof -
  from ok have d: "distinct (map ci_id (cs_items c))" by (simp add: forest_ok_def)
  from run have "foldR (add_removed depth c force) [] item_ids = Inr ids"
    by (auto simp: ids_to_remove_def Let_def split: if_splits)
  then show ?thesis
  proof (rule foldR_invariant [where I = "removal_closed (cs_items c)"])
    show "removal_closed (cs_items c) []" by (simp add: removal_closed_def)
  next
    fix acc k ids'
    assume acc: "removal_closed (cs_items c) acc" and step: "add_removed depth c force acc k = Inr ids'"
    note step = step [unfolded add_removed_def]
    from step obtain i where i: "items_by_id (cs_items c) k = Some i" by (cases "items_by_id (cs_items c) k") auto
    from items_by_id_in [OF i] have ik: "i \<in> set (cs_items c)" "ci_id i = k" by auto
    show "removal_closed (cs_items c) ids'"
    proof (cases "is_folder i \<and> force")
      case True
      with step i obtain ds where ds: "collect_descendants depth (cs_items c) k = Inr ds" "ids' = acc @ ds @ [k]"
        by (auto simp: bindR_eq_Inr)
      from ok ik(1) obtain xs where xs: "chain (cs_items c) i xs" by (auto simp: forest_ok_def rooted_chain)
      have "0 < length xs" using chain_hd [OF xs] by auto
      with depth have "length (cs_items c) < depth + length xs" by linarith
      from collect_enough [OF ok ik(1) xs this] ds(1) ik(2) have "set ds = below (cs_items c) k" by auto
      then have "removal_closed (cs_items c) (ds @ [k])" by (rule removal_of_folder [OF ok])
      with acc ds(2) show ?thesis by (simp add: removal_closed_append)
    next
      case False
      with step i have "ids' = acc @ [k]" "\<not> is_folder i \<or> \<not> list_ex (\<lambda>x. ci_parent x = Some k) (cs_items c)"
        by (auto split: if_splits)
      with removal_of_leaf [OF ok ik(1)] ik(2) acc show ?thesis by (simp add: removal_closed_append)
    qed
  qed
qed

end
