(* ===== verification/CaseEdits.thy ===== *)
theory CaseEdits
  imports CaseTree
begin

text \<open>
  The edits of a case's items as operations with one contract: an edit that succeeds keeps the forest
  well-formed and the case's identity. The contract is a locale; the edits of the code interpret it, and
  a case that starts empty and is changed by them alone has a well-formed forest for ever.
\<close>

section \<open>The contract\<close>

locale case_operation =
  fixes edit :: "'a \<Rightarrow> case_rec \<Rightarrow> case_rec result" and allowed :: "'a \<Rightarrow> case_rec \<Rightarrow> bool"
  assumes keeps_forest: "forest_ok (cs_items c) \<Longrightarrow> allowed a c \<Longrightarrow> edit a c = Inr c' \<Longrightarrow> forest_ok (cs_items c')"
    and keeps_id: "allowed a c \<Longrightarrow> edit a c = Inr c' \<Longrightarrow> cs_id c' = cs_id c"
begin

definition makes :: "case_rec \<Rightarrow> case_rec \<Rightarrow> bool" where
  "makes c c' \<longleftrightarrow> (\<exists>a. allowed a c \<and> edit a c = Inr c')"

lemma edits_keep:
  assumes "makes\<^sup>*\<^sup>* c c'" and "forest_ok (cs_items c)"
  shows "forest_ok (cs_items c') \<and> cs_id c' = cs_id c"
  using assms by (induction rule: rtranclp_induct) (auto simp: makes_def dest: keeps_forest keeps_id)

end

section \<open>The edits\<close>

text \<open>
  \<^verbatim>\<open>append_case_item\<close> up to the list it leaves, for an item whose backing object was found: the missing
  name, the parent test, the conflict test, and the renaming or refusal of a conflicting item. The id of
  the item must be new; the code draws a random one unless the caller brings one of its own.
\<close>

definition named :: "case_item \<Rightarrow> case_item" where
  "named i = (if ci_name i = None then i\<lparr>ci_name := Some (ci_value i)\<rparr> else i)"

definition disambiguated :: "case_item \<Rightarrow> case_item" where
  "disambiguated i =
     i\<lparr>ci_name := Some (case ci_name i of
          Some n \<Rightarrow> if n \<noteq> [] then n @ '' ('' @ ci_value i @ '')'' else ci_value i
        | None \<Rightarrow> ci_value i)\<rparr>"

definition admit_item :: "case_rec \<Rightarrow> case_item \<Rightarrow> case_item result" where
  "admit_item c i =
     (let i = named i in
      bindR (case ci_parent i of None \<Rightarrow> Inr () | Some p \<Rightarrow> ensure_parent_exists (cs_items c) p) (\<lambda>_.
      bindR (check_conflicts c i) (\<lambda>conflict.
      if ci_type i \<in> {CI_HIT, CI_EVENT, CI_CASE} then Inr (if conflict then disambiguated i else i)
      else if conflict then Inl (Exn EResourceExists ''An item with the same name already exists in this location.'')
      else Inr i)))"

definition append_item :: "case_item \<Rightarrow> case_rec \<Rightarrow> case_rec result" where
  "append_item i c = bindR (admit_item c i) (\<lambda>i'. Inr (c\<lparr>cs_items := cs_items c @ [i']\<rparr>))"

definition remove_items :: "nat \<Rightarrow> string list \<times> bool \<Rightarrow> case_rec \<Rightarrow> case_rec result" where
  "remove_items depth a c =
     bindR (ids_to_remove depth c (fst a) (snd a)) (\<lambda>ids. Inr (c\<lparr>cs_items := without_items ids (cs_items c)\<rparr>))"

definition ensure_folders ::
    "(nat \<Rightarrow> string) \<Rightarrow> string option \<Rightarrow> string \<Rightarrow> case_rec \<Rightarrow> case_rec result" where
  "ensure_folders fresh cls path c =
     (case ensure_path fresh cls True (path_parts path) 0 (cs_items c) None of
        None \<Rightarrow> Inr c
      | Some (items, _, _) \<Rightarrow> Inr (c\<lparr>cs_items := items\<rparr>))"

text \<open>
  One edit of a case; an edit that would bring in an id already in use is not one.
\<close>

datatype case_edit =
    AppendItem case_item
  | MoveItem string "string option"
  | RenameItem string string
  | RemoveItems "string list" bool

definition apply_edit :: "nat \<Rightarrow> case_edit \<Rightarrow> case_rec \<Rightarrow> case_rec result" where
  "apply_edit depth e c =
     (case e of
        AppendItem i \<Rightarrow> append_item i c
      | MoveItem k p \<Rightarrow> move_item c k p
      | RenameItem k n \<Rightarrow> rename_item c k n
      | RemoveItems ks force \<Rightarrow> remove_items depth (ks, force) c)"

definition id_fresh :: "case_edit \<Rightarrow> case_rec \<Rightarrow> bool" where
  "id_fresh e c \<longleftrightarrow> (case e of AppendItem i \<Rightarrow> ci_id i \<notin> set (map ci_id (cs_items c)) | _ \<Rightarrow> True)"

text \<open>The constructor of an item refuses a case reference below the root, so no request brings one.\<close>

definition built_item :: "case_item \<Rightarrow> bool" where
  "built_item i \<longleftrightarrow> (ci_type i = CI_CASE \<longrightarrow> ci_parent i = None)"

section \<open>They keep the forest\<close>

lemma named_simps [simp]:
  "ci_id (named i) = ci_id i" "ci_type (named i) = ci_type i" "ci_parent (named i) = ci_parent i"
  "ci_value (named i) = ci_value i"
  by (simp_all add: named_def)

lemma disambiguated_simps [simp]:
  "ci_id (disambiguated i) = ci_id i" "ci_type (disambiguated i) = ci_type i"
  "ci_parent (disambiguated i) = ci_parent i" "ci_value (disambiguated i) = ci_value i"
  by (simp_all add: disambiguated_def)

lemma ensure_parent_exists_Inr:
  "ensure_parent_exists items p = Inr u \<Longrightarrow> \<exists>i\<in>set items. ci_id i = p \<and> is_folder i"
  by (auto simp: ensure_parent_exists_def is_folder_def split: option.splits if_splits dest: find_item_Some)

lemma admit_item_Inr:
  assumes "admit_item c i = Inr i'"
  shows "ci_id i' = ci_id i \<and> ci_type i' = ci_type i \<and> ci_parent i' = ci_parent i \<and> ci_value i' = ci_value i \<and>
    (ci_parent i = None \<or> (\<exists>p\<in>set (cs_items c). ci_parent i = Some (ci_id p) \<and> is_folder p))"
proof -
  from assms have "case ci_parent i of None \<Rightarrow> True | Some p \<Rightarrow> ensure_parent_exists (cs_items c) p = Inr ()"
    by (auto simp: admit_item_def Let_def bindR_eq_Inr split: option.splits)
  then have "ci_parent i = None \<or> (\<exists>p\<in>set (cs_items c). ci_parent i = Some (ci_id p) \<and> is_folder p)"
    by (cases "ci_parent i") (auto dest: ensure_parent_exists_Inr)
  moreover from assms have "i' = disambiguated (named i) \<or> i' = named i"
    by (auto simp: admit_item_def Let_def bindR_eq_Inr split: if_splits)
  ultimately show ?thesis by auto
qed

lemma append_keeps:
  assumes "forest_ok (cs_items c)" and "append_item i c = Inr c'" and "ci_id i \<notin> set (map ci_id (cs_items c))"
    and "built_item i"
  shows "forest_ok (cs_items c')"
proof -
  from assms(2) obtain i' where i': "admit_item c i = Inr i'" "cs_items c' = cs_items c @ [i']"
    by (auto simp: append_item_def bindR_eq_Inr)
  from admit_item_Inr [OF i'(1)] assms(1,3,4) show ?thesis
    unfolding i'(2) by (intro forest_ok_append) (simp_all add: built_item_def)
qed

lemma move_keeps:
  assumes ok: "forest_ok (cs_items c)" and run: "move_item c k p = Inr c'"
  shows "forest_ok (cs_items c')"
proof -
  from run obtain i where i: "find_item (cs_items c) k = Some i"
    by (auto simp: move_item_def split: option.splits)
  from find_item_Some [OF i] have ik: "i \<in> set (cs_items c)" "ci_id i = k" by auto
  from run i have c': "cs_items c' = set_item k (\<lambda>x. x\<lparr>ci_parent := p\<rparr>) (cs_items c)"
    and root: "ci_type i = CI_CASE \<longrightarrow> p = None"
    and par: "case p of None \<Rightarrow> True | Some q \<Rightarrow>
        ensure_parent_exists (cs_items c) q = Inr () \<and> \<not> (is_folder i \<and> is_descendant (cs_items c) q k)"
    by (auto simp: move_item_def bindR_eq_Inr split: if_splits option.splits)
  have "p = None \<or> (\<exists>q\<in>set (cs_items c). p = Some (ci_id q) \<and> is_folder q \<and> \<not> is_descendant (cs_items c) (ci_id q) (ci_id i))"
  proof (cases p)
    case (Some q')
    with par obtain q where q: "q \<in> set (cs_items c)" "ci_id q = q'" "is_folder q"
      by (auto dest: ensure_parent_exists_Inr)
    have "\<not> is_descendant (cs_items c) (ci_id q) (ci_id i)"
    proof (cases "is_folder i")
      case True
      with par Some q ik show ?thesis by simp
    next
      case False
      from ok have d: "distinct (map ci_id (cs_items c))" by (simp add: forest_ok_def)
      from ok q(1) obtain xs where xs: "chain (cs_items c) q xs" by (auto simp: forest_ok_def rooted_chain)
      have folders: "\<forall>x\<in>set xs. is_folder x" using chain_folders [OF xs q(3)] .
      have "ci_id i \<notin> ci_id ` set xs"
      proof
        assume "ci_id i \<in> ci_id ` set xs"
        then obtain x where x: "x \<in> set xs" "ci_id i = ci_id x" by auto
        with chain_set [OF xs] q(1) have "x \<in> set (cs_items c)" by auto
        with distinct_ids [OF d ik(1) this x(2)] folders x(1) False show False by simp
      qed
      then show ?thesis by (simp add: is_descendant_chain [OF d xs q(1)])
    qed
    with q Some show ?thesis by auto
  qed simp
  from forest_ok_move [OF ok ik(1) this root] show ?thesis by (simp add: c' ik(2))
qed

lemma descendant_below:
  assumes ok: "forest_ok items" and p: "p \<in> set items" and i: "i \<in> set items" and folder: "is_folder p"
  shows "is_folder i \<and> is_descendant items (ci_id p) (ci_id i) \<longleftrightarrow> ci_id p = ci_id i \<or> ci_id p \<in> below items (ci_id i)"
proof -
  from ok have d: "distinct (map ci_id items)" by (simp add: forest_ok_def)
  from ok p obtain xs where xs: "chain items p xs" by (auto simp: forest_ok_def rooted_chain)
  from chain_hd [OF xs] obtain ys where ys: "xs = p # ys" by blast
  have is_i: "x = i" if "x \<in> set xs" "ci_id x = ci_id i" for x
    using that distinct_ids [OF d _ i that(2)] chain_set [OF xs] p by auto
  have desc: "is_descendant items (ci_id p) (ci_id i) \<longleftrightarrow> i \<in> set xs"
    using is_i by (auto simp: is_descendant_chain [OF d xs p])
  have "ci_id p \<in> below items (ci_id i) \<longleftrightarrow> i \<in> set ys"
  proof
    assume "ci_id p \<in> below items (ci_id i)"
    then obtain q zs where q: "ci_id p = ci_id q" "q \<in> set items" "chain items q (q # zs)" "ci_id i \<in> ci_id ` set zs"
      by (auto simp: below_def)
    from distinct_ids [OF d p q(2) q(1)] have "q = p" by simp
    with chain_unique [OF d xs] q(3) ys have "zs = ys" by auto
    with q(4) obtain x where "x \<in> set ys" "ci_id x = ci_id i" by auto
    with is_i [of x] ys show "i \<in> set ys" by simp
  next
    assume "i \<in> set ys"
    with xs ys p show "ci_id p \<in> below items (ci_id i)" by (auto simp: below_def)
  qed
  with desc ys distinct_ids [OF d p i] chain_folders [OF xs folder] show ?thesis by auto
qed

lemma rename_keeps:
  assumes ok: "forest_ok (cs_items c)" and run: "rename_item c k n = Inr c'"
  shows "forest_ok (cs_items c')"
proof -
  from ok have d: "distinct (map ci_id (cs_items c))" by (simp add: forest_ok_def)
  let ?f = "\<lambda>x. if is_folder x then x\<lparr>ci_name := Some (py_strip n), ci_value := py_strip n\<rparr> else x\<lparr>ci_name := Some (py_strip n)\<rparr>"
  from run have "cs_items c' = set_item k ?f (cs_items c)"
    by (auto simp: rename_item_def split: option.splits if_splits)
  also have "\<dots> = map (\<lambda>i. if ci_id i = k then ?f i else i) (cs_items c)" by (rule set_item_map [OF d])
  finally show ?thesis using forest_ok_map [OF ok] by simp
qed

lemma remove_keeps:
  assumes "forest_ok (cs_items c)" and "length (cs_items c) \<le> depth" and "remove_items depth a c = Inr c'"
  shows "forest_ok (cs_items c')"
  using assms by (auto simp: remove_items_def bindR_eq_Inr intro!: forest_ok_without ids_to_remove_closed)

section \<open>The contract interpreted\<close>

text \<open>The edits the property is about: new ids, built items, and a stack as deep as the forest.\<close>

definition edit_allowed :: "nat \<Rightarrow> case_edit \<Rightarrow> case_rec \<Rightarrow> bool" where
  "edit_allowed depth e c \<longleftrightarrow>
     id_fresh e c \<and> (case e of AppendItem i \<Rightarrow> built_item i | _ \<Rightarrow> True) \<and> length (cs_items c) \<le> depth"

lemma apply_edit_id: "apply_edit depth e c = Inr c' \<Longrightarrow> cs_id c' = cs_id c"
  by (cases e)
     (auto simp: apply_edit_def append_item_def move_item_def rename_item_def remove_items_def bindR_eq_Inr
        split: if_splits option.splits)

lemma apply_edit_forest:
  assumes "forest_ok (cs_items c)" and "edit_allowed depth e c" and "apply_edit depth e c = Inr c'"
  shows "forest_ok (cs_items c')"
proof (cases e)
  case (AppendItem i)
  with assms append_keeps [of c i c'] show ?thesis by (simp add: apply_edit_def edit_allowed_def id_fresh_def)
next
  case (MoveItem k p)
  with assms move_keeps [of c k p c'] show ?thesis by (simp add: apply_edit_def)
next
  case (RenameItem k n)
  with assms rename_keeps [of c k n c'] show ?thesis by (simp add: apply_edit_def)
next
  case (RemoveItems ks force)
  with assms remove_keeps [of c depth "(ks, force)" c'] show ?thesis by (simp add: apply_edit_def edit_allowed_def)
qed

interpretation edits: case_operation "apply_edit depth" "edit_allowed depth" for depth
  by unfold_locales (rule apply_edit_forest, assumption+, rule apply_edit_id)

definition edit_step :: "nat \<Rightarrow> case_rec \<Rightarrow> case_rec \<Rightarrow> bool" where
  "edit_step depth c c' \<longleftrightarrow> (\<exists>e. edit_allowed depth e c \<and> apply_edit depth e c = Inr c')"

lemma edit_step_makes: "edit_step depth = edits.makes depth"
  by (intro ext) (simp add: edit_step_def edits.makes_def)

text \<open>
  C17: The items of a case stay a forest. Whatever sequence of appends, moves, renames and removals a case
  goes through, its items have distinct ids, every item's chain of parents runs through folders of the
  case to the root, and references to other cases stay at the root. Appended items must bring new ids.
\<close>

theorem case_forest_invariant:
  assumes "(edit_step depth)\<^sup>*\<^sup>* c c'" and "forest_ok (cs_items c)"
  shows "forest_ok (cs_items c')"
  using edits.edits_keep assms unfolding edit_step_makes by blast

text \<open>
  C19: When a move succeeds. On a well-formed forest, an item can be moved exactly when it exists, the
  destination is the root or a folder of the case that is neither the item itself nor below it, a case
  reference stays at the root, and no other item has its name in the destination.
\<close>

theorem move_succeeds_iff:
  assumes ok: "forest_ok (cs_items c)" and i: "i \<in> set (cs_items c)"
  shows "(\<exists>c'. move_item c (ci_id i) par = Inr c') \<longleftrightarrow>
     (case par of
        None \<Rightarrow> True
      | Some q \<Rightarrow> ci_type i \<noteq> CI_CASE \<and> q \<noteq> ci_id i \<and> q \<notin> below (cs_items c) (ci_id i) \<and>
                  (\<exists>p\<in>set (cs_items c). ci_id p = q \<and> is_folder p)) \<and>
     (\<forall>x\<in>set (cs_items c). ci_name x = ci_name i \<longrightarrow> ci_parent x = par \<longrightarrow> x = i)"
proof -
  from ok have d: "distinct (map ci_id (cs_items c))" by (simp add: forest_ok_def)
  have clash: "list_ex (\<lambda>x. ci_name x = ci_name i \<and> ci_parent x = par \<and> ci_id x \<noteq> ci_id i) (cs_items c) \<longleftrightarrow>
      \<not> (\<forall>x\<in>set (cs_items c). ci_name x = ci_name i \<longrightarrow> ci_parent x = par \<longrightarrow> x = i)"
    using distinct_ids [OF d _ i] by (auto simp: list_ex_iff)
  show ?thesis
  proof (cases par)
    case None
    then show ?thesis by (auto simp: move_item_def find_item_in [OF d i] clash [unfolded None])
  next
    case (Some q)
    show ?thesis
    proof (cases "\<exists>p\<in>set (cs_items c). ci_id p = q \<and> is_folder p")
      case False
      then have "\<not> (\<exists>u. ensure_parent_exists (cs_items c) q = Inr u)" using ensure_parent_exists_Inr by blast
      with False Some show ?thesis by (auto simp: move_item_def find_item_in [OF d i] bindR_eq_Inr split: if_splits)
    next
      case True
      then obtain p where p: "p \<in> set (cs_items c)" "ci_id p = q" "is_folder p" by blast
      have ens: "ensure_parent_exists (cs_items c) q = Inr ()"
        using p find_item_in [OF d p(1)] by (simp add: ensure_parent_exists_def is_folder_def)
      have desc: "is_folder i \<and> is_descendant (cs_items c) q (ci_id i) \<longleftrightarrow>
          q = ci_id i \<or> q \<in> below (cs_items c) (ci_id i)"
        using descendant_below [OF ok p(1) i p(3)] by (simp only: p(2))
      show ?thesis
        unfolding Some using True clash [unfolded Some] desc
        by (simp add: move_item_def find_item_in [OF d i] ens)
    qed
  qed
qed

section \<open>Instances\<close>

definition folder_item :: "string \<Rightarrow> string option \<Rightarrow> string \<Rightarrow> case_item" where
  "folder_item k par n = new_folder k par n None"

definition hit_item :: "string \<Rightarrow> string option \<Rightarrow> string \<Rightarrow> case_item" where
  "hit_item k par v = \<lparr>ci_id = k, ci_parent = par, ci_name = None, ci_type = CI_HIT, ci_value = v, ci_visible = True,
     ci_class = None\<rparr>"

definition empty_case :: case_rec where
  "empty_case = \<lparr>cs_id = ''c1'', cs_classification = ''U'', cs_title = ''t'', cs_summary = ''s'', cs_overview = None,
     cs_escalation = ''normal'', cs_status = ''open'', cs_created = None, cs_visible = True, cs_updated = None,
     cs_start = None, cs_end = None, cs_targets = [], cs_threats = [], cs_indicators = [], cs_participants = [],
     cs_items = [], cs_enrichments = [], cs_rules = [], cs_tasks = [], cs_log = []\<rparr>"

definition sample_items :: "case_item list" where
  "sample_items = [folder_item ''a'' None ''alerts'', folder_item ''b'' (Some ''a'') ''web'', hit_item ''h'' (Some ''b'') ''hit-1'']"

lemma sample_rooted: "i \<in> set sample_items \<Longrightarrow> rooted sample_items i"
proof -
  have a: "rooted sample_items (folder_item ''a'' None ''alerts'')"
    by (rule rooted.root) (simp add: folder_item_def new_folder_def)
  have b: "rooted sample_items (folder_item ''b'' (Some ''a'') ''web'')"
    by (rule rooted.child [OF _ _ _ a]) (simp_all add: folder_item_def new_folder_def sample_items_def is_folder_def)
  have h: "rooted sample_items (hit_item ''h'' (Some ''b'') ''hit-1'')"
    by (rule rooted.child [OF _ _ _ b]) (simp_all add: folder_item_def new_folder_def sample_items_def is_folder_def hit_item_def)
  assume "i \<in> set sample_items"
  with a b h show ?thesis by (auto simp: sample_items_def)
qed

lemma sample_forest: "forest_ok sample_items"
  unfolding forest_ok_def using sample_rooted
  by (auto simp: sample_items_def folder_item_def new_folder_def hit_item_def)

theorem collect_descendants_complete_witness:
  "\<exists>ds. collect_descendants 3 sample_items ''a'' = Inr ds \<and> set ds = below sample_items ''a''"
  using collect_descendants_complete [OF sample_forest, of "folder_item ''a'' None ''alerts''" 3]
  by (simp add: sample_items_def folder_item_def new_folder_def)

theorem case_forest_invariant_witness:
  "forest_ok (cs_items (empty_case\<lparr>cs_items := sample_items\<rparr>)) \<and>
   forest_ok (cs_items (empty_case\<lparr>cs_items := [folder_item ''a'' None ''alerts'', folder_item ''b'' None ''web'',
      hit_item ''h'' (Some ''b'') ''hit-1'']\<rparr>))"
proof -
  let ?c = "empty_case\<lparr>cs_items := sample_items\<rparr>"
  let ?d = "empty_case\<lparr>cs_items := [folder_item ''a'' None ''alerts'', folder_item ''b'' None ''web'',
      hit_item ''h'' (Some ''b'') ''hit-1'']\<rparr>"
  have "apply_edit 3 (MoveItem ''b'' None) ?c = Inr ?d"
    by (simp add: apply_edit_def move_item_def find_item_def sample_items_def folder_item_def new_folder_def hit_item_def)
  moreover have "edit_allowed 3 (MoveItem ''b'' None) ?c"
    by (simp add: edit_allowed_def id_fresh_def sample_items_def)
  ultimately have "edit_step 3 ?c ?d" unfolding edit_step_def by blast
  then have "(edit_step 3)\<^sup>*\<^sup>* ?c ?d" by (rule r_into_rtranclp)
  from case_forest_invariant [OF this] sample_forest show ?thesis by simp
qed

theorem move_succeeds_iff_witness:
  "\<not> (\<exists>c'. move_item (empty_case\<lparr>cs_items := sample_items\<rparr>) ''a'' (Some ''b'') = Inr c')"
proof -
  let ?c = "empty_case\<lparr>cs_items := sample_items\<rparr>"
  have a: "chain sample_items (folder_item ''a'' None ''alerts'') [folder_item ''a'' None ''alerts'']"
    by (rule chain.last) (simp add: folder_item_def new_folder_def)
  have b: "chain sample_items (folder_item ''b'' (Some ''a'') ''web'')
      [folder_item ''b'' (Some ''a'') ''web'', folder_item ''a'' None ''alerts'']"
    by (rule chain.up [OF _ _ _ a]) (simp_all add: folder_item_def new_folder_def sample_items_def is_folder_def)
  have "ci_id (folder_item ''b'' (Some ''a'') ''web'') \<in> below sample_items ''a''"
    unfolding below_def
    by (rule CollectI, rule exI [of _ "folder_item ''b'' (Some ''a'') ''web''"], intro conjI exI [of _ "[folder_item ''a'' None ''alerts'']"])
       (simp_all add: b, simp_all add: sample_items_def folder_item_def new_folder_def)
  then have "''b'' \<in> below sample_items ''a''" by (simp add: folder_item_def new_folder_def)
  then show ?thesis
    using move_succeeds_iff [of ?c "folder_item ''a'' None ''alerts''" "Some ''b''"] sample_forest
    by (simp add: sample_items_def folder_item_def new_folder_def)
qed

text \<open>
  C21: A request can bring a folder that is its own parent. An appended item may carry an id of the
  caller's choice; a second folder with the id of the first, placed under it, is admitted, and from then
  on a forced removal of that folder exceeds every recursion depth.
\<close>

theorem duplicate_id_never_ends:
  "\<exists>c1 c2. append_item (folder_item ''a'' None ''x'') empty_case = Inr c1 \<and>
     append_item (folder_item ''a'' (Some ''a'') ''y'') c1 = Inr c2 \<and>
     (\<forall>depth. \<exists>m. remove_items depth ([''a''], True) c2 = Inl (Exn ERecursion m))"
proof -
  let ?a = "folder_item ''a'' None ''x''" and ?b = "folder_item ''a'' (Some ''a'') ''y''"
  let ?c1 = "empty_case\<lparr>cs_items := [?a]\<rparr>" and ?c2 = "empty_case\<lparr>cs_items := [?a, ?b]\<rparr>"
  have one: "append_item ?a empty_case = Inr ?c1"
    by (simp add: append_item_def admit_item_def named_def folder_item_def new_folder_def check_conflicts_def
        empty_case_def)
  have two: "append_item ?b ?c1 = Inr ?c2"
    by (simp add: append_item_def admit_item_def named_def folder_item_def new_folder_def check_conflicts_def
        empty_case_def ensure_parent_exists_def find_item_def display_name_def)
  have loop: "\<exists>m. collect_descendants n [?a, ?b] ''a'' = Inl (Exn ERecursion m)" for n
  proof (induction n)
    case (Suc n)
    then show ?case by (auto simp: folder_item_def new_folder_def)
  qed simp
  have "\<exists>m. remove_items depth ([''a''], True) ?c2 = Inl (Exn ERecursion m)" for depth
    using loop [of depth]
    by (auto simp: remove_items_def ids_to_remove_def add_removed_def items_by_id_def is_folder_def folder_item_def new_folder_def)
  with one two show ?thesis by blast
qed

end
