(* ===== verification/CaseService.thy ===== *)
theory CaseService
  imports CaseEdits HitService
begin

text \<open>
  \<^verbatim>\<open>services/case_service.py\<close> over the collections: creating, hiding, deleting and updating cases,
  appending, moving, renaming and removing items with the back references on hits and events, and the
  correlation rules of a case. The world is the store, the cases announced to other systems and the
  number of random ids drawn. Searching for the cases that refer to some ids and deleting by query are
  calls of the search engine and parameters; \<^verbatim>\<open>refresh\<close> has no effect on results.
\<close>

section \<open>The world\<close>

record 'w case_world =
  cw_store :: 'w
  cw_events :: "case_rec list"
  cw_drawn :: nat

record 'w case_env =
  ce_cases :: "'w collection"
  ce_hits :: "'w collection"
  ce_events :: "'w collection"
  ce_ext :: odm_ext
  ce_unrestricted :: string
  ce_show_date :: "string \<Rightarrow> string"
  ce_depth :: nat
  ce_accessible :: "string \<Rightarrow> string \<Rightarrow> bool result"
  ce_search_items :: "string list \<Rightarrow> ('w, case_rec list) io"
  ce_delete_query :: "string list \<Rightarrow> ('w, bool) io"

definition in_store :: "('w, 'a) io \<Rightarrow> ('w case_world, 'a) io" where
  "in_store m = (\<lambda>a. case m (cw_store a) of (r, w) \<Rightarrow> (r, a\<lparr>cw_store := w\<rparr>))"

definition drawing :: "(nat, 'a) io \<Rightarrow> ('w case_world, 'a) io" where
  "drawing m = (\<lambda>a. case m (cw_drawn a) of (r, n) \<Rightarrow> (r, a\<lparr>cw_drawn := n\<rparr>))"

text \<open>\<^verbatim>\<open>comms_service.emit("cases", ...)\<close>\<close>

definition emit_case :: "case_rec \<Rightarrow> ('w case_world, unit) io" where
  "emit_case c = modifyM (\<lambda>a. a\<lparr>cw_events := cw_events a @ [c]\<rparr>)"

fun foldM_io :: "('s \<Rightarrow> 'a \<Rightarrow> ('w, 's) io) \<Rightarrow> 's \<Rightarrow> 'a list \<Rightarrow> ('w, 's) io" where
  "foldM_io f s [] = returnM s"
| "foldM_io f s (x # xs) = bindM (f s x) (\<lambda>s'. foldM_io f s' xs)"

text \<open>\<^verbatim>\<open>datastore().case.get(id)\<close> and \<^verbatim>\<open>case.save(refresh, version)\<close> of the datastore mixin.\<close>

definition case_get :: "'w case_env \<Rightarrow> string \<Rightarrow> ('w case_world, case_rec option) io" where
  "case_get env k =
     in_store (bindM (coll_get (ce_cases env) k True) (\<lambda>(d, v). returnM (map_option load_case d)))"

definition case_save :: "'w case_env \<Rightarrow> case_rec \<Rightarrow> string option \<Rightarrow> ('w case_world, bool) io" where
  "case_save env c version = in_store (coll_save (ce_cases env) (cs_id c) (dump_case c) version)"

text \<open>A case argument is an id, an object or None.\<close>

datatype case_ref = CaseId string | CaseObj case_rec | NoCase

definition resolve_case :: "'w case_env \<Rightarrow> case_ref \<Rightarrow> ('w case_world, case_rec) io" where
  "resolve_case env r =
     (case r of
        CaseObj c \<Rightarrow> returnM c
      | NoCase \<Rightarrow> raiseM (Exn ENotFound ''Case does not exist'')
      | CaseId k \<Rightarrow> bindM (case_get env k) (\<lambda>c. case c of
            None \<Rightarrow> raiseM (Exn ENotFound ''Case does not exist'')
          | Some c \<Rightarrow> returnM c))"

definition get_case :: "'w case_env \<Rightarrow> string \<Rightarrow> ('w case_world, case_rec) io" where
  "get_case env k =
     bindM (case_get env k) (\<lambda>c. case c of
        None \<Rightarrow> raiseM (Exn ENotFound (''Case '' @ k @ '' does not exist''))
      | Some c \<Rightarrow> returnM c)"

text \<open>Saving with the answer tested, then announcing the case.\<close>

definition save_and_emit :: "'w case_env \<Rightarrow> case_rec \<Rightarrow> string \<Rightarrow> ('w case_world, case_rec) io" where
  "save_and_emit env c failure =
     bindM (case_save env c None) (\<lambda>ok.
     if \<not> ok then raiseM (data_store_exn failure)
     else thenM (emit_case c) (returnM c))"

definition new_log :: "'w case_env \<Rightarrow> (string, py) dict \<Rightarrow> ('w case_world, case_log) io" where
  "new_log env d = drawing (CaseLog_init (ce_ext env) True (PDict d))"

definition explained :: "string \<Rightarrow> string \<Rightarrow> (string, py) dict" where
  "explained usr m = [(''timestamp'', PStr ''NOW''), (''user'', PStr usr), (''explanation'', PStr m)]"

definition add_log :: "'w case_env \<Rightarrow> (string, py) dict \<Rightarrow> case_rec \<Rightarrow> ('w case_world, case_rec) io" where
  "add_log env d c = bindM (new_log env d) (\<lambda>l. returnM (c\<lparr>cs_log := cs_log c @ [l]\<rparr>))"

text \<open>\<^verbatim>\<open>case.updated = "NOW"\<close>\<close>

definition touch :: "'w case_env \<Rightarrow> case_rec \<Rightarrow> case_rec result" where
  "touch env c = bindR (date_check (ce_ext env) (PStr ''NOW'')) (\<lambda>v. Inr (c\<lparr>cs_updated := o_text v\<rparr>))"

section \<open>Back references and metadata\<close>

definition backing_collection :: "'w case_env \<Rightarrow> case_item_type \<Rightarrow> 'w collection" where
  "backing_collection env t = (if t = CI_HIT then ce_hits env else ce_events env)"

definition add_backreference :: "doc option \<Rightarrow> string \<Rightarrow> doc result" where
  "add_backreference b cid =
     (case b of
        None \<Rightarrow> Inl (Exn EInvalidData ''Cannot add back reference on a nonexistent object'')
      | Some d \<Rightarrow>
          if cid = [] then Inl (Exn EInvalidData ''Missing back reference case_id'')
          else if cid \<in> set (p_texts (d ''howler.related'')) then Inr d
          else Inr (d(''howler.related'' \<mapsto> texts (p_texts (d ''howler.related'') @ [cid]))))"

definition remove_backreference :: "doc option \<Rightarrow> string \<Rightarrow> doc result" where
  "remove_backreference b cid =
     (case b of
        None \<Rightarrow> Inl (Exn EInvalidData ''Cannot remove back reference on a nonexisting object'')
      | Some d \<Rightarrow>
          if cid = [] then Inl (Exn EInvalidData ''Missing back reference case_id'')
          else if cid \<in> set (p_texts (d ''howler.related''))
          then Inr (d(''howler.related'' \<mapsto> texts (remove1 cid (p_texts (d ''howler.related'')))))
          else Inr d)"

text \<open>
  \<^verbatim>\<open>_collect_indicators_from_related\<close> iterates the value of every field; the value of the deprecated
  field \<^verbatim>\<open>id\<close> is a text, whose characters it collects.
\<close>

definition related_fields :: "string list" where
  "related_fields = [''hash'', ''hosts'', ''ip'', ''user'', ''ids'', ''id'', ''uri'', ''signature'']"

definition iterated :: "py option \<Rightarrow> string list" where
  "iterated v = (case v of
      Some (PList xs) \<Rightarrow> filter (\<lambda>s. s \<noteq> []) (p_texts v)
    | Some (PStr s) \<Rightarrow> map (\<lambda>ch. [ch]) s
    | _ \<Rightarrow> [])"

definition collect_indicators :: "doc \<Rightarrow> string list" where
  "collect_indicators d = concat (map (\<lambda>f. iterated (d (''related.'' @ f))) related_fields)"

definition nonempty_text :: "py option \<Rightarrow> string list" where
  "nonempty_text v = (case p_text v of Some s \<Rightarrow> if s \<noteq> [] then [s] else [] | None \<Rightarrow> [])"

record metadata =
  md_targets :: "string list"
  md_threats :: "string list"
  md_indicators :: "string list"

definition hit_metadata :: "metadata \<Rightarrow> doc \<Rightarrow> metadata" where
  "hit_metadata m d =
     m\<lparr>md_indicators := md_indicators m @ collect_indicators d @
          filter (\<lambda>s. s \<noteq> []) (p_texts (d ''howler.outline.indicators'')),
       md_threats := md_threats m @ nonempty_text (d ''howler.outline.threat''),
       md_targets := md_targets m @ nonempty_text (d ''howler.outline.target'')\<rparr>"

definition item_metadata :: "'w case_env \<Rightarrow> metadata \<Rightarrow> case_item \<Rightarrow> ('w case_world, metadata) io" where
  "item_metadata env m i =
     (if ci_type i = CI_HIT \<and> ci_value i \<noteq> [] then
        bindM (in_store (coll_get (ce_hits env) (ci_value i) True)) (\<lambda>(d, v).
        returnM (case d of None \<Rightarrow> m | Some d \<Rightarrow> hit_metadata m d))
      else if ci_type i = CI_EVENT \<and> ci_value i \<noteq> [] then
        bindM (in_store (coll_get (ce_events env) (ci_value i) True)) (\<lambda>(d, v).
        returnM (case d of None \<Rightarrow> m
                 | Some d \<Rightarrow> m\<lparr>md_indicators := md_indicators m @ collect_indicators d\<rparr>))
      else returnM m)"

definition recompute_case_metadata :: "'w case_env \<Rightarrow> case_rec \<Rightarrow> ('w case_world, case_rec) io" where
  "recompute_case_metadata env c =
     bindM (foldM_io (item_metadata env) \<lparr>md_targets = [], md_threats = [], md_indicators = []\<rparr> (cs_items c)) (\<lambda>m.
     returnM (c\<lparr>cs_targets := sorted_set (md_targets m), cs_threats := sorted_set (md_threats m),
                cs_indicators := sorted_set (md_indicators m)\<rparr>))"

section \<open>Appending\<close>

text \<open>
  \<^verbatim>\<open>append_hit\<close> and \<^verbatim>\<open>append_event\<close>: the item takes the classification of the object it refers to, the
  object gets a back reference under its version, and the case is saved with new metadata.
\<close>

definition append_backed :: "'w case_env \<Rightarrow> case_rec \<Rightarrow> case_item \<Rightarrow> ('w case_world, case_rec) io" where
  "append_backed env c i =
     bindM (in_store (coll_get (backing_collection env (ci_type i)) (ci_value i) True)) (\<lambda>(b, version).
     case b of
       None \<Rightarrow> raiseM (Exn ENotFound
                 ((if ci_type i = CI_HIT then ''Hit '' else ''Event '') @ ci_value i @ '' not found, cannot be added to case''))
     | Some d \<Rightarrow>
         bindM (returnM (c\<lparr>cs_items := cs_items c @ [i\<lparr>ci_class := p_text (d ''classification'')\<rparr>]\<rparr>)) (\<lambda>c.
         bindM (liftM (add_backreference (Some d) (cs_id c))) (\<lambda>d'.
         bindM (in_store (coll_save (backing_collection env (ci_type i)) (p_string (d' ''howler.id'')) d' (Some version))) (\<lambda>_.
         bindM (recompute_case_metadata env c) (\<lambda>c.
         save_and_emit env c (''Failed to save '' @ cs_id c @ '' with new item '' @ ci_value i))))))"

definition append_case :: "'w case_env \<Rightarrow> case_rec \<Rightarrow> case_item \<Rightarrow> ('w case_world, case_rec) io" where
  "append_case env c i =
     (if list_ex (\<lambda>x. ci_value x = ci_value i) (cs_items c)
      then raiseM (Exn EInvalidData (''Item '' @ ci_value i @ '' already exists in case '' @ cs_id c))
      else
        bindM (case_get env (ci_value i)) (\<lambda>ref. case ref of
          None \<Rightarrow> raiseM (Exn ENotFound (''Referenced case '' @ name_text i @ '' not found, cannot be added to case''))
        | Some _ \<Rightarrow> save_and_emit env (c\<lparr>cs_items := cs_items c @ [i]\<rparr>) (''Failed to save '' @ cs_id c @ '' with new item '' @ name_text i)))"

text \<open>The item of a request: an object, or the parts one is built from.\<close>

datatype item_source = GivenItem case_item | ItemParts "string option" "string option" "string option" "string option"

definition optional_value :: "string option \<Rightarrow> py" where
  "optional_value s = (case s of None \<Rightarrow> PNone | Some x \<Rightarrow> PStr x)"

definition build_item :: "'w case_env \<Rightarrow> item_source \<Rightarrow> ('w case_world, case_item) io" where
  "build_item env src =
     (case src of
        GivenItem i \<Rightarrow> returnM i
      | ItemParts ty v par name \<Rightarrow>
          if \<not> truthy_text ty \<or> \<not> truthy_text v
          then raiseM (Exn EInvalidData ''item_type and item_value are required if item is not provided'')
          else if \<not> enum_contains CaseItemTypes (the ty)
          then raiseM (Exn EInvalidData (''Invalid item type: '' @ the ty @ '', valid types are: '' @ py_join '', '' (enum_list CaseItemTypes)))
          else drawing (CaseItem_init (ce_ext env) (ce_unrestricted env) True
                 (PDict ([(''type'', PStr (the ty)), (''value'', PStr (the v)), (''parent'', optional_value par)] @
                         (case name of None \<Rightarrow> [] | Some n \<Rightarrow> [(''name'', PStr n)])))))"

definition append_case_item :: "'w case_env \<Rightarrow> case_ref \<Rightarrow> item_source \<Rightarrow> ('w case_world, case_rec) io" where
  "append_case_item env r src =
     bindM (resolve_case env r) (\<lambda>c.
     bindM (build_item env src) (\<lambda>i.
     bindM (liftM (admit_item c i)) (\<lambda>i'.
     if ci_type i' \<in> {CI_HIT, CI_EVENT} then append_backed env c i'
     else if ci_type i' = CI_CASE then append_case env c i'
     else save_and_emit env (c\<lparr>cs_items := cs_items c @ [i']\<rparr>)
           (''Failed to save '' @ cs_id c @ '' with new '' @ item_type_value (ci_type i') @ '' '' @ name_text i'))))"

section \<open>Paths, moving, renaming, removing\<close>

text \<open>\<^verbatim>\<open>get_parent_from_path\<close>: a new folder is built by the constructor, with the value of its name.\<close>

definition get_parent_from_path ::
    "'w case_env \<Rightarrow> case_ref \<Rightarrow> string option \<Rightarrow> bool \<Rightarrow> bool \<Rightarrow> ('w case_world, case_item option \<times> case_rec) io" where
  "get_parent_from_path env r path create persist =
     bindM (resolve_case env r) (\<lambda>c.
     case path of
       None \<Rightarrow> returnM (None, c)
     | Some p \<Rightarrow>
         if p = [] \<or> p = ''/'' \<or> path_parts p = [] then returnM (None, c)
         else
           bindM (liftM (classification_check (ce_ext env) False True (PStr (ce_unrestricted env)))) (\<lambda>cls.
           bindM (drawing (\<lambda>n. (Inr n, n))) (\<lambda>n.
           case ensure_path (x_random_id (ce_ext env)) (o_text cls) create (path_parts p) n (cs_items c) None of
             None \<Rightarrow> returnM (None, c)
           | Some (items, cur, n') \<Rightarrow>
               bindM (drawing (\<lambda>_. (Inr (), n'))) (\<lambda>_.
               bindM (returnM (c\<lparr>cs_items := items\<rparr>)) (\<lambda>c'.
               bindM (if persist then case_save env c' None else returnM True) (\<lambda>_.
               returnM (case cur of None \<Rightarrow> None | Some k \<Rightarrow> find_item items k, c')))))))"

definition move_case_item :: "'w case_env \<Rightarrow> case_ref \<Rightarrow> string \<Rightarrow> string option \<Rightarrow> ('w case_world, case_rec) io" where
  "move_case_item env r item_id new_parent =
     bindM (resolve_case env r) (\<lambda>c.
     bindM (liftM (move_item c item_id new_parent)) (\<lambda>c'.
     save_and_emit env c' ''Failed to save case after item move''))"

definition rename_case_item :: "'w case_env \<Rightarrow> string \<Rightarrow> string \<Rightarrow> string \<Rightarrow> ('w case_world, case_rec) io" where
  "rename_case_item env case_id item_id new_name =
     (if py_strip new_name = []
      then raiseM (Exn EInvalidData ''new_name must be a non-empty string'')
      else bindM (get_case env case_id) (\<lambda>c.
           bindM (liftM (rename_item c item_id new_name)) (\<lambda>c'.
           save_and_emit env c' ''Failed to save case after item rename'')))"

text \<open>The objects behind the removed items, read before anything is written.\<close>

definition backing_object ::
    "'w case_env \<Rightarrow> case_rec \<Rightarrow> string \<Rightarrow> ('w case_world, (case_item_type \<times> doc \<times> string) list) io" where
  "backing_object env c k =
     (case items_by_id (cs_items c) k of
        None \<Rightarrow> returnM []
      | Some i \<Rightarrow>
          if ci_type i \<in> {CI_HIT, CI_EVENT}
          then bindM (in_store (coll_get (backing_collection env (ci_type i)) (ci_value i) True)) (\<lambda>(b, v).
               returnM (case b of None \<Rightarrow> [] | Some d \<Rightarrow> [(ci_type i, d, v)]))
          else returnM [])"

definition release_object ::
    "'w case_env \<Rightarrow> string \<Rightarrow> case_item_type \<times> doc \<times> string \<Rightarrow> ('w case_world, unit) io" where
  "release_object env cid b = (case b of (t, d, v) \<Rightarrow>
     bindM (liftM (remove_backreference (Some d) cid)) (\<lambda>d'.
     thenM (in_store (coll_save (backing_collection env t) (p_string (d' ''howler.id'')) d' (Some v))) (returnM ())))"

definition remove_case_items ::
    "'w case_env \<Rightarrow> case_ref \<Rightarrow> string list \<Rightarrow> bool \<Rightarrow> ('w case_world, case_rec) io" where
  "remove_case_items env r item_ids force =
     bindM (resolve_case env r) (\<lambda>c.
     bindM (liftM (ids_to_remove (ce_depth env) c item_ids force)) (\<lambda>ids.
     bindM (mapM_io (backing_object env c) (remdups ids)) (\<lambda>bss.
     bindM (returnM (c\<lparr>cs_items := without_items ids (cs_items c)\<rparr>)) (\<lambda>c'.
     thenM (forM_io (concat bss) (release_object env (cs_id c)))
     (bindM (recompute_case_metadata env c') (\<lambda>c''.
     save_and_emit env c'' ''Failed to save case after item removal''))))))"

section \<open>Creating, hiding, deleting\<close>

text \<open>Items above the user's classification are left out of what is returned.\<close>

definition visible_item :: "'w case_env \<Rightarrow> string \<Rightarrow> case_item \<Rightarrow> bool result" where
  "visible_item env user_class i =
     (case ci_class i of None \<Rightarrow> Inr True | Some k \<Rightarrow> ce_accessible env user_class k)"

fun filterR :: "('a \<Rightarrow> bool result) \<Rightarrow> 'a list \<Rightarrow> 'a list result" where
  "filterR p [] = Inr []"
| "filterR p (x # xs) = bindR (p x) (\<lambda>b. bindR (filterR p xs) (\<lambda>ys. Inr (if b then x # ys else ys)))"

definition filter_case_items_by_classification :: "'w case_env \<Rightarrow> case_rec \<Rightarrow> string \<Rightarrow> case_rec result" where
  "filter_case_items_by_classification env c user_class =
     (if cs_items c = [] then Inr c
      else bindR (filterR (visible_item env user_class) (cs_items c)) (\<lambda>items. Inr (c\<lparr>cs_items := items\<rparr>)))"

definition append_given :: "'w case_env \<Rightarrow> string \<Rightarrow> py \<Rightarrow> ('w case_world, unit) io" where
  "append_given env cid v =
     bindM (drawing (CaseItem_init (ce_ext env) (ce_unrestricted env) True v)) (\<lambda>i.
     thenM (append_case_item env (CaseId cid) (GivenItem i)) (returnM ()))"

definition reload_created :: "'w case_env \<Rightarrow> case_rec \<Rightarrow> py list \<Rightarrow> ('w case_world, case_rec) io" where
  "reload_created env c items =
     (if items = [] then returnM c
      else bindM (case_get env (cs_id c)) (\<lambda>c'. case c' of
             None \<Rightarrow> raiseM (Exn EHowlerValue ''Error occurred when creating case'')
           | Some c' \<Rightarrow> returnM c'))"

text \<open>The case is stored first, then its items are appended one by one; an exception leaves what is stored.\<close>

definition create_case :: "'w case_env \<Rightarrow> (string, py) dict \<Rightarrow> user option \<Rightarrow> ('w case_world, case_rec) io" where
  "create_case env data usr =
     (if data = [] then raiseM (Exn EInvalidData ''Case data is required to create a case'')
      else
        bindM (drawing (Case_init (ce_ext env) (ce_unrestricted env) True (PDict (dpop (dpop data ''case_id'') ''items'')))) (\<lambda>c.
        bindM (new_log env [(''timestamp'', PStr ''NOW''), (''explanation'', PStr ''Case created''),
                 (''user'', PStr (case usr of Some u \<Rightarrow> u_uname u | None \<Rightarrow> ''system''))]) (\<lambda>l.
        bindM (returnM (c\<lparr>cs_log := [l]\<rparr>)) (\<lambda>c.
        bindM (case_save env c (Some CREATE_TOKEN)) (\<lambda>_.
        bindM (liftM (case dget data ''items'' of None \<Rightarrow> Inr [] | Some v \<Rightarrow> py_iter v)) (\<lambda>items.
        thenM (forM_io items (append_given env (cs_id c)))
        (bindM (reload_created env c items) (\<lambda>c'.
        thenM (emit_case c')
          (case usr of
             None \<Rightarrow> returnM c'
           | Some u \<Rightarrow> liftM (filter_case_items_by_classification env c' (u_classification u)))))))))))"

definition hide_references :: "'w case_env \<Rightarrow> string list \<Rightarrow> string \<Rightarrow> case_rec \<Rightarrow> ('w case_world, unit) io" where
  "hide_references env ids usr c =
     (if cs_id c \<in> set ids then returnM ()
      else
        (let hidden = filter (\<lambda>v. v \<in> set ids) (map ci_value (cs_items c));
             c' = c\<lparr>cs_items := map (\<lambda>i. if ci_value i \<in> set ids then i\<lparr>ci_visible := False\<rparr> else i) (cs_items c)\<rparr>
         in if hidden = [] then returnM ()
            else bindM (add_log env (explained usr (''Referenced case(s) hidden: '' @ py_join '', '' hidden)) c') (\<lambda>c''.
                 thenM (case_save env c'' None) (returnM ()))))"

definition hide_case :: "'w case_env \<Rightarrow> string \<Rightarrow> string \<Rightarrow> ('w case_world, unit) io" where
  "hide_case env usr k =
     bindM (case_get env k) (\<lambda>c. case c of
        None \<Rightarrow> returnM ()
      | Some c \<Rightarrow>
          bindM (add_log env (explained usr ''Case hidden'') (c\<lparr>cs_visible := False\<rparr>)) (\<lambda>c'.
          thenM (case_save env c' None) (returnM ())))"

definition hide_cases :: "'w case_env \<Rightarrow> string list \<Rightarrow> string \<Rightarrow> ('w case_world, unit) io" where
  "hide_cases env ids usr =
     bindM (in_store (ce_search_items env ids)) (\<lambda>related.
     thenM (forM_io related (hide_references env ids usr)) (forM_io ids (hide_case env usr)))"

definition drop_references :: "'w case_env \<Rightarrow> string list \<Rightarrow> case_rec \<Rightarrow> ('w case_world, unit) io" where
  "drop_references env ids found =
     (if cs_id found \<in> set ids then returnM ()
      else bindM (case_get env (cs_id found)) (\<lambda>c. case c of
             None \<Rightarrow> returnM ()
           | Some c \<Rightarrow>
               thenM (case_save env (c\<lparr>cs_items := filter (\<lambda>i. ci_value i \<notin> set ids) (cs_items c)\<rparr>) None) (returnM ())))"

definition delete_cases :: "'w case_env \<Rightarrow> string list \<Rightarrow> ('w case_world, bool) io" where
  "delete_cases env ids =
     bindM (in_store (ce_search_items env ids)) (\<lambda>related.
     thenM (forM_io related (drop_references env ids)) (in_store (ce_delete_query env ids)))"

section \<open>Updating\<close>

definition compound_fields :: "string list" where
  "compound_fields = [''items'', ''enrichments'', ''rules'', ''tasks'']"

definition immutable_fields :: "string list" where
  "immutable_fields = [''case_id'', ''created'', ''updated'']"

text \<open>
  \<^verbatim>\<open>_describe_field_change\<close>: the explanation and the texts of the previous and the new value. An empty
  list has no text.
\<close>

definition list_text :: "py list \<Rightarrow> string option" where
  "list_text xs = (let t = py_join '', '' (map py_str xs) in if t = [] then None else Some t)"

definition change_parts :: "py list \<Rightarrow> py list \<Rightarrow> string list" where
  "change_parts old new =
     (let o' = map py_str old; n' = map py_str new;
          added = sorted_set (filter (\<lambda>s. s \<notin> set o') n');
          removed = sorted_set (filter (\<lambda>s. s \<notin> set n') o')
      in (if added \<noteq> [] then [''added ['' @ py_join '', '' added @ '']''] else []) @
         (if removed \<noteq> [] then [''removed ['' @ py_join '', '' removed @ '']''] else []))"

definition describe_field_change :: "string \<Rightarrow> py \<Rightarrow> py \<Rightarrow> string \<times> string option \<times> string option" where
  "describe_field_change key previous new =
     (if key \<in> set compound_fields then (''Updated '' @ key, None, None)
      else case (previous, new) of
        (PList old, PList nw) \<Rightarrow>
          (let parts = change_parts old nw in
           (if parts \<noteq> [] then ''Updated '' @ key @ '': '' @ py_join ''; '' parts
            else ''Updated '' @ key @ '' (no changes)'',
            list_text old, list_text nw))
      | _ \<Rightarrow> (''Updated '' @ key @ '' from '' @ [CHR 0x27] @ py_str previous @ [CHR 0x27] @ '' to '' @
              [CHR 0x27] @ py_str new @ [CHR 0x27],
              if previous = PNone then None else Some (py_str previous),
              if new = PNone then None else Some (py_str new)))"

text \<open>
  \<^verbatim>\<open>getattr(case, key)\<close> in the form its text is taken from: a date is shown the way the interpreter
  prints it. An undeclared name raises.
\<close>

definition case_attribute :: "'w case_env \<Rightarrow> string \<Rightarrow> case_rec \<Rightarrow> py result" where
  "case_attribute env key c =
     (if key \<notin> set (map fst (Case_model [])) then Inl (Exn EHowlerKey key)
      else Inr (case dump_case c key of
                  None \<Rightarrow> PNone
                | Some (PStr s) \<Rightarrow> if key \<in> {''created'', ''updated'', ''start'', ''end''} then PStr (ce_show_date env s) else PStr s
                | Some v \<Rightarrow> v))"

text \<open>\<^verbatim>\<open>setattr(case, key, value)\<close>: the check of the field, then the store into the record.\<close>

definition checked_field ::
    "'w case_env \<Rightarrow> string \<Rightarrow> py \<Rightarrow> (oval \<Rightarrow> case_rec) \<Rightarrow> ('w case_world, case_rec) io" where
  "checked_field env key v upd =
     (case map_of (Case_model (ce_unrestricted env)) key of
        None \<Rightarrow> raiseM (Exn EHowlerKey key)
      | Some f \<Rightarrow> bindM (drawing (check_field (ce_ext env) False f v)) (\<lambda>r. returnM (upd r)))"

definition set_case_field :: "'w case_env \<Rightarrow> string \<Rightarrow> py \<Rightarrow> case_rec \<Rightarrow> ('w case_world, case_rec) io" where
  "set_case_field env key v c =
     (let E = ce_ext env; U = ce_unrestricted env; set_to = checked_field env key v in
      if key = ''classification'' then set_to (\<lambda>r. c\<lparr>cs_classification := o_string r\<rparr>)
      else if key = ''title'' then set_to (\<lambda>r. c\<lparr>cs_title := o_string r\<rparr>)
      else if key = ''summary'' then set_to (\<lambda>r. c\<lparr>cs_summary := o_string r\<rparr>)
      else if key = ''overview'' then set_to (\<lambda>r. c\<lparr>cs_overview := o_text r\<rparr>)
      else if key = ''escalation'' then set_to (\<lambda>r. c\<lparr>cs_escalation := o_string r\<rparr>)
      else if key = ''status'' then set_to (\<lambda>r. c\<lparr>cs_status := o_string r\<rparr>)
      else if key = ''visible'' then set_to (\<lambda>r. c\<lparr>cs_visible := o_bool r\<rparr>)
      else if key = ''start'' then set_to (\<lambda>r. c\<lparr>cs_start := o_text r\<rparr>)
      else if key = ''end'' then set_to (\<lambda>r. c\<lparr>cs_end := o_text r\<rparr>)
      else if key = ''targets'' then set_to (\<lambda>r. c\<lparr>cs_targets := map o_string (o_list r)\<rparr>)
      else if key = ''threats'' then set_to (\<lambda>r. c\<lparr>cs_threats := map o_string (o_list r)\<rparr>)
      else if key = ''indicators'' then set_to (\<lambda>r. c\<lparr>cs_indicators := map o_string (o_list r)\<rparr>)
      else if key = ''participants'' then set_to (\<lambda>r. c\<lparr>cs_participants := map o_string (o_list r)\<rparr>)
      else if key = ''items''
      then bindM (drawing (init_list (CaseItem_init E U False) (CaseItem_model U) v)) (\<lambda>xs. returnM (c\<lparr>cs_items := xs\<rparr>))
      else if key = ''enrichments''
      then bindM (drawing (init_list (plain_init E False enrichment_of CaseEnrichment_model) CaseEnrichment_model v))
             (\<lambda>xs. returnM (c\<lparr>cs_enrichments := xs\<rparr>))
      else if key = ''rules''
      then bindM (drawing (init_list (CaseRule_init E False) CaseRule_model v)) (\<lambda>xs. returnM (c\<lparr>cs_rules := xs\<rparr>))
      else if key = ''tasks''
      then bindM (drawing (init_list (plain_init E False task_of CaseTask_model) CaseTask_model v))
             (\<lambda>xs. returnM (c\<lparr>cs_tasks := xs\<rparr>))
      else if key = ''log''
      then bindM (drawing (init_list (CaseLog_init E False) CaseLog_model v)) (\<lambda>xs. returnM (c\<lparr>cs_log := xs\<rparr>))
      else raiseM (Exn EHowlerKey key))"

definition update_one :: "'w case_env \<Rightarrow> user \<Rightarrow> case_rec \<Rightarrow> string \<times> py \<Rightarrow> ('w case_world, case_rec) io" where
  "update_one env usr c kv =
     bindM (liftM (case_attribute env (fst kv) c)) (\<lambda>previous.
     (case describe_field_change (fst kv) previous (snd kv) of (explanation, prev, new) \<Rightarrow>
      bindM (add_log env [(''timestamp'', PStr ''NOW''), (''key'', PStr (fst kv)),
               (''previous_value'', optional_value prev), (''new_value'', optional_value new),
               (''user'', PStr (u_uname usr)), (''explanation'', PStr explanation)] c)
        (set_case_field env (fst kv) (snd kv))))"

definition update_case :: "'w case_env \<Rightarrow> string \<Rightarrow> (string, py) dict \<Rightarrow> user \<Rightarrow> ('w case_world, case_rec) io" where
  "update_case env case_id data usr =
     bindM (get_case env case_id) (\<lambda>c.
     if list_ex (\<lambda>k. k \<in> set immutable_fields) (dkeys data)
     then raiseM (Exn EInvalidData (''Cannot modify immutable field(s): '' @
            py_join '', '' (filter (\<lambda>k. k \<in> set immutable_fields) (dkeys data))))
     else if data = [] then raiseM (Exn EInvalidData ''No valid fields provided for update'')
     else
       bindM (foldM_io (update_one env usr) c data) (\<lambda>c'.
       bindM (liftM (touch env c')) (\<lambda>c''.
       thenM (case_save env c'' None) (thenM (emit_case c'') (returnM c'')))))"

section \<open>Rules\<close>

definition given_text :: "(string, py) dict \<Rightarrow> string \<Rightarrow> bool" where
  "given_text d k \<longleftrightarrow> (case dget d k of None \<Rightarrow> False | Some v \<Rightarrow> truthy v)"

definition set_default :: "(string, py) dict \<Rightarrow> string \<Rightarrow> py \<Rightarrow> (string, py) dict" where
  "set_default d k v = (if dmem d k then d else dset d k v)"

definition rule_request :: "(string, py) dict \<Rightarrow> user \<Rightarrow> (string, py) dict" where
  "rule_request d usr =
     set_default (set_default
       (dset (dpop (dpop d ''rule_id'') ''created_at'') ''author'' (PStr (u_uname usr)))
       ''enabled'' (PBool True)) ''expire_after_resolved'' (PBool False)"

text \<open>The constructor's HowlerValueError becomes InvalidDataException.\<close>

definition as_invalid_data :: "('w, 'a) io \<Rightarrow> ('w, 'a) io" where
  "as_invalid_data m = (\<lambda>w. case m w of
      (Inl e, w') \<Rightarrow> (Inl (if exn_class e = EHowlerValue then Exn EInvalidData (exn_message e) else e), w')
    | r \<Rightarrow> r)"

text \<open>Logging, touching, saving and announcing, as the three rule operations end.\<close>

definition finish_rule_change :: "'w case_env \<Rightarrow> user \<Rightarrow> string \<Rightarrow> case_rec \<Rightarrow> ('w case_world, case_rec) io" where
  "finish_rule_change env usr m c =
     bindM (add_log env (explained (u_uname usr) m) c) (\<lambda>c'.
     bindM (liftM (touch env c')) (\<lambda>c''.
     thenM (case_save env c'' None) (thenM (emit_case c'') (returnM c''))))"

definition add_case_rule :: "'w case_env \<Rightarrow> string \<Rightarrow> (string, py) dict \<Rightarrow> user \<Rightarrow> ('w case_world, case_rec) io" where
  "add_case_rule env case_id data usr =
     bindM (get_case env case_id) (\<lambda>c.
     if \<not> given_text data ''query'' then raiseM (Exn EInvalidData ''Rule query is required'')
     else if \<not> given_text data ''destination'' then raiseM (Exn EInvalidData ''Rule destination is required'')
     else bindM (as_invalid_data (drawing (CaseRule_init (ce_ext env) True (PDict (rule_request data usr))))) (\<lambda>r.
          finish_rule_change env usr (''Added correlation rule targeting '' @ cr_destination r)
            (c\<lparr>cs_rules := cs_rules c @ [r]\<rparr>)))"

definition remove_case_rule :: "'w case_env \<Rightarrow> string \<Rightarrow> string \<Rightarrow> user \<Rightarrow> ('w case_world, case_rec) io" where
  "remove_case_rule env case_id rule_id usr =
     bindM (get_case env case_id) (\<lambda>c.
     let rules = filter (\<lambda>r. cr_rule_id r \<noteq> rule_id) (cs_rules c) in
     if length rules = length (cs_rules c)
     then raiseM (Exn ENotFound (''Rule '' @ rule_id @ '' not found in case '' @ case_id))
     else finish_rule_change env usr (''Removed correlation rule '' @ rule_id) (c\<lparr>cs_rules := rules\<rparr>))"

definition allowed_rule_fields :: "string list" where
  "allowed_rule_fields = [''enabled'', ''query'', ''destination'', ''timeframe'', ''expire_after_resolved'']"

text \<open>
  One field of the patch. The test of the timeframe lets a Boolean through: \<^verbatim>\<open>isinstance(True, int)\<close>.
\<close>

definition patch_timeframe_ok :: "py \<Rightarrow> bool" where
  "patch_timeframe_ok v \<longleftrightarrow> (case v of PNone \<Rightarrow> True | PInt i \<Rightarrow> 0 < i | PBool b \<Rightarrow> b | _ \<Rightarrow> False)"

definition set_rule_field :: "odm_ext \<Rightarrow> string \<Rightarrow> py \<Rightarrow> case_rule \<Rightarrow> (nat, case_rule) io" where
  "set_rule_field E key v r =
     (case map_of CaseRule_model key of
        None \<Rightarrow> raiseM (Exn EHowlerKey key)
      | Some f \<Rightarrow> bindM (check_field E False f v) (\<lambda>x. returnM
          (if key = ''enabled'' then r\<lparr>cr_enabled := o_bool x\<rparr>
           else if key = ''query'' then r\<lparr>cr_query := o_string x\<rparr>
           else if key = ''destination'' then r\<lparr>cr_destination := o_string x\<rparr>
           else if key = ''timeframe'' then r\<lparr>cr_timeframe := o_int x\<rparr>
           else r\<lparr>cr_expire_after_resolved := o_bool x\<rparr>)))"

definition patch_rule :: "odm_ext \<Rightarrow> case_rule \<Rightarrow> string \<times> py \<Rightarrow> (nat, case_rule) io" where
  "patch_rule E r kv =
     (if fst kv = ''timeframe'' \<and> \<not> patch_timeframe_ok (snd kv)
      then raiseM (Exn EHowlerValue ''Rule timeframe must be a positive integer or None'')
      else set_rule_field E (fst kv) (snd kv) r)"

definition rule_attribute :: "case_rule \<Rightarrow> string \<Rightarrow> py" where
  "rule_attribute r key = (case dget (p_dict (dump_rule r)) key of None \<Rightarrow> PNone | Some v \<Rightarrow> v)"

text \<open>The text of the changes, each against the rule as the fields before it have left it.\<close>

definition quoted_value :: "py \<Rightarrow> string" where
  "quoted_value v = [CHR 0x27] @ py_str v @ [CHR 0x27]"

definition patch_logged ::
    "odm_ext \<Rightarrow> case_rule \<times> string list \<Rightarrow> string \<times> py \<Rightarrow> (nat, case_rule \<times> string list) io" where
  "patch_logged E acc kv =
     bindM (patch_rule E (fst acc) kv) (\<lambda>r.
     returnM (r, snd acc @ [fst kv @ '': '' @ quoted_value (rule_attribute (fst acc) (fst kv)) @ '' -> '' @ quoted_value (snd kv)]))"

fun set_rule :: "string \<Rightarrow> case_rule \<Rightarrow> case_rule list \<Rightarrow> case_rule list" where
  "set_rule k r' [] = []"
| "set_rule k r' (r # rs) = (if cr_rule_id r = k then r' # rs else r # set_rule k r' rs)"

definition update_case_rule ::
    "'w case_env \<Rightarrow> string \<Rightarrow> string \<Rightarrow> (string, py) dict \<Rightarrow> user \<Rightarrow> ('w case_world, case_rec) io" where
  "update_case_rule env case_id rule_id data usr =
     bindM (get_case env case_id) (\<lambda>c.
     let patch = filter (\<lambda>kv. fst kv \<in> set allowed_rule_fields) data in
     if patch = [] then raiseM (Exn EInvalidData ''No valid fields provided for update.'')
     else case find_first (\<lambda>r. cr_rule_id r = rule_id) (cs_rules c) of
       None \<Rightarrow> raiseM (Exn ENotFound (''Rule '' @ rule_id @ '' not found in case '' @ case_id))
     | Some r \<Rightarrow>
         bindM (drawing (foldM_io (patch_logged (ce_ext env)) (r, []) patch)) (\<lambda>(r', changes).
         if (case cr_timeframe r' of None \<Rightarrow> False | Some n \<Rightarrow> n \<le> 0)
         then raiseM (Exn EHowlerValue ''Rule timeframe must be a positive integer or None'')
         else if cr_timeframe r' = None \<and> cr_expire_after_resolved r'
         then raiseM (Exn EInvalidData ''Rule cannot expire after resolved when no timeframe is set'')
         else finish_rule_change env usr (''Updated correlation rule '' @ rule_id @ '': '' @ py_join ''; '' changes)
                (c\<lparr>cs_rules := set_rule rule_id r' (cs_rules c)\<rparr>)))"

end
