(* ===== verification/CaseStore.thy ===== *)
theory CaseStore
  imports CaseService
begin

text \<open>
  The cases in the store. What the case service needs of the collections is a locale: reading returns
  what is stored and changes nothing, saving replaces one case or does nothing, and the objects behind
  items live elsewhere. Under it every request on the items of a stored case, whether it succeeds or
  stops half-way, leaves well-formed forests. The locale is interpreted on collections over an
  in-memory client.
\<close>

section \<open>What the service needs of the store\<close>

definition keeps :: "('w \<Rightarrow> 'v) \<Rightarrow> ('w, 'a) io \<Rightarrow> bool" where
  "keeps view m \<longleftrightarrow> (\<forall>a r a'. m a = (r, a') \<longrightarrow> view a' = view a)"

lemma keepsD: "keeps view m \<Longrightarrow> m a = (r, a') \<Longrightarrow> view a' = view a"
  unfolding keeps_def by blast

lemma keeps_return [intro]: "keeps view (returnM x)"
  by (simp add: keeps_def)

lemma keeps_raise [intro]: "keeps view (raiseM e)"
  by (simp add: keeps_def)

lemma keeps_lift [intro]: "keeps view (liftM r)"
  by (simp add: keeps_def)

lemma keeps_bind [intro]:
  assumes "keeps view m" and "\<And>x. keeps view (f x)"
  shows "keeps view (bindM m f)"
  unfolding keeps_def
proof (intro allI impI)
  fix a r a' assume run: "bindM m f a = (r, a')"
  obtain q b where q: "m a = (q, b)" by (cases "m a")
  show "view a' = view a"
  proof (cases q)
    case (Inl e)
    with run q keepsD [OF assms(1) q] show ?thesis by simp
  next
    case (Inr x)
    with run q have "f x b = (r, a')" by simp
    from keepsD [OF assms(2) this] keepsD [OF assms(1) q] show ?thesis by simp
  qed
qed

lemma keeps_then [intro]: "keeps view m \<Longrightarrow> keeps view n \<Longrightarrow> keeps view (thenM m n)"
  unfolding thenM_def by (rule keeps_bind)

lemma bindM_returnM: "bindM (returnM x) f = f x"
  by (rule ext) simp

lemma keeps_mapM: "(\<And>x. keeps view (f x)) \<Longrightarrow> keeps view (mapM_io f xs)"
  by (induction xs) auto

lemma keeps_foldM: "(\<And>s x. keeps view (f s x)) \<Longrightarrow> keeps view (foldM_io f s xs)"
  by (induction xs arbitrary: s) auto

lemma keeps_forM: "(\<And>x. x \<in> set xs \<Longrightarrow> keeps view (f x)) \<Longrightarrow> keeps view (forM_io xs f)"
  by (induction xs) auto

text \<open>Every case in a view of the store has a well-formed forest.\<close>

definition all_forests :: "(string \<Rightarrow> case_rec option) \<Rightarrow> bool" where
  "all_forests s \<longleftrightarrow> (\<forall>k c. s k = Some c \<longrightarrow> forest_ok (cs_items c))"

text \<open>A token a read of the collection of a type has given out.\<close>

definition given_version :: "'w case_env \<Rightarrow> case_item_type \<Rightarrow> string \<Rightarrow> bool" where
  "given_version env t v \<longleftrightarrow> (\<exists>k w b w'. coll_get (backing_collection env t) k True w = (Inr (b, v), w'))"

definition repository_laws :: "'w case_env \<Rightarrow> ('w \<Rightarrow> string \<Rightarrow> case_rec option) \<Rightarrow> bool" where
  "repository_laws env stored \<longleftrightarrow>
     (\<forall>k w r w'. coll_get (ce_cases env) k True w = (r, w') \<longrightarrow>
        stored w' = stored w \<and> (\<forall>d v. r = Inr (Some d, v) \<longrightarrow> stored w k = Some (load_case d))) \<and>
     (\<forall>c w r w'. coll_save (ce_cases env) (cs_id c) (dump_case c) None w = (r, w') \<longrightarrow>
        stored w' = stored w \<or> stored w' = (stored w)(cs_id c \<mapsto> c)) \<and>
     (\<forall>t k w r w'. coll_get (backing_collection env t) k True w = (r, w') \<longrightarrow> stored w' = stored w) \<and>
     (\<forall>t k d v w r w'. given_version env t v \<longrightarrow>
        coll_save (backing_collection env t) k d (Some v) w = (r, w') \<longrightarrow> stored w' = stored w)"

locale case_repository =
  fixes env :: "'w case_env" and stored :: "'w \<Rightarrow> string \<Rightarrow> case_rec option"
  assumes laws: "repository_laws env stored"
begin

definition view :: "'w case_world \<Rightarrow> string \<Rightarrow> case_rec option" where
  "view a = stored (cw_store a)"

lemma keeps_drawing [intro]: "keeps view (drawing m)"
  by (auto simp: keeps_def drawing_def view_def split: prod.splits)

lemma keeps_emit [intro]: "keeps view (emit_case c)"
  by (auto simp: keeps_def emit_case_def view_def)

lemma keeps_in_store: "keeps stored m \<Longrightarrow> keeps view (in_store m)"
  by (auto simp: keeps_def in_store_def view_def split: prod.splits)

lemma keeps_case_coll [intro]: "keeps stored (coll_get (ce_cases env) k True)"
  unfolding keeps_def using laws unfolding repository_laws_def by blast

lemma keeps_back_coll [intro]: "keeps stored (coll_get (backing_collection env t) k True)"
  unfolding keeps_def using laws unfolding repository_laws_def by blast

lemma keeps_back_save [intro]: "given_version env t v \<Longrightarrow> keeps stored (coll_save (backing_collection env t) k d (Some v))"
  unfolding keeps_def using laws unfolding repository_laws_def by blast

lemma keeps_case_get [intro]: "keeps view (case_get env k)"
  unfolding case_get_def by (intro keeps_in_store keeps_bind) (auto split: prod.splits)

lemma get_law:
  assumes "coll_get (ce_cases env) k True w = (Inr (Some d, v), w')"
  shows "stored w k = Some (load_case d)"
proof -
  from laws have "\<forall>k w r w'. coll_get (ce_cases env) k True w = (r, w') \<longrightarrow>
        stored w' = stored w \<and> (\<forall>d v. r = Inr (Some d, v) \<longrightarrow> stored w k = Some (load_case d))"
    unfolding repository_laws_def by (rule conjunct1)
  from this [rule_format, OF assms] show ?thesis by simp
qed

lemma case_get_stored:
  assumes "case_get env k a = (Inr (Some c), a')"
  shows "view a k = Some c"
proof -
  from assms obtain d v w' where "coll_get (ce_cases env) k True (cw_store a) = (Inr (Some d, v), w')" "c = load_case d"
    by (auto simp: case_get_def in_store_def bindM_eq_Inr split: prod.splits)
  from get_law [OF this(1)] this(2) show ?thesis by (simp add: view_def)
qed

text \<open>Resolving an id keeps the view and finds what is stored.\<close>

lemma resolve_id:
  assumes "resolve_case env (CaseId k) a = (r, a')"
  shows "view a' = view a \<and> (\<forall>c. r = Inr c \<longrightarrow> view a k = Some c)"
proof -
  have "keeps view (resolve_case env (CaseId k))"
    unfolding resolve_case_def by (auto intro!: keeps_bind split: option.splits)
  with assms have "view a' = view a" by (rule keepsD [rotated])
  moreover have "view a k = Some c" if "r = Inr c" for c
    using assms that case_get_stored by (auto simp: resolve_case_def bindM_eq_Inr split: option.splits)
  ultimately show ?thesis by blast
qed

lemma get_case_id:
  assumes "get_case env k a = (r, a')"
  shows "view a' = view a \<and> (\<forall>c. r = Inr c \<longrightarrow> view a k = Some c)"
proof -
  have "keeps view (get_case env k)"
    unfolding get_case_def by (auto intro!: keeps_bind split: option.splits)
  with assms have "view a' = view a" by (rule keepsD [rotated])
  moreover have "view a k = Some c" if "r = Inr c" for c
    using assms that case_get_stored by (auto simp: get_case_def bindM_eq_Inr split: option.splits)
  ultimately show ?thesis by blast
qed

text \<open>A save of a case with a well-formed forest.\<close>

lemma save_forest:
  assumes "case_save env c None a = (r, a')" and "all_forests (view a)" and "forest_ok (cs_items c)"
  shows "all_forests (view a')"
proof -
  from assms(1) obtain w' where w': "coll_save (ce_cases env) (cs_id c) (dump_case c) None (cw_store a) = (r, w')"
    "a' = a\<lparr>cw_store := w'\<rparr>"
    by (auto simp: case_save_def in_store_def split: prod.splits)
  with laws have "stored w' = stored (cw_store a) \<or> stored w' = (stored (cw_store a))(cs_id c \<mapsto> c)"
    unfolding repository_laws_def by blast
  with assms(2,3) w'(2) show ?thesis by (auto simp: all_forests_def view_def split: if_splits)
qed

lemma save_and_emit_forest:
  assumes "save_and_emit env c m a = (r, a')" and "all_forests (view a)" and "forest_ok (cs_items c)"
  shows "all_forests (view a')"
proof -
  obtain q b where q: "case_save env c None a = (q, b)" by (cases "case_save env c None a")
  from save_forest [OF q assms(2,3)] have b: "all_forests (view b)" .
  have "view a' = view b"
  proof (cases q)
    case (Inl e)
    with assms(1) q show ?thesis by (simp add: save_and_emit_def)
  next
    case (Inr ok)
    with assms(1) q have "(if \<not> ok then raiseM (data_store_exn m) else thenM (emit_case c) (returnM c)) b = (r, a')"
      by (simp add: save_and_emit_def)
    moreover have "keeps view (if \<not> ok then raiseM (data_store_exn m) else thenM (emit_case c) (returnM c))"
      by auto
    ultimately show ?thesis by (rule keepsD [rotated])
  qed
  with b show ?thesis by simp
qed

text \<open>Steps that keep the view before one that keeps the forests.\<close>

lemma after_keeping:
  assumes "bindM m f a = (r, a')" and "keeps view m" and "all_forests (view a)"
    and "\<And>x b. m a = (Inr x, b) \<Longrightarrow> all_forests (view b) \<Longrightarrow> f x b = (r, a') \<Longrightarrow> all_forests (view a')"
  shows "all_forests (view a')"
proof -
  obtain q b where q: "m a = (q, b)" by (cases "m a")
  have vb: "view b = view a" by (rule keepsD [OF assms(2) q])
  show ?thesis
  proof (cases q)
    case (Inl e)
    with assms(1,3) q vb show ?thesis by simp
  next
    case (Inr x)
    with assms(1) q have "f x b = (r, a')" by simp
    with assms(4) [OF q [unfolded Inr]] assms(3) vb show ?thesis by simp
  qed
qed

lemma keeps_recompute: "keeps view (recompute_case_metadata env c)"
  unfolding recompute_case_metadata_def
proof (rule keeps_bind)
  have hits: "backing_collection env CI_HIT = ce_hits env" "backing_collection env CI_EVENT = ce_events env"
    by (simp_all add: backing_collection_def)
  have "keeps stored (coll_get (ce_hits env) k True)" "keeps stored (coll_get (ce_events env) k True)" for k
    using keeps_back_coll [of CI_HIT k] keeps_back_coll [of CI_EVENT k] by (simp_all add: hits)
  then show "keeps view (foldM_io (item_metadata env) m xs)" for m xs
    by (intro keeps_foldM) (auto simp: item_metadata_def intro!: keeps_bind keeps_in_store split: prod.splits)
qed auto

lemma recompute_items: "recompute_case_metadata env c a = (Inr c', a') \<Longrightarrow> cs_items c' = cs_items c"
  by (auto simp: recompute_case_metadata_def bindM_eq_Inr)

text \<open>The requests on the items of a stored case.\<close>

lemma move_forest:
  assumes "move_case_item env (CaseId k) i p a = (r, a')" and "all_forests (view a)"
  shows "all_forests (view a')"
proof -
  obtain q b where q: "resolve_case env (CaseId k) a = (q, b)" by (cases "resolve_case env (CaseId k) a")
  from resolve_id [OF q] assms(2) have b: "all_forests (view b)" "\<And>c. q = Inr c \<Longrightarrow> forest_ok (cs_items c)"
    by (auto simp: all_forests_def)
  show ?thesis
  proof (cases q)
    case (Inl e)
    with assms(1) q b show ?thesis by (simp add: move_case_item_def)
  next
    case (Inr c)
    show ?thesis
    proof (cases "move_item c i p")
      case (Inl e)
      with assms(1) q b \<open>q = Inr c\<close> show ?thesis by (simp add: move_case_item_def)
    next
      case (Inr c')
      with assms(1) q \<open>q = Inr c\<close> have "save_and_emit env c' ''Failed to save case after item move'' b = (r, a')"
        by (simp add: move_case_item_def)
      from save_and_emit_forest [OF this b(1) move_keeps [OF b(2) Inr]] \<open>q = Inr c\<close> show ?thesis by simp
    qed
  qed
qed

lemma rename_forest:
  assumes "rename_case_item env k i n a = (r, a')" and "all_forests (view a)"
  shows "all_forests (view a')"
proof (cases "py_strip n = []")
  case True
  with assms show ?thesis by (simp add: rename_case_item_def)
next
  case False
  obtain q b where q: "get_case env k a = (q, b)" by (cases "get_case env k a")
  from get_case_id [OF q] assms(2) have b: "all_forests (view b)" "\<And>c. q = Inr c \<Longrightarrow> forest_ok (cs_items c)"
    by (auto simp: all_forests_def)
  show ?thesis
  proof (cases q)
    case (Inl e)
    with assms(1) q b False show ?thesis by (simp add: rename_case_item_def)
  next
    case (Inr c)
    show ?thesis
    proof (cases "rename_item c i n")
      case (Inl e)
      with assms(1) q b \<open>q = Inr c\<close> False show ?thesis by (simp add: rename_case_item_def)
    next
      case (Inr c')
      with assms(1) q \<open>q = Inr c\<close> False have "save_and_emit env c' ''Failed to save case after item rename'' b = (r, a')"
        by (simp add: rename_case_item_def)
      from save_and_emit_forest [OF this b(1) rename_keeps [OF b(2) Inr]] \<open>q = Inr c\<close> show ?thesis by simp
    qed
  qed
qed

text \<open>Saving what the metadata are recomputed for.\<close>

lemma recompute_save_forest:
  assumes "bindM (recompute_case_metadata env c) (\<lambda>c'. save_and_emit env c' m) a = (r, a')"
    and "all_forests (view a)" and "forest_ok (cs_items c)"
  shows "all_forests (view a')"
  using assms(1) keeps_recompute assms(2)
proof (rule after_keeping)
  fix c' b assume run: "recompute_case_metadata env c a = (Inr c', b)" "save_and_emit env c' m b = (r, a')"
    and "all_forests (view b)"
  with save_and_emit_forest [OF run(2)] recompute_items [OF run(1)] assms(3) show "all_forests (view a')" by simp
qed

lemma given_by_get:
  assumes "in_store (coll_get (backing_collection env t) k True) a = (Inr (b, v), a')"
  shows "given_version env t v"
  using assms unfolding given_version_def in_store_def by (auto split: prod.splits)

lemma append_backed_forest:
  assumes "append_backed env c i a = (r, a')" and "all_forests (view a)" and ok: "forest_ok (cs_items c @ [i])"
  shows "all_forests (view a')"
  using assms(1) [unfolded append_backed_def] keeps_in_store [OF keeps_back_coll] assms(2)
proof (rule after_keeping)
  fix x b
  assume get: "in_store (coll_get (backing_collection env (ci_type i)) (ci_value i) True) a = (Inr x, b)"
    and b: "all_forests (view b)"
    and run: "(case x of (bo, version) \<Rightarrow> case bo of
       None \<Rightarrow> raiseM (Exn ENotFound
                 ((if ci_type i = CI_HIT then ''Hit '' else ''Event '') @ ci_value i @ '' not found, cannot be added to case''))
     | Some d \<Rightarrow>
         bindM (returnM (c\<lparr>cs_items := cs_items c @ [i\<lparr>ci_class := p_text (d ''classification'')\<rparr>]\<rparr>)) (\<lambda>c.
         bindM (liftM (add_backreference (Some d) (cs_id c))) (\<lambda>d'.
         bindM (in_store (coll_save (backing_collection env (ci_type i)) (p_string (d' ''howler.id'')) d' (Some version))) (\<lambda>_.
         bindM (recompute_case_metadata env c) (\<lambda>c.
         save_and_emit env c (''Failed to save '' @ cs_id c @ '' with new item '' @ ci_value i)))))) b = (r, a')"
  obtain bo v where x: "x = (bo, v)" by (cases x)
  have v: "given_version env (ci_type i) v" using given_by_get [OF get [unfolded x]] .
  show "all_forests (view a')"
  proof (cases bo)
    case None
    with run b x show ?thesis by simp
  next
    case (Some d)
    define c1 where "c1 = c\<lparr>cs_items := cs_items c @ [i\<lparr>ci_class := p_text (d ''classification'')\<rparr>]\<rparr>"
    have c1: "forest_ok (cs_items c1)"
    proof -
      have "forest_ok (map (\<lambda>x. if ci_id x = ci_id i then x\<lparr>ci_class := p_text (d ''classification'')\<rparr> else x) (cs_items c @ [i]))"
        by (rule forest_ok_map [OF ok]) auto
      moreover have "map (\<lambda>x. if ci_id x = ci_id i then x\<lparr>ci_class := p_text (d ''classification'')\<rparr> else x) (cs_items c @ [i]) = cs_items c1"
        using ok by (auto simp: c1_def forest_ok_def image_iff intro!: map_idI)
      ultimately show ?thesis by simp
    qed
    show ?thesis
    proof (cases "add_backreference (Some d) (cs_id c)")
      case (Inl e)
      with run b x Some show ?thesis by simp
    next
      case (Inr d')
      with run x Some have "bindM (in_store (coll_save (backing_collection env (ci_type i)) (p_string (d' ''howler.id'')) d' (Some v))) (\<lambda>_.
         bindM (recompute_case_metadata env c1) (\<lambda>c'.
         save_and_emit env c' (''Failed to save '' @ cs_id c' @ '' with new item '' @ ci_value i))) b = (r, a')"
        by (simp add: c1_def)
      from this keeps_in_store [OF keeps_back_save [OF v]] b show ?thesis
      proof (rule after_keeping)
        fix u b1
        assume "all_forests (view b1)"
          and "bindM (recompute_case_metadata env c1) (\<lambda>c'.
            save_and_emit env c' (''Failed to save '' @ cs_id c' @ '' with new item '' @ ci_value i)) b1 = (r, a')"
        from this(2) keeps_recompute this(1) show "all_forests (view a')"
        proof (rule after_keeping)
          fix c' b2
          assume "recompute_case_metadata env c1 b1 = (Inr c', b2)" "all_forests (view b2)"
            "save_and_emit env c' (''Failed to save '' @ cs_id c' @ '' with new item '' @ ci_value i) b2 = (r, a')"
          with save_and_emit_forest [OF this(3,2)] recompute_items [OF this(1)] c1 show "all_forests (view a')" by simp
        qed
      qed
    qed
  qed
qed

lemma append_case_forest:
  assumes "append_case env c i a = (r, a')" and "all_forests (view a)" and ok: "forest_ok (cs_items c @ [i])"
  shows "all_forests (view a')"
proof (cases "list_ex (\<lambda>x. ci_value x = ci_value i) (cs_items c)")
  case True
  with assms show ?thesis by (simp add: append_case_def)
next
  case False
  with assms(1) have "bindM (case_get env (ci_value i)) (\<lambda>ref. case ref of
          None \<Rightarrow> raiseM (Exn ENotFound (''Referenced case '' @ name_text i @ '' not found, cannot be added to case''))
        | Some _ \<Rightarrow> save_and_emit env (c\<lparr>cs_items := cs_items c @ [i]\<rparr>) (''Failed to save '' @ cs_id c @ '' with new item '' @ name_text i)) a = (r, a')"
    unfolding append_case_def by (simp only: if_False)
  from this keeps_case_get assms(2) show ?thesis
  proof (rule after_keeping)
    fix ref b
    assume "all_forests (view b)" "(case ref of
          None \<Rightarrow> raiseM (Exn ENotFound (''Referenced case '' @ name_text i @ '' not found, cannot be added to case''))
        | Some _ \<Rightarrow> save_and_emit env (c\<lparr>cs_items := cs_items c @ [i]\<rparr>) (''Failed to save '' @ cs_id c @ '' with new item '' @ name_text i)) b = (r, a')"
    with save_and_emit_forest [of "c\<lparr>cs_items := cs_items c @ [i]\<rparr>"] ok show "all_forests (view a')"
      by (cases ref) auto
  qed
qed

lemma append_forest:
  assumes run: "append_case_item env (CaseId k) (GivenItem i) a = (r, a')" and "all_forests (view a)"
    and i: "\<And>c. view a k = Some c \<Longrightarrow> built_item i \<and> ci_id i \<notin> set (map ci_id (cs_items c))"
  shows "all_forests (view a')"
proof -
  obtain q b where q: "resolve_case env (CaseId k) a = (q, b)" by (cases "resolve_case env (CaseId k) a")
  from resolve_id [OF q] assms(2) have b: "all_forests (view b)" "\<And>c. q = Inr c \<Longrightarrow> forest_ok (cs_items c) \<and> view a k = Some c"
    by (auto simp: all_forests_def)
  show ?thesis
  proof (cases q)
    case (Inl e)
    with run q b show ?thesis by (simp add: append_case_item_def)
  next
    case (Inr c)
    show ?thesis
    proof (cases "admit_item c i")
      case (Inl e)
      with run q b \<open>q = Inr c\<close> show ?thesis by (simp add: append_case_item_def build_item_def)
    next
      case (Inr i')
      have "forest_ok (cs_items (c\<lparr>cs_items := cs_items c @ [i']\<rparr>))"
        by (rule append_keeps [of c i]) (use b(2) \<open>q = Inr c\<close> i Inr in \<open>auto simp: append_item_def\<close>)
      then have ok: "forest_ok (cs_items c @ [i'])" by simp
      from run q \<open>q = Inr c\<close> Inr have "(if ci_type i' \<in> {CI_HIT, CI_EVENT} then append_backed env c i'
         else if ci_type i' = CI_CASE then append_case env c i'
         else save_and_emit env (c\<lparr>cs_items := cs_items c @ [i']\<rparr>)
           (''Failed to save '' @ cs_id c @ '' with new '' @ item_type_value (ci_type i') @ '' '' @ name_text i')) b = (r, a')"
        by (simp add: append_case_item_def build_item_def)
      with append_backed_forest [OF _ b(1) ok] append_case_forest [OF _ b(1) ok]
        save_and_emit_forest [OF _ b(1), of "c\<lparr>cs_items := cs_items c @ [i']\<rparr>"] ok
      show ?thesis by (auto split: if_splits)
    qed
  qed
qed

text \<open>Removal: every object to release was read, so its version was given out.\<close>

lemma backing_object_keeps: "keeps view (backing_object env c k)"
  by (auto simp: backing_object_def intro!: keeps_bind keeps_in_store split: option.splits prod.splits)

lemma backing_object_given:
  assumes "backing_object env c k a = (Inr bs, a')" and "(t, d, v) \<in> set bs"
  shows "given_version env t v"
proof -
  from assms obtain x where "in_store (coll_get (backing_collection env t) x True) a = (Inr (Some d, v), a')"
    by (auto simp: backing_object_def bindM_eq_Inr split: option.splits if_splits prod.splits)
  then show ?thesis by (rule given_by_get)
qed

lemma backing_objects_given:
  "mapM_io (backing_object env c) ks a = (Inr bss, a') \<Longrightarrow> (t, d, v) \<in> set (concat bss) \<Longrightarrow> given_version env t v"
proof (induction ks arbitrary: a a' bss)
  case (Cons k ks)
  from Cons.prems(1) obtain bs b bss' where b: "backing_object env c k a = (Inr bs, b)"
    "mapM_io (backing_object env c) ks b = (Inr bss', a')" "bss = bs # bss'"
    by (auto simp: bindM_eq_Inr)
  from Cons.prems(2) b(3) consider "(t, d, v) \<in> set bs" | "(t, d, v) \<in> set (concat bss')" by auto
  then show ?case
  proof cases
    case 1
    from backing_object_given [OF b(1) this] show ?thesis .
  next
    case 2
    from Cons.IH [OF b(2) this] show ?thesis .
  qed
qed simp

lemma release_keeps: "given_version env t v \<Longrightarrow> keeps view (release_object env cid (t, d, v))"
  by (auto simp: release_object_def intro!: keeps_bind keeps_then keeps_in_store)

lemma remove_forest:
  assumes run: "remove_case_items env (CaseId k) ks force a = (r, a')" and "all_forests (view a)"
    and depth: "\<And>c. view a k = Some c \<Longrightarrow> length (cs_items c) \<le> ce_depth env"
  shows "all_forests (view a')"
proof -
  obtain q b where q: "resolve_case env (CaseId k) a = (q, b)" by (cases "resolve_case env (CaseId k) a")
  from resolve_id [OF q] assms(2) have b: "all_forests (view b)" "\<And>c. q = Inr c \<Longrightarrow> forest_ok (cs_items c) \<and> view a k = Some c"
    by (auto simp: all_forests_def)
  show ?thesis
  proof (cases q)
    case (Inl e)
    with run q b show ?thesis by (simp add: remove_case_items_def)
  next
    case (Inr c)
    show ?thesis
    proof (cases "ids_to_remove (ce_depth env) c ks force")
      case (Inl e)
      with run q b \<open>q = Inr c\<close> show ?thesis by (simp add: remove_case_items_def)
    next
      case (Inr ids)
      define c1 where "c1 = c\<lparr>cs_items := without_items ids (cs_items c)\<rparr>"
      have c1: "forest_ok (cs_items c1)"
        by (rule remove_keeps [of c "ce_depth env" "(ks, force)"])
           (use b(2) depth \<open>q = Inr c\<close> Inr in \<open>auto simp: remove_items_def c1_def\<close>)
      from run q \<open>q = Inr c\<close> Inr have "bindM (mapM_io (backing_object env c) (remdups ids)) (\<lambda>bss.
          thenM (forM_io (concat bss) (release_object env (cs_id c)))
            (bindM (recompute_case_metadata env c1) (\<lambda>c''. save_and_emit env c'' ''Failed to save case after item removal''))) b = (r, a')"
        by (simp add: remove_case_items_def c1_def bindM_returnM)
      from this keeps_mapM [OF backing_object_keeps] b(1) show ?thesis
      proof (rule after_keeping)
        fix bss b1
        assume bss: "mapM_io (backing_object env c) (remdups ids) b = (Inr bss, b1)" and b1: "all_forests (view b1)"
          and run: "thenM (forM_io (concat bss) (release_object env (cs_id c)))
            (bindM (recompute_case_metadata env c1) (\<lambda>c''. save_and_emit env c'' ''Failed to save case after item removal'')) b1 = (r, a')"
        have "keeps view (forM_io (concat bss) (release_object env (cs_id c)))"
        proof (rule keeps_forM)
          fix x assume x: "x \<in> set (concat bss)"
          obtain t d v where "x = (t, d, v)" by (cases x)
          with release_keeps backing_objects_given [OF bss] x show "keeps view (release_object env (cs_id c) x)" by blast
        qed
        from run [unfolded thenM_def] this b1 show "all_forests (view a')"
        proof (rule after_keeping)
          fix u b2
          assume b2: "all_forests (view b2)"
            and "bindM (recompute_case_metadata env c1) (\<lambda>c''. save_and_emit env c'' ''Failed to save case after item removal'') b2 = (r, a')"
          from recompute_save_forest [OF this(2) b2 c1] show "all_forests (view a')" .
        qed
      qed
    qed
  qed
qed

end

section \<open>Requests\<close>

datatype item_request =
    AppendRequest case_item
  | MoveRequest string "string option"
  | RenameRequest string string
  | RemoveRequest "string list" bool

definition run_request :: "'w case_env \<Rightarrow> string \<Rightarrow> item_request \<Rightarrow> ('w case_world, case_rec) io" where
  "run_request env k rq =
     (case rq of
        AppendRequest i \<Rightarrow> append_case_item env (CaseId k) (GivenItem i)
      | MoveRequest i p \<Rightarrow> move_case_item env (CaseId k) i p
      | RenameRequest i n \<Rightarrow> rename_case_item env k i n
      | RemoveRequest ks force \<Rightarrow> remove_case_items env (CaseId k) ks force)"

text \<open>
  An item to append was built by its constructor and has a new id; the interpreter's stack is as deep as
  the case has items.
\<close>

definition request_ok :: "'w case_env \<Rightarrow> item_request \<Rightarrow> case_rec \<Rightarrow> bool" where
  "request_ok env rq c \<longleftrightarrow>
     length (cs_items c) \<le> ce_depth env \<and>
     (case rq of AppendRequest i \<Rightarrow> built_item i \<and> ci_id i \<notin> set (map ci_id (cs_items c)) | _ \<Rightarrow> True)"


section \<open>A store with three shelves\<close>

text \<open>
  The smallest client that keeps the documents of each index apart and answers a conditional write the way
  Elasticsearch documents it.
\<close>

type_synonym shelves = "string \<Rightarrow> string \<Rightarrow> es_hit option"

definition put_on_shelf :: "string \<Rightarrow> string \<Rightarrow> doc \<Rightarrow> shelves \<Rightarrow> shelves" where
  "put_on_shelf i k d w =
     w(i := (w i)(k \<mapsto> \<lparr>eh_index = i, eh_seq_no = (case w i k of None \<Rightarrow> 0 | Some h \<Rightarrow> Suc (eh_seq_no h)),
                          eh_primary_term = 1, eh_source = d\<rparr>))"

definition shelf_client :: "shelves es_client" where
  "shelf_client =
     \<lparr>es_get = (\<lambda>i k w. (case w i k of None \<Rightarrow> Inl (EsNotFound False ''missing'') | Some h \<Rightarrow> Inr h, w)),
      es_search_ids = (\<lambda>i k w. (Inr (case w i k of None \<Rightarrow> [] | Some h \<Rightarrow> [h]), w)),
      es_exists = (\<lambda>i k w. (Inr (w i k \<noteq> None), w)),
      es_update = (\<lambda>i k s sn pt w. (Inl (EsBadRequest ''scripts are not served''), w)),
      es_index = (\<lambda>i k d opr sn pt w.
        if opr = ''create'' \<and> w i k \<noteq> None then (Inl (EsConflict ''document already exists''), w)
        else if sn \<noteq> None \<and> (case w i k of None \<Rightarrow> True | Some h \<Rightarrow> \<not> condition_holds h sn pt)
        then (Inl (EsConflict ''version conflict''), w)
        else (Inr (), put_on_shelf i k d w)),
      es_delete = (\<lambda>i k w. (if w i k = None then Inl (EsNotFound False ''missing'') else Inr ''deleted'', w(i := (w i)(k := None)))),
      es_refresh = (\<lambda>i w. (Inr (), w)),
      es_clear_cache = (\<lambda>i w. (Inr (), w)),
      es_recover = (\<lambda>r w. w)\<rparr>"

definition shelf_collection :: "string \<Rightarrow> shelves collection" where
  "shelf_collection n =
     \<lparr>co_client = shelf_client, co_name = n, co_max_attempts = 10, co_ilm = False, co_fields = None,
      co_check = (\<lambda>f v. Inr v), co_build = (\<lambda>d. Inr d)\<rparr>"

definition shelf_env :: "odm_ext \<Rightarrow> nat \<Rightarrow> shelves case_env" where
  "shelf_env E depth =
     \<lparr>ce_cases = shelf_collection ''howler-case'', ce_hits = shelf_collection ''howler-hit'',
      ce_events = shelf_collection ''howler-observable'', ce_ext = E, ce_unrestricted = ''TLP:W'',
      ce_show_date = (\<lambda>s. s), ce_depth = depth, ce_accessible = (\<lambda>u k. Inr True),
      ce_search_items = (\<lambda>ids. returnM []), ce_delete_query = (\<lambda>ids. returnM True)\<rparr>"

definition shelf_cases :: "shelves \<Rightarrow> string \<Rightarrow> case_rec option" where
  "shelf_cases w k = map_option (\<lambda>h. load_case (eh_source h)) (w ''howler-case'' k)"

lemma shelf_simps [simp]:
  "co_client (shelf_collection n) = shelf_client" "co_name (shelf_collection n) = n"
  "co_ilm (shelf_collection n) = False" "co_max_attempts (shelf_collection n) = 10"
  "co_fields (shelf_collection n) = None"
  "ce_cases (shelf_env E dp) = shelf_collection ''howler-case''" "ce_depth (shelf_env E dp) = dp"
  "backing_collection (shelf_env E dp) t =
     shelf_collection (if t = CI_HIT then ''howler-hit'' else ''howler-observable'')"
  by (simp_all add: shelf_collection_def shelf_env_def backing_collection_def)

lemma shelf_get_once: "get_once (shelf_collection n) k w = (Inr (w n k), w)"
  by (cases "w n k")
     (simp_all add: get_once_def shelf_client_def with_retries_ok [where x = h for h]
        with_retries_give_up retry_decision_def)

lemma shelf_get:
  "coll_get (shelf_collection n) k True w =
     (Inr (case w n k of
        None \<Rightarrow> (None, CREATE_TOKEN)
      | Some h \<Rightarrow> (Some (\<lambda>j. if j \<in> set BANNED_FIELDS then None else ((eh_source h)(''id'' := None)) j),
                   token (shelf_collection n) (eh_index h) (eh_seq_no h) (eh_primary_term h))), w)"
  by (cases "w n k")
     (simp_all add: coll_get_def RETRY_NORMAL_def get_versioned.simps shelf_get_once normalize_def bindM_def)

lemma shelf_write:
  assumes "with_retries (shelf_collection n) True (es_index shelf_client i k d opr sn pt) w = (r, w')"
  shows "w' = w \<or> w' = put_on_shelf i k d w"
proof -
  obtain q v where q: "es_index shelf_client i k d opr sn pt w = (q, v)" by (cases "es_index shelf_client i k d opr sn pt w")
  show ?thesis
  proof (cases q)
    case (Inl e)
    from q Inl have ve: "v = w" "\<exists>m. e = EsConflict m" by (auto simp: shelf_client_def split: if_splits)
    with Inl with_retries_give_up [where f = "es_index shelf_client i k d opr sn pt" and w = w and rc = True and c = "shelf_collection n"] q assms show ?thesis by (auto simp: retry_decision_def)
  next
    case (Inr x)
    from q Inr have "v = put_on_shelf i k d w" by (auto simp: shelf_client_def split: if_splits)
    with Inr with_retries_ok [where f = "es_index shelf_client i k d opr sn pt" and w = w and rc = True and c = "shelf_collection n"] q assms show ?thesis by simp
  qed
qed

lemma shelf_save:
  assumes "coll_save (shelf_collection n) k d v w = (r, w')"
    and "v = None \<or> v = Some CREATE_TOKEN \<or> (\<exists>i s t. v = Some (token (shelf_collection n) i s t))"
  shows "w' = w \<or> w' = put_on_shelf n k (d(''id'' \<mapsto> PStr k)) w"
proof -
  have "save_target (shelf_collection n) (Some (token (shelf_collection n) i s t)) =
      (if token (shelf_collection n) i s t = CREATE_TOKEN then Inr (''create'', n, None, None)
       else Inr (''index'', n, Some (str_nat s), Some (str_nat t)))" for i s t
    by (simp add: save_target_def write_target_token)
  with assms(2) have "\<exists>opr sn pt. save_target (shelf_collection n) v = Inr (opr, n, sn, pt)"
    by (elim disjE exE) (simp_all add: save_target_def truthy_text_def write_target_def)
  then obtain opr sn pt where tgt: "save_target (shelf_collection n) v = Inr (opr, n, sn, pt)" by blast
  obtain q u where q: "with_retries (shelf_collection n) True
      (es_index shelf_client n k (d(''id'' \<mapsto> PStr k)) opr sn pt) w = (q, u)"
    by (cases "with_retries (shelf_collection n) True (es_index shelf_client n k (d(''id'' \<mapsto> PStr k)) opr sn pt) w")
  have "w' = w \<or> w' = u"
    using assms(1) by (auto simp: coll_save_def default_version_def tgt q bindM_def
      split: if_splits sum.splits call_exc.splits es_exc.splits)
  with shelf_write [OF q] show ?thesis by blast
qed

lemma shelf_given:
  assumes "given_version (shelf_env E dp) t v"
  shows "v = CREATE_TOKEN \<or> (\<exists>i s u. v = token (shelf_collection (if t = CI_HIT then ''howler-hit'' else ''howler-observable'')) i s u)"
proof -
  let ?c = "shelf_collection (if t = CI_HIT then ''howler-hit'' else ''howler-observable'')"
  from assms obtain k w b w' where run: "coll_get ?c k True w = (Inr (b, v), w')"
    by (auto simp: given_version_def)
  show ?thesis
  proof (cases "w (if t = CI_HIT then ''howler-hit'' else ''howler-observable'') k")
    case None
    with run show ?thesis by (simp add: shelf_get)
  next
    case (Some h)
    with run have "v = token ?c (eh_index h) (eh_seq_no h) (eh_primary_term h)" by (simp add: shelf_get)
    then show ?thesis by blast
  qed
qed

lemma put_other: "i \<noteq> j \<Longrightarrow> put_on_shelf i k d w j = w j"
  by (simp add: put_on_shelf_def)

lemma load_case_reserved:
  "load_case (\<lambda>j. if j \<in> set BANNED_FIELDS then None else (d(''id'' := None)) j) = load_case d"
  "load_case (d(''id'' \<mapsto> x)) = load_case d"
  by (simp_all add: load_case_def BANNED_FIELDS_def)

lemma shelf_laws: "repository_laws (shelf_env E dp) shelf_cases"
  unfolding repository_laws_def
proof (intro conjI allI impI)
  fix c w r w'
  assume "coll_save (ce_cases (shelf_env E dp)) (cs_id c) (dump_case c) None w = (r, w')"
  then have "w' = w \<or> w' = put_on_shelf ''howler-case'' (cs_id c) ((dump_case c)(''id'' \<mapsto> PStr (cs_id c))) w"
    using shelf_save [where v = None] by simp
  then show "shelf_cases w' = shelf_cases w \<or> shelf_cases w' = (shelf_cases w)(cs_id c \<mapsto> c)"
    by (auto simp: shelf_cases_def put_on_shelf_def load_case_reserved fun_eq_iff)
next
  fix t k d v w r w'
  assume given: "given_version (shelf_env E dp) t v"
    and save: "coll_save (backing_collection (shelf_env E dp) t) k d (Some v) w = (r, w')"
  from shelf_save [OF save [simplified]] shelf_given [OF given]
  have "w' ''howler-case'' = w ''howler-case''" by (auto simp: put_other)
  then show "shelf_cases w' = shelf_cases w" by (simp add: shelf_cases_def fun_eq_iff)
qed (auto simp: shelf_get shelf_cases_def load_case_reserved split: option.splits)

interpretation shelf: case_repository "shelf_env E dp" shelf_cases for E dp
  by unfold_locales (rule shelf_laws)

section \<open>An instance\<close>

definition sample_case :: case_rec where
  "sample_case = empty_case\<lparr>cs_items := sample_items\<rparr>"

definition shelf_world :: "shelves case_world" where
  "shelf_world =
     \<lparr>cw_store = put_on_shelf ''howler-case'' ''c1'' (dump_case sample_case) (\<lambda>i k. None), cw_events = [], cw_drawn = 0\<rparr>"

lemma shelf_world_cases: "shelf_cases (cw_store shelf_world) = [''c1'' \<mapsto> sample_case]"
  by (simp add: shelf_world_def shelf_cases_def put_on_shelf_def fun_eq_iff)


end
