(* ===== verification/Bulk.thy ===== *)
theory Bulk
  imports Json DictUtils OdmCheck Datastore Classification
begin

text \<open>
  Bulk requests: \<^verbatim>\<open>datastore/bulk.py\<close> (\<^verbatim>\<open>ElasticBulkPlan\<close>), the helpers of \<^verbatim>\<open>datastore/utils.py\<close> that
  narrow an update to some fields, and \<^verbatim>\<open>ESCollection.bulk\<close>. An operation is queued as the one or two lines
  of JSON the code makes of it; documents go through the object-document mapper. The endpoint for bulk
  requests is a parameter that answers whether there were errors. The warning about the size of a request
  changes no result.
\<close>

section \<open>Narrowing a document to some fields\<close>

text \<open>
  \<^verbatim>\<open>expand_field_patterns\<close>: a star stands for any characters but a line break. Patterns hold no
  backslash, so escaping them and putting the stars back does not mix. The set is listed in the order its
  elements are added.
\<close>

definition any_char :: rx where
  "any_char = RxRange [(CHR 0x00, CHR 0x09), (CHR 0x0B, CHR 0xFF)]"

fun glob_rx :: "string \<Rightarrow> rx" where
  "glob_rx [] = RxEmpty"
| "glob_rx (c # s) = RxSeq (if c = CHR ''*'' then RxMany any_char else rx_char c) (glob_rx s)"

definition expand_pattern :: "string list \<Rightarrow> bool \<Rightarrow> string \<Rightarrow> string list" where
  "expand_pattern known_paths preserve_all p =
     (if CHR ''*'' \<notin> set p then [p]
      else if p = ''*'' \<and> preserve_all then [p]
      else filter (rx_match (glob_rx p)) known_paths)"

definition expand_field_patterns :: "odm_model option \<Rightarrow> string list \<Rightarrow> bool \<Rightarrow> string list" where
  "expand_field_patterns m patterns preserve_all =
     (case m of
        None \<Rightarrow> remdups patterns
      | Some m \<Rightarrow> remdups (concat (map (expand_pattern (dkeys (flat_fields False m)) preserve_all) patterns)))"

text \<open>\<^verbatim>\<open>prune_to_paths\<close>: \<^verbatim>\<open>under\<close> joins a prefix and a key.\<close>

fun prune_value :: "string list \<Rightarrow> string \<Rightarrow> py \<Rightarrow> py"
and prune_entries :: "string list \<Rightarrow> string \<Rightarrow> (string \<times> py) list \<Rightarrow> (string, py) dict" where
  "prune_value allowed prefix (PDict d) = PDict (prune_entries allowed prefix d)"
| "prune_value allowed prefix (PList xs) = PList (map (prune_value allowed prefix) xs)"
| "prune_value allowed prefix v = v"
| "prune_entries allowed prefix [] = []"
| "prune_entries allowed prefix ((k, v) # xs) =
     (let cur = under prefix k in
      (if cur \<in> set allowed then [(k, v)]
       else if list_ex (\<lambda>p. py_startswith p (cur @ ''.'')) allowed then [(k, prune_value allowed cur v)]
       else []) @ prune_entries allowed prefix xs)"

definition prune_to_paths :: "(string, py) dict \<Rightarrow> string list \<Rightarrow> (string, py) dict" where
  "prune_to_paths d allowed = prune_entries allowed [] d"

section \<open>Documents\<close>

text \<open>
  \<^verbatim>\<open>as_primitives(hidden_fields=True)\<close>: after a classification come the parts a query of the search engine
  uses; nulls are stripped.
\<close>

definition lvl_py :: "lvl_val \<Rightarrow> py" where
  "lvl_py l = (case l of LvlNum i \<Rightarrow> PInt i | LvlText s \<Rightarrow> PStr s)"

definition access_entries :: "access_parts \<Rightarrow> (string, py) dict" where
  "access_entries a =
     [(''__access_lvl__'', lvl_py (ap_lvl a)), (''__access_req__'', PList (map PStr (ap_req a))),
      (''__access_grp1__'', PList (map PStr (ap_grp1 a))), (''__access_grp2__'', PList (map PStr (ap_grp2 a)))]"

definition is_user_class :: "field \<Rightarrow> bool" where
  "is_user_class f \<longleftrightarrow> (case field_kind (unwrap f) of KClassification is_uc \<Rightarrow> is_uc | _ \<Rightarrow> False)"

definition hidden_entry ::
    "engine \<Rightarrow> odm_model \<Rightarrow> (string, py) dict \<Rightarrow> string \<times> oval \<Rightarrow> (string, py) dict result" where
  "hidden_entry e m out kv =
     (let f = (case map_of m (fst kv) of Some f \<Rightarrow> f | None \<Rightarrow> plain KAny) in
      if drops_null True f (snd kv) then Inr out
      else
        let out = dset out (fst kv) (as_primitive True f (snd kv)) in
        case snd kv of
          OClass c \<Rightarrow> bindR (get_access_control_parts e c (is_user_class f)) (\<lambda>a. Inr (dict_update out (access_entries a)))
        | _ \<Rightarrow> Inr out)"

definition hidden_primitives :: "engine \<Rightarrow> odm_model \<Rightarrow> (string \<times> oval) list \<Rightarrow> (string, py) dict result" where
  "hidden_primitives e m ob = foldR (hidden_entry e m) [] ob"

text \<open>
  \<^verbatim>\<open>Model(data, mask=keys)\<close>: of a model only the fields the mask names are built. A dotted entry masks the
  compound it leads into; the code appends it to the list of that child, which a plain entry has set to
  None.
\<close>

fun mask_map :: "(string, string list option) dict \<Rightarrow> string list \<Rightarrow> (string, string list option) dict result" where
  "mask_map mm [] = Inr mm"
| "mask_map mm (entry # es) =
     (case split_dot entry of
        None \<Rightarrow> mask_map (dset mm entry None) es
      | Some (child, sub) \<Rightarrow>
          (case dget mm child of
             None \<Rightarrow> mask_map (dset mm child (Some [sub])) es
           | Some (Some subs) \<Rightarrow> mask_map (dset mm child (Some (subs @ [sub]))) es
           | Some None \<Rightarrow> Inl (Exn EAttributeError ''NoneType object has no attribute append'')))"

text \<open>
  A mask narrows the compounds below lists and optionals; a mapping does not pass it on. The masks of
  compounds are split before the fields are checked.
\<close>

fun mask_field :: "string list \<Rightarrow> field \<Rightarrow> field result"
and mask_fields :: "(string, string list option) dict \<Rightarrow> (string \<times> field) list \<Rightarrow> (string \<times> field) list result" where
  "mask_field ms (Field k d s opt) =
     (case k of
        KList c \<Rightarrow> bindR (mask_field ms c) (\<lambda>c'. Inr (Field (KList c') d s opt))
      | KOptional c \<Rightarrow> bindR (mask_field ms c) (\<lambda>c'. Inr (Field (KOptional c') d s opt))
      | KCompound fs \<Rightarrow>
          bindR (mask_map [] ms) (\<lambda>mm. bindR (mask_fields mm fs) (\<lambda>fs'. Inr (Field (KCompound fs') d s opt)))
      | _ \<Rightarrow> Inr (Field k d s opt))"
| "mask_fields mm [] = Inr []"
| "mask_fields mm ((name, f) # fs) =
     (case dget mm name of
        None \<Rightarrow> mask_fields mm fs
      | Some None \<Rightarrow> bindR (mask_fields mm fs) (\<lambda>r. Inr ((name, f) # r))
      | Some (Some subs) \<Rightarrow> bindR (mask_field subs f) (\<lambda>f'. bindR (mask_fields mm fs) (\<lambda>r. Inr ((name, f') # r))))"

definition masked_model :: "string list \<Rightarrow> odm_model \<Rightarrow> odm_model result" where
  "masked_model ms m = bindR (mask_map [] ms) (\<lambda>mm. mask_fields mm m)"

section \<open>Operations\<close>

text \<open>
  One operation, with the index and the id it is for. \<^verbatim>\<open>op_lines\<close> is the tuple of JSON texts that is queued
  for it.
\<close>

datatype bulk_op =
    BulkDelete string string
  | BulkCreate string string "(string, py) dict"
  | BulkIndex string string "(string, py) dict"
  | BulkUpsert string string "(string, py) dict"
  | BulkUpdate string string "(string, py) dict"

definition action_line :: "string \<Rightarrow> string \<Rightarrow> string \<Rightarrow> string" where
  "action_line action i k = json_dumps (PDict [(action, PDict [(''_index'', PStr i), (''_id'', PStr k)])])"

fun op_lines :: "bulk_op \<Rightarrow> string list" where
  "op_lines (BulkDelete i k) = [action_line ''delete'' i k]"
| "op_lines (BulkCreate i k d) = [action_line ''create'' i k, json_dumps (PDict d)]"
| "op_lines (BulkIndex i k d) = [action_line ''index'' i k, json_dumps (PDict d)]"
| "op_lines (BulkUpsert i k d) =
     [action_line ''update'' i k, json_dumps (PDict [(''doc'', PDict d), (''doc_as_upsert'', PBool True)])]"
| "op_lines (BulkUpdate i k d) = [action_line ''update'' i k, json_dumps (PDict [(''doc'', PDict d)])]"

record bulk_plan =
  bp_indexes :: "string list"
  bp_model :: "odm_model option"
  bp_operations :: "bulk_op list"

definition ElasticBulkPlan :: "string list \<Rightarrow> odm_model option \<Rightarrow> bulk_plan" where
  "ElasticBulkPlan indexes m = \<lparr>bp_indexes = indexes, bp_model = m, bp_operations = []\<rparr>"

definition plan_empty :: "bulk_plan \<Rightarrow> bool" where
  "plan_empty p \<longleftrightarrow> length (bp_operations p) = 0"

text \<open>A document to queue: an object of the plan's model, or data.\<close>

datatype bulk_doc = ModelDoc "(string \<times> oval) list" | RawDoc py

definition raw_entries :: "py \<Rightarrow> (string, py) dict" where
  "raw_entries v = (case v of PDict d \<Rightarrow> d | _ \<Rightarrow> [(''__non_doc_raw__'', v)])"

text \<open>The primitives of a document; data for a model go through its constructor.\<close>

definition saved_doc :: "odm_ext \<Rightarrow> engine \<Rightarrow> bulk_plan \<Rightarrow> bulk_doc \<Rightarrow> (nat, (string, py) dict) io" where
  "saved_doc E e p doc =
     (case (bp_model p, doc) of
        (Some m, ModelDoc ob) \<Rightarrow> liftM (hidden_primitives e m ob)
      | (Some m, RawDoc v) \<Rightarrow> bindM (model_init E True m v) (\<lambda>ob. liftM (hidden_primitives e m ob))
      | (None, RawDoc v) \<Rightarrow> returnM (raw_entries v)
      | (None, ModelDoc ob) \<Rightarrow> raiseM (Exn ETypeError ''Object is not JSON serializable''))"

definition doc_keys :: "py \<Rightarrow> string list result" where
  "doc_keys v = (case v of PDict d \<Rightarrow> Inr (dkeys d) | _ \<Rightarrow> Inl (Exn EAttributeError ''object has no attribute keys''))"

definition saved_update :: "odm_ext \<Rightarrow> engine \<Rightarrow> bulk_plan \<Rightarrow> bulk_doc \<Rightarrow> (nat, (string, py) dict) io" where
  "saved_update E e p doc =
     (case (bp_model p, doc) of
        (Some m, RawDoc v) \<Rightarrow>
          bindM (liftM (bindR (doc_keys v) (\<lambda>ms. masked_model ms m))) (\<lambda>m'.
          bindM (model_init E True m' v) (\<lambda>ob. liftM (hidden_primitives e m ob)))
      | _ \<Rightarrow> saved_doc E e p doc)"

text \<open>\<^verbatim>\<open>index or self.indexes[0]\<close>, and every index when none is given.\<close>

definition first_index :: "bulk_plan \<Rightarrow> string option \<Rightarrow> string result" where
  "first_index p index =
     (if truthy_text index then Inr (the index)
      else case bp_indexes p of [] \<Rightarrow> Inl (Exn EIndexError ''list index out of range'') | i # is \<Rightarrow> Inr i)"

definition target_indexes :: "bulk_plan \<Rightarrow> string option \<Rightarrow> string list" where
  "target_indexes p index = (if truthy_text index then [the index] else bp_indexes p)"

definition queue :: "bulk_op list \<Rightarrow> bulk_plan \<Rightarrow> bulk_plan" where
  "queue ops p = p\<lparr>bp_operations := bp_operations p @ ops\<rparr>"

definition add_delete_operation :: "string \<Rightarrow> string option \<Rightarrow> bulk_plan \<Rightarrow> bulk_plan" where
  "add_delete_operation k index p = queue (map (\<lambda>i. BulkDelete i k) (target_indexes p index)) p"

text \<open>Insert, index and upsert differ in the action only.\<close>

definition add_whole ::
    "(string \<Rightarrow> string \<Rightarrow> (string, py) dict \<Rightarrow> bulk_op) \<Rightarrow> odm_ext \<Rightarrow> engine \<Rightarrow> string \<Rightarrow> bulk_doc \<Rightarrow> string option \<Rightarrow>
     bulk_plan \<Rightarrow> (nat, bulk_plan) io" where
  "add_whole mk E e k doc index p =
     bindM (saved_doc E e p doc) (\<lambda>d.
     bindM (liftM (first_index p index)) (\<lambda>i. returnM (queue [mk i k (dset d ''id'' (PStr k))] p)))"

definition add_insert_operation ::
    "odm_ext \<Rightarrow> engine \<Rightarrow> string \<Rightarrow> bulk_doc \<Rightarrow> string option \<Rightarrow> bulk_plan \<Rightarrow> (nat, bulk_plan) io" where
  "add_insert_operation = add_whole BulkCreate"

definition add_index_operation ::
    "odm_ext \<Rightarrow> engine \<Rightarrow> string \<Rightarrow> bulk_doc \<Rightarrow> string option \<Rightarrow> bulk_plan \<Rightarrow> (nat, bulk_plan) io" where
  "add_index_operation = add_whole BulkIndex"

definition add_upsert_operation ::
    "odm_ext \<Rightarrow> engine \<Rightarrow> string \<Rightarrow> bulk_doc \<Rightarrow> string option \<Rightarrow> bulk_plan \<Rightarrow> (nat, bulk_plan) io" where
  "add_upsert_operation = add_whole BulkUpsert"

definition queue_update :: "string \<Rightarrow> string option \<Rightarrow> (string, py) dict \<Rightarrow> bulk_plan \<Rightarrow> bulk_plan" where
  "queue_update k index d p = queue (map (\<lambda>i. BulkUpdate i k d) (target_indexes p index)) p"

definition add_update_operation ::
    "odm_ext \<Rightarrow> engine \<Rightarrow> string \<Rightarrow> bulk_doc \<Rightarrow> string option \<Rightarrow> string list option \<Rightarrow> bulk_plan \<Rightarrow> (nat, bulk_plan) io" where
  "add_update_operation E e k doc index only p =
     bindM (saved_update E e p doc) (\<lambda>d.
     let d' = (case only of None \<Rightarrow> d | Some fs \<Rightarrow> prune_to_paths d (expand_field_patterns (bp_model p) fs False))
     in returnM (queue_update k index d' p))"

section \<open>Payloads\<close>

definition flatten_operations :: "bulk_plan \<Rightarrow> bulk_op list \<Rightarrow> string list" where
  "flatten_operations p batch = concat (map op_lines (if batch = [] then bp_operations p else batch))"

definition get_plan_for_operations :: "bulk_plan \<Rightarrow> bulk_op list \<Rightarrow> string" where
  "get_plan_for_operations p batch = py_join [CHR 0x0A] (flatten_operations p batch) @ [CHR 0x0A]"

definition get_plan_data :: "bulk_plan \<Rightarrow> string" where
  "get_plan_data p = get_plan_for_operations p []"

text \<open>\<^verbatim>\<open>range(0, n, size)\<close> refuses a size of zero, also the one an empty plan has.\<close>

function chunks :: "nat \<Rightarrow> 'a list \<Rightarrow> 'a list list" where
  "chunks n xs = (if n = 0 \<or> xs = [] then [] else take n xs # chunks n (drop n xs))"
  by auto
termination by (relation "measure (\<lambda>(n, xs). length xs)") auto

declare chunks.simps [simp del]

definition plan_batches :: "int option \<Rightarrow> bulk_plan \<Rightarrow> bulk_op list list result" where
  "plan_batches batch_size p =
     (let size = (case batch_size of None \<Rightarrow> int (length (bp_operations p)) | Some n \<Rightarrow> n) in
      if size = 0 then Inl (Exn EValueError ''range() arg 3 must not be zero'')
      else if size < 0 then Inr []
      else Inr (chunks (nat size) (bp_operations p)))"

definition get_plan_batches :: "int option \<Rightarrow> bulk_plan \<Rightarrow> string list result" where
  "get_plan_batches batch_size p =
     bindR (plan_batches batch_size p) (\<lambda>bs. Inr (map (get_plan_for_operations p) bs))"

section \<open>Sending\<close>

text \<open>
  \<^verbatim>\<open>ESCollection.bulk\<close>: every batch is sent, with retries, and the answers are looked at in the end. The
  endpoint is given the operations of a batch, whose payload \<^verbatim>\<open>get_plan_for_operations\<close> is, and answers
  whether there were errors.
\<close>

type_synonym 'w bulk_endpoint = "bulk_op list \<Rightarrow> ('w, bool) es_call"

definition bulk_call :: "'w collection \<Rightarrow> 'w bulk_endpoint \<Rightarrow> bulk_op list \<Rightarrow> ('w, bool) io" where
  "bulk_call c send batch = (\<lambda>w.
     case with_retries c False (send batch) w of
       (Inl ce, w') \<Rightarrow> (Inl (call_exn ce), w')
     | (Inr errors, w') \<Rightarrow> (Inr errors, w'))"

definition coll_bulk :: "int \<Rightarrow> 'w collection \<Rightarrow> 'w bulk_endpoint \<Rightarrow> bulk_plan \<Rightarrow> ('w, bool) io" where
  "coll_bulk batch_size c send p =
     bindM (liftM (plan_batches (Some batch_size) p)) (\<lambda>bs.
     bindM (mapM_io (bulk_call c send) bs) (\<lambda>errors. returnM (\<not> list_ex id errors)))"

section \<open>The payload holds the operations\<close>

fun op_one_line :: "bulk_op \<Rightarrow> bool" where
  "op_one_line (BulkDelete i k) = True"
| "op_one_line (BulkCreate i k d) = one_line (PDict d)"
| "op_one_line (BulkIndex i k d) = one_line (PDict d)"
| "op_one_line (BulkUpsert i k d) = one_line (PDict d)"
| "op_one_line (BulkUpdate i k d) = one_line (PDict d)"

lemma op_lines_nonempty [simp]: "op_lines x \<noteq> []"
  by (cases x) simp_all

lemma op_lines_no_newline: "op_one_line x \<Longrightarrow> l \<in> set (op_lines x) \<Longrightarrow> CHR 0x0A \<notin> set l"
  by (cases x) (auto simp: action_line_def json_dumps_no_newline simp del: json_dumps.simps)

text \<open>
  A bulk payload has one line per queued text. Whatever was queued, splitting the payload of a plan that
  is not empty at line breaks gives the action and document lines of its operations, in order, and the empty
  rest after the final line break: no document can break out of its line.
\<close>

lemma payload_lines:
  assumes "\<not> plan_empty p" and "list_all op_one_line (bp_operations p)"
  shows "split_char CHR 0x0A (get_plan_data p) = concat (map op_lines (bp_operations p)) @ [[]]"
proof -
  define ls where "ls = concat (map op_lines (bp_operations p))"
  from assms(1) have ops: "bp_operations p \<noteq> []" by (simp add: plan_empty_def)
  then have ls: "ls \<noteq> []" by (cases "bp_operations p") (auto simp: ls_def)
  have "\<forall>l\<in>set (ls @ [[]]). CHR 0x0A \<notin> set l"
    using assms(2) op_lines_no_newline by (auto simp: ls_def list_all_iff)
  then have "split_char CHR 0x0A (py_join [CHR 0x0A] (ls @ [[]])) = ls @ [[]]" by (intro split_char_join) simp_all
  moreover have "py_join sep (xs @ [[]]) = py_join sep xs @ sep" if "xs \<noteq> []" for sep :: string and xs
    using that by (induction sep xs rule: py_join.induct) auto
  ultimately show ?thesis using ls by (simp add: get_plan_data_def get_plan_for_operations_def flatten_operations_def ls_def)
qed

section \<open>Batches cover the plan\<close>

lemma concat_chunks: "0 < n \<Longrightarrow> concat (chunks n xs) = xs"
proof (induction n xs rule: chunks.induct)
  case (1 n xs)
  then show ?case by (subst chunks.simps) (cases "xs = []", auto)
qed

lemma chunks_bound: "b \<in> set (chunks n xs) \<Longrightarrow> b \<noteq> [] \<and> length b \<le> n"
proof (induction n xs rule: chunks.induct)
  case (1 n xs)
  show ?case
  proof (cases "n = 0 \<or> xs = []")
    case True
    with 1(2) show ?thesis by (subst (asm) chunks.simps) (simp only: if_True list.set empty_iff)
  next
    case False
    with 1(2) have "b = take n xs \<or> b \<in> set (chunks n (drop n xs))"
      by (subst (asm) chunks.simps) auto
    with 1(1) False show ?thesis by auto
  qed
qed

lemma join_concat:
  fixes lss :: "string list list"
  assumes "[] \<notin> set lss" and "lss \<noteq> []"
  shows "concat (map (\<lambda>ls. py_join sep ls @ sep) lss) = py_join sep (concat lss) @ sep"
proof -
  have two: "py_join sep (xs @ ys) = py_join sep xs @ sep @ py_join sep ys" if "xs \<noteq> []" "ys \<noteq> []" for xs ys
    using that by (induction sep xs rule: py_join.induct) (auto simp: py_join_Cons)
  show ?thesis
    using assms
  proof (induction lss rule: induct_list012)
    case (3 x y zs)
    then have "x \<noteq> []" "concat (y # zs) \<noteq> []" by auto
    with two 3 show ?case by simp
  qed simp_all
qed

text \<open>
  Sending a plan in batches sends the plan. For a positive batch size, the batches hold the operations of
  the plan in order, each batch at least one and at most the batch size, and the payloads of the batches one
  after the other are the payload of the whole plan.
\<close>

lemma batches_cover:
  assumes "0 < n" and "\<not> plan_empty p"
  shows "\<exists>bs. plan_batches (Some n) p = Inr bs \<and> concat bs = bp_operations p \<and>
     length ` set bs \<subseteq> {1..nat n} \<and>
     get_plan_batches (Some n) p = Inr (map (get_plan_for_operations p) bs) \<and>
     concat (map (get_plan_for_operations p) bs) = get_plan_data p"
proof -
  define bs where "bs = chunks (nat n) (bp_operations p)"
  have run: "plan_batches (Some n) p = Inr bs" using assms(1) by (simp add: plan_batches_def bs_def)
  have cover: "concat bs = bp_operations p" using assms(1) by (simp add: bs_def concat_chunks)
  have bound: "b \<noteq> [] \<and> length b \<le> nat n" if "b \<in> set bs" for b
    using chunks_bound that by (simp add: bs_def)
  have "bs \<noteq> []" using cover assms(2) by (auto simp: plan_empty_def)
  define lss where "lss = map (\<lambda>b. concat (map op_lines b)) bs"
  have payload: "map (get_plan_for_operations p) bs = map (\<lambda>ls. py_join [CHR 0x0A] ls @ [CHR 0x0A]) lss"
    using bound by (simp add: get_plan_for_operations_def flatten_operations_def lss_def)
  have "[] \<notin> set lss" using bound by (auto simp: lss_def)
  moreover have "lss \<noteq> []" using \<open>bs \<noteq> []\<close> by (simp add: lss_def)
  moreover have "concat lss = concat (map op_lines (concat bs))" unfolding lss_def by (induction bs) simp_all
  ultimately have "concat (map (get_plan_for_operations p) bs) = get_plan_data p"
    unfolding payload by (simp add: join_concat cover get_plan_data_def get_plan_for_operations_def flatten_operations_def)
  moreover have "length ` set bs \<subseteq> {1..nat n}" using bound by (auto simp: Suc_le_eq)
  moreover have "get_plan_batches (Some n) p = Inr (map (get_plan_for_operations p) bs)"
    by (simp add: get_plan_batches_def run)
  ultimately show ?thesis using run cover by blast
qed

text \<open>
  Asking for an empty plan in one batch raises: the size of the one batch is the number of operations,
  and a range does not take a step of zero.
\<close>

lemma empty_plan_one_batch:
  "get_plan_batches None (ElasticBulkPlan indexes m) = Inl (Exn EValueError ''range() arg 3 must not be zero'')"
  by (simp add: get_plan_batches_def plan_batches_def ElasticBulkPlan_def)

section \<open>What narrowing keeps\<close>

text \<open>
  A leaf is selected when a part of its path, from the top, is an allowed path, or when an allowed path
  leads further down than the leaf.
\<close>

definition selects :: "string list \<Rightarrow> string \<Rightarrow> string list \<Rightarrow> bool" where
  "selects allowed prefix ks \<longleftrightarrow>
     (\<exists>n<length ks. foldl under prefix (take (Suc n) ks) \<in> set allowed) \<or>
     (\<exists>p\<in>set allowed. py_startswith p (foldl under prefix ks @ ''.''))"

text \<open>Lists hold no dictionaries.\<close>

fun dict_free :: "py \<Rightarrow> bool" where
  "dict_free (PDict d) = False"
| "dict_free (PList xs) = list_all dict_free xs"
| "dict_free v = True"

definition plain_leaves :: "(string, py) dict \<Rightarrow> bool" where
  "plain_leaves d \<longleftrightarrow> list_all (\<lambda>kv. dict_free (snd kv)) (leaves d)"

lemma prune_dict_free: "dict_free v \<Longrightarrow> prune_value allowed prefix v = v"
proof (induction v)
  case (PList xs)
  then show ?case by (auto simp: list_all_iff intro!: map_idI)
qed simp_all

lemma prune_free_list: "list_all dict_free xs \<Longrightarrow> map (prune_value allowed prefix) xs = xs"
  by (auto simp: list_all_iff prune_dict_free intro!: map_idI)

lemma under_step: "p \<noteq> [] \<Longrightarrow> under p k = p @ ''.'' @ k"
  by (simp add: under_def)

lemma path_starts_with: "q \<noteq> [] \<Longrightarrow> ks \<noteq> [] \<Longrightarrow> py_startswith (foldl under q ks) (q @ ''.'')"
proof (induction ks rule: rev_induct)
  case (snoc k ks)
  show ?case
  proof (cases "ks = []")
    case True
    with snoc show ?thesis by (simp add: under_def startswith_iff)
  next
    case False
    with snoc obtain t where t: "foldl under q ks = (q @ ''.'') @ t" by (auto simp: startswith_iff)
    have "foldl under q (ks @ [k]) = under (foldl under q ks) k" by simp
    with t have "foldl under q (ks @ [k]) = (q @ ''.'') @ t @ ''.'' @ k" by (simp add: under_step)
    then show ?thesis unfolding startswith_iff by blast
  qed
qed simp

lemma selects_below:
  assumes "q \<noteq> []" and "ks \<noteq> []" and "selects allowed q ks"
  shows "list_ex (\<lambda>p. py_startswith p (q @ ''.'')) allowed"
proof -
  from assms(3) consider n where "n < length ks" "foldl under q (take (Suc n) ks) \<in> set allowed"
    | p where "p \<in> set allowed" "py_startswith p (foldl under q ks @ ''.'')"
    by (auto simp: selects_def)
  then show ?thesis
  proof cases
    case 1
    then have "py_startswith (foldl under q (take (Suc n) ks)) (q @ ''.'')"
      using assms(1,2) by (intro path_starts_with) auto
    with 1(2) show ?thesis by (auto simp: list_ex_iff)
  next
    case 2
    from path_starts_with [OF assms(1,2)] obtain t where "foldl under q ks = (q @ ''.'') @ t" by (auto simp: startswith_iff)
    with 2 show ?thesis by (auto simp: list_ex_iff startswith_iff)
  qed
qed

lemma selects_Cons:
  assumes "ks \<noteq> []"
  shows "selects allowed q (k # ks) \<longleftrightarrow> under q k \<in> set allowed \<or> selects allowed (under q k) ks"
proof -
  have "(\<exists>n<length (k # ks). foldl under q (take (Suc n) (k # ks)) \<in> set allowed) \<longleftrightarrow>
      under q k \<in> set allowed \<or> (\<exists>n<length ks. foldl under (under q k) (take (Suc n) ks) \<in> set allowed)"
    by (subst length_Cons, subst Ex_less_Suc2) simp
  then show ?thesis by (auto simp: selects_def)
qed

lemma selects_one: "selects allowed q [k] \<longleftrightarrow>
    under q k \<in> set allowed \<or> list_ex (\<lambda>p. py_startswith p (under q k @ ''.'')) allowed"
  by (auto simp: selects_def list_ex_iff)

lemma prune_leaves:
  "items_ok d \<Longrightarrow> plain_leaves d \<Longrightarrow>
   leaves (prune_entries allowed q d) = filter (\<lambda>kv. selects allowed q (fst kv)) (leaves d)"
proof (induction d arbitrary: q rule: leaves.induct)
  case (2 k d xs)
  have d: "items_ok d" "d \<noteq> []" and xs: "items_ok xs" and k: "key_ok k"
    using 2(3) by (auto simp: items_ok_Cons tree_ok_PDict)
  have pl: "plain_leaves d" "plain_leaves xs" using 2(4) by (simp_all add: plain_leaves_def list_all_iff ball_Un)
  have q: "under q k \<noteq> []" using k by (auto simp: under_def key_ok_def)
  have ne: "ks \<noteq> []" if "(ks, v) \<in> set (leaves d)" for ks v using leaves_path [OF d(1) that] by simp
  have "filter (\<lambda>kv. selects allowed q (fst kv)) (map (\<lambda>pv. (k # fst pv, snd pv)) (leaves d)) =
      map (\<lambda>pv. (k # fst pv, snd pv))
        (filter (\<lambda>kv. under q k \<in> set allowed \<or> selects allowed (under q k) (fst kv)) (leaves d))"
    by (auto simp: filter_map comp_def selects_Cons [OF ne] intro!: arg_cong [where f = "map _"] filter_cong)
  moreover have "filter (\<lambda>kv. selects allowed (under q k) (fst kv)) (leaves d) = []"
    if "\<not> list_ex (\<lambda>p. py_startswith p (under q k @ ''.'')) allowed"
    using that selects_below [OF q ne] by (auto simp: filter_empty_conv)
  ultimately show ?case
    using 2(1) [OF d(1) pl(1)] 2(2) [OF xs pl(2)] by (simp add: Let_def)
qed (auto simp: items_ok_Cons plain_leaves_def selects_one Let_def prune_dict_free prune_free_list)

text \<open>
  Narrowing a document keeps exactly the fields that are asked for. In a document whose lists hold no
  dictionaries, the leaves left are those at or below an allowed path, and those an allowed path leads past,
  with their values and in their order.
\<close>

lemma prune_keeps_selected:
  assumes "items_ok d" and "plain_leaves d"
  shows "leaves (prune_to_paths d allowed) = filter (\<lambda>(ks, v). selects allowed [] ks) (leaves d)"
  using prune_leaves [OF assms, of allowed "[]"] by (simp only: prune_to_paths_def case_prod_beta')

section \<open>Instances\<close>

definition sample_plan :: bulk_plan where
  "sample_plan = add_delete_operation ''b'' None (queue [BulkCreate ''howler-hit'' ''a'' [(''note'', PStr [CHR ''x'', CHR 0x0A])]]
     (ElasticBulkPlan [''howler-hit'', ''howler-hit-ma''] None))"

lemma payload_lines_witness:
  "split_char CHR 0x0A (get_plan_data sample_plan) = concat (map op_lines (bp_operations sample_plan)) @ [[]]"
  by (rule payload_lines) code_simp+

lemma batches_cover_witness:
  "\<exists>bs. plan_batches (Some 2) sample_plan = Inr bs \<and> concat bs = bp_operations sample_plan \<and>
     length ` set bs \<subseteq> {1..nat 2} \<and>
     get_plan_batches (Some 2) sample_plan = Inr (map (get_plan_for_operations sample_plan) bs) \<and>
     concat (map (get_plan_for_operations sample_plan) bs) = get_plan_data sample_plan"
  by (rule batches_cover) (simp, code_simp)

lemma prune_keeps_selected_witness:
  "leaves (prune_to_paths [(''howler'', PDict [(''id'', PStr ''a''), (''related'', PList [PStr ''c''])]), (''x'', PInt 1)] [''howler.related'']) =
     filter (\<lambda>(ks, v). selects [''howler.related''] [] ks)
       (leaves [(''howler'', PDict [(''id'', PStr ''a''), (''related'', PList [PStr ''c''])]), (''x'', PInt 1)])"
  by (rule prune_keeps_selected) (simp add: items_ok_def key_ok_def tree_ok.simps, code_simp)

end
