(* ===== verification/Correlation.thy ===== *)
theory Correlation
  imports CaseStore Bulk
begin

text \<open>
  \<^verbatim>\<open>services/correlation_service.py\<close>: newly ingested records are matched against the rules of the cases,
  and matching hits and events become items of the case, under the path the rule renders. Cases and the
  objects behind items are changed in memory for a whole batch and written with bulk requests in the end.
  The template engine, the search for records and for cases with rules, the clock, \<^verbatim>\<open>fromisoformat\<close> and the
  bulk endpoints are parameters; an instant is a number of microseconds. \<open>kr_set_order\<close> is Python's order of
  iteration over the set of touched objects.
\<close>

record 'w corr_env =
  kr_case :: "'w case_env"
  kr_now :: int
  kr_instant :: "string \<Rightarrow> int option"
  kr_rule_cases :: "('w, case_rec list) io"
  kr_search :: "string list \<Rightarrow> string \<Rightarrow> string list \<Rightarrow> nat \<Rightarrow> ('w, (string, py) dict list) io"
  kr_render :: "string \<Rightarrow> (string, py) dict \<Rightarrow> string result"
  kr_bulk_case :: "'w bulk_endpoint"
  kr_bulk_backing :: "case_item_type \<Rightarrow> 'w bulk_endpoint"
  kr_batch_size :: int
  kr_set_order :: "(string \<times> string) list \<Rightarrow> (string \<times> string) list"

section \<open>Active rules\<close>

text \<open>\<^verbatim>\<open>datetime.fromisoformat(str(ts).replace("Z", "+00:00"))\<close>\<close>

definition instant_of :: "(string \<Rightarrow> int option) \<Rightarrow> string option \<Rightarrow> int option" where
  "instant_of parse ts = parse (py_replace ''Z'' ''+00:00'' (case ts of None \<Rightarrow> ''None'' | Some s \<Rightarrow> s))"

text \<open>The newest entry of the log that resolves the case and has a time.\<close>

definition get_last_resolved_time :: "(string \<Rightarrow> int option) \<Rightarrow> case_rec \<Rightarrow> int option" where
  "get_last_resolved_time parse c =
     (case find_first (\<lambda>l. cl_key l = Some ''status'' \<and> cl_new_value l = Some ''resolved'' \<and>
             instant_of parse (cl_timestamp l) \<noteq> None) (rev (cs_log c)) of
        None \<Rightarrow> None | Some l \<Rightarrow> instant_of parse (cl_timestamp l))"

definition MAX_DAYS :: int where "MAX_DAYS = 999999999"
definition MICROS_PER_DAY :: int where "MICROS_PER_DAY = 86400000000"
definition MAX_INSTANT :: int where "MAX_INSTANT = 253402300799999999"

text \<open>\<^verbatim>\<open>start + timedelta(days=n)\<close>: a time span and a date have a largest value.\<close>

definition expiry :: "int \<Rightarrow> int \<Rightarrow> int result" where
  "expiry start days =
     (if MAX_DAYS < days
      then Inl (Exn EOther (''days='' @ str_int days @ ''; must have magnitude <= 999999999''))
      else if MAX_INSTANT < start + days * MICROS_PER_DAY then Inl (Exn EOther ''date value out of range'')
      else Inr (start + days * MICROS_PER_DAY))"

definition rule_active :: "(string \<Rightarrow> int option) \<Rightarrow> int \<Rightarrow> case_rec \<Rightarrow> case_rule \<Rightarrow> bool result" where
  "rule_active parse now c r =
     (if \<not> cr_enabled r then Inr False
      else case cr_timeframe r of
        None \<Rightarrow> Inr True
      | Some days \<Rightarrow>
          if days \<le> 0 then Inr False
          else if \<not> cr_expire_after_resolved r then
            (case instant_of parse (cr_created_at r) of
               None \<Rightarrow> Inl (Exn EValueError ''Invalid isoformat string'')
             | Some start \<Rightarrow> bindR (expiry start days) (\<lambda>t. Inr (now < t)))
          else
            (case get_last_resolved_time parse c of
               None \<Rightarrow> Inr True
             | Some start \<Rightarrow> bindR (expiry start days) (\<lambda>t. Inr (now < t))))"

definition active_in_case :: "(string \<Rightarrow> int option) \<Rightarrow> int \<Rightarrow> case_rec \<Rightarrow> (string \<times> case_rule) list result" where
  "active_in_case parse now c =
     bindR (filterR (rule_active parse now c) (cs_rules c)) (\<lambda>rs. Inr (map (\<lambda>r. (cs_id c, r)) rs))"

definition get_active_rules :: "'w corr_env \<Rightarrow> ('w case_world, (string \<times> case_rule) list) io" where
  "get_active_rules K =
     bindM (in_store (kr_rule_cases K)) (\<lambda>cs.
     liftM (bindR (mapR (active_in_case (kr_instant K) (kr_now K)) cs) (\<lambda>rss. Inr (concat rss))))"

section \<open>One record\<close>

text \<open>
  What a batch holds in memory: the objects behind items, by type and id. While one record is added, the
  case is in memory too, and what is changed stays changed when the rest raises.
\<close>

type_synonym backing_cache = "(string \<times> string, doc option) dict"

type_synonym 'w record_world = "case_rec \<times> backing_cache \<times> 'w case_world"

definition in_world :: "('w case_world, 'a) io \<Rightarrow> ('w record_world, 'a) io" where
  "in_world m = (\<lambda>(c, b, a). case m a of (r, a') \<Rightarrow> (r, c, b, a'))"

definition backing_type :: "string \<Rightarrow> case_item_type option" where
  "backing_type ty = (if ty = ''event'' then Some CI_EVENT else if ty = ''hit'' then Some CI_HIT else None)"

definition backing_of :: "string \<Rightarrow> case_item_type" where
  "backing_of ty = (case backing_type ty of Some t \<Rightarrow> t | None \<Rightarrow> CI_HIT)"

definition capitalize :: "string \<Rightarrow> string" where
  "capitalize s = (case s of [] \<Rightarrow> [] | c # cs \<Rightarrow> upper_char c # py_lower cs)"

definition resolve_backing_object :: "'w corr_env \<Rightarrow> string \<Rightarrow> string \<Rightarrow> ('w record_world, doc) io" where
  "resolve_backing_object K ty k =
     bindM (\<lambda>(c, b, a). case dget b (ty, k) of
         Some v \<Rightarrow> (Inr v, c, b, a)
       | None \<Rightarrow>
           (case backing_type ty of
              None \<Rightarrow> (Inl (Exn EInvalidData (''Invalid index type '' @ ty @ '' provided. Must be one of hit,event'')), c, b, a)
            | Some t \<Rightarrow>
                (case in_store (coll_get (backing_collection (kr_case K) t) k True) a of
                   (Inl e, a') \<Rightarrow> (Inl e, c, b, a')
                 | (Inr (v, _), a') \<Rightarrow> (Inr v, c, dset b (ty, k) v, a')))) (\<lambda>v.
     case v of
       None \<Rightarrow> raiseM (Exn ENotFound (capitalize ty @ '' '' @ k @ '' not found, cannot be added to case''))
     | Some d \<Rightarrow> returnM d)"

text \<open>\<^verbatim>\<open>rendered_path.rsplit("/", maxsplit=1)\<close>: the path before the last slash, if any, and the name.\<close>

definition split_path :: "string \<Rightarrow> string option \<times> string" where
  "split_path s =
     (let parts = split_char CHR ''/'' s in
      if length parts < 2 then (None, s) else (Some (py_join ''/'' (butlast parts)), last parts))"

definition parent_in_memory :: "'w corr_env \<Rightarrow> string option \<Rightarrow> ('w record_world, case_item option) io" where
  "parent_in_memory K path = (\<lambda>(c, b, a).
     case get_parent_from_path (kr_case K) (CaseObj c) path True False a of
       (Inl e, a') \<Rightarrow> (Inl e, c, b, a')
     | (Inr (p, c'), a') \<Rightarrow> (Inr p, c', b, a'))"

definition conflicts_in_memory :: "case_item \<Rightarrow> ('w record_world, bool) io" where
  "conflicts_in_memory i = (\<lambda>(c, b, a). (check_conflicts c i, c, b, a))"

text \<open>The item is appended, then the object behind it gets its back reference; it tells whether it was new.\<close>

definition place_item :: "string \<Rightarrow> string \<times> string \<Rightarrow> case_item \<Rightarrow> doc \<Rightarrow> ('w record_world, bool) io" where
  "place_item case_id key i d =
     bindM (modifyM (\<lambda>(c, b, a). (c\<lparr>cs_items := cs_items c @ [i\<lparr>ci_class := p_text (d ''classification'')\<rparr>]\<rparr>, b, a))) (\<lambda>_.
     bindM (liftM (add_backreference (Some d) case_id)) (\<lambda>d'.
     bindM (modifyM (\<lambda>(c, b, a). (c, dset b key (Some d'), a))) (\<lambda>_.
     returnM (case_id \<notin> set (p_texts (d ''howler.related''))))))"

definition record_item :: "string \<Rightarrow> string \<Rightarrow> string \<Rightarrow> case_item option \<Rightarrow> py" where
  "record_item ty k name parent =
     PDict [(''type'', PStr ty), (''value'', PStr k),
       (''parent'', case parent of None \<Rightarrow> PNone | Some p \<Rightarrow> PStr (ci_id p)), (''name'', PStr name)]"

definition try_add_record ::
    "'w corr_env \<Rightarrow> string \<Rightarrow> string \<Rightarrow> string \<Rightarrow> string option \<Rightarrow> string \<Rightarrow> ('w record_world, (string \<times> string) option) io" where
  "try_add_record K case_id ty k path name =
     bindM (resolve_backing_object K ty k) (\<lambda>d.
     bindM (parent_in_memory K path) (\<lambda>p.
     bindM (in_world (drawing (CaseItem_init (ce_ext (kr_case K)) (ce_unrestricted (kr_case K)) True (record_item ty k name p)))) (\<lambda>i.
     bindM (conflicts_in_memory (named i)) (\<lambda>conflict.
     let i' = (if conflict then disambiguated (named i) else named i) in
     bindM (if conflict then conflicts_in_memory i' else returnM False) (\<lambda>again.
     if again then returnM None
     else bindM (place_item case_id (ty, k) i' d) (\<lambda>new. returnM (if new then Some (ty, k) else None)))))))"

text \<open>Every exception is logged and skips the record.\<close>

definition skip_on_error :: "('w, 'a option) io \<Rightarrow> ('w, 'a option) io" where
  "skip_on_error m = (\<lambda>w. case m w of (Inl e, w') \<Rightarrow> (Inr None, w') | (Inr x, w') \<Rightarrow> (Inr x, w'))"

definition text_entry :: "(string, py) dict \<Rightarrow> string \<Rightarrow> string result" where
  "text_entry d k = bindR (dict_index d k) (\<lambda>v. case v of PStr s \<Rightarrow> Inr s | _ \<Rightarrow> Inl (Exn ETypeError k))"

text \<open>\<^verbatim>\<open>record["howler"]["id"]\<close> and \<^verbatim>\<open>record.get("__index", "hit")\<close>\<close>

definition record_id :: "(string, py) dict \<Rightarrow> string result" where
  "record_id r =
     bindR (dict_index r ''howler'') (\<lambda>h. case h of PDict d \<Rightarrow> text_entry d ''id'' | _ \<Rightarrow> Inl (Exn ETypeError ''howler''))"

definition record_type :: "(string, py) dict \<Rightarrow> string" where
  "record_type r = (case dget r ''__index'' of Some (PStr s) \<Rightarrow> s | _ \<Rightarrow> ''hit'')"

definition add_record_to_case ::
    "'w corr_env \<Rightarrow> string \<Rightarrow> case_rule \<Rightarrow> (string, py) dict \<Rightarrow> ('w record_world, (string \<times> string) option) io" where
  "add_record_to_case K case_id rule r =
     bindM (liftM (record_id r)) (\<lambda>k.
     bindM (liftM (kr_render K (cr_destination rule) r)) (\<lambda>rendered.
     case split_path rendered of (path, name) \<Rightarrow> skip_on_error (try_add_record K case_id (record_type r) k path name)))"

section \<open>A batch\<close>

record batch_state =
  bt_cases :: "(string, case_rec option) dict"
  bt_counts :: "(string, nat) dict"
  bt_backing :: backing_cache
  bt_dirty :: "(string \<times> string) list"
  bt_added :: nat

definition empty_batch :: batch_state where
  "empty_batch = \<lparr>bt_cases = [], bt_counts = [], bt_backing = [], bt_dirty = [], bt_added = 0\<rparr>"

definition put_case :: "string \<Rightarrow> case_rec option \<Rightarrow> batch_state \<Rightarrow> batch_state" where
  "put_case k v st =
     st\<lparr>bt_cases := dset (bt_cases st) k v,
        bt_counts := (case v of None \<Rightarrow> bt_counts st | Some c \<Rightarrow> dset (bt_counts st) k (length (cs_items c)))\<rparr>"

definition fetch_case :: "'w corr_env \<Rightarrow> string \<Rightarrow> batch_state \<Rightarrow> ('w case_world, batch_state) io" where
  "fetch_case K k st =
     (if dmem (bt_cases st) k then returnM st
      else bindM (case_get (kr_case K) k) (\<lambda>v. returnM (put_case k v st)))"

text \<open>One matching record, added to the case a rule belongs to.\<close>

definition note_added :: "(string \<times> string) option \<Rightarrow> batch_state \<Rightarrow> batch_state" where
  "note_added res st =
     (case res of
        None \<Rightarrow> st
      | Some key \<Rightarrow> st\<lparr>bt_dirty := (if key \<in> set (bt_dirty st) then bt_dirty st else bt_dirty st @ [key]),
                       bt_added := Suc (bt_added st)\<rparr>)"

definition add_match ::
    "'w corr_env \<Rightarrow> string \<times> case_rule \<Rightarrow> batch_state \<Rightarrow> (string, py) dict \<Rightarrow> ('w case_world, batch_state) io" where
  "add_match K kr st r = (\<lambda>a.
     case dget (bt_cases st) (fst kr) of
       Some (Some c) \<Rightarrow>
         (case add_record_to_case K (fst kr) (snd kr) r (c, bt_backing st, a) of
            (Inl e, _, _, a') \<Rightarrow> (Inl e, a')
          | (Inr res, c', b', a') \<Rightarrow>
              (Inr (note_added res (st\<lparr>bt_cases := dset (bt_cases st) (fst kr) (Some c'), bt_backing := b'\<rparr>)), a'))
     | _ \<Rightarrow> (Inr st, a))"

text \<open>\<^verbatim>\<open>sanitize_lucene_query\<close>: a backslash before every special character, and before \<^verbatim>\<open>&&\<close> and \<^verbatim>\<open>||\<close>.\<close>

definition special_chars :: string where
  "special_chars = [CHR ''^'', CHR 0x22] @ ''~*?:'' @ [CHR 0x5C] @ ''/()[]{}-!+''"

definition sanitize_lucene_query :: "string \<Rightarrow> string" where
  "sanitize_lucene_query q =
     py_replace ''||'' (CHR 0x5C # ''||'')
       (py_replace ''&&'' (CHR 0x5C # ''&&'') (concat (map (\<lambda>c. if c \<in> set special_chars then [CHR 0x5C, c] else [c]) q)))"

definition id_filter :: "string list \<Rightarrow> string" where
  "id_filter ids = ''howler.id:('' @ py_join '' OR '' (map sanitize_lucene_query ids) @ '')''"

text \<open>One rule: a case that is gone and a search that fails are skipped.\<close>

definition rule_matches ::
    "'w corr_env \<Rightarrow> string list \<Rightarrow> case_rule \<Rightarrow> ('w case_world, (string, py) dict list) io" where
  "rule_matches K ids r = (\<lambda>a.
     case in_store (kr_search K (if cr_indexes r = [] then [''hit''] else cr_indexes r) (cr_query r) [id_filter ids]
            (length ids)) a of
       (Inl e, a') \<Rightarrow> (Inr [], a')
     | (Inr rs, a') \<Rightarrow> (Inr rs, a'))"

definition apply_rule ::
    "'w corr_env \<Rightarrow> string list \<Rightarrow> batch_state \<Rightarrow> string \<times> case_rule \<Rightarrow> ('w case_world, batch_state) io" where
  "apply_rule K ids st kr =
     bindM (fetch_case K (fst kr) st) (\<lambda>st.
     if dget (bt_cases st) (fst kr) = Some None then returnM st
     else bindM (rule_matches K ids (snd kr)) (\<lambda>rs. foldM_io (add_match K kr) st rs))"

section \<open>Writing a batch\<close>

text \<open>The update of an object behind items, narrowed to its back references.\<close>

definition related_update :: "doc \<Rightarrow> (string, py) dict" where
  "related_update d =
     [(''howler'', PDict (case d ''howler.related'' of None \<Rightarrow> [] | Some v \<Rightarrow> [(''related'', v)]))]"

text \<open>
  \<^verbatim>\<open>get_bulk_plan\<close>. The model of a collection only matters for documents given as data; correlation queues
  objects, whose primitives \<^verbatim>\<open>case_update\<close> and \<^verbatim>\<open>related_update\<close> narrow to fields that lose the hidden ones.
\<close>

definition get_bulk_plan :: "'w collection \<Rightarrow> bulk_plan" where
  "get_bulk_plan c = ElasticBulkPlan [index_name c] None"

definition backing_plan :: "'w corr_env \<Rightarrow> batch_state \<Rightarrow> (string \<times> string) list \<Rightarrow> string \<Rightarrow> bulk_plan" where
  "backing_plan K st dirty ty =
     fold (\<lambda>(t, k) p.
        case dget (bt_backing st) (t, k) of
          Some (Some d) \<Rightarrow> if t = ty then queue_update k None (related_update d) p else p
        | _ \<Rightarrow> p) dirty (get_bulk_plan (backing_collection (kr_case K) (backing_of ty)))"

definition flush_backing :: "'w corr_env \<Rightarrow> batch_state \<Rightarrow> ('w case_world, unit) io" where
  "flush_backing K st =
     (let dirty = kr_set_order K (bt_dirty st) in
      forM_io (remdups (map fst dirty)) (\<lambda>ty.
        bindM (in_store (coll_bulk (kr_batch_size K) (backing_collection (kr_case K) (backing_of ty)) (kr_bulk_backing K (backing_of ty))
                (backing_plan K st dirty ty))) (\<lambda>ok.
        if ok then returnM ()
        else raiseM (Exn EHowlerRuntime ''Bulk backing record update reported errors while flushing correlation batch''))))"

definition modified_cases :: "batch_state \<Rightarrow> case_rec list" where
  "modified_cases st =
     concat (map (\<lambda>(k, v). case v of
         Some c \<Rightarrow> if dget (bt_counts st) k \<noteq> Some (length (cs_items c)) then [c] else []
       | None \<Rightarrow> []) (bt_cases st))"

definition correlated_fields :: "string list" where
  "correlated_fields = [''items'', ''targets'', ''threats'', ''indicators'']"

definition case_update :: "case_rec \<Rightarrow> (string, py) dict" where
  "case_update c = prune_to_paths (case_primitives c) correlated_fields"

definition case_plan :: "'w corr_env \<Rightarrow> case_rec list \<Rightarrow> bulk_plan" where
  "case_plan K cs = fold (\<lambda>c. queue_update (cs_id c) None (case_update c)) cs (get_bulk_plan (ce_cases (kr_case K)))"

definition flush_cases :: "'w corr_env \<Rightarrow> case_rec list \<Rightarrow> ('w case_world, unit) io" where
  "flush_cases K cs =
     bindM (mapM_io (recompute_case_metadata (kr_case K)) cs) (\<lambda>cs.
     let p = case_plan K cs in
     bindM (if plan_empty p then returnM True
            else in_store (coll_bulk (kr_batch_size K) (ce_cases (kr_case K)) (kr_bulk_case K) p)) (\<lambda>ok.
     if \<not> ok then raiseM (Exn EHowlerRuntime ''Bulk case update reported errors while flushing correlation batch'')
     else forM_io cs emit_case))"

definition process_batch :: "'w corr_env \<Rightarrow> string list \<Rightarrow> ('w case_world, nat) io" where
  "process_batch K ids =
     (if ids = [] then returnM 0
      else
        bindM (get_active_rules K) (\<lambda>rules.
        if rules = [] then returnM 0
        else
          bindM (foldM_io (apply_rule K ids) empty_batch rules) (\<lambda>st.
          thenM (flush_backing K st)
          (thenM (flush_cases K (modified_cases st)) (returnM (bt_added st))))))"

section \<open>The worker\<close>

text \<open>
  One turn of the worker's loop: what it popped, None after a timeout, and the batch it has. It hands over a
  batch that is full, or that is not empty when nothing came in time.
\<close>

definition worker_turn :: "nat \<Rightarrow> string list \<Rightarrow> string option \<Rightarrow> string list \<times> string list option" where
  "worker_turn BATCH_SIZE batch popped =
     (let batch' = (case popped of None \<Rightarrow> batch | Some k \<Rightarrow> batch @ [k]) in
      if BATCH_SIZE \<le> length batch' \<or> (popped = None \<and> batch' \<noteq> []) then ([], Some batch') else (batch', None))"

text \<open>The loop over what the queue gives; an exception of a batch is logged.\<close>

fun run_worker :: "'w corr_env \<Rightarrow> nat \<Rightarrow> string list \<Rightarrow> string option list \<Rightarrow> ('w case_world, string list) io" where
  "run_worker K BATCH_SIZE batch [] = returnM batch"
| "run_worker K BATCH_SIZE batch (popped # pops) = (\<lambda>a.
     case worker_turn BATCH_SIZE batch popped of
       (batch', None) \<Rightarrow> run_worker K BATCH_SIZE batch' pops a
     | (batch', Some full) \<Rightarrow> run_worker K BATCH_SIZE batch' pops (snd (process_batch K full a)))"

section \<open>Rules expire once\<close>

text \<open>
  A rule only ever expires. When a rule of a case is active at some moment, it was active at every earlier
  one: with the case as it is, time never switches a rule on.
\<close>

lemma rule_only_expires:
  assumes "rule_active parse later c r = Inr True" and "now \<le> later"
  shows "rule_active parse now c r = Inr True"
  using assms by (auto simp: rule_active_def bindR_eq_Inr split: if_splits option.splits)

lemma mapR_raises: "x \<in> set xs \<Longrightarrow> f x = Inl e \<Longrightarrow> \<exists>e. mapR f xs = Inl e"
proof (induction xs)
  case (Cons y ys)
  then show ?case by (cases "f y") auto
qed simp

lemma filterR_raises: "x \<in> set xs \<Longrightarrow> f x = Inl e \<Longrightarrow> \<exists>e. filterR f xs = Inl e"
proof (induction xs)
  case (Cons y ys)
  then show ?case by (cases "f y") auto
qed simp

text \<open>
  One rule can stop correlation. A rule may ask for any positive number of days; when one enabled rule of
  any case asks for more days than a time span can hold, every batch of records raises before a single rule
  is applied, and the records of the batch are lost to all rules.
\<close>

lemma long_timeframe_stops_all:
  assumes "ids \<noteq> []" and "in_store (kr_rule_cases K) a = (Inr cs, a')" and "c \<in> set cs" and "r \<in> set (cs_rules c)"
    and "cr_enabled r" and "cr_timeframe r = Some days" and "MAX_DAYS < days" and "\<not> cr_expire_after_resolved r"
  shows "\<exists>e. process_batch K ids a = (Inl e, a')"
proof -
  have "\<exists>e. rule_active (kr_instant K) (kr_now K) c r = Inl e"
    using assms(5-8) by (auto simp: rule_active_def expiry_def MAX_DAYS_def split: option.splits)
  then have "\<exists>e. active_in_case (kr_instant K) (kr_now K) c = Inl e"
    using filterR_raises [OF assms(4)] by (fastforce simp: active_in_case_def)
  then obtain e where "mapR (active_in_case (kr_instant K) (kr_now K)) cs = Inl e"
    using mapR_raises [OF assms(3)] by blast
  with assms(1,2) show ?thesis by (simp add: process_batch_def get_active_rules_def)
qed

section \<open>The worker loses nothing\<close>

definition popped_items :: "string option list \<Rightarrow> string list" where
  "popped_items pops = concat (map (\<lambda>p. case p of None \<Rightarrow> [] | Some k \<Rightarrow> [k]) pops)"

lemma worker_turn_cases:
  assumes "length batch < n" and "worker_turn n batch popped = (batch', full)"
  shows "(case full of None \<Rightarrow> batch' | Some f \<Rightarrow> f) = batch @ popped_items [popped] \<and> length batch' < n \<and>
    (case full of None \<Rightarrow> popped = None \<longrightarrow> batch' = [] | Some f \<Rightarrow> batch' = [] \<and> f \<noteq> [] \<and> length f \<le> n)"
  using assms by (auto simp: worker_turn_def popped_items_def Let_def split: option.splits if_splits)

text \<open>
  C28: The worker loses nothing. Whatever the queue gives and whenever it times out, the worker processes
  batches of at least one and at most the batch size of ids, and the batches followed by what still waits
  are the ids popped, in order and each once; fewer than a batch wait, and none after a timeout. A batch
  that raises does not stop the loop.
\<close>

theorem worker_loses_nothing:
  assumes "length batch < n"
  shows "\<exists>bs rest. run_worker K n batch pops a = (Inr rest, fold (\<lambda>full a. snd (process_batch K full a)) bs a) \<and>
     concat bs @ rest = batch @ popped_items pops \<and> length ` set bs \<subseteq> {1..n} \<and> length rest < n \<and>
     (pops \<noteq> [] \<and> last pops = None \<longrightarrow> rest = [])"
  using assms
proof (induction pops arbitrary: batch a)
  case Nil
  then show ?case by (intro exI [of _ "[]"] exI [of _ batch]) (simp add: popped_items_def)
next
  case (Cons p pops)
  obtain batch' full where turn: "worker_turn n batch p = (batch', full)" by (cases "worker_turn n batch p")
  note T = worker_turn_cases [OF Cons.prems turn]
  have split: "popped_items (p # pops) = popped_items [p] @ popped_items pops" by (simp add: popped_items_def)
  show ?case
  proof (cases full)
    case None
    from Cons.IH [of batch' a] T obtain bs rest where
      I: "run_worker K n batch' pops a = (Inr rest, fold (\<lambda>full a. snd (process_batch K full a)) bs a)"
        "concat bs @ rest = batch' @ popped_items pops" "length ` set bs \<subseteq> {1..n}" "length rest < n"
        "pops \<noteq> [] \<and> last pops = None \<longrightarrow> rest = []" by blast
    have "rest = []" if "p = None" "pops = []" using T I(2) None that by (auto simp: popped_items_def)
    with I T None split show ?thesis
      by (intro exI [of _ bs] exI [of _ rest]) (simp add: turn)
  next
    case (Some f)
    from Cons.IH [of batch' "snd (process_batch K f a)"] T obtain bs rest where
      I: "run_worker K n batch' pops (snd (process_batch K f a)) =
            (Inr rest, fold (\<lambda>full a. snd (process_batch K full a)) bs (snd (process_batch K f a)))"
        "concat bs @ rest = batch' @ popped_items pops" "length ` set bs \<subseteq> {1..n}" "length rest < n"
        "pops \<noteq> [] \<and> last pops = None \<longrightarrow> rest = []" by blast
    from T have f: "f = batch @ popped_items [p]" "batch' = []" "f \<noteq> []" "length f \<le> n" unfolding Some option.case by blast+
    have "rest = []" if "pops = []" using I(2) f(2) that by (simp add: popped_items_def)
    with I f split show ?thesis
      by (intro exI [of _ "f # bs"] exI [of _ rest]) (auto simp: turn Some Suc_le_eq)
  qed
qed

end
