(* ===== verification/Hoare.thy ===== *)
theory Hoare
  imports CaseStore
begin

text \<open>
  Triples for code that changes the world and may raise: what holds after a return and what after an
  exception. They extend the calculus of views of \<^verbatim>\<open>CaseStore\<close> to states that change.
\<close>

section \<open>Hoare triples\<close>

text \<open>From a state that satisfies P, a call that returns x ends in Q x, one that raises in R.\<close>

definition valid :: "('w \<Rightarrow> bool) \<Rightarrow> ('w, 'a) io \<Rightarrow> ('a \<Rightarrow> 'w \<Rightarrow> bool) \<Rightarrow> ('w \<Rightarrow> bool) \<Rightarrow> bool" where
  "valid P m Q R \<longleftrightarrow> (\<forall>s r s'. P s \<longrightarrow> m s = (r, s') \<longrightarrow> (case r of Inl e \<Rightarrow> R s' | Inr x \<Rightarrow> Q x s'))"

lemma validI: "(\<And>s r s'. P s \<Longrightarrow> m s = (r, s') \<Longrightarrow> (case r of Inl e \<Rightarrow> R s' | Inr x \<Rightarrow> Q x s')) \<Longrightarrow> valid P m Q R"
  by (simp add: valid_def)

lemma validD: "valid P m Q R \<Longrightarrow> P s \<Longrightarrow> m s = (r, s') \<Longrightarrow> (case r of Inl e \<Rightarrow> R s' | Inr x \<Rightarrow> Q x s')"
  unfolding valid_def by blast

lemma valid_bind:
  assumes "valid P m Q R" and "\<And>x. valid (Q x) (f x) S R"
  shows "valid P (bindM m f) S R"
proof (rule validI)
  fix s r s' assume "P s" and run: "bindM m f s = (r, s')"
  obtain q t where q: "m s = (q, t)" by (cases "m s")
  from validD [OF assms(1) \<open>P s\<close> q] run q validD [OF assms(2)] show "case r of Inl e \<Rightarrow> R s' | Inr x \<Rightarrow> S x s'"
    by (cases q) auto
qed

lemma valid_then: "valid P m (\<lambda>_. Q) R \<Longrightarrow> valid Q n S R \<Longrightarrow> valid P (thenM m n) S R"
  unfolding thenM_def by (rule valid_bind)

lemma valid_return: "(\<And>s. P s \<Longrightarrow> Q x s) \<Longrightarrow> valid P (returnM x) Q R"
  by (auto intro!: validI)

lemma valid_raise: "(\<And>s. P s \<Longrightarrow> R s) \<Longrightarrow> valid P (raiseM e) Q R"
  by (auto intro!: validI)

lemma valid_lift: "(\<And>s. P s \<Longrightarrow> R s) \<Longrightarrow> (\<And>s x. P s \<Longrightarrow> r = Inr x \<Longrightarrow> Q x s) \<Longrightarrow> valid P (liftM r) Q R"
  by (rule validI) (auto split: sum.splits)

lemma valid_modify: "(\<And>s. P s \<Longrightarrow> Q () (f s)) \<Longrightarrow> valid P (modifyM f) Q R"
  by (auto simp: valid_def)

lemma valid_weaken:
  "valid P m Q R \<Longrightarrow> (\<And>s. P' s \<Longrightarrow> P s) \<Longrightarrow> (\<And>x s. Q x s \<Longrightarrow> Q' x s) \<Longrightarrow> (\<And>s. R s \<Longrightarrow> R' s) \<Longrightarrow> valid P' m Q' R'"
  unfolding valid_def by (fastforce split: sum.splits)

lemma valid_foldM:
  "(\<And>s x. x \<in> set xs \<Longrightarrow> valid (P s) (f s x) P R) \<Longrightarrow> valid (P s) (foldM_io f s xs) P R"
proof (induction xs arbitrary: s)
  case (Cons x xs)
  have "valid (P s) (f s x) P R" using Cons.prems by simp
  moreover have "valid (P s') (foldM_io f s' xs) P R" for s' using Cons by simp
  ultimately show ?case unfolding foldM_io.simps by (rule valid_bind)
qed (simp add: valid_return)

lemma valid_forM:
  "(\<And>x. x \<in> set xs \<Longrightarrow> valid P (f x) (\<lambda>_. P) P) \<Longrightarrow> valid P (forM_io xs f) (\<lambda>_. P) P"
proof (induction xs)
  case (Cons x xs)
  have "valid P (f x) (\<lambda>_. P) P" using Cons.prems by simp
  moreover have "valid P (forM_io xs f) (\<lambda>_. P) P" using Cons by simp
  ultimately show ?case by (auto intro: valid_bind valid_then)
qed (simp add: valid_return)

lemma valid_keeps: "keeps view m \<Longrightarrow> (\<And>s s'. view s' = view s \<Longrightarrow> P s \<Longrightarrow> P s') \<Longrightarrow> valid P m (\<lambda>_. P) P"
  by (rule validI) (auto split: sum.splits dest: keepsD)

end
