(* ===== verification/CorrelationStore.thy ===== *)
theory CorrelationStore
  imports Correlation Hoare
begin

text \<open>
  Correlation over the store of cases. Folders and items a batch creates have ids of their own as long as
  random ids do not repeat, so every case in memory keeps a well-formed forest; the bulk requests in the
  end write such cases only. The locale adds what correlation needs of the search and of the bulk endpoints
  to the laws of the repository, and is interpreted on collections over an in-memory client.
\<close>

section \<open>Random ids\<close>

text \<open>The ids to be drawn are not in use.\<close>

definition ids_fresh :: "(nat \<Rightarrow> string) \<Rightarrow> nat \<Rightarrow> case_item list \<Rightarrow> bool" where
  "ids_fresh fresh n items \<longleftrightarrow> (\<forall>m\<ge>n. fresh m \<notin> ci_id ` set items)"

lemma ids_fresh_mono: "ids_fresh fresh n items \<Longrightarrow> n \<le> m \<Longrightarrow> ids_fresh fresh m items"
  by (auto simp: ids_fresh_def)

lemma ids_fresh_append:
  "ids_fresh fresh n (items @ [i]) \<longleftrightarrow> ids_fresh fresh n items \<and> (\<forall>m\<ge>n. fresh m \<noteq> ci_id i)"
  by (auto simp: ids_fresh_def)

definition in_folder :: "case_item list \<Rightarrow> string option \<Rightarrow> bool" where
  "in_folder items cur \<longleftrightarrow> cur = None \<or> (\<exists>p\<in>set items. cur = Some (ci_id p) \<and> is_folder p)"

lemma ensure_path_keeps:
  assumes "inj fresh"
  shows "ensure_path fresh cls create ps n items cur = Some (items', cur', n') \<Longrightarrow>
    forest_ok items \<Longrightarrow> ids_fresh fresh n items \<Longrightarrow> in_folder items cur \<Longrightarrow>
    forest_ok items' \<and> ids_fresh fresh n' items' \<and> n \<le> n' \<and> in_folder items' cur'"
proof (induction ps arbitrary: n items cur)
  case (Cons p ps)
  show ?case
  proof (cases "find_first (\<lambda>i. is_folder i \<and> ci_name i = Some p \<and> ci_parent i = cur) items")
    case (Some i)
    from find_first_Some [OF Some] have "in_folder items (Some (ci_id i))" by (auto simp: in_folder_def)
    with Cons.IH [of n items "Some (ci_id i)"] Cons.prems Some show ?thesis by simp
  next
    case None
    define i where "i = new_folder (fresh n) cur p cls"
    have i: "ci_id i = fresh n" "ci_parent i = cur" "ci_type i = CI_FOLDER" by (simp_all add: i_def new_folder_def)
    from Cons.prems None have run: "ensure_path fresh cls create ps (Suc n) (items @ [i]) (Some (fresh n)) = Some (items', cur', n')"
      by (simp add: i_def split: if_splits)
    have new: "ci_id i \<notin> set (map ci_id items)" using Cons.prems(3) by (auto simp: ids_fresh_def i)
    have "forest_ok (items @ [i])"
      by (rule forest_ok_append [OF Cons.prems(2) new]) (use Cons.prems(4) in \<open>auto simp: i in_folder_def\<close>)
    moreover have "ids_fresh fresh (Suc n) (items @ [i])"
    proof -
      have "fresh m \<noteq> ci_id i" if "Suc n \<le> m" for m
        using injD [OF assms, of m n] that by (auto simp: i)
      with ids_fresh_mono [OF Cons.prems(3), of "Suc n"] show ?thesis by (simp add: ids_fresh_append)
    qed
    moreover have "in_folder (items @ [i]) (Some (fresh n))" by (auto simp: in_folder_def i is_folder_def)
    ultimately show ?thesis using Cons.IH [OF run] by auto
  qed
qed simp

text \<open>The constructor draws at most one id, and the item has it.\<close>

lemma keeps_checks:
  "keeps (\<lambda>n. n) (check_fields E True (tl (CaseItem_model u)) data)"
  by (auto simp: CaseItem_model_def mk_field_def odm_Optional_def intro!: keeps_bind)

lemma record_data:
  assumes "case_item_data (record_item ty k name p) = Inr v"
  shows "\<exists>x. v = PDict [(''type'', PStr ty), (''value'', x),
      (''parent'', case p of None \<Rightarrow> PNone | Some p \<Rightarrow> PStr (ci_id p)), (''name'', PStr name)] \<and>
    model_data v = Inr [(''type'', PStr ty), (''value'', x), (''parent'', case p of None \<Rightarrow> PNone | Some p \<Rightarrow> PStr (ci_id p)),
      (''name'', PStr name)] \<and> (ty = item_type_value CI_CASE \<longrightarrow> p = None)"
proof -
  from assms obtain x where v: "v = PDict [(''type'', PStr ty), (''value'', x),
      (''parent'', case p of None \<Rightarrow> PNone | Some p \<Rightarrow> PStr (ci_id p)), (''name'', PStr name)]"
    and root: "ty = item_type_value CI_CASE \<longrightarrow> p = None"
    by (cases p) (auto simp: case_item_data_def record_item_def split: if_splits)
  have "model_data v = flat_to_nested (dpop (p_dict v) ''__index'')" by (simp add: v model_data_def)
  also have "\<dots> = Inr (p_dict v)" by (simp add: v dpop_def flat_to_nested_plain dkeys_def)
  finally show ?thesis using v root by simp
qed

lemma id_first:
  assumes "dget d ''id'' = None"
  shows "check_fields E True (CaseItem_model u) d n =
    bindM (check_fields E True (tl (CaseItem_model u)) d) (\<lambda>rs. returnM ((''id'', OStr (x_random_id E n)) # rs)) (Suc n)"
proof -
  have first: "field_input ''id'' (Field KUUID PNone True False) d = Inr PNone" using assms by (simp add: field_input_def)
  have "check_fields E True ((''id'', odm_UUID) # fs) d n =
      bindM (check_fields E True fs d) (\<lambda>rs. returnM ((''id'', OStr (x_random_id E n)) # rs)) (Suc n)" for fs
    by (simp add: first odm_UUID_def uuid_check_def bindM_def)
  moreover have "CaseItem_model u = (''id'', odm_UUID) # tl (CaseItem_model u)" by (simp add: CaseItem_model_def)
  ultimately show ?thesis by metis
qed

lemma second_parent:
  assumes "check_fields E True (tl (CaseItem_model u)) [(''type'', PStr ty), (''value'', x),
      (''parent'', case p of None \<Rightarrow> PNone | Some p \<Rightarrow> PStr (ci_id p)), (''name'', PStr name)] n = (Inr rs, n')"
  shows "\<exists>a b c. rs = (''parent'', a) # (''name'', b) # (''type'', OStr ty) # c \<and>
    a \<in> {ONone, case p of None \<Rightarrow> ONone | Some p \<Rightarrow> OStr (ci_id p)}"
  using assms
  by (cases p) (auto simp: CaseItem_model_def mk_field_def odm_Optional_def field_input_def dget_def
        bindM_eq_Inr keyword_check_def enum_check_def str_or_none_def Let_def split: if_splits)

lemma init_steps:
  assumes "case_item_data d = Inr v" and "model_data v = Inr data" and "check_fields E True (CaseItem_model u) data n = m (Suc n)"
  shows "CaseItem_init E u True d n = bindM m (\<lambda>ob. returnM (item_of ob)) (Suc n)"
  by (simp add: CaseItem_init_def model_init_def accept_keys_def assms bindM_def)

lemma item_type_of_case: "item_type_of ty = CI_CASE \<Longrightarrow> ty = item_type_value CI_CASE"
  by (simp add: item_type_of_def split: if_splits)

lemma item_parts:
  assumes "i = item_of ((''id'', OStr k) # (''parent'', a) # (''name'', b) # (''type'', OStr ty) # c)"
  shows "ci_id i = k" and "ci_parent i = o_text a" and "ci_type i = item_type_of ty"
  by (simp_all add: assms item_of_def o_get_def dget_def o_string_def, simp_all add: o_text_def)

lemma record_item_init:
  assumes run: "CaseItem_init E u True (record_item ty k name p) n = (r, n')"
  shows "n \<le> n' \<and> (\<forall>i. r = Inr i \<longrightarrow>
     n < n' \<and> ci_id i = x_random_id E n \<and> ci_parent i \<in> {None, map_option ci_id p} \<and> built_item i)"
proof (cases "case_item_data (record_item ty k name p)")
  case (Inl e)
  with run show ?thesis by (auto simp: CaseItem_init_def)
next
  case (Inr v)
  from record_data [OF Inr] obtain x where data: "model_data v = Inr [(''type'', PStr ty), (''value'', x),
      (''parent'', case p of None \<Rightarrow> PNone | Some p \<Rightarrow> PStr (ci_id p)), (''name'', PStr name)]"
    and root: "ty = item_type_value CI_CASE \<longrightarrow> p = None" by blast
  let ?d = "[(''type'', PStr ty), (''value'', x), (''parent'', case p of None \<Rightarrow> PNone | Some p \<Rightarrow> PStr (ci_id p)), (''name'', PStr name)]"
  let ?rest = "bindM (check_fields E True (tl (CaseItem_model u)) ?d) (\<lambda>rs. returnM ((''id'', OStr (x_random_id E n)) # rs))"
  have "check_fields E True (CaseItem_model u) ?d n = ?rest (Suc n)" by (rule id_first) (simp add: dget_def)
  from init_steps [where m = ?rest, OF Inr data this] run have R: "bindM ?rest (\<lambda>ob. returnM (item_of ob)) (Suc n) = (r, n')" by (rule trans [OF sym])
  have "keeps (\<lambda>n. n) (bindM ?rest (\<lambda>ob. returnM (item_of ob)))" by (intro keeps_bind keeps_checks keeps_return)
  from keepsD [OF this R] have n': "n' = Suc n" .
  have "n < n' \<and> ci_id i = x_random_id E n \<and> ci_parent i \<in> {None, map_option ci_id p} \<and> built_item i" if "r = Inr i" for i
  proof -
    from R [unfolded that] obtain rs where rs: "check_fields E True (tl (CaseItem_model u)) ?d (Suc n) = (Inr rs, n')"
      "i = item_of ((''id'', OStr (x_random_id E n)) # rs)"
      unfolding bindM_eq_Inr returnM_apply by blast
    from second_parent [OF rs(1)] obtain a b c where abc: "rs = (''parent'', a) # (''name'', b) # (''type'', OStr ty) # c"
      "a \<in> {ONone, case p of None \<Rightarrow> ONone | Some p \<Rightarrow> OStr (ci_id p)}" by blast
    from abc(2) have oa: "o_text a \<in> {None, map_option ci_id p}" by (cases p) (auto simp: o_text_def)
    then show ?thesis
      using item_parts [OF rs(2) [unfolded abc(1)]] item_type_of_case [of ty] root n'
      oa by (cases p) (auto simp: built_item_def o_text_def)
  qed
  with n' show ?thesis by auto
qed

section \<open>Adding one record\<close>

text \<open>
  The state while records are added: the case in memory is a forest without the ids to be drawn, the store
  is as it was, and ids have only been drawn.
\<close>

definition memory_ok :: "(nat \<Rightarrow> string) \<Rightarrow> 'v \<Rightarrow> ('w \<Rightarrow> 'v) \<Rightarrow> nat \<Rightarrow> 'w record_world \<Rightarrow> bool" where
  "memory_ok fresh v0 view n0 s \<longleftrightarrow>
     (case s of (c, b, a) \<Rightarrow>
        forest_ok (cs_items c) \<and> ids_fresh fresh (cw_drawn a) (cs_items c) \<and> view (cw_store a) = v0 \<and> n0 \<le> cw_drawn a)"

lemma memory_ok_simp [simp]:
  "memory_ok fresh v0 view n0 (c, b, a) \<longleftrightarrow>
     forest_ok (cs_items c) \<and> ids_fresh fresh (cw_drawn a) (cs_items c) \<and> view (cw_store a) = v0 \<and> n0 \<le> cw_drawn a"
  by (simp add: memory_ok_def)

definition parent_ok :: "case_item option \<Rightarrow> 'w record_world \<Rightarrow> bool" where
  "parent_ok p s \<longleftrightarrow> (case s of (c, b, a) \<Rightarrow> in_folder (cs_items c) (map_option ci_id p))"

definition item_fits :: "(nat \<Rightarrow> string) \<Rightarrow> case_item \<Rightarrow> 'w record_world \<Rightarrow> bool" where
  "item_fits fresh i s \<longleftrightarrow>
     (case s of (c, b, a) \<Rightarrow>
        ci_id i \<notin> ci_id ` set (cs_items c) \<and> (\<forall>m\<ge>cw_drawn a. fresh m \<noteq> ci_id i) \<and>
        in_folder (cs_items c) (ci_parent i) \<and> built_item i)"

lemma in_store_drawn: "in_store m a = (r, a') \<Longrightarrow> cw_drawn a' = cw_drawn a \<and> (\<exists>w'. m (cw_store a) = (r, w') \<and> cw_store a' = w')"
  by (auto simp: in_store_def split: prod.splits)

lemma parent_from_path:
  assumes inj: "inj (x_random_id (ce_ext env))"
    and run: "get_parent_from_path env (CaseObj c) path True False a = (r, a')"
    and c: "forest_ok (cs_items c)" "ids_fresh (x_random_id (ce_ext env)) (cw_drawn a) (cs_items c)"
  shows "cw_store a' = cw_store a \<and> cw_drawn a \<le> cw_drawn a' \<and>
    (\<forall>p c'. r = Inr (p, c') \<longrightarrow> forest_ok (cs_items c') \<and> ids_fresh (x_random_id (ce_ext env)) (cw_drawn a') (cs_items c') \<and>
       in_folder (cs_items c') (map_option ci_id p) \<and> cs_id c' = cs_id c)"
proof (cases "\<exists>p. path = Some p \<and> p \<noteq> [] \<and> p \<noteq> ''/'' \<and> path_parts p \<noteq> []")
  case False
  with run c have "r = Inr (None, c) \<and> a' = a"
    by (auto simp: get_parent_from_path_def resolve_case_def split: option.splits if_splits)
  with c show ?thesis by (simp add: in_folder_def)
next
  case True
  then obtain p where p: "path = Some p" "p \<noteq> []" "p \<noteq> ''/''" "path_parts p \<noteq> []" by blast
  show ?thesis
  proof (cases "classification_check (ce_ext env) False True (PStr (ce_unrestricted env))")
    case (Inl e)
    with run p c show ?thesis by (auto simp: get_parent_from_path_def resolve_case_def)
  next
    case (Inr cls)
    show ?thesis
    proof (cases "ensure_path (x_random_id (ce_ext env)) (o_text cls) True (path_parts p) (cw_drawn a) (cs_items c) None")
      case None
      with run p Inr c show ?thesis
        by (auto simp: get_parent_from_path_def resolve_case_def drawing_def bindM_def in_folder_def)
    next
      case (Some t)
      obtain items cur n where t: "t = (items, cur, n)" by (cases t)
      from ensure_path_keeps [OF inj Some [unfolded t] c] have E: "forest_ok items"
        "ids_fresh (x_random_id (ce_ext env)) n items" "cw_drawn a \<le> n" "in_folder items cur"
        by (auto simp: in_folder_def)
      from run p Inr Some t have r: "r = Inr (case cur of None \<Rightarrow> None | Some k \<Rightarrow> find_item items k, c\<lparr>cs_items := items\<rparr>)"
        "a' = a\<lparr>cw_drawn := n\<rparr>"
        by (auto simp: get_parent_from_path_def resolve_case_def drawing_def bindM_def)
      have "in_folder items (map_option ci_id (case cur of None \<Rightarrow> None | Some k \<Rightarrow> find_item items k))"
      proof (cases cur)
        case (Some k)
        with E(4) obtain q where q: "q \<in> set items" "ci_id q = k" "is_folder q" by (auto simp: in_folder_def)
        with E(1) find_item_in [of items q] have "find_item items k = Some q" by (auto simp: forest_ok_def)
        with q Some show ?thesis by (auto simp: in_folder_def)
      qed (simp add: in_folder_def)
      with E r show ?thesis by simp
    qed
  qed
qed

lemma resolve_valid:
  fixes K :: "'w corr_env"
  assumes reads: "\<And>t k. keeps view (coll_get (backing_collection (kr_case K) t) k True)"
  shows "valid (memory_ok fresh v0 view n0) (resolve_backing_object K ty k) (\<lambda>_. memory_ok fresh v0 view n0) (memory_ok fresh v0 view n0)"
  unfolding resolve_backing_object_def
proof (rule valid_bind [where Q = "\<lambda>_. memory_ok fresh v0 view n0"])
  let ?I = "memory_ok fresh v0 view n0"
  show "valid ?I (\<lambda>(c, b, a). case dget b (ty, k) of
         Some v \<Rightarrow> (Inr v, c, b, a)
       | None \<Rightarrow>
           (case backing_type ty of
              None \<Rightarrow> (Inl (Exn EInvalidData (''Invalid index type '' @ ty @ '' provided. Must be one of hit,event'')), c, b, a)
            | Some t \<Rightarrow>
                (case in_store (coll_get (backing_collection (kr_case K) t) k True) a of
                   (Inl e, a') \<Rightarrow> (Inl e, c, b, a')
                 | (Inr (v, _), a') \<Rightarrow> (Inr v, c, dset b (ty, k) v, a')))) (\<lambda>_. ?I) ?I"
  proof (rule validI)
    fix s r s' assume I: "?I s" and run: "(case s of (c, b, a) \<Rightarrow> case dget b (ty, k) of
         Some v \<Rightarrow> (Inr v, c, b, a)
       | None \<Rightarrow>
           (case backing_type ty of
              None \<Rightarrow> (Inl (Exn EInvalidData (''Invalid index type '' @ ty @ '' provided. Must be one of hit,event'')), c, b, a)
            | Some t \<Rightarrow>
                (case in_store (coll_get (backing_collection (kr_case K) t) k True) a of
                   (Inl e, a') \<Rightarrow> (Inl e, c, b, a')
                 | (Inr (v, _), a') \<Rightarrow> (Inr v, c, dset b (ty, k) v, a')))) = (r, s')"
    obtain c b a where s: "s = (c, b, a)" by (cases s)
    show "case r of Inl e \<Rightarrow> ?I s' | Inr x \<Rightarrow> ?I s'"
    proof (cases "dget b (ty, k) = None \<and> backing_type ty \<noteq> None")
      case True
      then obtain t where t: "dget b (ty, k) = None" "backing_type ty = Some t" by blast
      obtain q a1 where q: "in_store (coll_get (backing_collection (kr_case K) t) k True) a = (q, a1)"
        by (cases "in_store (coll_get (backing_collection (kr_case K) t) k True) a")
      from in_store_drawn [OF q] keepsD [OF reads] have "cw_drawn a1 = cw_drawn a" "view (cw_store a1) = view (cw_store a)"
        by blast+
      with I run t q s show ?thesis by (cases q) (auto split: prod.splits)
    next
      case False
      with I run s show ?thesis by (auto split: option.splits)
    qed
  qed
qed (auto intro!: valid_raise valid_return split: option.splits)

lemma parent_valid:
  fixes K :: "'w corr_env"
  assumes inj: "inj (x_random_id (ce_ext (kr_case K)))"
  shows "valid (memory_ok (x_random_id (ce_ext (kr_case K))) v0 view n0) (parent_in_memory K path)
    (\<lambda>p s. memory_ok (x_random_id (ce_ext (kr_case K))) v0 view n0 s \<and> parent_ok p s)
    (memory_ok (x_random_id (ce_ext (kr_case K))) v0 view n0)"
proof (rule validI)
  let ?I = "memory_ok (x_random_id (ce_ext (kr_case K))) v0 view n0"
  fix s r s' assume I: "?I s" and run: "parent_in_memory K path s = (r, s')"
  obtain c b a where s: "s = (c, b, a)" by (cases s)
  obtain q a1 where q: "get_parent_from_path (kr_case K) (CaseObj c) path True False a = (q, a1)"
    by (cases "get_parent_from_path (kr_case K) (CaseObj c) path True False a")
  from I s have c: "forest_ok (cs_items c)" "ids_fresh (x_random_id (ce_ext (kr_case K))) (cw_drawn a) (cs_items c)"
    "view (cw_store a) = v0" "n0 \<le> cw_drawn a" by simp_all
  note P = parent_from_path [OF inj q c(1,2)]
  show "case r of Inl e \<Rightarrow> ?I s' | Inr p \<Rightarrow> ?I s' \<and> parent_ok p s'"
  proof (cases q)
    case (Inl e)
    with run s q have "r = Inl e" "s' = (c, b, a1)" by (simp_all add: parent_in_memory_def)
    with P c ids_fresh_mono [OF c(2), of "cw_drawn a1"] show ?thesis by simp
  next
    case (Inr x)
    obtain p c' where x: "x = (p, c')" by (cases x)
    with run s q Inr have "r = Inr p" "s' = (c', b, a1)" by (simp_all add: parent_in_memory_def)
    with P c Inr x show ?thesis by (simp add: parent_ok_def)
  qed
qed

lemma init_valid:
  assumes inj: "inj (x_random_id E)"
  shows "valid (\<lambda>s. memory_ok (x_random_id E) v0 view n0 s \<and> parent_ok p s)
    (in_world (drawing (CaseItem_init E u True (record_item ty k name p))))
    (\<lambda>i s. memory_ok (x_random_id E) v0 view n0 s \<and> item_fits (x_random_id E) i s) (memory_ok (x_random_id E) v0 view n0)"
proof (rule validI)
  let ?I = "memory_ok (x_random_id E) v0 view n0"
  fix s r s' assume pre: "?I s \<and> parent_ok p s"
    and run: "in_world (drawing (CaseItem_init E u True (record_item ty k name p))) s = (r, s')"
  obtain c b a where s: "s = (c, b, a)" by (cases s)
  obtain n' where q: "CaseItem_init E u True (record_item ty k name p) (cw_drawn a) = (r, n')" and s': "s' = (c, b, a\<lparr>cw_drawn := n'\<rparr>)"
    using run s by (auto simp: in_world_def drawing_def split: prod.splits)
  note R = record_item_init [OF q]
  from pre s have c: "forest_ok (cs_items c)" "ids_fresh (x_random_id E) (cw_drawn a) (cs_items c)" "view (cw_store a) = v0"
    "n0 \<le> cw_drawn a" "in_folder (cs_items c) (map_option ci_id p)" by (simp_all add: parent_ok_def)
  have I': "?I s'" using c R ids_fresh_mono [OF c(2), of n'] by (simp add: s')
  show "case r of Inl e \<Rightarrow> ?I s' | Inr i \<Rightarrow> ?I s' \<and> item_fits (x_random_id E) i s'"
  proof (cases r)
    case (Inr i)
    with R have i: "cw_drawn a < n'" "ci_id i = x_random_id E (cw_drawn a)" "ci_parent i \<in> {None, map_option ci_id p}" "built_item i"
      by blast+
    have "x_random_id E m \<noteq> ci_id i" if "n' \<le> m" for m
      using injD [OF inj, of m "cw_drawn a"] i(1,2) that by auto
    moreover have "ci_id i \<notin> ci_id ` set (cs_items c)" using c(2) by (simp add: i(2) ids_fresh_def)
    moreover have "in_folder (cs_items c) (ci_parent i)" using i(3) c(5) by (auto simp: in_folder_def)
    ultimately show ?thesis using I' i(4) Inr by (simp add: item_fits_def s')
  qed (simp add: I')
qed

lemma conflicts_valid: "valid P (conflicts_in_memory i) (\<lambda>_. P) P"
  by (rule validI) (auto simp: conflicts_in_memory_def split: sum.splits)

lemma item_fits_simps [simp]:
  "item_fits fresh (named i) = item_fits fresh i" "item_fits fresh (disambiguated i) = item_fits fresh i"
  by (auto simp: item_fits_def built_item_def fun_eq_iff)

lemma place_valid:
  "valid (\<lambda>s. memory_ok fresh v0 view n0 s \<and> item_fits fresh i s) (place_item cid key i d)
     (\<lambda>_. memory_ok fresh v0 view n0) (memory_ok fresh v0 view n0)"
  unfolding place_item_def
proof (rule valid_bind [where Q = "\<lambda>_. memory_ok fresh v0 view n0"])
  show "valid (\<lambda>s. memory_ok fresh v0 view n0 s \<and> item_fits fresh i s)
     (modifyM (\<lambda>(c, b, a). (c\<lparr>cs_items := cs_items c @ [i\<lparr>ci_class := p_text (d ''classification'')\<rparr>]\<rparr>, b, a)))
     (\<lambda>_. memory_ok fresh v0 view n0) (memory_ok fresh v0 view n0)"
    by (rule valid_modify)
       (auto simp: item_fits_def in_folder_def built_item_def ids_fresh_append intro!: forest_ok_append)
next
  show "valid (memory_ok fresh v0 view n0)
     (bindM (liftM (add_backreference (Some d) cid)) (\<lambda>d'.
      bindM (modifyM (\<lambda>(c, b, a). (c, dset b key (Some d'), a))) (\<lambda>_.
      returnM (cid \<notin> set (p_texts (d ''howler.related'')))))) (\<lambda>_. memory_ok fresh v0 view n0) (memory_ok fresh v0 view n0)" for u
    by (rule validI) (auto simp: bindM_def split: sum.splits)
qed

lemma try_add_valid:
  fixes K :: "'w corr_env"
  assumes reads: "\<And>t k. keeps view (coll_get (backing_collection (kr_case K) t) k True)"
    and inj: "inj (x_random_id (ce_ext (kr_case K)))"
  shows "valid (memory_ok (x_random_id (ce_ext (kr_case K))) v0 view n0) (try_add_record K cid ty k path name)
    (\<lambda>_. memory_ok (x_random_id (ce_ext (kr_case K))) v0 view n0) (memory_ok (x_random_id (ce_ext (kr_case K))) v0 view n0)"
  unfolding try_add_record_def Let_def
proof (rule valid_bind [OF resolve_valid [OF reads]], rule valid_bind [OF parent_valid [OF inj]], rule valid_bind [OF init_valid [OF inj]])
  let ?I = "memory_ok (x_random_id (ce_ext (kr_case K))) v0 view n0"
  let ?F = "\<lambda>i s. ?I s \<and> item_fits (x_random_id (ce_ext (kr_case K))) i s"
  fix d p i
  show "valid (?F i) (bindM (conflicts_in_memory (named i)) (\<lambda>conflict.
     bindM (if conflict then conflicts_in_memory (if conflict then disambiguated (named i) else named i) else returnM False) (\<lambda>again.
     if again then returnM None
     else bindM (place_item cid (ty, k) (if conflict then disambiguated (named i) else named i) d)
            (\<lambda>new. returnM (if new then Some (ty, k) else None))))) (\<lambda>_. ?I) ?I"
  proof (rule valid_bind [where Q = "\<lambda>_. ?F i"])
    show "valid (?F i) (conflicts_in_memory (named i)) (\<lambda>_. ?F i) ?I"
      by (rule valid_weaken [OF conflicts_valid [of "?F i"]]) auto
  next
    fix conflict :: bool
    show "valid (?F i) (bindM (if conflict then conflicts_in_memory (if conflict then disambiguated (named i) else named i) else returnM False) (\<lambda>again.
     if again then returnM None
     else bindM (place_item cid (ty, k) (if conflict then disambiguated (named i) else named i) d)
            (\<lambda>new. returnM (if new then Some (ty, k) else None)))) (\<lambda>_. ?I) ?I"
    proof (rule valid_bind [where Q = "\<lambda>_. ?F i"])
      show "valid (?F i) (if conflict then conflicts_in_memory (if conflict then disambiguated (named i) else named i) else returnM False) (\<lambda>_. ?F i) ?I"
        using valid_weaken [OF conflicts_valid [of "?F i"]] by (auto intro: valid_return)
    next
      fix again :: bool
      have "valid (?F (if conflict then disambiguated (named i) else named i))
          (bindM (place_item cid (ty, k) (if conflict then disambiguated (named i) else named i) d)
            (\<lambda>new. returnM (if new then Some (ty, k) else None))) (\<lambda>_. ?I) ?I"
        by (rule valid_bind [OF place_valid]) (rule valid_return)
      then have "valid (?F i) (bindM (place_item cid (ty, k) (if conflict then disambiguated (named i) else named i) d)
            (\<lambda>new. returnM (if new then Some (ty, k) else None))) (\<lambda>_. ?I) ?I"
        by (cases conflict) simp_all
      then show "valid (?F i) (if again then returnM None
         else bindM (place_item cid (ty, k) (if conflict then disambiguated (named i) else named i) d)
            (\<lambda>new. returnM (if new then Some (ty, k) else None))) (\<lambda>_. ?I) ?I"
        by (auto intro: valid_return)
    qed
  qed
qed

lemmas set_dsetD = subsetD [OF set_dset_subset]

lemma skip_valid: "valid P m (\<lambda>_. P) P \<Longrightarrow> valid P (skip_on_error m) (\<lambda>_. P) P"
proof (rule validI)
  fix s r s' assume v: "valid P m (\<lambda>_. P) P" and "P s" and run: "skip_on_error m s = (r, s')"
  obtain q where q: "m s = (q, s')" using run by (auto simp: skip_on_error_def split: prod.splits sum.splits)
  from validD [OF v \<open>P s\<close> q] show "case r of Inl e \<Rightarrow> P s' | Inr x \<Rightarrow> P s'" by (simp split: sum.splits)
qed

section \<open>What correlation needs of the store\<close>

text \<open>
  A well-formed store, and a batch in memory: the ids to be drawn are in no case, stored or in memory.
\<close>

definition store_ok :: "(nat \<Rightarrow> string) \<Rightarrow> ('w \<Rightarrow> string \<Rightarrow> case_rec option) \<Rightarrow> 'w case_world \<Rightarrow> bool" where
  "store_ok fresh stored a \<longleftrightarrow>
     all_forests (stored (cw_store a)) \<and>
     (\<forall>k c. stored (cw_store a) k = Some c \<longrightarrow> ids_fresh fresh (cw_drawn a) (cs_items c))"

definition batch_ok :: "(nat \<Rightarrow> string) \<Rightarrow> ('w \<Rightarrow> string \<Rightarrow> case_rec option) \<Rightarrow> batch_state \<Rightarrow> 'w case_world \<Rightarrow> bool" where
  "batch_ok fresh stored st a \<longleftrightarrow>
     store_ok fresh stored a \<and>
     (\<forall>k c. (k, Some c) \<in> set (bt_cases st) \<longrightarrow> forest_ok (cs_items c) \<and> ids_fresh fresh (cw_drawn a) (cs_items c))"

text \<open>
  The laws: searching changes no case; a bulk request on the objects behind items changes no case; and one
  on cases replaces, in some of them, the four fields by those of a case of the request with that id.
\<close>

definition correlated :: "case_rec \<Rightarrow> case_rec \<Rightarrow> case_rec" where
  "correlated c c0 =
     c0\<lparr>cs_items := cs_items c, cs_targets := cs_targets c, cs_threats := cs_threats c, cs_indicators := cs_indicators c\<rparr>"

definition correlation_laws :: "'w corr_env \<Rightarrow> ('w \<Rightarrow> string \<Rightarrow> case_rec option) \<Rightarrow> bool" where
  "correlation_laws K stored \<longleftrightarrow>
     keeps stored (kr_rule_cases K) \<and>
     (\<forall>xs q fs n. keeps stored (kr_search K xs q fs n)) \<and>
     (\<forall>t st dirty. keeps stored (coll_bulk (kr_batch_size K) (backing_collection (kr_case K) (backing_of t))
        (kr_bulk_backing K (backing_of t)) (backing_plan K st dirty t))) \<and>
     (\<forall>cs w r w'. coll_bulk (kr_batch_size K) (ce_cases (kr_case K)) (kr_bulk_case K) (case_plan K cs) w = (r, w') \<longrightarrow>
        (\<forall>k. stored w' k = stored w k \<or>
             (\<exists>c c0. c \<in> set cs \<and> stored w k = Some c0 \<and> stored w' k = Some (correlated c c0))))"

lemma in_store_draws_nothing: "keeps cw_drawn (in_store m)"
  by (auto simp: keeps_def dest: in_store_drawn)

lemma recompute_draws_nothing: "keeps cw_drawn (recompute_case_metadata env c)"
  unfolding recompute_case_metadata_def
  by (intro keeps_bind keeps_foldM) (auto simp: item_metadata_def intro!: keeps_bind in_store_draws_nothing split: prod.splits)

locale correlation_store = case_repository "kr_case K" stored
  for K :: "'w corr_env" and stored :: "'w \<Rightarrow> string \<Rightarrow> case_rec option" +
  assumes correlation: "correlation_laws K stored" and ids: "inj (x_random_id (ce_ext (kr_case K)))"
begin

abbreviation fresh :: "nat \<Rightarrow> string" where
  "fresh \<equiv> x_random_id (ce_ext (kr_case K))"

lemma store_ok_later:
  "store_ok fresh stored a \<Longrightarrow> stored (cw_store a') = stored (cw_store a) \<Longrightarrow> cw_drawn a \<le> cw_drawn a' \<Longrightarrow> store_ok fresh stored a'"
  using ids_fresh_mono by (fastforce simp: store_ok_def)

lemma batch_ok_later:
  "batch_ok fresh stored st a \<Longrightarrow> stored (cw_store a') = stored (cw_store a) \<Longrightarrow> cw_drawn a \<le> cw_drawn a' \<Longrightarrow> batch_ok fresh stored st a'"
  using store_ok_later ids_fresh_mono by (fastforce simp: batch_ok_def)

text \<open>A call that changes no case and draws no id.\<close>

lemma in_store_valid:
  assumes "keeps stored m" and "\<And>a a'. stored (cw_store a') = stored (cw_store a) \<Longrightarrow> cw_drawn a' = cw_drawn a \<Longrightarrow> P a \<Longrightarrow> P a'"
  shows "valid P (in_store m) (\<lambda>_. P) P"
proof (rule validI)
  fix a r a' assume "P a" and run: "in_store m a = (r, a')"
  from in_store_drawn [OF run] keepsD [OF assms(1)] have "stored (cw_store a') = stored (cw_store a)" "cw_drawn a' = cw_drawn a"
    by auto
  from assms(2) [OF this \<open>P a\<close>] show "case r of Inl e \<Rightarrow> P a' | Inr x \<Rightarrow> P a'" by (simp split: sum.splits)
qed

lemma same_store: "stored (cw_store a') = stored (cw_store a) \<Longrightarrow> cw_drawn a' = cw_drawn a \<Longrightarrow> batch_ok fresh stored st a \<Longrightarrow> batch_ok fresh stored st a'"
  using batch_ok_later [of st a a'] by simp

lemma same_world: "stored (cw_store a') = stored (cw_store a) \<Longrightarrow> cw_drawn a' = cw_drawn a \<Longrightarrow> store_ok fresh stored a \<Longrightarrow> store_ok fresh stored a'"
  using store_ok_later [of a a'] by simp

lemma in_store_batch:
  "keeps stored m \<Longrightarrow> valid (batch_ok fresh stored st) (in_store m) (\<lambda>_. batch_ok fresh stored st) (batch_ok fresh stored st)"
  by (rule in_store_valid, assumption, rule same_store)

lemma in_store_world:
  "keeps stored m \<Longrightarrow> valid (store_ok fresh stored) (in_store m) (\<lambda>_. store_ok fresh stored) (store_ok fresh stored)"
  by (rule in_store_valid, assumption, rule same_world)

lemma add_record_valid:
  "valid (memory_ok fresh v0 stored n0) (add_record_to_case K cid rule r) (\<lambda>_. memory_ok fresh v0 stored n0) (memory_ok fresh v0 stored n0)"
proof -
  let ?I = "memory_ok fresh v0 stored n0"
  have tried: "valid ?I (skip_on_error (try_add_record K cid ty k path name)) (\<lambda>_. ?I) ?I" for ty k path name
    by (rule skip_valid, rule try_add_valid [OF keeps_back_coll ids])
  show ?thesis
    unfolding add_record_to_case_def
  proof (rule valid_bind [where Q = "\<lambda>_. ?I"], rule valid_lift)
    show "valid ?I (bindM (liftM (kr_render K (cr_destination rule) r)) (\<lambda>rendered.
        case split_path rendered of (path, name) \<Rightarrow> skip_on_error (try_add_record K cid (record_type r) k path name))) (\<lambda>_. ?I) ?I" for k
      by (rule valid_bind [where Q = "\<lambda>_. ?I"], rule valid_lift) (auto simp: tried split: prod.splits)
  qed
qed

lemma add_match_valid: "valid (batch_ok fresh stored st) (add_match K kr st r) (batch_ok fresh stored) (store_ok fresh stored)"
proof (rule validI)
  fix a res a' assume ok: "batch_ok fresh stored st a" and run: "add_match K kr st r a = (res, a')"
  show "case res of Inl e \<Rightarrow> store_ok fresh stored a' | Inr st' \<Rightarrow> batch_ok fresh stored st' a'"
  proof (cases "\<exists>c. dget (bt_cases st) (fst kr) = Some (Some c)")
    case False
    with run ok show ?thesis by (auto simp: add_match_def split: option.splits)
  next
    case True
    then obtain c where c: "dget (bt_cases st) (fst kr) = Some (Some c)" by blast
    obtain q c' b' a1 where q: "add_record_to_case K (fst kr) (snd kr) r (c, bt_backing st, a) = (q, c', b', a1)"
      by (cases "add_record_to_case K (fst kr) (snd kr) r (c, bt_backing st, a)")
    from ok c have "memory_ok fresh (stored (cw_store a)) stored (cw_drawn a) (c, bt_backing st, a)"
      using dget_Some_in [OF c] by (auto simp: batch_ok_def)
    from validD [OF add_record_valid this q] have M: "memory_ok fresh (stored (cw_store a)) stored (cw_drawn a) (c', b', a1)"
      by (simp split: sum.splits)
    then have L: "batch_ok fresh stored st a1" using batch_ok_later [OF ok] by simp
    show ?thesis
    proof (cases q)
      case (Inl e)
      with run c q have "res = Inl e" "a' = a1" by (simp_all add: add_match_def)
      with L show ?thesis by (simp add: batch_ok_def)
    next
      case (Inr x)
      with run c q have "res = Inr (note_added x (st\<lparr>bt_cases := dset (bt_cases st) (fst kr) (Some c'), bt_backing := b'\<rparr>))" "a' = a1"
        by (simp_all add: add_match_def)
      with L M show ?thesis by (auto simp: batch_ok_def note_added_def dest: set_dsetD split: option.splits if_splits)
    qed
  qed
qed

lemma fetch_valid: "valid (batch_ok fresh stored st) (fetch_case K k st) (batch_ok fresh stored) (store_ok fresh stored)"
proof (cases "dmem (bt_cases st) k")
  case True
  then show ?thesis by (simp add: fetch_case_def valid_return)
next
  case False
  show ?thesis
  proof (rule validI)
    fix a res a' assume ok: "batch_ok fresh stored st a" and run: "fetch_case K k st a = (res, a')"
    obtain q where q: "case_get (kr_case K) k a = (q, a')" and res: "res = (case q of Inl e \<Rightarrow> Inl e | Inr v \<Rightarrow> Inr (put_case k v st))"
      using run False by (cases "case_get (kr_case K) k a") (auto simp: fetch_case_def bindM_def split: sum.splits)
    have same: "stored (cw_store a') = stored (cw_store a)" using keepsD [OF keeps_case_get q] by (simp add: view_def)
    have "cw_drawn a' = cw_drawn a" using in_store_drawn q unfolding case_get_def by blast
    with same ok have L: "batch_ok fresh stored st a'" using batch_ok_later [of st a a'] by simp
    show "case res of Inl e \<Rightarrow> store_ok fresh stored a' | Inr st' \<Rightarrow> batch_ok fresh stored st' a'"
    proof (cases q)
      case (Inl e)
      with res L show ?thesis by (simp add: batch_ok_def)
    next
      case (Inr v)
      have "forest_ok (cs_items c) \<and> ids_fresh fresh (cw_drawn a') (cs_items c)" if "v = Some c" for c
      proof -
        from case_get_stored [of k a c a'] q Inr that have "stored (cw_store a) k = Some c" by (simp add: view_def)
        with L same show ?thesis by (auto simp: batch_ok_def store_ok_def all_forests_def)
      qed
      with L res Inr show ?thesis by (auto simp: batch_ok_def put_case_def dest: set_dsetD)
    qed
  qed
qed

lemma matches_valid: "valid (batch_ok fresh stored st) (rule_matches K is r) (\<lambda>_. batch_ok fresh stored st) (batch_ok fresh stored st)"
proof (rule validI)
  fix a res a' assume ok: "batch_ok fresh stored st a" and run: "rule_matches K is r a = (res, a')"
  let ?m = "kr_search K (if cr_indexes r = [] then [''hit''] else cr_indexes r) (cr_query r) [id_filter is] (length is)"
  have "keeps stored ?m" using correlation by (simp add: correlation_laws_def)
  from in_store_batch [OF this] have V: "valid (batch_ok fresh stored st) (in_store ?m) (\<lambda>_. batch_ok fresh stored st) (batch_ok fresh stored st)" .
  obtain q where q: "in_store ?m a = (q, a')" using run by (auto simp: rule_matches_def split: prod.splits sum.splits)
  from validD [OF V ok q] show "case res of Inl e \<Rightarrow> batch_ok fresh stored st a' | Inr x \<Rightarrow> batch_ok fresh stored st a'"
    by (simp split: sum.splits)
qed

lemma batch_store: "batch_ok fresh stored st a \<Longrightarrow> store_ok fresh stored a"
  by (simp add: batch_ok_def)

lemma apply_rule_valid: "valid (batch_ok fresh stored st) (apply_rule K is st kr) (batch_ok fresh stored) (store_ok fresh stored)"
  unfolding apply_rule_def
proof (rule valid_bind [OF fetch_valid])
  fix st'
  have "valid (batch_ok fresh stored st') (bindM (rule_matches K is (snd kr)) (\<lambda>rs. foldM_io (add_match K kr) st' rs))
      (batch_ok fresh stored) (store_ok fresh stored)"
  proof (rule valid_bind)
    show "valid (batch_ok fresh stored st') (rule_matches K is (snd kr)) (\<lambda>_. batch_ok fresh stored st') (store_ok fresh stored)"
      by (rule valid_weaken [OF matches_valid]) (auto intro: batch_store)
    show "valid (batch_ok fresh stored st') (foldM_io (add_match K kr) st' rs) (batch_ok fresh stored) (store_ok fresh stored)" for rs
      by (rule valid_foldM) (rule add_match_valid)
  qed
  then show "valid (batch_ok fresh stored st') (if dget (bt_cases st') (fst kr) = Some None then returnM st'
     else bindM (rule_matches K is (snd kr)) (\<lambda>rs. foldM_io (add_match K kr) st' rs)) (batch_ok fresh stored) (store_ok fresh stored)"
    by (auto intro: valid_return)
qed

lemma rules_valid: "valid (store_ok fresh stored) (get_active_rules K) (\<lambda>_. store_ok fresh stored) (store_ok fresh stored)"
  unfolding get_active_rules_def
proof (rule valid_bind)
  have "keeps stored (kr_rule_cases K)" using correlation by (simp add: correlation_laws_def)
  from in_store_world [OF this]
  show "valid (store_ok fresh stored) (in_store (kr_rule_cases K)) (\<lambda>_. store_ok fresh stored) (store_ok fresh stored)" by blast
qed (auto intro: valid_lift)

text \<open>Writing: what a bulk request leaves of a stored case has the forest of a case of the batch.\<close>

lemma flush_backing_valid: "valid (batch_ok fresh stored st) (flush_backing K st) (\<lambda>_. batch_ok fresh stored st) (batch_ok fresh stored st)"
  unfolding flush_backing_def Let_def
proof (rule valid_forM, rule valid_bind)
  fix t
  have "keeps stored (coll_bulk (kr_batch_size K) (backing_collection (kr_case K) (backing_of t))
      (kr_bulk_backing K (backing_of t)) (backing_plan K st (kr_set_order K (bt_dirty st)) t))"
    using correlation by (simp add: correlation_laws_def)
  from in_store_batch [OF this]
  show "valid (batch_ok fresh stored st) (in_store (coll_bulk (kr_batch_size K) (backing_collection (kr_case K) (backing_of t))
      (kr_bulk_backing K (backing_of t)) (backing_plan K st (kr_set_order K (bt_dirty st)) t)))
      (\<lambda>_. batch_ok fresh stored st) (batch_ok fresh stored st)" by blast
  show "valid (batch_ok fresh stored st) (if ok then returnM ()
        else raiseM (Exn EHowlerRuntime ''Bulk backing record update reported errors while flushing correlation batch''))
      (\<lambda>_. batch_ok fresh stored st) (batch_ok fresh stored st)" for ok
    by (auto intro: valid_return valid_raise)
qed

definition cases_ok :: "case_rec list \<Rightarrow> 'w case_world \<Rightarrow> bool" where
  "cases_ok cs a \<longleftrightarrow>
     store_ok fresh stored a \<and> (\<forall>c\<in>set cs. forest_ok (cs_items c) \<and> ids_fresh fresh (cw_drawn a) (cs_items c))"

lemma cases_ok_later:
  "cases_ok cs a \<Longrightarrow> stored (cw_store a') = stored (cw_store a) \<Longrightarrow> cw_drawn a' = cw_drawn a \<Longrightarrow> cases_ok cs a'"
  using store_ok_later [of a a'] by (simp add: cases_ok_def)

lemma recompute_all:
  "mapM_io (recompute_case_metadata (kr_case K)) xs a = (Inr ys, a') \<Longrightarrow> map cs_items ys = map cs_items xs"
proof (induction xs arbitrary: a ys)
  case (Cons x xs)
  then obtain y zs b where y: "recompute_case_metadata (kr_case K) x a = (Inr y, b)"
    "mapM_io (recompute_case_metadata (kr_case K)) xs b = (Inr zs, a')" "ys = y # zs"
    by (auto simp: bindM_eq_Inr)
  from Cons.IH [OF y(2)] recompute_items [OF y(1)] y(3) show ?case by simp
qed simp

lemma recompute_valid:
  "valid (cases_ok cs) (mapM_io (recompute_case_metadata (kr_case K)) xs)
     (\<lambda>ys a. cases_ok cs a \<and> map cs_items ys = map cs_items xs) (store_ok fresh stored)"
proof (rule validI)
  fix a r a' assume ok: "cases_ok cs a" and run: "mapM_io (recompute_case_metadata (kr_case K)) xs a = (r, a')"
  have "keeps view (mapM_io (recompute_case_metadata (kr_case K)) xs)" by (rule keeps_mapM) (rule keeps_recompute)
  from keepsD [OF this run] have "stored (cw_store a') = stored (cw_store a)" by (simp add: view_def)
  moreover have "cw_drawn a' = cw_drawn a"
    by (rule keepsD [where view = cw_drawn, OF keeps_mapM [OF recompute_draws_nothing] run])
  ultimately have "cases_ok cs a'" using cases_ok_later [OF ok] by blast
  moreover have "map cs_items ys = map cs_items xs" if "r = Inr ys" for ys
    using recompute_all run that by blast
  ultimately show "case r of Inl e \<Rightarrow> store_ok fresh stored a' | Inr ys \<Rightarrow> cases_ok cs a' \<and> map cs_items ys = map cs_items xs"
    by (simp add: cases_ok_def split: sum.splits)
qed

lemma flush_cases_valid: "valid (cases_ok cs) (flush_cases K cs) (\<lambda>_. store_ok fresh stored) (store_ok fresh stored)"
  unfolding flush_cases_def Let_def
proof (rule valid_bind [OF recompute_valid])
  fix ys :: "case_rec list"
  let ?P = "\<lambda>a. cases_ok cs a \<and> map cs_items ys = map cs_items cs"
  have send: "valid ?P (in_store (coll_bulk (kr_batch_size K) (ce_cases (kr_case K)) (kr_bulk_case K) (case_plan K ys)))
      (\<lambda>_. store_ok fresh stored) (store_ok fresh stored)"
  proof (rule validI)
    fix a r a' assume P: "?P a"
      and run: "in_store (coll_bulk (kr_batch_size K) (ce_cases (kr_case K)) (kr_bulk_case K) (case_plan K ys)) a = (r, a')"
    from in_store_drawn [OF run] obtain w' where w': "coll_bulk (kr_batch_size K) (ce_cases (kr_case K)) (kr_bulk_case K)
        (case_plan K ys) (cw_store a) = (r, w')" "cw_store a' = w'" "cw_drawn a' = cw_drawn a" by blast
    from correlation w'(1) have law: "stored w' k = stored (cw_store a) k \<or>
        (\<exists>c c0. c \<in> set ys \<and> stored (cw_store a) k = Some c0 \<and> stored w' k = Some (correlated c c0))" for k
      unfolding correlation_laws_def by blast
    have ys: "forest_ok (cs_items c) \<and> ids_fresh fresh (cw_drawn a) (cs_items c)" if "c \<in> set ys" for c
    proof -
      from that have "cs_items c \<in> set (map cs_items cs)" using P by (metis image_eqI list.set_map)
      with P show ?thesis by (auto simp: cases_ok_def)
    qed
    have "forest_ok (cs_items c) \<and> ids_fresh fresh (cw_drawn a') (cs_items c)" if "stored (cw_store a') k = Some c" for k c
      using law [of k] that P ys w'(2,3) by (auto simp: cases_ok_def store_ok_def all_forests_def correlated_def)
    then have "store_ok fresh stored a'" by (auto simp: store_ok_def all_forests_def)
    then show "case r of Inl e \<Rightarrow> store_ok fresh stored a' | Inr x \<Rightarrow> store_ok fresh stored a'" by (simp split: sum.splits)
  qed
  show "valid ?P (bindM (if plan_empty (case_plan K ys) then returnM True
        else in_store (coll_bulk (kr_batch_size K) (ce_cases (kr_case K)) (kr_bulk_case K) (case_plan K ys))) (\<lambda>ok.
     if \<not> ok then raiseM (Exn EHowlerRuntime ''Bulk case update reported errors while flushing correlation batch'')
     else forM_io ys emit_case)) (\<lambda>_. store_ok fresh stored) (store_ok fresh stored)"
  proof (rule valid_bind [where Q = "\<lambda>_. store_ok fresh stored"])
    show "valid ?P (if plan_empty (case_plan K ys) then returnM True
        else in_store (coll_bulk (kr_batch_size K) (ce_cases (kr_case K)) (kr_bulk_case K) (case_plan K ys)))
        (\<lambda>_. store_ok fresh stored) (store_ok fresh stored)"
      using send by (auto intro: valid_return simp: cases_ok_def)
    have "valid (store_ok fresh stored) (forM_io ys emit_case) (\<lambda>_. store_ok fresh stored) (store_ok fresh stored)"
      by (rule valid_forM) (auto simp: emit_case_def store_ok_def intro!: valid_modify)
    then show "valid (store_ok fresh stored)
        (if \<not> ok then raiseM (Exn EHowlerRuntime ''Bulk case update reported errors while flushing correlation batch'')
         else forM_io ys emit_case) (\<lambda>_. store_ok fresh stored) (store_ok fresh stored)" for ok
      by (auto intro: valid_raise)
  qed
qed

lemma process_valid: "valid (store_ok fresh stored) (process_batch K is) (\<lambda>_. store_ok fresh stored) (store_ok fresh stored)"
proof -
  have matched: "valid (store_ok fresh stored) (foldM_io (apply_rule K is) empty_batch rules) (batch_ok fresh stored) (store_ok fresh stored)" for rules
  proof (rule valid_weaken)
    show "valid (batch_ok fresh stored empty_batch) (foldM_io (apply_rule K is) empty_batch rules) (batch_ok fresh stored) (store_ok fresh stored)"
      by (rule valid_foldM) (rule apply_rule_valid)
  qed (auto simp: batch_ok_def empty_batch_def)
  have flushed: "valid (batch_ok fresh stored st) (thenM (flush_backing K st) (thenM (flush_cases K (modified_cases st)) (returnM (bt_added st))))
      (\<lambda>_. store_ok fresh stored) (store_ok fresh stored)" for st
  proof (rule valid_then)
    show "valid (batch_ok fresh stored st) (flush_backing K st) (\<lambda>_. cases_ok (modified_cases st)) (store_ok fresh stored)"
    proof (rule valid_weaken [OF flush_backing_valid])
      fix a assume ok: "batch_ok fresh stored st a"
      have "\<exists>k. (k, Some c) \<in> set (bt_cases st)" if "c \<in> set (modified_cases st)" for c
        using that by (auto simp: modified_cases_def split: option.splits if_splits)
      with ok show "cases_ok (modified_cases st) a" by (auto simp: cases_ok_def batch_ok_def)
    qed (auto intro: batch_store)
    show "valid (cases_ok (modified_cases st)) (thenM (flush_cases K (modified_cases st)) (returnM (bt_added st)))
        (\<lambda>_. store_ok fresh stored) (store_ok fresh stored)"
      by (rule valid_then [OF flush_cases_valid]) (rule valid_return)
  qed
  have "valid (store_ok fresh stored) (bindM (get_active_rules K) (\<lambda>rules.
        if rules = [] then returnM 0
        else bindM (foldM_io (apply_rule K is) empty_batch rules) (\<lambda>st.
          thenM (flush_backing K st) (thenM (flush_cases K (modified_cases st)) (returnM (bt_added st))))))
      (\<lambda>_. store_ok fresh stored) (store_ok fresh stored)"
  proof (rule valid_bind [OF rules_valid])
    show "valid (store_ok fresh stored) (if rules = [] then returnM 0
        else bindM (foldM_io (apply_rule K is) empty_batch rules) (\<lambda>st.
          thenM (flush_backing K st) (thenM (flush_cases K (modified_cases st)) (returnM (bt_added st)))))
      (\<lambda>_. store_ok fresh stored) (store_ok fresh stored)" for rules
      using valid_bind [OF matched flushed] by (auto intro: valid_return)
  qed
  then show ?thesis unfolding process_batch_def by (auto intro: valid_return)
qed

end

text \<open>
  C27: Correlation keeps the trees. Whatever ids the queue gives the worker, whatever the searches find and
  however requests fail, every stored case keeps a well-formed forest, and no id to be drawn is in use. The
  store and the endpoints may be any that obey the laws, and random ids must not repeat.
\<close>

theorem worker_keeps_forests:
  assumes "repository_laws (kr_case K) stored" and "correlation_laws K stored"
    and "inj (x_random_id (ce_ext (kr_case K)))"
    and "store_ok (x_random_id (ce_ext (kr_case K))) stored a" and "run_worker K n batch pops a = (r, a')"
  shows "store_ok (x_random_id (ce_ext (kr_case K))) stored a'"
proof -
  have R: "correlation_store K stored"
    by (intro correlation_store.intro case_repository.intro correlation_store_axioms.intro assms(1-3))
  note P = correlation_store.process_valid [OF R]
  show ?thesis
    using assms(4,5)
  proof (induction pops arbitrary: batch a)
    case (Cons p pops)
    obtain batch' full where turn: "worker_turn n batch p = (batch', full)" by (cases "worker_turn n batch p")
    show ?case
    proof (cases full)
      case None
      with Cons turn show ?thesis by simp
    next
      case (Some f)
      obtain q b where q: "process_batch K f a = (q, b)" by (cases "process_batch K f a")
      from validD [OF P Cons.prems(1) q] have "store_ok (x_random_id (ce_ext (kr_case K))) stored b" by (simp split: sum.splits)
      from Cons.IH [OF this] Cons.prems(2) turn Some q show ?thesis by simp
    qed
  qed simp
qed

section \<open>In memory\<close>

text \<open>
  The smallest bulk endpoint: an update merges its fields into a stored document, and one for a document
  that does not exist is an error. The name of a collection is an alias of its hot index.
\<close>

definition merge_doc :: "doc \<Rightarrow> (string, py) dict \<Rightarrow> doc" where
  "merge_doc src d = (\<lambda>f. case dget (flatten d) f of Some v \<Rightarrow> Some v | None \<Rightarrow> src f)"

definition alias_of :: "string \<Rightarrow> string" where
  "alias_of i = take (length i - 4) i"

fun shelf_op :: "bulk_op \<Rightarrow> bool \<times> shelves \<Rightarrow> bool \<times> shelves" where
  "shelf_op (BulkUpdate i k d) (errors, w) =
     (case w (alias_of i) k of
        None \<Rightarrow> (True, w)
      | Some h \<Rightarrow> (errors, put_on_shelf (alias_of i) k (merge_doc (eh_source h) d) w))"
| "shelf_op x (errors, w) = (True, w)"

definition shelf_bulk :: "shelves bulk_endpoint" where
  "shelf_bulk ops w = (case fold shelf_op ops (False, w) of (errors, w') \<Rightarrow> (Inr errors, w'))"

text \<open>Cases with these ids are looked at for rules, and every search finds the same records.\<close>

definition shelf_corr :: "odm_ext \<Rightarrow> nat \<Rightarrow> string list \<Rightarrow> (string, py) dict list \<Rightarrow> shelves corr_env" where
  "shelf_corr E dp keys found =
     \<lparr>kr_case = shelf_env E dp, kr_now = 0, kr_instant = (\<lambda>s. None),
      kr_rule_cases = (\<lambda>w. (Inr (concat (map (\<lambda>k. case shelf_cases w k of None \<Rightarrow> [] | Some c \<Rightarrow> [c]) keys)), w)),
      kr_search = (\<lambda>is q fs n. returnM found), kr_render = (\<lambda>t r. Inr t), kr_bulk_case = shelf_bulk,
      kr_bulk_backing = (\<lambda>t. shelf_bulk), kr_batch_size = 500, kr_set_order = (\<lambda>xs. xs)\<rparr>"

lemma shelf_corr_simps [simp]:
  "kr_case (shelf_corr E dp keys found) = shelf_env E dp" "kr_bulk_case (shelf_corr E dp keys found) = shelf_bulk"
  "kr_bulk_backing (shelf_corr E dp keys found) t = shelf_bulk" "kr_batch_size (shelf_corr E dp keys found) = 500"
  by (simp_all add: shelf_corr_def)

lemma prune_correlated:
  "prune_entries correlated_fields [] d = filter (\<lambda>kv. fst kv \<in> set correlated_fields) d"
proof (induction d)
  case (Cons kv d)
  have "CHR ''.'' \<notin> set p" if "p \<in> set correlated_fields" for p using that by (auto simp: correlated_fields_def)
  then have "\<not> list_ex (\<lambda>p. py_startswith p (k @ ''.'')) correlated_fields" for k
    by (auto simp: list_ex_iff startswith_iff) (metis in_set_conv_decomp)
  with Cons show ?case by (cases kv) (simp add: under_def Let_def)
qed simp

lemma filter_opt_entry: "k \<notin> set correlated_fields \<Longrightarrow> filter (\<lambda>kv. fst kv \<in> set correlated_fields) (opt_entry k x) = []"
  by (simp add: opt_entry_def split: option.splits)

lemma case_update_fields:
  "case_update c = [(''targets'', texts (cs_targets c)), (''threats'', texts (cs_threats c)),
      (''indicators'', texts (cs_indicators c)), (''items'', PList (map dump_item (cs_items c)))]"
proof -
  have "k \<notin> set correlated_fields" if "k \<in> {''overview'', ''created'', ''updated'', ''start'', ''end''}" for k
    using that by (auto simp: correlated_fields_def)
  note none = filter_opt_entry [OF this]
  show ?thesis
    unfolding case_update_def prune_to_paths_def case_primitives_def prune_correlated
    by (simp add: none) (simp add: correlated_fields_def)
qed

lemma load_merged: "load_case (merge_doc src (case_update c)) = correlated c (load_case src)"
proof -
  have "flatten (case_update c) = case_update c" by (simp add: case_update_fields flatten_def flatten_with_def texts_def under_def)
  then show ?thesis
    by (simp add: merge_doc_def case_update_fields load_case_def correlated_def dget_def comp_def)
qed

text \<open>What a request of updates leaves of the cases.\<close>

definition case_targets :: "bulk_op list \<Rightarrow> case_rec list \<Rightarrow> bool" where
  "case_targets ops cs \<longleftrightarrow>
     (\<forall>x\<in>set ops. \<exists>i k d. x = BulkUpdate i k d \<and> (alias_of i = ''howler-case'' \<longrightarrow> (\<exists>c\<in>set cs. d = case_update c)))"

definition cases_updated :: "case_rec list \<Rightarrow> shelves \<Rightarrow> shelves \<Rightarrow> bool" where
  "cases_updated cs w w' \<longleftrightarrow>
     (\<forall>k. shelf_cases w' k = shelf_cases w k \<or>
          (\<exists>c c0. c \<in> set cs \<and> shelf_cases w k = Some c0 \<and> shelf_cases w' k = Some (correlated c c0)))"

lemma cases_updated_refl: "cases_updated cs w w"
  by (simp add: cases_updated_def)

lemma cases_updated_trans:
  assumes "cases_updated cs u v" and "cases_updated cs v w"
  shows "cases_updated cs u w"
  unfolding cases_updated_def
proof
  fix k
  from assms have "shelf_cases v k = shelf_cases u k \<or> (\<exists>c c0. c \<in> set cs \<and> shelf_cases u k = Some c0 \<and> shelf_cases v k = Some (correlated c c0))"
    "shelf_cases w k = shelf_cases v k \<or> (\<exists>c c0. c \<in> set cs \<and> shelf_cases v k = Some c0 \<and> shelf_cases w k = Some (correlated c c0))"
    by (simp_all add: cases_updated_def)
  moreover have "correlated c (correlated c' c0) = correlated c c0" for c c' c0 by (simp add: correlated_def)
  ultimately show "shelf_cases w k = shelf_cases u k \<or>
      (\<exists>c c0. c \<in> set cs \<and> shelf_cases u k = Some c0 \<and> shelf_cases w k = Some (correlated c c0))"
    by (elim disjE exE conjE) (simp, metis, metis, metis option.inject)
qed

lemma shelf_op_updates:
  assumes "case_targets [x] cs"
  shows "cases_updated cs w (snd (shelf_op x (e, w)))"
proof -
  from assms obtain i k d where x: "x = BulkUpdate i k d" "alias_of i = ''howler-case'' \<longrightarrow> (\<exists>c\<in>set cs. d = case_update c)"
    by (auto simp: case_targets_def)
  show ?thesis
    using x(2)
    by (auto simp: x(1) cases_updated_def shelf_cases_def put_on_shelf_def load_merged split: option.splits)
qed

lemma shelf_ops_update: "case_targets ops cs \<Longrightarrow> cases_updated cs w (snd (fold shelf_op ops (e, w)))"
proof (induction ops arbitrary: e w)
  case (Cons x ops)
  obtain e' w' where x: "shelf_op x (e, w) = (e', w')" by (cases "shelf_op x (e, w)")
  from Cons.prems have "case_targets [x] cs" "case_targets ops cs" by (simp_all add: case_targets_def)
  with shelf_op_updates [of x cs w e] Cons.IH [of w' e'] x show ?case by (auto intro: cases_updated_trans)
qed (simp add: cases_updated_refl)

lemma shelf_call:
  assumes "case_targets ops cs" and "bulk_call c shelf_bulk ops w = (r, w')"
  shows "cases_updated cs w w'"
proof -
  obtain e v where v: "fold shelf_op ops (False, w) = (e, v)" by (cases "fold shelf_op ops (False, w)")
  then have send: "shelf_bulk ops w = (Inr e, v)" by (simp add: shelf_bulk_def)
  have "w' = w \<or> w' = v"
    using assms(2) send by (cases "co_max_attempts c") (auto simp: bulk_call_def with_retries_def split: sum.splits)
  with shelf_ops_update [OF assms(1), of w False] v show ?thesis by (auto simp: cases_updated_refl)
qed

lemma shelf_calls:
  "case_targets (concat bs) cs \<Longrightarrow> mapM_io (bulk_call c shelf_bulk) bs w = (r, w') \<Longrightarrow> cases_updated cs w w'"
proof (induction bs arbitrary: w r w')
  case (Cons b bs)
  obtain q v where q: "bulk_call c shelf_bulk b w = (q, v)" by (cases "bulk_call c shelf_bulk b w")
  from Cons.prems(1) have t: "case_targets b cs" "case_targets (concat bs) cs" by (auto simp: case_targets_def)
  obtain q' u where u: "mapM_io (bulk_call c shelf_bulk) bs v = (q', u)" by (cases "mapM_io (bulk_call c shelf_bulk) bs v")
  have "w' = v \<or> w' = u" using Cons.prems(2) q u by (auto simp: bindM_def split: sum.splits)
  with shelf_call [OF t(1) q] Cons.IH [OF t(2) u] show ?case by (auto intro: cases_updated_trans)
qed (simp add: cases_updated_refl)

lemma shelf_coll_bulk:
  assumes "case_targets (bp_operations p) cs" and "0 < n" and "coll_bulk n c shelf_bulk p w = (r, w')"
  shows "cases_updated cs w w'"
proof -
  have "plan_batches (Some n) p = Inr (chunks (nat n) (bp_operations p))" using assms(2) by (simp add: plan_batches_def)
  moreover obtain q v where q: "mapM_io (bulk_call c shelf_bulk) (chunks (nat n) (bp_operations p)) w = (q, v)"
    by (cases "mapM_io (bulk_call c shelf_bulk) (chunks (nat n) (bp_operations p)) w")
  moreover have "concat (chunks (nat n) (bp_operations p)) = bp_operations p" using assms(2) by (simp add: concat_chunks)
  ultimately show ?thesis
    using shelf_calls [OF _ q, of cs] assms(1,3) by (auto simp: coll_bulk_def bindM_def split: sum.splits)
qed

lemma queue_update_plan:
  "bp_indexes (queue_update k None d p) = bp_indexes p"
  "bp_operations (queue_update k None d p) = bp_operations p @ map (\<lambda>i. BulkUpdate i k d) (bp_indexes p)"
  by (simp_all add: queue_update_def queue_def target_indexes_def truthy_text_def)

lemma shelf_plan [simp]:
  "bp_indexes (get_bulk_plan (shelf_collection n)) = [n @ ''_hot'']" "bp_operations (get_bulk_plan (shelf_collection n)) = []"
  by (simp_all add: get_bulk_plan_def ElasticBulkPlan_def index_name_def)

lemma alias_of_hot [simp]: "alias_of (n @ ''_hot'') = n"
  by (simp add: alias_of_def)

lemma backing_targets:
  assumes "bp_indexes p = [n @ ''_hot'']" and "n \<noteq> ''howler-case''" and "case_targets (bp_operations p) []"
  shows "case_targets (bp_operations (fold (\<lambda>(t, k) p. case dget b (t, k) of
            Some (Some d) \<Rightarrow> if t = ty then queue_update k None (related_update d) p else p
          | _ \<Rightarrow> p) dirty p)) []"
  using assms
proof (induction dirty arbitrary: p)
  case (Cons tk dirty)
  obtain t k where tk: "tk = (t, k)" by (cases tk)
  show ?case
  proof (cases "\<exists>d. dget b (t, k) = Some (Some d) \<and> t = ty")
    case True
    then obtain d where d: "dget b (t, k) = Some (Some d)" "t = ty" by blast
    have "case_targets (bp_operations (queue_update k None (related_update d) p)) []"
      using Cons.prems by (auto simp: case_targets_def queue_update_plan)
    with Cons.IH [of "queue_update k None (related_update d) p"] Cons.prems d show ?thesis by (simp add: tk queue_update_plan)
  next
    case False
    with Cons show ?thesis by (auto simp: tk split: option.splits)
  qed
qed simp

lemma case_plan_targets:
  assumes "bp_indexes p = [n @ ''_hot'']" and "set cs \<subseteq> set all" and "case_targets (bp_operations p) all"
  shows "case_targets (bp_operations (fold (\<lambda>c. queue_update (cs_id c) None (case_update c)) cs p)) all"
  using assms
proof (induction cs arbitrary: p)
  case (Cons c cs)
  have "case_targets (bp_operations (queue_update (cs_id c) None (case_update c) p)) all"
    using Cons.prems by (auto simp: case_targets_def queue_update_plan)
  with Cons.IH [of "queue_update (cs_id c) None (case_update c) p"] Cons.prems show ?case by (simp add: queue_update_plan)
qed simp

lemma no_operations: "case_targets [] cs"
  by (simp add: case_targets_def)

lemma shelf_correlation_laws: "correlation_laws (shelf_corr E dp keys found) shelf_cases"
  unfolding correlation_laws_def
proof (intro conjI allI impI)
  show "keeps shelf_cases (kr_rule_cases (shelf_corr E dp keys found))" by (simp add: shelf_corr_def keeps_def)
  show "keeps shelf_cases (kr_search (shelf_corr E dp keys found) xs q fs n)" for xs q fs n
    by (simp add: shelf_corr_def keeps_return)
next
  fix t st dirty
  let ?n = "if backing_of t = CI_HIT then ''howler-hit'' else ''howler-observable''"
  have T: "case_targets (bp_operations (backing_plan (shelf_corr E dp keys found) st dirty t)) []"
    unfolding backing_plan_def by (rule backing_targets [where n = ?n]) (auto simp: no_operations)
  have "shelf_cases w' = shelf_cases w" if "coll_bulk 500 (shelf_collection ?n) shelf_bulk
      (backing_plan (shelf_corr E dp keys found) st dirty t) w = (r, w')" for w r w'
    using shelf_coll_bulk [OF T _ that] by (auto simp: cases_updated_def)
  then show "keeps shelf_cases (coll_bulk (kr_batch_size (shelf_corr E dp keys found))
      (backing_collection (kr_case (shelf_corr E dp keys found)) (backing_of t))
      (kr_bulk_backing (shelf_corr E dp keys found) (backing_of t)) (backing_plan (shelf_corr E dp keys found) st dirty t))"
    by (auto simp: keeps_def)
next
  fix cs w r w' k
  assume run: "coll_bulk (kr_batch_size (shelf_corr E dp keys found)) (ce_cases (kr_case (shelf_corr E dp keys found)))
      (kr_bulk_case (shelf_corr E dp keys found)) (case_plan (shelf_corr E dp keys found) cs) w = (r, w')"
  have "case_targets (bp_operations (case_plan (shelf_corr E dp keys found) cs)) cs"
    unfolding case_plan_def by (rule case_plan_targets [where n = "''howler-case''"]) (simp_all add: no_operations)
  from shelf_coll_bulk [OF this _ run [simplified]]
  show "shelf_cases w' k = shelf_cases w k \<or>
      (\<exists>c c0. c \<in> set cs \<and> shelf_cases w k = Some c0 \<and> shelf_cases w' k = Some (correlated c c0))"
    by (auto simp: cases_updated_def)
qed

lemma shelf_ext: "ce_ext (shelf_env E dp) = E"
  by (simp add: shelf_env_def)

lemma sample_ids: "inj (x_random_id sample_ext)"
  by (rule injI) (auto simp: sample_ext_def dest: arg_cong [where f = length])

interpretation shelf_correlation: correlation_store "shelf_corr sample_ext dp keys found" shelf_cases for dp keys found
  by (intro correlation_store.intro case_repository.intro correlation_store_axioms.intro shelf_correlation_laws)
     (simp_all add: shelf_laws shelf_ext sample_ids)

section \<open>An instance\<close>

definition sample_rule :: case_rule where
  "sample_rule = \<lparr>cr_rule_id = ''r'', cr_destination = ''alerts/new'', cr_query = ''*:*'', cr_author = ''u'', cr_enabled = True,
     cr_created_at = Some ''2025-01-01T00:00:00.000000Z'', cr_timeframe = None, cr_expire_after_resolved = False, cr_indexes = []\<rparr>"

definition ruled_world :: "shelves case_world" where
  "ruled_world =
     \<lparr>cw_store = put_on_shelf ''howler-hit'' ''h1'' [''howler.id'' \<mapsto> PStr ''h1'', ''howler.related'' \<mapsto> texts []]
        (put_on_shelf ''howler-case'' ''c1'' (dump_case (sample_case\<lparr>cs_id := ''c1'', cs_rules := [sample_rule]\<rparr>)) (\<lambda>i k. None)),
      cw_events = [], cw_drawn = 7\<rparr>"

definition found_record :: "(string, py) dict" where
  "found_record = [(''howler'', PDict [(''id'', PStr ''h1'')]), (''__index'', PStr ''hit'')]"

lemma ruled_world_ok: "store_ok (x_random_id sample_ext) shelf_cases ruled_world"
proof -
  have "shelf_cases (cw_store ruled_world) = [''c1'' \<mapsto> sample_case\<lparr>cs_id := ''c1'', cs_rules := [sample_rule]\<rparr>]"
    by (simp add: ruled_world_def shelf_cases_def put_on_shelf_def fun_eq_iff)
  moreover have "ids_fresh (x_random_id sample_ext) 7 sample_items"
    by (auto simp: ids_fresh_def sample_items_def folder_item_def new_folder_def hit_item_def sample_ext_def dest!: arg_cong [where f = length])
  ultimately show ?thesis
    by (auto simp: store_ok_def all_forests_def sample_case_def sample_forest ruled_world_def split: if_splits)
qed

lemma worker_keeps_forests_witness:
  "store_ok (x_random_id sample_ext) shelf_cases
     (snd (run_worker (shelf_corr sample_ext 5 [''c1''] [found_record]) 10 [] [Some ''h1'', None] ruled_world))"
proof -
  let ?K = "shelf_corr sample_ext 5 [''c1''] [found_record]"
  obtain r a where run: "run_worker ?K 10 [] [Some ''h1'', None] ruled_world = (r, a)"
    by (cases "run_worker ?K 10 [] [Some ''h1'', None] ruled_world")
  have "store_ok (x_random_id (ce_ext (kr_case ?K))) shelf_cases a"
    by (rule worker_keeps_forests [OF _ shelf_correlation_laws _ _ run]) (simp_all add: shelf_laws shelf_ext sample_ids ruled_world_ok)
  then show ?thesis by (simp only: run snd_conv shelf_ext shelf_corr_simps)
qed

lemma worker_loses_nothing_witness:
  "\<exists>bs rest. run_worker (shelf_corr sample_ext 5 [''c1''] []) 2 [] [Some ''a'', Some ''b'', None, Some ''c'', None] ruled_world =
       (Inr rest, fold (\<lambda>full a. snd (process_batch (shelf_corr sample_ext 5 [''c1''] []) full a)) bs ruled_world) \<and>
     concat bs @ rest = [] @ popped_items [Some ''a'', Some ''b'', None, Some ''c'', None] \<and> length ` set bs \<subseteq> {1..2} \<and> length rest < 2 \<and>
     ([Some ''a'', Some ''b'', None, Some ''c'', None] \<noteq> [] \<and> last [Some ''a'', Some ''b'', None, Some ''c'', None] = None \<longrightarrow> rest = [])"
  by (rule worker_loses_nothing) simp

lemma rule_only_expires_witness:
  "rule_active (\<lambda>s. Some 0) 0 sample_case (sample_rule\<lparr>cr_timeframe := Some 1\<rparr>) = Inr True"
  by (rule rule_only_expires [where later = 5])
     (simp_all add: rule_active_def sample_rule_def instant_of_def expiry_def MAX_DAYS_def MICROS_PER_DAY_def MAX_INSTANT_def)

definition endless_world :: "shelves case_world" where
  "endless_world =
     \<lparr>cw_store = put_on_shelf ''howler-case'' ''c1'' (dump_case (sample_case\<lparr>cs_rules := [sample_rule\<lparr>cr_timeframe := Some 1000000000\<rparr>]\<rparr>)) (\<lambda>i k. None),
      cw_events = [], cw_drawn = 0\<rparr>"

lemma long_timeframe_stops_all_witness:
  "\<exists>e. process_batch (shelf_corr sample_ext 5 [''c1''] [found_record]) [''h1''] endless_world = (Inl e, endless_world)"
  by (rule long_timeframe_stops_all [where cs = "[sample_case\<lparr>cs_rules := [sample_rule\<lparr>cr_timeframe := Some 1000000000\<rparr>]\<rparr>]"
        and c = "sample_case\<lparr>cs_rules := [sample_rule\<lparr>cr_timeframe := Some 1000000000\<rparr>]\<rparr>"
        and r = "sample_rule\<lparr>cr_timeframe := Some 1000000000\<rparr>" and days = 1000000000])
     (simp_all add: shelf_corr_def in_store_def endless_world_def shelf_cases_def put_on_shelf_def sample_rule_def MAX_DAYS_def)

text \<open>
  A record the case already holds elsewhere is skipped, but the folders of its path have been made and are
  written with the case.
\<close>

definition known_record :: "(string, py) dict" where
  "known_record = [(''howler'', PDict [(''id'', PStr ''hit-1'')]), (''__index'', PStr ''hit'')]"

definition known_world :: "shelves case_world" where
  "known_world =
     \<lparr>cw_store = put_on_shelf ''howler-hit'' ''hit-1'' [''howler.id'' \<mapsto> PStr ''hit-1'']
        (put_on_shelf ''howler-case'' ''c1''
           (dump_case (sample_case\<lparr>cs_id := ''c1'', cs_rules := [sample_rule\<lparr>cr_destination := ''intake/x''\<rparr>]\<rparr>)) (\<lambda>i k. None)),
      cw_events = [], cw_drawn = 7\<rparr>"

lemma skipped_record_leaves_folders:
  "case process_batch (shelf_corr sample_ext 5 [''c1''] [known_record]) [''hit-1''] known_world of
     (r, a) \<Rightarrow> r = Inr 0 \<and>
       map_option (\<lambda>c. map ci_name (cs_items c)) (shelf_cases (cw_store a) ''c1'') =
         Some [Some ''alerts'', Some ''web'', None, Some ''intake'']"
  by code_simp

end
