(* ===== verification/Search.thy ===== *)
theory Search
  imports Bulk Concurrency
begin

text \<open>
  The searches of \<^verbatim>\<open>ESCollection\<close> (\<^verbatim>\<open>datastore/collection.py\<close>): building the body of a request from the
  caller's arguments, sending it, and reading the answer. Requests and answers are JSON values. The calls of
  the Elasticsearch client, the constructor of a model's objects (with a mask) and the parser of date
  expressions are parameters. A hit with computed \<^verbatim>\<open>fields\<close>, which only a request with script fields or an
  EQL request gets, is not modelled.
\<close>

section \<open>JSON answers\<close>

definition py_item :: "py \<Rightarrow> string \<Rightarrow> py result" where
  "py_item v k =
     (case v of
        PDict d \<Rightarrow> dict_index d k
      | _ \<Rightarrow> Inl (Exn ETypeError ''indices must be integers or slices, not str''))"

definition py_get :: "py \<Rightarrow> string \<Rightarrow> py \<Rightarrow> py result" where
  "py_get v k dflt =
     (case v of
        PDict d \<Rightarrow> Inr (case dget d k of Some x \<Rightarrow> x | None \<Rightarrow> dflt)
      | _ \<Rightarrow> Inl (Exn EAttributeError ''object has no attribute get''))"

definition py_path :: "py \<Rightarrow> string list \<Rightarrow> py result" where
  "py_path v ks = foldR py_item v ks"

definition items_of :: "py \<Rightarrow> py list" where
  "items_of v = (case v of PList xs \<Rightarrow> xs | _ \<Rightarrow> [])"

section \<open>Sorting\<close>

definition rename_id :: "(string, py) dict \<Rightarrow> (string, py) dict" where
  "rename_id d = foldl (\<lambda>e (k, v). dset e (if k = ''_id'' then ''id'' else k) v) [] d"

definition unknown_sort :: "string \<Rightarrow> exn" where
  "unknown_sort s = Exn ESearch (''Unknown sort parameter '' @ s)"

text \<open>
  \<^verbatim>\<open>parse_sort\<close> of a text. With no direction the code compares the list of parts with \<^verbatim>\<open>_id\<close>, which is never
  equal, and returns that list.
\<close>

definition parse_sort_text :: "string \<Rightarrow> bool \<Rightarrow> py result" where
  "parse_sort_text s ret_list =
     (case split_char CHR '' '' s of
        [p] \<Rightarrow> Inr (if ret_list then PList [PList [PStr p]] else PList [PStr p])
      | [p, dir] \<Rightarrow>
          if dir \<notin> {''asc'', ''desc''} then Inl (unknown_sort s)
          else let d = PDict [(if p = ''_id'' then ''id'' else p, PStr dir)] in
               Inr (if ret_list then PList [d] else d)
      | _ \<Rightarrow> Inl (unknown_sort s))"

lemma mapR_cong [fundef_cong]: "xs = ys \<Longrightarrow> (\<And>x. x \<in> set ys \<Longrightarrow> f x = g x) \<Longrightarrow> mapR f xs = mapR g ys"
proof (induction xs arbitrary: ys)
  case (Cons x xs)
  have "mapR f xs = mapR g xs" by (rule Cons.IH) (use Cons.prems in auto)
  moreover have "f x = g x" using Cons.prems by auto
  ultimately show ?case using Cons.prems(1) by auto
qed simp

fun parse_sort :: "py \<Rightarrow> bool \<Rightarrow> py result" where
  "parse_sort PNone ret_list = Inr PNone"
| "parse_sort (PList rows) ret_list = bindR (mapR (\<lambda>r. parse_sort r False) rows) (\<lambda>rs. Inr (PList rs))"
| "parse_sort (PDict d) ret_list = Inr (PDict (rename_id d))"
| "parse_sort (PStr s) ret_list = parse_sort_text s ret_list"
| "parse_sort v ret_list = Inl (Exn EAttributeError ''object has no attribute split'')"

definition sort_row :: "py \<Rightarrow> string list result" where
  "sort_row v =
     (case v of
        PDict d \<Rightarrow> Inr (map (\<lambda>(k, x). k @ '':'' @ py_str x) d)
      | _ \<Rightarrow> Inl (Exn EAttributeError ''object has no attribute items''))"

definition sort_str :: "py \<Rightarrow> py result" where
  "sort_str v =
     (if v = PNone then Inr PNone
      else bindR (py_iter v) (\<lambda>ds. bindR (mapR sort_row ds) (\<lambda>rss. Inr (PStr (py_join '','' (concat rss))))))"

section \<open>The arguments of a search\<close>

definition DEFAULT_SORT :: py where "DEFAULT_SORT = PList [PDict [(''_id'', PStr ''asc'')]]"
definition DEFAULT_ROW_SIZE :: int where "DEFAULT_ROW_SIZE = 25"
definition DEFAULT_SEARCH_FIELD :: string where "DEFAULT_SEARCH_FIELD = ''__text__''"
definition MAX_FACET_LIMIT :: int where "MAX_FACET_LIMIT = 100"
definition SCROLL_TIMEOUT :: string where "SCROLL_TIMEOUT = ''5m''"
definition CUSTOM_AGG_PREFIX :: string where "CUSTOM_AGG_PREFIX = ''_custom_agg__''"

definition DEFAULT_SEARCH_VALUES :: "(string, py) dict" where
  "DEFAULT_SEARCH_VALUES =
     [(''timeout'', PNone), (''field_list'', PNone), (''facet_active'', PBool False), (''facet_mincount'', PInt 1),
      (''facet_fields'', PList []), (''stats_active'', PBool False), (''stats_fields'', PList []),
      (''field_script'', PNone), (''filters'', PList []), (''group_active'', PBool False), (''group_field'', PNone),
      (''group_sort'', PNone), (''group_limit'', PInt 1), (''histogram_active'', PBool False),
      (''histogram_field'', PNone), (''histogram_type'', PNone), (''histogram_gap'', PNone),
      (''histogram_mincount'', PInt 1), (''histogram_start'', PNone), (''histogram_end'', PNone),
      (''start'', PInt 0), (''rows'', PInt DEFAULT_ROW_SIZE), (''query'', PStr ''*''), (''sort'', DEFAULT_SORT),
      (''df'', PNone), (''script_fields'', PList []), (''aggregations'', PNone)]"

definition parse_args :: "(string \<times> py) list \<Rightarrow> (string, py) dict result" where
  "parse_args args =
     foldR (\<lambda>d (k, v).
        if \<not> dmem d k
        then Inl (Exn EHowlerValue (''Unknown query argument: '' @ k @ '' '' @ py_str v @ '' of ['' @
               py_join ''; '' (map (\<lambda>(n, x). n @ ''='' @ py_str x) args) @ '']''))
        else Inr (dset d k v)) DEFAULT_SEARCH_VALUES args"

definition arg :: "(string, py) dict \<Rightarrow> string \<Rightarrow> py" where
  "arg p k = (case dget p k of Some v \<Rightarrow> v | None \<Rightarrow> PNone)"

section \<open>The body of a request\<close>

definition query_string :: "py \<Rightarrow> py" where
  "query_string q = PDict [(''query_string'', PDict [(''query'', q)])]"

text \<open>\<^verbatim>\<open>{"bool": {"must": ..., "filter": ...}}\<close>, with the default field when there is one.\<close>

definition query_clause :: "py \<Rightarrow> py \<Rightarrow> py list \<Rightarrow> py" where
  "query_clause q df filters =
     PDict [(''bool'', PDict
       [(''must'', PDict [(''query_string'', PDict
           ([(''query'', q)] @ (if truthy df then [(''default_field'', df)] else [])))]),
        (''filter'', PList (map query_string filters))])]"

definition field_source :: "string list \<Rightarrow> (string, py) dict \<Rightarrow> py" where
  "field_source stored p =
     (if truthy (arg p ''field_list'') then arg p ''field_list'' else PList (map PStr stored))"

definition pair_of :: "py \<Rightarrow> (py \<times> py) result" where
  "pair_of v =
     bindR (py_iter v) (\<lambda>xs. case xs of
        [a, b] \<Rightarrow> Inr (a, b)
      | _ \<Rightarrow> Inl (Exn EValueError ''wrong number of values to unpack''))"

definition script_field :: "py \<Rightarrow> (string \<times> py) result" where
  "script_field v =
     bindR (pair_of v) (\<lambda>(n, s).
     Inr (py_str n, PDict [(''script'', PDict [(''lang'', PStr ''painless''), (''source'', s)])]))"

definition aggs_of :: "(string, py) dict \<Rightarrow> (string, py) dict" where
  "aggs_of body = (case dget body ''aggregations'' of Some (PDict a) \<Rightarrow> a | _ \<Rightarrow> [])"

text \<open>\<^verbatim>\<open>query_body.setdefault("aggregations", {})\<close>, then the entries.\<close>

definition add_aggs :: "(string \<times> py) list \<Rightarrow> (string, py) dict \<Rightarrow> (string, py) dict" where
  "add_aggs entries body = dset body ''aggregations'' (PDict (foldl (\<lambda>a (k, v). dset a k v) (aggs_of body) entries))"

definition histogram_agg :: "(string, py) dict \<Rightarrow> py" where
  "histogram_agg p =
     PDict [(py_str (arg p ''histogram_type''), PDict
       [(''field'', arg p ''histogram_field''),
        (if arg p ''histogram_type'' = PStr ''date_histogram'' then ''fixed_interval'' else ''interval'',
           arg p ''histogram_gap''),
        (''min_doc_count'', arg p ''histogram_mincount''),
        (''extended_bounds'', PDict [(''min'', arg p ''histogram_start''), (''max'', arg p ''histogram_end'')])])]"

definition facet_agg :: "(string, py) dict \<Rightarrow> py \<Rightarrow> string \<times> py" where
  "facet_agg p f =
     (py_str f, PDict [(''terms'', PDict
        (if truthy (arg p ''field_script'')
         then [(''script'', PDict [(''source'', arg p ''field_script'')]), (''min_doc_count'', arg p ''facet_mincount'')]
         else [(''field'', f), (''min_doc_count'', arg p ''facet_mincount''), (''size'', arg p ''rows'')]))])"

definition stats_agg :: "(string, py) dict \<Rightarrow> py \<Rightarrow> string \<times> py" where
  "stats_agg p f =
     (py_str f @ ''_stats'', PDict [(''stats'', PDict
        (if truthy (arg p ''field_script'') then [(''script'', PDict [(''source'', arg p ''field_script'')])]
         else [(''field'', f)]))])"

definition group_collapse :: "string list \<Rightarrow> (string, py) dict \<Rightarrow> py result" where
  "group_collapse stored p =
     bindR (parse_sort (arg p ''group_sort'') True) (\<lambda>gs.
     Inr (PDict [(''field'', arg p ''group_field''), (''inner_hits'', PDict
       [(''name'', PStr ''group''), (''_source'', field_source stored p), (''size'', arg p ''group_limit''),
        (''sort'', if truthy gs then gs else PList [PDict [(py_str (arg p ''group_field''), PStr ''asc'')]])])]))"

text \<open>Everything but the caller's own aggregations, which need the settings of the cluster.\<close>

definition query_body :: "string list \<Rightarrow> (string, py) dict \<Rightarrow> (string, py) dict result" where
  "query_body stored p =
     bindR (parse_sort (arg p ''sort'') True) (\<lambda>srt.
     bindR (mapR script_field (items_of (arg p ''script_fields''))) (\<lambda>scripts.
     bindR (if truthy (arg p ''group_active'') then bindR (group_collapse stored p) (\<lambda>g. Inr [(''collapse'', g)])
            else Inr []) (\<lambda>collapse.
     let b0 = [(''query'', query_clause (arg p ''query'') (arg p ''df'') (items_of (arg p ''filters''))),
               (''from_'', arg p ''start''), (''size'', arg p ''rows''), (''sort'', srt),
               (''_source'', field_source stored p)]
              @ (if scripts = [] then [] else [(''script_fields'', PDict (dict_update [] scripts))])
              @ (if truthy (arg p ''timeout'') then [(''timeout'', arg p ''timeout'')] else []);
         b1 = (if truthy (arg p ''histogram_active'') then add_aggs [(''histogram'', histogram_agg p)] b0 else b0);
         b2 = (if truthy (arg p ''facet_active'') then add_aggs (map (facet_agg p) (items_of (arg p ''facet_fields''))) b1
               else b1);
         b3 = (if truthy (arg p ''stats_active'') then add_aggs (map (stats_agg p) (items_of (arg p ''stats_fields''))) b2
               else b2)
     in Inr (b3 @ collapse))))"


section \<open>Sending it\<close>

text \<open>
  The calls of the client beyond those of \<^verbatim>\<open>collection\<close>; \<open>se_settings\<close> are the default, transient and
  persistent settings of the cluster, \<open>se_object\<close> is the model's constructor with a mask and the id, and
  \<open>se_stamp\<close> the time stamp of a date expression.
\<close>

record 'w searcher =
  se_coll :: "'w collection"
  se_model :: "odm_model option"
  se_stored :: "string list"
  se_mappings :: "string list"
  se_search :: "(string, py) dict \<Rightarrow> (string, py) dict \<Rightarrow> ('w, py) es_call"
  se_scroll :: "string \<Rightarrow> string \<Rightarrow> ('w, py) es_call"
  se_clear_scroll :: "string list \<Rightarrow> ('w, py) es_call"
  se_count :: "(string, py) dict \<Rightarrow> ('w, py) es_call"
  se_settings :: "('w, (string, py) dict \<times> (string, py) dict \<times> (string, py) dict) es_call"
  se_object :: "py \<Rightarrow> string list option \<Rightarrow> string \<Rightarrow> (string, py) dict \<Rightarrow> py result"
  se_stamp :: "string \<Rightarrow> int option"

definition too_large :: "int \<Rightarrow> py \<Rightarrow> bool result" where
  "too_large max_buckets agg_def =
     (case agg_def of
        PDict d \<Rightarrow>
          (case dget d ''size'' of
             None \<Rightarrow> Inr False
           | Some (PInt n) \<Rightarrow> Inr (max_buckets < n)
           | Some v \<Rightarrow> Inl (Exn ETypeError ''not supported between instances''))
      | _ \<Rightarrow> Inl (Exn ETypeError ''argument is not a container of names''))"

text \<open>\<^verbatim>\<open>any(...)\<close> over the definitions of an aggregation stops at the first that is too large.\<close>

fun any_R :: "('a \<Rightarrow> bool result) \<Rightarrow> 'a list \<Rightarrow> bool result" where
  "any_R f [] = Inr False"
| "any_R f (x # xs) = bindR (f x) (\<lambda>b. if b then Inr True else any_R f xs)"

definition custom_agg :: "int \<Rightarrow> py \<Rightarrow> (string \<times> py) list result" where
  "custom_agg max_buckets v =
     bindR (pair_of v) (\<lambda>(name, args).
     case args of
       PDict defs \<Rightarrow>
         bindR (any_R (too_large max_buckets) (map snd defs)) (\<lambda>skip.
         Inr (if skip then [] else [(CUSTOM_AGG_PREFIX @ py_str name, args)]))
     | _ \<Rightarrow> Inl (Exn EAttributeError ''object has no attribute values''))"

definition custom_aggs :: "'w searcher \<Rightarrow> (string, py) dict \<Rightarrow> (string, py) dict \<Rightarrow> ('w, (string, py) dict) io" where
  "custom_aggs S p body =
     (if \<not> truthy (arg p ''aggregations'') then returnM body
      else bindM (\<lambda>w. case se_settings S w of (Inl e, w') \<Rightarrow> (Inl (call_exn (CallEs e)), w') | (Inr x, w') \<Rightarrow> (Inr x, w'))
        (\<lambda>(defaults, transient, persistent).
      liftM (bindR (dict_index (dict_update (dict_update defaults transient) persistent) ''search.max_buckets'') (\<lambda>v.
        bindR (to_int v) (\<lambda>max_buckets.
        bindR (mapR (custom_agg max_buckets) (items_of (arg p ''aggregations''))) (\<lambda>aggs.
        Inr (add_aggs (concat aggs) body)))))))"

text \<open>What \<^verbatim>\<open>_search\<close> makes of an exception of the call.\<close>

definition search_exn :: "'w searcher \<Rightarrow> (string, py) dict \<Rightarrow> call_exc \<Rightarrow> exn" where
  "search_exn S body ce =
     (let full = (\<lambda>m. ''collection: '' @ co_name (se_coll S) @ '', query: '' @ py_repr (PDict body) @ '', error: '' @ m) in
      case ce of
        CallEs (EsConnection m) \<Rightarrow> Exn ESearchRetry (full m)
      | CallEs EsTimeout \<Rightarrow> Exn ESearchRetry (full (es_exn_text EsTimeout))
      | CallEs (EsTransport code m) \<Rightarrow> Exn ESearch m
      | CallEs (EsBadRequest m) \<Rightarrow> Exn ESearch m
      | CallEs e \<Rightarrow> Exn ESearch (full (es_exn_text e))
      | CallExn e \<Rightarrow> Exn ESearch (full (exn_message e)))"

definition search_params :: "string option \<Rightarrow> py \<Rightarrow> (string, py) dict" where
  "search_params deep track =
     (if deep \<noteq> None then [(''scroll'', PStr SCROLL_TIMEOUT)]
      else if truthy track then [(''track_total_hits'', track)] else [])"

text \<open>The next page of a deep paging search is fetched by its id alone.\<close>

definition send_search ::
    "'w searcher \<Rightarrow> string option \<Rightarrow> py \<Rightarrow> (string, py) dict \<Rightarrow> ('w, py) io" where
  "send_search S deep track body = (\<lambda>w.
     case with_retries (se_coll S) False
            (if deep \<noteq> None \<and> deep \<noteq> Some ''*'' then se_scroll S (the deep) SCROLL_TIMEOUT
             else se_search S (search_params deep track) body) w of
       (Inr r, w') \<Rightarrow> (Inr r, w')
     | (Inl ce, w') \<Rightarrow> (Inl (search_exn S body ce), w'))"

definition es_search :: "'w searcher \<Rightarrow> (string \<times> py) list \<Rightarrow> string option \<Rightarrow> py \<Rightarrow> ('w, py) io" where
  "es_search S args deep track =
     bindM (liftM (parse_args args)) (\<lambda>p.
     bindM (liftM (query_body (se_stored S) p)) (\<lambda>body.
     bindM (custom_aggs S p body) (send_search S deep track)))"

section \<open>Reading the answer\<close>

definition expand_fl :: "'w searcher \<Rightarrow> string \<Rightarrow> string" where
  "expand_fl S fl =
     (if se_model S = None \<or> CHR ''*'' \<notin> set fl then fl
      else py_join '','' (sorted_set (expand_field_patterns (se_model S)
             (filter (\<lambda>p. p \<noteq> []) (map py_strip (split_char CHR '','' fl))) True)))"

definition drop_banned :: "py \<Rightarrow> py" where
  "drop_banned v = (case v of PDict d \<Rightarrow> PDict (filter (\<lambda>(k, _). k \<notin> set BANNED_FIELDS) d) | _ \<Rightarrow> v)"

definition put_id :: "bool \<Rightarrow> py \<Rightarrow> py \<Rightarrow> py" where
  "put_id b i v = (case v of PDict d \<Rightarrow> if b then PDict (dset d ''id'' i) else v | _ \<Rightarrow> v)"

text \<open>What is kept of the source: everything, or the fields asked for.\<close>

definition finish_output :: "'w searcher \<Rightarrow> string list option \<Rightarrow> py \<Rightarrow> py \<Rightarrow> py result" where
  "finish_output S only item_id src =
     (let src' = put_id (case only of None \<Rightarrow> True | Some fs \<Rightarrow> ''*'' \<in> set fs \<or> ''id'' \<in> set fs) (PList [item_id]) src in
      case only of
        None \<Rightarrow> Inr src'
      | Some fs \<Rightarrow>
          if ''*'' \<in> set fs then Inr src'
          else case src' of
                 PDict d \<Rightarrow> Inr (PDict (prune_items (\<lambda>k. k \<in> set (se_mappings S)) fs [] d))
               | _ \<Rightarrow> Inl (Exn EAttributeError ''object has no attribute items''))"

definition shown_index :: "string list \<Rightarrow> py \<Rightarrow> (string, py) dict" where
  "shown_index fs hit =
     (case hit of
        PDict h \<Rightarrow>
          (case dget h ''_index'' of Some i \<Rightarrow> if ''_index'' \<in> set fs then [(''_index'', i)] else [] | None \<Rightarrow> [])
      | _ \<Rightarrow> [])"

definition format_output :: "'w searcher \<Rightarrow> string list option \<Rightarrow> bool \<Rightarrow> py \<Rightarrow> py result" where
  "format_output S only as_obj hit =
     bindR (py_get hit ''_source'' PNone) (\<lambda>src0.
     let src = drop_banned src0 in
     bindR (py_item hit ''_id'') (\<lambda>item_id.
     if se_model S = None then finish_output S only item_id src
     else
       let fs = (case only of Some (f # fs) \<Rightarrow> f # fs | _ \<Rightarrow> se_stored S @ [''id'']) in
       if as_obj
       then se_object S src (if ''*'' \<in> set fs then None else Some fs) (py_str item_id) (shown_index fs hit)
       else
         bindR (recursive_update src (PDict []) [] False) (\<lambda>src1.
         let src2 = (case put_id (''id'' \<in> set fs) item_id src1 of
                       PDict d \<Rightarrow> PDict (dict_update d (shown_index fs hit)) | v \<Rightarrow> v) in
         finish_output S (Some fs) item_id src2)))"

section \<open>Searching\<close>

text \<open>The filters of a caller (None, one text, or a list), with the access control of the user last.\<close>

definition filter_list :: "py \<Rightarrow> py list" where
  "filter_list v = (case v of PNone \<Rightarrow> [] | PStr s \<Rightarrow> [PStr s] | v \<Rightarrow> items_of v)"

definition with_access :: "py list \<Rightarrow> py \<Rightarrow> py list" where
  "with_access fs ac = fs @ (if truthy ac then [ac] else [])"

definition filter_arg :: "py list \<Rightarrow> (string \<times> py) list" where
  "filter_arg fs = (if fs = [] then [] else [(''filters'', PList fs)])"

definition field_list_of :: "'w searcher \<Rightarrow> string option \<Rightarrow> string list option" where
  "field_list_of S fl = (if truthy_text fl then Some (split_char CHR '','' (expand_fl S (the fl))) else None)"

definition field_list_arg :: "string list option \<Rightarrow> (string \<times> py) list" where
  "field_list_arg fs = (case fs of None \<Rightarrow> [] | Some xs \<Rightarrow> [(''field_list'', PList (map PStr xs))])"

definition or_default :: "py \<Rightarrow> py \<Rightarrow> py" where
  "or_default d v = (if v = PNone then d else v)"

text \<open>The arguments of \<^verbatim>\<open>search\<close>, by the names the code gives them.\<close>

record search_request =
  rq_query :: py
  rq_as_obj :: bool
  rq_offset :: py
  rq_rows :: py
  rq_sort :: py
  rq_fl :: "string option"
  rq_timeout :: py
  rq_filters :: py
  rq_access :: py
  rq_deep :: "string option"
  rq_total :: py
  rq_scripts :: py
  rq_aggs :: py

definition search_args :: "'w searcher \<Rightarrow> search_request \<Rightarrow> (string \<times> py) list" where
  "search_args S q =
     [(''query'', rq_query q), (''start'', or_default (PInt 0) (rq_offset q)),
      (''rows'', or_default (PInt DEFAULT_ROW_SIZE) (rq_rows q)), (''sort'', or_default DEFAULT_SORT (rq_sort q)),
      (''df'', PStr DEFAULT_SEARCH_FIELD)]
     @ field_list_arg (field_list_of S (rq_fl q))
     @ (if truthy (rq_timeout q) then [(''timeout'', PStr (py_str (rq_timeout q) @ ''ms''))] else [])
     @ filter_arg (with_access (filter_list (rq_filters q)) (rq_access q))
     @ (if truthy (rq_scripts q) then [(''script_fields'', rq_scripts q)] else [])
     @ (if truthy (rq_aggs q) then [(''aggregations'', rq_aggs q)] else [])"

definition total_of :: "py \<Rightarrow> int result" where
  "total_of hits = bindR (py_path hits [''hits'', ''total'', ''value'']) to_int"

definition hits_of :: "py \<Rightarrow> py list result" where
  "hits_of hits = bindR (py_path hits [''hits'', ''hits'']) py_iter"

definition custom_results :: "py \<Rightarrow> (string, py) dict result" where
  "custom_results res =
     bindR (py_get res ''aggregations'' (PDict [])) (\<lambda>v.
     case v of
       PDict d \<Rightarrow> Inr (map (\<lambda>(k, x). (drop (length CUSTOM_AGG_PREFIX) k, x))
                        (filter (\<lambda>(k, _). py_startswith k CUSTOM_AGG_PREFIX) d))
     | _ \<Rightarrow> Inl (Exn EAttributeError ''object has no attribute items''))"

definition search_answer :: "'w searcher \<Rightarrow> search_request \<Rightarrow> py \<Rightarrow> (string, py) dict result" where
  "search_answer S q res =
     bindR (to_int (or_default (PInt 0) (rq_offset q))) (\<lambda>offset.
     bindR (to_int (or_default (PInt DEFAULT_ROW_SIZE) (rq_rows q))) (\<lambda>rows.
     bindR (total_of res) (\<lambda>total.
     bindR (bindR (hits_of res) (mapR (format_output S (field_list_of S (rq_fl q)) (rq_as_obj q)))) (\<lambda>items.
     bindR (if truthy (rq_aggs q) then bindR (custom_results res) (\<lambda>d. Inr [(''aggregations'', PDict d)]) else Inr [])
       (\<lambda>aggs.
     Inr ([(''offset'', PInt offset), (''rows'', PInt rows), (''total'', PInt total), (''items'', PList items)] @ aggs))))))"

text \<open>\<^verbatim>\<open>clear_scroll\<close>, where a scroll that is gone is no error.\<close>

definition close_scroll :: "'w searcher \<Rightarrow> string \<Rightarrow> ('w, unit) io" where
  "close_scroll S i = (\<lambda>w.
     case with_retries (se_coll S) False (se_clear_scroll S [i]) w of
       (Inr _, w') \<Rightarrow> (Inr (), w')
     | (Inl (CallEs (EsNotFound b m)), w') \<Rightarrow> (Inr (), w')
     | (Inl ce, w') \<Rightarrow> (Inl (call_exn ce), w'))"

definition short_page :: "(string, py) dict \<Rightarrow> bool" where
  "short_page ret =
     (case (dget ret ''items'', dget ret ''rows'') of
        (Some (PList xs), Some (PInt n)) \<Rightarrow> int (length xs) < n
      | _ \<Rightarrow> False)"

definition after_search :: "'w searcher \<Rightarrow> search_request \<Rightarrow> py \<Rightarrow> ('w, (string, py) dict) io" where
  "after_search S q res =
     bindM (liftM (search_answer S q res)) (\<lambda>ret.
     bindM (liftM (py_get res ''_scroll_id'' PNone)) (\<lambda>next.
     thenM (if rq_deep q \<noteq> None \<and> next = PNone then close_scroll S (the (rq_deep q)) else returnM ())
     (if next = PNone then returnM ret
      else if short_page ret then thenM (close_scroll S (py_str next)) (returnM ret)
      else returnM (dset ret ''next_deep_paging_id'' next))))"

definition search_docs :: "'w searcher \<Rightarrow> search_request \<Rightarrow> ('w, (string, py) dict) io" where
  "search_docs S q = bindM (es_search S (search_args S q) (rq_deep q) (rq_total q)) (after_search S q)"

section \<open>Counting and aggregating\<close>

text \<open>\<^verbatim>\<open>count\<close> takes the user's access control and does not look at it.\<close>

definition count_body :: "py \<Rightarrow> py \<Rightarrow> py \<Rightarrow> (string, py) dict" where
  "count_body query filters access = [(''query'', query_clause query PNone (filter_list filters))]"

definition count_docs :: "'w searcher \<Rightarrow> py \<Rightarrow> py \<Rightarrow> py \<Rightarrow> ('w, (string, py) dict) io" where
  "count_docs S query filters access = (\<lambda>w.
     case with_retries (se_coll S) False (se_count S (count_body query filters access)) w of
       (Inr res, w') \<Rightarrow> (bindR (py_item res ''count'') (\<lambda>n. Inr [(''count'', n)]), w')
     | (Inl ce, w') \<Rightarrow> (Inl (call_exn ce), w'))"

definition facet_args :: "py \<Rightarrow> py \<Rightarrow> py \<Rightarrow> py \<Rightarrow> py \<Rightarrow> py \<Rightarrow> py \<Rightarrow> (string \<times> py) list" where
  "facet_args field query rows mincount filters access script =
     [(''query'', if truthy query then query else PStr ''id:*''), (''facet_active'', PBool True),
      (''facet_fields'', PList [field]), (''facet_mincount'', if truthy mincount then mincount else PInt 1), (''rows'', rows)]
     @ filter_arg (with_access (filter_list filters) access)
     @ (if truthy script then [(''field_script'', script)] else [])"

text \<open>\<^verbatim>\<open>row.get("key_as_string", row["key"])\<close>: the key has to be there in any case.\<close>

definition bucket_key :: "py \<Rightarrow> py result" where
  "bucket_key row = bindR (py_item row ''key'') (py_get row ''key_as_string'')"

definition bucket_counts :: "(py \<Rightarrow> py result) \<Rightarrow> py list \<Rightarrow> (py, py) dict result" where
  "bucket_counts f rows =
     foldR (\<lambda>d row. bindR (bindR (bucket_key row) f) (\<lambda>k. bindR (py_item row ''doc_count'') (\<lambda>n. Inr (dset d k n)))) [] rows"

definition facet_docs ::
    "'w searcher \<Rightarrow> py \<Rightarrow> py \<Rightarrow> py \<Rightarrow> py \<Rightarrow> py \<Rightarrow> py \<Rightarrow> py \<Rightarrow> ('w, (py, py) dict) io" where
  "facet_docs S field query rows mincount filters access script =
     bindM (es_search S (facet_args field query rows mincount filters access script) None PNone) (\<lambda>res.
     liftM (bindR (bindR (py_path res [''aggregations'', py_str field, ''buckets'']) py_iter) (bucket_counts Inr)))"

definition stats_args :: "py \<Rightarrow> py \<Rightarrow> py \<Rightarrow> py \<Rightarrow> py \<Rightarrow> (string \<times> py) list" where
  "stats_args field query filters access script =
     [(''query'', query), (''stats_active'', PBool True), (''stats_fields'', PList [field]), (''rows'', PInt 0)]
     @ filter_arg (with_access (filter_list filters) access)
     @ (if truthy script then [(''field_script'', script)] else [])"

definition stats_docs :: "'w searcher \<Rightarrow> py \<Rightarrow> py \<Rightarrow> py \<Rightarrow> py \<Rightarrow> py \<Rightarrow> ('w, py) io" where
  "stats_docs S field query filters access script =
     bindM (es_search S (stats_args field query filters access script) None PNone) (\<lambda>res.
     liftM (py_path res [''aggregations'', py_str field @ ''_stats'']))"

section \<open>Histograms\<close>

text \<open>
  \<^verbatim>\<open>int((end - start) / gap)\<close>: the quotient towards zero, for numbers a float holds exactly. A gap of zero
  raises ZeroDivisionError, which is not caught.
\<close>

definition quotient :: "int \<Rightarrow> int \<Rightarrow> int result" where
  "quotient a b =
     (if b = 0 then Inl (Exn EOther ''division by zero'')
      else Inr (sgn a * sgn b * (\<bar>a\<bar> div \<bar>b\<bar>)))"

definition strip_sign :: "string \<Rightarrow> string" where
  "strip_sign s = strip_by (\<lambda>c. c = CHR ''-'') (strip_by (\<lambda>c. c = CHR ''+'') s)"

datatype range_type = IntRange | TextRange

text \<open>
  The first attempt of \<^verbatim>\<open>_validate_steps_count\<close>: whole numbers. When a conversion fails the values before
  it stay converted, and the failure is no error.
\<close>

definition number_steps :: "py \<Rightarrow> py \<Rightarrow> py \<Rightarrow> ((int option) \<times> py \<times> py \<times> py) result" where
  "number_steps start stop gap =
     (case to_int start of
        Inl e \<Rightarrow> if exn_class e = EValueError then Inr (None, start, stop, gap) else Inl e
      | Inr a \<Rightarrow>
          (case to_int stop of
             Inl e \<Rightarrow> if exn_class e = EValueError then Inr (None, PInt a, stop, gap) else Inl e
           | Inr b \<Rightarrow>
               (case to_int gap of
                  Inl e \<Rightarrow> if exn_class e = EValueError then Inr (None, PInt a, PInt b, gap) else Inl e
                | Inr g \<Rightarrow> bindR (quotient (b - a) g) (\<lambda>n. Inr (Some n, PInt a, PInt b, PInt g)))))"

text \<open>The second: date expressions, all three of them text the parser reads.\<close>

definition date_steps :: "(string \<Rightarrow> int option) \<Rightarrow> py \<Rightarrow> py \<Rightarrow> py \<Rightarrow> int option result" where
  "date_steps stamp start stop gap =
     (case (gap, start, stop) of
        (PStr g, PStr a, PStr b) \<Rightarrow>
          (case (stamp a, stamp b, stamp (''+'' @ strip_sign g), stamp ''now'') of
             (Some x, Some y, Some z, Some now) \<Rightarrow> bindR (quotient (y - x) (z - now)) (\<lambda>n. Inr (Some n))
           | _ \<Rightarrow> Inr None)
      | _ \<Rightarrow> Inr None)"

definition validate_steps_count ::
    "(string \<Rightarrow> int option) \<Rightarrow> py \<Rightarrow> py \<Rightarrow> py \<Rightarrow> range_type result" where
  "validate_steps_count stamp start stop gap =
     bindR (number_steps start stop gap) (\<lambda>(n, a, b, g).
     bindR (case n of
              Some k \<Rightarrow> if k \<noteq> 0 then Inr (n, IntRange)
                else bindR (date_steps stamp a b g) (\<lambda>m. Inr (case m of Some j \<Rightarrow> (m, TextRange) | None \<Rightarrow> (n, IntRange)))
            | None \<Rightarrow> bindR (date_steps stamp a b g) (\<lambda>m. Inr (m, TextRange))) (\<lambda>(steps, ty).
     case steps of
       None \<Rightarrow> Inl (Exn ESearch ''Could not parse histogram ranges.'')
     | Some k \<Rightarrow>
         if MAX_FACET_LIMIT < k
         then Inl (Exn ESearch (''Histograms are limited to a maximum of '' @ str_int MAX_FACET_LIMIT @ '' steps. '' @
                     ''Current settings would generate '' @ str_int k @ '' steps''))
         else Inr ty))"

definition as_type :: "range_type \<Rightarrow> py \<Rightarrow> py result" where
  "as_type ty v = (case ty of IntRange \<Rightarrow> bindR (to_int v) (\<lambda>i. Inr (PInt i)) | TextRange \<Rightarrow> Inr (PStr (py_str v)))"

definition range_filter :: "py \<Rightarrow> py \<Rightarrow> py \<Rightarrow> py" where
  "range_filter field a b = PStr (py_str field @ '':['' @ py_str a @ '' TO '' @ py_str b @ '']'')"

definition histogram_args :: "py \<Rightarrow> py \<Rightarrow> py \<Rightarrow> py \<Rightarrow> py \<Rightarrow> py \<Rightarrow> py \<Rightarrow> py \<Rightarrow> (string \<times> py) list" where
  "histogram_args field a b g query mincount filters access =
     [(''query'', query), (''histogram_active'', PBool True), (''histogram_field'', field),
      (''histogram_type'', PStr (case g of PStr s \<Rightarrow> ''date_histogram'' | _ \<Rightarrow> ''histogram'')),
      (''histogram_gap'', case g of PStr s \<Rightarrow> PStr (strip_sign s) | _ \<Rightarrow> g),
      (''histogram_mincount'', or_default (PInt 1) mincount), (''histogram_start'', a), (''histogram_end'', b)]
     @ filter_arg (with_access (filter_list filters @ [range_filter field a b]) access)"

definition histogram_docs ::
    "'w searcher \<Rightarrow> py \<Rightarrow> py \<Rightarrow> py \<Rightarrow> py \<Rightarrow> py \<Rightarrow> py \<Rightarrow> py \<Rightarrow> py \<Rightarrow> ('w, (py, py) dict) io" where
  "histogram_docs S field start stop gap query mincount filters access =
     bindM (liftM (validate_steps_count (se_stamp S) start stop gap)) (\<lambda>ty.
     bindM (liftM (as_type ty start)) (\<lambda>a.
     bindM (liftM (as_type ty stop)) (\<lambda>b.
     bindM (liftM (as_type ty gap)) (\<lambda>g.
     bindM (es_search S (histogram_args field a b g query mincount filters access) None PNone) (\<lambda>res.
     liftM (bindR (bindR (py_path res [''aggregations'', ''histogram'', ''buckets'']) py_iter)
              (bucket_counts (as_type ty))))))))"

section \<open>Grouping\<close>

record group_request =
  gq_field :: string
  gq_query :: py
  gq_offset :: py
  gq_sort :: py
  gq_group_sort :: py
  gq_fl :: "string option"
  gq_limit :: py
  gq_rows :: py
  gq_filters :: py
  gq_access :: py
  gq_as_obj :: bool
  gq_total :: py

definition group_args :: "'w searcher \<Rightarrow> group_request \<Rightarrow> (string \<times> py) list" where
  "group_args S q =
     [(''query'', gq_query q), (''group_active'', PBool True), (''group_field'', PStr (gq_field q)),
      (''group_limit'', gq_limit q), (''group_sort'', or_default DEFAULT_SORT (gq_group_sort q)),
      (''start'', gq_offset q), (''rows'', or_default (PInt DEFAULT_ROW_SIZE) (gq_rows q)),
      (''sort'', or_default DEFAULT_SORT (gq_sort q))]
     @ field_list_arg (field_list_of S (gq_fl q))
     @ filter_arg (with_access (filter_list (gq_filters q) @ [PStr (gq_field q @ '':*'')]) (gq_access q))"

definition first_of :: "py \<Rightarrow> py result" where
  "first_of v =
     (case v of
        PList (x # xs) \<Rightarrow> Inr x
      | PList [] \<Rightarrow> Inl (Exn EIndexError ''list index out of range'')
      | PStr (c # s) \<Rightarrow> Inr (PStr [c])
      | PStr [] \<Rightarrow> Inl (Exn EIndexError ''string index out of range'')
      | PDict d \<Rightarrow> Inl (Exn EKeyError ''0'')
      | _ \<Rightarrow> Inl (Exn ETypeError ''object is not subscriptable''))"

definition group_item :: "'w searcher \<Rightarrow> group_request \<Rightarrow> py \<Rightarrow> py result" where
  "group_item S q collapsed =
     bindR (bindR (py_path collapsed [''fields'', gq_field q]) first_of) (\<lambda>value.
     bindR (py_path collapsed [''inner_hits'', ''group'']) (\<lambda>group.
     bindR (total_of group) (\<lambda>total.
     bindR (bindR (hits_of group) (mapR (format_output S (field_list_of S (gq_fl q)) (gq_as_obj q)))) (\<lambda>items.
     Inr (PDict [(''value'', value), (''total'', PInt total), (''items'', PList items)])))))"

definition grouped_search :: "'w searcher \<Rightarrow> group_request \<Rightarrow> ('w, (string, py) dict) io" where
  "grouped_search S q =
     bindM (es_search S (group_args S q) None (gq_total q)) (\<lambda>res.
     liftM (bindR (total_of res) (\<lambda>total.
       bindR (bindR (hits_of res) (mapR (group_item S q))) (\<lambda>items.
       Inr [(''offset'', gq_offset q), (''rows'', or_default (PInt DEFAULT_ROW_SIZE) (gq_rows q)),
            (''total'', PInt total), (''items'', PList items)]))))"

section \<open>The filters of a request\<close>

definition filters_of :: "(string, py) dict \<Rightarrow> py list" where
  "filters_of body =
     (case py_path (PDict body) [''query'', ''bool'', ''filter''] of Inr (PList fs) \<Rightarrow> fs | _ \<Rightarrow> [])"

lemma dget_dict_append: "dget (a @ b) k = (case dget a k of Some v \<Rightarrow> Some v | None \<Rightarrow> dget b k)"
  by (auto simp: dget_def map_add_def split: option.splits)

lemma filters_of_query: "dget body ''query'' = Some (query_clause q df fs) \<Longrightarrow> filters_of body = map query_string fs"
  by (simp add: filters_of_def py_path_def py_item_def dict_index_def query_clause_def)

lemma add_aggs_query: "dget (add_aggs es body) ''query'' = dget body ''query''"
  by (simp add: add_aggs_def dget_dset)

lemma query_body_query:
  assumes "query_body stored p = Inr body"
  shows "dget body ''query'' = Some (query_clause (arg p ''query'') (arg p ''df'') (items_of (arg p ''filters'')))"
proof -
  let ?q = "query_clause (arg p ''query'') (arg p ''df'') (items_of (arg p ''filters''))"
  have keep: "dget (if b then add_aggs es x else x) ''query'' = dget x ''query''" for b es x
    by (simp add: add_aggs_query)
  show ?thesis using assms
    by (auto simp: query_body_def bindR_eq_Inr Let_def dget_dict_append keep dget_Cons split: option.splits)
qed

lemma custom_aggs_query: "custom_aggs S p body w = (Inr body', w') \<Longrightarrow> dget body' ''query'' = dget body ''query''"
  by (auto simp: custom_aggs_def bindM_eq_Inr bindR_eq_Inr add_aggs_query split: if_splits)

text \<open>An argument that comes once, after the others, is found.\<close>

lemma parse_args_unset:
  "foldR (\<lambda>d (k, v). if \<not> dmem d k then Inl (e k v) else Inr (dset d k v)) d args = Inr p \<Longrightarrow> k \<notin> fst ` set args \<Longrightarrow>
   dget p k = dget d k"
  by (induction args arbitrary: d) (auto split: if_splits simp: dget_dset)

lemma parse_args_set:
  assumes "parse_args (as @ (k, v) # bs) = Inr p" "k \<notin> fst ` set bs"
  shows "arg p k = v"
proof -
  from assms(1) obtain d where "dmem d k"
    and "foldR (\<lambda>d (n, x). if \<not> dmem d n then Inl (Exn EHowlerValue (''Unknown query argument: '' @ n @ '' '' @ py_str x @ '' of ['' @
               py_join ''; '' (map (\<lambda>(n, x). n @ ''='' @ py_str x) (as @ (k, v) # bs)) @ '']'')) else Inr (dset d n x)) (dset d k v) bs = Inr p"
    unfolding parse_args_def foldR_append by (auto simp: bindR_eq_Inr split: if_splits)
  from parse_args_unset [OF this(2) assms(2)] show ?thesis by (simp add: arg_def dget_dset)
qed

text \<open>The arguments of a search that carry an access control.\<close>

definition carries :: "py \<Rightarrow> (string \<times> py) list \<Rightarrow> bool" where
  "carries ac args \<longleftrightarrow>
     (\<exists>as bs fs. args = as @ (''filters'', PList fs) # bs \<and> ''filters'' \<notin> fst ` set bs \<and> ac \<in> set fs)"

lemma carries_filter:
  assumes "carries ac args" "parse_args args = Inr p" "query_body stored p = Inr b" "custom_aggs S p b w = (Inr body, w')"
  shows "query_string ac \<in> set (filters_of body)"
proof -
  from assms(1) obtain as bs fs where a: "args = as @ (''filters'', PList fs) # bs" "''filters'' \<notin> fst ` set bs" "ac \<in> set fs"
    unfolding carries_def by blast
  from parse_args_set assms(2) a have "arg p ''filters'' = PList fs" by metis
  with query_body_query [OF assms(3)] custom_aggs_query [OF assms(4)] a(3) show ?thesis
    by (simp add: filters_of_query items_of_def)
qed

lemma carries_left: "carries ac xs \<Longrightarrow> carries ac (as @ xs)"
  unfolding carries_def by (metis append_assoc)

lemma carries_here:
  "truthy ac \<Longrightarrow> ''filters'' \<notin> fst ` set bs \<Longrightarrow> carries ac (filter_arg (with_access fs ac) @ bs)"
  unfolding carries_def
  by (rule exI [of _ "[]"], rule exI [of _ bs], rule exI [of _ "with_access fs ac"]) (simp add: filter_arg_def with_access_def)

lemma carries_last: "truthy ac \<Longrightarrow> carries ac (filter_arg (with_access fs ac))"
  using carries_here [of ac "[]" fs] by simp

lemma search_carries: "truthy (rq_access q) \<Longrightarrow> carries (rq_access q) (search_args S q)"
  unfolding search_args_def by (rule carries_left, rule carries_left, rule carries_left, rule carries_here) auto

lemma group_carries: "truthy (gq_access q) \<Longrightarrow> carries (gq_access q) (group_args S q)"
  unfolding group_args_def by (rule carries_left, rule carries_left, rule carries_last)

lemma histogram_carries: "truthy ac \<Longrightarrow> carries ac (histogram_args field a b g query mincount filters ac)"
  unfolding histogram_args_def by (rule carries_left, rule carries_last)

lemma facet_carries: "truthy ac \<Longrightarrow> carries ac (facet_args field query rows mincount filters ac script)"
  unfolding facet_args_def by (rule carries_left, rule carries_here) auto

lemma stats_carries: "truthy ac \<Longrightarrow> carries ac (stats_args field query filters ac script)"
  unfolding stats_args_def by (rule carries_left, rule carries_here) auto

section \<open>Access control\<close>

text \<open>Two endpoints that answer alike when a request carries the filter, whatever they do with the others.\<close>

definition agree_on :: "py \<Rightarrow> 'w searcher \<Rightarrow> ((string, py) dict \<Rightarrow> (string, py) dict \<Rightarrow> ('w, py) es_call) \<Rightarrow> bool" where
  "agree_on ac S f \<longleftrightarrow>
     (\<forall>params body. query_string ac \<in> set (filters_of body) \<longrightarrow> f params body = se_search S params body)"

lemma custom_aggs_upd [simp]: "custom_aggs (S\<lparr>se_search := f\<rparr>) = custom_aggs S"
  by (intro ext) (simp add: custom_aggs_def)

lemma search_exn_upd [simp]: "search_exn (S\<lparr>se_search := f\<rparr>) = search_exn S"
  by (intro ext, cases S, hypsubst_thin) (unfold search_exn_def searcher.simps, rule refl)

lemma expand_fl_upd [simp]: "expand_fl (S\<lparr>se_search := f\<rparr>) = expand_fl S"
  by (intro ext) (simp add: expand_fl_def)

lemma format_output_upd [simp]: "format_output (S\<lparr>se_search := f\<rparr>) = format_output S"
  by (intro ext, cases S, hypsubst_thin) (unfold format_output_def finish_output_def searcher.simps, rule refl)

lemma close_scroll_upd [simp]: "close_scroll (S\<lparr>se_search := f\<rparr>) = close_scroll S"
  by (intro ext) (simp add: close_scroll_def)

lemma field_list_upd [simp]: "field_list_of (S\<lparr>se_search := f\<rparr>) = field_list_of S"
  by (intro ext) (simp add: field_list_of_def)

lemma search_args_upd [simp]: "search_args (S\<lparr>se_search := f\<rparr>) = search_args S"
  by (intro ext) (simp add: search_args_def)

lemma group_args_upd [simp]: "group_args (S\<lparr>se_search := f\<rparr>) = group_args S"
  by (intro ext) (simp add: group_args_def)

lemma search_answer_upd [simp]: "search_answer (S\<lparr>se_search := f\<rparr>) = search_answer S"
  by (intro ext) (simp add: search_answer_def)

lemma group_item_upd [simp]: "group_item (S\<lparr>se_search := f\<rparr>) = group_item S"
  by (intro ext) (simp add: group_item_def)

lemma after_search_upd [simp]: "after_search (S\<lparr>se_search := f\<rparr>) = after_search S"
  by (intro ext) (unfold after_search_def search_answer_upd close_scroll_upd, rule refl)

lemma agree_search:
  assumes "agree_on ac S f" "carries ac args" "deep = None \<or> deep = Some ''*''"
  shows "es_search (S\<lparr>se_search := f\<rparr>) args deep track w = es_search S args deep track w"
proof -
  have sent: "send_search (S\<lparr>se_search := f\<rparr>) deep track body v = send_search S deep track body v"
    if "query_string ac \<in> set (filters_of body)" for body v
    using assms(1,3) that by (auto simp: send_search_def agree_on_def split: prod.splits sum.splits)
  show ?thesis
  proof (cases "parse_args args")
    case p: (Inr p)
    show ?thesis
    proof (cases "query_body (se_stored S) p")
      case q: (Inr b)
      show ?thesis
      proof (cases "custom_aggs S p b w")
        case (Pair r w')
        then show ?thesis
          using sent carries_filter [OF assms(2) p q, of S w] by (cases r) (auto simp: es_search_def p q bindM_def)
      qed
    qed (simp add: es_search_def bindM_def p)
  qed (simp add: es_search_def bindM_def)
qed

text \<open>C29: The user's access control bounds every search, but not a count. With an access control, the answers of a
  search, of a grouped search, of a histogram, of a facet and of statistics depend only on what the cluster
  answers to requests whose filters hold it: an endpoint that treats all other requests differently gives the
  same results. (The next page of a scroll is fetched by the id of the scroll instead.) A count is the
  exception: it sends the same request whatever the user may see.\<close>

theorem searches_access_controlled:
  assumes "truthy ac" and "agree_on ac S f"
  shows "(rq_access q = ac \<longrightarrow> rq_deep q \<in> {None, Some ''*''} \<longrightarrow>
            search_docs (S\<lparr>se_search := f\<rparr>) q w = search_docs S q w) \<and>
         (gq_access g = ac \<longrightarrow> grouped_search (S\<lparr>se_search := f\<rparr>) g w = grouped_search S g w) \<and>
         histogram_docs (S\<lparr>se_search := f\<rparr>) fld start stop gap query mincount filters ac w =
           histogram_docs S fld start stop gap query mincount filters ac w \<and>
         facet_docs (S\<lparr>se_search := f\<rparr>) fld query rows mincount filters ac script w =
           facet_docs S fld query rows mincount filters ac script w \<and>
         stats_docs (S\<lparr>se_search := f\<rparr>) fld query filters ac script w = stats_docs S fld query filters ac script w \<and>
         (\<forall>other. count_docs S query filters other w = count_docs S query filters ac w)"
proof (intro conjI impI allI)
  note agreed = agree_search [OF assms(2)]
  assume a: "rq_access q = ac" "rq_deep q \<in> {None, Some ''*''}"
  have "es_search (S\<lparr>se_search := f\<rparr>) (search_args S q) (rq_deep q) (rq_total q) v =
      es_search S (search_args S q) (rq_deep q) (rq_total q) v" for v
    by (rule agreed) (use search_carries [of q S] assms(1) a in auto)
  then show "search_docs (S\<lparr>se_search := f\<rparr>) q w = search_docs S q w"
    by (simp add: search_docs_def bindM_def)
next
  assume a: "gq_access g = ac"
  have "es_search (S\<lparr>se_search := f\<rparr>) (group_args S g) None (gq_total g) v =
      es_search S (group_args S g) None (gq_total g) v" for v
    by (rule agree_search [OF assms(2)]) (use group_carries [of g S] assms(1) a in auto)
  then show "grouped_search (S\<lparr>se_search := f\<rparr>) g w = grouped_search S g w"
    by (simp add: grouped_search_def bindM_def)
next
  show "histogram_docs (S\<lparr>se_search := f\<rparr>) fld start stop gap query mincount filters ac w =
      histogram_docs S fld start stop gap query mincount filters ac w"
    by (simp add: histogram_docs_def bindM_def agree_search [OF assms(2) histogram_carries [OF assms(1)]])
next
  show "facet_docs (S\<lparr>se_search := f\<rparr>) fld query rows mincount filters ac script w =
      facet_docs S fld query rows mincount filters ac script w"
    by (simp add: facet_docs_def bindM_def agree_search [OF assms(2) facet_carries [OF assms(1)]])
next
  show "stats_docs (S\<lparr>se_search := f\<rparr>) fld query filters ac script w = stats_docs S fld query filters ac script w"
    by (simp add: stats_docs_def bindM_def agree_search [OF assms(2) stats_carries [OF assms(1)]])
next
  fix other
  show "count_docs S query filters other w = count_docs S query filters ac w"
    by (simp add: count_docs_def count_body_def)
qed

text \<open>A cluster with one secret document, which only a request without the filter finds.\<close>

definition found :: "py list \<Rightarrow> py" where
  "found hits = PDict [(''hits'', PDict [(''total'', PDict [(''value'', PInt (int (length hits)))]), (''hits'', PList hits)])]"

definition sample_hit :: "string \<Rightarrow> py" where
  "sample_hit i = PDict [(''_id'', PStr i), (''_source'', PDict [(''name'', PStr ''n'')])]"

definition sample_searcher :: "nat searcher" where
  "sample_searcher =
     \<lparr>se_coll = counting_collection 10, se_model = None, se_stored = [''name''], se_mappings = [],
      se_search = (\<lambda>params body n.
        (Inr (found (if query_string (PStr ''level:1'') \<in> set (filters_of body) then [sample_hit ''a'']
                     else [sample_hit ''a'', sample_hit ''secret''])), Suc n)),
      se_scroll = (\<lambda>i t n. (Inl EsTimeout, n)), se_clear_scroll = (\<lambda>is n. (Inl EsTimeout, n)),
      se_count = (\<lambda>body n. (Inr (PDict [(''count'', PInt 2)]), n)),
      se_settings = (\<lambda>n. (Inr ([], [], []), n)), se_object = (\<lambda>src only i ex. Inr src), se_stamp = (\<lambda>s. None)\<rparr>"

definition strict_endpoint :: "(string, py) dict \<Rightarrow> (string, py) dict \<Rightarrow> (nat, py) es_call" where
  "strict_endpoint params body n =
     (if query_string (PStr ''level:1'') \<in> set (filters_of body) then se_search sample_searcher params body n
      else (Inl (EsOther ''refused''), n))"

definition sample_request :: search_request where
  "sample_request =
     \<lparr>rq_query = PStr ''name:*'', rq_as_obj = False, rq_offset = PNone, rq_rows = PInt 5, rq_sort = PStr ''name asc'',
      rq_fl = None, rq_timeout = PNone, rq_filters = PNone, rq_access = PStr ''level:1'', rq_deep = None,
      rq_total = PNone, rq_scripts = PNone, rq_aggs = PNone\<rparr>"

lemma searches_access_controlled_witness:
  "search_docs (sample_searcher\<lparr>se_search := strict_endpoint\<rparr>) sample_request 0 =
     (Inr [(''offset'', PInt 0), (''rows'', PInt 5), (''total'', PInt 1),
           (''items'', PList [PDict [(''name'', PStr ''n''), (''id'', PList [PStr ''a''])]])], 1)"
proof -
  have "agree_on (PStr ''level:1'') sample_searcher strict_endpoint" by (auto simp: agree_on_def strict_endpoint_def)
  from searches_access_controlled [OF _ this, where q = sample_request and w = 0]
  have "search_docs (sample_searcher\<lparr>se_search := strict_endpoint\<rparr>) sample_request 0 =
      search_docs sample_searcher sample_request 0"
    by (simp add: sample_request_def)
  moreover have "search_docs sample_searcher sample_request 0 =
     (Inr [(''offset'', PInt 0), (''rows'', PInt 5), (''total'', PInt 1),
           (''items'', PList [PDict [(''name'', PStr ''n''), (''id'', PList [PStr ''a''])]])], 1)"
    by code_simp
  ultimately show ?thesis by simp
qed

end
