(* ===== verification/ByQuery.thy ===== *)
theory ByQuery
  imports Search
begin

text \<open>
  The long-running requests of \<^verbatim>\<open>ESCollection\<close>: updates and deletions by query, which start a task on the
  cluster, wait for it and start again while documents changed under it; and scans, which page through all
  matches. None of these loops has a bound: not returning is the value None. Bulk requests aside, this is how
  the automation actions change hits.
\<close>

type_synonym ('w, 'a) loop = "'w \<Rightarrow> ('a result \<times> 'w) option"

definition bindL :: "('w, 'a) loop \<Rightarrow> ('a \<Rightarrow> ('w, 'b) loop) \<Rightarrow> ('w, 'b) loop" where
  "bindL m f = (\<lambda>w. case m w of
     None \<Rightarrow> None | Some (Inl e, w') \<Rightarrow> Some (Inl e, w') | Some (Inr x, w') \<Rightarrow> f x w')"

definition once :: "('w, 'a) io \<Rightarrow> ('w, 'a) loop" where
  "once m = (\<lambda>w. Some (m w))"

lemma once_apply [simp]: "once m w = Some (m w)"
  by (simp add: once_def)

lemma bindL_simps [simp]:
  "m w = None \<Longrightarrow> bindL m f w = None"
  "m w = Some (Inl e, w') \<Longrightarrow> bindL m f w = Some (Inl e, w')"
  "m w = Some (Inr x, w') \<Longrightarrow> bindL m f w = f x w'"
  by (simp_all add: bindL_def)

section \<open>Tasks\<close>

text \<open>The calls that start a task, with its id, and the one that asks for its state.\<close>

record 'w tasker =
  tk_searcher :: "'w searcher"
  tk_update :: "es_script \<Rightarrow> py \<Rightarrow> ('w, string) es_call"
  tk_delete :: "py \<Rightarrow> py \<Rightarrow> ('w, string) es_call"
  tk_task :: "string \<Rightarrow> ('w, py) es_call"

definition still_running :: "es_exc \<Rightarrow> bool" where
  "still_running e \<longleftrightarrow>
     (case e of
        EsTransport code m \<Rightarrow> code = 500 \<and> m \<in> {''timeout_exception'', ''receive_timeout_transport_exception''}
      | _ \<Rightarrow> False)"

text \<open>\<^verbatim>\<open>res.get("response", res["task"]["status"])\<close>\<close>

definition task_answer :: "py \<Rightarrow> py result" where
  "task_answer res = bindR (py_path res [''task'', ''status'']) (py_get res ''response'')"

partial_function (option) get_task_results ::
    "'w collection \<Rightarrow> ('w, py) es_call \<Rightarrow> 'w \<Rightarrow> (py result \<times> 'w) option" where
  "get_task_results c get w =
     (case with_retries c False get w of
        (Inr res, w') \<Rightarrow> Some (task_answer res, w')
      | (Inl ce, w') \<Rightarrow>
          (case ce of
             CallEs e \<Rightarrow> if still_running e then get_task_results c get w' else Some (Inl (call_exn ce), w')
           | CallExn e \<Rightarrow> Some (Inl (call_exn ce), w')))"

text \<open>One round: the conflicts, and how many documents it dealt with.\<close>

definition round_counts :: "string \<Rightarrow> py \<Rightarrow> (int \<times> int) result" where
  "round_counts key res =
     bindR (bindR (py_item res ''version_conflicts'') to_int) (\<lambda>n.
     bindR (bindR (py_item res key) to_int) (\<lambda>k. Inr (n, k)))"

definition start_task :: "'w collection \<Rightarrow> ('w, string) es_call \<Rightarrow> ('w, string) io" where
  "start_task c start = (\<lambda>w.
     case with_retries c False start w of (Inr t, w') \<Rightarrow> (Inr t, w') | (Inl ce, w') \<Rightarrow> (Inl (call_exn ce), w'))"

definition one_round ::
    "'w collection \<Rightarrow> ('w, string) es_call \<Rightarrow> (string \<Rightarrow> ('w, py) es_call) \<Rightarrow> string \<Rightarrow> ('w, int \<times> int) loop" where
  "one_round c start get key =
     bindL (once (start_task c start)) (\<lambda>t.
     bindL (get_task_results c (get t)) (\<lambda>res. once (liftM (round_counts key res))))"

text \<open>\<^verbatim>\<open>_update_async\<close> and \<^verbatim>\<open>_delete_async\<close> are this loop, over the counts of their own.\<close>

partial_function (option) rounds ::
    "('w, int \<times> int) loop \<Rightarrow> int \<Rightarrow> 'w \<Rightarrow> (int result \<times> 'w) option" where
  "rounds step acc w =
     (case step w of
        None \<Rightarrow> None
      | Some (r, w') \<Rightarrow>
          (case r of
             Inl e \<Rightarrow> Some (Inl e, w')
           | Inr ck \<Rightarrow> if fst ck = 0 then Some (Inr (snd ck + acc), w') else rounds step (acc + snd ck) w'))"

definition update_async :: "'w tasker \<Rightarrow> es_script \<Rightarrow> py \<Rightarrow> ('w, int) loop" where
  "update_async T script query =
     rounds (one_round (se_coll (tk_searcher T)) (tk_update T script query) (tk_task T) ''updated'') 0"

definition delete_async :: "'w tasker \<Rightarrow> py \<Rightarrow> py \<Rightarrow> ('w, int) loop" where
  "delete_async T query srt =
     rounds (one_round (se_coll (tk_searcher T)) (tk_delete T query srt) (tk_task T) ''deleted'') 0"

section \<open>By query\<close>

text \<open>
  \<^verbatim>\<open>update_by_query\<close>: what is raised while the operations are validated reaches the caller, what is raised by
  the update itself becomes False.
\<close>

definition swallow :: "('w, int) loop \<Rightarrow> ('w, py) loop" where
  "swallow m = (\<lambda>w. case m w of
     None \<Rightarrow> None | Some (Inl e, w') \<Rightarrow> Some (Inr (PBool False), w') | Some (Inr n, w') \<Rightarrow> Some (Inr (PInt n), w'))"

definition update_by_query ::
    "'w tasker \<Rightarrow> string \<Rightarrow> (update_op \<times> string \<times> py) list \<Rightarrow> py list \<Rightarrow> py \<Rightarrow> ('w, py) loop" where
  "update_by_query T query operations filters access =
     bindL (once (liftM (validate_operations (se_coll (tk_searcher T)) operations))) (\<lambda>ops.
     swallow (update_async T (create_script ops)
       (query_clause (PStr query) PNone (with_access filters access))))"

definition delete_by_query :: "'w tasker \<Rightarrow> string \<Rightarrow> py \<Rightarrow> ('w, bool) loop" where
  "delete_by_query T query srt =
     bindL (once (liftM (bindR (parse_sort srt True) sort_str))) (\<lambda>s.
     bindL (delete_async T (PDict [(''bool'', PDict [(''must'', query_string (PStr query))])]) s) (\<lambda>n.
     once (returnM (n \<noteq> 0))))"

section \<open>Scanning\<close>

text \<open>
  \<^verbatim>\<open>scan_with_retry\<close>, for a consumer that reads it to the end: \<open>f\<close> is what is done with each hit. The scroll
  the loop stands at is closed however the loop ends.
\<close>

definition scroll_id_of :: "py \<Rightarrow> string option result" where
  "scroll_id_of resp =
     bindR (py_get resp ''_scroll_id'' PNone) (\<lambda>v. Inr (if truthy v then Some (py_str v) else None))"

definition shards_failed :: "py \<Rightarrow> bool result" where
  "shards_failed resp =
     bindR (py_item resp ''_shards'') (\<lambda>sh.
     bindR (bindR (py_get sh ''successful'' (PInt 0)) to_int) (\<lambda>ok.
     bindR (bindR (py_get sh ''skipped'' (PInt 0)) to_int) (\<lambda>skipped.
     bindR (bindR (py_get sh ''total'' (PInt 0)) to_int) (\<lambda>shards.
     Inr (ok + skipped < shards)))))"

text \<open>What a page gives the consumer, unless the page is not complete.\<close>

definition page_results :: "(py \<Rightarrow> 'b result) \<Rightarrow> py list \<Rightarrow> py \<Rightarrow> 'b list result" where
  "page_results f hits resp =
     bindR (mapR f hits) (\<lambda>ys.
     bindR (shards_failed resp) (\<lambda>bad.
     if bad then Inl (Exn EScan ''Scroll request has only succeeded on some of the shards'') else Inr ys))"

text \<open>\<^verbatim>\<open>finally\<close>: an exception of closing the scroll replaces what the loop ends with.\<close>

definition closing :: "'w searcher \<Rightarrow> string \<Rightarrow> 'a result \<Rightarrow> ('w, 'a) io" where
  "closing S i r = thenM (close_scroll S i) (liftM r)"

partial_function (option) scan_pages ::
    "'w searcher \<Rightarrow> string \<Rightarrow> (py \<Rightarrow> 'b result) \<Rightarrow> 'b list \<Rightarrow> string option \<Rightarrow> py \<Rightarrow> 'w \<Rightarrow> ('b list result \<times> 'w) option" where
  "scan_pages S scroll f acc sid resp w =
     (case sid of
        None \<Rightarrow> Some (Inr acc, w)
      | Some i \<Rightarrow>
          (case hits_of resp of
             Inl e \<Rightarrow> Some (closing S i (Inl e) w)
           | Inr hits \<Rightarrow>
               if hits = [] then Some (closing S i (Inr acc) w)
               else
                 (case page_results f hits resp of
                    Inl e \<Rightarrow> Some (closing S i (Inl e) w)
                  | Inr ys \<Rightarrow>
                      (case with_retries (se_coll S) False (se_scroll S i scroll) w of
                         (Inl ce, w') \<Rightarrow> Some (closing S i (Inl (call_exn ce)) w')
                       | (Inr resp', w') \<Rightarrow>
                           (case scroll_id_of resp' of
                              Inl e \<Rightarrow> Some (closing S i (Inl e) w')
                            | Inr sid' \<Rightarrow> scan_pages S scroll f (acc @ ys) sid' resp' w')))))"

definition scan_with_retry ::
    "'w searcher \<Rightarrow> (string, py) dict \<Rightarrow> (py \<Rightarrow> 'b result) \<Rightarrow> ('w, 'b list) loop" where
  "scan_with_retry S body f =
     bindL (once (\<lambda>w.
       case with_retries (se_coll S) False (se_search S [(''scroll'', PStr SCROLL_TIMEOUT)] body) w of
         (Inr resp, w') \<Rightarrow> (Inr resp, w') | (Inl ce, w') \<Rightarrow> (Inl (call_exn ce), w'))) (\<lambda>resp.
     bindL (once (liftM (scroll_id_of resp))) (\<lambda>sid. scan_pages S SCROLL_TIMEOUT f [] sid resp))"

definition STORE_SORT :: py where "STORE_SORT = PStr ''id asc''"

definition stream_body ::
    "'w searcher \<Rightarrow> string \<Rightarrow> string list option \<Rightarrow> py list \<Rightarrow> int \<Rightarrow> py \<Rightarrow> (string, py) dict" where
  "stream_body S query only filters buffer_size srt =
     [(''query'', query_clause (PStr query) (PStr DEFAULT_SEARCH_FIELD) filters), (''size'', PInt buffer_size), (''sort'', srt),
      (''_source'', PList (map PStr (case only of Some (f # fs) \<Rightarrow> f # fs | _ \<Rightarrow> se_stored S)))]"

definition stream_search ::
    "'w searcher \<Rightarrow> string \<Rightarrow> string option \<Rightarrow> py \<Rightarrow> py \<Rightarrow> int \<Rightarrow> bool \<Rightarrow> ('w, py list) loop" where
  "stream_search S query fl filters access item_buffer_size as_obj =
     (if 2000 < item_buffer_size \<or> item_buffer_size < 50
      then once (raiseM (Exn ESearch ''Variable item_buffer_size must be between 50 and 2000.''))
      else bindL (once (liftM (parse_sort STORE_SORT True))) (\<lambda>srt.
        scan_with_retry S
          (stream_body S query (field_list_of S fl) (with_access (filter_list filters) access) item_buffer_size srt)
          (format_output S (field_list_of S fl) as_obj)))"

lemma mapR_append: "mapR f (xs @ ys) = bindR (mapR f xs) (\<lambda>us. bindR (mapR f ys) (\<lambda>vs. Inr (us @ vs)))"
proof (induction xs)
  case Nil
  show ?case by (cases "mapR f ys") simp_all
next
  case (Cons x xs)
  then show ?case by (cases "f x"; cases "mapR f xs"; cases "mapR f ys") simp_all
qed

section \<open>The loops end when the conflicts do\<close>

lemma rounds_stop:
  "step w = Some (Inr (0, n), w') \<Longrightarrow> rounds step acc w = Some (Inr (n + acc), w')"
  by (subst rounds.simps) simp

lemma rounds_again:
  "step w = Some (Inr (c, n), w') \<Longrightarrow> c \<noteq> 0 \<Longrightarrow> rounds step acc w = rounds step (acc + n) w'"
  by (subst rounds.simps) simp

lemma rounds_sum:
  assumes step: "\<And>i. i \<le> k \<Longrightarrow> step (ws i) = Some (Inr (cs i, ns i), ws (Suc i))"
    and conflict: "\<And>i. i < k \<Longrightarrow> cs i \<noteq> 0" and last: "cs k = 0"
  shows "rounds step acc (ws 0) = Some (Inr (acc + (\<Sum>i\<le>k. ns i)), ws (Suc k))"
  using assms
proof (induction k arbitrary: acc ws cs ns)
  case 0
  then show ?case using rounds_stop [of step "ws 0" "ns 0" "ws 1" acc] by (simp add: add.commute)
next
  case (Suc k)
  have "rounds step acc (ws 0) = rounds step (acc + ns 0) (ws (Suc 0))"
    by (rule rounds_again [of step "ws 0" "cs 0" "ns 0"]) (use Suc.prems(1) [of 0] Suc.prems(2) [of 0] in auto)
  also have "\<dots> = Some (Inr (acc + ns 0 + (\<Sum>i\<le>k. ns (Suc i))), ws (Suc (Suc k)))"
    by (rule Suc.IH [of "\<lambda>i. ws (Suc i)" "\<lambda>i. cs (Suc i)" "\<lambda>i. ns (Suc i)"]) (use Suc.prems in auto)
  finally show ?case by (simp add: add.assoc sum.atMost_Suc_shift del: sum.atMost_Suc)
qed


lemma rounds_never:
  fixes ws :: "nat \<Rightarrow> 'w"
  assumes step: "\<And>i. step (ws i) = Some (Inr (cs i, ns i), ws (Suc i))" and conflict: "\<And>i. cs i \<noteq> 0"
  shows "rounds step acc (ws i) = None"
proof (rule ccontr)
  let ?P = "\<lambda>st (acc :: int) w (r :: int result \<times> 'w). st = step \<longrightarrow> (\<forall>i. w \<noteq> ws i)"
  assume "rounds step acc (ws i) \<noteq> None"
  then obtain r where r: "rounds step acc (ws i) = Some r" by blast
  have "?P step acc (ws i) r"
  proof (rule rounds.raw_induct [where P = ?P, OF _ r], intro impI allI notI)
    fix f st acc w r i
    assume ih: "\<And>st acc w r. f st acc w = Some r \<Longrightarrow> ?P st acc w r" and "st = step" "w = ws i"
      and "(case st w of None \<Rightarrow> None | Some (Inl e, w') \<Rightarrow> Some (Inl e, w')
            | Some (Inr ck, w') \<Rightarrow> if fst ck = 0 then Some (Inr (snd ck + acc), w') else f st (acc + snd ck) w') = Some r"
    then have "f step (acc + ns i) (ws (Suc i)) = Some r" by (simp add: step conflict)
    from ih [OF this] show False by blast
  qed
  then show False by blast
qed

text \<open>C30: An update by query ends exactly when a round meets no conflict. An update of all documents that match a
  query starts a task, waits for it, and starts it again while documents changed under it, without a bound. If
  every round comes to an end, the update returns when a round has no conflict, with the number of documents
  changed in all rounds together; and when other writers cause a conflict in every round it never returns.\<close>

theorem by_query_ends:
  assumes "\<forall>i. one_round (se_coll (tk_searcher T)) (tk_update T script query) (tk_task T) ''updated'' (ws i) =
                 Some (Inr (cs i, ns i), ws (Suc i))"
  shows "((\<forall>i<k. cs i \<noteq> 0) \<longrightarrow> cs k = 0 \<longrightarrow>
            update_async T script query (ws 0) = Some (Inr (\<Sum>i\<le>k. ns i), ws (Suc k))) \<and>
         ((\<forall>i. cs i \<noteq> 0) \<longrightarrow> update_async T script query (ws 0) = None)"
proof (intro conjI impI)
  assume "\<forall>i<k. cs i \<noteq> 0" "cs k = 0"
  then show "update_async T script query (ws 0) = Some (Inr (\<Sum>i\<le>k. ns i), ws (Suc k))"
    unfolding update_async_def by (subst rounds_sum [where cs = cs and ns = ns and k = k and ws = ws]) (use assms in auto)
next
  assume "\<forall>i. cs i \<noteq> 0"
  then show "update_async T script query (ws 0) = None"
    unfolding update_async_def by (intro rounds_never [where cs = cs and ns = ns]) (use assms in auto)
qed

section \<open>A scan gives every match\<close>

lemma scan_page:
  assumes "hits_of resp = Inr hits" "hits \<noteq> []" "page_results f hits resp = Inr ys"
    and "with_retries (se_coll S) False (se_scroll S i scroll) w = (Inr resp', w')" "scroll_id_of resp' = Inr sid"
  shows "scan_pages S scroll f acc (Some i) resp w = scan_pages S scroll f (acc @ ys) sid resp' w'"
  using assms by (subst scan_pages.simps) simp

lemma scan_end: "hits_of resp = Inr [] \<Longrightarrow> scan_pages S scroll f acc (Some i) resp w = Some (closing S i (Inr acc) w)"
  by (subst scan_pages.simps) simp

text \<open>A scroll of \<open>n\<close> pages with hits, and an empty one after them, under one id after another.\<close>

definition serves :: "'w searcher \<Rightarrow> nat \<Rightarrow> (nat \<Rightarrow> string) \<Rightarrow> (nat \<Rightarrow> py) \<Rightarrow> (nat \<Rightarrow> py list) \<Rightarrow> (nat \<Rightarrow> 'w) \<Rightarrow> bool" where
  "serves S n ids resps pages ws \<longleftrightarrow>
     (\<forall>i\<le>n. hits_of (resps i) = Inr (pages i) \<and> (pages i = [] \<longleftrightarrow> i = n)) \<and>
     (\<forall>i<n. shards_failed (resps i) = Inr False \<and> scroll_id_of (resps (Suc i)) = Inr (Some (ids (Suc i))) \<and>
            with_retries (se_coll S) False (se_scroll S (ids i) SCROLL_TIMEOUT) (ws i) = (Inr (resps (Suc i)), ws (Suc i)))"

lemma serves_tail: "serves S (Suc n) ids resps pages ws \<Longrightarrow>
    serves S n (\<lambda>i. ids (Suc i)) (\<lambda>i. resps (Suc i)) (\<lambda>i. pages (Suc i)) (\<lambda>i. ws (Suc i))"
  unfolding serves_def by auto

lemma scan_all_pages:
  assumes "serves S n ids resps pages ws" "mapR f (concat (map pages [0..<n])) = Inr ys"
  shows "scan_pages S SCROLL_TIMEOUT f acc (Some (ids 0)) (resps 0) (ws 0) =
           Some (closing S (ids n) (Inr (acc @ ys)) (ws n))"
  using assms
proof (induction n arbitrary: ids resps pages ws acc ys)
  case 0
  then show ?case by (simp add: serves_def scan_end)
next
  case (Suc n)
  have "concat (map pages [0..<Suc n]) = pages 0 @ concat (map (\<lambda>i. pages (Suc i)) [0..<n])"
    by (simp add: upt_conv_Cons map_Suc_upt [symmetric] o_def del: upt_Suc map_Suc_upt)
  with Suc.prems(2) have "mapR f (pages 0 @ concat (map (\<lambda>i. pages (Suc i)) [0..<n])) = Inr ys" by simp
  then obtain us vs where us: "mapR f (pages 0) = Inr us"
    and vs: "mapR f (concat (map (\<lambda>i. pages (Suc i)) [0..<n])) = Inr vs" and ys: "ys = us @ vs"
    by (auto simp: mapR_append bindR_eq_Inr simp del: upt_Suc)
  have "scan_pages S SCROLL_TIMEOUT f acc (Some (ids 0)) (resps 0) (ws 0) =
      scan_pages S SCROLL_TIMEOUT f (acc @ us) (Some (ids (Suc 0))) (resps (Suc 0)) (ws (Suc 0))"
    by (rule scan_page) (use Suc.prems(1) us in \<open>auto simp: serves_def page_results_def\<close>)
  also have "\<dots> = Some (closing S (ids (Suc n)) (Inr ((acc @ us) @ vs)) (ws (Suc n)))"
    by (rule Suc.IH [OF serves_tail [OF Suc.prems(1)] vs])
  finally show ?case by (simp add: ys)
qed

text \<open>A cluster on which another writer gets in the way of the first two rounds.\<close>

definition busy_tasker :: "nat tasker" where
  "busy_tasker =
     \<lparr>tk_searcher = sample_searcher, tk_update = (\<lambda>s q n. (Inr ''t'', n)), tk_delete = (\<lambda>q s n. (Inr ''t'', n)),
      tk_task = (\<lambda>t n. (Inr (PDict
        [(''task'', PDict [(''status'', PNone)]),
         (''response'', PDict [(''version_conflicts'', PInt (if n < 2 then 1 else 0)), (''updated'', PInt 3)])]), Suc n))\<rparr>"

lemma task_at_once:
  "get w = (Inr res, w') \<Longrightarrow> 0 < co_max_attempts c \<Longrightarrow> get_task_results c get w = Some (task_answer res, w')"
  by (subst get_task_results.simps) (simp add: with_retries_ok)

lemma busy_round:
  "one_round (se_coll (tk_searcher busy_tasker)) (tk_update busy_tasker s q) (tk_task busy_tasker) ''updated'' n =
     Some (Inr (if n < 2 then 1 else 0, 3), Suc n)"
proof -
  let ?c = "se_coll (tk_searcher busy_tasker)"
  let ?res = "PDict [(''task'', PDict [(''status'', PNone)]),
         (''response'', PDict [(''version_conflicts'', PInt (if n < 2 then 1 else 0)), (''updated'', PInt 3)])]"
  have some: "0 < co_max_attempts ?c" by (simp add: busy_tasker_def sample_searcher_def counting_collection_def)
  have start: "start_task ?c (tk_update busy_tasker s q) n = (Inr ''t'', n)"
    using with_retries_ok [OF _ some, of "tk_update busy_tasker s q" n "''t''" n False]
    by (simp add: start_task_def busy_tasker_def)
  have task: "get_task_results ?c (tk_task busy_tasker ''t'') n = Some (task_answer ?res, Suc n)"
    by (rule task_at_once [OF _ some]) (simp add: busy_tasker_def)
  show ?thesis
    by (simp add: one_round_def bindL_def start task task_answer_def py_path_def py_item_def py_get_def dict_index_def
        dget_Cons round_counts_def to_int_def)
qed

lemma by_query_ends_witness:
  "update_async busy_tasker (create_script []) (PStr ''q'') 0 = Some (Inr 9, 3)"
  using by_query_ends [of busy_tasker "create_script []" "PStr ''q''" "\<lambda>i. i" "\<lambda>i. if i < 2 then 1 else 0" "\<lambda>i. 3" 2]
  by (simp add: busy_round numeral_eq_Suc)

end
