(* ===== verification/Actions.thy ===== *)
theory Actions
  imports HitService ByQuery Correlation
begin

text \<open>
  The automation actions (\<^verbatim>\<open>howler/actions\<close>): each runs on all hits a query matches and answers with a report,
  a list of entries that say what happened to which hits. \<^verbatim>\<open>execute\<close> tests the permissions of the user and
  the number of hits, runs the operation, and merges the entries that say the same.
\<close>

section \<open>Reports\<close>

record report_entry =
  re_query :: string
  re_outcome :: string
  re_title :: string
  re_message :: string

definition entry :: "string \<Rightarrow> string \<Rightarrow> string \<Rightarrow> string \<Rightarrow> report_entry" where
  "entry query outcome title message =
     \<lparr>re_query = query, re_outcome = outcome, re_title = title, re_message = message\<rparr>"

text \<open>
  \<^verbatim>\<open>__sanitize_report\<close>: the queries of the entries with one title, message and outcome are joined. The three
  are written into one text, and read back from it.
\<close>

definition separator :: string where "separator = ''===''"

definition entry_key :: "report_entry \<Rightarrow> string" where
  "entry_key r = re_title r @ separator @ re_message r @ separator @ re_outcome r"

definition paren :: "string \<Rightarrow> string" where "paren q = ''('' @ q @ '')''"

definition by_message :: "report_entry list \<Rightarrow> (string, string list) dict" where
  "by_message report =
     foldl (\<lambda>d r. dset d (entry_key r) ((case dget d (entry_key r) of Some qs \<Rightarrow> qs | None \<Rightarrow> []) @ [paren (re_query r)]))
       [] report"

definition merged_entry :: "string \<times> string list \<Rightarrow> report_entry result" where
  "merged_entry kq =
     (case py_split separator (fst kq) of
        [title, message, outcome] \<Rightarrow> Inr (entry (py_join '' OR '' (snd kq)) outcome title message)
      | parts \<Rightarrow> Inl (Exn EValueError (if length parts < 3 then ''not enough values to unpack'' else ''too many values to unpack'')))"

definition sanitize_report :: "report_entry list \<Rightarrow> report_entry list result" where
  "sanitize_report report = mapR merged_entry (by_message report)"

section \<open>The world of an action\<close>

text \<open>The application, and the progress reported over websockets.\<close>

type_synonym 'w action_world = "'w app \<times> (string \<times> nat \<times> nat) list"

definition in_app :: "('w app, 'a) io \<Rightarrow> ('w action_world, 'a) io" where
  "in_app m = (\<lambda>(a, p). case m a of (r, a') \<Rightarrow> (r, a', p))"

definition in_hits :: "('w, 'a) loop \<Rightarrow> ('w action_world, 'a) loop" where
  "in_hits m = (\<lambda>(a, p). case m (app_store a) of None \<Rightarrow> None | Some (r, w) \<Rightarrow> Some (r, a\<lparr>app_store := w\<rparr>, p))"

text \<open>A search of an action: all defaults but the query, the rows and the fields.\<close>

definition plain_search :: "string \<Rightarrow> py \<Rightarrow> string option \<Rightarrow> search_request" where
  "plain_search q rows fl =
     \<lparr>rq_query = PStr q, rq_as_obj = True, rq_offset = PInt 0, rq_rows = rows, rq_sort = PNone, rq_fl = fl,
      rq_timeout = PNone, rq_filters = PNone, rq_access = PNone, rq_deep = None, rq_total = PNone,
      rq_scripts = PList [], rq_aggs = PNone\<rparr>"

definition search_total :: "'w tasker \<Rightarrow> string \<Rightarrow> py \<Rightarrow> ('w, int) io" where
  "search_total T q rows =
     bindM (search_docs (tk_searcher T) (plain_search q rows None)) (\<lambda>res.
     liftM (bindR (dict_index res ''total'') to_int))"

text \<open>\<^verbatim>\<open>h.howler.id\<close> of the objects found.\<close>

definition object_id :: "py \<Rightarrow> string result" where
  "object_id h = bindR (py_path h [''howler'', ''id'']) (\<lambda>v. Inr (py_str v))"

definition search_ids :: "'w tasker \<Rightarrow> string \<Rightarrow> py \<Rightarrow> ('w, string list \<times> int) io" where
  "search_ids T q rows =
     bindM (search_docs (tk_searcher T) (plain_search q rows (Some ''howler.id''))) (\<lambda>res.
     liftM (bindR (bindR (dict_index res ''items'') py_iter) (\<lambda>hs. bindR (mapR object_id hs) (\<lambda>ids.
            bindR (bindR (dict_index res ''total'') to_int) (\<lambda>n. Inr (ids, n))))))"

definition ids_query :: "string list \<Rightarrow> string" where
  "ids_query ids = ''howler.id:('' @ py_join '' OR '' ids @ '')''"

section \<open>Limits\<close>

definition ADVANCED_ROLES :: "string list" where
  "ADVANCED_ROLES = [''automation_advanced'', ''actionrunner_advanced'', ''admin'']"

definition is_advanced :: "user \<Rightarrow> bool" where
  "is_advanced u \<longleftrightarrow> list_ex (\<lambda>r. r \<in> set (u_type u)) ADVANCED_ROLES"

definition check_hit_limit ::
    "'w tasker \<Rightarrow> string \<Rightarrow> user \<Rightarrow> int option \<Rightarrow> int option \<Rightarrow> ('w, report_entry option) io" where
  "check_hit_limit T query usr basic advanced =
     (case (if is_advanced usr then advanced else basic) of
        None \<Rightarrow> returnM None
      | Some limit \<Rightarrow>
          bindM (search_total T query (PInt 0)) (\<lambda>n.
          returnM (if limit < n
            then Some (entry query ''error'' ''Hit limit exceeded''
                   (''This action affects '' @ str_int n @ '' hits, but you can only process '' @ str_int limit @
                    '' at a time. Contact an administrator for bulk operations.''))
            else None)))"

section \<open>Changing all hits\<close>

text \<open>
  The end of every action that updates by query: the update inside \<^verbatim>\<open>try\<close>, an entry for its success, or one
  for the exception. What the update answers is not looked at.
\<close>

definition try_update ::
    "'w tasker \<Rightarrow> string \<Rightarrow> odm_update list result \<Rightarrow> report_entry \<Rightarrow> (exn \<Rightarrow> report_entry) \<Rightarrow> report_entry list \<Rightarrow>
     ('w, report_entry list) loop" where
  "try_update T query ops success failure report = (\<lambda>w.
     case bindL (once (liftM ops)) (\<lambda>os. update_by_query T query (map op_triple os) [] PNone) w of
       None \<Rightarrow> None
     | Some (Inr _, w') \<Rightarrow> Some (Inr (report @ [success]), w')
     | Some (Inl e, w') \<Rightarrow> Some (Inr (report @ [failure e]), w'))"

definition unknown_exception :: "string \<Rightarrow> exn \<Rightarrow> report_entry" where
  "unknown_exception query e =
     entry query ''error'' ''Failed to Execute'' (''Unknown exception occurred: '' @ exn_message e)"

definition failed_to_execute :: "string \<Rightarrow> exn \<Rightarrow> report_entry" where
  "failed_to_execute query e = entry query ''error'' ''Failed to Execute'' (exn_message e)"

definition executed :: "string \<Rightarrow> string \<Rightarrow> report_entry" where
  "executed query message = entry query ''success'' ''Executed Successfully'' message"

text \<open>The hits that are left as they are, as far as the first page of the search goes.\<close>

definition skipped_hits :: "'w tasker \<Rightarrow> string \<Rightarrow> string \<Rightarrow> string \<Rightarrow> ('w, report_entry list) loop" where
  "skipped_hits T q title message =
     bindL (once (search_ids T q PNone)) (\<lambda>(ids, n).
     once (returnM (if ids = [] then [] else [entry (ids_query ids) ''skipped'' title message])))"

definition quoted :: "string \<Rightarrow> string" where
  "quoted s = CHR 0x27 # s @ [CHR 0x27]"

text \<open>A text that is escaped has to be a text.\<close>

definition text_of :: "py \<Rightarrow> string result" where
  "text_of v = (case v of PStr s \<Rightarrow> Inr s | _ \<Rightarrow> Inl (Exn ETypeError ''expected string or bytes-like object''))"

definition label_categories :: "string list" where
  "label_categories = map fst Label_model"

definition label_key :: "py \<Rightarrow> string" where
  "label_key category = ''howler.labels.'' @ py_str category"

definition add_label :: "'w tasker \<Rightarrow> string \<Rightarrow> py \<Rightarrow> py \<Rightarrow> ('w, report_entry list) loop" where
  "add_label T query category label =
     (if category \<notin> PStr ` set label_categories
      then once (returnM [entry query ''error'' ''Invalid Category'' (quoted (py_str category) @ '' is not a valid category.'')])
      else if \<not> truthy label
      then once (returnM [entry query ''error'' ''Invalid Label'' ''Label cannot be empty.''])
      else
        bindL (once (liftM (text_of label))) (\<lambda>l.
        bindL (skipped_hits T (paren query @ '' AND '' @ label_key category @ '':'' @ sanitize_lucene_query l)
                 ''Skipped Hit with Label'' (''These hits already have the label '' @ l @ ''.'')) (\<lambda>report.
        try_update T query (bindR (list_add hit_helper (label_key category) label None False True) (\<lambda>u. Inr [u]))
          (executed query (''Label '' @ quoted l @ '' added to category '' @ quoted (py_str category) @ '' for all matching hits.''))
          (unknown_exception query) report)))"

definition remove_label :: "'w tasker \<Rightarrow> string \<Rightarrow> py \<Rightarrow> py \<Rightarrow> ('w, report_entry list) loop" where
  "remove_label T query category label =
     (if category \<notin> PStr ` set label_categories
      then once (returnM [entry query ''error'' ''Invalid Category'' (quoted (py_str category) @ '' is not a valid category.'')])
      else if \<not> truthy label
      then once (returnM [entry query ''error'' ''Invalid Label'' ''Label cannot be empty.''])
      else
        bindL (once (liftM (text_of label))) (\<lambda>l.
        bindL (skipped_hits T (paren query @ '' AND -'' @ label_key category @ '':'' @ sanitize_lucene_query l)
                 ''Skipped Hit without Label'' (''These hits already do not have the label '' @ l @ ''.'')) (\<lambda>report.
        try_update T query (bindR (list_remove hit_helper (label_key category) label None False) (\<lambda>u. Inr [u]))
          (executed query (''Label '' @ quoted l @ '' removed from category '' @ quoted (py_str category) @ '' for all matching hits.''))
          (unknown_exception query) report)))"


section \<open>Changing fields\<close>

definition change_field :: "'w tasker \<Rightarrow> string \<Rightarrow> py \<Rightarrow> py \<Rightarrow> ('w, report_entry list) loop" where
  "change_field T query field value =
     (if \<not> hashable field then once (raiseM (Exn ETypeError ''unhashable type''))
      else if field \<notin> PStr ` set (map fst hit_flat_fields)
      then once (returnM [entry query ''error'' ''Invalid field''
             (''Field '' @ quoted (py_str field) @ '' does not exist. You must pick a valid entry from the howler index.'')])
      else try_update T query (bindR (helper_update hit_helper (py_str field) value None False) (\<lambda>u. Inr [u]))
             (executed query (''Field '' @ quoted (py_str field) @ '' updated to value '' @ quoted (py_str value) @ '' for all matching hits.''))
             (failed_to_execute query) [])"

definition VALID_FIELDS :: "string list" where
  "VALID_FIELDS = [''reliability'', ''severity'', ''volume'', ''confidence'', ''score'']"

text \<open>\<^verbatim>\<open>to_float\<close> is \<^verbatim>\<open>float(value)\<close>.\<close>

definition is_value_error :: "exn_class \<Rightarrow> bool" where
  "is_value_error ec \<longleftrightarrow> ec \<in> {EValueError, EHowlerValue}"

definition prioritization ::
    "(py \<Rightarrow> string result) \<Rightarrow> 'w tasker \<Rightarrow> string \<Rightarrow> py \<Rightarrow> py \<Rightarrow> ('w, report_entry list) loop" where
  "prioritization to_float T query field value =
     (if field \<notin> PStr ` set VALID_FIELDS
      then once (returnM [entry query ''error'' ''Invalid field''
             (''Field '' @ quoted (''howler.'' @ py_str field) @
              '' does not exist. You must pick from one of the following values: '' @ py_join '', '' VALID_FIELDS @ ''.'')])
      else
        (let key = ''howler.'' @ py_str field;
             invalid = (\<lambda>v. entry query ''error'' ''Invalid Value''
               (quoted (py_str v) @ '' is not a valid value. It must be a float (i.e. 12.34)''));
             failure = (\<lambda>v e. if is_value_error (exn_class e) then invalid v else failed_to_execute query e) in
         case to_float value of
           Inl e \<Rightarrow> once (returnM [failure value e])
         | Inr r \<Rightarrow>
             try_update T query (bindR (helper_update hit_helper key (PFloat r) None False) (\<lambda>u. Inr [u]))
               (executed query (''Field '' @ quoted key @ '' updated to value '' @ quoted (py_str (PFloat r)) @ '' for all matching hits.''))
               (failure (PFloat r)) []))"

section \<open>Promoting and demoting\<close>

definition promote_escalations :: "string list" where
  "promote_escalations = filter (\<lambda>e. e \<noteq> escalation_value MISS) (enum_list Escalation)"

definition demote_escalations :: "string list" where
  "demote_escalations = filter (\<lambda>e. e \<noteq> escalation_value EVIDENCE) (enum_list Escalation)"

definition updates_of :: "(string \<times> py) list \<Rightarrow> odm_update list result" where
  "updates_of = mapR (\<lambda>(k, v). helper_update hit_helper k v None False)"

text \<open>The update of a hit or an alert: its escalation, and no assessment any more.\<close>

definition unassess :: "odm_update list result \<Rightarrow> odm_update list result" where
  "unassess escalate =
     bindR escalate (\<lambda>us. bindR (updates_of [(''howler.assessment'', PNone), (''howler.rationale'', PNone), (''howler.triaged'', PNone)])
       (\<lambda>vs. Inr (us @ vs)))"

definition demote_assessed :: "string option \<Rightarrow> string option \<Rightarrow> user option \<Rightarrow> odm_update list result" where
  "demote_assessed assessment rationale usr =
     bindR (assess_hit assessment rationale) (\<lambda>us.
     bindR (updates_of [(''howler.assignment'', PStr (case usr of Some u \<Rightarrow> u_uname u | None \<Rightarrow> ''automation'')),
                        (''howler.status'', PStr (status_value RESOLVED))]) (\<lambda>vs. Inr (us @ vs)))"

text \<open>Both actions, but for the words of the report and what they do with an assessment.\<close>

definition escalate ::
    "string list \<Rightarrow> (string \<Rightarrow> odm_update list result) \<Rightarrow> odm_update list result \<Rightarrow> string \<Rightarrow> string \<Rightarrow>
     'w tasker \<Rightarrow> string \<Rightarrow> py \<Rightarrow> string option \<Rightarrow> ('w, report_entry list) loop" where
  "escalate valid raise_to assess past doing T query escalation assessment =
     (if escalation \<notin> PStr ` set valid
      then once (returnM [entry query ''error'' ''Invalid Escalation'' (quoted (py_str escalation) @ '' is not a valid escalation.'')])
      else
        (let e = py_str escalation;
             success = executed query (past @ '' to '' @ quoted e @ '' for all matching hits.'') in
         bindL (skipped_hits T (paren query @ '' AND howler.escalation:'' @ sanitize_lucene_query e)
                  ''Skipped Hit with Escalation'' (''These hits already have the escalation '' @ e @ ''.'')) (\<lambda>report.
         if e \<in> {escalation_value HIT, escalation_value ALERT}
         then try_update T query (unassess (raise_to e)) success (unknown_exception query) report
         else if \<not> given assessment
         then once (returnM (report @ [entry query ''error'' ''Missing assessment''
                (''You must provide as assessment value when '' @ doing @ ''.'')]))
         else try_update T query assess success (unknown_exception query) report)))"

definition promote ::
    "'w tasker \<Rightarrow> string \<Rightarrow> py \<Rightarrow> string option \<Rightarrow> string option \<Rightarrow> ('w, report_entry list) loop" where
  "promote T query escalation assessment rationale =
     escalate promote_escalations (\<lambda>e. promote_hit (Some (Some e))) (assess_hit assessment rationale)
       ''Promoted'' ''promoting to evidence'' T query escalation assessment"

definition demote ::
    "'w tasker \<Rightarrow> string \<Rightarrow> py \<Rightarrow> string option \<Rightarrow> string option \<Rightarrow> user option \<Rightarrow> ('w, report_entry list) loop" where
  "demote T query escalation assessment rationale usr =
     escalate demote_escalations (\<lambda>e. demote_hit (Some (Some e))) (demote_assessed assessment rationale usr)
       ''Demoted'' ''demoting to miss'' T query escalation assessment"

section \<open>Transitions\<close>

definition HitStatusTransition :: enum_members where
  "HitStatusTransition =
     [(''ASSIGN_TO_ME'', transition_value ASSIGN_TO_ME), (''ASSIGN_TO_OTHER'', transition_value ASSIGN_TO_OTHER),
      (''VOTE'', transition_value VOTE), (''ASSESS'', transition_value ASSESS), (''RELEASE'', transition_value RELEASE),
      (''START'', transition_value START), (''PAUSE'', transition_value PAUSE), (''RESUME'', transition_value RESUME),
      (''RE_EVALUATE'', transition_value RE_EVALUATE), (''PROMOTE'', transition_value PROMOTE),
      (''DEMOTE'', transition_value DEMOTE)]"

definition TRANSITION_BASIC :: int where "TRANSITION_BASIC = 10"
definition TRANSITION_ADVANCED :: int where "TRANSITION_ADVANCED = 1000"
definition MAX_VERSION_CONFLICT_ATTEMPTS :: nat where "MAX_VERSION_CONFLICT_ATTEMPTS = 3"

definition transition_failure_report :: "string \<Rightarrow> exn \<Rightarrow> report_entry" where
  "transition_failure_report hid e =
     (if exn_class e = EVersionConflict
      then entry (''howler.id:'' @ hid) ''error'' ''Version Conflict'' ''The hit was modified while this transition was running.''
      else entry (''howler.id:'' @ hid) ''error'' ''An error occurred while processing.'' (exn_message e))"

text \<open>The loop with the attempts left: a version conflict is tried again, but for the last one.\<close>

fun transition_with_retry :: "nat \<Rightarrow> ('w, 'a) io \<Rightarrow> ('w, unit) io" where
  "transition_with_retry 0 m = returnM ()"
| "transition_with_retry (Suc n) m = (\<lambda>w. case m w of
     (Inr _, w') \<Rightarrow> (Inr (), w')
   | (Inl e, w') \<Rightarrow> if exn_class e = EVersionConflict \<and> n \<noteq> 0 then transition_with_retry n m w' else (Inl e, w'))"

definition reported_error :: "exn_class \<Rightarrow> bool" where
  "reported_error ec \<longleftrightarrow> ec \<in> {EInvalidData, ENotFound, EVersionConflict, EWorkflow}"

text \<open>
  A transition on one hit: its id when it succeeds, the entry of the report when it fails with an error the
  action knows.
\<close>

definition transition_one ::
    "'w collection \<Rightarrow> (string, field \<times> bool) dict \<Rightarrow> string \<Rightarrow> user \<Rightarrow> hit_kwargs \<Rightarrow> string \<Rightarrow> ('w app, string + report_entry) io" where
  "transition_one c flds transition usr kw hid = (\<lambda>a.
     case (case enum_getitem HitStatusTransition transition of
             Inl e \<Rightarrow> (Inl e, a)
           | Inr t \<Rightarrow> transition_with_retry MAX_VERSION_CONFLICT_ATTEMPTS
                        (transition_hit c flds hid t usr None None kw) a) of
       (Inr _, a') \<Rightarrow> (Inr (Inl hid), a')
     | (Inl e, a') \<Rightarrow> if reported_error (exn_class e) then (Inr (Inr (transition_failure_report hid e)), a') else (Inl e, a'))"

definition tell_progress :: "string option \<Rightarrow> nat \<Rightarrow> nat \<Rightarrow> ('w action_world, unit) io" where
  "tell_progress request_id k n =
     (if k mod 10 = 0 \<and> request_id \<noteq> None
      then modifyM (\<lambda>(a, p). (a, p @ [(the request_id, k, n)])) else returnM ())"

fun transition_each ::
    "('w app, string + report_entry) io list \<Rightarrow> string option \<Rightarrow> nat \<Rightarrow> nat \<Rightarrow> string list \<Rightarrow> report_entry list \<Rightarrow>
     ('w action_world, string list \<times> report_entry list) io" where
  "transition_each [] request_id k n ok report = returnM (ok, report)"
| "transition_each (m # ms) request_id k n ok report =
     bindM (in_app m) (\<lambda>r.
     thenM (tell_progress request_id (Suc k) n)
     (case r of
        Inl hid \<Rightarrow> transition_each ms request_id (Suc k) n (if hid \<in> set ok then ok else ok @ [hid]) report
      | Inr e \<Rightarrow> transition_each ms request_id (Suc k) n ok (report @ [e])))"

text \<open>The ids that succeeded are a set; they are joined here in the order they succeeded.\<close>

definition transition_action ::
    "'w collection \<Rightarrow> (string, field \<times> bool) dict \<Rightarrow> 'w tasker \<Rightarrow> string \<Rightarrow> string \<Rightarrow> string \<Rightarrow> user \<Rightarrow> string option \<Rightarrow>
     hit_kwargs \<Rightarrow> ('w action_world, report_entry list) io" where
  "transition_action c flds T query status transition usr request_id kw =
     (let effective = paren query @ '' AND howler.status:'' @ status;
          others = paren query @ '' AND -howler.status:'' @ status;
          rows = (if is_advanced usr then TRANSITION_ADVANCED else TRANSITION_BASIC) in
      bindM (in_app (on_store (check_hit_limit T effective usr (Some TRANSITION_BASIC) (Some TRANSITION_ADVANCED)))) (\<lambda>err.
      case err of
        Some e \<Rightarrow> returnM [e]
      | None \<Rightarrow>
          bindM (in_app (on_store (search_ids T effective (PInt rows)))) (\<lambda>(ids, n).
          if ids = []
          then returnM [entry query ''skipped'' ''No matching hits'' ''No hits matched this query, so the automation skipped.'']
          else
            bindM (in_app (on_store (search_total T others (PInt 1)))) (\<lambda>num_skipped.
            let report =
              (if rows < n
               then [entry query ''skipped'' ''Too Many Hits'' (''A maximum of '' @ str_int rows @ '' hits can be processed at once, but '' @
                       str_int n @ '' matched the query.'')] else []) @
              (if 0 < num_skipped
               then [entry others ''skipped'' (''Skipped '' @ str_int num_skipped @ '' hits'')
                       (''These hits did not have the correct status ('' @ status @ ''), and were skipped.'')] else []) in
            bindM (transition_each (map (transition_one c flds transition usr kw) ids) request_id 0 (length ids) [] report)
              (\<lambda>(ok, report').
            bindM (in_app (on_store (coll_commit c))) (\<lambda>_.
            returnM (report' @
              (if ok = [] then []
               else [entry (ids_query ok) ''success'' ''Transition Executed Successfully''
                      (''The transition '' @ transition @ '' successfully executed on '' @ str_nat (length ok) @ '' hits.'')]))))))))"

section \<open>Executing an operation\<close>

text \<open>
  An operation module: the roles of its specification, its limits, whether it tests them itself, and its
  \<^verbatim>\<open>execute\<close>, given the keyword arguments of the action. Plugins bring operations of their own.
\<close>

record 'w operation =
  op_id :: string
  op_roles :: "string list"
  op_basic :: "int option"
  op_advanced :: "int option"
  op_own_limit :: bool
  op_run :: "string \<Rightarrow> string option \<Rightarrow> user \<Rightarrow> (string, py) dict \<Rightarrow> ('w action_world, report_entry list) loop"

record 'w action_env =
  av_hits :: "'w collection"
  av_fields :: "(string, field \<times> bool) dict"
  av_tasker :: "'w tasker"
  av_float :: "py \<Rightarrow> string result"
  av_other :: "'w operation list"

definition kw_get :: "(string, py) dict \<Rightarrow> string \<Rightarrow> py \<Rightarrow> py" where
  "kw_get kw k d = (case dget kw k of Some v \<Rightarrow> v | None \<Rightarrow> d)"

definition kw_need :: "(string, py) dict \<Rightarrow> string \<Rightarrow> py result" where
  "kw_need kw k =
     (case dget kw k of Some v \<Rightarrow> Inr v
      | None \<Rightarrow> Inl (Exn ETypeError (''execute() missing 1 required positional argument: '' @ quoted k)))"

definition kw_text :: "(string, py) dict \<Rightarrow> string \<Rightarrow> string option" where
  "kw_text kw k = (case dget kw k of None \<Rightarrow> None | Some PNone \<Rightarrow> None | Some v \<Rightarrow> Some (py_str v))"

definition transition_kwargs :: "(string, py) dict \<Rightarrow> hit_kwargs" where
  "transition_kwargs kw =
     (let optional = (\<lambda>k. if dmem kw k then Some (kw_text kw k) else None) in
      \<lparr>kw_user = None, kw_hit = (\<lambda>_. None), kw_assessment = kw_text kw ''assessment'', kw_rationale = kw_text kw ''rationale'',
       kw_assignee = kw_text kw ''assignee'', kw_vote = optional ''vote'', kw_email = optional ''email'',
       kw_escalation = optional ''escalation''\<rparr>)"

definition basic_roles :: "string list" where
  "basic_roles = [''automation_basic'', ''actionrunner_basic'']"

definition hit_operation ::
    "string \<Rightarrow> string list \<Rightarrow> int option \<Rightarrow> int option \<Rightarrow>
     (string \<Rightarrow> user \<Rightarrow> (string, py) dict \<Rightarrow> ('w, report_entry list) loop) \<Rightarrow> 'w operation" where
  "hit_operation i roles basic advanced f =
     \<lparr>op_id = i, op_roles = roles, op_basic = basic, op_advanced = advanced, op_own_limit = False,
      op_run = (\<lambda>q r u kw. in_hits (f q u kw))\<rparr>"

definition hit_operations :: "'w action_env \<Rightarrow> 'w operation list" where
  "hit_operations env = (let T = av_tasker env in
     [hit_operation ''add_label'' basic_roles (Some 20) (Some 1000)
        (\<lambda>q u kw. add_label T q (kw_get kw ''category'' (PStr ''generic'')) (kw_get kw ''label'' PNone)),
      hit_operation ''remove_label'' basic_roles (Some 20) (Some 1000)
        (\<lambda>q u kw. remove_label T q (kw_get kw ''category'' (PStr ''generic'')) (kw_get kw ''label'' PNone)),
      hit_operation ''change_field'' [''automation_advanced'', ''actionrunner_advanced'', ''admin''] None None
        (\<lambda>q u kw. bindL (once (liftM (bindR (kw_need kw ''field'') (\<lambda>f. bindR (kw_need kw ''value'') (\<lambda>v. Inr (f, v))))))
           (\<lambda>(f, v). change_field T q f v)),
      hit_operation ''prioritization'' basic_roles (Some 10) (Some 1000)
        (\<lambda>q u kw. prioritization (av_float env) T q (kw_get kw ''field'' (PStr ''score'')) (kw_get kw ''value'' (PStr ''0.0''))),
      hit_operation ''promote'' basic_roles (Some 10) (Some 1000)
        (\<lambda>q u kw. promote T q (kw_get kw ''escalation'' (PStr (escalation_value ALERT))) (kw_text kw ''assessment'') (kw_text kw ''rationale'')),
      hit_operation ''demote'' basic_roles (Some 10) (Some 1000)
        (\<lambda>q u kw. demote T q (kw_get kw ''escalation'' (PStr (escalation_value HIT))) (kw_text kw ''assessment'') (kw_text kw ''rationale'') (Some u))])"

definition transition_operation :: "'w action_env \<Rightarrow> 'w operation" where
  "transition_operation env =
     \<lparr>op_id = ''transition'', op_roles = basic_roles, op_basic = Some TRANSITION_BASIC, op_advanced = Some TRANSITION_ADVANCED,
      op_own_limit = True,
      op_run = (\<lambda>q r u kw.
        bindL (once (liftM (bindR (kw_need kw ''status'') (\<lambda>s. bindR (kw_need kw ''transition'') (\<lambda>t. Inr (py_str s, py_str t))))))
          (\<lambda>(s, t). once (transition_action (av_hits env) (av_fields env) (av_tasker env) q s t u r (transition_kwargs kw))))\<rparr>"

definition get_operation :: "'w action_env \<Rightarrow> string \<Rightarrow> 'w operation option" where
  "get_operation env i = find_first (\<lambda>p. op_id p = i) (hit_operations env @ [transition_operation env] @ av_other env)"

definition may_run :: "'w operation \<Rightarrow> user \<Rightarrow> bool" where
  "may_run p u \<longleftrightarrow> ''admin'' \<in> set (u_type u) \<or> list_ex (\<lambda>r. r \<in> set (u_type u)) (op_roles p)"

definition execute ::
    "'w action_env \<Rightarrow> string \<Rightarrow> string \<Rightarrow> user option \<Rightarrow> string option \<Rightarrow> (string, py) dict \<Rightarrow>
     ('w action_world, report_entry list) loop" where
  "execute env operation_id query usr request_id kwargs =
     (case get_operation env operation_id of
        None \<Rightarrow> once (returnM [entry query ''error'' ''Unknown Action''
                  (''The operation ID provided ('' @ operation_id @ '') does not match any enabled operations.'')])
      | Some p \<Rightarrow>
          (case usr of
             None \<Rightarrow> once (returnM [entry query ''error'' ''Authentication required'' ''You must be logged in to execute actions.''])
           | Some u \<Rightarrow>
               if \<not> may_run p u
               then once (returnM [entry query ''error'' ''Insufficient permissions''
                      (''The operation ID provided ('' @ operation_id @ '') requires permissions you do not have (missing one of: '' @
                       py_join '', '' (sorted_set (op_roles p)) @ ''). Contact HOWLER Support for more information.'')])
               else
                 bindL (once (if op_own_limit p then returnM None
                              else in_app (on_store (check_hit_limit (av_tasker env) query u (op_basic p) (op_advanced p)))))
                   (\<lambda>err. case err of
                      Some e \<Rightarrow> once (returnM [e])
                    | None \<Rightarrow> bindL (op_run p query request_id u kwargs) (\<lambda>report. once (liftM (sanitize_report report))))))"
end
