(* ===== verification/ActionQueue.thy ===== *)
theory ActionQueue
  imports Actions
begin

text \<open>
  \<^verbatim>\<open>services/action_service.py\<close>: the actions registered for a trigger run on the hits something happened to.
  Requests are buffered in a queue per trigger and coalesced by user. The queue, the users and the registered
  actions are parameters, as is the JSON parser of the data of an operation. Auditing has no effect on the
  model.
\<close>

section \<open>Loops over a list\<close>

fun forL :: "'a list \<Rightarrow> ('a \<Rightarrow> ('w, unit) loop) \<Rightarrow> ('w, unit) loop" where
  "forL [] f = once (returnM ())"
| "forL (x # xs) f = bindL (f x) (\<lambda>_. forL xs f)"

text \<open>A loop that goes on to the next element when one raises.\<close>

fun forL_logged :: "'a list \<Rightarrow> ('a \<Rightarrow> ('w, unit) loop) \<Rightarrow> ('w, unit) loop" where
  "forL_logged [] f = once (returnM ())"
| "forL_logged (x # xs) f = (\<lambda>w. case f x w of None \<Rightarrow> None | Some (r, w') \<Rightarrow> forL_logged xs f w')"

section \<open>Registered actions\<close>

record action_step =
  st_operation :: string
  st_data :: "string option"
  st_plain :: "(string, py) dict"

record action_rec =
  ac_id :: string
  ac_query :: string
  ac_steps :: "action_step list"

type_synonym triggered = "string list \<times> string option"

record 'w queue_env =
  qe_actions :: "'w action_env"
  qe_enabled :: bool
  qe_push :: "string \<Rightarrow> triggered \<Rightarrow> ('w action_world, unit) io"
  qe_user :: "string option \<Rightarrow> ('w action_world, user option) io"
  qe_find :: "string \<Rightarrow> ('w action_world, action_rec list) io"
  qe_json :: "string \<Rightarrow> (string, py) dict result"

definition VALID_TRIGGERS :: "string list" where
  "VALID_TRIGGERS = [''create'', ''demote'', ''promote'', ''add_label'', ''remove_label'']"

definition invalid_trigger :: "string \<Rightarrow> exn" where
  "invalid_trigger t = Exn EHowlerValue (''Invalid trigger '' @ quoted t @ ''. Must be one of '' @ py_repr (PList (map PStr VALID_TRIGGERS)))"

definition step_data :: "'w queue_env \<Rightarrow> action_step \<Rightarrow> (string, py) dict result" where
  "step_data env s = (if given (st_data s) then qe_json env (the (st_data s)) else Inr (st_plain s))"

definition run_step :: "'w queue_env \<Rightarrow> string \<Rightarrow> user option \<Rightarrow> action_step \<Rightarrow> ('w action_world, unit) loop" where
  "run_step env query usr s =
     (if st_operation s = ''example_plugin'' then once (returnM ())
      else
        bindL (once (liftM (step_data env s))) (\<lambda>kw.
        if usr = None
        then once (raiseM (Exn ENotImplemented ''Running actions without a user object is not currently supported''))
        else bindL (execute (qe_actions env) (st_operation s) query usr None kw) (\<lambda>_. once (returnM ()))))"

definition run_registered :: "'w queue_env \<Rightarrow> string \<Rightarrow> user option \<Rightarrow> action_rec \<Rightarrow> ('w action_world, unit) loop" where
  "run_registered env query usr a =
     (let both = paren query @ '' AND '' @ paren (ac_query a) in
      bindL (once (in_app (on_store (search_total (av_tasker (qe_actions env)) both (PInt 0))))) (\<lambda>n.
      if n < 1 then once (returnM ()) else forL (ac_steps a) (run_step env both usr)))"

definition bulk_execute_on_query ::
    "'w queue_env \<Rightarrow> string \<Rightarrow> string \<Rightarrow> user option \<Rightarrow> ('w action_world, unit) loop" where
  "bulk_execute_on_query env query trigger usr =
     (if trigger \<notin> set VALID_TRIGGERS
      then once (raiseM (Exn EHowlerValue (trigger @ '' is not a valid trigger. It must be one of '' @ py_join '','' VALID_TRIGGERS)))
      else bindL (once (qe_find env (''triggers:'' @ sanitize_lucene_query trigger))) (\<lambda>as.
        forL as (run_registered env query usr)))"

section \<open>The queue\<close>

definition hits_query :: "string list \<Rightarrow> string" where
  "hits_query ids = ids_query (map sanitize_lucene_query ids)"

text \<open>Pushing to the queue; when that fails, or the queue is off, the actions run at once.\<close>

definition enqueue_action_execution ::
    "'w queue_env \<Rightarrow> string list \<Rightarrow> string \<Rightarrow> user option \<Rightarrow> ('w action_world, unit) loop" where
  "enqueue_action_execution env hit_ids trigger usr =
     (if hit_ids = [] then once (returnM ())
      else if trigger \<notin> set VALID_TRIGGERS then once (raiseM (invalid_trigger trigger))
      else if \<not> qe_enabled env then bulk_execute_on_query env (hits_query hit_ids) trigger usr
      else (\<lambda>w. case qe_push env trigger (hit_ids, map_option u_uname usr) w of
              (Inr _, w') \<Rightarrow> Some (Inr (), w')
            | (Inl e, w') \<Rightarrow> bulk_execute_on_query env (hits_query hit_ids) trigger usr w'))"

definition groups_of :: "triggered list \<Rightarrow> (string option, string list) dict" where
  "groups_of items =
     foldl (\<lambda>d (ids, u). dset d u ((case dget d u of Some xs \<Rightarrow> xs | None \<Rightarrow> []) @ ids)) [] items"

text \<open>\<^verbatim>\<open>list(dict.fromkeys(xs))\<close>: the first occurrence of each.\<close>

definition dedup :: "'a list \<Rightarrow> 'a list" where
  "dedup xs = rev (remdups (rev xs))"

definition run_group :: "'w queue_env \<Rightarrow> string \<Rightarrow> string option \<times> string list \<Rightarrow> ('w action_world, unit) loop" where
  "run_group env trigger g =
     bindL (once (qe_user env (fst g))) (\<lambda>usr.
     bulk_execute_on_query env (hits_query (dedup (snd g))) trigger usr)"

definition process_action_batch :: "'w queue_env \<Rightarrow> string \<Rightarrow> triggered list \<Rightarrow> ('w action_world, unit) loop" where
  "process_action_batch env trigger items =
     (if items = [] then once (returnM ()) else forL_logged (groups_of items) (run_group env trigger))"

section \<open>Validating an action\<close>

text \<open>The message of the first rule a new action breaks.\<close>

definition operation_ids :: "py list \<Rightarrow> py list result" where
  "operation_ids ops = mapR (\<lambda>v. py_item v ''operation_id'') ops"

definition validate_action :: "py \<Rightarrow> string option result" where
  "validate_action v =
     (case v of
        PDict d \<Rightarrow>
          (case dget d ''name'' of
             None \<Rightarrow> Inr (Some ''You must specify a name.'')
           | Some n \<Rightarrow> if \<not> truthy n then Inr (Some ''Name cannot be empty.'') else
          (case dget d ''query'' of
             None \<Rightarrow> Inr (Some ''You must specify a query.'')
           | Some q \<Rightarrow> if \<not> truthy q then Inr (Some ''Query cannot be empty.'') else
          (case dget d ''operations'' of
             None \<Rightarrow> Inr (Some ''You must specify a list of operations.'')
           | Some PNone \<Rightarrow> Inr (Some ''You must specify a list of operations.'')
           | Some (PList ops) \<Rightarrow>
               if ops = [] then Inr (Some ''You must specify at least one operation.'') else
               bindR (operation_ids ops) (\<lambda>ids.
               if \<not> list_all hashable ids then Inl (Exn ETypeError ''unhashable type'')
               else if \<not> distinct ids then Inr (Some ''You must have a maximum of one operation of each type in the action.'')
               else bindR (py_iter (case dget d ''triggers'' of Some t \<Rightarrow> t | None \<Rightarrow> PList [])) (\<lambda>ts.
               if \<not> list_all hashable ts then Inl (Exn ETypeError ''unhashable type'')
               else Inr (if list_all (\<lambda>t. t \<in> PStr ` set VALID_TRIGGERS) ts then None else Some ''Invalid trigger provided.'')))
           | Some _ \<Rightarrow> Inr (Some (quoted ''operations'' @ '' must be a list of operations.'')))))
      | _ \<Rightarrow> Inr (Some ''Incorrect data structure!''))"

end
