(* ===== verification/ActionFacts.thy ===== *)
theory ActionFacts
  imports ActionQueue
begin

text \<open>
  What the automation promises and what it does not: merging a report keeps what it says, an operation runs
  only for a user who may run it and within the limit, a failed update is reported as a success, promoting
  takes the assessment off a resolved hit, and a batch of the queue covers every hit it was given.
\<close>

section \<open>Merging reports\<close>

lemma by_message_snoc:
  "by_message (rs @ [r]) =
     dset (by_message rs) (entry_key r)
       ((case dget (by_message rs) (entry_key r) of Some qs \<Rightarrow> qs | None \<Rightarrow> []) @ [paren (re_query r)])"
  by (simp add: by_message_def)

definition queries_for :: "string \<Rightarrow> report_entry list \<Rightarrow> string list" where
  "queries_for k rs = map (paren \<circ> re_query) (filter (\<lambda>r. entry_key r = k) rs)"

lemma dget_by_message:
  "dget (by_message rs) k = (if k \<in> entry_key ` set rs then Some (queries_for k rs) else None)"
proof (induction rs arbitrary: k rule: rev_induct)
  case Nil
  show ?case by (simp add: by_message_def)
next
  case (snoc r rs)
  have "queries_for k rs = []" if "k \<notin> entry_key ` set rs" for k
    using that by (auto simp: queries_for_def filter_empty_conv)
  then have old: "(case dget (by_message rs) k of None \<Rightarrow> [] | Some qs \<Rightarrow> qs) = queries_for k rs" for k
    by (cases "k \<in> entry_key ` set rs") (simp_all add: snoc.IH)
  show ?case by (auto simp: by_message_snoc old snoc.IH) (auto simp: queries_for_def filter_empty_conv image_iff)
qed

lemma distinct_by_message: "distinct (dkeys (by_message rs))"
  by (induction rs rule: rev_induct) (simp_all add: by_message_def [of "[]"] by_message_snoc distinct_dkeys_dset dkeys_def [of "[]"])

lemma keys_by_message: "set (dkeys (by_message rs)) = entry_key ` set rs"
  by (induction rs rule: rev_induct) (auto simp: by_message_def [of "[]"] by_message_snoc dkeys_def [of "[]"])

text \<open>A text the separator cannot be mistaken in.\<close>

definition plain_text :: "string \<Rightarrow> bool" where
  "plain_text s \<longleftrightarrow> CHR ''='' \<notin> set s"

definition plain_entry :: "report_entry \<Rightarrow> bool" where
  "plain_entry r \<longleftrightarrow> plain_text (re_title r) \<and> plain_text (re_message r) \<and> plain_text (re_outcome r)"

lemma split_key: "plain_entry r \<Longrightarrow> py_split separator (entry_key r) = [re_title r, re_message r, re_outcome r]"
  by (simp add: plain_entry_def plain_text_def py_split_def separator_def entry_key_def
      split_sub_sep [of "CHR ''=''" _ "''==''", simplified] split_sub_no_sep)

lemma mapR_Inr: "(\<And>x. x \<in> set xs \<Longrightarrow> f x = Inr (g x)) \<Longrightarrow> mapR f xs = Inr (map g xs)"
  by (induction xs) simp_all

lemma mapR_Inl: "x \<in> set xs \<Longrightarrow> f x = Inl e \<Longrightarrow> \<exists>e'. mapR f xs = Inl e'"
proof (induction xs)
  case (Cons y ys)
  then show ?case by (cases "f y"; cases "mapR f ys") auto
qed simp

text \<open>Who says what: the title, message and outcome of an entry.\<close>

definition says :: "report_entry \<Rightarrow> string \<times> string \<times> string" where
  "says r = (re_title r, re_message r, re_outcome r)"

lemma says_key: "plain_entry r \<Longrightarrow> plain_entry s \<Longrightarrow> entry_key r = entry_key s \<longleftrightarrow> says r = says s"
proof
  assume "plain_entry r" "plain_entry s" "entry_key r = entry_key s"
  then have "[re_title r, re_message r, re_outcome r] = [re_title s, re_message s, re_outcome s]"
    using split_key [of r] split_key [of s] by simp
  then show "says r = says s" by (simp add: says_def)
qed (simp add: says_def entry_key_def)

definition key_says :: "string \<Rightarrow> string \<times> string \<times> string" where
  "key_says k = (let ps = py_split separator k in (ps ! 0, ps ! 1, ps ! 2))"

lemma key_says_key: "plain_entry r \<Longrightarrow> key_says (entry_key r) = says r"
  by (simp add: key_says_def says_def split_key Let_def)

definition merged :: "string \<times> string list \<Rightarrow> report_entry" where
  "merged kq = (case key_says (fst kq) of (title, message, outcome) \<Rightarrow> entry (py_join '' OR '' (snd kq)) outcome title message)"

lemma says_merged: "says (merged kq) = key_says (fst kq)"
  by (simp add: merged_def says_def entry_def split: prod.splits)

lemma merged_entry_plain: "plain_entry r \<Longrightarrow> merged_entry (entry_key r, qs) = Inr (merged (entry_key r, qs))"
  using split_key [of r] by (simp add: merged_entry_def merged_def key_says_key says_def)

lemma sanitize_plain:
  assumes "\<forall>r\<in>set report. plain_entry r"
  shows "sanitize_report report = Inr (map merged (by_message report))"
  unfolding sanitize_report_def
proof (rule mapR_Inr)
  fix kq assume "kq \<in> set (by_message report)"
  then have "fst kq \<in> entry_key ` set report" using keys_by_message [of report] by (force simp: dkeys_def)
  then obtain r where "r \<in> set report" "fst kq = entry_key r" by blast
  with assms show "merged_entry kq = Inr (merged kq)"
    using merged_entry_plain [of r "snd kq"] by (metis prod.collapse)
qed

lemma distinct_merged:
  assumes "\<forall>r\<in>set report. plain_entry r"
  shows "distinct (map says (map merged (by_message report)))"
proof -
  have "inj_on key_says (entry_key ` set report)"
    using assms by (auto intro!: inj_onI simp: key_says_key says_key)
  then have "distinct (map key_says (dkeys (by_message report)))"
    using distinct_by_message [of report] keys_by_message [of report] by (simp add: distinct_map)
  moreover have "map says (map merged (by_message report)) = map key_says (dkeys (by_message report))"
    by (simp add: dkeys_def says_merged)
  ultimately show ?thesis by simp
qed

lemma says_all_merged:
  assumes "\<forall>r\<in>set report. plain_entry r"
  shows "says ` set (map merged (by_message report)) = says ` set report"
proof -
  have "says ` set (map merged (by_message report)) = key_says ` set (dkeys (by_message report))"
    by (simp add: dkeys_def image_image says_merged)
  also have "\<dots> = (\<lambda>r. key_says (entry_key r)) ` set report" by (simp add: keys_by_message image_image)
  also have "\<dots> = says ` set report" using assms by (intro image_cong) (simp_all add: key_says_key)
  finally show ?thesis .
qed

lemma query_merged:
  assumes "\<forall>r\<in>set report. plain_entry r" and "kq \<in> set (by_message report)"
  shows "re_query (merged kq) =
           py_join '' OR '' (map (paren \<circ> re_query) (filter (\<lambda>s. says s = says (merged kq)) report))"
proof -
  have "fst kq \<in> entry_key ` set report" using keys_by_message [of report] assms(2) by (force simp: dkeys_def)
  then obtain r where r: "r \<in> set report" "fst kq = entry_key r" by blast
  have "dget (by_message report) (fst kq) = Some (snd kq)"
    using assms(2) distinct_by_message [of report] unfolding dget_def dkeys_def by simp
  then have "snd kq = queries_for (entry_key r) report" using r by (auto simp: dget_by_message split: if_splits)
  moreover have "filter (\<lambda>s. entry_key s = entry_key r) report = filter (\<lambda>s. says s = says (merged kq)) report"
    using assms(1) r by (intro filter_cong) (auto simp: says_merged key_says_key says_key)
  ultimately show ?thesis by (simp add: queries_for_def merged_def entry_def split: prod.splits)
qed

text \<open>Merging a report keeps what it says. When no title, message or outcome holds an equals sign, the merged
  report has one entry for everything the report says, no more and no less, and the query of an entry joins
  the queries of all entries that say the same. But the parts are written into one text and read back: as
  soon as one message holds the separator, as the text of an exception or a label may, the whole report is
  lost in an exception, after the operation has changed the hits.\<close>

lemma sanitize_report_merges:
  shows "((\<forall>r\<in>set report. plain_entry r) \<longrightarrow>
            (\<exists>out. sanitize_report report = Inr out \<and> distinct (map says out) \<and> says ` set out = says ` set report \<and>
               (\<forall>r\<in>set out. re_query r =
                  py_join '' OR '' (map (paren \<circ> re_query) (filter (\<lambda>s. says s = says r) report))))) \<and>
         ((\<exists>r\<in>set report. length (py_split separator (entry_key r)) \<noteq> 3) \<longrightarrow> (\<exists>e. sanitize_report report = Inl e))"
proof (intro conjI impI)
  assume plain: "\<forall>r\<in>set report. plain_entry r"
  show "\<exists>out. sanitize_report report = Inr out \<and> distinct (map says out) \<and> says ` set out = says ` set report \<and>
      (\<forall>r\<in>set out. re_query r = py_join '' OR '' (map (paren \<circ> re_query) (filter (\<lambda>s. says s = says r) report)))"
    by (rule exI [of _ "map merged (by_message report)"])
      (use sanitize_plain [OF plain] distinct_merged [OF plain] says_all_merged [OF plain] query_merged [OF plain] in simp)
next
  assume "\<exists>r\<in>set report. length (py_split separator (entry_key r)) \<noteq> 3"
  then obtain r where r: "r \<in> set report" "length (py_split separator (entry_key r)) \<noteq> 3" by blast
  then have "entry_key r \<in> fst ` set (by_message report)"
    using keys_by_message [of report] by (simp add: dkeys_def)
  then obtain qs where kq: "(entry_key r, qs) \<in> set (by_message report)" by auto
  have "\<exists>e. merged_entry (entry_key r, qs) = Inl e"
    using r(2) by (auto simp: merged_entry_def split: list.splits)
  with mapR_Inl [OF kq] show "\<exists>e. sanitize_report report = Inl e" by (auto simp: sanitize_report_def)
qed

definition sample_report :: "report_entry list" where
  "sample_report =
     [entry ''howler.id:a'' ''error'' ''Version Conflict'' ''modified'', entry ''howler.id:b'' ''error'' ''Version Conflict'' ''modified'',
      entry ''howler.id:c'' ''success'' ''Done'' ''all of it'']"

lemma sanitize_report_merges_witness:
  "(\<exists>out. sanitize_report sample_report = Inr out \<and> length out = 2 \<and>
      re_query (out ! 0) = ''(howler.id:a) OR (howler.id:b)'') \<and>
   (\<exists>e. sanitize_report [entry ''q'' ''success'' ''Executed Successfully'' ''Label a===b added''] = Inl e)"
proof
  have "\<forall>r\<in>set sample_report. plain_entry r" by (simp add: sample_report_def entry_def plain_entry_def plain_text_def)
  with sanitize_report_merges [of sample_report] obtain out where out: "sanitize_report sample_report = Inr out"
    and "distinct (map says out)" by blast
  moreover have "sanitize_report sample_report =
      Inr [entry ''(howler.id:a) OR (howler.id:b)'' ''error'' ''Version Conflict'' ''modified'',
           entry ''(howler.id:c)'' ''success'' ''Done'' ''all of it'']" by code_simp
  ultimately show "\<exists>out. sanitize_report sample_report = Inr out \<and> length out = 2 \<and>
      re_query (out ! 0) = ''(howler.id:a) OR (howler.id:b)''" by (auto simp: entry_def)
  have "length (py_split separator (entry_key (entry ''q'' ''success'' ''Executed Successfully'' ''Label a===b added''))) \<noteq> 3"
    by code_simp
  then show "\<exists>e. sanitize_report [entry ''q'' ''success'' ''Executed Successfully'' ''Label a===b added''] = Inl e"
    using sanitize_report_merges [of "[entry ''q'' ''success'' ''Executed Successfully'' ''Label a===b added'']"] by simp
qed


section \<open>Guards\<close>


section \<open>A failed update is a success\<close>

lemma try_update_swallows:
  assumes "validate_operations (se_coll (tk_searcher T)) (map op_triple us) = Inr os"
    and "update_async T (create_script os) (query_clause (PStr query) PNone []) w = Some (Inl e, w')"
  shows "try_update T query (Inr us) success failure report w = Some (Inr (report @ [success]), w')"
proof -
  have "update_by_query T query (map op_triple us) [] PNone w = Some (Inr (PBool False), w')"
    using assms by (simp add: update_by_query_def bindL_def swallow_def with_access_def)
  then show ?thesis by (simp add: try_update_def bindL_def)
qed

text \<open>A failed update is reported as a success. When the cluster refuses the update of a change of a field, for
  whatever reason, update_by_query answers False; the action does not look at the answer, and its report says
  that the field was updated for all matching hits.\<close>

lemma failed_change_reported_success:
  assumes "(f, field_type) \<in> set hit_flat_fields"
    and "validate_operations (se_coll (tk_searcher T)) [(UPDATE_SET, f, v)] = Inr os"
    and "update_async T (create_script os) (query_clause (PStr query) PNone []) w = Some (Inl e, w')"
  shows "\<exists>m. change_field T query (PStr f) v w = Some (Inr [entry query ''success'' ''Executed Successfully'' m], w')"
proof -
  let ?m = "''Field '' @ quoted f @ '' updated to value '' @ quoted (py_str v) @ '' for all matching hits.''"
  have known: "f \<in> set (map fst hit_flat_fields)" using assms(1) by force
  then have "helper_update hit_helper f v None False = Inr (set_op f v False)"
    by (simp add: helper_update_def hit_helper_def mk_helper_def)
  then have "change_field T query (PStr f) v w =
      try_update T query (Inr [set_op f v False]) (executed query ?m) (failed_to_execute query) [] w"
    using known by (simp add: change_field_def image_iff)
  also have "\<dots> = Some (Inr ([] @ [executed query ?m]), w')"
    by (rule try_update_swallows [OF _ assms(3)]) (use assms(2) in \<open>simp add: op_triple_def\<close>)
  finally show ?thesis unfolding executed_def append_Nil by (rule exI)
qed


section \<open>Promoting a resolved hit\<close>

definition unassess_updates :: "string \<Rightarrow> odm_update list" where
  "unassess_updates e =
     [set_op ''howler.escalation'' (PStr e) False, set_op ''howler.assessment'' PNone False,
      set_op ''howler.rationale'' PNone False, set_op ''howler.triaged'' PNone False]"

lemma unassess_promote: "unassess (promote_hit (Some (Some e))) = Inr (unassess_updates e)"
  by (simp add: unassess_def promote_hit_def updates_of_def escalation_arg_def py_opt_def unassess_updates_def)

lemma unassess_demote: "unassess (demote_hit (Some (Some e))) = Inr (unassess_updates e)"
  by (simp add: unassess_def demote_hit_def updates_of_def escalation_arg_def py_opt_def unassess_updates_def)

lemma unassess_applied:
  "\<exists>d'. apply_ops d (map op_triple (unassess_updates e)) = Some d' \<and> status_of d' = status_of d \<and>
     doc_get d' ''howler.assessment'' = PNone \<and> doc_get d' ''howler.escalation'' = PStr e"
  by (simp add: unassess_updates_def op_triple_def status_of_def doc_get_def)

definition already_escalated :: "'w tasker \<Rightarrow> string \<Rightarrow> string \<Rightarrow> ('w, report_entry list) loop" where
  "already_escalated T query e =
     skipped_hits T (paren query @ '' AND howler.escalation:'' @ sanitize_lucene_query e)
       ''Skipped Hit with Escalation'' (''These hits already have the escalation '' @ e @ ''.'')"

lemma escalate_unassess:
  assumes "e \<in> set valid" "e \<in> {escalation_value HIT, escalation_value ALERT}" "unassess (f e) = Inr us"
  shows "escalate valid f assess past doing T query (PStr e) a =
      bindL (already_escalated T query e)
        (try_update T query (Inr us) (executed query (past @ '' to '' @ quoted e @ '' for all matching hits.'')) (unknown_exception query))"
proof -
  have "PStr e \<in> PStr ` set valid" using assms(1) by simp
  with assms(2,3) show ?thesis by (simp only: escalate_def Let_def py_str.simps already_escalated_def if_True not_True_eq_False if_False)
qed

text \<open>C32: Promoting to an alert takes the assessment off a hit and leaves it resolved. Through the workflow a hit is
  resolved exactly when it has an assessment. The actions that promote or demote to a hit or an alert do not go
  through the workflow: on every hit the query matches they run an update that sets the escalation and clears
  the assessment, and the status stays, so a resolved hit becomes a resolved hit without an assessment.\<close>

theorem promoting_leaves_resolved:
  assumes "e \<in> {escalation_value HIT, escalation_value ALERT}"
  shows "\<exists>us.
     promote T query (PStr e) a r =
       bindL (already_escalated T query e)
         (try_update T query (Inr us) (executed query (''Promoted to '' @ quoted e @ '' for all matching hits.'')) (unknown_exception query)) \<and>
     demote T query (PStr e) a r usr =
       bindL (already_escalated T query e)
         (try_update T query (Inr us) (executed query (''Demoted to '' @ quoted e @ '' for all matching hits.'')) (unknown_exception query)) \<and>
     (\<forall>d. status_of d = Some RESOLVED \<longrightarrow>
        (\<exists>d'. apply_ops d (map op_triple us) = Some d' \<and> status_of d' = Some RESOLVED \<and>
              doc_get d' ''howler.assessment'' = PNone \<and> doc_get d' ''howler.escalation'' = PStr e))"
proof (intro exI [of _ "unassess_updates e"] conjI allI impI)
  have valid: "e \<in> set promote_escalations" "e \<in> set demote_escalations"
    using assms by (auto simp: promote_escalations_def demote_escalations_def enum_list_def Escalation_def)
  show "promote T query (PStr e) a r =
       bindL (already_escalated T query e)
         (try_update T query (Inr (unassess_updates e)) (executed query (''Promoted to '' @ quoted e @ '' for all matching hits.''))
           (unknown_exception query))"
    using escalate_unassess [where past = "''Promoted''", OF valid(1) assms unassess_promote] by (simp add: promote_def)
  show "demote T query (PStr e) a r usr =
       bindL (already_escalated T query e)
         (try_update T query (Inr (unassess_updates e)) (executed query (''Demoted to '' @ quoted e @ '' for all matching hits.''))
           (unknown_exception query))"
    using escalate_unassess [where past = "''Demoted''", OF valid(2) assms unassess_demote] by (simp add: demote_def)
next
  fix d assume "status_of d = Some RESOLVED"
  with unassess_applied [of d e] show "\<exists>d'. apply_ops d (map op_triple (unassess_updates e)) = Some d' \<and>
      status_of d' = Some RESOLVED \<and> doc_get d' ''howler.assessment'' = PNone \<and> doc_get d' ''howler.escalation'' = PStr e"
    by auto
qed

lemma promoting_leaves_resolved_witness:
  "\<exists>us d'. apply_ops ((\<lambda>_. None)(''howler.status'' \<mapsto> PStr ''resolved'', ''howler.assessment'' \<mapsto> PStr ''attempt''))
       (map op_triple us) = Some d' \<and> status_of d' = Some RESOLVED \<and> doc_get d' ''howler.assessment'' = PNone"
proof -
  have "status_of ((\<lambda>_. None)(''howler.status'' \<mapsto> PStr ''resolved'', ''howler.assessment'' \<mapsto> PStr ''attempt'')) = Some RESOLVED"
    by (simp add: status_of_def statuses_def)
  moreover have "escalation_value ALERT \<in> {escalation_value HIT, escalation_value ALERT}" by simp
  note promoting_leaves_resolved [OF this, of busy_tasker "''q''" None None None]
  ultimately show ?thesis by blast
qed

text \<open>A small deployment: two matching documents, a plugin that may change none, a cluster that refuses updates.\<close>

definition refusing_tasker :: "nat tasker" where
  "refusing_tasker = busy_tasker\<lparr>tk_update := (\<lambda>s q n. (Inl (EsBadRequest ''read only''), n))\<rparr>"

definition touch_operation :: "nat operation" where
  "touch_operation =
     \<lparr>op_id = ''touch'', op_roles = basic_roles, op_basic = Some 0, op_advanced = Some 5, op_own_limit = False,
      op_run = (\<lambda>q r u kw. once (returnM [entry q ''success'' ''Touched'' ''touched'']))\<rparr>"

definition sample_actions :: "nat action_env" where
  "sample_actions =
     \<lparr>av_hits = counting_collection 10, av_fields = [], av_tasker = busy_tasker, av_float = (\<lambda>v. Inr ''1.0''),
      av_other = [touch_operation]\<rparr>"

definition sample_user :: "string list \<Rightarrow> user" where
  "sample_user roles = \<lparr>u_uname = ''ana'', u_type = roles, u_classification = ''U''\<rparr>"

definition sample_app :: "nat action_world" where
  "sample_app = (\<lparr>app_store = 0, app_events = [], app_actions = []\<rparr>, [])"

lemma get_touch: "get_operation sample_actions ''touch'' = Some touch_operation"
  by (simp add: get_operation_def hit_operations_def hit_operation_def transition_operation_def sample_actions_def
      touch_operation_def Let_def)


lemma failed_change_reported_success_witness:
  "\<exists>m. change_field refusing_tasker ''q'' (PStr ''howler.analytic'') (PStr ''new'') 0 =
         Some (Inr [entry ''q'' ''success'' ''Executed Successfully'' m], 0)"
proof -
  have "list_ex (\<lambda>(k, _). k = ''howler.analytic'') howler_flat" by code_simp
  then have "list_ex (\<lambda>(k, _). k = ''howler.analytic'') hit_flat_fields" by (simp add: hit_flat_split)
  then obtain t where t: "(''howler.analytic'', t) \<in> set hit_flat_fields" by (auto simp: list_ex_iff)
  have v: "validate_operations (se_coll (tk_searcher refusing_tasker)) [(UPDATE_SET, ''howler.analytic'', PStr ''new'')] =
      Inr [(UPDATE_SET, ''howler.analytic'', PStr ''new'')]"
    by code_simp
  have "fst (start_task (se_coll (tk_searcher refusing_tasker)) (tk_update refusing_tasker sc q) 0) =
        Inl (Exn EOther ''read only'')"
    "snd (start_task (se_coll (tk_searcher refusing_tasker)) (tk_update refusing_tasker sc q) 0) = 0" for sc q
    by (simp_all add: start_task_def with_retries_def refusing_tasker_def busy_tasker_def sample_searcher_def
        counting_collection_def numeral_eq_Suc retry_decision_def call_exn_def es_exn_text_def)
  then have "start_task (se_coll (tk_searcher refusing_tasker)) (tk_update refusing_tasker sc q) 0 =
      (Inl (Exn EOther ''read only''), 0)" for sc q
    by (metis prod.collapse)
  then have "update_async refusing_tasker sc q 0 = Some (Inl (Exn EOther ''read only''), 0)" for sc q
    unfolding update_async_def by (subst rounds.simps) (simp add: one_round_def bindL_def)
  from failed_change_reported_success [OF t v this] show ?thesis .
qed

end
