(* ===== verification/OdmTypes.thy ===== *)
theory OdmTypes
  imports CaseModel
begin

text \<open>
  The type a field declares, as a predicate on checked values, and the proof that every check answers a value
  of the type: text that matches its pattern, numbers within their bounds, members of enumerations, maps with
  clean keys, objects with exactly the fields of their model, and null only where the declaration allows it.
\<close>

section \<open>Types\<close>

definition nullable :: "field_kind \<Rightarrow> py \<Rightarrow> bool \<Rightarrow> bool \<Rightarrow> bool" where
  "nullable k d s p \<longleftrightarrow>
     (case k of
        KDate \<Rightarrow> True
      | KIP \<Rightarrow> True
      | KDomain strict \<Rightarrow> True
      | KEmail \<Rightarrow> True
      | KURI \<Rightarrow> True
      | KEmptyableKeyword \<Rightarrow> True
      | KUUID \<Rightarrow> False
      | KBoolean \<Rightarrow> p
      | KJson \<Rightarrow> p
      | KIndexText \<Rightarrow> p
      | KClassification u \<Rightarrow> p
      | KEnum vs \<Rightarrow> p
      | KClassificationString \<Rightarrow> p
      | _ \<Rightarrow> p \<or> (s \<and> d = PNone))"

definition scalar_ok :: "field_kind \<Rightarrow> py \<Rightarrow> bool \<Rightarrow> oval \<Rightarrow> bool" where
  "scalar_ok k d s v \<longleftrightarrow>
     (case k of
        KDate \<Rightarrow> (case v of ODate x \<Rightarrow> True | _ \<Rightarrow> False)
      | KBoolean \<Rightarrow> (case v of OBool b \<Rightarrow> True | _ \<Rightarrow> False)
      | KUpperKeyword \<Rightarrow> (case v of OStr x \<Rightarrow> py_upper x = x | _ \<Rightarrow> False)
      | KLowerKeyword \<Rightarrow> (case v of OStr x \<Rightarrow> py_lower x = x | _ \<Rightarrow> False)
      | KValidated r \<Rightarrow> (case v of OStr x \<Rightarrow> rx_match r x | _ \<Rightarrow> False)
      | KIP \<Rightarrow> (case v of OStr x \<Rightarrow> rx_match IP_REGEX x | _ \<Rightarrow> False)
      | KDomain strict \<Rightarrow> (case v of OStr x \<Rightarrow> py_lower x = x | _ \<Rightarrow> False)
      | KEmail \<Rightarrow> (case v of OStr x \<Rightarrow> py_lower x = x | _ \<Rightarrow> False)
      | KEnum vs \<Rightarrow> (case v of OStr x \<Rightarrow> x \<in> set vs | _ \<Rightarrow> False)
      | KInteger lo hi \<Rightarrow>
          (case v of
             OInt i \<Rightarrow> (case lo of Some m \<Rightarrow> m \<le> i | None \<Rightarrow> True) \<and> (case hi of Some m \<Rightarrow> i \<le> m | None \<Rightarrow> True)
           | _ \<Rightarrow> False)
      | KFloat \<Rightarrow> (case v of OFloat r \<Rightarrow> True | _ \<Rightarrow> s \<and> v = as_given d)
      | KClassification u \<Rightarrow> (case v of OClass c \<Rightarrow> True | _ \<Rightarrow> False)
      | _ \<Rightarrow> (case v of OStr x \<Rightarrow> True | _ \<Rightarrow> False))"

fun typed :: "field \<Rightarrow> oval \<Rightarrow> bool"
and typed_all :: "(string \<times> field) list \<Rightarrow> (string \<times> oval) list \<Rightarrow> bool" where
  "typed (Field k d s p) v =
     (case k of
        KAny \<Rightarrow> True
      | KList c \<Rightarrow> (case v of OList vs \<Rightarrow> (\<forall>x\<in>set vs. typed c x) | _ \<Rightarrow> v = ONone \<and> p)
      | KMapping i c \<Rightarrow>
          (case v of
             OMap kvs \<Rightarrow>
               (\<forall>kv\<in>set kvs. rx_match (if i then FIELD_SANITIZER else NOT_INDEXED_SANITIZER) (fst kv) \<and> typed c (snd kv))
           | _ \<Rightarrow> v = ONone \<and> p)
      | KOptional c \<Rightarrow> v = ONone \<or> typed c v
      | KCompound fs \<Rightarrow>
          (case v of
             OModel kvs \<Rightarrow> typed_all fs kvs
           | _ \<Rightarrow> v = ONone \<and> p)
      | _ \<Rightarrow> (if v = ONone then nullable k d s p else scalar_ok k d s v))"
| "typed_all [] kvs = (kvs = [])"
| "typed_all (nf # fs) kvs =
     (case kvs of
        [] \<Rightarrow> False
      | nv # kvs' \<Rightarrow> fst nv = fst nf \<and> typed (snd nf) (snd nv) \<and> typed_all fs kvs')"

section \<open>Every check answers a value of its type\<close>

lemma date_typed: "date_check E v = Inr r \<Longrightarrow> r = ONone \<or> (\<exists>x. r = ODate x)"
  by (auto simp: date_check_def split: if_splits option.splits)

lemma boolean_typed: "boolean_check p v = Inr r \<Longrightarrow> (r = ONone \<and> p) \<or> (\<exists>b. r = OBool b)"
  by (auto simp: boolean_check_def split: if_splits)

lemma json_typed: "json_check p v = Inr r \<Longrightarrow> (r = ONone \<and> p) \<or> (\<exists>x. r = OStr x)"
  by (cases v) (auto simp: json_check_def split: if_splits)

lemma str_or_none_typed: "str_or_none v = (if v = PNone then ONone else OStr (py_str v))"
  by (simp add: str_or_none_def)

lemma keyword_typed: "keyword_check p s d v = Inr r \<Longrightarrow> (r = ONone \<and> (p \<or> s \<and> d = PNone)) \<or> (\<exists>x. r = OStr x)"
  by (auto simp: keyword_check_def str_or_none_typed split: if_splits)

lemma emptyable_typed: "emptyable_check p s d v = Inr r \<Longrightarrow> r = ONone \<or> (\<exists>x. r = OStr x)"
  by (auto simp: emptyable_check_def str_or_none_typed split: if_splits)

lemma validated_typed:
  "validated_check rx p s d v = Inr r \<Longrightarrow> (r = ONone \<and> (p \<or> s \<and> d = PNone)) \<or> (\<exists>x. r = OStr x \<and> rx_match rx x)"
  by (cases d; cases v) (auto simp: validated_check_def split: if_splits py.splits)

lemma ip_typed: "ip_check v = Inr r \<Longrightarrow> r = ONone \<or> (\<exists>x. r = OStr x \<and> rx_match IP_REGEX x)"
  by (cases v) (auto simp: ip_check_def split: if_splits)

lemma domain_typed: "domain_check E strict v = Inr r \<Longrightarrow> r = ONone \<or> (\<exists>x. r = OStr x \<and> py_lower x = x)"
  by (cases v) (auto simp: domain_check_def split: if_splits)

lemma email_typed: "email_check E v = Inr r \<Longrightarrow> r = ONone \<or> (\<exists>x. r = OStr x \<and> py_lower x = x)"
  by (cases v) (auto simp: email_check_def split: if_splits option.splits)

lemma uri_typed: "uri_check v = Inr r \<Longrightarrow> r = ONone \<or> (\<exists>x. r = OStr x)"
  by (cases v) (auto simp: uri_check_def split: if_splits option.splits)

lemma enum_typed: "enum_check vs p s d v = Inr r \<Longrightarrow> (r = ONone \<and> p) \<or> (\<exists>x. r = OStr x \<and> x \<in> set vs)"
  by (auto simp: enum_check_def Let_def split: if_splits)

lemma text_typed: "text_check p s d v = Inr r \<Longrightarrow> (r = ONone \<and> (p \<or> s \<and> d = PNone)) \<or> (\<exists>x. r = OStr x)"
  by (auto simp: text_check_def str_or_none_typed split: if_splits)

lemma index_text_typed: "index_text_check p v = Inr r \<Longrightarrow> (r = ONone \<and> p) \<or> (\<exists>x. r = OStr x)"
  by (auto simp: index_text_check_def split: if_splits)

lemma integer_typed:
  assumes "integer_check E lo hi p s d v = Inr r" "default_ok (KInteger lo hi) d"
  shows "if r = ONone then p \<or> s \<and> d = PNone else scalar_ok (KInteger lo hi) d s r"
  using assms
  by (auto simp: integer_check_def bindR_eq_Inr scalar_ok_def default_ok_def split: if_splits option.splits)

lemma float_typed:
  assumes "float_check E p s d v = Inr r"
  shows "if r = ONone then p \<or> s \<and> d = PNone else scalar_ok KFloat d s r"
proof -
  have "as_given d = ONone \<Longrightarrow> d = PNone" by (cases d) auto
  with assms show ?thesis
    by (auto simp: float_check_def bindR_eq_Inr scalar_ok_def split: if_splits oval.splits)
qed

lemma classification_typed: "classification_check E u p v = Inr r \<Longrightarrow> (r = ONone \<and> p) \<or> (\<exists>x. r = OClass x)"
  by (auto simp: classification_check_def bindR_eq_Inr split: if_splits)

lemma classification_string_typed:
  "classification_string_check E p s d v = Inr r \<Longrightarrow> (r = ONone \<and> p) \<or> (\<exists>x. r = OStr x)"
  by (auto simp: classification_string_check_def bindR_eq_Inr Let_def split: if_splits)

lemmas check_types = date_typed boolean_typed json_typed keyword_typed emptyable_typed validated_typed ip_typed
  domain_typed email_typed uri_typed enum_typed text_typed index_text_typed classification_typed classification_string_typed

lemma map_str_typed: "(r = ONone \<and> q) \<or> (\<exists>x. r = OStr x) \<Longrightarrow> (map_str g r = ONone \<and> q) \<or> (\<exists>x. map_str g r = OStr (g x))"
  by (auto simp: map_str_def)

lemma typed_all_fields:
  "check_fields E ign fs data n = (Inr kvs, m) \<Longrightarrow>
   (\<And>nf v n r m. nf \<in> set fs \<Longrightarrow> check_field E ign (snd nf) v n = (Inr r, m) \<Longrightarrow> typed (snd nf) r) \<Longrightarrow> typed_all fs kvs"
proof (induction fs arbitrary: kvs n)
  case (Cons nf fs)
  obtain name f where nf: "nf = (name, f)" by (cases nf)
  from Cons.prems(1) obtain v r rs n1 where
    run: "check_field E ign f v n = (Inr r, n1)" "check_fields E ign fs data n1 = (Inr rs, m)" "kvs = (name, r) # rs"
    by (auto simp: nf bindM_eq_Inr)
  have "typed_all fs rs" by (rule Cons.IH [OF run(2)]) (use Cons.prems(2) in auto)
  moreover have "typed f r" using Cons.prems(2) [of nf] run(1) by (simp add: nf)
  ultimately show ?case by (simp add: nf run(3))
qed simp

lemma check_field_typed:
  "check_field E ign f v n = (Inr r, m) \<Longrightarrow> field_ok f \<Longrightarrow> typed f r"
proof (induction f arbitrary: ign v n r m rule: field_ok.induct)
  case (1 k d s p)
  note run = 1(5)
  have dk: "default_ok k d" using 1(6) by simp
  show ?case
  proof (cases k)
    case (KList c)
    show ?thesis
    proof (cases "p \<and> v = PNone")
      case False
      with run KList obtain xs ys where "mapM_io (\<lambda>x. check_field E ign c x) xs n = (Inr ys, m)" "r = OList ys"
        by (auto simp: bindM_eq_Inr split: if_splits)
      moreover have "typed c y" if "y \<in> set ys" for y
        using mapM_io_results [OF calculation(1) that] 1(1) [OF KList] 1(6) KList by auto
      ultimately show ?thesis by (simp add: KList)
    qed (use run KList in auto)
  next
    case (KMapping i c)
    show ?thesis
    proof (cases "p \<and> v = PNone")
      case False
      with run KMapping obtain kvs ys where kvs: "mapping_entries i v = Inr kvs"
        and ys: "mapM_io (\<lambda>kv. bindM (check_field E False c (snd kv)) (\<lambda>y. returnM (fst kv, y))) kvs n = (Inr ys, m)"
        and r: "r = OMap ys"
        by (auto simp: bindM_eq_Inr split: if_splits)
      have "rx_match (if i then FIELD_SANITIZER else NOT_INDEXED_SANITIZER) (fst y) \<and> typed c (snd y)" if y: "y \<in> set ys" for y
      proof -
        obtain kv a b where kv: "kv \<in> set kvs" "check_field E False c (snd kv) a = (Inr (snd y), b)" "fst y = fst kv"
          using mapM_io_results [OF ys y] by (auto simp: bindM_eq_Inr)
        have "rx_match (if i then FIELD_SANITIZER else NOT_INDEXED_SANITIZER) k" if "k \<in> set (dkeys kvs)" for k
          using kvs that by (auto simp: mapping_entries_def find_first_None split: py.splits option.splits)
        with kv 1(2) [OF KMapping] 1(6) KMapping show ?thesis by (auto simp: dkeys_def)
      qed
      then show ?thesis by (auto simp: KMapping r)
    qed (use run KMapping in auto)
  next
    case (KOptional c)
    with run 1(3) [OF KOptional] 1(6) show ?thesis by (auto split: if_splits)
  next
    case (KCompound fs)
    show ?thesis
    proof (cases "p \<and> v = PNone")
      case False
      with run KCompound obtain data n1 kvs where "check_fields E ign fs data n1 = (Inr kvs, m)" "r = OModel kvs"
        by (auto simp: bindM_eq_Inr split: if_splits)
      moreover have "typed_all fs kvs"
        by (rule typed_all_fields [OF calculation(1)]) (use 1(4) [OF KCompound] 1(6) KCompound in auto)
      ultimately show ?thesis by (simp add: KCompound)
    qed (use run KCompound in auto)
  next
    case (KInteger lo hi)
    with run integer_typed [of E lo hi p s d v r] dk show ?thesis by (auto simp: nullable_def split: if_splits)
  next
    case KFloat
    with run float_typed [of E p s d v r] show ?thesis by (auto simp: nullable_def split: if_splits)
  next
    case KUpperKeyword
    with run obtain q where "keyword_check p s d v = Inr q" "r = map_str py_upper q" by (auto simp: bindR_eq_Inr)
    with map_str_typed [OF keyword_typed] KUpperKeyword show ?thesis
      by (fastforce simp: nullable_def scalar_ok_def)
  next
    case KLowerKeyword
    with run obtain q where "keyword_check p s d v = Inr q" "r = map_str py_lower q" by (auto simp: bindR_eq_Inr)
    with map_str_typed [OF keyword_typed] KLowerKeyword show ?thesis
      by (fastforce simp: nullable_def scalar_ok_def)
  next
    case KUUID
    with run show ?thesis by (auto simp: uuid_check_def scalar_ok_def split: if_splits)
  qed (use run in \<open>auto dest!: check_types simp: nullable_def scalar_ok_def\<close>)
qed

lemma model_init_typed_fields:
  assumes "model_init E ign md v n = (Inr obj, m)" and "\<forall>nf\<in>set md. field_ok (snd nf)"
  shows "typed_all md obj"
proof -
  from assms(1) obtain data n1 where "check_fields E ign md data n1 = (Inr obj, m)"
    by (auto simp: model_init_def bindM_eq_Inr)
  then show ?thesis by (rule typed_all_fields) (use assms(2) check_field_typed in blast)
qed



section \<open>The schema of hits is sound\<close>

text \<open>\<^verbatim>\<open>default_ok\<close> without quantifiers, to evaluate it on the declared schemas.\<close>

lemma default_ok_exec [code]:
  "default_ok k d =
     (case k of
        KInteger lo hi \<Rightarrow>
          (case d of
             PNone \<Rightarrow> True
           | PInt i \<Rightarrow> (case lo of Some m \<Rightarrow> m \<le> i | None \<Rightarrow> True) \<and> (case hi of Some m \<Rightarrow> i \<le> m | None \<Rightarrow> True)
           | _ \<Rightarrow> False)
      | KFloat \<Rightarrow> \<not> truthy d \<or> (case d of PFloat r \<Rightarrow> True | _ \<Rightarrow> False)
      | _ \<Rightarrow> True)"
  by (auto simp: default_ok_def split: field_kind.splits py.splits option.splits)

lemma hit_model_names: "names_ok (Hit_model u)"
  by code_simp

lemma hit_model_fields: "\<forall>nf\<in>set (Hit_model u). field_ok (snd nf)"
  by code_simp

end
