(* ===== verification/OtherSchemas.thy ===== *)
theory OtherSchemas
  imports HowlerData
begin

text \<open>
  The other records the datastore keeps: analytics, users, views, overviews, templates, dossiers, events and
  actions, and the answer of a Clue server.
\<close>

definition USER_TYPES :: "string list" where
  "USER_TYPES =
    [''admin'', ''user'', ''automation_basic'', ''automation_advanced'', ''actionrunner_basic'', ''actionrunner_advanced'']"

definition AnalyticComment_model :: odm_model where
  "AnalyticComment_model =
    [(''id'', odm_UUID), (''timestamp'', mk_field KDate (PStr ''NOW'') False),
     (''modified'', mk_field KDate (PStr ''NOW'') False), (''detection'', optional_kw KKeyword),
     (''value'', plain KText), (''user'', plain KKeyword),
     (''reactions'', mk_field (KMapping True (plain KKeyword)) (PDict []) False)]"

definition TriageOptions_model :: odm_model where
  "TriageOptions_model =
    [(''valid_assessments'', mk_field (KList (plain KKeyword)) (PList (map PStr (enum_list Assessment))) False),
     (''skip_rationale'', mk_field KBoolean (PBool False) False),
     (''dossiers'', mk_field (KList (plain KKeyword)) (PList []) False),
     (''rationales'', mk_field (KList (plain KKeyword)) (PList []) False)]"

definition Notebook_model :: odm_model where
  "Notebook_model =
    [(''id'', odm_UUID), (''detection'', optional_kw KKeyword), (''value'', plain KKeyword),
     (''name'', plain KKeyword), (''user'', plain KKeyword)]"

definition Analytic_model :: odm_model where
  "Analytic_model =
    [(''analytic_id'', odm_UUID),
     (''notebooks'', mk_field (KList (plain (KCompound Notebook_model))) (PList []) False),
     (''name'', plain KCaseInsensitiveKeyword), (''owner'', optional_kw KKeyword),
     (''contributors'', mk_field (KList (plain KKeyword)) (PList []) False),
     (''description'', optional_kw KText),
     (''detections'', mk_field (KList (plain KCaseInsensitiveKeyword)) (PList []) False),
     (''comment'', mk_field (KList (plain (KCompound AnalyticComment_model))) (PList []) False),
     (''rule'', optional_kw KKeyword), (''rule_type'', maybe (plain (KEnum [''lucene'', ''eql'', ''sigma'']))),
     (''rule_crontab'', optional_kw KKeyword),
     (''triage_settings'', mk_field (KCompound TriageOptions_model) (PDict [(''skip_rationale'', PBool False), (''valid_assessments'', PList (map PStr (enum_list Assessment))), (''rationales'', PList [])]) False)]"

definition ApiKey_model :: odm_model where
  "ApiKey_model =
    [(''acl'', plain (KList (plain (KEnum [''E'', ''I'', ''R'', ''W''])))),
     (''agents'', mk_field (KList (plain KKeyword)) (PList []) False), (''password'', plain KKeyword),
     (''expiry_date'', maybe (plain KDate))]"

definition DashboardEntry_model :: odm_model where
  "DashboardEntry_model =
    [(''entry_id'', plain KKeyword), (''type'', plain (KEnum [''analytic'', ''view''])),
     (''config'', plain KKeyword)]"

definition User_model :: "string \<Rightarrow> odm_model" where
  "User_model unrestricted =
    [(''api_quota'', mk_field (KInteger None None) (PInt 25) False),
     (''apikeys'', mk_field (KMapping False (plain (KCompound ApiKey_model))) (PDict []) False),
     (''classification'', mk_field (KClassification True) (PStr unrestricted) False),
     (''email'', maybe (plain KEmail)),
     (''groups'', mk_field (KList (plain KKeyword)) (PList [PStr ''USERS'']) False),
     (''is_active'', mk_field KBoolean (PBool True) False), (''name'', plain KKeyword),
     (''password'', plain KKeyword), (''access_control'', optional_kw KKeyword),
     (''type'', mk_field (KList (plain (KEnum USER_TYPES))) (PList [PStr ''user'', PStr ''actionrunner_basic'']) False),
     (''uname'', plain KKeyword), (''favourite_views'', mk_field (KList (plain KKeyword)) (PList []) False),
     (''favourite_analytics'', mk_field (KList (plain KKeyword)) (PList []) False),
     (''dashboard'', mk_field (KList (plain (KCompound DashboardEntry_model))) (PList []) False),
     (''refresh_rate'', mk_field (KInteger None None) (PInt 15) False)]"

definition GridColumn_model :: odm_model where
  "GridColumn_model =
    [(''field'', plain KKeyword), (''width'', maybe (plain (KInteger None None)))]"

definition Settings_model :: odm_model where
  "Settings_model =
    [(''advance_on_triage'', mk_field KBoolean (PBool False) False),
     (''display'', maybe (plain (KEnum [''list'', ''grid'']))),
     (''columns'', maybe (plain (KList (plain (KCompound GridColumn_model)))))]"

definition View_model :: odm_model where
  "View_model =
    [(''view_id'', odm_UUID), (''indexes'', mk_field (KList (plain KKeyword)) (PList [PStr ''hit'']) False),
     (''title'', plain KCaseInsensitiveKeyword), (''query'', plain KKeyword), (''sort'', optional_kw KKeyword),
     (''span'', optional_kw KKeyword), (''type'', plain (KEnum [''personal'', ''global'', ''readonly''])),
     (''owner'', optional_kw KKeyword),
     (''settings'', mk_field (KCompound Settings_model) (PDict [(''advance_on_triage'', PBool False)]) False)]"

definition Overview_model :: odm_model where
  "Overview_model =
    [(''overview_id'', odm_UUID), (''analytic'', plain KKeyword), (''detection'', optional_kw KKeyword),
     (''owner'', optional_kw KKeyword), (''content'', plain KKeyword)]"

definition Template_model :: odm_model where
  "Template_model =
    [(''template_id'', odm_UUID), (''analytic'', plain KKeyword), (''detection'', optional_kw KKeyword),
     (''type'', plain (KEnum [''personal'', ''global''])), (''owner'', optional_kw KKeyword),
     (''keys'', mk_field (KList (plain KKeyword)) (PList []) False)]"

definition Mapping_model :: odm_model where
  "Mapping_model =
    [(''key'', plain KKeyword), (''field'', plain KKeyword), (''custom_value'', optional_kw KKeyword)]"

definition Pivot_model :: odm_model where
  "Pivot_model =
    [(''icon'', optional_kw KText), (''label'', plain (KCompound LocalizedLabel_model)),
     (''value'', plain KKeyword), (''format'', plain KKeyword),
     (''mappings'', mk_field (KList (plain (KCompound Mapping_model))) (PList []) False)]"

definition Dossier_model :: odm_model where
  "Dossier_model =
    [(''dossier_id'', odm_UUID), (''leads'', mk_field (KList (plain (KCompound Lead_model))) (PList []) False),
     (''pivots'', mk_field (KList (plain (KCompound Pivot_model))) (PList []) False),
     (''title'', plain KKeyword), (''owner'', plain KKeyword), (''query'', optional_kw KKeyword),
     (''type'', plain (KEnum [''personal'', ''global'']))]"

definition EventComment_model :: odm_model where
  "EventComment_model =
    [(''id'', odm_UUID), (''timestamp'', mk_field KDate (PStr ''NOW'') False),
     (''modified'', mk_field KDate (PStr ''NOW'') False), (''value'', plain KText), (''user'', plain KKeyword),
     (''reactions'', mk_field (KMapping True (plain KKeyword)) (PDict []) False)]"

definition EventLog_model :: odm_model where
  "EventLog_model =
    [(''timestamp'', plain KDate), (''key'', maybe (plain KKeyword)), (''explanation'', maybe (plain KText)),
     (''new_value'', maybe (plain KKeyword)), (''previous_value'', maybe (plain KKeyword)),
     (''user'', plain KKeyword)]"

definition EventData_model :: odm_model where
  "EventData_model =
    [(''id'', odm_UUID), (''data'', mk_field (KList (plain KKeyword)) (PList []) False),
     (''hash'', plain (KValidated HOWLER_HASH_REGEX)),
     (''related'', mk_field (KList (plain KKeyword)) (PList []) False),
     (''score'', maybe (mk_field KFloat (PInt 0) False)),
     (''escalation'', mk_field (KEnum [''hit'', ''alert'', ''evidence'']) (PStr ''hit'') False),
     (''expiry'', maybe (plain KDate)),
     (''comment'', mk_field (KList (plain (KCompound EventComment_model))) (PList []) False),
     (''log'', mk_field (KList (plain (KCompound EventLog_model))) (PList []) False)]"

definition Event_model :: "string \<Rightarrow> odm_model" where
  "Event_model unrestricted =
    [(''howler'', plain (KCompound EventData_model))] @
     Record_model unrestricted"

definition TypeMap_model :: odm_model where
  "TypeMap_model =
    [(''field'', plain KKeyword), (''type'', plain KKeyword)]"

definition Clue_model :: odm_model where
  "Clue_model =
    [(''types'', mk_field (KList (plain (KCompound TypeMap_model))) (PList []) False)]"

definition Operation_model :: odm_model where
  "Operation_model =
    [(''operation_id'', plain KKeyword), (''data_json'', optional_kw KKeyword)]"

definition Action_model :: odm_model where
  "Action_model =
    [(''action_id'', odm_UUID), (''owner_id'', plain KKeyword), (''name'', plain KKeyword),
     (''query'', plain KKeyword),
     (''triggers'', mk_field (KList (plain (KEnum [''create'', ''demote'', ''promote'', ''add_label'', ''remove_label'']))) (PList []) False),
     (''operations'', mk_field (KList (plain (KCompound Operation_model))) (PList []) False)]"

end
