(* ===== verification/HitIntake.thy ===== *)
theory HitIntake
  imports HitService CaseModel Bulk
begin

text \<open>
  How a hit comes in (\<^verbatim>\<open>services/hit_service.py\<close>): \<^verbatim>\<open>convert_hit\<close> turns the dictionary a client sends into an
  object of the hit schema, with warnings, and \<^verbatim>\<open>create_hits\<close> and \<^verbatim>\<open>overwrite_hits\<close> store many objects with
  one bulk request. The state is the number of random ids drawn and the application; SHA-256 and the parsers
  of the mapper are parameters. The counters of the metrics have no effect on the model.
\<close>

section \<open>Keys outside the model\<close>

text \<open>
  \<^verbatim>\<open>extra_keys\<close>: every key of the flat data is followed through the fields of the model. A field that has no
  fields of its own answers itself under the empty name; below a mapping any name is allowed.
\<close>

fun sub_fields :: "field \<Rightarrow> (string \<times> field) list" where
  "sub_fields (Field k d s p) =
     (case k of
        KCompound fs \<Rightarrow> fs
      | KList c \<Rightarrow> sub_fields c
      | KOptional c \<Rightarrow> sub_fields c
      | _ \<Rightarrow> [('''', Field k d s p)])"

fun leaves_model :: "field \<Rightarrow> string list \<Rightarrow> bool" where
  "leaves_model f [] = False"
| "leaves_model f (p # ps) =
     (case dget (sub_fields f) p of
        Some g \<Rightarrow> leaves_model g ps
      | None \<Rightarrow>
          (case field_kind (unwrap f) of
             KMapping i c \<Rightarrow> leaves_model c ps
           | _ \<Rightarrow> True))"

definition extra_keys :: "odm_model \<Rightarrow> (string, py) dict \<Rightarrow> string list result" where
  "extra_keys md data =
     bindR (flatten_deep data) (\<lambda>flat.
     Inr (filter (\<lambda>k. leaves_model (plain (KCompound md)) (split_char (CHR ''.'') k)) (dkeys flat)))"

section \<open>Classes with a constructor of their own\<close>

text \<open>
  Two classes of the schema look at their data before the fields are checked. \<^verbatim>\<open>Related\<close> puts the deprecated
  \<^verbatim>\<open>id\<close> among the \<^verbatim>\<open>ids\<close>, and \<^verbatim>\<open>Log\<close> wants an explanation or the description of a change. Both run here on the
  nested data before any field is checked; data with several faults may have another of them reported first.
\<close>

definition related_init :: "py \<Rightarrow> py" where
  "related_init v =
     (case v of
        PDict d \<Rightarrow>
          (case dget d ''id'' of
             None \<Rightarrow> v
           | Some i \<Rightarrow>
               if i = PNone then v
               else (let ids = (case dget d ''ids'' of Some (PList xs) \<Rightarrow> xs | None \<Rightarrow> [] | Some PNone \<Rightarrow> [] | Some x \<Rightarrow> [x]) in
                     PDict (dset d ''ids'' (PList (if i \<in> set ids then ids else ids @ [i])))))
      | _ \<Rightarrow> v)"

definition log_init :: "string list \<Rightarrow> py \<Rightarrow> py result" where
  "log_init required v =
     (case v of
        PDict d \<Rightarrow>
          if dmem d ''explanation'' \<or> list_all (dmem d) required then Inr v
          else Inl (value_error (''If no explanation provided, you must provide the following values: '' @ py_join '','' required))
      | PStr s \<Rightarrow> if py_in ''explanation'' s then Inr v else Inl (Exn EAttributeError ''str object has no attribute keys'')
      | PList xs \<Rightarrow>
          if PStr ''explanation'' \<in> set xs then Inr v else Inl (Exn EAttributeError ''list object has no attribute keys'')
      | _ \<Rightarrow> Inl (Exn ETypeError ''argument is not iterable''))"

definition LOG_KEYS :: "string list" where
  "LOG_KEYS = [''key'', ''new_value'', ''type'', ''previous_value'']"

text \<open>The log of the howler section, when it is a list of entries or a dictionary of columns.\<close>

definition howler_init :: "py \<Rightarrow> py result" where
  "howler_init v =
     (case v of
        PDict d \<Rightarrow>
          (case dget d ''log'' of
             None \<Rightarrow> Inr v
           | Some l \<Rightarrow>
               (case list_elements (plain (KCompound Log_model)) l of
                  Inl e \<Rightarrow> Inr v
                | Inr xs \<Rightarrow> bindR (mapR (log_init LOG_KEYS) xs) (\<lambda>ys. Inr (PDict (dset d ''log'' (PList ys))))))
      | _ \<Rightarrow> Inr v)"

definition own_inits :: "(string, py) dict \<Rightarrow> (string, py) dict result" where
  "own_inits d =
     (let d' = (case dget d ''related'' of None \<Rightarrow> d | Some v \<Rightarrow> dset d ''related'' (related_init v)) in
      case dget d' ''howler'' of
        None \<Rightarrow> Inr d'
      | Some v \<Rightarrow> bindR (howler_init v) (\<lambda>h. Inr (dset d' ''howler'' h)))"

definition hit_init :: "odm_ext \<Rightarrow> bool \<Rightarrow> odm_model \<Rightarrow> (string, py) dict \<Rightarrow> (nat, obj) io" where
  "hit_init E ign md data =
     bindM (liftM (bindR (model_data (PDict data)) own_inits)) (\<lambda>d. model_init E ign md (PDict d))"

section \<open>Converting\<close>

record intake =
  in_ext :: odm_ext
  in_sha256 :: "string \<Rightarrow> string"
  in_model :: odm_model

text \<open>\<^verbatim>\<open>json.dumps(v, sort_keys=True)\<close> writes the keys of every dictionary in order.\<close>

fun sort_keys :: "py \<Rightarrow> py" where
  "sort_keys (PList xs) = PList (map sort_keys xs)"
| "sort_keys (PDict d) = PDict (sort_key fst (map (\<lambda>kv. (fst kv, sort_keys (snd kv))) d))"
| "sort_keys v = v"

definition get_or :: "(string, py) dict \<Rightarrow> string \<Rightarrow> py \<Rightarrow> py" where
  "get_or d k v = (case dget d k of Some x \<Rightarrow> x | None \<Rightarrow> v)"

definition hash_contents :: "(string, py) dict \<Rightarrow> py" where
  "hash_contents data =
     PDict [(''analytic'', get_or data ''howler.analytic'' (PStr ''no_analytic'')),
            (''detection'', get_or data ''howler.detection'' (PStr ''no_detection'')),
            (''raw_data'', get_or data ''howler.data'' (PDict []))]"

definition with_hash :: "(string \<Rightarrow> string) \<Rightarrow> (string, py) dict \<Rightarrow> (string, py) dict" where
  "with_hash sha256 data =
     (if dmem data ''howler.hash'' then data
      else dset data ''howler.hash'' (PStr (sha256 (json_dumps (sort_keys (hash_contents data))))))"

text \<open>The raw telemetry becomes a list of texts.\<close>

definition raw_text :: "py \<Rightarrow> py" where
  "raw_text v = (case v of PStr s \<Rightarrow> v | _ \<Rightarrow> PStr (json_dumps v))"

definition with_raw_texts :: "(string, py) dict \<Rightarrow> (string, py) dict result" where
  "with_raw_texts data =
     (case dget data ''howler.data'' of
        None \<Rightarrow> Inr data
      | Some v \<Rightarrow> bindR (py_iter v) (\<lambda>xs. Inr (dset data ''howler.data'' (PList (map raw_text xs)))))"

text \<open>\<^verbatim>\<open>HowlerTypeError\<close> is a TypeError too.\<close>

definition type_errors :: "('w, 'a) io \<Rightarrow> ('w, 'a) io" where
  "type_errors m = (\<lambda>w. case m w of
     (Inl e, w') \<Rightarrow> (Inl (if exn_class e \<in> {ETypeError, EHowlerType} then Exn EHowlerType (exn_message e) else e), w')
   | r \<Rightarrow> r)"

text \<open>The flat names of the fields declared as deprecated (\<^verbatim>\<open>ecs/cloud.py\<close>, \<^verbatim>\<open>ecs/related.py\<close>).\<close>

definition deprecated_names :: "string list" where
  "deprecated_names =
     [''cloud.account'', ''cloud.account.id'', ''cloud.account.name'', ''cloud.project'', ''cloud.project.id'',
      ''cloud.project.name'', ''cloud.availability_zone'', ''cloud.tenant_id'', ''related.id'']"

definition PLAIN_NAME :: rx where
  "PLAIN_NAME = rx_plus (RxRange [(CHR ''A'', CHR ''Z''), (CHR ''a'', CHR ''z''), (CHR '' '', CHR '' '')])"

definition name_warning :: "string \<Rightarrow> string \<Rightarrow> string list" where
  "name_warning what name =
     (if rx_match PLAIN_NAME name then []
      else [''The value '' @ name @ '' does not match best practices for Howler '' @ what @
            '' names. See howler's documentation for more information.''])"

text \<open>The howler section of an object, and storing into it.\<close>

definition section_get :: "obj \<Rightarrow> string \<Rightarrow> string \<Rightarrow> oval" where
  "section_get ob sec k = o_get (o_obj (o_get ob sec)) k"

definition section_set :: "obj \<Rightarrow> string \<Rightarrow> string \<Rightarrow> oval \<Rightarrow> obj" where
  "section_set ob sec k v = dset ob sec (OModel (dset (o_obj (o_get ob sec)) k v))"

text \<open>An assessment fixes the escalation, and an escalation to miss or evidence the status.\<close>

definition align_escalation :: "obj \<Rightarrow> (obj \<times> string list) result" where
  "align_escalation ob =
     (let assessment = section_get ob ''howler'' ''assessment''; escalation = section_get ob ''howler'' ''escalation'' in
      if assessment = ONone \<or> assessment = OStr [] then Inr (ob, [])
      else bindR (enum_getitem AssessmentEscalationMap (o_string assessment)) (\<lambda>target.
           Inr (if escalation = OStr target then (ob, [])
                else (section_set ob ''howler'' ''escalation'' (OStr target),
                      [''Hits with assessment '' @ o_string assessment @ '' must also have escalation set to '' @ target @ ''.'']))))"

definition align_status :: "obj \<Rightarrow> obj \<times> string list" where
  "align_status ob =
     (if section_get ob ''howler'' ''escalation'' \<in> {OStr (escalation_value MISS), OStr (escalation_value EVIDENCE)} \<and>
         section_get ob ''howler'' ''status'' \<noteq> OStr (status_value RESOLVED)
      then (section_set ob ''howler'' ''status'' (OStr (status_value RESOLVED)),
            [''Hits with escalation miss or evidence must also have their status set to resolved.''])
      else (ob, []))"

text \<open>The event section gets the id of the hit and a time of creation.\<close>

definition with_event :: "odm_ext \<Rightarrow> obj \<Rightarrow> (nat, obj) io" where
  "with_event E ob =
     (let hid = section_get ob ''howler'' ''id'' in
      case o_get ob ''event'' of
        ONone \<Rightarrow>
          bindM (model_init E False ECSEvent_model (PDict [(''created'', PStr ''NOW''), (''id'', PStr (o_string hid))]))
            (\<lambda>ev. returnM (dset ob ''event'' (OModel ev)))
      | _ \<Rightarrow>
          (let ob' = section_set ob ''event'' ''id'' hid in
           if section_get ob' ''event'' ''created'' \<noteq> ONone then returnM ob'
           else liftM (bindR (date_check E (PStr ''NOW'')) (\<lambda>d. Inr (section_set ob' ''event'' ''created'' d)))))"

type_synonym 'w intake_world = "nat \<times> 'w app"

definition on_ids :: "(nat, 'a) io \<Rightarrow> (nat \<times> 's, 'a) io" where
  "on_ids m = (\<lambda>(n, a). case m n of (r, n') \<Rightarrow> (r, n', a))"

definition on_app :: "('s, 'a) io \<Rightarrow> (nat \<times> 's, 'a) io" where
  "on_app m = (\<lambda>(n, a). case m a of (r, a') \<Rightarrow> (r, n, a'))"

definition get_random_id :: "odm_ext \<Rightarrow> (nat, string) io" where
  "get_random_id E = (\<lambda>n. (Inr (x_random_id E n), Suc n))"

text \<open>The warnings about unused and deprecated keys are sets in the code; here they stand in the order of the data.\<close>

definition checked_hit :: "intake \<Rightarrow> bool \<Rightarrow> (string, py) dict \<Rightarrow> (nat, obj \<times> string list) io" where
  "checked_hit I ign data =
     bindM (type_errors (hit_init (in_ext I) ign (in_model I) data)) (\<lambda>ob.
     bindM (liftM (extra_keys (in_model I) data)) (\<lambda>unused.
     if unused \<noteq> [] \<and> \<not> ign
     then raiseM (value_error (''Hit was created with invalid parameters: '' @ py_join '', '' unused))
     else
       (let detection = section_get ob ''howler'' ''detection'' in
        returnM (ob,
          map (\<lambda>k. k @ '' is not currently used by howler.'') unused @
          map (\<lambda>k. k @ '' is deprecated.'') (filter (\<lambda>k. k \<in> set deprecated_names) (dkeys data)) @
          name_warning ''analytic'' (o_string (section_get ob ''howler'' ''analytic'')) @
          (if given (o_text detection) then name_warning ''detection'' (o_string detection) else [])))))"

definition prepared :: "intake \<Rightarrow> (string, py) dict \<Rightarrow> (nat, (string, py) dict) io" where
  "prepared I data =
     (let flat = with_hash (in_sha256 I) (flatten_with (Some (map fst (flat_fields False (in_model I)))) None data) in
      bindM (get_random_id (in_ext I)) (\<lambda>i. liftM (with_raw_texts (dset flat ''howler.id'' (PStr i)))))"

definition converted :: "intake \<Rightarrow> bool \<Rightarrow> (string, py) dict \<Rightarrow> (nat, obj \<times> string list) io" where
  "converted I ign data =
     bindM (bindM (prepared I data) (checked_hit I ign)) (\<lambda>(ob, warnings).
     bindM (liftM (align_escalation ob)) (\<lambda>(ob1, w1).
     let (ob2, w2) = align_status ob1 in
     bindM (with_event (in_ext I) ob2) (\<lambda>ob3. returnM (ob3, warnings @ w1 @ w2))))"

definition convert_hit ::
    "intake \<Rightarrow> 'w collection \<Rightarrow> (string, py) dict \<Rightarrow> bool \<Rightarrow> bool \<Rightarrow> ('w intake_world, obj \<times> string list) io" where
  "convert_hit I c data unique ignore_extra_values =
     bindM (on_ids (converted I ignore_extra_values data)) (\<lambda>(ob, warnings).
     let hid = o_string (section_get ob ''howler'' ''id'') in
     bindM (if unique then on_app (hit_exists c hid) else returnM False) (\<lambda>found.
     if found then raiseM (Exn EResourceExists (''Resource with id '' @ hid @ '' already exists''))
     else returnM (ob, warnings)))"

section \<open>Storing many hits\<close>

definition hit_id :: "obj \<Rightarrow> string" where
  "hit_id ob = o_string (section_get ob ''howler'' ''id'')"

definition with_creation_log :: "odm_ext \<Rightarrow> string option \<Rightarrow> obj \<Rightarrow> (nat, obj) io" where
  "with_creation_log E usr ob =
     (if \<not> given usr then returnM ob
      else bindM (model_init E False Log_model (PDict [(''timestamp'', PStr ''NOW''), (''explanation'', PStr ''Created hit''),
                   (''user'', PStr (the usr))]))
             (\<lambda>l. returnM (section_set ob ''howler'' ''log'' (OList [OModel l]))))"

text \<open>A record adds the name of its index to its primitives.\<close>

definition queue_hit ::
    "(string \<Rightarrow> string \<Rightarrow> (string, py) dict \<Rightarrow> bulk_op) \<Rightarrow> intake \<Rightarrow> engine \<Rightarrow> obj \<Rightarrow> bulk_plan \<Rightarrow> (nat, bulk_plan) io" where
  "queue_hit mk I e ob p =
     bindM (saved_doc (in_ext I) e p (ModelDoc ob)) (\<lambda>d.
     bindM (liftM (first_index p None)) (\<lambda>i.
     returnM (queue [mk i (hit_id ob) (dset (dset d ''__index'' (PStr ''hit'')) ''id'' (PStr (hit_id ob)))] p)))"

definition hits_plan :: "intake \<Rightarrow> 'w collection \<Rightarrow> bulk_plan" where
  "hits_plan I c = ElasticBulkPlan [index_name c] (Some (in_model I))"

fun plan_creation ::
    "intake \<Rightarrow> engine \<Rightarrow> 'w collection \<Rightarrow> string option \<Rightarrow> bool \<Rightarrow> obj list \<Rightarrow> bulk_plan \<Rightarrow> ('w intake_world, bulk_plan) io" where
  "plan_creation I e c usr overwrite [] p = returnM p"
| "plan_creation I e c usr overwrite (ob # obs) p =
     bindM (if overwrite then returnM False else on_app (on_store (coll_exists c (hit_id ob)))) (\<lambda>found.
     if found then raiseM (Exn EResourceExists (''Hit '' @ hit_id ob @ '' already exists in datastore''))
     else
       bindM (on_ids (bindM (with_creation_log (in_ext I) usr ob) (\<lambda>ob'.
                queue_hit (if overwrite then BulkIndex else BulkCreate) I e ob' p))) (\<lambda>p'.
       plan_creation I e c usr overwrite obs p'))"

definition create_hits ::
    "intake \<Rightarrow> engine \<Rightarrow> int \<Rightarrow> 'w collection \<Rightarrow> 'w bulk_endpoint \<Rightarrow> obj list \<Rightarrow> string option \<Rightarrow> bool \<Rightarrow>
     ('w intake_world, bool) io" where
  "create_hits I e batch_size c send hits usr overwrite =
     bindM (plan_creation I e c usr overwrite hits (hits_plan I c)) (\<lambda>p.
     on_app (on_store (coll_bulk batch_size c send p)))"

fun plan_overwrite :: "intake \<Rightarrow> engine \<Rightarrow> obj list \<Rightarrow> bulk_plan \<Rightarrow> (nat, bulk_plan) io" where
  "plan_overwrite I e [] p = returnM p"
| "plan_overwrite I e (ob # obs) p = bindM (queue_hit BulkIndex I e ob p) (plan_overwrite I e obs)"

definition overwrite_hits ::
    "intake \<Rightarrow> engine \<Rightarrow> int \<Rightarrow> 'w collection \<Rightarrow> 'w bulk_endpoint \<Rightarrow> obj list \<Rightarrow> ('w intake_world, bool) io" where
  "overwrite_hits I e batch_size c send hits =
     bindM (on_ids (plan_overwrite I e hits (hits_plan I c))) (\<lambda>p.
     on_app (on_store (coll_bulk batch_size c send p)))"

end
