(* ===== verification/HitIntakeFacts.thy ===== *)
theory HitIntakeFacts
  imports HitIntake OdmTypes
begin

text \<open>
  What an accepted hit looks like, and that a batch is created as a whole or not at all.
\<close>

section \<open>Sections of an object\<close>

lemma section_get_set:
  "section_get (section_set ob s k v) s' k' = (if s' = s \<and> k' = k then v else section_get ob s' k')"
  by (auto simp: section_get_def section_set_def o_get_def o_obj_def)

lemma section_get_other: "s' \<noteq> s \<Longrightarrow> section_get (dset ob s v) s' k = section_get ob s' k"
  by (simp add: section_get_def o_get_def)

text \<open>A field of a model that was built holds what its check answered.\<close>

lemma check_fields_get:
  "check_fields E ign fs data n = (Inr kvs, m) \<Longrightarrow> dget fs name = Some f \<Longrightarrow>
   \<exists>v r n1 m1. field_input name f data = Inr v \<and> check_field E ign f v n1 = (Inr r, m1) \<and> dget kvs name = Some r"
proof (induction fs arbitrary: kvs n)
  case (Cons nf fs)
  obtain name' f' where nf: "nf = (name', f')" by (cases nf)
  from Cons.prems(1) obtain v r rs n1 where
    run: "field_input name' f' data = Inr v" "check_field E ign f' v n = (Inr r, n1)" "check_fields E ign fs data n1 = (Inr rs, m)"
    "kvs = (name', r) # rs"
    by (auto simp: nf bindM_eq_Inr liftM_def split: sum.splits)
  show ?case
  proof (cases "name' = name")
    case True
    with Cons.prems(2) nf have "f' = f" by simp
    with run True show ?thesis by auto
  next
    case False
    with Cons.prems(2) nf have "dget fs name = Some f" by simp
    from Cons.IH [OF run(3) this] show ?thesis using False run(4) by auto
  qed
qed simp

lemma typed_all_get:
  "typed_all fs kvs \<Longrightarrow> dget fs name = Some f \<Longrightarrow> \<exists>v. dget kvs name = Some v \<and> typed f v"
proof (induction fs arbitrary: kvs)
  case (Cons nf fs)
  then obtain nv kvs' where "kvs = nv # kvs'" "fst nv = fst nf" "typed (snd nf) (snd nv)" "typed_all fs kvs'"
    by (cases kvs) auto
  with Cons show ?case by (cases nf; cases nv) auto
qed simp

section \<open>Parts of the state\<close>

lemma on_ids_eq_Inr: "on_ids m w = (Inr x, w') \<longleftrightarrow> (\<exists>n. m (fst w) = (Inr x, n) \<and> w' = (n, snd w))"
  by (cases w) (auto simp: on_ids_def split: prod.split)

lemma on_ids_pair: "m n = (r, n1) \<Longrightarrow> on_ids m (n, a) = (r, n1, a)"
  by (simp add: on_ids_def)

lemma on_app_pair: "m a = (r, a1) \<Longrightarrow> on_app m (n, a) = (r, n, a1)"
  by (simp add: on_app_def)

section \<open>Conversion\<close>

lemma assessment_target:
  "enum_getitem AssessmentEscalationMap a = Inr t \<Longrightarrow> t \<in> {escalation_value MISS, escalation_value EVIDENCE}"
proof -
  assume "enum_getitem AssessmentEscalationMap a = Inr t"
  then have "t \<in> set (map snd AssessmentEscalationMap)"
    by (auto simp: enum_getitem_def dict_index_def split: option.splits dest!: dget_Some_in intro: rev_image_eqI)
  moreover have "list_all (\<lambda>t. t \<in> {escalation_value MISS, escalation_value EVIDENCE}) (map snd AssessmentEscalationMap)"
    by code_simp
  ultimately show ?thesis by (simp only: list_all_iff)
qed

lemma align_escalation_result:
  assumes "align_escalation ob = Inr (ob', ws)"
  shows "\<And>s k. s \<noteq> ''howler'' \<or> k \<noteq> ''escalation'' \<Longrightarrow> section_get ob' s k = section_get ob s k"
    and "section_get ob ''howler'' ''assessment'' \<notin> {ONone, OStr []} \<Longrightarrow>
      \<exists>e\<in>{MISS, EVIDENCE}. enum_getitem AssessmentEscalationMap (o_string (section_get ob ''howler'' ''assessment'')) =
          Inr (escalation_value e) \<and> section_get ob' ''howler'' ''escalation'' = OStr (escalation_value e)"
  using assms assessment_target
  by (fastforce simp: align_escalation_def Let_def bindR_eq_Inr section_get_set split: if_splits)+

lemma align_status_result:
  assumes "align_status ob = (ob', ws)"
  shows "\<And>s k. s \<noteq> ''howler'' \<or> k \<noteq> ''status'' \<Longrightarrow> section_get ob' s k = section_get ob s k"
    and "section_get ob ''howler'' ''escalation'' \<in> {OStr (escalation_value MISS), OStr (escalation_value EVIDENCE)} \<Longrightarrow>
      section_get ob' ''howler'' ''status'' = OStr (status_value RESOLVED)"
  using assms by (auto simp: align_status_def section_get_set split: if_splits)

lemma date_of_now: "date_check E (PStr s) = Inr d \<Longrightarrow> d \<noteq> ONone"
  by (auto simp: date_check_def split: if_splits option.splits)

lemma event_init:
  assumes "model_init E False ECSEvent_model (PDict [(''created'', PStr ''NOW''), (''id'', PStr s)]) n = (Inr ev, m)"
  shows "o_get ev ''created'' \<noteq> ONone" and "s \<noteq> [] \<Longrightarrow> o_get ev ''id'' = OStr s"
proof -
  let ?d = "[(''created'', PStr ''NOW''), (''id'', PStr s)]"
  have "model_data (PDict ?d) = Inr ?d"
    by (simp add: model_data_def flat_to_nested_def dpop_def nested_keys_def nest_entry_def)
  with assms obtain n1 where run: "check_fields E False ECSEvent_model ?d n1 = (Inr ev, m)"
    by (auto simp: model_init_def bindM_eq_Inr accept_keys_def split: if_splits)
  have "dget ECSEvent_model ''created'' = Some (maybe (plain KDate))"
    by (simp add: ECSEvent_model_def)
  from check_fields_get [OF run this] show "o_get ev ''created'' \<noteq> ONone"
    by (auto simp: field_input_def odm_Optional_def mk_field_def o_get_def liftM_def dest: date_of_now)
  have "dget ECSEvent_model ''id'' = Some (maybe (plain KKeyword))"
    by (simp add: ECSEvent_model_def)
  from check_fields_get [OF run this] show "s \<noteq> [] \<Longrightarrow> o_get ev ''id'' = OStr s"
    by (auto simp: field_input_def odm_Optional_def mk_field_def o_get_def liftM_def keyword_check_def str_or_none_def)
qed

lemma with_event_result:
  assumes "with_event E ob n = (Inr ob', m)" and "section_get ob ''howler'' ''id'' = OStr s"
  shows "\<And>k. section_get ob' ''howler'' k = section_get ob ''howler'' k"
    and "section_get ob' ''event'' ''created'' \<noteq> ONone"
    and "s = [] \<or> section_get ob' ''event'' ''id'' = OStr s"
proof -
  have sid: "o_string (OStr s) = s" by (simp add: o_string_def o_text_def)
  consider ev m' where "model_init E False ECSEvent_model (PDict [(''created'', PStr ''NOW''), (''id'', PStr s)]) n = (Inr ev, m')"
      "ob' = dset ob ''event'' (OModel ev)"
    | "ob' = section_set ob ''event'' ''id'' (OStr s)" "section_get ob' ''event'' ''created'' \<noteq> ONone"
    | d where "ob' = section_set (section_set ob ''event'' ''id'' (OStr s)) ''event'' ''created'' d" "d \<noteq> ONone"
    using assms sid
    by (auto simp: with_event_def Let_def bindM_eq_Inr bindR_eq_Inr liftM_def returnM_def dest: date_of_now
        split: oval.splits if_splits)
  note result = this
  show "section_get ob' ''howler'' k = section_get ob ''howler'' k" for k
    using result by cases (simp_all add: section_get_set section_get_other)
  show "section_get ob' ''event'' ''created'' \<noteq> ONone"
    using result
  proof cases
    case 1
    then show ?thesis using event_init(1) [OF 1(1)] by (simp add: section_get_def o_get_def o_obj_def)
  qed (simp_all add: section_get_set)
  show "s = [] \<or> section_get ob' ''event'' ''id'' = OStr s"
    using result
  proof cases
    case 1
    then show ?thesis using event_init(2) [OF 1(1)] by (auto simp: section_get_def o_get_def o_obj_def)
  qed (simp_all add: section_get_set)
qed

lemma type_errors_Inr: "type_errors m w = (Inr x, w') \<Longrightarrow> m w = (Inr x, w')"
  by (auto simp: type_errors_def split: prod.splits sum.splits)

lemma checked_hit_id:
  assumes "checked_hit I ign data n = (Inr (ob, ws), m)" and "in_model I = Hit_model u"
  shows "\<exists>s. section_get ob ''howler'' ''id'' = OStr s"
proof -
  obtain d n1 m1 where "model_init (in_ext I) ign (Hit_model u) (PDict d) n1 = (Inr ob, m1)"
    using assms by (auto simp: checked_hit_def hit_init_def bindM_eq_Inr Let_def returnM_def liftM_def raiseM_def
        dest!: type_errors_Inr split: if_splits)
  from model_init_typed_fields [OF this hit_model_fields] have "typed_all (Hit_model u) ob" .
  moreover have "dget (Hit_model u) ''howler'' = Some (plain (KCompound HowlerData_model))" by code_simp
  ultimately obtain h where h: "dget ob ''howler'' = Some h" "typed (plain (KCompound HowlerData_model)) h"
    using typed_all_get by blast
  then obtain kvs where kvs: "h = OModel kvs" "typed_all HowlerData_model kvs"
    by (cases h) (auto simp: mk_field_def)
  have "dget HowlerData_model ''id'' = Some odm_UUID" by (simp add: HowlerData_model_def)
  from typed_all_get [OF kvs(2) this] obtain v where "dget kvs ''id'' = Some v" "typed odm_UUID v" by blast
  then show ?thesis using h(1) kvs(1)
    by (cases v) (auto simp: section_get_def o_get_def o_obj_def odm_UUID_def nullable_def scalar_ok_def)
qed

lemma converted_steps:
  assumes "converted I ign data n = (Inr (ob, warnings), m)"
  obtains d n1 ob0 ws0 n2 ob1 w1 ob2 w2 n3 n4 where
    "checked_hit I ign d n1 = (Inr (ob0, ws0), n2)" "align_escalation ob0 = Inr (ob1, w1)" "align_status ob1 = (ob2, w2)"
    "with_event (in_ext I) ob2 n3 = (Inr ob, n4)"
proof -
  obtain ob0 ws0 n2 ob1 w1 where
    first: "bindM (prepared I data) (checked_hit I ign) n = (Inr (ob0, ws0), n2)" and esc: "align_escalation ob0 = Inr (ob1, w1)" and
    rest: "(case align_status ob1 of (ob2, w2) \<Rightarrow> bindM (with_event (in_ext I) ob2) (\<lambda>ob3. returnM (ob3, ws0 @ w1 @ w2))) n2 =
      (Inr (ob, warnings), m)"
    using assms unfolding converted_def by (auto simp: bindM_eq_Inr liftM_def)
  obtain ob2 w2 where stat: "align_status ob1 = (ob2, w2)" by fastforce
  with rest have "bindM (with_event (in_ext I) ob2) (\<lambda>ob3. returnM (ob3, ws0 @ w1 @ w2)) n2 = (Inr (ob, warnings), m)" by simp
  then obtain m' where ev: "with_event (in_ext I) ob2 n2 = (Inr ob, m')" by (auto simp: bindM_eq_Inr returnM_def)
  obtain d n1 where "checked_hit I ign d n1 = (Inr (ob0, ws0), n2)" using first by (auto simp: bindM_eq_Inr)
  from that [OF this esc stat ev] show ?thesis .
qed

text \<open>
  C34: An accepted hit is consistent. When \<^verbatim>\<open>convert_hit\<close> returns an object of the schema of hits, its id is a
  text that also is the id of its event, the event has a time of creation, an escalation to miss or evidence comes
  with the status resolved, and an assessment comes with the escalation the assessment stands for, which is
  miss or evidence, and hence with the status resolved, whatever escalation and status the client sent.
\<close>

theorem converted_hit_consistent:
  assumes "in_model I = Hit_model u"
    and "convert_hit I c data unique ignore_extra_values w = (Inr (ob, warnings), w')"
  shows "(\<exists>s. section_get ob ''howler'' ''id'' = OStr s \<and> (s = [] \<or> section_get ob ''event'' ''id'' = OStr s)) \<and>
    section_get ob ''event'' ''created'' \<noteq> ONone \<and>
    (section_get ob ''howler'' ''escalation'' \<in> {OStr (escalation_value MISS), OStr (escalation_value EVIDENCE)} \<longrightarrow>
       section_get ob ''howler'' ''status'' = OStr (status_value RESOLVED)) \<and>
    (section_get ob ''howler'' ''assessment'' \<notin> {ONone, OStr []} \<longrightarrow>
       (\<exists>e\<in>{MISS, EVIDENCE}.
          enum_getitem AssessmentEscalationMap (o_string (section_get ob ''howler'' ''assessment'')) = Inr (escalation_value e) \<and>
          section_get ob ''howler'' ''escalation'' = OStr (escalation_value e) \<and>
          section_get ob ''howler'' ''status'' = OStr (status_value RESOLVED)))"
proof -
  obtain n m where "converted I ignore_extra_values data n = (Inr (ob, warnings), m)"
    using assms(2) by (auto simp: convert_hit_def on_ids_eq_Inr bindM_eq_Inr Let_def raiseM_def returnM_def
        split: prod.split_asm if_split_asm)
  then obtain d n1 ob0 ws0 n2 ob1 w1 ob2 w2 n3 n4 where
    checked: "checked_hit I ignore_extra_values d n1 = (Inr (ob0, ws0), n2)" and
    esc: "align_escalation ob0 = Inr (ob1, w1)" and stat: "align_status ob1 = (ob2, w2)" and
    ev: "with_event (in_ext I) ob2 n3 = (Inr ob, n4)"
    by (rule converted_steps)
  obtain s where s: "section_get ob0 ''howler'' ''id'' = OStr s" using checked_hit_id [OF checked assms(1)] by blast
  then have s2: "section_get ob2 ''howler'' ''id'' = OStr s"
    using align_escalation_result(1) [OF esc] align_status_result(1) [OF stat] by simp
  note e = with_event_result [OF ev s2]
  have assessed: "section_get ob ''howler'' ''assessment'' = section_get ob0 ''howler'' ''assessment''"
    and escalated: "section_get ob ''howler'' ''escalation'' = section_get ob1 ''howler'' ''escalation''"
    using e(1) align_escalation_result(1) [OF esc] align_status_result(1) [OF stat] by simp_all
  have resolved: "section_get ob1 ''howler'' ''escalation'' \<in> {OStr (escalation_value MISS), OStr (escalation_value EVIDENCE)} \<Longrightarrow>
      section_get ob ''howler'' ''status'' = OStr (status_value RESOLVED)"
    using e(1) align_status_result(2) [OF stat] by simp
  show ?thesis
    unfolding assessed escalated
  proof (intro conjI impI)
    show "\<exists>s. section_get ob ''howler'' ''id'' = OStr s \<and> (s = [] \<or> section_get ob ''event'' ''id'' = OStr s)"
      using e(1) [of "''id''"] s2 e(3) by simp
  next
    assume "section_get ob0 ''howler'' ''assessment'' \<notin> {ONone, OStr []}"
    from align_escalation_result(2) [OF esc this] resolved
    show "\<exists>e\<in>{MISS, EVIDENCE}.
        enum_getitem AssessmentEscalationMap (o_string (section_get ob0 ''howler'' ''assessment'')) = Inr (escalation_value e) \<and>
        section_get ob1 ''howler'' ''escalation'' = OStr (escalation_value e) \<and>
        section_get ob ''howler'' ''status'' = OStr (status_value RESOLVED)"
      by blast
  qed (rule e(2), erule resolved)
qed

section \<open>Creating a batch\<close>

text \<open>What a collection answers about the existence of documents, told from what it stores.\<close>

definition answers_exists :: "'w collection \<Rightarrow> ('w \<Rightarrow> string \<Rightarrow> es_hit option) \<Rightarrow> bool" where
  "answers_exists c look \<longleftrightarrow>
     (\<forall>k w. fst (coll_exists c k w) = Inr (look w k \<noteq> None) \<and> look (snd (coll_exists c k w)) = look w)"

lemma creation_refuses:
  assumes ex: "answers_exists c look"
  shows "list_ex (\<lambda>ob. look (app_store a) (hit_id ob) \<noteq> None) hits \<Longrightarrow>
    \<exists>e n' a'. plan_creation I eng c usr False hits p (n, a) = (Inl e, n', a') \<and> look (app_store a') = look (app_store a) \<and>
      app_events a' = app_events a \<and> app_actions a' = app_actions a"
proof (induction hits arbitrary: p n a)
  case (Cons ob hits)
  define w' where "w' = snd (coll_exists c (hit_id ob) (app_store a))"
  have asked: "coll_exists c (hit_id ob) (app_store a) = (Inr (look (app_store a) (hit_id ob) \<noteq> None), w')"
    and same: "look w' = look (app_store a)"
    using ex by (simp_all add: answers_exists_def w'_def prod_eq_iff)
  let ?a = "a\<lparr>app_store := w'\<rparr>"
  show ?case
  proof (cases "look (app_store a) (hit_id ob) \<noteq> None")
    case True
    with asked same show ?thesis by (simp add: bindM_def on_app_def on_store_def raiseM_def)
  next
    case False
    let ?q = "bindM (with_creation_log (in_ext I) usr ob) (\<lambda>ob'. queue_hit BulkCreate I eng ob' p)"
    obtain r n1 where q: "on_ids ?q (n, ?a) = (r, n1, ?a)" by (cases "?q n") (auto dest: on_ids_pair)
    have found: "on_app (on_store (coll_exists c (hit_id ob))) (n, a) = (Inr False, n, ?a)"
      using asked False by (intro on_app_pair) (simp add: on_store_def)
    show ?thesis
    proof (cases r)
      case (Inl e)
      with q found same show ?thesis by (auto simp: bindM_def [of "on_app _"] bindM_def [of "on_ids _"])
    next
      case (Inr p1)
      have "list_ex (\<lambda>ob. look (app_store ?a) (hit_id ob) \<noteq> None) hits" using Cons.prems False same by simp
      from Cons.IH [OF this, of p1 n1] same q Inr found show ?thesis
        by (simp add: bindM_def [of "on_app _"] bindM_def [of "on_ids _"])
    qed
  qed
qed simp


text \<open>When nothing raises, the plan holds one operation for each hit, in order, under its id.\<close>

lemma queue_hit_result:
  "queue_hit mk I eng ob p n = (Inr p', m) \<Longrightarrow>
   \<exists>i d. first_index p None = Inr i \<and> p' = queue [mk i (hit_id ob) d] p"
  by (auto simp: queue_hit_def bindM_eq_Inr liftM_def returnM_def)

lemma creation_log_id: "with_creation_log E usr ob n = (Inr ob', m) \<Longrightarrow> hit_id ob' = hit_id ob"
  by (auto simp: with_creation_log_def hit_id_def section_get_set bindM_eq_Inr returnM_def split: if_splits)

lemma creation_queues_each:
  "plan_creation I eng c usr overwrite hits p w = (Inr p', w') \<Longrightarrow> bp_indexes p = i # is \<Longrightarrow>
   \<exists>ds. length ds = length hits \<and>
     bp_operations p' = bp_operations p @
       map (\<lambda>(ob, d). (if overwrite then BulkIndex else BulkCreate) i (hit_id ob) d) (zip hits ds)"
proof (induction hits arbitrary: p w)
  case (Cons ob hits)
  from Cons.prems(1) obtain ob' n1 n2 p1 w1 where
    log: "\<exists>n. with_creation_log (in_ext I) usr ob n = (Inr ob', n1)" and
    q: "queue_hit (if overwrite then BulkIndex else BulkCreate) I eng ob' p n1 = (Inr p1, n2)" and
    rest: "plan_creation I eng c usr overwrite hits p1 w1 = (Inr p', w')"
    by (force simp: bindM_eq_Inr on_ids_eq_Inr raiseM_def split: if_split_asm)
  from queue_hit_result [OF q] Cons.prems(2) creation_log_id log obtain d where
    p1: "p1 = queue [(if overwrite then BulkIndex else BulkCreate) i (hit_id ob) d] p"
    by (auto simp: first_index_def truthy_text_def)
  then have "bp_indexes p1 = i # is" using Cons.prems(2) by (simp add: queue_def)
  from Cons.IH [OF rest this] obtain ds where "length ds = length hits"
    "bp_operations p' = bp_operations p1 @
       map (\<lambda>(ob, d). (if overwrite then BulkIndex else BulkCreate) i (hit_id ob) d) (zip hits ds)" by blast
  then show ?case using p1 by (intro exI [of _ "d # ds"]) (simp add: queue_def)
qed (auto simp: returnM_def)

end
