(* ===== verification/Lucene.thy ===== *)
theory Lucene
  imports DictUtils Complex_Main
begin

text \<open>
  \<^verbatim>\<open>services/lucene_service.py\<close> and \<^verbatim>\<open>utils/lucene.py\<close>: a Lucene query, normalized by Elasticsearch and parsed by
  luqum, is evaluated on one hit. The tree is the one luqum documents; Elasticsearch, the parser and the parsers
  of numbers, dates and addresses are parameters. The text replacements around the normalization and its cache
  are part of that parameter.
\<close>

section \<open>Queries\<close>

text \<open>\<open>Group\<close> stands for every node the visitor has no method for: the results of its children are its own.\<close>

datatype lucene =
    WordNode string
  | PhraseNode string
  | SearchField string lucene
  | AndOperation "lucene list"
  | OrOperation "lucene list"
  | BoolOperation "lucene list"
  | Plus lucene
  | Prohibit lucene
  | RangeNode string string bool bool
  | Group "lucene list"

section \<open>Patterns\<close>

text \<open>\<^verbatim>\<open>fnmatch\<close>: a star, a question mark, a set of characters in brackets, or the character itself.\<close>

datatype glob_item = GStar | GAny | GChar char | GSet bool "(char \<times> char) list"

fun set_items :: "string \<Rightarrow> (char \<times> char) list" where
  "set_items [] = []"
| "set_items [a] = [(a, a)]"
| "set_items [a, b] = [(a, a), (b, b)]"
| "set_items (a # b # c # s) =
     (if b = CHR ''-'' then (a, c) # set_items s else (a, a) # set_items (b # c # s))"

text \<open>What stands between brackets, and the rest: a closing bracket at the start belongs to the set.\<close>

definition bracket :: "string \<Rightarrow> ((bool \<times> string) \<times> string) option" where
  "bracket s =
     (let neg = (s \<noteq> [] \<and> hd s = CHR ''!''); t = (if neg then tl s else s);
          head = (if t \<noteq> [] \<and> hd t = CHR '']'' then [CHR '']''] else []); u = drop (length head) t in
      if CHR '']'' \<in> set u
      then Some ((neg, head @ takeWhile (\<lambda>c. c \<noteq> CHR '']'') u), tl (dropWhile (\<lambda>c. c \<noteq> CHR '']'') u))
      else None)"

lemma bracket_shorter: "bracket s = Some (x, rest) \<Longrightarrow> length rest < length s"
proof -
  assume b: "bracket s = Some (x, rest)"
  define t where "t = (if s \<noteq> [] \<and> hd s = CHR ''!'' then tl s else s)"
  define u where "u = drop (length (if t \<noteq> [] \<and> hd t = CHR '']'' then [CHR '']''] else [])) t"
  have u: "CHR '']'' \<in> set u" and rest: "rest = tl (dropWhile (\<lambda>c. c \<noteq> CHR '']'') u)"
    using b by (auto simp: bracket_def Let_def t_def u_def split: if_splits)
  have "length (dropWhile (\<lambda>c. c \<noteq> CHR '']'') u) \<le> length u" by (rule length_dropWhile_le)
  moreover have "dropWhile (\<lambda>c. c \<noteq> CHR '']'') u \<noteq> []" using u by (auto simp: dropWhile_eq_Nil_conv)
  ultimately have "length rest < length u" using rest by (cases "dropWhile (\<lambda>c. c \<noteq> CHR '']'') u") auto
  also have "length u \<le> length s" by (simp add: u_def t_def)
  finally show ?thesis .
qed

function glob_items :: "string \<Rightarrow> glob_item list" where
  "glob_items [] = []"
| "glob_items (c # s) =
     (if c = CHR ''*'' then GStar # glob_items s
      else if c = CHR ''?'' then GAny # glob_items s
      else if c = CHR ''['' then
        (case bracket s of
           None \<Rightarrow> GChar c # glob_items s
         | Some (nb, rest) \<Rightarrow> GSet (fst nb) (set_items (snd nb)) # glob_items rest)
      else GChar c # glob_items s)"
  by pat_completeness auto
termination by (relation "measure length") (auto dest: bracket_shorter)

definition item_matches :: "glob_item \<Rightarrow> char \<Rightarrow> bool" where
  "item_matches g c =
     (case g of
        GChar d \<Rightarrow> c = d
      | GSet neg rs \<Rightarrow> list_ex (\<lambda>(lo, hi). lo \<le> c \<and> c \<le> hi) rs \<noteq> neg
      | _ \<Rightarrow> True)"

function glob :: "glob_item list \<Rightarrow> string \<Rightarrow> bool" where
  "glob [] s = (s = [])"
| "glob (g # gs) s =
     (if g = GStar then glob gs s \<or> (case s of [] \<Rightarrow> False | c # t \<Rightarrow> glob (g # gs) t)
      else (case s of [] \<Rightarrow> False | c # t \<Rightarrow> item_matches g c \<and> glob gs t))"
  by pat_completeness auto
termination by (relation "measures [\<lambda>(gs, s). length gs + length s]") auto

definition fnmatch :: "string \<Rightarrow> string \<Rightarrow> bool" where
  "fnmatch name pat \<longleftrightarrow> glob (glob_items pat) name"

section \<open>Candidates\<close>

definition in_chars :: "string \<Rightarrow> char \<Rightarrow> bool" where
  "in_chars s c \<longleftrightarrow> c \<in> set s"

definition lower_letters :: string where "lower_letters = ''abcdefghijklmnopqrstuvwxyz''"
definition upper_letters :: string where "upper_letters = ''ABCDEFGHIJKLMNOPQRSTUVWXYZ''"
definition kept_signs :: string where "kept_signs = ''0123456789.,@_:/;()-''"

text \<open>\<^verbatim>\<open>re.match("^[a-zA-Z0-9]+$", value)\<close>: also when a line break ends the text.\<close>

definition alphanumeric :: "string \<Rightarrow> bool" where
  "alphanumeric s \<longleftrightarrow>
     (let t = (if s \<noteq> [] \<and> last s = CHR 0x0A then butlast s else s) in
      t \<noteq> [] \<and> list_all (in_chars (lower_letters @ upper_letters @ ''0123456789'')) t)"

definition normalize_phrase :: "string \<Rightarrow> bool \<Rightarrow> string list" where
  "normalize_phrase v is_word =
     (if alphanumeric v then [v, py_lower v]
      else
        (let low = lower_letters @ kept_signs; any = lower_letters @ upper_letters @ kept_signs in
         if is_word
         then [filter (in_chars low) (py_lower v), filter (in_chars any) v] @
              (if CHR '' '' \<in> set v
               then [filter (in_chars (CHR '' '' # low)) (py_lower v), filter (in_chars (CHR '' '' # any)) v] else [])
         else [filter (in_chars (CHR '' '' # any)) v]))"

definition build_candidates :: "py \<Rightarrow> bool \<Rightarrow> string list" where
  "build_candidates v is_word =
     (case v of
        PList xs \<Rightarrow> concat (map (\<lambda>x. normalize_phrase (py_str x) is_word) xs)
      | _ \<Rightarrow> normalize_phrase (py_str v) is_word)"

text \<open>
  \<^verbatim>\<open>re.sub\<close> of a text in quotation marks by what they enclose: on every line, from the first mark to the last one,
  when there is something between.
\<close>

definition unquoted :: "string \<Rightarrow> string" where
  "unquoted s =
     (let q = CHR 0x22; before = takeWhile (\<lambda>c. c \<noteq> q) s; rest = dropWhile (\<lambda>c. c \<noteq> q) s;
          after = rev (takeWhile (\<lambda>c. c \<noteq> q) (rev rest)); len = length rest - length after in
      if len < 3 then s else before @ drop 1 (take (len - 1) rest) @ after)"

definition without_quotes :: "string \<Rightarrow> string" where
  "without_quotes s = py_join [CHR 0x0A] (map unquoted (split_char (CHR 0x0A) s))"

text \<open>\<^verbatim>\<open>re.sub("^c$", w, v)\<close>: a line break may end the text.\<close>

definition spelled_out :: "char \<Rightarrow> string \<Rightarrow> string \<Rightarrow> string" where
  "spelled_out c w v = (if v = [c] then w else if v = [c, CHR 0x0A] then w @ [CHR 0x0A] else v)"

definition sanitize_value :: "string \<Rightarrow> string" where
  "sanitize_value v =
     (let v1 = spelled_out (CHR ''T'') ''True'' (spelled_out (CHR ''F'') ''False'' v) in
      py_replace (CHR 0x5C # '' '') '' '' (py_replace (CHR 0x5C # '':'') '':'' (without_quotes v1)))"

section \<open>Ranges\<close>

datatype number = NegInf | Finite rat | PosInf | NaN

datatype bound = Num number | Instant int | Address bool int

text \<open>
  \<^verbatim>\<open>float\<close> of a value, the instant an ISO text denotes, the instant a number of milliseconds denotes and the one
  a millisecond later, all in microseconds, and the address a value denotes, with its version.
\<close>

record lucene_ext =
  le_float :: "py \<Rightarrow> number result"
  le_date :: "py \<Rightarrow> int option"
  le_instant :: "int \<Rightarrow> int result"
  le_after :: "int \<Rightarrow> int result"
  le_ip :: "py \<Rightarrow> (bool \<times> int) option"

fun number_le :: "number \<Rightarrow> number \<Rightarrow> bool" where
  "number_le NaN y = False"
| "number_le x NaN = False"
| "number_le NegInf y = True"
| "number_le x PosInf = True"
| "number_le (Finite a) (Finite b) = (a \<le> b)"
| "number_le x y = False"

definition cannot_compare :: exn where
  "cannot_compare = Exn ETypeError ''not supported between instances''"

fun bound_le :: "bound \<Rightarrow> bound \<Rightarrow> bool result" where
  "bound_le (Num x) (Num y) = Inr (number_le x y)"
| "bound_le (Instant x) (Instant y) = Inr (x \<le> y)"
| "bound_le (Address v x) (Address w y) = (if v = w then Inr (x \<le> y) else Inl cannot_compare)"
| "bound_le x y = Inl cannot_compare"

text \<open>Numbers that are equal, NaN being equal to nothing.\<close>

definition bound_eq :: "bound \<Rightarrow> bound \<Rightarrow> bool" where
  "bound_eq x y \<longleftrightarrow> x = y \<and> x \<noteq> Num NaN"

definition whole :: "int \<Rightarrow> bound" where
  "whole i = Num (Finite (of_int i))"

text \<open>An error of the class ValueError lets the next way of reading be tried.\<close>

definition on_value_error :: "'a result \<Rightarrow> 'a result \<Rightarrow> 'a result" where
  "on_value_error m other =
     (case m of Inr x \<Rightarrow> Inr x | Inl e \<Rightarrow> if exn_class e = EValueError then other else Inl e)"

definition try_parse_number :: "lucene_ext \<Rightarrow> py \<Rightarrow> bound option result" where
  "try_parse_number L v =
     (case v of
        PInt i \<Rightarrow> Inr (Some (whole i))
      | PBool b \<Rightarrow> Inr (Some (whole (of_bool b)))
      | PFloat r \<Rightarrow> bindR (le_float L v) (\<lambda>x. Inr (Some (Num x)))
      | PStr s \<Rightarrow>
          if py_lower s = ''infinity'' then Inr (Some (Num PosInf))
          else on_value_error (bindR (to_int v) (\<lambda>i. Inr (Some (whole i))))
                 (on_value_error (bindR (le_float L v) (\<lambda>x. Inr (Some (Num x)))) (Inr None))
      | _ \<Rightarrow> Inl (Exn EAttributeError ''object has no attribute lower''))"

definition try_parse_ip :: "lucene_ext \<Rightarrow> py \<Rightarrow> bound option result" where
  "try_parse_ip L v = Inr (map_option (\<lambda>(six, i). Address six i) (le_ip L v))"

definition bound_truthy :: "bound \<Rightarrow> bool" where
  "bound_truthy b \<longleftrightarrow> b \<noteq> Num (Finite 0)"

text \<open>
  \<^verbatim>\<open>coerce\<close>: a list keeps the results that are truthy, which a zero is not. The flag says that the value is a list.
\<close>

definition coerce :: "(py \<Rightarrow> bound option result) \<Rightarrow> py \<Rightarrow> (bool \<times> bound list) result" where
  "coerce f v =
     (case v of
        PList xs \<Rightarrow>
          bindR (mapR f xs) (\<lambda>rs. Inr (True, concat (map (\<lambda>r. case r of Some b \<Rightarrow> if bound_truthy b then [b] else [] | None \<Rightarrow> []) rs)))
      | _ \<Rightarrow> bindR (f v) (\<lambda>r. Inr (False, case r of Some b \<Rightarrow> [b] | None \<Rightarrow> [])))"

text \<open>Whether the result of \<^verbatim>\<open>coerce\<close> is truthy.\<close>

definition coerced :: "bool \<times> bound list \<Rightarrow> bool" where
  "coerced r \<longleftrightarrow> snd r \<noteq> [] \<and> (fst r \<or> list_all bound_truthy (snd r))"

definition as_int :: "py \<Rightarrow> bound option result" where
  "as_int v = bindR (to_int v) (\<lambda>i. Inr (Some (whole i)))"

definition as_float :: "lucene_ext \<Rightarrow> py \<Rightarrow> bound option result" where
  "as_float L v = bindR (le_float L v) (\<lambda>x. Inr (Some (Num x)))"

definition both_ends :: "(py \<Rightarrow> bound option result) \<Rightarrow> string \<Rightarrow> bound list \<Rightarrow> string \<Rightarrow> (bound \<times> bound list \<times> bound) option result" where
  "both_ends f low vs high =
     bindR (f (PStr low)) (\<lambda>l. bindR (f (PStr high)) (\<lambda>h.
     Inr (case (l, h) of (Some a, Some b) \<Rightarrow> Some (a, vs, b) | _ \<Rightarrow> None)))"

text \<open>Low, values and high read in one way: \<^verbatim>\<open>int(low), coerce(value, int), int(high)\<close>.\<close>

definition all_three :: "(py \<Rightarrow> bound option result) \<Rightarrow> string \<Rightarrow> py \<Rightarrow> string \<Rightarrow> (bound \<times> bound list \<times> bound) result" where
  "all_three f low v high =
     bindR (f (PStr low)) (\<lambda>l. bindR (coerce f v) (\<lambda>r. bindR (f (PStr high)) (\<lambda>h.
     Inr (the l, snd r, the h))))"

definition no_range :: "string \<Rightarrow> string \<Rightarrow> exn" where
  "no_range low high = Exn EInvalidData (''Unknown range type for values '' @ low @ '' - '' @ high)"

definition parse_range :: "lucene_ext \<Rightarrow> string \<Rightarrow> py \<Rightarrow> string \<Rightarrow> (bound \<times> bound list \<times> bound) result" where
  "parse_range L low v high =
     bindR (coerce (\<lambda>x. Inr (map_option Instant (le_date L x))) v) (\<lambda>dates.
     if coerced dates
     then bindR (to_int (PStr low)) (\<lambda>l.
            if fst dates then Inl (Exn EAttributeError ''list object has no attribute tzinfo'')
            else bindR (le_instant L l) (\<lambda>a.
                 bindR (bindR (to_int (PStr high)) (le_after L)) (\<lambda>b.
                 Inr (Instant a, snd dates, Instant b))))
     else
       bindR (coerce (try_parse_number L) v) (\<lambda>nums.
       bindR (if coerced nums then both_ends (try_parse_number L) low (snd nums) high else Inr None) (\<lambda>found.
       case found of
         Some r \<Rightarrow> Inr r
       | None \<Rightarrow>
           on_value_error (all_three as_int low v high)
             (bindR (coerce (try_parse_ip L) v) (\<lambda>ips.
              bindR (if coerced ips then both_ends (try_parse_ip L) low (snd ips) high else Inr None) (\<lambda>found.
              case found of
                Some r \<Rightarrow> Inr r
              | None \<Rightarrow> on_value_error (all_three (as_float L) low v high) (Inl (no_range low high))))))))"

fun in_range :: "bound \<Rightarrow> bound \<Rightarrow> bool \<Rightarrow> bool \<Rightarrow> bound list \<Rightarrow> bool result" where
  "in_range low high inc_low inc_high [] = Inr False"
| "in_range low high inc_low inc_high (v # vs) =
     bindR (bound_le low v) (\<lambda>above.
     bindR (if above then bound_le v high else Inr False) (\<lambda>inside.
     if inside \<and> (inc_high \<or> \<not> bound_eq v high) \<and> (inc_low \<or> \<not> bound_eq v low) then Inr True
     else in_range low high inc_low inc_high vs))"

section \<open>The visitor\<close>

text \<open>What a generator gives: the results it yields before it ends, or raises.\<close>

type_synonym yields = "bool list \<times> exn option"

definition then_yields :: "yields \<Rightarrow> yields \<Rightarrow> yields" where
  "then_yields g h = (case snd g of None \<Rightarrow> (fst g @ fst h, snd h) | Some e \<Rightarrow> g)"

definition yield_one :: "bool result \<Rightarrow> yields" where
  "yield_one r = (case r of Inr b \<Rightarrow> ([b], None) | Inl e \<Rightarrow> ([], Some e))"

text \<open>\<^verbatim>\<open>all(list(g))\<close> and \<^verbatim>\<open>any(list(g))\<close>.\<close>

definition of_all :: "(bool list \<Rightarrow> bool) \<Rightarrow> yields \<Rightarrow> yields" where
  "of_all f g = (case snd g of None \<Rightarrow> ([f (fst g)], None) | Some e \<Rightarrow> ([], Some e))"

definition is_must :: "lucene \<Rightarrow> bool" where
  "is_must t = (case t of Plus u \<Rightarrow> True | Prohibit u \<Rightarrow> True | _ \<Rightarrow> False)"

definition term_matches :: "(string, py) dict \<Rightarrow> string option \<Rightarrow> bool \<Rightarrow> string \<Rightarrow> bool" where
  "term_matches hit field is_word v =
     (case field of
        None \<Rightarrow> PStr (sanitize_value v) \<in> set (dvalues hit)
      | Some f \<Rightarrow>
          if f = ''_exists_'' then dget hit v \<notin> {None, Some PNone}
          else list_ex (\<lambda>c. fnmatch c (sanitize_value v))
                 (build_candidates (case dget hit f of Some x \<Rightarrow> x | None \<Rightarrow> PNone) is_word))"

definition range_matches :: "lucene_ext \<Rightarrow> (string, py) dict \<Rightarrow> string option \<Rightarrow> string \<Rightarrow> string \<Rightarrow> bool \<Rightarrow> bool \<Rightarrow> bool result" where
  "range_matches L hit field low high inc_low inc_high =
     (case field of
        None \<Rightarrow> Inl (Exn EKeyError ''field'')
      | Some f \<Rightarrow>
          bindR (parse_range L low (case dget hit f of Some x \<Rightarrow> x | None \<Rightarrow> PNone) high) (\<lambda>(l, vs, h).
          in_range l h inc_low inc_high vs))"

text \<open>
  \<^verbatim>\<open>visit_bool_operation\<close>: the loop over the children stops with False at the first required child that fails.
\<close>

fun visit :: "lucene_ext \<Rightarrow> (string, py) dict \<Rightarrow> string option \<Rightarrow> lucene \<Rightarrow> yields"
and visit_all :: "lucene_ext \<Rightarrow> (string, py) dict \<Rightarrow> string option \<Rightarrow> lucene list \<Rightarrow> yields"
and visit_bool :: "lucene_ext \<Rightarrow> (string, py) dict \<Rightarrow> string option \<Rightarrow> bool list \<Rightarrow> lucene list \<Rightarrow> yields" where
  "visit L hit field (WordNode v) = ([term_matches hit field True v], None)"
| "visit L hit field (PhraseNode v) = ([term_matches hit field False v], None)"
| "visit L hit field (SearchField f t) = visit L hit (Some f) t"
| "visit L hit field (AndOperation ts) = of_all (list_all id) (visit_all L hit field ts)"
| "visit L hit field (OrOperation ts) = of_all (list_ex id) (visit_all L hit field ts)"
| "visit L hit field (BoolOperation ts) = visit_bool L hit field [] ts"
| "visit L hit field (Plus t) = visit L hit field t"
| "visit L hit field (Prohibit t) = apfst (map Not) (visit L hit field t)"
| "visit L hit field (RangeNode low high il ih) = yield_one (range_matches L hit field low high il ih)"
| "visit L hit field (Group ts) = visit_all L hit field ts"
| "visit_all L hit field [] = ([], None)"
| "visit_all L hit field (t # ts) = then_yields (visit L hit field t) (visit_all L hit field ts)"
| "visit_bool L hit field results [] = ([list_ex id results], None)"
| "visit_bool L hit field results (t # ts) =
     (let g = visit L hit field t in
      if is_must t \<and> False \<in> set (fst g) then ([False], None)
      else case snd g of
        Some e \<Rightarrow> ([], Some e)
      | None \<Rightarrow> visit_bool L hit field (results @ fst g) ts)"

text \<open>
  \<^verbatim>\<open>match\<close>, from the normalized query on: it is None when Elasticsearch calls the query invalid. Whatever is raised
  while it is parsed and evaluated makes the answer False.
\<close>

definition lucene_match :: "lucene_ext \<Rightarrow> (string \<Rightarrow> string option) \<Rightarrow> (string \<Rightarrow> lucene result) \<Rightarrow> string \<Rightarrow> (string, py) dict \<Rightarrow> bool" where
  "lucene_match L validated parsed lucene obj =
     (case validated lucene of
        None \<Rightarrow> False
      | Some q \<Rightarrow>
          (case bindR (parsed q) (\<lambda>tree. bindR (flatten_deep obj) (\<lambda>hit. Inr (visit L hit None tree))) of
             Inr (b # bs, None) \<Rightarrow> b
           | _ \<Rightarrow> False))"


section \<open>What a query means\<close>

text \<open>
  The boolean operations of Lucene on trees whose nodes have one result each: a bool operation holds when all its
  required children hold, none of its prohibited ones does, and some child is satisfied.
\<close>

fun holds :: "lucene_ext \<Rightarrow> (string, py) dict \<Rightarrow> string option \<Rightarrow> lucene \<Rightarrow> bool" where
  "holds L hit field (WordNode v) = term_matches hit field True v"
| "holds L hit field (PhraseNode v) = term_matches hit field False v"
| "holds L hit field (SearchField f t) = holds L hit (Some f) t"
| "holds L hit field (AndOperation ts) = (\<forall>t\<in>set ts. holds L hit field t)"
| "holds L hit field (OrOperation ts) = (\<exists>t\<in>set ts. holds L hit field t)"
| "holds L hit field (BoolOperation ts) =
     ((\<forall>t\<in>set ts. is_must t \<longrightarrow> holds L hit field t) \<and> (\<exists>t\<in>set ts. holds L hit field t))"
| "holds L hit field (Plus t) = holds L hit field t"
| "holds L hit field (Prohibit t) = (\<not> holds L hit field t)"
| "holds L hit field (RangeNode low high il ih) = (range_matches L hit field low high il ih = Inr True)"
| "holds L hit field (Group ts) = (\<forall>t\<in>set ts. holds L hit field t)"

text \<open>A tree without an empty or a branching group, whose ranges can be read.\<close>

fun readable :: "lucene_ext \<Rightarrow> (string, py) dict \<Rightarrow> string option \<Rightarrow> lucene \<Rightarrow> bool" where
  "readable L hit field (WordNode v) = True"
| "readable L hit field (PhraseNode v) = True"
| "readable L hit field (SearchField f t) = readable L hit (Some f) t"
| "readable L hit field (AndOperation ts) = list_all (readable L hit field) ts"
| "readable L hit field (OrOperation ts) = list_all (readable L hit field) ts"
| "readable L hit field (BoolOperation ts) = list_all (readable L hit field) ts"
| "readable L hit field (Plus t) = readable L hit field t"
| "readable L hit field (Prohibit t) = readable L hit field t"
| "readable L hit field (RangeNode low high il ih) = (case range_matches L hit field low high il ih of Inr b \<Rightarrow> True | Inl e \<Rightarrow> False)"
| "readable L hit field (Group ts) = (length ts = 1 \<and> list_all (readable L hit field) ts)"

lemma visit_holds:
  "readable L hit field t \<Longrightarrow> visit L hit field t = ([holds L hit field t], None)"
  "list_all (readable L hit field) ts \<Longrightarrow> visit_all L hit field ts = (map (holds L hit field) ts, None)"
  "list_all (readable L hit field) ts \<Longrightarrow> visit_bool L hit field results ts =
     ([(\<forall>t\<in>set ts. is_must t \<longrightarrow> holds L hit field t) \<and> (list_ex id results \<or> (\<exists>t\<in>set ts. holds L hit field t))], None)"
proof (induction L hit field t and L hit field ts and L hit field results ts rule: visit_visit_all_visit_bool.induct)
  case (9 L hit field low high il ih)
  then show ?case by (cases "range_matches L hit field low high il ih") (auto simp: yield_one_def)
next
  case (10 L hit field ts)
  then show ?case by (cases ts) auto
qed (auto simp: of_all_def then_yields_def list_all_iff list_ex_iff Let_def)

text \<open>
  C38: The visitor computes the boolean semantics of Lucene. For every tree whose groups hold one query each and
  whose ranges can be read on the hit, the generators of \<^verbatim>\<open>LuceneProcessor\<close> give exactly one answer and
  raise nothing, and \<^verbatim>\<open>match\<close> answers what the query means: the early return at the first required child that fails
  changes nothing.
\<close>

theorem lucene_match_meaning:
  assumes "validated lucene = Some q" and "parsed q = Inr t" and "flatten_deep obj = Inr hit" and "readable L hit None t"
  shows "lucene_match L validated parsed lucene obj = holds L hit None t"
  using assms visit_holds(1) [OF assms(4)] by (simp add: lucene_match_def)

section \<open>Patterns and words\<close>

text \<open>The texts an item of a pattern stands for.\<close>

definition item_words :: "glob_item \<Rightarrow> string set" where
  "item_words g = (if g = GStar then UNIV else {[c] | c. item_matches g c})"

text \<open>
  The matcher accepts a text exactly when it is cut into one word for each item of the pattern.
\<close>

definition glob_cut :: "glob_item list \<Rightarrow> string \<Rightarrow> bool" where
  "glob_cut gs s \<longleftrightarrow> (\<exists>ws. s = concat ws \<and> list_all2 (\<lambda>w g. w \<in> item_words g) ws gs)"

lemma glob_cut_Nil: "glob_cut [] s \<longleftrightarrow> s = []"
  by (simp add: glob_cut_def)

lemma glob_cut_Cons: "glob_cut (g # gs) s \<longleftrightarrow> (\<exists>u v. s = u @ v \<and> u \<in> item_words g \<and> glob_cut gs v)"
  unfolding glob_cut_def list_all2_Cons2 by (metis concat.simps(2))

lemma glob_cut_star: "glob_cut (GStar # gs) s \<longleftrightarrow> glob_cut gs s \<or> (case s of [] \<Rightarrow> False | c # t \<Rightarrow> glob_cut (GStar # gs) t)"
  unfolding glob_cut_Cons by (cases s) (auto simp: item_words_def Cons_eq_append_conv)

lemma glob_cut_item:
  "g \<noteq> GStar \<Longrightarrow> glob_cut (g # gs) s \<longleftrightarrow> (case s of [] \<Rightarrow> False | c # t \<Rightarrow> item_matches g c \<and> glob_cut gs t)"
  unfolding glob_cut_Cons
  by (cases s) (auto simp: item_words_def intro: exI [of _ "[_]"] exI [of _ "tl s"])

lemma glob_words: "glob gs s \<longleftrightarrow> glob_cut gs s"
proof (induction gs s rule: glob.induct)
  case (2 g gs s)
  then show ?case by (cases "g = GStar") (auto simp: glob_cut_star glob_cut_item split: list.split)
qed (simp add: glob_cut_Nil)

section \<open>Examples\<close>

text \<open>Python's numbers, read where a text denotes an integer; no dates and no addresses.\<close>

definition plain_ext :: lucene_ext where
  "plain_ext = \<lparr>le_float = (\<lambda>v. bindR (to_int v) (\<lambda>i. Inr (Finite (of_int i)))), le_date = (\<lambda>v. None),
     le_instant = (\<lambda>i. Inr (i * 1000)), le_after = (\<lambda>i. Inr (i * 1000 + 1000)), le_ip = (\<lambda>v. None)\<rparr>"

definition sample_hit :: "(string, py) dict" where
  "sample_hit = [(''howler'', PDict [(''analytic'', PStr ''Matching Analytic''), (''score'', PInt 70)])]"

definition sample_query :: lucene where
  "sample_query = BoolOperation
     [Plus (SearchField ''howler.analytic'' (WordNode ''matching*'')),
      Plus (SearchField ''howler.score'' (RangeNode ''0'' ''70'' True True)),
      Prohibit (SearchField ''howler.status'' (WordNode ''resolved''))]"

theorem lucene_match_meaning_witness:
  "lucene_match plain_ext Some (\<lambda>q. Inr sample_query) ''q'' sample_hit"
proof -
  have flat: "flatten_deep sample_hit = Inr [(''howler.analytic'', PStr ''Matching Analytic''), (''howler.score'', PInt 70)]"
    by code_simp
  have "readable plain_ext [(''howler.analytic'', PStr ''Matching Analytic''), (''howler.score'', PInt 70)] None sample_query"
    by code_simp
  from lucene_match_meaning [OF _ _ flat this, of Some "''q''" "''q''" "\<lambda>q. Inr sample_query"]
  show ?thesis by code_simp
qed

text \<open>A field the hit does not have is compared as the text None.\<close>

lemma missing_field_is_none:
  "lucene_match plain_ext Some (\<lambda>q. Inr (SearchField ''howler.assignment'' (WordNode ''n*''))) ''q'' sample_hit"
  by code_simp

end
