(* ===== verification/Dossiers.thy ===== *)
theory Dossiers
  imports HitIntakeFacts HitTransition Actions Lucene OtherSchemas
begin

text \<open>
  \<^verbatim>\<open>services/dossier_service.py\<close>: creating and updating a dossier, with the checks of who may do it, and the
  dossiers whose query matches a hit. \<^verbatim>\<open>mergedeep.merge\<close> is a parameter, as are the normalization and the parser of
  a query. The state is the number of random ids drawn and the store.
\<close>

section \<open>Creating\<close>

record 'w dossier_env =
  de_dossiers :: "'w collection"
  de_hits :: "'w searcher"
  de_ext :: odm_ext
  de_merge :: "(string, py) dict \<Rightarrow> (string, py) dict \<Rightarrow> (string, py) dict"

definition PERMITTED_KEYS :: "string list" where
  "PERMITTED_KEYS = [''title'', ''query'', ''leads'', ''pivots'', ''type'', ''owner'']"

text \<open>The subclasses of \<^verbatim>\<open>HowlerException\<close>; \<^verbatim>\<open>SearchException\<close> is one of them and is caught first.\<close>

definition is_howler :: "exn_class \<Rightarrow> bool" where
  "is_howler c \<longleftrightarrow>
     c \<notin> {ENotImplemented, ETypeError, EKeyError, EIndexError, EStopIteration, EAttributeError, EValueError, ERecursion, EOther}"

definition as_invalid :: "(exn \<Rightarrow> exn option) \<Rightarrow> ('w, 'a) io \<Rightarrow> ('w, 'a) io" where
  "as_invalid f m = (\<lambda>w. case m w of
     (Inl e, w') \<Rightarrow> (Inl (case f e of Some e' \<Rightarrow> e' | None \<Rightarrow> e), w')
   | r \<Rightarrow> r)"

text \<open>\<^verbatim>\<open>storage.hit.search(query)\<close>, whose answer is thrown away.\<close>

definition default_search :: "py \<Rightarrow> search_request" where
  "default_search q = (plain_search [] PNone None)\<lparr>rq_query := q\<rparr>"

definition try_query :: "'w dossier_env \<Rightarrow> py \<Rightarrow> ('w, unit) io" where
  "try_query env q = thenM (search_docs (de_hits env) (default_search q)) (returnM ())"

definition duplicate_keys :: exn where
  "duplicate_keys = Exn EInvalidData ''One of your pivots has duplicate keys set.''"

definition mapping_keys :: "oval \<Rightarrow> oval list" where
  "mapping_keys pivot = map (\<lambda>m. o_get (o_obj m) ''key'') (o_list (o_get (o_obj pivot) ''mappings''))"

definition distinct_mappings :: "obj \<Rightarrow> bool" where
  "distinct_mappings ob \<longleftrightarrow> list_all (\<lambda>p. distinct (mapping_keys p)) (o_list (o_get ob ''pivots''))"

definition dossier_id :: "obj \<Rightarrow> string" where
  "dossier_id ob = o_string (o_get ob ''dossier_id'')"

definition dossier_doc :: "obj \<Rightarrow> doc" where
  "dossier_doc ob = map_of (as_primitives True Dossier_model ob)"

text \<open>\<^verbatim>\<open>dossier.owner = username\<close> checks the value.\<close>

definition with_owner :: "string \<Rightarrow> obj \<Rightarrow> obj result" where
  "with_owner usr ob = bindR (keyword_check False False PNone (PStr usr)) (\<lambda>v. Inr (dset ob ''owner'' v))"

definition build_dossier :: "'w dossier_env \<Rightarrow> (string, py) dict \<Rightarrow> (nat, obj) io" where
  "build_dossier env d = model_init (de_ext env) False Dossier_model (PDict d)"

definition save_dossier :: "'w dossier_env \<Rightarrow> string \<Rightarrow> obj \<Rightarrow> string option \<Rightarrow> (nat \<times> 'w, obj) io" where
  "save_dossier env k ob version =
     thenM (on_app (coll_save (de_dossiers env) k (dossier_doc ob) version)) (returnM ob)"

definition store_new_dossier :: "'w dossier_env \<Rightarrow> string \<Rightarrow> (string, py) dict \<Rightarrow> (nat \<times> 'w, obj) io" where
  "store_new_dossier env username d =
     bindM (case dget d ''query'' of Some q \<Rightarrow> if truthy q then on_app (try_query env q) else returnM () | None \<Rightarrow> returnM ()) (\<lambda>_.
     bindM (on_ids (build_dossier env (set_default d ''owner'' (PStr username)))) (\<lambda>ob.
     if \<not> distinct_mappings ob then raiseM duplicate_keys
     else bindM (liftM (with_owner username ob)) (\<lambda>ob'. save_dossier env (dossier_id ob') ob' None)))"

definition creation_failure :: "exn \<Rightarrow> exn option" where
  "creation_failure e =
     (if exn_class e = ESearch then Some (Exn EInvalidData ''You must use a valid query when creating a dossier.'')
      else if is_howler (exn_class e) then Some (Exn EInvalidData (exn_message e)) else None)"

definition must_specify :: "string \<Rightarrow> exn" where
  "must_specify k = Exn EInvalidData (''You must specify a '' @ k @ '' when creating a dossier.'')"

definition create_dossier :: "'w dossier_env \<Rightarrow> py \<Rightarrow> string \<Rightarrow> (nat \<times> 'w, obj) io" where
  "create_dossier env data username =
     (case data of
        PDict d \<Rightarrow>
          if \<not> dmem d ''title'' then raiseM (must_specify ''title'')
          else if \<not> dmem d ''query'' then raiseM (must_specify ''query'')
          else if \<not> dmem d ''type'' then raiseM (must_specify ''type'')
          else as_invalid creation_failure (store_new_dossier env username d)
      | _ \<Rightarrow> raiseM (Exn EInvalidData ''Invalid data format''))"

section \<open>Updating\<close>

definition is_admin :: "user \<Rightarrow> bool" where
  "is_admin u \<longleftrightarrow> ''admin'' \<in> set (u_type u)"

text \<open>The keys of the mappings a request gives a pivot: \<^verbatim>\<open>pivot.get("mappings") or []\<close>.\<close>

definition request_keys :: "py \<Rightarrow> py list result" where
  "request_keys pivot =
     bindR (py_get pivot ''mappings'' PNone) (\<lambda>ms.
     bindR (if truthy ms then py_iter ms else Inr []) (\<lambda>xs.
     bindR (mapR (\<lambda>m. py_get m ''key'' PNone) xs) (\<lambda>ks.
     if list_all hashable ks then Inr ks else Inl (Exn ETypeError ''unhashable type''))))"

fun check_pivots :: "py list \<Rightarrow> unit result" where
  "check_pivots [] = Inr ()"
| "check_pivots (p # ps) = bindR (request_keys p) (\<lambda>ks. if distinct ks then check_pivots ps else Inl duplicate_keys)"

definition dossier_text :: "doc \<Rightarrow> string \<Rightarrow> string" where
  "dossier_text d k = (case d k of Some (PStr s) \<Rightarrow> s | _ \<Rightarrow> [])"

text \<open>\<^verbatim>\<open>existing_dossier.as_primitives()\<close>, without the fields that are null\<close>

definition stored_primitives :: "doc \<Rightarrow> (string, py) dict" where
  "stored_primitives d =
     concat (map (\<lambda>k. case d k of None \<Rightarrow> [] | Some v \<Rightarrow> if v = PNone then [] else [(k, v)]) (map fst Dossier_model))"

definition update_failure :: "exn \<Rightarrow> exn option" where
  "update_failure e =
     (if exn_class e = ESearch then Some (Exn EInvalidData ''You must use a valid query when updating a dossier.'')
      else if is_howler (exn_class e) \<or> exn_class e = ETypeError then Some (Exn EInvalidData ''We were unable to update the dossier.'')
      else None)"

definition may_update :: "doc \<Rightarrow> user \<Rightarrow> unit result" where
  "may_update d usr =
     (let others = dossier_text d ''owner'' \<noteq> u_uname usr \<and> \<not> is_admin usr in
      if dossier_text d ''type'' = ''personal'' \<and> others
      then Inl (Exn EForbidden ''You cannot update a personal dossier that is not owned by you.'')
      else if dossier_text d ''type'' = ''global'' \<and> others
      then Inl (Exn EForbidden ''Only the owner of a dossier and administrators can edit a global dossier.'')
      else Inr ())"

definition store_changed_dossier ::
    "'w dossier_env \<Rightarrow> string \<Rightarrow> doc \<Rightarrow> string \<Rightarrow> (string, py) dict \<Rightarrow> (nat \<times> 'w, obj) io" where
  "store_changed_dossier env k d version data =
     bindM (case dget data ''query'' of Some q \<Rightarrow> on_app (try_query env q) | None \<Rightarrow> returnM ()) (\<lambda>_.
     bindM (on_ids (build_dossier env (de_merge env (stored_primitives d) data))) (\<lambda>ob.
     save_dossier env k ob (Some version)))"

definition update_dossier ::
    "'w dossier_env \<Rightarrow> string \<Rightarrow> (string, py) dict \<Rightarrow> user \<Rightarrow> (nat \<times> 'w, obj) io" where
  "update_dossier env k data usr =
     bindM (on_app (coll_exists (de_dossiers env) k)) (\<lambda>found.
     if \<not> found then raiseM (Exn ENotFound (''Dossier with id '' @ quoted k @ '' does not exist.''))
     else if \<not> list_all (\<lambda>n. n \<in> set PERMITTED_KEYS) (dkeys data)
     then raiseM (Exn EInvalidData (''Only '' @ py_join '', '' PERMITTED_KEYS @ '' can be updated.''))
     else
       bindM (on_app (get_if_exists (de_dossiers env) k True)) (\<lambda>(existing, version).
       case existing of
         None \<Rightarrow> raiseM (Exn EAttributeError ''NoneType object has no attribute type'')
       | Some d \<Rightarrow>
           bindM (liftM (may_update d usr)) (\<lambda>_.
           bindM (liftM (case dget data ''pivots'' of None \<Rightarrow> Inr () | Some v \<Rightarrow> bindR (py_iter v) check_pivots)) (\<lambda>_.
           as_invalid update_failure (store_changed_dossier env k d version data)))))"

section \<open>Matching\<close>

definition dossier_matches ::
    "lucene_ext \<Rightarrow> (string \<Rightarrow> string option) \<Rightarrow> (string \<Rightarrow> lucene result) \<Rightarrow> (string, py) dict \<Rightarrow> py \<Rightarrow> bool result" where
  "dossier_matches L validated parsed hit dossier =
     bindR (py_get dossier ''query'' PNone) (\<lambda>q.
     case q of
       PNone \<Rightarrow> Inr True
     | PStr s \<Rightarrow> Inr (lucene_match L validated parsed s hit)
     | _ \<Rightarrow> Inl (Exn EAttributeError ''object has no attribute encode''))"

definition get_matching_dossiers ::
    "lucene_ext \<Rightarrow> (string \<Rightarrow> string option) \<Rightarrow> (string \<Rightarrow> lucene result) \<Rightarrow> (string, py) dict \<Rightarrow> py list \<Rightarrow> py list result" where
  "get_matching_dossiers L validated parsed hit dossiers = filterR (dossier_matches L validated parsed hit) dossiers"

text \<open>Without a list, the dossiers are those the user may see, at most a thousand of them.\<close>

definition dossier_query :: "string option \<Rightarrow> string" where
  "dossier_query username = (if given username then ''type:global OR owner:'' @ the username else ''type:global'')"

definition raw_search :: "'w searcher \<Rightarrow> string \<Rightarrow> py \<Rightarrow> ('w, py list) io" where
  "raw_search S q rows =
     bindM (search_docs S ((plain_search q rows None)\<lparr>rq_as_obj := False\<rparr>)) (\<lambda>res.
     liftM (bindR (dict_index res ''items'') py_iter))"

definition find_matching_dossiers ::
    "lucene_ext \<Rightarrow> (string \<Rightarrow> string option) \<Rightarrow> (string \<Rightarrow> lucene result) \<Rightarrow> 'w searcher \<Rightarrow> (string, py) dict \<Rightarrow> string option \<Rightarrow>
     ('w, py list) io" where
  "find_matching_dossiers L validated parsed S hit username =
     bindM (raw_search S (dossier_query username) (PInt 1000)) (\<lambda>ds. liftM (get_matching_dossiers L validated parsed hit ds))"

section \<open>Who owns and who changes a dossier\<close>

lemma as_invalid_Inr: "as_invalid f m w = (Inr x, w') \<Longrightarrow> m w = (Inr x, w')"
  by (auto simp: as_invalid_def split: prod.splits sum.splits)

text \<open>
  A new dossier belongs to the user who created it. Whatever owner the request names, the dossier that
  \<^verbatim>\<open>create_dossier\<close> returns and stores has the user as its owner, and none of its pivots maps a key twice.
\<close>

lemma created_dossier_owned:
  assumes "create_dossier env data username w = (Inr ob, w')"
  shows "dget ob ''owner'' = Some (OStr username) \<and> distinct_mappings ob"
proof -
  obtain d where "store_new_dossier env username d w = (Inr ob, w')"
    using assms by (auto simp: create_dossier_def dest: as_invalid_Inr split: py.splits if_splits)
  then obtain ob0 where ob0: "distinct_mappings ob0" "with_owner username ob0 = Inr ob"
    by (auto simp: store_new_dossier_def save_dossier_def bindM_eq_Inr thenM_eq_Inr returnM_def raiseM_def liftM_def
        split: if_split_asm)
  then obtain v where v: "keyword_check False False PNone (PStr username) = Inr v" and ob: "ob = dset ob0 ''owner'' v"
    by (auto simp: with_owner_def bindR_eq_Inr)
  from v have "v = OStr username" by (auto simp: keyword_check_def split: if_splits)
  moreover have "distinct_mappings ob" using ob0(1) by (simp add: ob distinct_mappings_def o_get_def)
  ultimately show ?thesis by (simp add: ob)
qed

lemma check_may_update:
  assumes "dossier_text d ''type'' \<in> {''personal'', ''global''}" and "dossier_text d ''owner'' \<noteq> u_uname usr" and "\<not> is_admin usr"
  shows "\<exists>m. may_update d usr = Inl (Exn EForbidden m)"
  using assms by (auto simp: may_update_def Let_def)

text \<open>
  Only its owner and administrators change a dossier. On a collection that answers reads from what it stores,
  an update of a dossier of another owner by a user who is no administrator is refused with an error, whatever the
  request, and nothing is written.
\<close>

lemma foreign_dossier_refused:
  assumes "answers_exists (de_dossiers env) look" and "prompt_get (co_client (de_dossiers env)) look"
    and "0 < co_max_attempts (de_dossiers env)" and "look w k = Some h"
    and "Datastore.normalize (de_dossiers env) True (Some ((eh_source h)(''id'' := None))) = Inr (Some d)"
    and "dossier_text d ''type'' \<in> {''personal'', ''global''}" and "dossier_text d ''owner'' \<noteq> u_uname usr" and "\<not> is_admin usr"
  shows "\<exists>e w'. update_dossier env k data usr (n, w) = (Inl e, n, w') \<and> look w' = look w \<and>
    exn_class e \<in> {EInvalidData, EForbidden}"
proof -
  let ?c = "de_dossiers env"
  obtain w1 where ex: "coll_exists ?c k w = (Inr True, w1)" and l1: "look w1 = look w"
  proof -
    have "fst (coll_exists ?c k w) = Inr True" "look (snd (coll_exists ?c k w)) = look w"
      using assms(1,4) by (simp_all add: answers_exists_def)
    then show ?thesis using that by (metis prod.collapse)
  qed
  have here: "look w1 k = Some h" using assms(4) l1 by simp
  obtain w2 where "get_versioned ?c k RETRY_NONE w1 = (Inr (Some ((eh_source h)(''id'' := None)), hit_token ?c h), w2)"
    and l2: "look w2 = look w1"
    using prompt_get_versioned [OF assms(2,3) here] by metis
  then have got: "get_if_exists ?c k True w1 = (Inr (Some d, hit_token ?c h), w2)"
    using assms(5) by (simp add: get_if_exists_def)
  obtain m where "may_update d usr = Inl (Exn EForbidden m)" using check_may_update [OF assms(6-8)] by blast
  then show ?thesis
    using on_app_pair [of "coll_exists ?c k" w, OF ex, of n] on_app_pair [of "get_if_exists ?c k True" w1, OF got, of n] l1 l2
    by (simp add: update_dossier_def)
qed

end
