(* ===== verification/Analytics.thy ===== *)
theory Analytics
  imports Dossiers
begin

text \<open>
  \<^verbatim>\<open>save_from_hits\<close> of \<^verbatim>\<open>services/analytic_service.py\<close>: the hits that were created tell which analytics there are,
  what they detect and who works with them. The objects a search finds are a parameter. The state is the number of
  random ids drawn and the store.
\<close>

section \<open>One analytic\<close>

record 'w analytic_env =
  ae_coll :: "'w collection"
  ae_find :: "string \<Rightarrow> ('w, obj list) io"
  ae_ext :: odm_ext
  ae_engine :: engine
  ae_batch :: int
  ae_send :: "'w bulk_endpoint"

definition text_items :: "oval \<Rightarrow> string list" where
  "text_items v = map o_string (o_list v)"

definition claim_owner :: "user \<Rightarrow> obj \<Rightarrow> (obj \<times> bool) result" where
  "claim_owner usr a =
     (if given (o_text (o_get a ''owner'')) then Inr (a, False)
      else bindR (keyword_check True False PNone (PStr (u_uname usr))) (\<lambda>v. Inr (dset a ''owner'' v, True)))"

definition add_contributor :: "user \<Rightarrow> obj \<Rightarrow> (obj \<times> bool) result" where
  "add_contributor usr a =
     (if u_uname usr \<in> set (text_items (o_get a ''contributors'')) then Inr (a, False)
      else bindR (keyword_check False False PNone (PStr (u_uname usr))) (\<lambda>v.
           Inr (dset a ''contributors'' (OList (o_list (o_get a ''contributors'') @ [v])), True)))"

definition detections_of :: "obj list \<Rightarrow> string list" where
  "detections_of hits =
     filter (\<lambda>s. s \<noteq> []) (map (\<lambda>h. case o_text (section_get h ''howler'' ''detection'') of Some s \<Rightarrow> s | None \<Rightarrow> []) hits)"

text \<open>The detections of the hits replace those that differ from them in case only.\<close>

definition merge_detections :: "string list \<Rightarrow> string list \<Rightarrow> string list" where
  "merge_detections old new = sort (filter (\<lambda>d. py_lower d \<notin> set (map py_lower new)) old @ new)"

definition add_detections :: "obj list \<Rightarrow> obj \<Rightarrow> obj \<times> bool" where
  "add_detections hits a =
     (let old = text_items (o_get a ''detections''); new = detections_of hits; both = merge_detections old new in
      if new = [] \<or> both = old then (a, False) else (dset a ''detections'' (OList (map OStr both)), True))"

definition learn_from :: "obj list \<Rightarrow> user \<Rightarrow> obj \<Rightarrow> (obj \<times> bool) result" where
  "learn_from hits usr a =
     bindR (claim_owner usr a) (\<lambda>(a1, s1).
     bindR (add_contributor usr a1) (\<lambda>(a2, s2).
     let (a3, s3) = add_detections hits a2 in Inr (a3, s1 \<or> s2 \<or> s3)))"

definition new_analytic :: "string \<Rightarrow> obj list \<Rightarrow> user \<Rightarrow> (string, py) dict" where
  "new_analytic name hits usr =
     [(''name'', PStr name), (''owner'', PStr (u_uname usr)), (''contributors'', PList [PStr (u_uname usr)]),
      (''detections'', PList (map PStr (detections_of hits))),
      (''description'', PStr (''Placeholder Description - D'' @ [CHR 0xE9] @ ''faut Description'')),
      (''triage_settings'', PDict
         [(''valid_assessments'', PList (map PStr (enum_list Assessment))), (''skip_rationale'', PBool False)])]"

definition analytic_id :: "obj \<Rightarrow> string" where
  "analytic_id a = o_string (o_get a ''analytic_id'')"

text \<open>The first analytic found is kept; others with its name are deleted.\<close>

definition analytic_updates :: "'w analytic_env \<Rightarrow> string \<Rightarrow> obj list \<Rightarrow> user \<Rightarrow> (nat \<times> 'w, obj option) io" where
  "analytic_updates env name hits usr =
     bindM (on_app (ae_find env (''name:'' @ CHR 0x22 # sanitize_lucene_query name @ [CHR 0x22]))) (\<lambda>found.
     case found of
       a # others \<Rightarrow>
         bindM (liftM (learn_from hits usr a)) (\<lambda>(a', save).
         thenM (forM_io others (\<lambda>b. thenM (on_app (coll_delete (ae_coll env) (analytic_id b))) (returnM ())))
           (returnM (if save then Some a' else None)))
     | [] \<Rightarrow>
         bindM (on_ids (model_init (ae_ext env) False Analytic_model (PDict (new_analytic name hits usr)))) (\<lambda>a.
         returnM (Some a)))"

section \<open>All of them\<close>

definition group_hits :: "obj list \<Rightarrow> (string, obj list) dict" where
  "group_hits hits =
     foldl (\<lambda>d h. let k = o_string (section_get h ''howler'' ''analytic'') in
       dset d k ((case dget d k of Some hs \<Rightarrow> hs | None \<Rightarrow> []) @ [h])) [] hits"

definition queue_analytic :: "'w analytic_env \<Rightarrow> bulk_plan \<Rightarrow> obj \<Rightarrow> (nat, bulk_plan) io" where
  "queue_analytic env p a = add_index_operation (ae_ext env) (ae_engine env) (analytic_id a) (ModelDoc a) None p"

fun queue_analytics :: "'w analytic_env \<Rightarrow> bulk_plan \<Rightarrow> obj list \<Rightarrow> (nat, bulk_plan) io" where
  "queue_analytics env p [] = returnM p"
| "queue_analytics env p (a # as) = bindM (queue_analytic env p a) (\<lambda>p'. queue_analytics env p' as)"

definition save_from_hits :: "'w analytic_env \<Rightarrow> obj list \<Rightarrow> user \<Rightarrow> (nat \<times> 'w, unit) io" where
  "save_from_hits env hits usr =
     bindM (mapM_io (\<lambda>(name, hs). analytic_updates env name hs usr) (group_hits hits)) (\<lambda>updates.
     let changed = concat (map (\<lambda>u. case u of Some a \<Rightarrow> [a] | None \<Rightarrow> []) updates) in
     if changed = [] then returnM ()
     else
       bindM (on_ids (queue_analytics env (ElasticBulkPlan [index_name (ae_coll env)] (Some Analytic_model)) changed)) (\<lambda>p.
       thenM (on_app (coll_bulk (ae_batch env) (ae_coll env) (ae_send env) p)) (returnM ())))"

section \<open>What an analytic has learned\<close>

lemma o_string_str [simp]: "o_string (OStr s) = s"
  by (simp add: o_string_def o_text_def)

lemma text_items_strings [simp]: "text_items (OList (map OStr ss)) = ss"
  by (induction ss) (simp_all add: text_items_def o_list_def)

lemma text_items_append: "text_items (OList (o_list v @ [OStr s])) = text_items v @ [s]"
  by (simp add: text_items_def o_list_def)

lemma o_get_dset: "o_get (dset ob k v) k' = (if k' = k then v else o_get ob k')"
  by (simp add: o_get_def)

lemma set_merge_detections:
  "set (merge_detections old new) = set new \<union> {d \<in> set old. py_lower d \<notin> py_lower ` set new}"
  by (auto simp: merge_detections_def)


text \<open>Two hits of one detection put it into the list twice.\<close>

lemma detections_repeat:
  "merge_detections [] [''Beacon'', ''Beacon''] = [''Beacon'', ''Beacon'']"
  by code_simp

text \<open>Every hit is in the group of its analytic.\<close>

lemma group_hits_all:
  "(case dget (group_hits hits) k of Some hs \<Rightarrow> hs | None \<Rightarrow> []) =
     filter (\<lambda>h. o_string (section_get h ''howler'' ''analytic'') = k) hits"
  unfolding group_hits_def by (induction hits rule: rev_induct) (auto simp: Let_def split: option.splits)

section \<open>Example\<close>

definition sample_analytic :: obj where
  "sample_analytic =
     [(''analytic_id'', OStr ''a1''), (''owner'', ONone), (''contributors'', OList [OStr ''ann'']),
      (''detections'', OList [OStr ''beacon'', OStr ''Scan''])]"

definition beacon_hit :: obj where
  "beacon_hit = [(''howler'', OModel [(''analytic'', OStr ''Net''), (''detection'', OStr ''Beacon'')])]"


end
