(* ===== verification/HitMetadata.thy ===== *)
theory HitMetadata
  imports Dossiers
begin

text \<open>
  \<^verbatim>\<open>augment_metadata\<close> of \<^verbatim>\<open>services/hit_service.py\<close>, with \<^verbatim>\<open>template_service.py\<close>, \<^verbatim>\<open>overview_service.py\<close> and the search of
  \<^verbatim>\<open>analytic_service.py\<close>: the hits of an answer get the template, the overview and the analytic that fit them, and
  the dossiers whose query matches. The hits are dictionaries, changed in place in the code and returned here; an
  object a search finds is given by its primitives. What \<^verbatim>\<open>flatten_deep\<close> does to nested lists of the hit while a
  query is evaluated is left out.
\<close>

section \<open>Which candidate fits best\<close>

definition TYPE_PRIORITY :: "(py, int) dict" where
  "TYPE_PRIORITY = [(PStr ''personal'', 2), (PStr ''readonly'', 1), (PStr ''global'', 0), (PNone, 0)]"

definition type_priority :: "py \<Rightarrow> int result" where
  "type_priority v =
     (if \<not> hashable v then Inl (Exn ETypeError ''unhashable type'')
      else case dget TYPE_PRIORITY v of Some n \<Rightarrow> Inr n | None \<Rightarrow> Inl (Exn EKeyError (py_repr v)))"

definition compare_metadata :: "py \<Rightarrow> py \<Rightarrow> int result" where
  "compare_metadata a b =
     bindR (py_get a ''type'' PNone) (\<lambda>ta. bindR (py_get b ''type'' PNone) (\<lambda>tb.
     if ta \<noteq> tb
     then bindR (type_priority tb) (\<lambda>m. bindR (type_priority ta) (\<lambda>n. Inr (m - n)))
     else bindR (py_get a ''detection'' PNone) (\<lambda>da. bindR (py_get b ''detection'' PNone) (\<lambda>db.
          Inr (if truthy da \<and> \<not> truthy db then -1 else if \<not> truthy da \<and> truthy db then 1 else 0)))))"

definition lowered :: "py \<Rightarrow> string result" where
  "lowered v = (case v of PStr s \<Rightarrow> Inr (py_lower s) | _ \<Rightarrow> Inl (Exn EAttributeError ''object has no attribute lower''))"

definition fits :: "py \<Rightarrow> py \<Rightarrow> bool result" where
  "fits hit candidate =
     bindR (bindR (py_item candidate ''analytic'') lowered) (\<lambda>a.
     bindR (bindR (py_path hit [''howler'', ''analytic'']) lowered) (\<lambda>h.
     if a \<noteq> h then Inr False
     else bindR (py_get candidate ''detection'' PNone) (\<lambda>cd.
       if \<not> truthy cd then Inr True
       else bindR (bindR (py_item hit ''howler'') (\<lambda>s. py_get s ''detection'' PNone)) (\<lambda>hd.
         if \<not> truthy hd then Inr False
         else bindR (lowered hd) (\<lambda>x. bindR (lowered cd) (\<lambda>y. Inr (x = y)))))))"

text \<open>A stable sort by a comparison that may raise.\<close>

fun insert_by :: "('a \<Rightarrow> 'a \<Rightarrow> int result) \<Rightarrow> 'a \<Rightarrow> 'a list \<Rightarrow> 'a list result" where
  "insert_by cmp x [] = Inr [x]"
| "insert_by cmp x (y # ys) =
     bindR (cmp x y) (\<lambda>c. if c \<le> 0 then Inr (x # y # ys) else bindR (insert_by cmp x ys) (\<lambda>zs. Inr (y # zs)))"

fun sorted_by :: "('a \<Rightarrow> 'a \<Rightarrow> int result) \<Rightarrow> 'a list \<Rightarrow> 'a list result" where
  "sorted_by cmp [] = Inr []"
| "sorted_by cmp (x # xs) = bindR (sorted_by cmp xs) (insert_by cmp x)"

definition match_metadata :: "py list \<Rightarrow> py \<Rightarrow> py result" where
  "match_metadata candidates hit =
     bindR (filterR (fits hit) candidates) (\<lambda>cs.
     if cs = [] then Inr PNone else bindR (sorted_by compare_metadata cs) (\<lambda>ds. Inr (hd ds)))"

section \<open>Candidates\<close>

definition analytic_name :: "py \<Rightarrow> string result" where
  "analytic_name hit =
     bindR (py_path hit [''howler'', ''analytic'']) (\<lambda>v. bindR (text_of v) (\<lambda>s.
     Inr (CHR 0x22 # sanitize_lucene_query s @ [CHR 0x22])))"

text \<open>The set of names, in the order they first occur.\<close>

definition names_clause :: "py list \<Rightarrow> string result" where
  "names_clause hits = bindR (mapR analytic_name hits) (\<lambda>ns. Inr (''('' @ py_join '' OR '' (rev (remdups (rev ns))) @ '')''))"

text \<open>A search whose \<^verbatim>\<open>SearchException\<close> means that nothing was found.\<close>

definition or_nothing :: "('w, py list) io \<Rightarrow> ('w, py list) io" where
  "or_nothing m = (\<lambda>w. case m w of
     (Inl e, w') \<Rightarrow> if exn_class e = ESearch then (Inr [], w') else (Inl e, w')
   | r \<Rightarrow> r)"

definition object_search :: "'w searcher \<Rightarrow> string \<Rightarrow> ('w, py list) io" where
  "object_search S q =
     bindM (search_docs S (plain_search q PNone None)) (\<lambda>res. liftM (bindR (dict_index res ''items'') py_iter))"

definition get_matching_templates :: "'w searcher \<Rightarrow> py list \<Rightarrow> string option \<Rightarrow> ('w, py list) io" where
  "get_matching_templates S hits uname =
     (if hits = [] then returnM []
      else bindM (liftM (names_clause hits)) (\<lambda>ns.
        or_nothing (raw_search S (''analytic:'' @ ns @ '' AND (type:global OR owner:'' @
          (if given uname then the uname else ''*'') @ '')'') PNone)))"

definition get_matching_overviews :: "'w searcher \<Rightarrow> py list \<Rightarrow> ('w, py list) io" where
  "get_matching_overviews S hits =
     (if hits = [] then returnM []
      else bindM (liftM (names_clause hits)) (\<lambda>ns. or_nothing (raw_search S (''analytic:'' @ ns) PNone)))"

definition get_matching_analytics :: "'w searcher \<Rightarrow> py list \<Rightarrow> ('w, py list) io" where
  "get_matching_analytics S hits =
     (if hits = [] then returnM []
      else bindM (liftM (names_clause hits)) (\<lambda>ns. or_nothing (object_search S (''name:'' @ ns))))"

section \<open>Augmenting\<close>

record 'w metadata_env =
  me_templates :: "'w searcher"
  me_overviews :: "'w searcher"
  me_analytics :: "'w searcher"
  me_dossiers :: "'w searcher"
  me_lucene :: lucene_ext
  me_validated :: "string \<Rightarrow> string option"
  me_parsed :: "string \<Rightarrow> lucene result"

definition put :: "string \<Rightarrow> (py \<Rightarrow> py result) \<Rightarrow> py \<Rightarrow> py result" where
  "put k f hit =
     bindR (f hit) (\<lambda>v. case hit of PDict d \<Rightarrow> Inr (PDict (dset d k v)) | _ \<Rightarrow> Inl (Exn ETypeError ''object does not support item assignment''))"

definition put_all :: "string \<Rightarrow> (py \<Rightarrow> py result) \<Rightarrow> py list \<Rightarrow> py list result" where
  "put_all k f hits = mapR (put k f) hits"

fun find_R :: "('a \<Rightarrow> bool result) \<Rightarrow> 'a list \<Rightarrow> 'a option result" where
  "find_R f [] = Inr None"
| "find_R f (x # xs) = bindR (f x) (\<lambda>b. if b then Inr (Some x) else find_R f xs)"

definition match_analytic :: "py list \<Rightarrow> py \<Rightarrow> py result" where
  "match_analytic analytics hit =
     bindR (find_R (\<lambda>a. bindR (bindR (py_item a ''name'') lowered) (\<lambda>n.
              bindR (bindR (py_path hit [''howler'', ''analytic'']) lowered) (\<lambda>h. Inr (n = h)))) analytics)
       (\<lambda>found. Inr (case found of Some a \<Rightarrow> a | None \<Rightarrow> PNone))"

definition matching_dossiers :: "'w metadata_env \<Rightarrow> py list \<Rightarrow> py \<Rightarrow> py result" where
  "matching_dossiers env dossiers hit =
     (case hit of
        PDict d \<Rightarrow>
          bindR (get_matching_dossiers (me_lucene env) (me_validated env) (me_parsed env) d dossiers) (\<lambda>ds. Inr (PList ds))
      | _ \<Rightarrow> Inl (Exn EAttributeError ''object has no attribute items''))"

definition stage :: "bool \<Rightarrow> (py list \<Rightarrow> ('w, py list) io) \<Rightarrow> string \<Rightarrow> (py list \<Rightarrow> py \<Rightarrow> py result) \<Rightarrow> py list \<Rightarrow> ('w, py list) io" where
  "stage wanted search k f hits =
     (if \<not> wanted then returnM hits else bindM (search hits) (\<lambda>cs. liftM (put_all k (f cs) hits)))"

definition augmented :: "'w metadata_env \<Rightarrow> string list \<Rightarrow> user \<Rightarrow> py list \<Rightarrow> ('w, py list) io" where
  "augmented env metadata usr hits =
     bindM (stage (''template'' \<in> set metadata) (\<lambda>hs. get_matching_templates (me_templates env) hs (Some (u_uname usr)))
              ''__template'' match_metadata hits) (\<lambda>h1.
     bindM (stage (''overview'' \<in> set metadata) (get_matching_overviews (me_overviews env)) ''__overview'' match_metadata h1) (\<lambda>h2.
     bindM (stage (''analytic'' \<in> set metadata) (get_matching_analytics (me_analytics env)) ''__analytic'' match_analytic h2) (\<lambda>h3.
     stage (''dossiers'' \<in> set metadata)
       (\<lambda>_. raw_search (me_dossiers env) (''type:global OR owner:'' @ u_uname usr) (PInt 1000))
       ''__dossiers'' (matching_dossiers env) h3)))"

definition is_hit_entry :: "py \<Rightarrow> bool result" where
  "is_hit_entry v = bindR (py_get v ''__index'' (PStr ''hit'')) (\<lambda>i. Inr (i = PStr ''hit''))"

text \<open>The entries of the answer, with the augmented hits in the places of the hits.\<close>

fun put_back :: "(bool \<times> py) list \<Rightarrow> py list \<Rightarrow> py list" where
  "put_back ((True, x) # xs) (h # hs) = h # put_back xs hs"
| "put_back ((b, x) # xs) hs = x # put_back xs hs"
| "put_back [] hs = []"

definition augment_list :: "'w metadata_env \<Rightarrow> string list \<Rightarrow> user \<Rightarrow> py list \<Rightarrow> ('w, py list) io" where
  "augment_list env metadata usr xs =
     bindM (liftM (mapR is_hit_entry xs)) (\<lambda>bs.
     let hits = map snd (filter fst (zip bs xs)) in
     if hits = [] then returnM xs
     else bindM (augmented env metadata usr hits) (\<lambda>hs. returnM (put_back (zip bs xs) hs)))"

definition augment_metadata :: "'w metadata_env \<Rightarrow> py \<Rightarrow> string list \<Rightarrow> user \<Rightarrow> ('w, py) io" where
  "augment_metadata env data metadata usr =
     (case data of
        PList xs \<Rightarrow> bindM (augment_list env metadata usr xs) (\<lambda>ys. returnM (PList ys))
      | PNone \<Rightarrow> returnM PNone
      | v \<Rightarrow> bindM (augment_list env metadata usr [v]) (\<lambda>ys. returnM (hd ys)))"

section \<open>The best candidate is chosen\<close>

text \<open>The rank of a candidate: its type first, then whether it is about a detection.\<close>

definition metadata_rank :: "py \<Rightarrow> int" where
  "metadata_rank c =
     (case c of
        PDict d \<Rightarrow>
          2 * (case dget TYPE_PRIORITY (get_or d ''type'' PNone) of Some n \<Rightarrow> n | None \<Rightarrow> 0) +
          of_bool (truthy (get_or d ''detection'' PNone))
      | _ \<Rightarrow> 0)"

text \<open>The candidates of one search: templates all have a type, overviews have none.\<close>

definition uniform :: "py list \<Rightarrow> bool" where
  "uniform cs \<longleftrightarrow>
     list_all (\<lambda>c. case c of PDict d \<Rightarrow> get_or d ''type'' PNone \<in> {PStr ''personal'', PStr ''readonly'', PStr ''global''} | _ \<Rightarrow> False) cs \<or>
     list_all (\<lambda>c. case c of PDict d \<Rightarrow> get_or d ''type'' PNone = PNone | _ \<Rightarrow> False) cs"

definition orders :: "('a \<Rightarrow> 'a \<Rightarrow> int result) \<Rightarrow> ('a \<Rightarrow> int) \<Rightarrow> 'a list \<Rightarrow> bool" where
  "orders cmp rank xs \<longleftrightarrow> (\<forall>x\<in>set xs. \<forall>y\<in>set xs. \<exists>c. cmp x y = Inr c \<and> (c \<le> 0 \<longleftrightarrow> rank y \<le> rank x))"

lemma insert_by_orders:
  "orders cmp rank (x # xs) \<Longrightarrow> sorted (map (\<lambda>x. - rank x) xs) \<Longrightarrow>
   \<exists>ys. insert_by cmp x xs = Inr ys \<and> set ys = insert x (set xs) \<and> sorted (map (\<lambda>x. - rank x) ys)"
proof (induction xs)
  case (Cons y ys)
  obtain c where c: "cmp x y = Inr c" "c \<le> 0 \<longleftrightarrow> rank y \<le> rank x" using Cons.prems(1) by (auto simp: orders_def)
  have "orders cmp rank (x # ys)" using Cons.prems(1) by (auto simp: orders_def)
  with Cons obtain zs where "insert_by cmp x ys = Inr zs" "set zs = insert x (set ys)" "sorted (map (\<lambda>x. - rank x) zs)"
    by auto
  with c Cons.prems(2) show ?case by (cases "c \<le> 0") fastforce+
qed simp

lemma sorted_by_orders:
  "orders cmp rank xs \<Longrightarrow> \<exists>ys. sorted_by cmp xs = Inr ys \<and> set ys = set xs \<and> sorted (map (\<lambda>x. - rank x) ys)"
proof (induction xs)
  case (Cons x xs)
  have "orders cmp rank xs" using Cons.prems by (auto simp: orders_def)
  with Cons.IH obtain ys where ys: "sorted_by cmp xs = Inr ys" "set ys = set xs" "sorted (map (\<lambda>x. - rank x) ys)" by blast
  have "orders cmp rank (x # ys)" using Cons.prems ys(2) by (auto simp: orders_def)
  from insert_by_orders [OF this ys(3)] ys show ?case by auto
qed simp

lemma best_first:
  assumes "orders cmp rank xs" and "xs \<noteq> []"
  shows "\<exists>ys. sorted_by cmp xs = Inr ys \<and> hd ys \<in> set xs \<and> (\<forall>x\<in>set xs. rank x \<le> rank (hd ys))"
proof -
  obtain ys where ys: "sorted_by cmp xs = Inr ys" "set ys = set xs" "sorted (map (\<lambda>x. - rank x) ys)"
    using sorted_by_orders [OF assms(1)] by blast
  then obtain z zs where "ys = z # zs" using assms(2) by (cases ys) auto
  with ys show ?thesis by fastforce
qed

definition known_rank :: "py \<Rightarrow> int" where
  "known_rank t = (case dget TYPE_PRIORITY t of Some n \<Rightarrow> n | None \<Rightarrow> 0)"

lemma known_type:
  assumes "t \<in> {PStr ''personal'', PStr ''readonly'', PStr ''global''}"
  shows "type_priority t = Inr (known_rank t)"
proof -
  have "hashable t" using assms by auto
  moreover have "dget TYPE_PRIORITY t \<noteq> None" using assms by (auto simp: TYPE_PRIORITY_def)
  ultimately show ?thesis by (auto simp: type_priority_def known_rank_def)
qed

lemma known_rank_inj:
  assumes "t \<in> {PStr ''personal'', PStr ''readonly'', PStr ''global''}" "u \<in> {PStr ''personal'', PStr ''readonly'', PStr ''global''}"
  shows "known_rank t = known_rank u \<longleftrightarrow> t = u"
proof -
  have "known_rank (PStr ''personal'') = 2" "known_rank (PStr ''readonly'') = 1" "known_rank (PStr ''global'') = 0"
    by (code_simp, code_simp, code_simp)
  with assms show ?thesis by auto
qed

lemma compare_dicts:
  assumes "t = get_or d ''type'' PNone" "u = get_or e ''type'' PNone"
    and "t \<noteq> u \<Longrightarrow> type_priority t = Inr (known_rank t) \<and> type_priority u = Inr (known_rank u) \<and> known_rank t \<noteq> known_rank u"
  shows "\<exists>c. compare_metadata (PDict d) (PDict e) = Inr c \<and> (c \<le> 0 \<longleftrightarrow> metadata_rank (PDict e) \<le> metadata_rank (PDict d))"
proof -
  have rank: "metadata_rank (PDict x) = 2 * known_rank (get_or x ''type'' PNone) + of_bool (truthy (get_or x ''detection'' PNone))" for x
    by (simp add: metadata_rank_def known_rank_def)
  have get: "py_get (PDict x) k v = Inr (get_or x k v)" for x k v by (simp add: py_get_def get_or_def)
  show ?thesis
  proof (cases "t = u")
    case True
    then show ?thesis using assms(1,2) by (auto simp: compare_metadata_def get rank)
  next
    case False
    with assms have "compare_metadata (PDict d) (PDict e) = Inr (known_rank u - known_rank t)" "known_rank t \<noteq> known_rank u"
      by (simp_all add: compare_metadata_def get)
    then show ?thesis using assms(1,2) by (auto simp: rank)
  qed
qed

lemma compare_by_rank:
  assumes u: "uniform cs"
  shows "orders compare_metadata metadata_rank cs"
  unfolding orders_def
proof (intro ballI)
  fix a b assume ab: "a \<in> set cs" "b \<in> set cs"
  let ?known = "{PStr ''personal'', PStr ''readonly'', PStr ''global''}"
  from u consider
      "list_all (\<lambda>c. case c of PDict d \<Rightarrow> get_or d ''type'' PNone \<in> ?known | _ \<Rightarrow> False) cs"
    | "list_all (\<lambda>c. case c of PDict d \<Rightarrow> get_or d ''type'' PNone = PNone | _ \<Rightarrow> False) cs"
    unfolding uniform_def by blast
  then show "\<exists>c. compare_metadata a b = Inr c \<and> (c \<le> 0 \<longleftrightarrow> metadata_rank b \<le> metadata_rank a)"
  proof cases
    case 1
    with ab have "case a of PDict d \<Rightarrow> get_or d ''type'' PNone \<in> ?known | _ \<Rightarrow> False"
      "case b of PDict d \<Rightarrow> get_or d ''type'' PNone \<in> ?known | _ \<Rightarrow> False" by (simp_all only: list_all_iff)
    then obtain d e where de: "a = PDict d" "b = PDict e" "get_or d ''type'' PNone \<in> ?known" "get_or e ''type'' PNone \<in> ?known"
      by (cases a; cases b) (simp_all only: py.case)
    show ?thesis unfolding de(1,2)
      by (rule compare_dicts [OF refl refl]) (use known_type [OF de(3)] known_type [OF de(4)] known_rank_inj [OF de(3,4)] in blast)
  next
    case 2
    with ab have "case a of PDict d \<Rightarrow> get_or d ''type'' PNone = PNone | _ \<Rightarrow> False"
      "case b of PDict d \<Rightarrow> get_or d ''type'' PNone = PNone | _ \<Rightarrow> False" by (simp_all only: list_all_iff)
    then obtain d e where de: "a = PDict d" "b = PDict e" "get_or d ''type'' PNone = get_or e ''type'' PNone"
      by (cases a; cases b) simp_all
    show ?thesis unfolding de(1,2) by (rule compare_dicts [OF refl refl]) (simp add: de(3))
  qed
qed

lemma filterR_all: "filterR f xs = Inr ys \<Longrightarrow> x \<in> set xs \<Longrightarrow> \<exists>b. f x = Inr b"
  by (cases "f x") (auto dest!: filterR_raises)

lemma filterR_set: "filterR f xs = Inr ys \<Longrightarrow> x \<in> set ys \<longleftrightarrow> x \<in> set xs \<and> f x = Inr True"
  by (induction xs arbitrary: ys) (auto simp: bindR_eq_Inr split: if_splits)


text \<open>A search for candidates asks for the default number of rows, however many analytics the hits have.\<close>

lemma candidates_truncated:
  "dget (search_args S ((plain_search q PNone None)\<lparr>rq_as_obj := b\<rparr>)) ''rows'' = Some (PInt 25)"
  by (simp add: search_args_def plain_search_def or_default_def DEFAULT_ROW_SIZE_def)

end
