(* ===== verification/HitApi.thy ===== *)
theory HitApi
  imports HitIntakeFacts HitTransition ByQuery Analytics HitMetadata
begin

text \<open>
  \<^verbatim>\<open>api/v1/hit.py\<close>: the routes that create, read, change and delete hits, with the answers of \<^verbatim>\<open>api/__init__.py\<close> and
  the decorator \<^verbatim>\<open>add_etag\<close>. A route takes the request and the user, who has passed \<^verbatim>\<open>api_login\<close>; an exception it
  does not catch becomes the 500 of Flask's handler and is a raise here. The state is the number of random ids drawn
  and the application. \<^verbatim>\<open>mergedeep\<close>, \<^verbatim>\<open>difflib\<close> and the queue of the correlation are parameters; the bundle routes
  are not modelled.
\<close>

section \<open>Answers\<close>

datatype body = Json py | HitData "doc option"

record reply =
  ap_code :: nat
  ap_data :: body
  ap_error :: string
  ap_warnings :: "string list"
  ap_etag :: "string option"

definition make_api_response :: "body \<Rightarrow> string \<Rightarrow> string list \<Rightarrow> nat \<Rightarrow> reply" where
  "make_api_response data err warnings code =
     \<lparr>ap_code = code, ap_data = data, ap_error = err, ap_warnings = warnings, ap_etag = None\<rparr>"

definition DEFAULT_DATA :: "bool \<Rightarrow> body" where
  "DEFAULT_DATA b = Json (PDict [(''success'', PBool b)])"

definition ok_reply :: "body \<Rightarrow> reply" where "ok_reply data = make_api_response data [] [] 200"
definition created :: "body \<Rightarrow> string list \<Rightarrow> reply" where "created data ws = make_api_response data [] ws 201"
definition no_content :: reply where "no_content = make_api_response (DEFAULT_DATA True) [] [] 204"
definition not_modified :: reply where "not_modified = make_api_response (DEFAULT_DATA True) [] [] 304"
definition bad_request :: "string \<Rightarrow> reply" where "bad_request err = make_api_response (DEFAULT_DATA False) err [] 400"
definition forbidden :: "string \<Rightarrow> reply" where "forbidden err = make_api_response (DEFAULT_DATA False) err [] 403"
definition not_found :: "string \<Rightarrow> reply" where "not_found err = make_api_response (DEFAULT_DATA False) err [] 404"
definition conflict :: "string \<Rightarrow> reply" where "conflict err = make_api_response (DEFAULT_DATA False) err [] 409"
definition internal_error :: "string \<Rightarrow> reply" where "internal_error err = make_api_response (DEFAULT_DATA False) err [] 500"

section \<open>Requests\<close>

record web_request =
  wr_method :: string
  wr_json :: py
  wr_args :: "(string, string) dict"
  wr_if_match :: "string option"

definition true_arg :: "web_request \<Rightarrow> string \<Rightarrow> bool" where
  "true_arg rq k \<longleftrightarrow> (case dget (wr_args rq) k of None \<Rightarrow> False | Some v \<Rightarrow> py_lower v = ''true'')"

record 'w hit_env =
  he_hits :: "'w collection"
  he_fields :: "(string, field \<times> bool) dict"
  he_intake :: intake
  he_engine :: engine
  he_batch :: int
  he_send :: "'w bulk_endpoint"
  he_analytics :: "'w analytic_env"
  he_correlate :: "string list \<Rightarrow> ('w, unit) io"
  he_delete_refs :: "'w collection \<Rightarrow> string \<Rightarrow> odm_update list \<Rightarrow> ('w, unit) io"
  he_searcher :: "'w searcher"
  he_tasker :: "'w tasker"
  he_metadata :: "'w metadata_env"
  he_merge :: "bool \<Rightarrow> (string, py) dict \<Rightarrow> (string, py) dict \<Rightarrow> (string, py) dict"
  he_diff :: "string list \<Rightarrow> string list \<Rightarrow> string list"

text \<open>A route that manages hits sees the ids and the store only.\<close>

definition in_plain :: "(nat \<times> 'w, 'a) io \<Rightarrow> ('w intake_world, 'a) io" where
  "in_plain m = (\<lambda>(n, a). case m (n, app_store a) of (r, n', w) \<Rightarrow> (r, n', a\<lparr>app_store := w\<rparr>))"

definition in_db :: "('w, 'a) io \<Rightarrow> ('w intake_world, 'a) io" where
  "in_db m = on_app (on_store m)"

definition read_hit :: "'w hit_env \<Rightarrow> string \<Rightarrow> bool \<Rightarrow> ('w intake_world, doc option \<times> string) io" where
  "read_hit env k as_odm = on_app (get_hit (he_hits env) k as_odm)"

definition known_hit :: "'w hit_env \<Rightarrow> string \<Rightarrow> ('w intake_world, bool) io" where
  "known_hit env k = on_app (hit_exists (he_hits env) k)"

text \<open>What a route returns: a response, or a response with the version of what it changed.\<close>

datatype answer = Plain reply | Versioned reply "string option"

definition tagged :: "string option \<Rightarrow> reply \<Rightarrow> reply" where
  "tagged v r = (if ap_code r = 409 \<or> ap_code r = 400 then r else r\<lparr>ap_etag := v\<rparr>)"

text \<open>\<^verbatim>\<open>add_etag\<close>: the route gets the hit and its version, and the answer a tag.\<close>

definition add_etag ::
    "'w hit_env \<Rightarrow> bool \<Rightarrow> web_request \<Rightarrow> string \<Rightarrow> (doc option \<Rightarrow> string \<Rightarrow> ('w intake_world, answer) io) \<Rightarrow> ('w intake_world, reply) io" where
  "add_etag env check_if_match rq k route =
     bindM (read_hit env k True) (\<lambda>(obj, version).
     if check_if_match \<and> wr_if_match rq = Some version \<and> wr_method rq = ''GET'' \<and> \<not> dmem (wr_args rq) ''metadata''
     then returnM not_modified
     else bindM (route obj version) (\<lambda>a. returnM (case a of
            Plain r \<Rightarrow> tagged (Some version) r
          | Versioned r v \<Rightarrow> tagged v r)))"

definition hit_missing :: "string \<Rightarrow> reply" where
  "hit_missing k = not_found (''Hit '' @ k @ '' does not exist'')"

definition ok_hit :: "doc option \<times> string \<Rightarrow> answer" where
  "ok_hit dv = Versioned (ok_reply (HitData (fst dv))) (Some (snd dv))"

text \<open>The handlers at the end of a route: an exception becomes an answer, or goes on.\<close>

definition answering :: "(exn \<Rightarrow> reply option) \<Rightarrow> ('s, answer) io \<Rightarrow> ('s, answer) io" where
  "answering f m = (\<lambda>w. case m w of
     (Inl e, w') \<Rightarrow> (case f e of Some r \<Rightarrow> (Inr (Plain r), w') | None \<Rightarrow> (Inl e, w'))
   | r \<Rightarrow> r)"

definition bad_if :: "(exn_class \<Rightarrow> bool) \<Rightarrow> exn \<Rightarrow> reply option" where
  "bad_if p e = (if p (exn_class e) then Some (bad_request (exn_message e)) else None)"

section \<open>Creating and validating\<close>

definition convert_any :: "'w hit_env \<Rightarrow> py \<Rightarrow> bool \<Rightarrow> ('w intake_world, obj \<times> string list) io" where
  "convert_any env v ignore_extra =
     (case v of
        PDict d \<Rightarrow> convert_hit (he_intake env) (he_hits env) d True ignore_extra
      | _ \<Rightarrow> raiseM (Exn EAttributeError ''object has no attribute items''))"

text \<open>Each hit is converted, or the reason why it cannot be is kept.\<close>

datatype converted_input = Accepted obj "string list" | Refused py string

fun convert_each :: "'w hit_env \<Rightarrow> bool \<Rightarrow> py list \<Rightarrow> ('w intake_world, converted_input list) io" where
  "convert_each env ign [] = returnM []"
| "convert_each env ign (v # vs) =
     bindM (\<lambda>w. case convert_any env v ign w of
              (Inr (ob, ws), w') \<Rightarrow> (Inr (Accepted ob ws), w')
            | (Inl e, w') \<Rightarrow> if is_howler (exn_class e) then (Inr (Refused v (exn_message e)), w') else (Inl e, w')) (\<lambda>x.
     bindM (convert_each env ign vs) (\<lambda>xs. returnM (x # xs)))"

definition accepted_hits :: "converted_input list \<Rightarrow> (obj \<times> string list) list" where
  "accepted_hits xs = concat (map (\<lambda>x. case x of Accepted ob ws \<Rightarrow> [(ob, ws)] | Refused v m \<Rightarrow> []) xs)"

definition refused_hits :: "converted_input list \<Rightarrow> (py \<times> string) list" where
  "refused_hits xs = concat (map (\<lambda>x. case x of Accepted ob ws \<Rightarrow> [] | Refused v m \<Rightarrow> [(v, m)]) xs)"

definition invalid_entry :: "py \<times> string \<Rightarrow> py" where
  "invalid_entry vm = PDict [(''input'', fst vm), (''error'', PStr (snd vm))]"

definition hit_primitives :: "'w hit_env \<Rightarrow> obj \<Rightarrow> py" where
  "hit_primitives env ob = PDict (as_primitives True (in_model (he_intake env)) ob)"

definition same_event_id :: "obj \<Rightarrow> obj" where
  "same_event_id ob = (if o_get ob ''event'' = ONone then ob else section_set ob ''event'' ''id'' (section_get ob ''howler'' ''id''))"

definition store_created :: "'w hit_env \<Rightarrow> obj list \<Rightarrow> user \<Rightarrow> ('w intake_world, unit) io" where
  "store_created env obs usr =
     (if obs = [] then returnM ()
      else
        (let hits = map same_event_id obs; ids = map hit_id hits in
         thenM (HitIntake.create_hits (he_intake env) (he_engine env) (he_batch env) (he_hits env) (he_send env) hits (Some (u_uname usr)) False)
         (thenM (in_plain (save_from_hits (he_analytics env) hits usr))
         (thenM (on_app (enqueue_action ids ''create'' usr)) (in_db (he_correlate env ids))))))"

definition create_hits_route :: "'w hit_env \<Rightarrow> web_request \<Rightarrow> user \<Rightarrow> ('w intake_world, reply) io" where
  "create_hits_route env rq usr =
     (if wr_json rq = PNone then returnM (bad_request ''No hits were sent.'')
      else
        bindM (liftM (py_iter (wr_json rq))) (\<lambda>vs.
        bindM (convert_each env (true_arg rq ''ignore_extra_values'') vs) (\<lambda>xs.
        let good = accepted_hits xs; bad = refused_hits xs; warnings = concat (map snd good);
            body = [(''valid'', PList (map (hit_primitives env \<circ> fst) good)), (''invalid'', PList (map invalid_entry bad))] in
        if bad = []
        then thenM (store_created env (map fst good) usr)
               (returnM (created (Json (PDict (body @ [(''warnings'', PList (map PStr warnings))]))) warnings))
        else returnM (make_api_response (Json (PDict body)) (py_join '', '' (map snd bad)) warnings 400))))"

definition validate_hits_route :: "'w hit_env \<Rightarrow> web_request \<Rightarrow> ('w intake_world, reply) io" where
  "validate_hits_route env rq =
     (if wr_json rq = PNone then returnM (bad_request ''No hits were sent.'')
      else
        bindM (liftM (py_iter (wr_json rq))) (\<lambda>vs.
        bindM (convert_each env False vs) (\<lambda>xs.
        returnM (ok_reply (Json (PDict
          [(''valid'', PList (map snd (filter (\<lambda>(x, v). case x of Accepted ob ws \<Rightarrow> True | Refused w m \<Rightarrow> False) (zip xs vs)))),
           (''invalid'', PList (map invalid_entry (refused_hits xs)))]))))))"

section \<open>Deleting and reading\<close>

definition delete_hits_route :: "'w hit_env \<Rightarrow> web_request \<Rightarrow> user \<Rightarrow> ('w intake_world, reply) io" where
  "delete_hits_route env rq usr =
     (if wr_json rq = PNone then returnM (bad_request ''No hit ids were sent.'')
      else if \<not> is_admin usr then returnM (forbidden ''Cannot delete hit, only admin is allowed to delete'')
      else
        bindM (liftM (bindR (py_iter (wr_json rq)) (mapR text_of))) (\<lambda>ks.
        let ids = rev (remdups (rev ks)) in
        bindM (mapM_io (known_hit env) ids) (\<lambda>bs.
        let missing = map snd (filter (\<lambda>(b, k). \<not> b) (zip bs ids)) in
        if missing \<noteq> [] then returnM (not_found (''Hit id(s) '' @ py_join '', '' missing @ '' do not exist.''))
        else thenM (on_app (delete_hits (he_delete_refs env) (he_hits env) ids)) (returnM no_content))))"

definition flat_hit :: "'w hit_env \<Rightarrow> doc \<Rightarrow> (string, py) dict" where
  "flat_hit env d =
     concat (map (\<lambda>k. case d k of None \<Rightarrow> [] | Some v \<Rightarrow> if v = PNone then [] else [(k, v)]) (map fst (he_fields env)))"

definition get_hit_route :: "'w hit_env \<Rightarrow> web_request \<Rightarrow> string \<Rightarrow> user \<Rightarrow> ('w intake_world, reply) io" where
  "get_hit_route env rq k usr =
     add_etag env True rq k (\<lambda>hit version.
     case hit of
       None \<Rightarrow> returnM (Plain (hit_missing k))
     | Some d \<Rightarrow>
         (case dget (wr_args rq) ''metadata'' of
            None \<Rightarrow> returnM (Versioned (ok_reply (HitData (Some d))) (Some version))
          | Some m \<Rightarrow>
              bindM (liftM (unflatten (flat_hit env d))) (\<lambda>nested.
              bindM (in_db (augment_metadata (he_metadata env) (PDict nested) (split_char CHR '','' m) usr)) (\<lambda>v.
              returnM (Versioned (ok_reply (Json v)) (Some version))))))"

definition get_assigned_hits_route :: "'w hit_env \<Rightarrow> search_request \<Rightarrow> user \<Rightarrow> ('w intake_world, reply) io" where
  "get_assigned_hits_route env params usr =
     bindM (in_db (search_docs (he_searcher env)
       (params\<lparr>rq_query := PStr (''howler.assignment:'' @ sanitize_lucene_query (u_uname usr)), rq_as_obj := False\<rparr>))) (\<lambda>res.
     bindM (liftM (dict_index res ''items'')) (\<lambda>items. returnM (ok_reply (Json items))))"

section \<open>Overwriting and updating\<close>

text \<open>\<^verbatim>\<open>Hit(new_hit)\<close> as a document.\<close>

definition built_hit :: "'w hit_env \<Rightarrow> (string, py) dict \<Rightarrow> (nat, doc \<times> string) io" where
  "built_hit env d =
     bindM (hit_init (in_ext (he_intake env)) False (in_model (he_intake env)) d) (\<lambda>ob.
     returnM (map_of (flatten_with (Some (map fst (he_fields env))) None (as_primitives True (in_model (he_intake env)) ob)), hit_id ob))"

definition overwrite_hit_route :: "'w hit_env \<Rightarrow> web_request \<Rightarrow> string \<Rightarrow> ('w intake_world, reply) io" where
  "overwrite_hit_route env rq k =
     add_etag env False rq k (\<lambda>hit version.
     case (hit, wr_json rq) of
       (None, _) \<Rightarrow> returnM (Plain (hit_missing k))
     | (Some d, PDict new_fields) \<Rightarrow>
         answering (bad_if (\<lambda>c. c = EHowlerValue))
           (bindM (on_ids (built_hit env (he_merge env (true_arg rq ''replace'') (flat_hit env d) (flatten new_fields)))) (\<lambda>(new_doc, hid).
            bindM (on_app (save_hit (he_hits env) hid new_doc (Some version))) (\<lambda>dv. returnM (ok_hit dv))))
     | _ \<Rightarrow> returnM (Plain (bad_request ''The JSON payload must be a subset of a valid Hit object.'')))"

definition op_names :: "(string \<times> update_op) list" where
  "op_names =
     [(''APPEND'', UPDATE_APPEND), (''APPEND_IF_MISSING'', UPDATE_APPEND_IF_MISSING), (''DEC'', UPDATE_DEC), (''INC'', UPDATE_INC),
      (''MAX'', UPDATE_MAX), (''MIN'', UPDATE_MIN), (''REMOVE'', UPDATE_REMOVE), (''SET'', UPDATE_SET), (''DELETE'', UPDATE_DELETE)]"

text \<open>\<^verbatim>\<open>OdmUpdateOperation(operation, key, value)\<close>; a key that is None raises at its first use.\<close>

definition requested_update :: "bool \<Rightarrow> py \<Rightarrow> (odm_update \<times> string) result" where
  "requested_update silent v =
     bindR (py_iter v) (\<lambda>parts.
     case parts of
       [operation, key, value] \<Rightarrow>
         (case (case operation of PStr s \<Rightarrow> map_of op_names s | _ \<Rightarrow> None) of
            None \<Rightarrow> Inl (Exn EHowlerValue (''Operation '' @ py_str operation @ '' not found in ESCollection.UPDATE_OPERATIONS''))
          | Some operator \<Rightarrow>
              (case key of
                 PStr s \<Rightarrow> Inr (\<lparr>upd_op = operator, upd_key = s, upd_value = value, upd_explanation = None, upd_silent = silent\<rparr>,
                   ''- `'' @ py_str operation @ ''` - `'' @ s @ ''` - `'' @ json_dumps value @ ''`'')
               | PNone \<Rightarrow> Inl (Exn EAttributeError ''NoneType object has no attribute split'')
               | _ \<Rightarrow> Inl (Exn EHowlerType ''Key must be of type str'')))
     | _ \<Rightarrow> Inl (Exn EValueError ''wrong number of values to unpack''))"

definition requested_updates :: "bool \<Rightarrow> py \<Rightarrow> (odm_update list \<times> string list) result" where
  "requested_updates silent v =
     bindR (py_iter v) (\<lambda>xs. bindR (mapR (requested_update silent) xs) (\<lambda>ys. Inr (map fst ys, map snd ys)))"

definition updated_by :: "user \<Rightarrow> string list \<Rightarrow> string" where
  "updated_by usr explanation =
     ''Hit updated by '' @ u_uname usr @ [newline, newline] @ py_join [newline] explanation"

definition request_log :: "user \<Rightarrow> string \<Rightarrow> string list \<Rightarrow> odm_update" where
  "request_log usr version explanation =
     \<lparr>upd_op = UPDATE_APPEND, upd_key = ''howler.log'',
      upd_value = PDict
        [(''timestamp'', PStr ''NOW''), (''previous_version'', PStr version), (''key'', PStr ''howler.log''),
         (''explanation'', PStr (updated_by usr explanation)), (''new_value'', PStr ''N/A''), (''previous_value'', PStr ''None''),
         (''type'', PStr ''appended''), (''user'', PStr (u_uname usr))],
      upd_explanation = None, upd_silent = True\<rparr>"

definition update_hit_route :: "'w hit_env \<Rightarrow> web_request \<Rightarrow> string \<Rightarrow> user \<Rightarrow> ('w intake_world, reply) io" where
  "update_hit_route env rq k usr =
     add_etag env False rq k (\<lambda>hit version.
     case hit of
       None \<Rightarrow> returnM (Plain (hit_missing k))
     | Some d \<Rightarrow>
         answering (bad_if (\<lambda>c. c = EHowlerValue))
           (bindM (liftM (requested_updates True (wr_json rq))) (\<lambda>(ops, explanation).
            bindM (liftM (hit_index d ''howler.id'')) (\<lambda>hid.
            bindM (on_app (update_hit (he_hits env) (he_fields env) (py_str hid) (ops @ [request_log usr version explanation])
                     (Some (u_uname usr)) (Some version))) (\<lambda>dv.
            thenM (on_app (emit_hit (fst dv) (snd dv))) (returnM (ok_hit dv)))))))"

text \<open>The route that updates by query may go on for ever, as the update does.\<close>

definition update_by_query_route :: "'w hit_env \<Rightarrow> web_request \<Rightarrow> user \<Rightarrow> ('w, reply) loop" where
  "update_by_query_route env rq usr = (\<lambda>w.
     case bindL (once (liftM (bindR (py_item (wr_json rq) ''query'') (\<lambda>q. bindR (py_item (wr_json rq) ''operations'') (\<lambda>v.
            bindR (requested_updates False v) (\<lambda>(ops, explanation). Inr (py_str q, map op_triple ops, explanation)))))))
          (\<lambda>(q, ops, explanation).
            update_by_query (he_tasker env) q
              (ops @ [(UPDATE_APPEND, ''howler.log'', PDict
                 [(''timestamp'', PStr ''NOW''), (''explanation'', PStr (updated_by usr explanation)), (''user'', PStr (u_uname usr))])])
              [] PNone) w of
       None \<Rightarrow> None
     | Some (Inr _, w') \<Rightarrow> Some (Inr (ok_reply (DEFAULT_DATA True)), w')
     | Some (Inl e, w') \<Rightarrow>
         Some (Inr (if exn_class e \<in> {EHowlerValue, EKeyError, EHowlerKey, EDataStore} then bad_request (exn_message e)
                    else internal_error (exn_message e)), w'))"

section \<open>Labels\<close>

definition label_set_of :: "string \<Rightarrow> string" where
  "label_set_of s = ''howler.labels.'' @ s"

text \<open>\<^verbatim>\<open>label_data["value"]\<close>, which must be a list that is not empty; a text is the list of its characters.\<close>

definition posted_labels :: "py \<Rightarrow> (reply + py list) result" where
  "posted_labels v =
     (case v of
        PDict d \<Rightarrow>
          bindR (dict_index d ''value'') (\<lambda>x.
          if \<not> truthy x then Inr (Inl (bad_request ''Labels were not provided''))
          else bindR (py_iter x) (\<lambda>xs. if list_all hashable xs then Inr (Inr xs) else Inl (Exn ETypeError ''unhashable type'')))
      | _ \<Rightarrow> Inr (Inl (make_api_response (Json (PStr ''Invalid data format'')) [] [] 400)))"

definition change_labels ::
    "'w hit_env \<Rightarrow> string \<Rightarrow> odm_update list result \<Rightarrow> string \<Rightarrow> user \<Rightarrow> string \<Rightarrow> ('w intake_world, answer) io" where
  "change_labels env k ops trigger usr version =
     bindM (liftM ops) (\<lambda>us.
     bindM (on_app (update_hit (he_hits env) (he_fields env) k us (Some (u_uname usr)) (Some version))) (\<lambda>_.
     thenM (on_app (enqueue_action [k] trigger usr))
       (bindM (read_hit env k False) (\<lambda>dv. returnM (ok_hit dv)))))"

definition with_label_set ::
    "'w hit_env \<Rightarrow> web_request \<Rightarrow> string \<Rightarrow> string \<Rightarrow> (doc option \<Rightarrow> py list \<Rightarrow> ('w intake_world, answer) io) \<Rightarrow> ('w intake_world, answer) io" where
  "with_label_set env rq k label_set f =
     bindM (known_hit env k) (\<lambda>found.
     if \<not> found then returnM (Plain (hit_missing k))
     else
       bindM (read_hit env k True) (\<lambda>(existing, _).
       if existing = None then raiseM (Exn EAttributeError ''NoneType object has no attribute flat_fields'')
       else if label_set_of label_set \<notin> set (map fst (he_fields env))
       then returnM (Plain (not_found (''Label set '' @ label_set @ '' does not exist'')))
       else
         bindM (liftM (posted_labels (wr_json rq))) (\<lambda>x.
         case x of Inl r \<Rightarrow> returnM (Plain r) | Inr labels \<Rightarrow> f existing labels)))"

definition present_labels :: "doc option \<Rightarrow> string \<Rightarrow> py list" where
  "present_labels existing s =
     (case existing of Some d \<Rightarrow> (case d (label_set_of s) of Some (PList xs) \<Rightarrow> xs | _ \<Rightarrow> []) | None \<Rightarrow> [])"

definition add_label_route ::
    "'w hit_env \<Rightarrow> web_request \<Rightarrow> string \<Rightarrow> string \<Rightarrow> user \<Rightarrow> ('w intake_world, reply) io" where
  "add_label_route env rq k label_set usr =
     add_etag env False rq k (\<lambda>hit version.
     with_label_set env rq k label_set (\<lambda>existing labels.
     if \<not> list_all hashable labels then raiseM (Exn ETypeError ''unhashable type'')
     else if list_ex (\<lambda>l. l \<in> set (present_labels existing label_set)) labels
     then returnM (Plain (bad_request (''Cannot add duplicate labels: '' @
            py_join '', '' (map py_str (filter (\<lambda>l. l \<in> set (present_labels existing label_set)) labels)))))
     else
       change_labels env k (mapR (\<lambda>l. list_add hit_helper (label_set_of label_set) l None False False) labels)
         ''add_label'' usr version))"

definition remove_labels_route ::
    "'w hit_env \<Rightarrow> web_request \<Rightarrow> string \<Rightarrow> string \<Rightarrow> user \<Rightarrow> ('w intake_world, reply) io" where
  "remove_labels_route env rq k label_set usr =
     add_etag env False rq k (\<lambda>hit version.
     with_label_set env rq k label_set (\<lambda>existing labels.
       change_labels env k (mapR (\<lambda>l. list_remove hit_helper (label_set_of label_set) l None False) labels)
         ''remove_label'' usr version))"

section \<open>Transitions\<close>

text \<open>
  The hit a request claims: \<^verbatim>\<open>data\<close> goes to \<^verbatim>\<open>transition_hit\<close> as keyword arguments, so its key \<^verbatim>\<open>hit\<close> is the
  parameter \<^verbatim>\<open>hit\<close> of that function. The claimed dictionary is read by its dotted paths.
\<close>

fun py_path :: "py \<Rightarrow> string list \<Rightarrow> py option" where
  "py_path v [] = Some v"
| "py_path v (k # ks) = (case v of PDict d \<Rightarrow> (case dget d k of Some x \<Rightarrow> py_path x ks | None \<Rightarrow> None) | _ \<Rightarrow> None)"

definition claimed_hit :: "(string, py) dict \<Rightarrow> doc option" where
  "claimed_hit data =
     (case dget data ''hit'' of
        Some v \<Rightarrow> if truthy v then Some (\<lambda>k. py_path v (split_char CHR ''.'' k)) else None
      | None \<Rightarrow> None)"

text \<open>The names \<^verbatim>\<open>transition_hit\<close> and the workflow already pass: giving one again is a TypeError.\<close>

definition passed_names :: "string list" where
  "passed_names = [''id'', ''transition'', ''user'', ''version'', ''refresh'', ''cached_hit'', ''self'', ''current_status'']"

definition transition_data :: "(string, py) dict \<Rightarrow> (string, py) dict result" where
  "transition_data td =
     (case get_or td ''data'' (PDict []) of
        PDict d \<Rightarrow>
          (case find_first (\<lambda>k. k \<in> set passed_names) (dkeys d) of
             None \<Rightarrow> Inr d
           | Some k \<Rightarrow> Inl (Exn ETypeError (''got multiple values for argument '' @ quoted k)))
      | _ \<Rightarrow> Inl (Exn ETypeError ''argument after ** must be a mapping''))"

definition transition_failure :: "exn \<Rightarrow> reply option" where
  "transition_failure e =
     (if exn_class e \<in> {EWorkflow, EDataStore, EInvalidData} then Some (bad_request (exn_message e))
      else if exn_class e = EVersionConflict then Some (conflict (exn_message e))
      else if is_howler (exn_class e) then Some (internal_error (exn_message e))
      else None)"

definition supported_transitions :: "py list" where
  "supported_transitions =
     map (PStr \<circ> transition_value) all_transitions"

definition transition_route :: "'w hit_env \<Rightarrow> web_request \<Rightarrow> string \<Rightarrow> user \<Rightarrow> ('w intake_world, reply) io" where
  "transition_route env rq k usr =
     add_etag env True rq k (\<lambda>hit version.
     if hit = None then returnM (Plain (hit_missing k))
     else
       case wr_json rq of
         PDict td \<Rightarrow>
           bindM (liftM (dict_index td ''transition'')) (\<lambda>t.
           if t \<notin> set supported_transitions
           then returnM (Plain (bad_request (''Transition '' @ quoted (py_str t) @
                  '' not supported. Please use one of the following: '' @
                  py_str (PList supported_transitions))))
           else
             answering transition_failure
               (bindM (liftM (transition_data td)) (\<lambda>data.
                bindM (on_app (transition_hit (he_hits env) (he_fields env) k (py_str t) usr
                         (Some (case wr_if_match rq of Some v \<Rightarrow> v | None \<Rightarrow> version)) (claimed_hit data) (transition_kwargs data)))
                  (\<lambda>(d, v). returnM (Versioned (ok_reply (HitData d)) v)))))
       | _ \<Rightarrow> returnM (Plain (bad_request ''Invalid data format'')))"

section \<open>Comments\<close>

definition MAX_COMMENT_LEN :: nat where "MAX_COMMENT_LEN = 5000"

definition comment_key :: "string \<Rightarrow> py \<Rightarrow> py" where
  "comment_key k c = (case c of PDict d \<Rightarrow> get_or d k PNone | _ \<Rightarrow> PNone)"

definition hit_comments :: "doc \<Rightarrow> py list" where
  "hit_comments d = (case d ''howler.comment'' of Some (PList xs) \<Rightarrow> xs | _ \<Rightarrow> [])"

definition comment_of :: "doc \<Rightarrow> string \<Rightarrow> py option" where
  "comment_of d cid = find_first (\<lambda>c. comment_key ''id'' c = PStr cid) (hit_comments d)"

definition comment_missing :: "string \<Rightarrow> reply" where
  "comment_missing cid = not_found (''Comment '' @ cid @ '' does not exist'')"

definition get_comment_route :: "'w hit_env \<Rightarrow> web_request \<Rightarrow> string \<Rightarrow> string \<Rightarrow> ('w intake_world, reply) io" where
  "get_comment_route env rq k cid =
     add_etag env False rq k (\<lambda>hit version.
     case hit of
       None \<Rightarrow> returnM (Plain (hit_missing k))
     | Some d \<Rightarrow>
         (case comment_of d cid of
            None \<Rightarrow> returnM (Plain (comment_missing cid))
          | Some c \<Rightarrow> returnM (Versioned (ok_reply (Json c)) (Some version))))"

text \<open>The text of a comment in a request: not empty and not too long.\<close>

definition sized :: "py \<Rightarrow> nat result" where
  "sized v =
     (case v of
        PStr s \<Rightarrow> Inr (length s) | PList xs \<Rightarrow> Inr (length xs) | PDict d \<Rightarrow> Inr (length d)
      | _ \<Rightarrow> Inl (Exn ETypeError ''object has no len()''))"

definition posted_comment :: "py \<Rightarrow> (reply + py) result" where
  "posted_comment v =
     (case v of
        PDict d \<Rightarrow>
          (let x = get_or d ''value'' PNone in
           if \<not> truthy x then Inr (Inl (bad_request ''Value cannot be empty.''))
           else bindR (sized x) (\<lambda>n.
                Inr (if MAX_COMMENT_LEN < n then Inl (bad_request ''Comment is too long.'') else Inr x)))
      | _ \<Rightarrow> Inr (Inl (bad_request ''Invalid data format'')))"

definition lines_of :: "string \<Rightarrow> string" where
  "lines_of s = [newline, newline] @ s"

definition new_comment :: "'w hit_env \<Rightarrow> user \<Rightarrow> py \<Rightarrow> (nat, py) io" where
  "new_comment env usr x =
     bindM (model_init (in_ext (he_intake env)) False Comment_model (PDict [(''user'', PStr (u_uname usr)), (''value'', x)])) (\<lambda>ob.
     returnM (PDict (as_primitives True Comment_model ob)))"

definition data_store_failure :: "exn \<Rightarrow> reply option" where
  "data_store_failure e = bad_if (\<lambda>c. c = EDataStore) e"

definition add_comment_route :: "'w hit_env \<Rightarrow> web_request \<Rightarrow> string \<Rightarrow> user \<Rightarrow> ('w intake_world, reply) io" where
  "add_comment_route env rq k usr =
     add_etag env False rq k (\<lambda>hit version.
     bindM (liftM (posted_comment (wr_json rq))) (\<lambda>x.
     case x of
       Inl r \<Rightarrow> returnM (Plain r)
     | Inr value \<Rightarrow>
         if hit = None then returnM (Plain (hit_missing k))
         else
           bindM (answering data_store_failure
             (bindM (on_ids (new_comment env usr value)) (\<lambda>c.
              bindM (liftM (list_add hit_helper ''howler.comment'' c
                       (Some (''Added a comment:'' @ lines_of (py_str value))) False True)) (\<lambda>u.
              bindM (on_app (update_hit (he_hits env) (he_fields env) k [u] (Some (u_uname usr)) (Some version)))
                (\<lambda>dv. returnM (ok_hit dv)))))) (\<lambda>a.
           case a of
             Plain r \<Rightarrow> returnM (Plain r)
           | Versioned r v \<Rightarrow> bindM (read_hit env k False) (\<lambda>dv. returnM (ok_hit dv)))))"

definition edited_comment :: "py \<Rightarrow> py \<Rightarrow> py" where
  "edited_comment c value =
     (case c of PDict d \<Rightarrow> PDict (dset (dset d ''value'' value) ''modified'' (PStr ''NOW'')) | _ \<Rightarrow> c)"

text \<open>The lines of the unified diff, without its header lines; a new text that is no string has no \<^verbatim>\<open>split\<close>.\<close>

definition comment_diff :: "'w hit_env \<Rightarrow> py \<Rightarrow> py \<Rightarrow> string list result" where
  "comment_diff env old new =
     (case new of
        PStr s \<Rightarrow> Inr (filter (\<lambda>l. take 3 l \<notin> {''+++'', ''---'', ''@@ ''})
                     (he_diff env (split_char newline (py_str old)) (split_char newline s)))
      | _ \<Rightarrow> Inl (Exn EAttributeError ''object has no attribute split''))"

definition edit_operations :: "py \<Rightarrow> py \<Rightarrow> string list \<Rightarrow> odm_update list result" where
  "edit_operations c value diff =
     bindR (list_remove hit_helper ''howler.comment'' c None True) (\<lambda>u.
     bindR (list_add hit_helper ''howler.comment'' (edited_comment c value)
       (Some (''Edited a comment. Changes:'' @ lines_of (''````diff'' @ [newline] @ py_join [newline] diff @ [newline] @ ''````'')))
       False False) (\<lambda>v. Inr [u, v]))"

definition edit_comment_route ::
    "'w hit_env \<Rightarrow> web_request \<Rightarrow> string \<Rightarrow> string \<Rightarrow> user \<Rightarrow> ('w intake_world, reply) io" where
  "edit_comment_route env rq k cid usr =
     add_etag env False rq k (\<lambda>hit version.
     bindM (liftM (posted_comment (wr_json rq))) (\<lambda>x.
     case x of
       Inl r \<Rightarrow> returnM (Plain r)
     | Inr value \<Rightarrow>
         bindM (known_hit env k) (\<lambda>found.
         if \<not> found then returnM (Plain (hit_missing k))
         else
           case hit of
             None \<Rightarrow> raiseM (Exn EAttributeError ''NoneType object has no attribute howler'')
           | Some d \<Rightarrow>
               (case comment_of d cid of
                  None \<Rightarrow> returnM (Plain (comment_missing cid))
                | Some c \<Rightarrow>
                    if comment_key ''user'' c \<noteq> PStr (u_uname usr)
                    then returnM (Plain (forbidden (''Cannot edit comment that wasn'' @ [CHR 0x27] @ ''t made by you.'')))
                    else
                      bindM (liftM (bindR (comment_diff env (comment_key ''value'' c) value) (edit_operations c value))) (\<lambda>us.
                      bindM (on_app (update_hit (he_hits env) (he_fields env) k us (Some (u_uname usr)) (Some version)))
                        (\<lambda>dv. returnM (ok_hit dv)))))))"

text \<open>\<^verbatim>\<open>comment.id in comment_ids\<close>: a text contains the ids that occur in it.\<close>

definition names_comment :: "py \<Rightarrow> py list \<Rightarrow> py \<Rightarrow> bool" where
  "names_comment given_ids ids c \<longleftrightarrow>
     (case (given_ids, comment_key ''id'' c) of
        (PStr s, PStr i) \<Rightarrow> py_in i s
      | (_, i) \<Rightarrow> i \<in> set ids)"

definition first_missing :: "py list \<Rightarrow> py list \<Rightarrow> py result" where
  "first_missing ids cs =
     (case find_first (\<lambda>i. i \<notin> set (map (comment_key ''id'') cs)) ids of
        Some i \<Rightarrow> Inr i | None \<Rightarrow> Inl (Exn EStopIteration ''''))"

definition delete_comments_route :: "'w hit_env \<Rightarrow> web_request \<Rightarrow> string \<Rightarrow> user \<Rightarrow> ('w intake_world, reply) io" where
  "delete_comments_route env rq k usr =
     add_etag env False rq k (\<lambda>hit version.
     bindM (known_hit env k) (\<lambda>found.
     if \<not> found then returnM (Plain (hit_missing k))
     else
       bindM (liftM (if truthy (wr_json rq) then py_iter (wr_json rq) else Inr [])) (\<lambda>ids.
       if ids = [] then returnM (Plain (bad_request ''Supply at least one comment to delete.''))
       else
         case hit of
           None \<Rightarrow> raiseM (Exn EAttributeError ''NoneType object has no attribute howler'')
         | Some d \<Rightarrow>
             (let comments = filter (names_comment (wr_json rq) ids) (hit_comments d) in
              if \<not> is_admin usr \<and> list_ex (\<lambda>c. comment_key ''user'' c \<noteq> PStr (u_uname usr)) comments
              then returnM (Plain (forbidden ''You cannot delete the comment of someone else.''))
              else if length comments \<noteq> length ids
              then bindM (liftM (first_missing ids comments)) (\<lambda>i.
                   returnM (Plain (not_found (''Comment with id '' @ py_str i @ '' not found''))))
              else
                bindM (answering data_store_failure
                  (bindM (liftM (mapR (\<lambda>c. list_remove hit_helper ''howler.comment'' c (Some ''Deleted a comment'') False) comments)) (\<lambda>us.
                   bindM (on_app (update_hit (he_hits env) (he_fields env) k us (Some (u_uname usr)) (Some version)))
                     (\<lambda>dv. returnM (ok_hit dv))))) (\<lambda>a.
                case a of
                  Plain r \<Rightarrow> returnM (Plain r)
                | Versioned r v \<Rightarrow> bindM (read_hit env k False) (\<lambda>dv. returnM (ok_hit dv)))))))"

section \<open>Reactions\<close>

text \<open>
  A reaction is written on the object the decorator read, whose field checks the value, and the whole object is saved.
  A comment no one named is left as it is, so the answer is the same when there is none.
\<close>

definition reactions_field :: field where
  "reactions_field = (case map_of Comment_model ''reactions'' of Some f \<Rightarrow> f | None \<Rightarrow> plain KAny)"

definition set_reactions :: "'w hit_env \<Rightarrow> (string, py) dict \<Rightarrow> (string, py) dict \<Rightarrow> (nat, py) io" where
  "set_reactions env c rs =
     bindM (check_field (in_ext (he_intake env)) False reactions_field (PDict rs)) (\<lambda>v.
     returnM (PDict (dset c ''reactions'' (as_primitive True reactions_field v))))"

definition reactions_of :: "(string, py) dict \<Rightarrow> (string, py) dict" where
  "reactions_of c = (case get_or c ''reactions'' (PDict []) of PDict rs \<Rightarrow> rs | _ \<Rightarrow> [])"

definition react_with ::
    "'w hit_env \<Rightarrow> ((string, py) dict \<Rightarrow> (string, py) dict) \<Rightarrow> string \<Rightarrow> py \<Rightarrow> (nat, py) io" where
  "react_with env f cid c =
     (case c of
        PDict d \<Rightarrow> if comment_key ''id'' c = PStr cid then set_reactions env d (f (reactions_of d)) else returnM c
      | _ \<Rightarrow> returnM c)"

definition save_reactions ::
    "'w hit_env \<Rightarrow> ((string, py) dict \<Rightarrow> (string, py) dict) \<Rightarrow> string \<Rightarrow> doc \<Rightarrow> string \<Rightarrow> ('w intake_world, answer) io" where
  "save_reactions env f cid d version =
     bindM (on_ids (mapM_io (react_with env f cid) (hit_comments d))) (\<lambda>cs.
     bindM (liftM (hit_index d ''howler.id'')) (\<lambda>hid.
     bindM (on_app (save_hit (he_hits env) (py_str hid) (d(''howler.comment'' \<mapsto> PList cs)) (Some version))) (\<lambda>dv.
     returnM (ok_hit dv))))"

definition react_comment_route ::
    "'w hit_env \<Rightarrow> web_request \<Rightarrow> string \<Rightarrow> string \<Rightarrow> user \<Rightarrow> ('w intake_world, reply) io" where
  "react_comment_route env rq k cid usr =
     add_etag env False rq k (\<lambda>hit version.
     case wr_json rq of
       PDict r \<Rightarrow>
         (let x = get_or r ''type'' PNone in
          if \<not> truthy x then returnM (Plain (bad_request ''Type cannot be empty.''))
          else
            case hit of
              None \<Rightarrow> returnM (Plain (hit_missing k))
            | Some d \<Rightarrow> save_reactions env (\<lambda>rs. dset rs (u_uname usr) x) cid d version)
     | _ \<Rightarrow> returnM (Plain (bad_request ''Invalid data format'')))"

definition remove_react_comment_route ::
    "'w hit_env \<Rightarrow> web_request \<Rightarrow> string \<Rightarrow> string \<Rightarrow> user \<Rightarrow> ('w intake_world, reply) io" where
  "remove_react_comment_route env rq k cid usr =
     add_etag env False rq k (\<lambda>hit version.
     case hit of
       None \<Rightarrow> returnM (Plain (hit_missing k))
     | Some d \<Rightarrow> save_reactions env (\<lambda>rs. dpop rs (u_uname usr)) cid d version)"

end
