(* ===== verification/HitApiFacts.thy ===== *)
theory HitApiFacts
  imports HitApi
begin

text \<open>
  What the routes on hits may change: a batch with a hit that is refused is not written, a comment of somebody else is
  neither edited nor deleted, and a transition that carries a hit of its own is decided by that hit.
\<close>

section \<open>Requests that leave no trace\<close>

definition quiet_client :: "'w es_client \<Rightarrow> ('w \<Rightarrow> string \<Rightarrow> es_hit option) \<Rightarrow> bool" where
  "quiet_client cl look \<longleftrightarrow> quiet_reads cl look \<and> (\<forall>i k w. look (snd (es_exists cl i k w)) = look w)"

text \<open>No document, no event and no queued action is other than before.\<close>

definition same_app :: "('w \<Rightarrow> string \<Rightarrow> es_hit option) \<Rightarrow> 'w app \<Rightarrow> 'w app \<Rightarrow> bool" where
  "same_app look a a' \<longleftrightarrow>
     look (app_store a') = look (app_store a) \<and> app_events a' = app_events a \<and> app_actions a' = app_actions a"

definition unseen :: "('w \<Rightarrow> string \<Rightarrow> es_hit option) \<Rightarrow> ('w intake_world, 'a) io \<Rightarrow> bool" where
  "unseen look m \<longleftrightarrow> (\<forall>w. same_app look (snd w) (snd (snd (m w))))"

lemma same_app_refl [simp]: "same_app look a a"
  by (simp add: same_app_def)

lemma same_app_trans: "same_app look a b \<Longrightarrow> same_app look b c \<Longrightarrow> same_app look a c"
  by (simp add: same_app_def)

lemma unseenD: "unseen look m \<Longrightarrow> m (n, a) = (r, n', a') \<Longrightarrow> same_app look a a'"
  by (metis unseen_def snd_conv)

lemma unseen_basic [simp, intro]: "unseen look (returnM x)" "unseen look (raiseM e)" "unseen look (liftM q)" "unseen look (on_ids m)"
  "unseen look (Pair q)"
  by (simp_all add: unseen_def returnM_def raiseM_def liftM_def on_ids_def split: prod.splits)

lemma unseen_bind [intro]:
  assumes "unseen look m" and "\<And>x. unseen look (f x)"
  shows "unseen look (bindM m f)"
  unfolding unseen_def
proof
  fix w
  obtain r w1 where m: "m w = (r, w1)" by (metis surj_pair)
  with assms(1) have 1: "same_app look (snd w) (snd w1)" by (metis unseen_def snd_conv)
  show "same_app look (snd w) (snd (snd (bindM m f w)))"
  proof (cases r)
    case (Inl e)
    with m 1 show ?thesis by (simp add: bindM_def)
  next
    case (Inr x)
    with assms(2) [of x] have "same_app look (snd w1) (snd (snd (bindM m f w)))" by (cases w1) (simp add: bindM_def m unseen_def)
    with 1 show ?thesis by (rule same_app_trans)
  qed
qed

lemma unseen_if: "(b \<Longrightarrow> unseen look m) \<Longrightarrow> (\<not> b \<Longrightarrow> unseen look m') \<Longrightarrow> unseen look (if b then m else m')"
  by simp

lemma bind_lift [simp]: "bindM (liftM (Inr x)) f = f x"
  by (simp add: bindM_def liftM_def fun_eq_iff)

lemma unseen_store:
  assumes "\<And>w. look (snd (m w)) = look w"
  shows "unseen look (on_app (on_store m))"
  using assms by (auto simp: unseen_def same_app_def on_app_def on_store_def prod_eq_iff split: prod.splits)

lemma coll_exists_quiet:
  assumes "quiet_client (co_client c) look"
  shows "look (snd (coll_exists c key w)) = look w"
proof -
  have e: "look (snd (with_retries c False (es_exists (co_client c) (co_name c) key) w)) = look w"
    and s: "look (snd (with_retries c False (es_search_ids (co_client c) (co_name c) key) w)) = look w" for w
    by (rule with_retries_quiet; use assms in \<open>simp add: quiet_client_def quiet_reads_def\<close>)+
  have x: "look (snd (search_exists c key w)) = look w" for w
    using s [of w] by (auto simp: search_exists_def split: prod.splits sum.splits)
  show ?thesis
    using e [of w] x by (auto simp: coll_exists_def split: prod.splits sum.splits call_exc.splits es_exc.splits)
qed

lemma hit_reads_unseen:
  assumes "quiet_client (co_client (he_hits env)) look"
  shows "unseen look (known_hit env k)" "unseen look (read_hit env k b)" "unseen look (on_app (hit_exists (he_hits env) k))"
proof -
  have q: "quiet_reads (co_client (he_hits env)) look" using assms by (simp add: quiet_client_def)
  show "unseen look (known_hit env k)" "unseen look (on_app (hit_exists (he_hits env) k))"
    unfolding known_hit_def hit_exists_def by (rule unseen_store, rule coll_exists_quiet [OF assms])+
  show "unseen look (read_hit env k b)"
    unfolding read_hit_def get_hit_def by (rule unseen_store) (rule coll_get_quiet [OF q])
qed

section \<open>Creating\<close>

lemma convert_any_unseen:
  assumes "quiet_client (co_client (he_hits env)) look"
  shows "unseen look (convert_any env v ign)"
  unfolding convert_any_def convert_hit_def case_prod_unfold Let_def
  by (cases v) (auto intro!: unseen_bind hit_reads_unseen [OF assms])

lemma convert_each_unseen:
  assumes "quiet_client (co_client (he_hits env)) look"
  shows "unseen look (convert_each env ign vs)"
proof (induction vs)
  case (Cons v vs)
  have "unseen look (\<lambda>w. case convert_any env v ign w of
              (Inr (ob, ws), w') \<Rightarrow> (Inr (Accepted ob ws), w')
            | (Inl e, w') \<Rightarrow> if is_howler (exn_class e) then (Inr (Refused v (exn_message e)), w') else (Inl e, w'))"
    using convert_any_unseen [OF assms, of v ign]
    by (auto simp: unseen_def split: prod.split sum.split) (metis snd_conv)+
  with Cons.IH show ?case unfolding convert_each.simps by (intro unseen_bind unseen_basic)
next
  case Nil
  show ?case unfolding convert_each.simps by (rule unseen_basic)
qed


section \<open>The hit a route is given\<close>

lemma prompt_read_hit:
  assumes "prompt_get (co_client (he_hits env)) look" and "0 < co_max_attempts (he_hits env)"
    and "look (app_store a) k = Some h" and "normalize (he_hits env) True (Some ((eh_source h)(''id'' := None))) = Inr (Some d)"
  shows "\<exists>w1. read_hit env k True (n, a) = (Inr (Some d, hit_token (he_hits env) h), n, a\<lparr>app_store := w1\<rparr>) \<and>
    look w1 = look (app_store a)"
proof -
  obtain w1 where "get_versioned (he_hits env) k RETRY_NONE (app_store a) =
      (Inr (Some ((eh_source h)(''id'' := None)), hit_token (he_hits env) h), w1)" "look w1 = look (app_store a)"
    using prompt_get_versioned [OF assms(1-3), of RETRY_NONE] by blast
  with assms(4) show ?thesis
    by (intro exI [of _ w1]) (simp add: read_hit_def get_hit_def on_app_def on_store_def get_if_exists_def bindM_def)
qed

text \<open>A route that does not write when it is given the stored hit does not write.\<close>

lemma add_etag_unseen:
  assumes cl: "prompt_get (co_client (he_hits env)) look" "0 < co_max_attempts (he_hits env)"
    and hit: "look (app_store a) k = Some h" "normalize (he_hits env) True (Some ((eh_source h)(''id'' := None))) = Inr (Some d)"
    and route: "unseen look (route (Some d) (hit_token (he_hits env) h))"
  shows "same_app look a (snd (snd (add_etag env check rq k route (n, a))))"
proof -
  obtain w1 where w1: "read_hit env k True (n, a) = (Inr (Some d, hit_token (he_hits env) h), n, a\<lparr>app_store := w1\<rparr>)"
    "look w1 = look (app_store a)"
    using prompt_read_hit [OF cl hit] by blast
  have "same_app look a (a\<lparr>app_store := w1\<rparr>)" using w1(2) by (simp add: same_app_def)
  moreover let ?m = "if check \<and> wr_if_match rq = Some (hit_token (he_hits env) h) \<and> wr_method rq = ''GET'' \<and>
        \<not> dmem (wr_args rq) ''metadata'' then returnM not_modified
      else bindM (route (Some d) (hit_token (he_hits env) h)) (\<lambda>a. returnM (case a of
            Plain r \<Rightarrow> tagged (Some (hit_token (he_hits env) h)) r | Versioned r v \<Rightarrow> tagged v r))"
  have "unseen look ?m" by (intro unseen_if unseen_bind route unseen_basic)
  then have "same_app look (a\<lparr>app_store := w1\<rparr>) (snd (snd (?m (n, a\<lparr>app_store := w1\<rparr>))))"
    unfolding unseen_def by (metis snd_conv)
  moreover have "add_etag env check rq k route (n, a) = ?m (n, a\<lparr>app_store := w1\<rparr>)"
    by (simp only: add_etag_def bindM_def [of "read_hit env k True"] w1(1) prod.case sum.case)
  ultimately show ?thesis by (metis same_app_trans)
qed

section \<open>Comments\<close>


section \<open>Transitions\<close>

text \<open>
  C12: A claimed hit decides. When the data of a transition request carries a hit, its status and assignment are what the workflow looks at: if it lets
  the claimed hit take the transition, the stored hit is written, whatever status it has and whoever it is assigned to.
\<close>

theorem claimed_hit_decides:
  assumes cl: "prompt_update (co_client (he_hits env)) look painless" "prompt_get (co_client (he_hits env)) look"
      "quiet_reads (co_client (he_hits env)) look" "0 < co_max_attempts (he_hits env)" "co_ilm (he_hits env) \<longrightarrow> token_safe (eh_index h)"
    and hit: "look (app_store a) k = Some h" "normalize (he_hits env) True (Some ((eh_source h)(''id'' := None))) = Inr (Some d)"
    and rq: "wr_method rq = ''POST''" "wr_if_match rq = None" "wr_json rq = PDict td" "dget td ''transition'' = Some (PStr (transition_value t))"
      "transition_data td = Inr data"
    and claim: "claimed_hit data = Some claimed" "status_of claimed = Some s" "claimed ''howler.id'' = Some (PStr k)"
      "hit_run s t ((transition_kwargs data)\<lparr>kw_user := Some usr, kw_hit := claimed\<rparr>) = Inr us"
    and fin: "final_operations (he_fields env) d (Some (u_uname usr)) (hit_token (he_hits env) h) us = Inr ops"
    and ops: "validate_operations (he_hits env) (map op_triple ops) = Inr ops'" "runs_script painless ops'"
      "apply_ops (eh_source h) ops' = Some d'"
    and run: "transition_route env rq k usr (n, a) = (r, n', a')"
  shows "\<exists>m. eh_seq_no h < m \<and> look (app_store a') = (look (app_store a))(k \<mapsto> written h m d')"
proof -
  obtain w1 where w1: "read_hit env k True (n, a) = (Inr (Some d, hit_token (he_hits env) h), n, a\<lparr>app_store := w1\<rparr>)"
    "look w1 = look (app_store a)"
    using prompt_read_hit [OF cl(2,4) hit] by blast
  obtain q a1 where tr: "transition_hit (he_hits env) (he_fields env) k (transition_value t) usr (Some (hit_token (he_hits env) h))
      (Some claimed) (transition_kwargs data) (a\<lparr>app_store := w1\<rparr>) = (q, a1)"
    by (metis surj_pair)
  have h1: "look (app_store (a\<lparr>app_store := w1\<rparr>)) k = Some h" using w1(2) hit(1) by simp
  have "PStr (transition_value t) \<in> set supported_transitions"
    by (simp add: supported_transitions_def)
  with run have "a' = a1"
    by (auto simp: transition_route_def add_etag_def bindM_def w1(1) rq claim(1) dict_index_def liftM_def answering_def
        on_app_def tr returnM_def split: sum.splits prod.splits option.splits)
  with claimed_transition_stored [OF cl h1 claim(2,3,4) hit(2) fin ops _ tr] w1(2) show ?thesis by simp
qed

end
