(* ===== verification/MetadataExamples.thy ===== *)
theory MetadataExamples
  imports HitMetadata HitIntakeExamples
begin

text \<open>
  A dossier that claims another owner, a user who changes the dossier of another, and templates that compete
  for a hit.
\<close>

section \<open>Instances\<close>

definition silent_searcher :: "(string \<Rightarrow> es_hit option) searcher" where
  "silent_searcher =
     \<lparr>se_coll = mem_collection (\<lambda>s d. None), se_model = None, se_stored = [], se_mappings = [],
      se_search = (\<lambda>p b w. (Inl (EsBadRequest ''no parser''), w)), se_scroll = (\<lambda>i t w. (Inl (EsBadRequest ''no parser''), w)),
      se_clear_scroll = (\<lambda>is w. (Inr PNone, w)), se_count = (\<lambda>b w. (Inl (EsBadRequest ''no parser''), w)),
      se_settings = (\<lambda>w. (Inr ([], [], []), w)), se_object = (\<lambda>v fs k d. Inr v), se_stamp = (\<lambda>s. None)\<rparr>"

definition dossier_sample :: "(string \<Rightarrow> es_hit option) dossier_env" where
  "dossier_sample =
     \<lparr>de_dossiers = mem_collection (\<lambda>s d. None), de_hits = silent_searcher, de_ext = sample_ext,
      de_merge = (\<lambda>d e. foldl (\<lambda>x kv. dset x (fst kv) (snd kv)) d e)\<rparr>"

definition claimed_dossier :: py where
  "claimed_dossier =
     PDict [(''title'', PStr ''Phishing''), (''query'', PNone), (''type'', PStr ''personal''), (''owner'', PStr ''mallory'')]"

definition dossier_created :: bool where
  "dossier_created =
     (case create_dossier dossier_sample claimed_dossier ''ann'' (5, Map.empty) of (Inr ob, w) \<Rightarrow> True | _ \<Rightarrow> False)"

lemma dossier_created: dossier_created
  by code_simp

lemma created_dossier_owned_witness:
  "\<exists>ob w. create_dossier dossier_sample claimed_dossier ''ann'' (5, Map.empty) = (Inr ob, w) \<and> dget ob ''owner'' = Some (OStr ''ann'')"
proof -
  obtain ob w where run: "create_dossier dossier_sample claimed_dossier ''ann'' (5, Map.empty) = (Inr ob, w)"
    using dossier_created by (auto simp: dossier_created_def split: prod.split_asm sum.split_asm)
  from created_dossier_owned [OF this] run show ?thesis by blast
qed

definition ann_dossier :: es_hit where
  "ann_dossier =
     \<lparr>eh_index = ''howler-dossier'', eh_seq_no = 1, eh_primary_term = 1,
      eh_source = [''type'' \<mapsto> PStr ''personal'', ''owner'' \<mapsto> PStr ''ann'', ''title'' \<mapsto> PStr ''Phishing'']\<rparr>"

theorem foreign_dossier_refused_witness:
  "\<exists>e w'. update_dossier dossier_sample ''d1'' [(''owner'', PStr ''bob'')]
     \<lparr>u_uname = ''bob'', u_type = [''user''], u_classification = ''TLP:W''\<rparr> (0, [''d1'' \<mapsto> ann_dossier]) = (Inl e, 0, w') \<and>
     w' = [''d1'' \<mapsto> ann_dossier]"
proof -
  let ?u = "\<lparr>u_uname = ''bob'', u_type = [''user''], u_classification = ''TLP:W''\<rparr>"
  have c: "de_dossiers dossier_sample = mem_collection (\<lambda>s d. None)" by (simp add: dossier_sample_def)
  have p: "prompt_get (co_client (de_dossiers dossier_sample)) (\<lambda>w. w)" by (simp add: c mem_collection_def mem_prompt_get)
  have a: "0 < co_max_attempts (de_dossiers dossier_sample)" by (simp add: c mem_collection_def)
  let ?d = "\<lambda>k. if k \<in> set BANNED_FIELDS then None else ((eh_source ann_dossier)(''id'' := None)) k"
  have n: "Datastore.normalize (de_dossiers dossier_sample) True (Some ((eh_source ann_dossier)(''id'' := None))) = Inr (Some ?d)"
    by (simp add: c Datastore.normalize_def mem_collection_def)
  have t: "dossier_text ?d ''type'' \<in> {''personal'', ''global''}" and o: "dossier_text ?d ''owner'' \<noteq> u_uname ?u" and na: "\<not> is_admin ?u"
    by (code_simp, code_simp, code_simp)
  from foreign_dossier_refused [OF mem_answers [of "\<lambda>s d. None", folded c] p a _ n t o na, of "[''d1'' \<mapsto> ann_dossier]" "''d1''"]
  show ?thesis by fastforce
qed

section \<open>Templates\<close>

definition templates :: "py list" where
  "templates =
     [PDict [(''name'', PStr ''t1''), (''analytic'', PStr ''Net''), (''type'', PStr ''global''), (''detection'', PStr ''Beacon'')],
      PDict [(''name'', PStr ''t2''), (''analytic'', PStr ''net''), (''type'', PStr ''personal'')],
      PDict [(''name'', PStr ''t3''), (''analytic'', PStr ''Other''), (''type'', PStr ''personal'')]]"

definition templated_hit :: py where
  "templated_hit = PDict [(''howler'', PDict [(''analytic'', PStr ''Net''), (''detection'', PStr ''beacon'')])]"

lemma templates_chosen:
  "match_metadata templates templated_hit = Inr (templates ! 1)" "uniform templates" "templates ! 1 \<noteq> PNone"
  by code_simp+


end
