(* ===== verification/HitApiExamples.thy ===== *)
theory HitApiExamples
  imports HitApiFacts MetadataExamples ClassText
begin

text \<open>
  The routes on the store of documents in memory: a batch of which one hit cannot be converted, a comment of another
  user, and a resolved hit that a request claims to be in progress.
\<close>

section \<open>The environment\<close>

definition sample_hit_env :: "(es_script \<Rightarrow> doc \<Rightarrow> doc option) \<Rightarrow> (string \<Rightarrow> es_hit option) hit_env" where
  "sample_hit_env painless =
     \<lparr>he_hits = mem_collection painless, he_fields = hit_flat_fields, he_intake = intake_sample, he_engine = sample_engine,
      he_batch = 500, he_send = (\<lambda>ops w. (Inr False, w)),
      he_analytics = \<lparr>ae_coll = mem_collection painless, ae_find = (\<lambda>k w. (Inr [], w)), ae_ext = sample_ext,
        ae_engine = sample_engine, ae_batch = 500, ae_send = (\<lambda>ops w. (Inr False, w))\<rparr>,
      he_correlate = (\<lambda>ks w. (Inr (), w)), he_delete_refs = (\<lambda>c q us w. (Inr (), w)), he_searcher = silent_searcher,
      he_tasker = \<lparr>tk_searcher = silent_searcher, tk_update = (\<lambda>s b w. (Inl (EsBadRequest ''no task''), w)),
        tk_delete = (\<lambda>q s w. (Inl (EsBadRequest ''no task''), w)), tk_task = (\<lambda>t w. (Inl (EsBadRequest ''no task''), w))\<rparr>,
      he_metadata = \<lparr>me_templates = silent_searcher, me_overviews = silent_searcher, me_analytics = silent_searcher,
        me_dossiers = silent_searcher, me_lucene = plain_ext, me_validated = Some, me_parsed = (\<lambda>q. Inr sample_query)\<rparr>,
      he_merge = (\<lambda>b d e. foldl (\<lambda>x kv. dset x (fst kv) (snd kv)) d e), he_diff = (\<lambda>xs ys. [])\<rparr>"

lemma sample_hit_env_simps [simp]:
  "he_hits (sample_hit_env p) = mem_collection p" "he_fields (sample_hit_env p) = hit_flat_fields"
  "he_intake (sample_hit_env p) = intake_sample"
  by (simp_all add: sample_hit_env_def)

lemma mem_quiet_client: "quiet_client (mem_client p) (\<lambda>w. w)"
  using mem_quiet [of p] by (simp add: quiet_client_def mem_client_def)

lemma mem_normalize:
  "Datastore.normalize (mem_collection p) True (Some (d(''id'' := None))) = Inr (Some (visible d))"
  by (auto simp: Datastore.normalize_def visible_def fun_eq_iff)

section \<open>A batch with a hit that is refused\<close>

definition two_hits :: web_request where
  "two_hits = \<lparr>wr_method = ''POST'', wr_json = PList [PDict arriving, PDict []], wr_args = [], wr_if_match = None\<rparr>"

definition second_refused :: bool where
  "second_refused =
     (case converted intake_sample False [] 3 of (Inl e, n) \<Rightarrow> is_howler (exn_class e) | _ \<Rightarrow> False)"

lemma second_refused: second_refused
  by code_simp


section \<open>The comment of another user\<close>

definition remark :: py where
  "remark = PDict [(''id'', PStr ''c1''), (''user'', PStr ''bob''), (''value'', PStr ''seen before'')]"

definition remarked_hit :: doc where
  "remarked_hit = new_hit(''howler.comment'' \<mapsto> PList [remark])"

definition remarked_store :: "(string \<Rightarrow> es_hit option) app" where
  "remarked_store = \<lparr>app_store = [''h1'' \<mapsto> stored_hit\<lparr>eh_source := remarked_hit\<rparr>], app_events = [], app_actions = []\<rparr>"

definition edit_request :: web_request where
  "edit_request = \<lparr>wr_method = ''PUT'', wr_json = PDict [(''value'', PStr ''benign'')], wr_args = [], wr_if_match = None\<rparr>"

definition delete_request :: web_request where
  "delete_request = \<lparr>wr_method = ''DELETE'', wr_json = PList [PStr ''c1''], wr_args = [], wr_if_match = None\<rparr>"


section \<open>A resolved hit is paused\<close>

text \<open>Bob resolved the hit; Ana's request says that it is in progress and hers.\<close>

definition resolved_hit :: doc where
  "resolved_hit = new_hit(''howler.status'' \<mapsto> PStr (status_value RESOLVED), ''howler.assignment'' \<mapsto> PStr ''bob'',
     ''howler.assessment'' \<mapsto> PStr ''recon'')"

definition resolved_stored :: es_hit where
  "resolved_stored = stored_hit\<lparr>eh_source := resolved_hit\<rparr>"

definition resolved_app :: "(string \<Rightarrow> es_hit option) app" where
  "resolved_app = \<lparr>app_store = [''h1'' \<mapsto> resolved_stored], app_events = [], app_actions = []\<rparr>"

definition pause_data :: "(string, py) dict" where
  "pause_data = [(''hit'', PDict [(''howler'', PDict [(''id'', PStr ''h1''), (''status'', PStr ''in-progress''), (''assignment'', PStr ''ana'')])])]"

definition pause_request :: web_request where
  "pause_request = \<lparr>wr_method = ''POST'', wr_json = PDict [(''transition'', PStr ''pause''), (''data'', PDict pause_data)],
     wr_args = [], wr_if_match = None\<rparr>"

definition pause_ops :: "odm_update list" where
  "pause_ops = [status_op ON_HOLD, append_log (log_entry (Some ''ana'') (hit_token (mem_collection (\<lambda>s d. Some d)) resolved_stored)
     (status_op ON_HOLD) False (PStr (status_value RESOLVED)))]"

abbreviation pause_script :: "es_script \<Rightarrow> doc \<Rightarrow> doc option" where
  "pause_script \<equiv> \<lambda>s d. apply_ops d (map op_triple pause_ops)"

lemma pause_applies: "\<exists>d'. apply_ops resolved_hit (map op_triple pause_ops) = Some d' \<and> d' ''howler.status'' = Some (PStr ''on-hold'')"
  by (simp add: pause_ops_def op_triple_def resolved_hit_def doc_get_def new_hit_def vote_key_def)

lemma pause_claim:
  "transition_data [(''transition'', PStr ''pause''), (''data'', PDict pause_data)] = Inr pause_data"
  "\<exists>cl. claimed_hit pause_data = Some cl \<and> status_of cl = Some IN_PROGRESS \<and> cl ''howler.id'' = Some (PStr ''h1'') \<and>
     cl ''howler.assignment'' = Some (PStr ''ana'')"
proof -
  have "split_char CHR ''.'' ''howler.status'' = [''howler'', ''status'']"
    "split_char CHR ''.'' ''howler.id'' = [''howler'', ''id'']"
    "split_char CHR ''.'' ''howler.assignment'' = [''howler'', ''assignment'']"
    by (code_simp, code_simp, code_simp)
  then show "\<exists>cl. claimed_hit pause_data = Some cl \<and> status_of cl = Some IN_PROGRESS \<and> cl ''howler.id'' = Some (PStr ''h1'') \<and>
     cl ''howler.assignment'' = Some (PStr ''ana'')"
    by (simp add: claimed_hit_def pause_data_def status_of_Some)
qed code_simp

lemma pause_run:
  assumes "cl ''howler.assignment'' = Some (PStr ''ana'')"
  shows "hit_run IN_PROGRESS PAUSE (kw\<lparr>kw_user := Some ana, kw_hit := cl\<rparr>) = Inr [status_op ON_HOLD]"
  using assms by (simp add: run_simps check_ownership_def hit_index_def ana_def)

lemma pause_final:
  "final_operations hit_flat_fields (visible resolved_hit) (Some (u_uname ana)) (hit_token (mem_collection p) resolved_stored)
     [status_op ON_HOLD] = Inr pause_ops"
proof -
  have "dget hit_keys ''howler.status'' = Some False"
    by (subst hit_keys_dget_howler) (simp_all add: howler_keys_def howler_flat_keys py_startswith_def)
  moreover have "doc_get (visible resolved_hit) ''howler.status'' = PStr (status_value RESOLVED)"
    by (simp add: doc_get_def visible_def BANNED_FIELDS_def resolved_hit_def)
  moreover have "hit_token (mem_collection p) resolved_stored = hit_token (mem_collection (\<lambda>s d. Some d)) resolved_stored"
    by (simp add: hit_token_def token_def mem_collection_def)
  ultimately show ?thesis
    using op_context_hit [of "status_op ON_HOLD" False "visible resolved_hit"]
    by (auto simp: final_operations_Cons pause_ops_def Let_def ana_def)
qed

theorem claimed_hit_decides_witness:
  "\<exists>r n' a' m d'. transition_route (sample_hit_env pause_script) pause_request ''h1'' ana (0, resolved_app) = (r, n', a') \<and>
     app_store a' = (app_store resolved_app)(''h1'' \<mapsto> written resolved_stored m d') \<and>
     resolved_hit ''howler.status'' = Some (PStr ''resolved'') \<and> d' ''howler.status'' = Some (PStr ''on-hold'')"
proof -
  obtain d' where d: "apply_ops resolved_hit (map op_triple pause_ops) = Some d'" "d' ''howler.status'' = Some (PStr ''on-hold'')"
    using pause_applies by blast
  obtain cl where cl: "claimed_hit pause_data = Some cl" "status_of cl = Some IN_PROGRESS" "cl ''howler.id'' = Some (PStr ''h1'')"
    "cl ''howler.assignment'' = Some (PStr ''ana'')" using pause_claim(2) by blast
  obtain r n' a' where run: "transition_route (sample_hit_env pause_script) pause_request ''h1'' ana (0, resolved_app) = (r, n', a')"
    by (metis surj_pair)
  have src: "eh_source resolved_stored = resolved_hit" by (simp add: resolved_stored_def)
  have "\<exists>m. eh_seq_no resolved_stored < m \<and> app_store a' = (app_store resolved_app)(''h1'' \<mapsto> written resolved_stored m d')"
    by (rule claimed_hit_decides [where look = "\<lambda>w. w" and painless = pause_script and s = IN_PROGRESS and t = PAUSE
          and d = "visible resolved_hit" and td = "[(''transition'', PStr ''pause''), (''data'', PDict pause_data)]"
          and us = "[status_op ON_HOLD]" and ops = pause_ops and ops' = "map op_triple pause_ops" and h = resolved_stored,
          OF _ _ _ _ _ _ _ _ _ _ _ pause_claim(1) cl(1-3) pause_run [where cl = cl, OF cl(4)] _ _ _ _ run])
       (simp_all add: mem_prompt_update mem_prompt_get mem_quiet mem_normalize src resolved_app_def pause_request_def
          pause_final [unfolded status_value.simps] mem_valid d(1) runs_script_def)
  moreover have "resolved_hit ''howler.status'' = Some (PStr ''resolved'')" by (simp add: resolved_hit_def)
  ultimately show ?thesis using run d(2) by blast
qed

end
