(* ===== verification/Spec2Isabelle.thy ===== *)
theory Spec2Isabelle
  imports HitTransition ClassText CorrelationStore ActionFacts OdmTypes OtherSchemas HitApiExamples Analytics
begin

text \<open>
  A verification development for Howler, the alert-triage platform of the Canadian Centre for Cyber
  Security: the Python API under \<^verbatim>\<open>src/api/howler\<close>.

  Alerts are stored as hits in Elasticsearch. A hit moves through a triage workflow; hits, events and other
  cases are collected in cases, whose items form a tree; every record carries a classification that decides
  who may see it. Records are declared with an object-document mapper and read and written through
  collections, which protect updates with version tokens.

  Shared vocabulary: \<^verbatim>\<open>Prelude\<close> (exceptions as values, the \<^verbatim>\<open>io\<close> type of code that changes the world,
  Python values and dictionaries), \<^verbatim>\<open>PyStrings\<close> (string methods), \<^verbatim>\<open>Regex\<close> (the patterns of
  \<^verbatim>\<open>odm/base.py\<close> and a matcher proved against their words), \<^verbatim>\<open>RegexRuns\<close> (the runs of a
  pattern in the order Python tries them, for the groups of \<^verbatim>\<open>FULL_URI\<close>), \<^verbatim>\<open>Net\<close> (\<^verbatim>\<open>common/net.py\<close> and the list of
  top-level domains), \<^verbatim>\<open>Json\<close> (\<^verbatim>\<open>json.dumps\<close>).

  The mapper, \<^verbatim>\<open>odm/base.py\<close> and \<^verbatim>\<open>odm/howler_enum.py\<close>: \<^verbatim>\<open>Enums\<close>, \<^verbatim>\<open>Odm\<close> (field declarations and flat
  fields), \<^verbatim>\<open>OdmCheck\<close> (the \<^verbatim>\<open>check\<close> of every field, \<^verbatim>\<open>Model.__init__\<close>, \<^verbatim>\<open>as_primitives\<close>), \<^verbatim>\<open>OdmRoundtrip\<close>
  (a stored object is built again as it was), \<^verbatim>\<open>OdmTypes\<close> (what is built has the declared types), \<^verbatim>\<open>DictUtils\<close> (\<^verbatim>\<open>utils/dict_utils.py\<close>).

  Hits: \<^verbatim>\<open>HowlerData\<close> (the schema), \<^verbatim>\<open>Operations\<close> (\<^verbatim>\<open>datastore/operations.py\<close> and the update scripts),
  \<^verbatim>\<open>Workflow\<close> (\<^verbatim>\<open>helper/workflow.py\<close>), \<^verbatim>\<open>HitActions\<close> (\<^verbatim>\<open>helper/hit.py\<close>), \<^verbatim>\<open>HitTable\<close> (the transition table,
  proved to be an abstract machine), \<^verbatim>\<open>HitWorkflow\<close>, \<^verbatim>\<open>HitVotes\<close> (invariants of a hit under transitions),
  \<^verbatim>\<open>HitLog\<close>, \<^verbatim>\<open>HitService\<close>, \<^verbatim>\<open>HitTransition\<close> (\<^verbatim>\<open>services/hit_service.py\<close> over a collection), with instances
  in \<^verbatim>\<open>HitExamples\<close>. \<^verbatim>\<open>HitIntake\<close> is how hits come in (\<^verbatim>\<open>convert_hit\<close>, \<^verbatim>\<open>create_hits\<close>, \<^verbatim>\<open>overwrite_hits\<close>),
  \<^verbatim>\<open>HitIntakeFacts\<close> shows that an accepted hit is consistent and that a batch is created as a whole or not at all,
  and \<^verbatim>\<open>HitIntakeExamples\<close> runs both. \<^verbatim>\<open>Dossiers\<close>
  (\<^verbatim>\<open>services/dossier_service.py\<close>: who may change a dossier, which dossiers match), \<^verbatim>\<open>HitMetadata\<close> (\<^verbatim>\<open>augment_metadata\<close>: a hit
  gets the best template and overview that fit), \<^verbatim>\<open>Analytics\<close> (\<^verbatim>\<open>services/analytic_service.py\<close>: what an analytic learns from new
  hits) and \<^verbatim>\<open>MetadataExamples\<close> model what surrounds a hit. \<^verbatim>\<open>HitApi\<close> has
  the routes of \<^verbatim>\<open>api/v1/hit.py\<close> with their answers, \<^verbatim>\<open>HitApiFacts\<close> shows what a request may change (a refused batch and the
  comment of somebody else stay as they are; a transition that carries a hit of its own is decided by that hit, whatever
  is stored), and \<^verbatim>\<open>HitApiExamples\<close> runs them on documents in memory. \<^verbatim>\<open>EcsSchema\<close>, \<^verbatim>\<open>RecordSchema\<close> and \<^verbatim>\<open>OtherSchemas\<close> hold the declarations under
  \<^verbatim>\<open>odm/models\<close>, each class as the list of its fields.

  Bulk requests: \<^verbatim>\<open>Bulk\<close> (\<^verbatim>\<open>datastore/bulk.py\<close>, \<^verbatim>\<open>datastore/utils.py\<close>: a payload has one line per queued
  text, batches cover the plan, narrowing keeps what is asked for).

  The datastore: \<^verbatim>\<open>Datastore\<close> (\<^verbatim>\<open>datastore/collection.py\<close>: retries, tokens, reads, versioned writes) and
  \<^verbatim>\<open>Concurrency\<close> (no lost writes, refinement of compare-and-set). The Elasticsearch client is a parameter;
  its documented behaviour is a hypothesis that an in-memory client satisfies. \<^verbatim>\<open>Search\<close> models the
  searches, counts and aggregations (what is sent, and how the answer is read), \<^verbatim>\<open>ByQuery\<close> the updates and
  deletions by query, which repeat a task until it reports no conflicts, and scans. \<^verbatim>\<open>Lucene\<close> evaluates a parsed query on one hit (\<^verbatim>\<open>services/lucene_service.py\<close>,
  \<^verbatim>\<open>utils/lucene.py\<close>): the visitor computes the boolean meaning of the query.

  Automation: \<^verbatim>\<open>Actions\<close> (\<^verbatim>\<open>actions/__init__.py\<close>: permissions, limits, reports; and the operations on hits
  that matched a query), \<^verbatim>\<open>ActionQueue\<close> (\<^verbatim>\<open>services/action_service.py\<close>: triggers, the queue and the
  validation of an action) and \<^verbatim>\<open>ActionFacts\<close> (what the guards refuse, what a report says).

  Cases: \<^verbatim>\<open>CaseModel\<close> (\<^verbatim>\<open>odm/models/case.py\<close>), \<^verbatim>\<open>CaseTree\<close> and \<^verbatim>\<open>CaseEdits\<close> (the edits of the tree of items;
  the locale \<^verbatim>\<open>case_operation\<close> is their contract), \<^verbatim>\<open>CaseService\<close> (\<^verbatim>\<open>services/case_service.py\<close> as a whole),
  \<^verbatim>\<open>CaseStore\<close> (the locale \<^verbatim>\<open>case_repository\<close> states what the service needs of the collections; under it
  every request leaves well-formed trees in the store, and collections over memory interpret it).

  Correlation: \<^verbatim>\<open>Correlation\<close> (\<^verbatim>\<open>services/correlation_service.py\<close>: rules, batches, the worker),
  \<^verbatim>\<open>Hoare\<close> (triples for code that raises) and \<^verbatim>\<open>CorrelationStore\<close> (the locale \<^verbatim>\<open>correlation_store\<close>: correlation
  keeps every stored tree well formed).

  Classifications: \<^verbatim>\<open>Classification\<close> (\<^verbatim>\<open>common/classification.py\<close>: the engine, its constructor and caches),
  \<^verbatim>\<open>ClassAccess\<close> (merges bound access; what an engine that does not enforce does) and \<^verbatim>\<open>ClassText\<close> (a normal form
  is read back, so the texts of merges bound access too).

  Bounds. Loops are structural or end by a measure. The recursion of Python's stack is a bound where the
  code recurses over data a request shapes: \<^verbatim>\<open>collect_descendants\<close> takes the depth of the stack, and as many
  levels as there are items are enough on a well-formed tree; \<^verbatim>\<open>flat_to_nested\<close> takes the number of
  characters of the keys, which bounds its nesting.

  Not modelled: the other REST routes and the deprecated routes on bundles, authentication, sockets and cron jobs, which call services and libraries;
  the management of indices, EQL and multiget, which are requests to Elasticsearch; the automation operations on
  cases and bundles and the specifications of operations for the user interface; Redis datatypes, whose
  commands and scripts run in the server; plugins, clients
  and build tools.
\<close>

end
